(* ===== verification/VtPrelude.thy ===== *)
theory VtPrelude
  imports Complex_Main
begin

text \<open>
  Shared ground of the development: computations over an explicit state that may throw, the
  weakest-precondition calculus the component proofs run on, JavaScript truthiness, and the
  contract of a machine whose commands keep an invariant.

  An \<open>async\<close> method of the source is a computation \<open>'s \<Rightarrow> ('e + 'a) \<times> 's\<close>: it returns a value or
  throws an error, and in both cases leaves a state behind, because a JavaScript exception does not
  undo what was already written.
\<close>

named_theorems wp \<open>how \<open>post\<close> passes through each operation\<close>

section \<open>Computations that throw\<close>

type_synonym ('s, 'e, 'a) comp = "'s \<Rightarrow> ('e + 'a) \<times> 's"

definition ret :: "'a \<Rightarrow> ('s, 'e, 'a) comp" where
  "ret x = (\<lambda>s. (Inr x, s))"

definition throw :: "'e \<Rightarrow> ('s, 'e, 'a) comp" where
  "throw e = (\<lambda>s. (Inl e, s))"

definition bnd :: "('s, 'e, 'a) comp \<Rightarrow> ('a \<Rightarrow> ('s, 'e, 'b) comp) \<Rightarrow> ('s, 'e, 'b) comp" where
  "bnd m f = (\<lambda>s. case m s of (Inl e, t) \<Rightarrow> (Inl e, t) | (Inr x, t) \<Rightarrow> f x t)"

definition sqn :: "('s, 'e, 'a) comp \<Rightarrow> ('s, 'e, 'b) comp \<Rightarrow> ('s, 'e, 'b) comp" where
  "sqn m k = bnd m (\<lambda>_. k)"

definition catch :: "('s, 'e, 'a) comp \<Rightarrow> ('e \<Rightarrow> ('s, 'e, 'a) comp) \<Rightarrow> ('s, 'e, 'a) comp" where
  "catch m h = (\<lambda>s. case m s of (Inl e, t) \<Rightarrow> h e t | (Inr x, t) \<Rightarrow> (Inr x, t))"

definition guard :: "bool \<Rightarrow> 'e \<Rightarrow> ('s, 'e, unit) comp" where
  "guard b e = (if b then ret () else throw e)"

definition whenM :: "bool \<Rightarrow> ('s, 'e, unit) comp \<Rightarrow> ('s, 'e, unit) comp" where
  "whenM b m = (if b then m else ret ())"

definition gets :: "('s \<Rightarrow> 'a) \<Rightarrow> ('s, 'e, 'a) comp" where
  "gets f = (\<lambda>s. (Inr (f s), s))"

definition modify :: "('s \<Rightarrow> 's) \<Rightarrow> ('s, 'e, unit) comp" where
  "modify f = (\<lambda>s. (Inr (), f s))"

definition raise :: "('s \<Rightarrow> 'e + 'a) \<Rightarrow> ('s, 'e, 'a) comp" where
  "raise f = (\<lambda>s. (f s, s))"

text \<open>\<open>for (const x of xs) await body(x)\<close>: stops at the first throw.\<close>

fun forM :: "'b list \<Rightarrow> ('b \<Rightarrow> ('s, 'e, unit) comp) \<Rightarrow> ('s, 'e, unit) comp" where
  "forM [] f = ret ()"
| "forM (x # xs) f = sqn (f x) (forM xs f)"

lemmas comp_defs = ret_def throw_def bnd_def sqn_def catch_def guard_def whenM_def gets_def
  modify_def raise_def

lemma bnd_ret: "bnd (ret x) f = f x"
  by (simp add: bnd_def ret_def)

lemma sqn_guard: "sqn (guard b e) k = (if b then k else throw e)"
  by (simp add: sqn_def guard_def bnd_def ret_def throw_def)

lemma bnd_assoc: "bnd (bnd m f) g = bnd m (\<lambda>x. bnd (f x) g)"
  by (rule ext) (simp add: bnd_def split: prod.splits sum.splits)

section \<open>Weakest preconditions\<close>

text \<open>
  \<open>post m Q E s\<close>: run \<open>m\<close> from \<open>s\<close>; a returned value and its state satisfy \<open>Q\<close>, a thrown error and
  its state satisfy \<open>E\<close>. Computations of the model always end, so this is total correctness.
\<close>

definition post ::
  "('s, 'e, 'a) comp \<Rightarrow> ('a \<Rightarrow> 's \<Rightarrow> bool) \<Rightarrow> ('e \<Rightarrow> 's \<Rightarrow> bool) \<Rightarrow> 's \<Rightarrow> bool" where
  "post m Q E s = (case m s of (Inl e, t) \<Rightarrow> E e t | (Inr x, t) \<Rightarrow> Q x t)"

lemma post_ret [wp]: "post (ret x) Q E s = Q x s"
  by (simp add: post_def ret_def)

lemma post_throw [wp]: "post (throw e) Q E s = E e s"
  by (simp add: post_def throw_def)

lemma post_bnd [wp]: "post (bnd m f) Q E s = post m (\<lambda>x. post (f x) Q E) E s"
  by (simp add: post_def bnd_def split: prod.splits sum.splits)

lemma post_sqn [wp]: "post (sqn m k) Q E s = post m (\<lambda>_. post k Q E) E s"
  by (simp add: sqn_def post_bnd)

lemma post_catch [wp]: "post (catch m h) Q E s = post m Q (\<lambda>e. post (h e) Q E) s"
  by (simp add: post_def catch_def split: prod.splits sum.splits)

lemma post_guard [wp]: "post (guard b e) Q E s = (if b then Q () s else E e s)"
  by (simp add: guard_def wp)

lemma post_whenM [wp]: "post (whenM b m) Q E s = (if b then post m Q E s else Q () s)"
  by (simp add: whenM_def wp)

lemma post_gets [wp]: "post (gets f) Q E s = Q (f s) s"
  by (simp add: post_def gets_def)

lemma post_modify [wp]: "post (modify f) Q E s = Q () (f s)"
  by (simp add: post_def modify_def)

lemma post_raise [wp]:
  "post (raise f) Q E s = (case f s of Inl e \<Rightarrow> E e s | Inr x \<Rightarrow> Q x s)"
  by (simp add: post_def raise_def split: sum.splits)

lemma post_if [wp]:
  "post (if b then m else n) Q E s = (if b then post m Q E s else post n Q E s)"
  by simp

lemma post_let [wp]: "post (Let a f) Q E s = post (f a) Q E s"
  by simp

lemma post_case_option [wp]:
  "post (case x of None \<Rightarrow> m | Some y \<Rightarrow> f y) Q E s =
     (case x of None \<Rightarrow> post m Q E s | Some y \<Rightarrow> post (f y) Q E s)"
  by (cases x) simp_all

lemma post_case_prod [wp]:
  "post (case p of (a, b) \<Rightarrow> f a b) Q E s = (case p of (a, b) \<Rightarrow> post (f a b) Q E s)"
  by (cases p) simp

lemma post_mono:
  assumes "post m Q E s"
    and "\<And>x t. Q x t \<Longrightarrow> Q' x t" and "\<And>e t. E e t \<Longrightarrow> E' e t"
  shows "post m Q' E' s"
  using assms by (auto simp: post_def split: prod.splits sum.splits)

lemma post_conj:
  "post m (\<lambda>x t. P x t \<and> Q x t) (\<lambda>e t. E e t \<and> F e t) s \<longleftrightarrow> post m P E s \<and> post m Q F s"
  by (auto simp: post_def split: prod.splits sum.splits)

lemma post_triv [simp]: "post m (\<lambda>_ _. True) (\<lambda>_ _. True) s"
  by (simp add: post_def split: prod.splits sum.splits)

lemma post_returns: "m s = (Inr x, t) \<Longrightarrow> post m Q E s = Q x t"
  by (simp add: post_def)

lemma post_throws: "m s = (Inl e, t) \<Longrightarrow> post m Q E s = E e t"
  by (simp add: post_def)

lemma postI:
  assumes "\<And>x t. m s = (Inr x, t) \<Longrightarrow> Q x t" and "\<And>e t. m s = (Inl e, t) \<Longrightarrow> E e t"
  shows "post m Q E s"
  using assms by (auto simp: post_def split: prod.splits sum.splits)

text \<open>A predicate on states that a computation keeps, whether it returns or throws.\<close>

definition keeps :: "('s \<Rightarrow> bool) \<Rightarrow> ('s, 'e, 'a) comp \<Rightarrow> bool" where
  "keeps I m \<longleftrightarrow> (\<forall>s. I s \<longrightarrow> post m (\<lambda>_. I) (\<lambda>_. I) s)"

lemma keepsD: "keeps I m \<Longrightarrow> I s \<Longrightarrow> I (snd (m s))"
  by (cases "m s") (auto simp: keeps_def post_def split: sum.splits)

lemma keepsI: "(\<And>s. I s \<Longrightarrow> I (snd (m s))) \<Longrightarrow> keeps I m"
  unfolding keeps_def post_def by (metis (no_types, lifting) prod.case_eq_if sum.case_eq_if)

lemma keeps_iff: "keeps I m \<longleftrightarrow> (\<forall>s. I s \<longrightarrow> I (snd (m s)))"
  by (meson keepsD keepsI)

lemma forM_keeps: "(\<And>x. x \<in> set xs \<Longrightarrow> keeps I (f x)) \<Longrightarrow> keeps I (forM xs f)"
proof (induction xs)
  case Nil
  then show ?case by (simp add: keeps_def wp)
next
  case (Cons x xs)
  then have "keeps I (f x)" and "keeps I (forM xs f)" by auto
  then show ?case
    by (auto simp: keeps_def wp elim!: post_mono)
qed

text \<open>How \<open>keeps\<close> passes through each operation.\<close>

named_theorems keeps_rules

lemma keeps_ret [keeps_rules]: "keeps I (ret x)"
  and keeps_throw [keeps_rules]: "keeps I (throw e)"
  and keeps_gets [keeps_rules]: "keeps I (gets f)"
  and keeps_raise [keeps_rules]: "keeps I (raise g)"
  and keeps_guard [keeps_rules]: "keeps I (guard b e)"
  by (simp_all add: keeps_iff comp_defs)

lemma keeps_modify [keeps_rules]: "(\<And>s. I s \<Longrightarrow> I (f s)) \<Longrightarrow> keeps I (modify f)"
  by (simp add: keeps_iff modify_def)

lemma keeps_bnd [keeps_rules]: "keeps I m \<Longrightarrow> (\<And>x. keeps I (f x)) \<Longrightarrow> keeps I (bnd m f)"
  by (auto simp: keeps_def wp elim!: post_mono)

lemma keeps_sqn [keeps_rules]: "keeps I m \<Longrightarrow> keeps I k \<Longrightarrow> keeps I (sqn m k)"
  by (simp add: sqn_def keeps_bnd)

lemma keeps_catch [keeps_rules]: "keeps I m \<Longrightarrow> (\<And>e. keeps I (h e)) \<Longrightarrow> keeps I (catch m h)"
  by (auto simp: keeps_def wp elim!: post_mono)

lemma keeps_whenM [keeps_rules]: "keeps I m \<Longrightarrow> keeps I (whenM b m)"
  by (simp add: whenM_def keeps_ret)

lemma keeps_if [keeps_rules]: "(b \<Longrightarrow> keeps I m) \<Longrightarrow> (\<not> b \<Longrightarrow> keeps I n) \<Longrightarrow> keeps I (if b then m else n)"
  by simp

lemma keeps_option [keeps_rules]:
  "(x = None \<Longrightarrow> keeps I m) \<Longrightarrow> (\<And>y. x = Some y \<Longrightarrow> keeps I (f y)) \<Longrightarrow>
     keeps I (case x of None \<Rightarrow> m | Some y \<Rightarrow> f y)"
  by (cases x) simp_all

lemma keeps_list [keeps_rules]:
  "(xs = [] \<Longrightarrow> keeps I m) \<Longrightarrow> (\<And>y ys. xs = y # ys \<Longrightarrow> keeps I (f y ys)) \<Longrightarrow>
     keeps I (case xs of [] \<Rightarrow> m | y # ys \<Rightarrow> f y ys)"
  by (cases xs) simp_all

lemma keeps_prod [keeps_rules]:
  "(\<And>a b. p = (a, b) \<Longrightarrow> keeps I (f a b)) \<Longrightarrow> keeps I (case p of (a, b) \<Rightarrow> f a b)"
  by (cases p) simp

lemmas keeps_forM [keeps_rules] = forM_keeps

section \<open>JavaScript values\<close>

text \<open>An optional string is falsy when it is undefined and when it is empty.\<close>

fun truthy :: "string option \<Rightarrow> bool" where
  "truthy None = False"
| "truthy (Some s) = (s \<noteq> [])"

text \<open>\<open>a ?? b\<close>.\<close>

fun orElse :: "'a option \<Rightarrow> 'a option \<Rightarrow> 'a option" where
  "orElse None b = b"
| "orElse (Some x) b = Some x"

fun withDefault :: "'a option \<Rightarrow> 'a \<Rightarrow> 'a" where
  "withDefault None d = d"
| "withDefault (Some x) d = x"

lemma orElse_None [simp]: "orElse a None = a"
  by (cases a) auto

text \<open>Template literals quote interpolated values with single quotes; lists are joined with a separator.\<close>

definition quoted :: "string \<Rightarrow> string" where
  "quoted s = CHR 0x27 # s @ [CHR 0x27]"

fun join_with :: "string \<Rightarrow> string list \<Rightarrow> string" where
  "join_with sep [] = []"
| "join_with sep [x] = x"
| "join_with sep (x # y # ys) = x @ sep @ join_with sep (y # ys)"

lemma distinct_singleton: "distinct xs \<Longrightarrow> set xs = {x} \<Longrightarrow> xs = [x]"
  by (cases xs; cases "tl xs") auto

text \<open>Decimal digits, and \<open>Date.toISOString\<close> of a time in milliseconds (years 0 to 9999).\<close>

fun digits :: "nat \<Rightarrow> nat \<Rightarrow> string" where
  "digits 0 n = []"
| "digits (Suc k) n = digits k (n div 10) @ [char_of (48 + n mod 10)]"

definition toISOString :: "int \<Rightarrow> string" where
  "toISOString ms =
     (let days = ms div 86400000; tod = nat (ms mod 86400000);
          z = days + 719468; era = z div 146097; doe = z mod 146097;
          yoe = (doe - doe div 1460 + doe div 36524 - doe div 146096) div 365;
          doy = doe - (365 * yoe + yoe div 4 - yoe div 100);
          mp = (5 * doy + 2) div 153;
          d = doy - (153 * mp + 2) div 5 + 1;
          m = (if mp < 10 then mp + 3 else mp - 9);
          y = yoe + era * 400 + (if m \<le> 2 then 1 else 0)
      in digits 4 (nat y) @ ''-'' @ digits 2 (nat m) @ ''-'' @ digits 2 (nat d) @ ''T'' @
         digits 2 (tod div 3600000) @ '':'' @ digits 2 (tod div 60000 mod 60) @ '':'' @
         digits 2 (tod div 1000 mod 60) @ ''.'' @ digits 3 (tod mod 1000) @ ''Z'')"

text \<open>\<open>toLowerCase\<close> and \<open>toUpperCase\<close> on ASCII letters.\<close>

definition lower_char :: "char \<Rightarrow> char" where
  "lower_char c =
     (if 65 \<le> (of_char c :: nat) \<and> (of_char c :: nat) \<le> 90 then char_of ((of_char c :: nat) + 32) else c)"

definition upper_char :: "char \<Rightarrow> char" where
  "upper_char c =
     (if 97 \<le> (of_char c :: nat) \<and> (of_char c :: nat) \<le> 122 then char_of ((of_char c :: nat) - 32) else c)"

text \<open>JSON values; claims and attachments are carried around as such.\<close>

datatype json =
  JNull | JBool bool | JNum rat | JStr string | JArr "json list" | JObj "(string \<times> json) list"

section \<open>Machines whose commands keep an invariant\<close>

text \<open>
  The contract between a component (its commands, its invariant) and whoever runs sequences of its
  commands: a command that is allowed keeps the invariant.
\<close>

locale command_machine =
  fixes step :: "'c \<Rightarrow> 's \<Rightarrow> 's"
    and inv :: "'s \<Rightarrow> bool"
    and allowed :: "'c \<Rightarrow> bool"
  assumes step_inv: "inv s \<Longrightarrow> allowed c \<Longrightarrow> inv (step c s)"
begin

lemma run_inv: "inv s \<Longrightarrow> list_all allowed cs \<Longrightarrow> inv (fold step cs s)"
  by (induction cs arbitrary: s) (auto intro: step_inv)

lemma run_prefix_inv:
  "inv s \<Longrightarrow> list_all allowed (cs @ ds) \<Longrightarrow> inv (fold step cs s)"
  by (simp add: run_inv)

end

end
