(* ===== verification/FlowTypes.thy ===== *)
theory FlowTypes
  imports VtPrelude
begin

text \<open>
  The vocabulary of the vt-flow package: \<open>types.ts\<close>, \<open>repository/VtFlowRecord.ts\<close> and the
  \<open>DidCommConnectionRecord\<close> and \<open>DidCommCredentialExchangeRecord\<close> fields it reads. Enums are
  datatypes with the source's constructors, interfaces and classes are records, an optional property
  is an option. Instances of \<open>linorder\<close> put the flow states in the order the source lists them.
\<close>

section \<open>Enums of \<open>types.ts\<close>\<close>

datatype vt_flow_role = Applicant | Validator

datatype vt_flow_variant = OnboardingProcess | DirectIssuance

datatype vt_flow_state =
    AwaitingOp | OrSent | AwaitingOr | IrSent | AwaitingIr | OobPending | Validating
  | AwaitingValidationTx | ValidationTxSubmitted | ValidationTxFailed | Validated
  | ValidatedPendingClaims | CredOffered | Completed | CredRevoked | TerminatedByValidator
  | TerminatedByApplicant | Error | ParticipantRevoked | ParticipantSlashed

datatype vt_flow_pending_action =
  PA_Applicant | PA_Validator | PA_Agent | PA_Chain | PA_None

datatype vt_flow_submission = Submission_Agent | Submission_Operator

datatype vt_flow_tx_reason =
    InsufficientFundsAgent | InsufficientFundsCorporation | FeegrantExhausted | FeegrantExpired
  | AuthorizationExpired | PreflightError | BroadcastError | TxFailed | TxNotFound

datatype vt_flow_tx_status = TxStatus_Submitted | TxStatus_Succeeded | TxStatus_Failed

datatype vt_flow_message_type = MT_OobLink | MT_Validating | MT_ProblemReport

text \<open>The string values of the enums, which is what the record stores and what error messages show.\<close>

fun role_str :: "vt_flow_role \<Rightarrow> string" where
  "role_str Applicant = ''applicant''"
| "role_str Validator = ''validator''"

fun variant_str :: "vt_flow_variant \<Rightarrow> string" where
  "variant_str OnboardingProcess = ''onboarding-process''"
| "variant_str DirectIssuance = ''direct-issuance''"

fun state_str :: "vt_flow_state \<Rightarrow> string" where
  "state_str AwaitingOp = ''AWAITING_OP''"
| "state_str OrSent = ''OR_SENT''"
| "state_str AwaitingOr = ''AWAITING_OR''"
| "state_str IrSent = ''IR_SENT''"
| "state_str AwaitingIr = ''AWAITING_IR''"
| "state_str OobPending = ''OOB_PENDING''"
| "state_str Validating = ''VALIDATING''"
| "state_str AwaitingValidationTx = ''AWAITING_VALIDATION_TX''"
| "state_str ValidationTxSubmitted = ''VALIDATION_TX_SUBMITTED''"
| "state_str ValidationTxFailed = ''VALIDATION_TX_FAILED''"
| "state_str Validated = ''VALIDATED''"
| "state_str ValidatedPendingClaims = ''VALIDATED_PENDING_CLAIMS''"
| "state_str CredOffered = ''CRED_OFFERED''"
| "state_str Completed = ''COMPLETED''"
| "state_str CredRevoked = ''CRED_REVOKED''"
| "state_str TerminatedByValidator = ''TERMINATED_BY_VALIDATOR''"
| "state_str TerminatedByApplicant = ''TERMINATED_BY_APPLICANT''"
| "state_str Error = ''ERROR''"
| "state_str ParticipantRevoked = ''PARTICIPANT_REVOKED''"
| "state_str ParticipantSlashed = ''PARTICIPANT_SLASHED''"

definition all_states :: "vt_flow_state list" where
  "all_states =
     [AwaitingOp, OrSent, AwaitingOr, IrSent, AwaitingIr, OobPending, Validating,
      AwaitingValidationTx, ValidationTxSubmitted, ValidationTxFailed, Validated,
      ValidatedPendingClaims, CredOffered, Completed, CredRevoked, TerminatedByValidator,
      TerminatedByApplicant, Error, ParticipantRevoked, ParticipantSlashed]"

lemma all_states_complete: "s \<in> set all_states"
  by (cases s) (simp_all add: all_states_def)

lemma distinct_state_str: "distinct (map state_str all_states)"
  by (simp add: all_states_def)

lemma state_str_inject [simp]: "state_str s = state_str t \<longleftrightarrow> s = t"
  using distinct_state_str all_states_complete
  by (auto simp: distinct_map dest: inj_onD)

section \<open>The order of the flow states\<close>

text \<open>The position of a state in the enum; the library's order and size follow from it.\<close>

fun state_index :: "vt_flow_state \<Rightarrow> nat" where
  "state_index AwaitingOp = 0"
| "state_index OrSent = 1"
| "state_index AwaitingOr = 2"
| "state_index IrSent = 3"
| "state_index AwaitingIr = 4"
| "state_index OobPending = 5"
| "state_index Validating = 6"
| "state_index AwaitingValidationTx = 7"
| "state_index ValidationTxSubmitted = 8"
| "state_index ValidationTxFailed = 9"
| "state_index Validated = 10"
| "state_index ValidatedPendingClaims = 11"
| "state_index CredOffered = 12"
| "state_index Completed = 13"
| "state_index CredRevoked = 14"
| "state_index TerminatedByValidator = 15"
| "state_index TerminatedByApplicant = 16"
| "state_index Error = 17"
| "state_index ParticipantRevoked = 18"
| "state_index ParticipantSlashed = 19"

lemma all_states_nth: "all_states ! state_index s = s"
  by (cases s) (simp_all add: all_states_def)

lemma state_index_inject: "state_index s = state_index t \<Longrightarrow> s = t"
  by (metis all_states_nth)

instantiation vt_flow_state :: linorder
begin

definition less_eq_vt_flow_state :: "vt_flow_state \<Rightarrow> vt_flow_state \<Rightarrow> bool" where
  "less_eq_vt_flow_state s t \<longleftrightarrow> state_index s \<le> state_index t"

definition less_vt_flow_state :: "vt_flow_state \<Rightarrow> vt_flow_state \<Rightarrow> bool" where
  "less_vt_flow_state s t \<longleftrightarrow> state_index s < state_index t"

instance
  by standard (auto simp: less_eq_vt_flow_state_def less_vt_flow_state_def state_index_inject)

end

section \<open>Sets of states\<close>

definition VtFlowTerminalStates :: "vt_flow_state list" where
  "VtFlowTerminalStates =
     [TerminatedByValidator, TerminatedByApplicant, Error, ParticipantRevoked, ParticipantSlashed]"

definition VtFlowValidatedFromStates :: "vt_flow_state list" where
  "VtFlowValidatedFromStates =
     [AwaitingOr, Validating, OobPending, AwaitingValidationTx, ValidationTxSubmitted,
      ValidationTxFailed]"

definition isVtFlowTerminalState :: "vt_flow_state \<Rightarrow> bool" where
  "isVtFlowTerminalState s \<longleftrightarrow> s \<in> set VtFlowTerminalStates"

lemma isVtFlowTerminalState_iff:
  "isVtFlowTerminalState s \<longleftrightarrow>
     s = TerminatedByValidator \<or> s = TerminatedByApplicant \<or> s = Error \<or>
     s = ParticipantRevoked \<or> s = ParticipantSlashed"
  by (auto simp: isVtFlowTerminalState_def VtFlowTerminalStates_def)

lemma isVtFlowTerminalState_simps [simp]:
  "isVtFlowTerminalState TerminatedByValidator" "isVtFlowTerminalState TerminatedByApplicant"
  "isVtFlowTerminalState Error" "isVtFlowTerminalState ParticipantRevoked"
  "isVtFlowTerminalState ParticipantSlashed"
  "\<not> isVtFlowTerminalState AwaitingOp" "\<not> isVtFlowTerminalState OrSent"
  "\<not> isVtFlowTerminalState AwaitingOr" "\<not> isVtFlowTerminalState IrSent"
  "\<not> isVtFlowTerminalState AwaitingIr" "\<not> isVtFlowTerminalState OobPending"
  "\<not> isVtFlowTerminalState Validating" "\<not> isVtFlowTerminalState AwaitingValidationTx"
  "\<not> isVtFlowTerminalState ValidationTxSubmitted" "\<not> isVtFlowTerminalState ValidationTxFailed"
  "\<not> isVtFlowTerminalState Validated" "\<not> isVtFlowTerminalState ValidatedPendingClaims"
  "\<not> isVtFlowTerminalState CredOffered" "\<not> isVtFlowTerminalState Completed"
  "\<not> isVtFlowTerminalState CredRevoked"
  by (simp_all add: isVtFlowTerminalState_iff)

lemma VtFlowValidatedFromStates_mem [simp]:
  "s \<in> set VtFlowValidatedFromStates \<longleftrightarrow>
     s = AwaitingOr \<or> s = Validating \<or> s = OobPending \<or> s = AwaitingValidationTx \<or>
     s = ValidationTxSubmitted \<or> s = ValidationTxFailed"
  by (auto simp: VtFlowValidatedFromStates_def)

section \<open>The parts of a record\<close>

record vt_flow_tx =
  tx_hash :: "string option"
  tx_submittedAt :: "string option"
  tx_height :: "int option"
  tx_status :: vt_flow_tx_status
  tx_reason :: "vt_flow_tx_reason option"
  tx_error :: "string option"

record vt_flow_validation =
  decidedAt :: string
  submission :: vt_flow_submission
  validationFees :: "rat option"
  issuanceFees :: "rat option"
  verificationFees :: "rat option"
  issuanceFeeDiscount :: "rat option"
  verificationFeeDiscount :: "rat option"
  effectiveUntil :: "string option"
  opSummaryDigest :: "string option"
  validation_tx :: "vt_flow_tx option"

record vt_flow_issuance =
  issuance_tx :: "vt_flow_tx option"

record vt_flow_message =
  vm_type :: vt_flow_message_type
  vm_text :: "string option"
  vm_at :: string
  vm_url :: "string option"

record vt_flow_oob_link =
  ol_url :: string
  ol_description :: string
  ol_expiresAt :: "string option"
  ol_at :: string

section \<open>\<open>VtFlowRecord\<close>\<close>

record vt_flow_record =
  rec_id :: string
  createdAt :: int
  threadId :: string
  participantSessionId :: string
  connectionId :: string
  role :: vt_flow_role
  state :: vt_flow_state
  variant :: vt_flow_variant
  agentParticipantId :: string
  walletAgentParticipantId :: string
  issuerParticipantId :: "int option"
  applicantParticipantId :: "string option"
  applicantParticipantRole :: "int option"
  validatorParticipantId :: "string option"
  schemaId :: "string option"
  claims :: "json option"
  credentialExchangeRecordId :: "string option"
  subprotocolThid :: "string option"
  ecsSchemaKey :: "string option"
  oobLink :: "vt_flow_oob_link option"
  messages :: "vt_flow_message list option"
  validation :: "vt_flow_validation option"
  issuance :: "vt_flow_issuance option"
  proofsAttach :: "json list option"
  credentialId :: "string option"
  credentialDigest :: "string option"
  errorMessage :: "string option"
  connectionTerminated :: "bool option"

text \<open>
  \<open>new VtFlowRecord(props)\<close>: the required properties as arguments, every optional one left out; a
  call site that gives an optional one updates the field. No call site gives \<open>tags\<close>; \<open>id\<close> and
  \<open>createdAt\<close> are the generated values.
\<close>

definition newVtFlowRecord ::
  "string \<Rightarrow> int \<Rightarrow> string \<Rightarrow> string \<Rightarrow> string \<Rightarrow> vt_flow_role \<Rightarrow> vt_flow_state \<Rightarrow> vt_flow_variant \<Rightarrow>
   string \<Rightarrow> string \<Rightarrow> vt_flow_record" where
  "newVtFlowRecord uid now thid psid conn rl st vr ag wal =
     \<lparr> rec_id = uid, createdAt = now, threadId = thid, participantSessionId = psid,
       connectionId = conn, role = rl, state = st, variant = vr, agentParticipantId = ag,
       walletAgentParticipantId = wal, issuerParticipantId = None, applicantParticipantId = None,
       applicantParticipantRole = None, validatorParticipantId = None, schemaId = None,
       claims = None, credentialExchangeRecordId = None, subprotocolThid = None,
       ecsSchemaKey = None, oobLink = None, messages = None, validation = None, issuance = None,
       proofsAttach = None, credentialId = None, credentialDigest = None, errorMessage = None,
       connectionTerminated = None \<rparr>"

lemma newVtFlowRecord_sel [simp]:
  "rec_id (newVtFlowRecord uid now thid psid conn rl st vr ag wal) = uid"
  "createdAt (newVtFlowRecord uid now thid psid conn rl st vr ag wal) = now"
  "threadId (newVtFlowRecord uid now thid psid conn rl st vr ag wal) = thid"
  "participantSessionId (newVtFlowRecord uid now thid psid conn rl st vr ag wal) = psid"
  "connectionId (newVtFlowRecord uid now thid psid conn rl st vr ag wal) = conn"
  "role (newVtFlowRecord uid now thid psid conn rl st vr ag wal) = rl"
  "state (newVtFlowRecord uid now thid psid conn rl st vr ag wal) = st"
  "variant (newVtFlowRecord uid now thid psid conn rl st vr ag wal) = vr"
  "schemaId (newVtFlowRecord uid now thid psid conn rl st vr ag wal) = None"
  "applicantParticipantId (newVtFlowRecord uid now thid psid conn rl st vr ag wal) = None"
  "oobLink (newVtFlowRecord uid now thid psid conn rl st vr ag wal) = None"
  "messages (newVtFlowRecord uid now thid psid conn rl st vr ag wal) = None"
  "validation (newVtFlowRecord uid now thid psid conn rl st vr ag wal) = None"
  "issuance (newVtFlowRecord uid now thid psid conn rl st vr ag wal) = None"
  "errorMessage (newVtFlowRecord uid now thid psid conn rl st vr ag wal) = None"
  by (simp_all add: newVtFlowRecord_def)

text \<open>\<open>getTags\<close>: what the wallet indexes; a query names some of these tags and a value for each.\<close>

definition getTags :: "vt_flow_record \<Rightarrow> (string \<times> string option) list" where
  "getTags r =
     [(''threadId'', Some (threadId r)),
      (''participantSessionId'', Some (participantSessionId r)),
      (''connectionId'', Some (connectionId r)),
      (''role'', Some (role_str (role r))),
      (''flowState'', Some (state_str (state r))),
      (''flowVariant'', Some (variant_str (variant r))),
      (''applicantParticipantId'', applicantParticipantId r),
      (''validatorParticipantId'', validatorParticipantId r),
      (''schemaId'', schemaId r),
      (''credentialExchangeRecordId'', credentialExchangeRecordId r),
      (''subprotocolThid'', subprotocolThid r)]"

type_synonym tag_query = "(string \<times> string) list"

definition tags_match :: "tag_query \<Rightarrow> vt_flow_record \<Rightarrow> bool" where
  "tags_match q r = list_all (\<lambda>(k, v). map_of (getTags r) k = Some (Some v)) q"

lemma tags_match_thread [simp]:
  "tags_match [(''threadId'', t)] r \<longleftrightarrow> threadId r = t"
  by (auto simp: tags_match_def getTags_def)

lemma role_str_inject [simp]: "role_str a = role_str b \<longleftrightarrow> a = b"
  by (cases a; cases b) simp_all

lemma tags_match_session [simp]:
  "tags_match [(''participantSessionId'', p), (''role'', role_str rl)] r \<longleftrightarrow>
     participantSessionId r = p \<and> role r = rl"
  by (auto simp: tags_match_def getTags_def)

lemma tags_match_session_literal [simp]:
  "tags_match [(''participantSessionId'', p), (''role'', ''applicant'')] r \<longleftrightarrow>
     participantSessionId r = p \<and> role r = Applicant"
  "tags_match [(''participantSessionId'', p), (''role'', ''validator'')] r \<longleftrightarrow>
     participantSessionId r = p \<and> role r = Validator"
  using tags_match_session [of p Applicant r] tags_match_session [of p Validator r] by simp_all

definition HOLDER_PARTICIPANT_ROLE :: int where
  "HOLDER_PARTICIPANT_ROLE = 6"

definition isVtFlowRenewable :: "vt_flow_record \<Rightarrow> bool" where
  "isVtFlowRenewable r =
     (if state r = Validated
      then applicantParticipantRole r \<noteq> None \<and>
           applicantParticipantRole r \<noteq> Some HOLDER_PARTICIPANT_ROLE
      else state r = Completed \<or> state r = CredRevoked)"

lemma isVtFlowRenewable_states:
  "isVtFlowRenewable r \<Longrightarrow> state r = Validated \<or> state r = Completed \<or> state r = CredRevoked"
  by (auto simp: isVtFlowRenewable_def split: if_splits)

lemma renewable_not_terminal: "isVtFlowRenewable r \<Longrightarrow> \<not> isVtFlowTerminalState (state r)"
  by (auto dest: isVtFlowRenewable_states)

section \<open>The state-changed event\<close>

record vt_flow_state_changed =
  ev_vtFlowRecordId :: string
  ev_threadId :: string
  ev_participantSessionId :: string
  ev_state :: vt_flow_state
  ev_previousState :: "vt_flow_state option"

section \<open>Records of Credo that the package reads\<close>

text \<open>The fields of a connection and of a credential exchange that the code under \<open>src\<close> reads.\<close>

record did_connection =
  conn_id :: string
  conn_did :: "string option"
  conn_theirDid :: "string option"
  conn_invitationDid :: "string option"
  conn_previousDids :: "string list option"
  conn_previousTheirDids :: "string list"

datatype did_credential_state =
    CS_OfferSent | CS_OfferReceived | CS_RequestReceived | CS_CredentialIssued
  | CS_CredentialReceived | CS_Done | CS_Abandoned | CS_Declined | CS_Other string

record cred_exchange =
  ex_id :: string
  ex_threadId :: string
  ex_parentThreadId :: "string option"
  ex_state :: did_credential_state
  ex_connectionId :: "string option"
  ex_protocolVersion :: string

text \<open>
  \<open>peerAnchorDid\<close>: the DID the peer is known by; \<open>previousTheirDids[0]\<close> is undefined for an empty
  array.
\<close>

definition peerAnchorDid :: "did_connection \<Rightarrow> string option" where
  "peerAnchorDid c =
     (let isOurs = conn_invitationDid c \<noteq> None \<and>
            (conn_invitationDid c = conn_did c \<or>
             the (conn_invitationDid c) \<in> set (withDefault (conn_previousDids c) []))
      in orElse (if isOurs then None else conn_invitationDid c)
           (orElse
             (case conn_previousTheirDids c of [] \<Rightarrow> None | d # _ \<Rightarrow> Some d)
             (conn_theirDid c)))"

end
