(* ===== verification/FlowMessages.thy ===== *)
theory FlowMessages
  imports FlowTypes
begin

text \<open>
  Error codes and messages of the vt-flow protocol: \<open>errors/VtFlowErrorCode.ts\<close> with its table,
  \<open>errors/buildVtFlowProblemReport.ts\<close>, and the message classes of \<open>messages/\<close>, which extend
  Credo's \<open>DidCommMessage\<close> as records extend \<open>didcomm_message\<close> here. Ends with the problem-report
  case transform of \<open>VtFlowProblemReportMessage.ts\<close> and its round trip.
\<close>

section \<open>Error codes\<close>

datatype vt_flow_error_code =
    EC_OrRequired | EC_IrRequired | EC_UnsupportedMessage | EC_InvalidParticipantId
  | EC_InvalidSchemaId | EC_InvalidAgentParticipantId | EC_InvalidWalletAgentParticipantId
  | EC_InvalidClaims | EC_InvalidParticipantSessionId | EC_NotAVerifiableService
  | EC_ValidationFailed | EC_ValidationRefused | EC_OobExpired | EC_SessionTerminated
  | EC_ParticipantRevoked | EC_ParticipantSlashed | EC_InternalError

definition all_error_codes :: "vt_flow_error_code list" where
  "all_error_codes =
     [EC_OrRequired, EC_IrRequired, EC_UnsupportedMessage, EC_InvalidParticipantId,
      EC_InvalidSchemaId, EC_InvalidAgentParticipantId, EC_InvalidWalletAgentParticipantId,
      EC_InvalidClaims, EC_InvalidParticipantSessionId, EC_NotAVerifiableService,
      EC_ValidationFailed, EC_ValidationRefused, EC_OobExpired, EC_SessionTerminated,
      EC_ParticipantRevoked, EC_ParticipantSlashed, EC_InternalError]"

lemma all_error_codes_complete: "c \<in> set all_error_codes"
  by (cases c) (simp_all add: all_error_codes_def)

fun code_str :: "vt_flow_error_code \<Rightarrow> string" where
  "code_str EC_OrRequired = ''vt-flow.or-required''"
| "code_str EC_IrRequired = ''vt-flow.ir-required''"
| "code_str EC_UnsupportedMessage = ''vt-flow.unsupported-message''"
| "code_str EC_InvalidParticipantId = ''vt-flow.invalid-participant-id''"
| "code_str EC_InvalidSchemaId = ''vt-flow.invalid-schema-id''"
| "code_str EC_InvalidAgentParticipantId = ''vt-flow.invalid-agent-participant-id''"
| "code_str EC_InvalidWalletAgentParticipantId = ''vt-flow.invalid-wallet-agent-participant-id''"
| "code_str EC_InvalidClaims = ''vt-flow.invalid-claims''"
| "code_str EC_InvalidParticipantSessionId = ''vt-flow.invalid-participant-session-id''"
| "code_str EC_NotAVerifiableService = ''vt-flow.not-a-verifiable-service''"
| "code_str EC_ValidationFailed = ''vt-flow.validation-failed''"
| "code_str EC_ValidationRefused = ''vt-flow.validation-refused''"
| "code_str EC_OobExpired = ''vt-flow.oob-expired''"
| "code_str EC_SessionTerminated = ''vt-flow.session-terminated''"
| "code_str EC_ParticipantRevoked = ''vt-flow.participant-revoked''"
| "code_str EC_ParticipantSlashed = ''vt-flow.participant-slashed''"
| "code_str EC_InternalError = ''vt-flow.internal-error''"

lemma distinct_code_str: "distinct (map code_str all_error_codes)"
  by (simp add: all_error_codes_def)

lemma code_str_inject [simp]: "code_str c = code_str d \<longleftrightarrow> c = d"
  using distinct_code_str all_error_codes_complete
  by (auto simp: distinct_map dest: inj_onD)

lemma code_str_nonempty [simp]: "code_str c \<noteq> []"
  by (cases c) simp_all

definition isVtFlowErrorCode :: "string \<Rightarrow> bool" where
  "isVtFlowErrorCode s \<longleftrightarrow> s \<in> set (map code_str all_error_codes)"

text \<open>Indexing \<open>VT_FLOW_ERROR_INFO\<close> with a wire string: the code whose value it is.\<close>

definition code_of_str :: "string \<Rightarrow> vt_flow_error_code option" where
  "code_of_str s = find (\<lambda>c. code_str c = s) all_error_codes"

lemma code_of_str_code_str [simp]: "code_of_str (code_str c) = Some c"
  by (cases c) (simp_all add: code_of_str_def all_error_codes_def)

lemma code_of_str_Some: "code_of_str s = Some c \<Longrightarrow> s = code_str c"
  by (auto simp: code_of_str_def find_Some_iff)

lemma isVtFlowErrorCode_iff: "isVtFlowErrorCode s \<longleftrightarrow> (\<exists>c. code_of_str s = Some c)"
  by (auto simp: isVtFlowErrorCode_def dest: code_of_str_Some)
    (use code_of_str_Some all_error_codes_complete in blast)

lemma isVtFlowErrorCode_code_str [simp]: "isVtFlowErrorCode (code_str c)"
  by (simp add: isVtFlowErrorCode_iff)

section \<open>The Error Codes table\<close>

datatype who_retries = WR_you | WR_me | WR_both | WR_none

datatype error_impact = IM_message | IM_thread | IM_connection

datatype error_flow_state =
  ToState vt_flow_state | Unchanged | TerminatedBySender | UnchangedWhenYou | ErrorWhenFatal

record error_info =
  ei_whoRetries :: who_retries
  ei_impact :: error_impact
  ei_flowState :: error_flow_state

abbreviation info :: "who_retries \<Rightarrow> error_impact \<Rightarrow> error_flow_state \<Rightarrow> error_info" where
  "info w i f \<equiv> \<lparr> ei_whoRetries = w, ei_impact = i, ei_flowState = f \<rparr>"

fun VT_FLOW_ERROR_INFO :: "vt_flow_error_code \<Rightarrow> error_info" where
  "VT_FLOW_ERROR_INFO EC_OrRequired = info WR_you IM_thread Unchanged"
| "VT_FLOW_ERROR_INFO EC_IrRequired = info WR_you IM_thread Unchanged"
| "VT_FLOW_ERROR_INFO EC_UnsupportedMessage = info WR_none IM_connection (ToState Error)"
| "VT_FLOW_ERROR_INFO EC_InvalidParticipantId = info WR_you IM_thread Unchanged"
| "VT_FLOW_ERROR_INFO EC_InvalidSchemaId = info WR_you IM_thread Unchanged"
| "VT_FLOW_ERROR_INFO EC_InvalidAgentParticipantId = info WR_you IM_thread Unchanged"
| "VT_FLOW_ERROR_INFO EC_InvalidWalletAgentParticipantId = info WR_you IM_thread Unchanged"
| "VT_FLOW_ERROR_INFO EC_InvalidClaims = info WR_you IM_thread Unchanged"
| "VT_FLOW_ERROR_INFO EC_InvalidParticipantSessionId = info WR_you IM_thread Unchanged"
| "VT_FLOW_ERROR_INFO EC_NotAVerifiableService = info WR_none IM_connection (ToState Error)"
| "VT_FLOW_ERROR_INFO EC_ValidationFailed = info WR_you IM_thread UnchangedWhenYou"
| "VT_FLOW_ERROR_INFO EC_ValidationRefused = info WR_none IM_connection (ToState TerminatedByValidator)"
| "VT_FLOW_ERROR_INFO EC_OobExpired = info WR_none IM_connection (ToState TerminatedByValidator)"
| "VT_FLOW_ERROR_INFO EC_SessionTerminated = info WR_none IM_connection TerminatedBySender"
| "VT_FLOW_ERROR_INFO EC_ParticipantRevoked = info WR_none IM_connection (ToState ParticipantRevoked)"
| "VT_FLOW_ERROR_INFO EC_ParticipantSlashed = info WR_none IM_connection (ToState ParticipantSlashed)"
| "VT_FLOW_ERROR_INFO EC_InternalError = info WR_none IM_thread ErrorWhenFatal"

section \<open>Errors thrown by the code\<close>

text \<open>
  \<open>VtFlowError\<close> is told apart from every other error by \<open>instanceof\<close>; the others are Credo's own
  classes, the \<open>AdminApiError\<close> of the code that calls the package (code, HTTP status, message and, as its
  details, the schema violations), the \<open>AnonCredsTrustError\<close> of the trust checks, and whatever a hook or
  a service outside \<open>src\<close> throws.
\<close>

datatype trust_error_reason = TR_NotDerivable | TR_NotAuthorized | TR_Unavailable

datatype err =
    VtFlowError vt_flow_error_code string
  | CredoError string
  | RecordNotFoundError string
  | RecordDuplicateError string
  | AdminApiError string int string "(string \<times> string) list"
  | AnonCredsTrustError trust_error_reason string
  | OtherError string

fun error_message :: "err \<Rightarrow> string" where
  "error_message (VtFlowError c m) = m"
| "error_message (CredoError m) = m"
| "error_message (RecordNotFoundError m) = m"
| "error_message (RecordDuplicateError m) = m"
| "error_message (AdminApiError c st m vs) = m"
| "error_message (AnonCredsTrustError r m) = m"
| "error_message (OtherError m) = m"

fun isVtFlowError :: "err \<Rightarrow> bool" where
  "isVtFlowError (VtFlowError c m) = True"
| "isVtFlowError _ = False"

lemma isVtFlowErrorE:
  assumes "isVtFlowError e"
  obtains c m where "e = VtFlowError c m"
  using assms by (cases e) auto

section \<open>Messages\<close>

text \<open>The thread of a message is its \<open>thid\<close>, and its own id when it has none.\<close>

record didcomm_message =
  msg_id :: string
  msg_thid :: "string option"

definition msg_threadId :: "'a didcomm_message_scheme \<Rightarrow> string" where
  "msg_threadId m = withDefault (msg_thid m) (msg_id m)"

record onboarding_request = didcomm_message +
  or_participantId :: string
  or_participantSessionId :: string
  or_agentParticipantId :: string
  or_walletAgentParticipantId :: string
  or_claims :: "json option"
  or_proofsAttach :: "json list option"

record issuance_request = didcomm_message +
  ir_schemaId :: string
  ir_participantSessionId :: string
  ir_agentParticipantId :: string
  ir_walletAgentParticipantId :: string
  ir_claims :: "json option"
  ir_proofsAttach :: "json list option"

record oob_link_message = didcomm_message +
  om_url :: string
  om_description :: string
  om_expiresTime :: "int option"

record validating_message = didcomm_message +
  va_comment :: "string option"

record credential_state_change = didcomm_message +
  cs_subprotocolThid :: string
  cs_state :: string
  cs_reason :: "string option"

definition VtCredentialState_Revoked :: string where
  "VtCredentialState_Revoked = ''REVOKED''"

text \<open>Credo's \<open>WhoRetriesStatus\<close> and \<open>ImpactStatus\<close>, whose values are upper case.\<close>

datatype who_retries_status = Status_You | Status_Me | Status_Both | Status_None

datatype impact_status = Impact_Message | Impact_Thread | Impact_Connection

record problem_report = didcomm_message +
  pr_code :: "string option"
  pr_en :: "string option"
  pr_whoRetries :: "who_retries_status option"
  pr_impact :: "impact_status option"
  pr_fixHint :: "string option"

text \<open>The constructors; \<open>this.id = options.id ?? this.generateId()\<close> takes the generated id.\<close>

definition newOnboardingRequest ::
  "string \<Rightarrow> string \<Rightarrow> string \<Rightarrow> string \<Rightarrow> string \<Rightarrow> json option \<Rightarrow> json list option \<Rightarrow> onboarding_request" where
  "newOnboardingRequest i pid psid ag wal cl pf =
     \<lparr> msg_id = i, msg_thid = None, or_participantId = pid, or_participantSessionId = psid,
       or_agentParticipantId = ag, or_walletAgentParticipantId = wal, or_claims = cl,
       or_proofsAttach = pf \<rparr>"

definition newIssuanceRequest ::
  "string \<Rightarrow> string \<Rightarrow> string \<Rightarrow> string \<Rightarrow> string \<Rightarrow> json option \<Rightarrow> json list option \<Rightarrow> issuance_request" where
  "newIssuanceRequest i sid psid ag wal cl pf =
     \<lparr> msg_id = i, msg_thid = None, ir_schemaId = sid, ir_participantSessionId = psid,
       ir_agentParticipantId = ag, ir_walletAgentParticipantId = wal, ir_claims = cl,
       ir_proofsAttach = pf \<rparr>"

definition newOobLinkMessage ::
  "string \<Rightarrow> string \<Rightarrow> string \<Rightarrow> string \<Rightarrow> int option \<Rightarrow> oob_link_message" where
  "newOobLinkMessage i thid url descr expires =
     \<lparr> msg_id = i, msg_thid = Some thid, om_url = url, om_description = descr,
       om_expiresTime = expires \<rparr>"

definition newValidatingMessage :: "string \<Rightarrow> string \<Rightarrow> string option \<Rightarrow> validating_message" where
  "newValidatingMessage i thid comment =
     \<lparr> msg_id = i, msg_thid = Some thid, va_comment = comment \<rparr>"

definition newCredentialStateChange ::
  "string \<Rightarrow> string \<Rightarrow> string \<Rightarrow> string \<Rightarrow> string option \<Rightarrow> credential_state_change" where
  "newCredentialStateChange i thid sub st reason =
     \<lparr> msg_id = i, msg_thid = Some thid, cs_subprotocolThid = sub, cs_state = st,
       cs_reason = reason \<rparr>"

lemma new_threadId [simp]:
  "msg_threadId (newOnboardingRequest i pid psid ag wal cl pf) = i"
  "msg_threadId (newIssuanceRequest i sid psid ag wal cl pf) = i"
  "msg_threadId (newOobLinkMessage i thid url descr expires) = thid"
  "msg_threadId (newValidatingMessage i thid comment) = thid"
  "msg_threadId (newCredentialStateChange i thid sub st reason) = thid"
  by (simp_all add: msg_threadId_def newOnboardingRequest_def newIssuanceRequest_def
      newOobLinkMessage_def newValidatingMessage_def newCredentialStateChange_def)

lemma msg_threadId_set [simp]: "msg_threadId (m\<lparr>msg_thid := Some t\<rparr>) = t"
  by (simp add: msg_threadId_def)

section \<open>Building a problem-report\<close>

fun whoRetriesMap :: "who_retries \<Rightarrow> who_retries_status" where
  "whoRetriesMap WR_you = Status_You"
| "whoRetriesMap WR_me = Status_Me"
| "whoRetriesMap WR_both = Status_Both"
| "whoRetriesMap WR_none = Status_None"

fun impactMap :: "error_impact \<Rightarrow> impact_status" where
  "impactMap IM_message = Impact_Message"
| "impactMap IM_thread = Impact_Thread"
| "impactMap IM_connection = Impact_Connection"

fun defaultEnglishDescription :: "vt_flow_error_code \<Rightarrow> string" where
  "defaultEnglishDescription EC_OrRequired =
     ''An onboarding-request was expected for this session.''"
| "defaultEnglishDescription EC_IrRequired =
     ''An issuance-request was expected for this session.''"
| "defaultEnglishDescription EC_UnsupportedMessage =
     ''The received message is not supported in the current state.''"
| "defaultEnglishDescription EC_InvalidParticipantId =
     ''The supplied participant_id is invalid for this Validator.''"
| "defaultEnglishDescription EC_InvalidSchemaId =
     ''The supplied schema_id is not supported by this Validator.''"
| "defaultEnglishDescription EC_InvalidAgentParticipantId =
     ''The supplied agent_participant_id did not resolve on-chain.''"
| "defaultEnglishDescription EC_InvalidWalletAgentParticipantId =
     ''The supplied wallet_agent_participant_id did not resolve on-chain.''"
| "defaultEnglishDescription EC_InvalidClaims =
     ''The submitted claims do not satisfy the schema.''"
| "defaultEnglishDescription EC_InvalidParticipantSessionId =
     ''The supplied participant_session_id is invalid or conflicts with an existing session.''"
| "defaultEnglishDescription EC_NotAVerifiableService =
     ''The peer'' @ CHR 0x27 # ''s DID does not identify a Verifiable Service.''"
| "defaultEnglishDescription EC_ValidationFailed =
     ''Off-chain validation of the submitted documentation failed.''"
| "defaultEnglishDescription EC_ValidationRefused =
     ''The Validator refused the request after its off-chain validation.''"
| "defaultEnglishDescription EC_OobExpired =
     ''The OOB link expired before the Applicant completed it.''"
| "defaultEnglishDescription EC_SessionTerminated =
     ''The session was terminated by the peer.''"
| "defaultEnglishDescription EC_ParticipantRevoked =
     ''The on-chain participant tied to this session has been revoked.''"
| "defaultEnglishDescription EC_ParticipantSlashed =
     ''The on-chain participant tied to this session has had its trust deposit slashed.''"
| "defaultEnglishDescription EC_InternalError =
     ''An internal error occurred while processing the session.''"

declare defaultEnglishDescription.simps [simp del]

text \<open>
  \<open>whoRetries\<close> and \<open>impact\<close> may be overridden by the caller; an empty \<open>fixHintEn\<close> is falsy and
  leaves no hint.
\<close>

definition buildVtFlowProblemReport ::
  "string \<Rightarrow> vt_flow_error_code \<Rightarrow> string \<Rightarrow> string option \<Rightarrow> string option \<Rightarrow>
   who_retries_status option \<Rightarrow> impact_status option \<Rightarrow> problem_report" where
  "buildVtFlowProblemReport i code thid en hint wr im =
     (let inf = VT_FLOW_ERROR_INFO code in
      \<lparr> msg_id = i, msg_thid = Some thid,
        pr_code = Some (code_str code),
        pr_en = Some (withDefault en (defaultEnglishDescription code)),
        pr_whoRetries = Some (withDefault wr (whoRetriesMap (ei_whoRetries inf))),
        pr_impact = Some (withDefault im (impactMap (ei_impact inf))),
        pr_fixHint = (if truthy hint then hint else None) \<rparr>)"

lemma buildVtFlowProblemReport_sel [simp]:
  "msg_threadId (buildVtFlowProblemReport i code thid en hint wr im) = thid"
  "pr_code (buildVtFlowProblemReport i code thid en hint wr im) = Some (code_str code)"
  "pr_en (buildVtFlowProblemReport i code thid en hint wr im) =
     Some (withDefault en (defaultEnglishDescription code))"
  "pr_whoRetries (buildVtFlowProblemReport i code thid en hint wr im) =
     Some (withDefault wr (whoRetriesMap (ei_whoRetries (VT_FLOW_ERROR_INFO code))))"
  by (simp_all add: buildVtFlowProblemReport_def msg_threadId_def Let_def)

section \<open>The state a code moves the receiver to\<close>

definition resolveErrorFlowState ::
  "error_flow_state \<Rightarrow> vt_flow_role \<Rightarrow> who_retries_status \<Rightarrow> vt_flow_state option" where
  "resolveErrorFlowState f receiverRole wr =
     (case f of
        Unchanged \<Rightarrow> None
      | UnchangedWhenYou \<Rightarrow> (if wr = Status_You then None else Some Error)
      | ErrorWhenFatal \<Rightarrow> (if wr = Status_None then Some Error else None)
      | ToState s \<Rightarrow> Some s
      | TerminatedBySender \<Rightarrow>
          Some (if receiverRole = Applicant then TerminatedByValidator else TerminatedByApplicant))"

lemma resolved_from_table_terminal:
  "resolveErrorFlowState (ei_flowState (VT_FLOW_ERROR_INFO c)) rl wr = Some s \<Longrightarrow>
     isVtFlowTerminalState s"
  by (cases c) (auto simp: resolveErrorFlowState_def split: if_splits)

section \<open>The wire form of \<open>who_retries\<close> and \<open>impact\<close>\<close>

fun who_retries_status_str :: "who_retries_status \<Rightarrow> string" where
  "who_retries_status_str Status_You = ''YOU''"
| "who_retries_status_str Status_Me = ''ME''"
| "who_retries_status_str Status_Both = ''BOTH''"
| "who_retries_status_str Status_None = ''NONE''"

fun impact_status_str :: "impact_status \<Rightarrow> string" where
  "impact_status_str Impact_Message = ''MESSAGE''"
| "impact_status_str Impact_Thread = ''THREAD''"
| "impact_status_str Impact_Connection = ''CONNECTION''"

text \<open>\<open>rfc0035Case\<close>: a value that is not a string passes unchanged.\<close>

datatype transformation_type = CLASS_TO_PLAIN | PLAIN_TO_CLASS

definition rfc0035Case :: "json \<Rightarrow> transformation_type \<Rightarrow> json" where
  "rfc0035Case v t =
     (case v of
        JStr s \<Rightarrow> JStr (map (if t = CLASS_TO_PLAIN then lower_char else upper_char) s)
      | _ \<Rightarrow> v)"

text \<open>What the two ends exchange: the lower case form of a status, read back by name.\<close>

fun who_retries_status_of :: "json \<Rightarrow> who_retries_status option" where
  "who_retries_status_of (JStr s) =
     find (\<lambda>w. who_retries_status_str w = s) [Status_You, Status_Me, Status_Both, Status_None]"
| "who_retries_status_of _ = None"

lemma who_retries_wire:
  "rfc0035Case (JStr (who_retries_status_str (whoRetriesMap w))) CLASS_TO_PLAIN =
     JStr (case w of WR_you \<Rightarrow> ''you'' | WR_me \<Rightarrow> ''me'' | WR_both \<Rightarrow> ''both'' | WR_none \<Rightarrow> ''none'')"
  by (cases w; hypsubst; code_simp)

lemma who_retries_roundtrip:
  "who_retries_status_of
     (rfc0035Case (rfc0035Case (JStr (who_retries_status_str w)) CLASS_TO_PLAIN) PLAIN_TO_CLASS) =
     Some w"
  by (cases w; hypsubst; code_simp)

section \<open>What is handed to the message sender\<close>

datatype wire_message =
    Wire_OnboardingRequest onboarding_request
  | Wire_IssuanceRequest issuance_request
  | Wire_OobLink oob_link_message
  | Wire_Validating validating_message
  | Wire_CredentialStateChange credential_state_change
  | Wire_ProblemReport problem_report
  | Wire_OfferCredential string "string option"
  | Wire_IssuedCredential json

end
