(* ===== verification/FlowEnv.thy ===== *)
theory FlowEnv
  imports FlowMessages
begin

text \<open>
  The world a vt-flow agent runs in, and the code outside \<open>src\<close> it calls.

  \<open>('st, 'x) world\<close> holds the wallet table of \<open>VtFlowRecord\<close>s (\<open>store\<close>, opaque), everything else the
  agent reaches through Credo (\<open>ext\<close>, opaque), the \<open>VtFlowStateChanged\<close> events emitted so far and the
  messages handed to the message sender so far. \<open>('st, 'x) env\<close> is the code the package calls and does
  not contain: Credo's repository, connection, credential and sender services, the uuid generator, the
  clock, and the hooks of \<open>VtFlowModuleConfig\<close>. A hook or a network call is an arbitrary computation on
  the whole world, which is how the operations that run while the code awaits it are modelled; a
  storage call is atomic.

  \<open>repo_laws K\<close> states what Credo documents of its repository. \<open>mem_env\<close> is an in-memory
  environment with those laws, on which the properties are evaluated.
\<close>

section \<open>World\<close>

record ('st, 'x) world =
  store :: 'st
  ext :: 'x
  events :: "vt_flow_state_changed list"
  sent :: "(wire_message \<times> string option) list"

section \<open>\<open>VtFlowModuleConfig\<close>\<close>

datatype participant_check = CheckFalse | CheckTrue | CheckValidated

record request_purpose =
  pu_participantId :: "string option"
  pu_schemaId :: "string option"

record before_issued =
  bi_credentialDigest :: "string option"
  bi_issuance :: "vt_flow_issuance option"

record offer_payload =
  of_credential :: json
  of_credentialId :: "string option"
  of_credentialDigest :: "string option"
  of_issuerParticipantId :: "int option"
  of_comment :: "string option"
  of_goal :: "string option"
  of_goalCode :: "string option"

record ('st, 'x) config_options =
  opt_oobExpirationDays :: "int option"
  opt_terminalRetentionDays :: "int option"
  opt_dataIntegrityCryptosuite :: "string option"
  opt_autoAcceptOnboardingRequest :: "bool option"
  opt_autoAcceptIssuanceRequest :: "bool option"
  opt_autoMarkValidated :: "bool option"
  opt_autoOfferCredential :: "bool option"
  opt_autoAcceptCredentialOffer :: "bool option"
  opt_autoIssueCredentialOnRequest :: "bool option"
  verifyCredential ::
    "(vt_flow_record \<Rightarrow> cred_exchange \<Rightarrow> (('st, 'x) world, err, bool) comp) option"
  onCompleted ::
    "(vt_flow_record \<Rightarrow> cred_exchange \<Rightarrow> (('st, 'x) world, err, unit) comp) option"
  onCredentialRevoked :: "(vt_flow_record \<Rightarrow> (('st, 'x) world, err, unit) comp) option"
  onReconnected :: "(vt_flow_record \<Rightarrow> (('st, 'x) world, err, unit) comp) option"
  buildCredentialOffer ::
    "(vt_flow_record \<Rightarrow> (('st, 'x) world, err, offer_payload option) comp) option"
  onBeforeCredentialIssued ::
    "(vt_flow_record \<Rightarrow> cred_exchange \<Rightarrow> json \<Rightarrow>
       (('st, 'x) world, err, before_issued option) comp) option"
  assertVerifiableService ::
    "(string \<Rightarrow> string \<Rightarrow> (('st, 'x) world, err, bool) comp) option"
  checkEcsIssuanceExemption ::
    "(string \<Rightarrow> string \<Rightarrow> request_purpose \<Rightarrow> (('st, 'x) world, err, bool) comp) option"
  checkParticipantId ::
    "(vt_flow_record \<Rightarrow> (('st, 'x) world, err, participant_check) comp) option"

text \<open>The getters that apply a default; the others return the option as it is.\<close>

definition DEFAULT_DATA_INTEGRITY_CRYPTOSUITE :: string where
  "DEFAULT_DATA_INTEGRITY_CRYPTOSUITE = ''eddsa-jcs-2022''"

definition oobExpirationDays :: "('st, 'x) config_options \<Rightarrow> int" where
  "oobExpirationDays c = withDefault (opt_oobExpirationDays c) 7"

definition terminalRetentionDays :: "('st, 'x) config_options \<Rightarrow> int" where
  "terminalRetentionDays c = withDefault (opt_terminalRetentionDays c) 90"

definition dataIntegrityCryptosuite :: "('st, 'x) config_options \<Rightarrow> string" where
  "dataIntegrityCryptosuite c =
     withDefault (opt_dataIntegrityCryptosuite c) DEFAULT_DATA_INTEGRITY_CRYPTOSUITE"

definition autoAcceptOnboardingRequest :: "('st, 'x) config_options \<Rightarrow> bool" where
  "autoAcceptOnboardingRequest c = withDefault (opt_autoAcceptOnboardingRequest c) False"

definition autoAcceptIssuanceRequest :: "('st, 'x) config_options \<Rightarrow> bool" where
  "autoAcceptIssuanceRequest c = withDefault (opt_autoAcceptIssuanceRequest c) False"

definition autoMarkValidated :: "('st, 'x) config_options \<Rightarrow> bool" where
  "autoMarkValidated c = withDefault (opt_autoMarkValidated c) False"

definition autoOfferCredential :: "('st, 'x) config_options \<Rightarrow> bool" where
  "autoOfferCredential c = withDefault (opt_autoOfferCredential c) False"

definition autoAcceptCredentialOffer :: "('st, 'x) config_options \<Rightarrow> bool" where
  "autoAcceptCredentialOffer c = withDefault (opt_autoAcceptCredentialOffer c) False"

definition autoIssueCredentialOnRequest :: "('st, 'x) config_options \<Rightarrow> bool" where
  "autoIssueCredentialOnRequest c = withDefault (opt_autoIssueCredentialOnRequest c) False"

section \<open>The code outside \<open>src\<close>\<close>

text \<open>
  The first formats of an offer message, as \<open>acceptCredentialOffer\<close> reads them: the format name and,
  of the attachment's JSON, the two members the code looks at.
\<close>

record offer_data =
  od_dataModelVersions :: "string list option"
  od_bindingRequired :: "bool option"

record offer_message =
  om_formats :: "(string \<times> offer_data option) list"

record ('st, 'x) env =
  config :: "('st, 'x) config_options"
  repo_findById :: "'st \<Rightarrow> string \<Rightarrow> vt_flow_record option"
  repo_getById :: "'st \<Rightarrow> string \<Rightarrow> err + vt_flow_record"
  repo_findByQuery :: "'st \<Rightarrow> tag_query \<Rightarrow> vt_flow_record list"
  repo_findSingleByQuery :: "'st \<Rightarrow> tag_query \<Rightarrow> err + vt_flow_record option"
  repo_save :: "'st \<Rightarrow> vt_flow_record \<Rightarrow> err + 'st"
  repo_update :: "'st \<Rightarrow> vt_flow_record \<Rightarrow> err + 'st"
  gen_uuid :: "'x \<Rightarrow> string \<times> 'x"
  clock_ms :: "'x \<Rightarrow> int \<times> 'x"
  ctx_assertReadyConnection :: "did_connection option \<Rightarrow> err + did_connection"
  conn_findById :: "'x \<Rightarrow> string \<Rightarrow> did_connection option"
  conn_getById :: "'x \<Rightarrow> string \<Rightarrow> err + did_connection"
  conn_assertReady :: "did_connection \<Rightarrow> err + unit"
  exch_findById :: "'x \<Rightarrow> string \<Rightarrow> cred_exchange option"
  exch_getById :: "'x \<Rightarrow> string \<Rightarrow> err + cred_exchange"
  exch_update :: "'x \<Rightarrow> cred_exchange \<Rightarrow> err + 'x"
  msg_send :: "wire_message \<Rightarrow> string option \<Rightarrow> (('st, 'x) world, err, unit) comp"
  creds_findOfferMessage :: "'x \<Rightarrow> string \<Rightarrow> offer_message option"
  creds_acceptOffer :: "string \<Rightarrow> (('st, 'x) world, err, unit) comp"
  creds_declineOffer :: "string \<Rightarrow> string \<Rightarrow> (('st, 'x) world, err, unit) comp"
  creds_acceptCredential :: "string \<Rightarrow> (('st, 'x) world, err, unit) comp"
  proto_registered :: "string \<Rightarrow> bool"
  proto_createOffer ::
    "did_connection \<Rightarrow> offer_payload \<Rightarrow> (('st, 'x) world, err, cred_exchange) comp"
  proto_acceptRequest :: "cred_exchange \<Rightarrow> string option \<Rightarrow> json \<Rightarrow> (('st, 'x) world, err, json) comp"
  proto_findCredentialMessage :: "'x \<Rightarrow> string \<Rightarrow> json option"
  proto_getCredential :: "'x \<Rightarrow> string \<Rightarrow> json option"

section \<open>What Credo documents of its repository\<close>

definition repo_laws :: "('st, 'x) env \<Rightarrow> bool" where
  "repo_laws K \<longleftrightarrow>
     (\<forall>st i r. repo_findById K st i = Some r \<longrightarrow> rec_id r = i) \<and>
     (\<forall>st i. case repo_findById K st i of
         Some r \<Rightarrow> repo_getById K st i = Inr r
       | None \<Rightarrow> (\<exists>m. repo_getById K st i = Inl (RecordNotFoundError m))) \<and>
     (\<forall>st r. case repo_findById K st (rec_id r) of
         Some _ \<Rightarrow> (\<exists>st'. repo_update K st r = Inr st' \<and>
                     repo_findById K st' = (repo_findById K st)(rec_id r \<mapsto> r))
       | None \<Rightarrow> (\<exists>m. repo_update K st r = Inl (RecordNotFoundError m))) \<and>
     (\<forall>st r. case repo_findById K st (rec_id r) of
         None \<Rightarrow> (\<exists>st'. repo_save K st r = Inr st' \<and>
                     repo_findById K st' = (repo_findById K st)(rec_id r \<mapsto> r))
       | Some _ \<Rightarrow> (\<exists>m. repo_save K st r = Inl (RecordDuplicateError m))) \<and>
     (\<forall>st q. set (repo_findByQuery K st q) =
         {r. repo_findById K st (rec_id r) = Some r \<and> tags_match q r} \<and>
         distinct (repo_findByQuery K st q)) \<and>
     (\<forall>st q. case repo_findByQuery K st q of
         [] \<Rightarrow> repo_findSingleByQuery K st q = Inr None
       | [r] \<Rightarrow> repo_findSingleByQuery K st q = Inr (Some r)
       | _ \<Rightarrow> (\<exists>m. repo_findSingleByQuery K st q = Inl (RecordDuplicateError m)))"

text \<open>The flows of a world, and the world after a stored write.\<close>

definition flows :: "('st, 'x) env \<Rightarrow> ('st, 'x) world \<Rightarrow> string \<Rightarrow> vt_flow_record option" where
  "flows K w = repo_findById K (store w)"

definition not_found :: "('st, 'x) env \<Rightarrow> ('st, 'x) world \<Rightarrow> string \<Rightarrow> err" where
  "not_found K w i = projl (repo_getById K (store w) i)"

definition no_update :: "('st, 'x) env \<Rightarrow> ('st, 'x) world \<Rightarrow> vt_flow_record \<Rightarrow> err" where
  "no_update K w r = projl (repo_update K (store w) r)"

definition no_save :: "('st, 'x) env \<Rightarrow> ('st, 'x) world \<Rightarrow> vt_flow_record \<Rightarrow> err" where
  "no_save K w r = projl (repo_save K (store w) r)"

definition updated :: "('st, 'x) env \<Rightarrow> vt_flow_record \<Rightarrow> ('st, 'x) world \<Rightarrow> ('st, 'x) world" where
  "updated K r w = w\<lparr>store := projr (repo_update K (store w) r)\<rparr>"

definition saved :: "('st, 'x) env \<Rightarrow> vt_flow_record \<Rightarrow> ('st, 'x) world \<Rightarrow> ('st, 'x) world" where
  "saved K r w = w\<lparr>store := projr (repo_save K (store w) r)\<rparr>"

section \<open>The calls the code makes\<close>

definition getById :: "('st, 'x) env \<Rightarrow> string \<Rightarrow> (('st, 'x) world, err, vt_flow_record) comp" where
  "getById K i = raise (\<lambda>w. repo_getById K (store w) i)"

definition findById ::
  "('st, 'x) env \<Rightarrow> string \<Rightarrow> (('st, 'x) world, err, vt_flow_record option) comp" where
  "findById K i = gets (\<lambda>w. repo_findById K (store w) i)"

definition findAllByQuery ::
  "('st, 'x) env \<Rightarrow> tag_query \<Rightarrow> (('st, 'x) world, err, vt_flow_record list) comp" where
  "findAllByQuery K q = gets (\<lambda>w. repo_findByQuery K (store w) q)"

definition findByThreadId ::
  "('st, 'x) env \<Rightarrow> string \<Rightarrow> (('st, 'x) world, err, vt_flow_record option) comp" where
  "findByThreadId K t = raise (\<lambda>w. repo_findSingleByQuery K (store w) [(''threadId'', t)])"

definition findByParticipantSessionId ::
  "('st, 'x) env \<Rightarrow> string \<Rightarrow> vt_flow_role option \<Rightarrow>
   (('st, 'x) world, err, vt_flow_record option) comp" where
  "findByParticipantSessionId K p rl =
     raise (\<lambda>w. repo_findSingleByQuery K (store w)
       ((''participantSessionId'', p) #
        (case rl of None \<Rightarrow> [] | Some x \<Rightarrow> [(''role'', role_str x)])))"

definition findByCredentialExchangeRecordId ::
  "('st, 'x) env \<Rightarrow> string \<Rightarrow> (('st, 'x) world, err, vt_flow_record option) comp" where
  "findByCredentialExchangeRecordId K e =
     raise (\<lambda>w. repo_findSingleByQuery K (store w) [(''credentialExchangeRecordId'', e)])"

definition findBySubprotocolThid ::
  "('st, 'x) env \<Rightarrow> string \<Rightarrow> (('st, 'x) world, err, vt_flow_record option) comp" where
  "findBySubprotocolThid K t =
     raise (\<lambda>w. repo_findSingleByQuery K (store w) [(''subprotocolThid'', t)])"

definition findByConnectionId ::
  "('st, 'x) env \<Rightarrow> string \<Rightarrow> (('st, 'x) world, err, vt_flow_record list) comp" where
  "findByConnectionId K c = gets (\<lambda>w. repo_findByQuery K (store w) [(''connectionId'', c)])"

definition repository_update ::
  "('st, 'x) env \<Rightarrow> vt_flow_record \<Rightarrow> (('st, 'x) world, err, unit) comp" where
  "repository_update K r =
     (\<lambda>w. case repo_update K (store w) r of
        Inl e \<Rightarrow> (Inl e, w) | Inr st \<Rightarrow> (Inr (), w\<lparr>store := st\<rparr>))"

definition repository_save ::
  "('st, 'x) env \<Rightarrow> vt_flow_record \<Rightarrow> (('st, 'x) world, err, unit) comp" where
  "repository_save K r =
     (\<lambda>w. case repo_save K (store w) r of
        Inl e \<Rightarrow> (Inl e, w) | Inr st \<Rightarrow> (Inr (), w\<lparr>store := st\<rparr>))"

definition generateId :: "('st, 'x) env \<Rightarrow> (('st, 'x) world, err, string) comp" where
  "generateId K = (\<lambda>w. case gen_uuid K (ext w) of (u, x) \<Rightarrow> (Inr u, w\<lparr>ext := x\<rparr>))"

definition date_now :: "('st, 'x) env \<Rightarrow> (('st, 'x) world, err, int) comp" where
  "date_now K = (\<lambda>w. case clock_ms K (ext w) of (t, x) \<Rightarrow> (Inr t, w\<lparr>ext := x\<rparr>))"

definition now_iso :: "('st, 'x) env \<Rightarrow> (('st, 'x) world, err, string) comp" where
  "now_iso K = bnd (date_now K) (\<lambda>t. ret (toISOString t))"

definition exchange_update ::
  "('st, 'x) env \<Rightarrow> cred_exchange \<Rightarrow> (('st, 'x) world, err, unit) comp" where
  "exchange_update K e =
     (\<lambda>w. case exch_update K (ext w) e of
        Inl er \<Rightarrow> (Inl er, w) | Inr x \<Rightarrow> (Inr (), w\<lparr>ext := x\<rparr>))"

definition sendMessage ::
  "('st, 'x) env \<Rightarrow> wire_message \<Rightarrow> string option \<Rightarrow> (('st, 'x) world, err, unit) comp" where
  "sendMessage K m c = sqn (modify (\<lambda>w. w\<lparr>sent := sent w @ [(m, c)]\<rparr>)) (msg_send K m c)"

section \<open>Weakest preconditions of the calls\<close>

lemma repo_id: "repo_laws K \<Longrightarrow> flows K w i = Some r \<Longrightarrow> rec_id r = i"
  by (simp add: repo_laws_def flows_def)

lemma repo_getById_eq:
  assumes "repo_laws K"
  shows "repo_getById K (store w) i =
    (case flows K w i of None \<Rightarrow> Inl (not_found K w i) | Some r \<Rightarrow> Inr r)"
proof -
  have "case repo_findById K (store w) i of
      Some r \<Rightarrow> repo_getById K (store w) i = Inr r
    | None \<Rightarrow> (\<exists>m. repo_getById K (store w) i = Inl (RecordNotFoundError m))"
    using assms by (simp add: repo_laws_def)
  then show ?thesis
    by (auto simp: flows_def not_found_def split: option.splits)
qed

lemma not_found_not_vtflow [simp]:
  assumes "repo_laws K" and "flows K w i = None"
  shows "\<not> isVtFlowError (not_found K w i)"
proof -
  have "case repo_findById K (store w) i of
      Some r \<Rightarrow> repo_getById K (store w) i = Inr r
    | None \<Rightarrow> (\<exists>m. repo_getById K (store w) i = Inl (RecordNotFoundError m))"
    using assms(1) by (simp add: repo_laws_def)
  with assms(2) show ?thesis by (auto simp: flows_def not_found_def)
qed

lemma repo_update_eq:
  assumes "repo_laws K"
  shows "repository_update K r w =
    (if flows K w (rec_id r) = None then (Inl (no_update K w r), w) else (Inr (), updated K r w))"
    and "flows K w (rec_id r) \<noteq> None \<Longrightarrow>
      flows K (updated K r w) = (flows K w)(rec_id r \<mapsto> r)"
proof -
  have "case repo_findById K (store w) (rec_id r) of
      Some _ \<Rightarrow> (\<exists>st'. repo_update K (store w) r = Inr st' \<and>
                  repo_findById K st' = (repo_findById K (store w))(rec_id r \<mapsto> r))
    | None \<Rightarrow> (\<exists>m. repo_update K (store w) r = Inl (RecordNotFoundError m))"
    using assms by (simp add: repo_laws_def)
  then show "repository_update K r w =
    (if flows K w (rec_id r) = None then (Inl (no_update K w r), w) else (Inr (), updated K r w))"
    and "flows K w (rec_id r) \<noteq> None \<Longrightarrow>
      flows K (updated K r w) = (flows K w)(rec_id r \<mapsto> r)"
    by (auto simp: flows_def repository_update_def no_update_def updated_def split: option.splits)
qed

lemma repo_save_eq:
  assumes "repo_laws K"
  shows "repository_save K r w =
    (if flows K w (rec_id r) = None then (Inr (), saved K r w) else (Inl (no_save K w r), w))"
    and "flows K w (rec_id r) = None \<Longrightarrow> flows K (saved K r w) = (flows K w)(rec_id r \<mapsto> r)"
proof -
  have "case repo_findById K (store w) (rec_id r) of
      None \<Rightarrow> (\<exists>st'. repo_save K (store w) r = Inr st' \<and>
                  repo_findById K st' = (repo_findById K (store w))(rec_id r \<mapsto> r))
    | Some _ \<Rightarrow> (\<exists>m. repo_save K (store w) r = Inl (RecordDuplicateError m))"
    using assms by (simp add: repo_laws_def)
  then show "repository_save K r w =
    (if flows K w (rec_id r) = None then (Inr (), saved K r w) else (Inl (no_save K w r), w))"
    and "flows K w (rec_id r) = None \<Longrightarrow> flows K (saved K r w) = (flows K w)(rec_id r \<mapsto> r)"
    by (auto simp: flows_def repository_save_def no_save_def saved_def split: option.splits)
qed

lemmas flows_written [simp] = repo_update_eq(2) repo_save_eq(2)

lemma findSingle_Some:
  assumes "repo_laws K" and "repo_findSingleByQuery K (store w) q = Inr (Some r)"
  shows "flows K w (rec_id r) = Some r" and "tags_match q r"
proof -
  let ?l = "repo_findByQuery K (store w) q"
  have set: "set ?l = {r. repo_findById K (store w) (rec_id r) = Some r \<and> tags_match q r}"
    using assms(1) by (simp add: repo_laws_def)
  have "case ?l of
         [] \<Rightarrow> repo_findSingleByQuery K (store w) q = Inr None
       | [r] \<Rightarrow> repo_findSingleByQuery K (store w) q = Inr (Some r)
       | _ \<Rightarrow> (\<exists>m. repo_findSingleByQuery K (store w) q = Inl (RecordDuplicateError m))"
    using assms(1) by (simp add: repo_laws_def)
  with assms(2) have "?l = [r]" by (auto split: list.splits)
  then have "r \<in> set ?l" by simp
  then have "r \<in> {r. repo_findById K (store w) (rec_id r) = Some r \<and> tags_match q r}"
    by (simp only: set)
  then show "flows K w (rec_id r) = Some r" and "tags_match q r"
    by (auto simp: flows_def)
qed

lemma findSingle_None:
  assumes "repo_laws K" and "repo_findSingleByQuery K (store w) q = Inr None"
    and "flows K w i = Some r"
  shows "\<not> tags_match q r"
proof -
  let ?l = "repo_findByQuery K (store w) q"
  have set: "set ?l = {r. repo_findById K (store w) (rec_id r) = Some r \<and> tags_match q r}"
    using assms(1) by (simp add: repo_laws_def)
  have "case ?l of
         [] \<Rightarrow> repo_findSingleByQuery K (store w) q = Inr None
       | [r] \<Rightarrow> repo_findSingleByQuery K (store w) q = Inr (Some r)
       | _ \<Rightarrow> (\<exists>m. repo_findSingleByQuery K (store w) q = Inl (RecordDuplicateError m))"
    using assms(1) by (simp add: repo_laws_def)
  with assms(2) have "?l = []" by (auto split: list.splits)
  with set have "r \<notin> {r. repo_findById K (store w) (rec_id r) = Some r \<and> tags_match q r}"
    by simp
  moreover have "rec_id r = i" using assms(1,3) by (rule repo_id)
  ultimately show ?thesis using assms(3) by (simp add: flows_def)
qed

lemma findSingle_unique:
  assumes "repo_laws K" and "flows K w i = Some r" and "tags_match q r"
    and "\<And>j s. flows K w j = Some s \<Longrightarrow> tags_match q s \<Longrightarrow> s = r"
  shows "repo_findSingleByQuery K (store w) q = Inr (Some r)"
proof -
  let ?l = "repo_findByQuery K (store w) q"
  have set: "set ?l = {r. repo_findById K (store w) (rec_id r) = Some r \<and> tags_match q r}"
    and "distinct ?l"
    using assms(1) by (simp_all add: repo_laws_def)
  have "rec_id r = i" using assms(1,2) by (rule repo_id)
  then have here: "repo_findById K (store w) (rec_id r) = Some r"
    using assms(2) by (simp add: flows_def)
  have only: "s = r" if "repo_findById K (store w) j = Some s" "tags_match q s" for j s
    using assms(4) [of j s] that by (simp add: flows_def)
  have "set ?l = {r}"
    unfolding set using here assms(3) only by blast
  with \<open>distinct ?l\<close> have "?l = [r]"
    by (rule distinct_singleton)
  moreover have "case ?l of
         [] \<Rightarrow> repo_findSingleByQuery K (store w) q = Inr None
       | [r] \<Rightarrow> repo_findSingleByQuery K (store w) q = Inr (Some r)
       | _ \<Rightarrow> (\<exists>m. repo_findSingleByQuery K (store w) q = Inl (RecordDuplicateError m))"
    using assms(1) by (simp add: repo_laws_def)
  ultimately show ?thesis by simp
qed

text \<open>The generated id and the current time, and the world after taking one.\<close>

definition new_id :: "('st, 'x) env \<Rightarrow> ('st, 'x) world \<Rightarrow> string" where
  "new_id K w = fst (gen_uuid K (ext w))"

definition after_id :: "('st, 'x) env \<Rightarrow> ('st, 'x) world \<Rightarrow> ('st, 'x) world" where
  "after_id K w = w\<lparr>ext := snd (gen_uuid K (ext w))\<rparr>"

definition now_ms :: "('st, 'x) env \<Rightarrow> ('st, 'x) world \<Rightarrow> int" where
  "now_ms K w = fst (clock_ms K (ext w))"

definition after_now :: "('st, 'x) env \<Rightarrow> ('st, 'x) world \<Rightarrow> ('st, 'x) world" where
  "after_now K w = w\<lparr>ext := snd (clock_ms K (ext w))\<rparr>"

lemma world_frame [simp]:
  "flows K (w\<lparr>ext := x\<rparr>) = flows K w" "flows K (w\<lparr>events := es\<rparr>) = flows K w"
  "flows K (w\<lparr>sent := ms\<rparr>) = flows K w"
  "flows K (after_id K w) = flows K w" "flows K (after_now K w) = flows K w"
  "events (after_id K w) = events w" "events (after_now K w) = events w"
  "sent (after_id K w) = sent w" "sent (after_now K w) = sent w"
  "events (updated K r w) = events w" "events (saved K r w) = events w"
  "sent (updated K r w) = sent w" "sent (saved K r w) = sent w"
  "ext (updated K r w) = ext w" "ext (saved K r w) = ext w"
  by (simp_all add: flows_def after_id_def after_now_def updated_def saved_def)

lemma post_getById [wp]:
  "repo_laws K \<Longrightarrow> post (getById K i) Q E w =
     (case flows K w i of None \<Rightarrow> E (not_found K w i) w | Some r \<Rightarrow> Q r w)"
  by (simp add: getById_def wp repo_getById_eq split: option.splits)

lemma post_findById [wp]: "post (findById K i) Q E w = Q (flows K w i) w"
  by (simp add: findById_def wp flows_def)

lemma post_findByThreadId [wp]:
  "post (findByThreadId K t) Q E w =
     (case repo_findSingleByQuery K (store w) [(''threadId'', t)] of
        Inl e \<Rightarrow> E e w | Inr x \<Rightarrow> Q x w)"
  by (simp add: findByThreadId_def wp)

lemma post_findByParticipantSessionId [wp]:
  "post (findByParticipantSessionId K p (Some rl)) Q E w =
     (case repo_findSingleByQuery K (store w)
        [(''participantSessionId'', p), (''role'', role_str rl)] of
        Inl e \<Rightarrow> E e w | Inr x \<Rightarrow> Q x w)"
  by (simp add: findByParticipantSessionId_def wp)

lemma post_repository_update [wp]:
  "repo_laws K \<Longrightarrow> post (repository_update K r) Q E w =
     (if flows K w (rec_id r) = None then E (no_update K w r) w else Q () (updated K r w))"
  by (simp add: post_def repo_update_eq)

lemma post_repository_save [wp]:
  "repo_laws K \<Longrightarrow> post (repository_save K r) Q E w =
     (if flows K w (rec_id r) = None then Q () (saved K r w) else E (no_save K w r) w)"
  by (simp add: post_def repo_save_eq)

lemma post_generateId [wp]: "post (generateId K) Q E w = Q (new_id K w) (after_id K w)"
  by (simp add: post_def generateId_def new_id_def after_id_def split: prod.splits)

lemma post_date_now [wp]: "post (date_now K) Q E w = Q (now_ms K w) (after_now K w)"
  by (simp add: post_def date_now_def now_ms_def after_now_def split: prod.splits)

lemma post_now_iso [wp]: "post (now_iso K) Q E w = Q (toISOString (now_ms K w)) (after_now K w)"
  by (simp add: now_iso_def wp)

lemma post_exchange_update [wp]:
  "post (exchange_update K e) Q E w =
     (case exch_update K (ext w) e of Inl er \<Rightarrow> E er w | Inr x \<Rightarrow> Q () (w\<lparr>ext := x\<rparr>))"
  by (simp add: post_def exchange_update_def split: sum.splits)

lemma post_sendMessage [wp]:
  "post (sendMessage K m c) Q E w = post (msg_send K m c) Q E (w\<lparr>sent := sent w @ [(m, c)]\<rparr>)"
  by (simp add: sendMessage_def wp)

section \<open>An in-memory environment\<close>

record mem_ext =
  m_next :: string
  m_time :: int
  m_conns :: "did_connection list"
  m_exchs :: "cred_exchange list"

type_synonym mem_store = "vt_flow_record list"

definition mem_find :: "mem_store \<Rightarrow> string \<Rightarrow> vt_flow_record option" where
  "mem_find st i = find (\<lambda>r. rec_id r = i) st"

definition mem_query :: "mem_store \<Rightarrow> tag_query \<Rightarrow> vt_flow_record list" where
  "mem_query st q = filter (\<lambda>r. mem_find st (rec_id r) = Some r \<and> tags_match q r) (remdups st)"

definition mem_env :: "(mem_store, mem_ext) config_options \<Rightarrow> (mem_store, mem_ext) env" where
  "mem_env cfg =
     \<lparr> config = cfg,
       repo_findById = mem_find,
       repo_getById = (\<lambda>st i. case mem_find st i of
          None \<Rightarrow> Inl (RecordNotFoundError i) | Some r \<Rightarrow> Inr r),
       repo_findByQuery = mem_query,
       repo_findSingleByQuery = (\<lambda>st q. case mem_query st q of
          [] \<Rightarrow> Inr None | [r] \<Rightarrow> Inr (Some r) | _ \<Rightarrow> Inl (RecordDuplicateError [])),
       repo_save = (\<lambda>st r. case mem_find st (rec_id r) of
          None \<Rightarrow> Inr (r # st) | Some _ \<Rightarrow> Inl (RecordDuplicateError (rec_id r))),
       repo_update = (\<lambda>st r. case mem_find st (rec_id r) of
          None \<Rightarrow> Inl (RecordNotFoundError (rec_id r))
        | Some _ \<Rightarrow> Inr (map (\<lambda>s. if rec_id s = rec_id r then r else s) st)),
       gen_uuid = (\<lambda>x. (m_next x, x\<lparr>m_next := CHR ''i'' # m_next x\<rparr>)),
       clock_ms = (\<lambda>x. (m_time x, x\<lparr>m_time := m_time x + 1\<rparr>)),
       ctx_assertReadyConnection = (\<lambda>c. case c of
          None \<Rightarrow> Inl (CredoError ''no connection'') | Some d \<Rightarrow> Inr d),
       conn_findById = (\<lambda>x i. find (\<lambda>c. conn_id c = i) (m_conns x)),
       conn_getById = (\<lambda>x i. case find (\<lambda>c. conn_id c = i) (m_conns x) of
          None \<Rightarrow> Inl (RecordNotFoundError i) | Some c \<Rightarrow> Inr c),
       conn_assertReady = (\<lambda>c. Inr ()),
       exch_findById = (\<lambda>x i. find (\<lambda>e. ex_id e = i) (m_exchs x)),
       exch_getById = (\<lambda>x i. case find (\<lambda>e. ex_id e = i) (m_exchs x) of
          None \<Rightarrow> Inl (RecordNotFoundError i) | Some e \<Rightarrow> Inr e),
       exch_update = (\<lambda>x e. Inr (x\<lparr>m_exchs :=
          map (\<lambda>f. if ex_id f = ex_id e then e else f) (m_exchs x)\<rparr>)),
       msg_send = (\<lambda>_ _. ret ()),
       creds_findOfferMessage = (\<lambda>_ _. None),
       creds_acceptOffer = (\<lambda>_. ret ()),
       creds_declineOffer = (\<lambda>_ _. ret ()),
       creds_acceptCredential = (\<lambda>_. ret ()),
       proto_registered = (\<lambda>_. True),
       proto_createOffer = (\<lambda>c p. ret
          \<lparr> ex_id = ''exchange'', ex_threadId = ''exchange-thread'', ex_parentThreadId = None,
            ex_state = CS_OfferSent, ex_connectionId = Some (conn_id c),
            ex_protocolVersion = ''v2'' \<rparr>),
       proto_acceptRequest = (\<lambda>_ _ j. ret j),
       proto_findCredentialMessage = (\<lambda>_ _. Some JNull),
       proto_getCredential = (\<lambda>_ _. Some JNull) \<rparr>"

lemma mem_find_id: "mem_find st i = Some r \<Longrightarrow> rec_id r = i"
  by (auto simp: mem_find_def find_Some_iff)

lemma mem_find_set: "mem_find st i = Some r \<Longrightarrow> r \<in> set st"
  by (auto simp: mem_find_def find_Some_iff)

lemma mem_find_Cons: "mem_find (r # st) = (mem_find st)(rec_id r \<mapsto> r)"
  by (rule ext) (simp add: mem_find_def)

lemma mem_find_map:
  assumes "mem_find st (rec_id r) \<noteq> None"
  shows "mem_find (map (\<lambda>s. if rec_id s = rec_id r then r else s) st) =
    (mem_find st)(rec_id r \<mapsto> r)"
proof
  fix i
  have "mem_find (map (\<lambda>s. if rec_id s = rec_id r then r else s) st) i =
    (if i = rec_id r \<and> mem_find st i \<noteq> None then Some r else mem_find st i)"
    by (induction st) (auto simp: mem_find_def)
  with assms show "mem_find (map (\<lambda>s. if rec_id s = rec_id r then r else s) st) i =
    ((mem_find st)(rec_id r \<mapsto> r)) i" by auto
qed

lemma mem_query_set: "set (mem_query st q) = {r. mem_find st (rec_id r) = Some r \<and> tags_match q r}"
  by (auto simp: mem_query_def dest: mem_find_set)

lemma mem_env_repo [simp]:
  "repo_findById (mem_env cfg) = mem_find"
  "repo_getById (mem_env cfg) st i =
     (case mem_find st i of None \<Rightarrow> Inl (RecordNotFoundError i) | Some r \<Rightarrow> Inr r)"
  "repo_findByQuery (mem_env cfg) = mem_query"
  "repo_findSingleByQuery (mem_env cfg) st q = (case mem_query st q of
     [] \<Rightarrow> Inr None | [r] \<Rightarrow> Inr (Some r) | _ \<Rightarrow> Inl (RecordDuplicateError []))"
  "repo_save (mem_env cfg) st r = (case mem_find st (rec_id r) of
     None \<Rightarrow> Inr (r # st) | Some _ \<Rightarrow> Inl (RecordDuplicateError (rec_id r)))"
  "repo_update (mem_env cfg) st r = (case mem_find st (rec_id r) of
     None \<Rightarrow> Inl (RecordNotFoundError (rec_id r))
   | Some _ \<Rightarrow> Inr (map (\<lambda>s. if rec_id s = rec_id r then r else s) st))"
  "config (mem_env cfg) = cfg"
  by (simp_all add: mem_env_def)

text \<open>Running an operation on \<open>mem_env\<close> by rewriting.\<close>

lemmas run_defs = comp_defs getById_def findById_def findByThreadId_def
  findByParticipantSessionId_def repository_update_def repository_save_def generateId_def
  date_now_def now_iso_def exchange_update_def sendMessage_def flows_def

lemma mem_env_ext [simp]:
  "gen_uuid (mem_env cfg) x = (m_next x, x\<lparr>m_next := CHR ''i'' # m_next x\<rparr>)"
  "clock_ms (mem_env cfg) x = (m_time x, x\<lparr>m_time := m_time x + 1\<rparr>)"
  "ctx_assertReadyConnection (mem_env cfg) oc =
     (case oc of None \<Rightarrow> Inl (CredoError ''no connection'') | Some d \<Rightarrow> Inr d)"
  "conn_findById (mem_env cfg) x i = find (\<lambda>c. conn_id c = i) (m_conns x)"
  "conn_getById (mem_env cfg) x i = (case find (\<lambda>c. conn_id c = i) (m_conns x) of
     None \<Rightarrow> Inl (RecordNotFoundError i) | Some c \<Rightarrow> Inr c)"
  "conn_assertReady (mem_env cfg) c = Inr ()"
  "exch_findById (mem_env cfg) x i = find (\<lambda>e. ex_id e = i) (m_exchs x)"
  "exch_getById (mem_env cfg) x i = (case find (\<lambda>e. ex_id e = i) (m_exchs x) of
     None \<Rightarrow> Inl (RecordNotFoundError i) | Some e \<Rightarrow> Inr e)"
  "exch_update (mem_env cfg) x e = Inr (x\<lparr>m_exchs :=
     map (\<lambda>f. if ex_id f = ex_id e then e else f) (m_exchs x)\<rparr>)"
  "msg_send (mem_env cfg) m c0 = ret ()"
  "creds_findOfferMessage (mem_env cfg) x i = None"
  "creds_acceptOffer (mem_env cfg) i = ret ()"
  "creds_declineOffer (mem_env cfg) i d0 = ret ()"
  "creds_acceptCredential (mem_env cfg) i = ret ()"
  "proto_registered (mem_env cfg) v"
  "proto_createOffer (mem_env cfg) c1 p = ret
     \<lparr> ex_id = ''exchange'', ex_threadId = ''exchange-thread'', ex_parentThreadId = None,
       ex_state = CS_OfferSent, ex_connectionId = Some (conn_id c1), ex_protocolVersion = ''v2'' \<rparr>"
  "proto_acceptRequest (mem_env cfg) e cm j = ret j"
  "proto_findCredentialMessage (mem_env cfg) x i = Some JNull"
  "proto_getCredential (mem_env cfg) x i = Some JNull"
  by (simp_all add: mem_env_def)

lemma mem_query_single:
  "case mem_query st q of
     [] \<Rightarrow> repo_findSingleByQuery (mem_env cfg) st q = Inr None
   | [r] \<Rightarrow> repo_findSingleByQuery (mem_env cfg) st q = Inr (Some r)
   | _ \<Rightarrow> (\<exists>m. repo_findSingleByQuery (mem_env cfg) st q = Inl (RecordDuplicateError m))"
  by (simp split: list.splits)

lemma mem_query_distinct: "distinct (mem_query st q)"
  by (simp add: mem_query_def)

lemma mem_env_laws: "repo_laws (mem_env cfg)"
  unfolding repo_laws_def mem_env_repo(1,3)
proof (intro conjI allI)
  fix st i
  show "case mem_find st i of Some r \<Rightarrow> repo_getById (mem_env cfg) st i = Inr r
    | None \<Rightarrow> \<exists>m. repo_getById (mem_env cfg) st i = Inl (RecordNotFoundError m)"
    by (simp split: option.split)
next
  fix st r
  show "case mem_find st (rec_id r) of
      Some _ \<Rightarrow> \<exists>st'. repo_update (mem_env cfg) st r = Inr st' \<and>
                  mem_find st' = (mem_find st)(rec_id r \<mapsto> r)
    | None \<Rightarrow> \<exists>m. repo_update (mem_env cfg) st r = Inl (RecordNotFoundError m)"
    using mem_find_map [of st r] by (simp split: option.split)
next
  fix st r
  show "case mem_find st (rec_id r) of
      None \<Rightarrow> \<exists>st'. repo_save (mem_env cfg) st r = Inr st' \<and>
                  mem_find st' = (mem_find st)(rec_id r \<mapsto> r)
    | Some _ \<Rightarrow> \<exists>m. repo_save (mem_env cfg) st r = Inl (RecordDuplicateError m)"
    using mem_find_Cons [of r st] by (simp split: option.split)
qed (auto simp only: mem_query_set mem_query_single mem_query_distinct dest: mem_find_id)

text \<open>A configuration with every option left out, and a world with no flow.\<close>

definition no_options :: "(mem_store, mem_ext) config_options" where
  "no_options =
     \<lparr> opt_oobExpirationDays = None, opt_terminalRetentionDays = None,
       opt_dataIntegrityCryptosuite = None, opt_autoAcceptOnboardingRequest = None,
       opt_autoAcceptIssuanceRequest = None, opt_autoMarkValidated = None,
       opt_autoOfferCredential = None, opt_autoAcceptCredentialOffer = None,
       opt_autoIssueCredentialOnRequest = None, verifyCredential = None, onCompleted = None,
       onCredentialRevoked = None, onReconnected = None, buildCredentialOffer = None,
       onBeforeCredentialIssued = None, assertVerifiableService = None,
       checkEcsIssuanceExemption = None, checkParticipantId = None \<rparr>"

definition mem_world ::
  "vt_flow_record list \<Rightarrow> did_connection list \<Rightarrow> cred_exchange list \<Rightarrow> (mem_store, mem_ext) world" where
  "mem_world rs cs es =
     \<lparr> store = rs, ext = \<lparr> m_next = ''i'', m_time = 0, m_conns = cs, m_exchs = es \<rparr>, events = [],
       sent = [] \<rparr>"

end
