(* ===== verification/FlowService.thy ===== *)
theory FlowService
  imports FlowEnv
begin

text \<open>
  \<open>services/VtFlowService.ts\<close>, method by method under the source's names. A method that mutates the
  record it was given returns the mutated record. The methods take the environment \<open>K\<close> for the
  injected repository, event emitter and configuration; logging is left out.
\<close>

section \<open>Texts of the errors\<close>

definition msg_role :: "vt_flow_role \<Rightarrow> vt_flow_role \<Rightarrow> string" where
  "msg_role actual expected =
     ''VtFlow record is in role '' @ quoted (role_str actual) @ '', expected '' @
     quoted (role_str expected) @ ''.''"

definition msg_state :: "vt_flow_state \<Rightarrow> vt_flow_state list \<Rightarrow> string" where
  "msg_state actual allowed =
     ''VtFlow record is in state '' @ quoted (state_str actual) @ ''. Valid states: '' @
     join_with '', '' (map state_str allowed) @ ''.''"

definition msg_variant :: "vt_flow_variant \<Rightarrow> vt_flow_variant \<Rightarrow> string" where
  "msg_variant actual expected =
     ''VtFlow record is variant '' @ quoted (variant_str actual) @ '', expected '' @
     quoted (variant_str expected) @ ''.''"

definition msg_session_in_use :: "string \<Rightarrow> vt_flow_state \<Rightarrow> string" where
  "msg_session_in_use psid st =
     ''vt-flow: participant_session_id '' @ quoted psid @
     '' already belongs to a flow in state '' @ state_str st @ ''; use a new session id''"

definition msg_cannot :: "string \<Rightarrow> vt_flow_state \<Rightarrow> string \<Rightarrow> string" where
  "msg_cannot i st what =
     ''vt-flow: flow '' @ quoted i @ '' in state '' @ state_str st @ '' cannot be '' @ what"

definition msg_no_participant :: "string \<Rightarrow> string" where
  "msg_no_participant i = ''vt-flow: flow '' @ quoted i @ '' has no participant_id''"

definition msg_mismatch :: "string \<Rightarrow> string \<Rightarrow> string \<Rightarrow> string" where
  "msg_mismatch what v psid =
     ''vt-flow: '' @ what @ '' '' @ quoted v @
     '' does not match the flow of participant_session_id '' @ quoted psid"

definition msg_collides :: "string \<Rightarrow> string" where
  "msg_collides psid =
     ''vt-flow: participant_session_id '' @ quoted psid @ '' collides with a terminated flow''"

definition msg_other_peer :: "string \<Rightarrow> string \<Rightarrow> string" where
  "msg_other_peer c psid =
     ''vt-flow: connection '' @ quoted c @
     '' peer does not match the original connection of participant_session_id '' @ quoted psid"

definition msg_no_their_did :: "string \<Rightarrow> string" where
  "msg_no_their_did c = ''vt-flow: ready connection '' @ quoted c @ '' has no theirDid''"

definition msg_not_vs :: "string \<Rightarrow> string option \<Rightarrow> string" where
  "msg_not_vs peer failure =
     ''vt-flow.not-a-verifiable-service: peer '' @ quoted peer @ '' failed VS-CONN-VS check'' @
     (if truthy failure then '' ('' @ the failure @ '')'' else [])"

definition msg_not_pending :: "string option \<Rightarrow> string" where
  "msg_not_pending pid =
     ''vt-flow: participant_id '' @ quoted (withDefault pid ''undefined'') @
     '' is not a PENDING entry that names this agent as its validator''"

definition msg_no_thread :: "string \<Rightarrow> string" where
  "msg_no_thread t = ''VtFlow record with threadId '' @ quoted t @ '' not found.''"

definition msg_terminal :: "vt_flow_state \<Rightarrow> string" where
  "msg_terminal st =
     ''VtFlow record is in terminal state '' @ quoted (state_str st) @ ''; cannot complete it.''"

section \<open>Assertions of \<open>VtFlowRecord\<close>\<close>

definition assertRole :: "vt_flow_record \<Rightarrow> vt_flow_role \<Rightarrow> ('s, err, unit) comp" where
  "assertRole r rl = guard (role r = rl) (CredoError (msg_role (role r) rl))"

definition assertState :: "vt_flow_record \<Rightarrow> vt_flow_state list \<Rightarrow> ('s, err, unit) comp" where
  "assertState r allowed =
     guard (state r \<in> set allowed) (CredoError (msg_state (state r) allowed))"

definition assertVariant :: "vt_flow_record \<Rightarrow> vt_flow_variant \<Rightarrow> ('s, err, unit) comp" where
  "assertVariant r v = guard (variant r = v) (CredoError (msg_variant (variant r) v))"

lemma post_assert [wp]:
  "post (assertRole r rl) Q E s =
     (if role r = rl then Q () s else E (CredoError (msg_role (role r) rl)) s)"
  "post (assertState r al) Q E s =
     (if state r \<in> set al then Q () s else E (CredoError (msg_state (state r) al)) s)"
  "post (assertVariant r v) Q E s =
     (if variant r = v then Q () s else E (CredoError (msg_variant (variant r) v)) s)"
  by (simp_all add: assertRole_def assertState_def assertVariant_def wp)

section \<open>Transitions\<close>

definition event_of :: "vt_flow_record \<Rightarrow> vt_flow_state option \<Rightarrow> vt_flow_state_changed" where
  "event_of r prev =
     \<lparr> ev_vtFlowRecordId = rec_id r, ev_threadId = threadId r,
       ev_participantSessionId = participantSessionId r, ev_state = state r,
       ev_previousState = prev \<rparr>"

definition emitStateChanged ::
  "vt_flow_record \<Rightarrow> vt_flow_state option \<Rightarrow> (('st, 'x) world, err, unit) comp" where
  "emitStateChanged r prev = modify (\<lambda>w. w\<lparr>events := events w @ [event_of r prev]\<rparr>)"

lemma post_emitStateChanged [wp]:
  "post (emitStateChanged r prev) Q E w = Q () (w\<lparr>events := events w @ [event_of r prev]\<rparr>)"
  by (simp add: emitStateChanged_def wp)

definition updateState ::
  "('st, 'x) env \<Rightarrow> vt_flow_record \<Rightarrow> vt_flow_state \<Rightarrow>
   (('st, 'x) world, err, vt_flow_record) comp" where
  "updateState K record newState =
     (let previousState = state record in
      if previousState = newState then sqn (repository_update K record) (ret record)
      else
        let record1 = (if previousState = OobPending then record\<lparr>oobLink := None\<rparr> else record);
            record2 = record1\<lparr>state := newState\<rparr>
        in sqn (repository_update K record2)
             (sqn (emitStateChanged record2 (Some previousState)) (ret record2)))"

text \<open>The record and the world a transition leaves.\<close>

definition moved :: "vt_flow_record \<Rightarrow> vt_flow_state \<Rightarrow> vt_flow_record" where
  "moved r s =
     (if state r = s then r
      else (if state r = OobPending then r\<lparr>oobLink := None\<rparr> else r)\<lparr>state := s\<rparr>)"

definition moved_in ::
  "('st, 'x) env \<Rightarrow> vt_flow_record \<Rightarrow> vt_flow_state \<Rightarrow> ('st, 'x) world \<Rightarrow> ('st, 'x) world" where
  "moved_in K r s w =
     (updated K (moved r s) w)\<lparr>events :=
        events w @ (if state r = s then [] else [event_of (moved r s) (Some (state r))])\<rparr>"

lemma moved_sel [simp]:
  "rec_id (moved r s) = rec_id r" "state (moved r s) = s" "role (moved r s) = role r"
  "variant (moved r s) = variant r" "threadId (moved r s) = threadId r"
  "participantSessionId (moved r s) = participantSessionId r"
  "connectionId (moved r s) = connectionId r" "createdAt (moved r s) = createdAt r"
  "claims (moved r s) = claims r" "messages (moved r s) = messages r"
  "schemaId (moved r s) = schemaId r"
  "applicantParticipantId (moved r s) = applicantParticipantId r"
  "validation (moved r s) = validation r" "issuance (moved r s) = issuance r"
  "errorMessage (moved r s) = errorMessage r"
  "connectionTerminated (moved r s) = connectionTerminated r"
  "credentialExchangeRecordId (moved r s) = credentialExchangeRecordId r"
  "oobLink (moved r s) =
     (if state r \<noteq> s \<and> state r = OobPending then None else oobLink r)"
  by (auto simp: moved_def)

lemma moved_in_sel [simp]:
  "events (moved_in K r s w) =
     events w @ (if state r = s then [] else [event_of (moved r s) (Some (state r))])"
  "sent (moved_in K r s w) = sent w"
  "ext (moved_in K r s w) = ext w"
  "repo_laws K \<Longrightarrow> flows K w (rec_id r) \<noteq> None \<Longrightarrow>
     flows K (moved_in K r s w) = (flows K w)(rec_id r \<mapsto> moved r s)"
  by (simp_all add: moved_in_def)

lemma post_updateState [wp]:
  assumes "repo_laws K"
  shows "post (updateState K r s) Q E w =
    (if flows K w (rec_id r) = None then E (no_update K w (moved r s)) w
     else Q (moved r s) (moved_in K r s w))"
proof (cases "state r = s")
  case True
  then have "moved_in K r s w = updated K r w"
    by (simp add: moved_in_def moved_def updated_def)
  with assms True show ?thesis by (simp add: updateState_def moved_def wp)
next
  case False
  with assms show ?thesis by (auto simp: updateState_def moved_def moved_in_def wp)
qed

definition updateRecord ::
  "('st, 'x) env \<Rightarrow> vt_flow_record \<Rightarrow> (('st, 'x) world, err, unit) comp" where
  "updateRecord K record = repository_update K record"

lemma post_updateRecord [wp]:
  "repo_laws K \<Longrightarrow> post (updateRecord K r) Q E w =
     (if flows K w (rec_id r) = None then E (no_update K w r) w else Q () (updated K r w))"
  by (simp add: updateRecord_def wp)

definition appendMessage :: "vt_flow_record \<Rightarrow> vt_flow_message \<Rightarrow> vt_flow_record" where
  "appendMessage r m = r\<lparr>messages := Some (withDefault (messages r) [] @ [m])\<rparr>"

lemma appendMessage_sel [simp]:
  "rec_id (appendMessage r m) = rec_id r" "state (appendMessage r m) = state r"
  "role (appendMessage r m) = role r" "variant (appendMessage r m) = variant r"
  "participantSessionId (appendMessage r m) = participantSessionId r"
  "threadId (appendMessage r m) = threadId r" "createdAt (appendMessage r m) = createdAt r"
  "oobLink (appendMessage r m) = oobLink r" "errorMessage (appendMessage r m) = errorMessage r"
  "connectionId (appendMessage r m) = connectionId r"
  by (simp_all add: appendMessage_def)

abbreviation vmsg ::
  "vt_flow_message_type \<Rightarrow> string option \<Rightarrow> string \<Rightarrow> string option \<Rightarrow> vt_flow_message" where
  "vmsg t txt tm url \<equiv> \<lparr> vm_type = t, vm_text = txt, vm_at = tm, vm_url = url \<rparr>"

definition getByThreadId ::
  "('st, 'x) env \<Rightarrow> string \<Rightarrow> (('st, 'x) world, err, vt_flow_record) comp" where
  "getByThreadId K t =
     bnd (findByThreadId K t) (\<lambda>record. case record of
       None \<Rightarrow> throw (CredoError (msg_no_thread t))
     | Some r \<Rightarrow> ret r)"

section \<open>Requests of the applicant\<close>

record onboarding_params =
  cp_connectionId :: string
  cp_participantSessionId :: string
  cp_applicantParticipantId :: string
  cp_applicantParticipantRole :: "int option"
  cp_validatorParticipantId :: "string option"
  cp_schemaId :: "string option"
  cp_agentParticipantId :: string
  cp_walletAgentParticipantId :: string
  cp_claims :: "json option"

record issuance_params =
  ip_connectionId :: string
  ip_participantSessionId :: string
  ip_schemaId :: string
  ip_agentParticipantId :: string
  ip_walletAgentParticipantId :: string
  ip_claims :: "json option"

definition createOnboardingProcessRecord ::
  "('st, 'x) env \<Rightarrow> onboarding_params \<Rightarrow>
   (('st, 'x) world, err, onboarding_request \<times> vt_flow_record) comp" where
  "createOnboardingProcessRecord K p =
     bnd (generateId K) (\<lambda>mid.
     let message = (newOnboardingRequest mid (cp_applicantParticipantId p)
           (cp_participantSessionId p) (cp_agentParticipantId p) (cp_walletAgentParticipantId p)
           (cp_claims p) None)\<lparr>msg_thid := Some mid\<rparr>
     in bnd (findByParticipantSessionId K (cp_participantSessionId p) (Some Applicant))
       (\<lambda>existing. case existing of
          Some ex \<Rightarrow>
            sqn (guard (isVtFlowRenewable ex)
                  (CredoError (msg_session_in_use (cp_participantSessionId p) (state ex))))
              (let ex1 = ex\<lparr>connectionId := cp_connectionId p, threadId := mid\<rparr>;
                   ex2 = (if cp_claims p \<noteq> None then ex1\<lparr>claims := cp_claims p\<rparr> else ex1)
               in bnd (updateState K ex2 OrSent) (\<lambda>r. ret (message, r)))
        | None \<Rightarrow>
            bnd (generateId K) (\<lambda>uid.
            bnd (date_now K) (\<lambda>t.
            let record = (newVtFlowRecord uid t mid (cp_participantSessionId p)
                  (cp_connectionId p) Applicant OrSent OnboardingProcess
                  (cp_agentParticipantId p) (cp_walletAgentParticipantId p))
                  \<lparr>applicantParticipantId := Some (cp_applicantParticipantId p),
                   applicantParticipantRole := cp_applicantParticipantRole p,
                   validatorParticipantId := cp_validatorParticipantId p,
                   schemaId := cp_schemaId p, claims := cp_claims p\<rparr>
            in sqn (repository_save K record)
                 (sqn (emitStateChanged record None) (ret (message, record)))))))"

definition createDirectIssuanceRecord ::
  "('st, 'x) env \<Rightarrow> issuance_params \<Rightarrow>
   (('st, 'x) world, err, issuance_request \<times> vt_flow_record) comp" where
  "createDirectIssuanceRecord K p =
     bnd (generateId K) (\<lambda>mid.
     let message = (newIssuanceRequest mid (ip_schemaId p) (ip_participantSessionId p)
           (ip_agentParticipantId p) (ip_walletAgentParticipantId p) (ip_claims p) None)
           \<lparr>msg_thid := Some mid\<rparr>
     in bnd (generateId K) (\<lambda>uid.
        bnd (date_now K) (\<lambda>t.
        let record = (newVtFlowRecord uid t mid (ip_participantSessionId p) (ip_connectionId p)
              Applicant IrSent DirectIssuance (ip_agentParticipantId p)
              (ip_walletAgentParticipantId p))
              \<lparr>schemaId := Some (ip_schemaId p), claims := ip_claims p\<rparr>
        in sqn (repository_save K record)
             (sqn (emitStateChanged record None) (ret (message, record))))))"

definition releaseCredentialExchange ::
  "('st, 'x) env \<Rightarrow> vt_flow_record \<Rightarrow> (('st, 'x) world, err, vt_flow_record) comp" where
  "releaseCredentialExchange K r =
     sqn
      (if truthy (credentialExchangeRecordId r)
       then bnd (gets (\<lambda>w. exch_findById K (ext w) (the (credentialExchangeRecordId r))))
         (\<lambda>stale. case stale of
            None \<Rightarrow> ret ()
          | Some e \<Rightarrow> exchange_update K (e\<lparr>ex_parentThreadId := None\<rparr>))
       else ret ())
      (ret (r\<lparr>credentialExchangeRecordId := None, subprotocolThid := None, issuance := None\<rparr>))"

definition reattachOnboardingProcessRecord ::
  "('st, 'x) env \<Rightarrow> string \<Rightarrow> string \<Rightarrow>
   (('st, 'x) world, err, onboarding_request \<times> vt_flow_record) comp" where
  "reattachOnboardingProcessRecord K vtFlowRecordId conn =
     bnd (getById K vtFlowRecordId) (\<lambda>record.
     sqn (assertRole record Applicant)
    (sqn (assertVariant record OnboardingProcess)
    (sqn (guard (\<not> (isVtFlowTerminalState (state record) \<or> state record = Completed \<or>
                      state record = CredRevoked))
            (CredoError (msg_cannot (rec_id record) (state record) ''re-attached'')))
    (sqn (guard (truthy (applicantParticipantId record))
            (CredoError (msg_no_participant (rec_id record))))
    (bnd (generateId K) (\<lambda>mid.
     let message = (newOnboardingRequest mid (the (applicantParticipantId record))
           (participantSessionId record) (agentParticipantId record)
           (walletAgentParticipantId record) (claims record) (proofsAttach record))
           \<lparr>msg_thid := Some (threadId record)\<rparr>;
         record1 = record\<lparr>connectionId := conn\<rparr>
     in if state record1 = CredOffered
        then bnd (releaseCredentialExchange K record1) (\<lambda>record2.
             bnd (updateState K record2 Validating) (\<lambda>record3. ret (message, record3)))
        else sqn (repository_update K record1) (ret (message, record1))))))))"

end
