(* ===== verification/FlowInbound.thy ===== *)
theory FlowInbound
  imports FlowService
begin

text \<open>
  The inbound half of \<open>VtFlowService\<close>: the peer checks (\<open>isSamePeer\<close>, VS-CONN-VS with its ECS
  exemption) and every \<open>processReceive...\<close> method, with the message handlers of \<open>handlers/\<close> that
  call them.
\<close>

section \<open>Inbound context\<close>

record 'm inbound =
  in_message :: 'm
  in_connection :: "did_connection option"

definition assertReadyConnection ::
  "('st, 'x) env \<Rightarrow> 'm inbound \<Rightarrow> (('st, 'x) world, err, did_connection) comp" where
  "assertReadyConnection K mc = raise (\<lambda>w. ctx_assertReadyConnection K (in_connection mc))"

lemma post_assertReadyConnection [wp]:
  "post (assertReadyConnection K mc) Q E w =
     (case ctx_assertReadyConnection K (in_connection mc) of Inl e \<Rightarrow> E e w | Inr c \<Rightarrow> Q c w)"
  by (simp add: assertReadyConnection_def wp)

section \<open>Peer checks\<close>

definition samePeer :: "('st, 'x) env \<Rightarrow> ('st, 'x) world \<Rightarrow> vt_flow_record \<Rightarrow> did_connection \<Rightarrow> bool" where
  "samePeer K w r c =
     (if connectionId r = conn_id c then True
      else case conn_findById K (ext w) (connectionId r) of
             None \<Rightarrow> True
           | Some previous \<Rightarrow>
               \<not> (truthy (conn_theirDid previous) \<and> truthy (conn_theirDid c) \<and>
                  conn_theirDid previous \<noteq> conn_theirDid c))"

definition isSamePeer ::
  "('st, 'x) env \<Rightarrow> vt_flow_record \<Rightarrow> did_connection \<Rightarrow> (('st, 'x) world, err, bool) comp" where
  "isSamePeer K r c = gets (\<lambda>w. samePeer K w r c)"

lemma post_isSamePeer [wp]: "post (isSamePeer K r c) Q E w = Q (samePeer K w r c) w"
  by (simp add: isSamePeer_def wp)

definition assertNotTerminated :: "vt_flow_record \<Rightarrow> ('s, err, unit) comp" where
  "assertNotTerminated r =
     guard (\<not> isVtFlowTerminalState (state r))
       (VtFlowError EC_InvalidParticipantSessionId (msg_collides (participantSessionId r)))"

definition assertSamePeer ::
  "('st, 'x) env \<Rightarrow> vt_flow_record \<Rightarrow> did_connection \<Rightarrow> (('st, 'x) world, err, unit) comp" where
  "assertSamePeer K r c =
     bnd (isSamePeer K r c) (\<lambda>same. guard same
       (VtFlowError EC_InvalidParticipantSessionId
         (msg_other_peer (conn_id c) (participantSessionId r))))"

lemma post_assertNotTerminated [wp]:
  "post (assertNotTerminated r) Q E s =
     (if isVtFlowTerminalState (state r)
      then E (VtFlowError EC_InvalidParticipantSessionId (msg_collides (participantSessionId r))) s
      else Q () s)"
  by (simp add: assertNotTerminated_def wp)

lemma post_assertSamePeer [wp]:
  "post (assertSamePeer K r c) Q E w =
     (if samePeer K w r c then Q () w
      else E (VtFlowError EC_InvalidParticipantSessionId
                (msg_other_peer (conn_id c) (participantSessionId r))) w)"
  by (simp add: assertSamePeer_def wp)

text \<open>The exemption hook of \<open>isExemptFromVsConnVs\<close>; a hook that throws exempts nobody.\<close>

definition isExemptFromVsConnVs ::
  "('st, 'x) env \<Rightarrow> did_connection \<Rightarrow> string \<Rightarrow> request_purpose \<Rightarrow>
   (('st, 'x) world, err, bool) comp" where
  "isExemptFromVsConnVs K c peerDid purpose =
     (case checkEcsIssuanceExemption (config K) of
        None \<Rightarrow> ret False
      | Some exemption \<Rightarrow> catch (exemption peerDid (conn_id c) purpose) (\<lambda>e. ret False))"

definition checkIsVerifiableService ::
  "('st, 'x) env \<Rightarrow> did_connection \<Rightarrow> request_purpose option \<Rightarrow>
   (('st, 'x) world, err, unit) comp" where
  "checkIsVerifiableService K c purpose =
     (let peerDid = peerAnchorDid c in
      sqn (guard (truthy (conn_theirDid c) \<and> truthy peerDid)
             (CredoError (msg_no_their_did (conn_id c))))
        (case assertVerifiableService (config K) of
           None \<Rightarrow> ret ()
         | Some hook \<Rightarrow>
             bnd (catch (bnd (hook (the peerDid) (conn_id c)) (\<lambda>permitted. ret (permitted, None)))
                    (\<lambda>e. ret (False, Some (error_message e))))
               (\<lambda>(permitted, failure).
                 if permitted then ret ()
                 else
                   bnd (case purpose of
                          None \<Rightarrow> ret False
                        | Some pu \<Rightarrow> isExemptFromVsConnVs K c (the peerDid) pu)
                     (\<lambda>exempt.
                       if exempt then ret ()
                       else throw (VtFlowError EC_NotAVerifiableService
                              (msg_not_vs (the peerDid) failure))))))"

text \<open>
  The \<open>catch\<close> clause of \<open>checkRequestFromVerifiableService\<close>: a \<open>VtFlowError\<close> ends the flow of the
  request in ERROR, unless that flow has ended or belongs to another peer, and is thrown again.
\<close>

definition failRequest ::
  "('st, 'x) env \<Rightarrow> did_connection \<Rightarrow> vt_flow_record \<Rightarrow> bool \<Rightarrow> err \<Rightarrow>
   (('st, 'x) world, err, unit) comp" where
  "failRequest K c record isNew error =
     (case error of
        VtFlowError code text \<Rightarrow>
          bnd (if isNew then ret record else getById K (rec_id record)) (\<lambda>latest.
          bnd (if isNew then ret True
               else if isVtFlowTerminalState (state latest) then ret False
               else isSamePeer K latest c) (\<lambda>mark.
          sqn (if mark then
                 bnd (now_iso K) (\<lambda>now.
                 let latest1 = appendMessage (latest\<lparr>errorMessage := Some text\<rparr>)
                       (vmsg MT_ProblemReport (Some (defaultEnglishDescription code)) now None)
                 in if isNew
                    then let latest2 = latest1\<lparr>state := Error\<rparr> in
                         sqn (repository_save K latest2) (emitStateChanged latest2 None)
                    else bnd (updateState K latest1 Error) (\<lambda>_. ret ()))
               else ret ())
            (throw error)))
      | _ \<Rightarrow> throw error)"

definition checkRequestFromVerifiableService ::
  "('st, 'x) env \<Rightarrow> did_connection \<Rightarrow> vt_flow_record \<Rightarrow> bool \<Rightarrow> request_purpose \<Rightarrow>
   (('st, 'x) world, err, unit) comp" where
  "checkRequestFromVerifiableService K c record isNew purpose =
     catch (checkIsVerifiableService K c (Some purpose)) (failRequest K c record isNew)"

section \<open>Requests received by the validator\<close>

text \<open>
  A re-attached flow takes the connection and the thread of the request; while it waits to be
  accepted, or is being renewed, also the claims and proofs the request carries.
\<close>

definition reattached ::
  "did_connection \<Rightarrow> onboarding_request \<Rightarrow> vt_flow_record \<Rightarrow> vt_flow_record" where
  "reattached connection message fresh =
     (let fresh1 = fresh\<lparr>connectionId := conn_id connection, connectionTerminated := None\<rparr>
      in if threadId fresh1 \<noteq> msg_threadId message then
           let f = fresh1\<lparr>threadId := msg_threadId message\<rparr> in
           if state f = AwaitingOr \<or> isVtFlowRenewable f then
             let g = (if or_claims message \<noteq> None then f\<lparr>claims := or_claims message\<rparr> else f)
             in if or_proofsAttach message \<noteq> None
                then g\<lparr>proofsAttach := or_proofsAttach message\<rparr> else g
           else f
         else fresh1)"

lemma reattached_sel [simp]:
  "rec_id (reattached c m r) = rec_id r" "createdAt (reattached c m r) = createdAt r"
  "role (reattached c m r) = role r" "variant (reattached c m r) = variant r"
  "participantSessionId (reattached c m r) = participantSessionId r"
  "state (reattached c m r) = state r" "oobLink (reattached c m r) = oobLink r"
  "connectionId (reattached c m r) = conn_id c" "threadId (reattached c m r) = msg_threadId m"
  "connectionTerminated (reattached c m r) = None"
  "applicantParticipantRole (reattached c m r) = applicantParticipantRole r"
  "credentialExchangeRecordId (reattached c m r) = credentialExchangeRecordId r"
  "validation (reattached c m r) = validation r"
  by (auto simp: reattached_def Let_def)

lemma renewable_reattached [simp]:
  "isVtFlowRenewable (reattached c m r) = isVtFlowRenewable r"
  by (simp add: isVtFlowRenewable_def)

text \<open>What an onboarding-request does to the flow it re-attaches, once every check has passed.\<close>

definition resumeOnboarding ::
  "('st, 'x) env \<Rightarrow> did_connection \<Rightarrow> onboarding_request \<Rightarrow> vt_flow_record \<Rightarrow>
   (('st, 'x) world, err, vt_flow_record) comp" where
  "resumeOnboarding K connection message fresh =
     (let reconnected = connectionTerminated fresh;
          fresh1 = reattached connection message fresh
      in if isVtFlowRenewable fresh1 then
           updateState K (fresh1\<lparr>oobLink := None, validation := None, issuance := None\<rparr>)
             AwaitingOr
         else if state fresh1 = CredOffered then
           bnd (releaseCredentialExchange K fresh1) (\<lambda>f. updateState K f Validated)
         else
           sqn (repository_update K fresh1)
          (sqn (whenM (state fresh1 = AwaitingOr \<or>
                        (reconnected = Some True \<and> state fresh1 = Validated))
                  (emitStateChanged fresh1 (Some (state fresh1))))
            (ret fresh1)))"

definition resumeIssuance ::
  "('st, 'x) env \<Rightarrow> did_connection \<Rightarrow> issuance_request \<Rightarrow> vt_flow_record \<Rightarrow>
   (('st, 'x) world, err, vt_flow_record) comp" where
  "resumeIssuance K connection message fresh =
     (let fresh1 = fresh\<lparr>connectionId := conn_id connection, threadId := msg_threadId message\<rparr>
      in if state fresh1 = CredOffered then
           bnd (releaseCredentialExchange K fresh1) (\<lambda>f. updateState K f Validating)
         else sqn (repository_update K fresh1) (ret fresh1))"

definition processReceiveOnboardingRequest ::
  "('st, 'x) env \<Rightarrow> onboarding_request inbound \<Rightarrow> (('st, 'x) world, err, vt_flow_record) comp" where
  "processReceiveOnboardingRequest K mc =
     (let message = in_message mc in
      bnd (assertReadyConnection K mc) (\<lambda>connection.
      bnd (findByParticipantSessionId K (or_participantSessionId message) (Some Validator))
        (\<lambda>existing.
      bnd (case existing of
             Some ex \<Rightarrow> ret ex
           | None \<Rightarrow>
               bnd (generateId K) (\<lambda>uid.
               bnd (date_now K) (\<lambda>t.
               ret ((newVtFlowRecord uid t (msg_threadId message)
                      (or_participantSessionId message) (conn_id connection) Validator AwaitingOr
                      OnboardingProcess (or_agentParticipantId message)
                      (or_walletAgentParticipantId message))
                    \<lparr>applicantParticipantId := Some (or_participantId message),
                     claims := or_claims message, proofsAttach := or_proofsAttach message\<rparr>))))
        (\<lambda>record.
      sqn (checkRequestFromVerifiableService K connection record (existing = None)
             (\<lparr> pu_participantId = Some (or_participantId message), pu_schemaId = None \<rparr>))
        (case existing of
           Some ex \<Rightarrow>
             sqn (assertNotTerminated ex)
            (sqn (guard (applicantParticipantId ex = Some (or_participantId message))
                   (VtFlowError EC_InvalidParticipantSessionId
                     (msg_mismatch ''participant_id'' (or_participantId message)
                       (or_participantSessionId message))))
            (sqn (assertSamePeer K ex connection)
            (bnd (getById K (rec_id ex)) (\<lambda>fresh.
             sqn (assertNotTerminated fresh)
             (resumeOnboarding K connection message fresh)))))
         | None \<Rightarrow>
             sqn (repository_save K record)
            (sqn (emitStateChanged record None)
              (ret record)))))))"

definition processReceiveIssuanceRequest ::
  "('st, 'x) env \<Rightarrow> issuance_request inbound \<Rightarrow> (('st, 'x) world, err, vt_flow_record) comp" where
  "processReceiveIssuanceRequest K mc =
     (let message = in_message mc in
      bnd (assertReadyConnection K mc) (\<lambda>connection.
      bnd (findByParticipantSessionId K (ir_participantSessionId message) (Some Validator))
        (\<lambda>existing.
      bnd (case existing of
             Some ex \<Rightarrow> ret ex
           | None \<Rightarrow>
               bnd (generateId K) (\<lambda>uid.
               bnd (date_now K) (\<lambda>t.
               ret ((newVtFlowRecord uid t (msg_threadId message)
                      (ir_participantSessionId message) (conn_id connection) Validator AwaitingIr
                      DirectIssuance (ir_agentParticipantId message)
                      (ir_walletAgentParticipantId message))
                    \<lparr>schemaId := Some (ir_schemaId message), claims := ir_claims message\<rparr>))))
        (\<lambda>record.
      sqn (checkRequestFromVerifiableService K connection record (existing = None)
             (\<lparr> pu_participantId = None, pu_schemaId = Some (ir_schemaId message) \<rparr>))
        (case existing of
           Some ex \<Rightarrow>
             sqn (assertNotTerminated ex)
            (sqn (guard (variant ex = DirectIssuance \<and> schemaId ex = Some (ir_schemaId message))
                   (VtFlowError EC_InvalidParticipantSessionId
                     (msg_mismatch ''schema_id'' (ir_schemaId message)
                       (ir_participantSessionId message))))
            (sqn (assertSamePeer K ex connection)
            (bnd (getById K (rec_id ex)) (\<lambda>fresh.
             sqn (assertNotTerminated fresh)
             (resumeIssuance K connection message fresh)))))
         | None \<Rightarrow>
             sqn (repository_save K record)
            (sqn (emitStateChanged record None)
              (ret record)))))))"

section \<open>Messages received by the applicant\<close>

definition processReceiveOobLink ::
  "('st, 'x) env \<Rightarrow> oob_link_message inbound \<Rightarrow> (('st, 'x) world, err, vt_flow_record) comp" where
  "processReceiveOobLink K mc =
     (let message = in_message mc in
      bnd (assertReadyConnection K mc) (\<lambda>_.
      bnd (getByThreadId K (msg_threadId message)) (\<lambda>record.
      sqn (assertRole record Applicant)
     (sqn (assertState record [OrSent, IrSent, Validating, OobPending])
     (bnd (now_iso K) (\<lambda>now.
      let record1 = record\<lparr>oobLink := Some
            \<lparr> ol_url = om_url message, ol_description = om_description message,
              ol_expiresAt = map_option toISOString (om_expiresTime message), ol_at = now \<rparr>\<rparr>;
          record2 = appendMessage record1
            (vmsg MT_OobLink (Some (om_description message)) now (Some (om_url message)))
      in updateState K record2 OobPending))))))"

definition processReceiveValidating ::
  "('st, 'x) env \<Rightarrow> validating_message inbound \<Rightarrow> (('st, 'x) world, err, vt_flow_record) comp" where
  "processReceiveValidating K mc =
     (let message = in_message mc in
      bnd (assertReadyConnection K mc) (\<lambda>_.
      bnd (getByThreadId K (msg_threadId message)) (\<lambda>record.
      bnd (if role record = Applicant \<and>
              (truthy (va_comment message) \<or> state record = OobPending)
           then bnd (now_iso K) (\<lambda>now.
                let record1 = appendMessage record
                      (vmsg MT_Validating (va_comment message) now None)
                in sqn (updateRecord K record1) (ret record1))
           else ret record)
        (\<lambda>record1.
           if role record1 = Applicant \<and> state record1 \<in> set [OrSent, IrSent, OobPending]
           then updateState K record1 Validating
           else ret record1))))"

definition processReceiveCredentialStateChange ::
  "('st, 'x) env \<Rightarrow> credential_state_change inbound \<Rightarrow>
   (('st, 'x) world, err, vt_flow_record option) comp" where
  "processReceiveCredentialStateChange K mc =
     (let message = in_message mc in
      bnd (assertReadyConnection K mc) (\<lambda>_.
      bnd (findByThreadId K (msg_threadId message)) (\<lambda>found. case found of
        None \<Rightarrow> ret None
      | Some record \<Rightarrow>
          if cs_state message = VtCredentialState_Revoked
          then bnd (updateState K record CredRevoked) (\<lambda>r. ret (Some r))
          else ret (Some record))))"

definition processReceiveProblemReport ::
  "('st, 'x) env \<Rightarrow> problem_report inbound \<Rightarrow> (('st, 'x) world, err, vt_flow_record option) comp" where
  "processReceiveProblemReport K mc =
     (let message = in_message mc in
      bnd (findByThreadId K (msg_threadId message)) (\<lambda>found. case found of
        None \<Rightarrow> ret None
      | Some record \<Rightarrow>
          if isVtFlowTerminalState (state record) then ret (Some record)
          else
            let code = pr_code message;
                inf = (if truthy code then map_option VT_FLOW_ERROR_INFO (code_of_str (the code))
                       else None)
            in bnd (if role record = Applicant
                    then bnd (now_iso K) (\<lambda>now.
                         ret (appendMessage record
                           (vmsg MT_ProblemReport (Some (withDefault (orElse (pr_en message) code) ''problem-report'')) now None)))
                    else ret record)
                (\<lambda>record1.
                   case (case inf of
                           None \<Rightarrow> None
                         | Some i \<Rightarrow> resolveErrorFlowState (ei_flowState i) (role record1)
                             (withDefault (pr_whoRetries message)
                               (whoRetriesMap (ei_whoRetries i)))) of
                     None \<Rightarrow> sqn (updateRecord K record1) (ret (Some record1))
                   | Some target \<Rightarrow>
                       bnd (updateState K (record1\<lparr>errorMessage := orElse (pr_en message) code\<rparr>)
                              target)
                         (\<lambda>r. ret (Some r)))))"

section \<open>Handlers\<close>

text \<open>
  A request handler answers a \<open>VtFlowError\<close> with a problem-report on the message's thread; the other
  handlers delegate.
\<close>

definition answerVtFlowError ::
  "('st, 'x) env \<Rightarrow> string \<Rightarrow> 'm inbound \<Rightarrow> (('st, 'x) world, err, vt_flow_record) comp \<Rightarrow>
   (('st, 'x) world, err, problem_report option) comp" where
  "answerVtFlowError K thid mc m =
     catch (bnd m (\<lambda>_. ret None))
       (\<lambda>error. case error of
          VtFlowError code text \<Rightarrow>
            bnd (generateId K) (\<lambda>i.
            bnd (assertReadyConnection K mc) (\<lambda>_.
            ret (Some (buildVtFlowProblemReport i code thid None None None None))))
        | _ \<Rightarrow> throw error)"

definition handleOnboardingRequest ::
  "('st, 'x) env \<Rightarrow> onboarding_request inbound \<Rightarrow>
   (('st, 'x) world, err, problem_report option) comp" where
  "handleOnboardingRequest K mc =
     answerVtFlowError K (msg_threadId (in_message mc)) mc (processReceiveOnboardingRequest K mc)"

definition handleIssuanceRequest ::
  "('st, 'x) env \<Rightarrow> issuance_request inbound \<Rightarrow>
   (('st, 'x) world, err, problem_report option) comp" where
  "handleIssuanceRequest K mc =
     answerVtFlowError K (msg_threadId (in_message mc)) mc (processReceiveIssuanceRequest K mc)"

definition handleOobLink ::
  "('st, 'x) env \<Rightarrow> oob_link_message inbound \<Rightarrow> (('st, 'x) world, err, unit) comp" where
  "handleOobLink K mc = bnd (processReceiveOobLink K mc) (\<lambda>_. ret ())"

definition handleValidating ::
  "('st, 'x) env \<Rightarrow> validating_message inbound \<Rightarrow> (('st, 'x) world, err, unit) comp" where
  "handleValidating K mc = bnd (processReceiveValidating K mc) (\<lambda>_. ret ())"

definition handleCredentialStateChange ::
  "('st, 'x) env \<Rightarrow> credential_state_change inbound \<Rightarrow> (('st, 'x) world, err, unit) comp" where
  "handleCredentialStateChange K mc = bnd (processReceiveCredentialStateChange K mc) (\<lambda>_. ret ())"

definition handleProblemReport ::
  "('st, 'x) env \<Rightarrow> problem_report inbound \<Rightarrow> (('st, 'x) world, err, unit) comp" where
  "handleProblemReport K mc = bnd (processReceiveProblemReport K mc) (\<lambda>_. ret ())"

end
