(* ===== verification/FlowActions.thy ===== *)
theory FlowActions
  imports FlowInbound
begin

text \<open>
  The local half of \<open>VtFlowService\<close>: what the agent's operator, its hooks and the chain drive.
  Acceptance and rejection, the three terminations, the out-of-band step, the validation record, the
  credential exchange, and the mapping of a credential exchange state onto the flow.
\<close>

section \<open>Acceptance and rejection\<close>

definition acceptOnboardingRequest ::
  "('st, 'x) env \<Rightarrow> string \<Rightarrow>
   (('st, 'x) world, err, vt_flow_record \<times> validating_message option) comp" where
  "acceptOnboardingRequest K recordId =
     bnd (getById K recordId) (\<lambda>record0.
     sqn (assertRole record0 Validator)
    (sqn (assertState record0 [AwaitingOr])
    (sqn (assertVariant record0 OnboardingProcess)
     (let move = (\<lambda>record. bnd (updateState K record Validating) (\<lambda>r.
                   bnd (generateId K) (\<lambda>i.
                   ret (r, Some (newValidatingMessage i (threadId r) None)))))
      in case checkParticipantId (config K) of
           None \<Rightarrow> move record0
         | Some check \<Rightarrow>
             bnd (check record0) (\<lambda>checked.
             sqn (guard (checked \<noteq> CheckFalse)
                   (VtFlowError EC_InvalidParticipantId
                     (msg_not_pending (applicantParticipantId record0))))
            (bnd (getById K recordId) (\<lambda>record.
             if checked = CheckValidated then ret (record, None)
             else sqn (assertState record [AwaitingOr]) (move record))))))))"

definition acceptIssuanceRequest ::
  "('st, 'x) env \<Rightarrow> string \<Rightarrow>
   (('st, 'x) world, err, vt_flow_record \<times> validating_message) comp" where
  "acceptIssuanceRequest K recordId =
     bnd (getById K recordId) (\<lambda>record.
     sqn (assertRole record Validator)
    (sqn (assertState record [AwaitingIr])
    (sqn (assertVariant record DirectIssuance)
    (bnd (updateState K record Validating) (\<lambda>r.
     bnd (generateId K) (\<lambda>i.
     ret (r, newValidatingMessage i (threadId r) None)))))))"

definition rejectRequest ::
  "('st, 'x) env \<Rightarrow> string \<Rightarrow> vt_flow_error_code \<Rightarrow> string option \<Rightarrow> string option \<Rightarrow>
   (('st, 'x) world, err, vt_flow_record \<times> problem_report) comp" where
  "rejectRequest K recordId code enDescription fixHintEn =
     bnd (getById K recordId) (\<lambda>record.
     sqn (guard (\<not> isVtFlowTerminalState (state record))
            (CredoError (msg_cannot (rec_id record) (state record) ''rejected'')))
    (bnd (generateId K) (\<lambda>i.
     let problemReport =
           buildVtFlowProblemReport i code (threadId record) enDescription fixHintEn None None;
         inf = VT_FLOW_ERROR_INFO code;
         receiverRole = (if role record = Validator then Applicant else Validator);
         fatalState = resolveErrorFlowState (ei_flowState inf) receiverRole
                        (whoRetriesMap (ei_whoRetries inf));
         retryState = (if variant record = OnboardingProcess then AwaitingOr else AwaitingIr)
     in sqn (whenM (fatalState = None \<and> role record = Validator)
               (assertState record [AwaitingOr, AwaitingIr, Validating, OobPending]))
       (bnd (if role record = Validator
             then bnd (now_iso K) (\<lambda>now.
                  ret (appendMessage record (vmsg MT_ProblemReport (pr_en problemReport) now None)))
             else ret record)
          (\<lambda>record1.
           let record2 = (if fatalState \<noteq> None
                  then record1\<lparr>errorMessage := Some (withDefault enDescription (code_str code))\<rparr>
                  else record1);
               target = (case fatalState of
                    Some s \<Rightarrow> s
                  | None \<Rightarrow> (if role record2 = Validator then retryState else state record2))
           in bnd (updateState K record2 target) (\<lambda>r. ret (r, problemReport)))))))"

section \<open>Terminations\<close>

definition terminateByApplicant ::
  "('st, 'x) env \<Rightarrow> string \<Rightarrow> vt_flow_error_code option \<Rightarrow> string option \<Rightarrow> string option \<Rightarrow>
   (('st, 'x) world, err, vt_flow_record \<times> problem_report) comp" where
  "terminateByApplicant K recordId code0 enDescription fixHintEn =
     bnd (getById K recordId) (\<lambda>record.
     sqn (assertRole record Applicant)
    (bnd (generateId K) (\<lambda>i.
     let code = withDefault code0 EC_SessionTerminated;
         problemReport =
           buildVtFlowProblemReport i code (threadId record) enDescription fixHintEn None None;
         record1 = record\<lparr>errorMessage := Some (withDefault enDescription (code_str code))\<rparr>
     in bnd (updateState K record1 TerminatedByApplicant) (\<lambda>r. ret (r, problemReport)))))"

definition terminateByValidator_from :: "vt_flow_state list" where
  "terminateByValidator_from =
     [AwaitingOr, AwaitingIr, Validating, OobPending, AwaitingValidationTx, ValidationTxFailed,
      CredOffered, Completed]"

definition terminateByValidator ::
  "('st, 'x) env \<Rightarrow> string \<Rightarrow> vt_flow_error_code option \<Rightarrow> string option \<Rightarrow> string option \<Rightarrow>
   (('st, 'x) world, err, vt_flow_record \<times> problem_report) comp" where
  "terminateByValidator K recordId code0 enDescription fixHintEn =
     bnd (getById K recordId) (\<lambda>record.
     sqn (assertRole record Validator)
    (sqn (assertState record terminateByValidator_from)
    (bnd (generateId K) (\<lambda>i.
     let code = withDefault code0 EC_SessionTerminated;
         problemReport =
           buildVtFlowProblemReport i code (threadId record) enDescription fixHintEn None None;
         record1 = record\<lparr>errorMessage := Some (withDefault enDescription (code_str code))\<rparr>
     in bnd (now_iso K) (\<lambda>now.
        let record2 = (appendMessage record1
              (vmsg MT_ProblemReport (pr_en problemReport) now None))
              \<lparr>connectionTerminated := Some True\<rparr>
        in bnd (updateState K record2 TerminatedByValidator) (\<lambda>r. ret (r, problemReport)))))))"

text \<open>The two states a chain event ends a flow in, which the parameter's type allows.\<close>

datatype chain_end = End_ParticipantRevoked | End_ParticipantSlashed

fun chain_end_state :: "chain_end \<Rightarrow> vt_flow_state" where
  "chain_end_state End_ParticipantRevoked = ParticipantRevoked"
| "chain_end_state End_ParticipantSlashed = ParticipantSlashed"

definition terminateByChainEvent ::
  "('st, 'x) env \<Rightarrow> string \<Rightarrow> vt_flow_error_code \<Rightarrow> chain_end \<Rightarrow> string option \<Rightarrow>
   (('st, 'x) world, err, vt_flow_record \<times> problem_report) comp" where
  "terminateByChainEvent K recordId code ending enDescription =
     bnd (getById K recordId) (\<lambda>record.
     bnd (generateId K) (\<lambda>i.
     let problemReport =
           buildVtFlowProblemReport i code (threadId record) enDescription None None None;
         record1 = record\<lparr>errorMessage := Some (withDefault enDescription (code_str code))\<rparr>
     in bnd (updateState K record1 (chain_end_state ending)) (\<lambda>r. ret (r, problemReport))))"

section \<open>The out-of-band step\<close>

definition sendOobLinkForSession ::
  "('st, 'x) env \<Rightarrow> string \<Rightarrow> string \<Rightarrow> string \<Rightarrow> int option \<Rightarrow>
   (('st, 'x) world, err, vt_flow_record \<times> oob_link_message) comp" where
  "sendOobLinkForSession K recordId url description expiresTime =
     bnd (getById K recordId) (\<lambda>record.
     sqn (assertRole record Validator)
    (sqn (assertState record [Validating, OobPending])
    (bnd (generateId K) (\<lambda>i.
     let message = newOobLinkMessage i (threadId record) url description expiresTime
     in bnd (now_iso K) (\<lambda>now.
        let record1 = record\<lparr>oobLink := Some
              \<lparr> ol_url = url, ol_description = description,
                ol_expiresAt = map_option toISOString expiresTime, ol_at = now \<rparr>\<rparr>;
            record2 = appendMessage record1 (vmsg MT_OobLink (Some description) now (Some url))
        in bnd (updateState K record2 OobPending) (\<lambda>r. ret (r, message)))))))"

definition sendValidatingForSession ::
  "('st, 'x) env \<Rightarrow> string \<Rightarrow> string option \<Rightarrow>
   (('st, 'x) world, err, vt_flow_record \<times> validating_message) comp" where
  "sendValidatingForSession K recordId comment =
     bnd (getById K recordId) (\<lambda>record.
     sqn (assertRole record Validator)
    (sqn (assertState record [OobPending])
    (bnd (generateId K) (\<lambda>i.
     let message = newValidatingMessage i (threadId record) comment
     in bnd (now_iso K) (\<lambda>now.
        let record1 = appendMessage record (vmsg MT_Validating comment now None)
        in bnd (updateState K record1 Validating) (\<lambda>r. ret (r, message)))))))"

section \<open>Validation and completion\<close>

definition recordValidation ::
  "('st, 'x) env \<Rightarrow> string \<Rightarrow> vt_flow_validation \<Rightarrow> vt_flow_state option \<Rightarrow>
   (('st, 'x) world, err, vt_flow_record) comp" where
  "recordValidation K recordId v newState =
     bnd (getById K recordId) (\<lambda>record.
     sqn (assertRole record Validator)
     (let record1 = record\<lparr>validation := Some v\<rparr>
      in case newState of
           Some s \<Rightarrow> updateState K record1 s
         | None \<Rightarrow> sqn (updateRecord K record1) (ret record1)))"

definition recordIssuance ::
  "('st, 'x) env \<Rightarrow> string \<Rightarrow> vt_flow_issuance \<Rightarrow> (('st, 'x) world, err, vt_flow_record) comp" where
  "recordIssuance K recordId iss =
     bnd (getById K recordId) (\<lambda>record.
     sqn (assertRole record Validator)
     (let record1 = record\<lparr>issuance := Some iss\<rparr>
      in sqn (updateRecord K record1) (ret record1)))"

definition markPendingClaims ::
  "('st, 'x) env \<Rightarrow> string \<Rightarrow> (('st, 'x) world, err, vt_flow_record) comp" where
  "markPendingClaims K recordId =
     bnd (getById K recordId) (\<lambda>record.
     sqn (assertRole record Validator)
    (sqn (assertState record [Validated])
     (updateState K record ValidatedPendingClaims)))"

definition markValidated ::
  "('st, 'x) env \<Rightarrow> string \<Rightarrow> (('st, 'x) world, err, vt_flow_record) comp" where
  "markValidated K recordId =
     bnd (getById K recordId) (\<lambda>record.
     sqn (assertRole record Validator)
    (sqn (assertState record VtFlowValidatedFromStates)
    (sqn (assertVariant record OnboardingProcess)
     (updateState K record Validated))))"

definition markCompleted ::
  "('st, 'x) env \<Rightarrow> string \<Rightarrow> (('st, 'x) world, err, vt_flow_record) comp" where
  "markCompleted K recordId =
     bnd (getById K recordId) (\<lambda>record.
     sqn (assertVariant record OnboardingProcess)
      (if state record = Completed then ret record
       else sqn (guard (\<not> isVtFlowTerminalState (state record))
                   (CredoError (msg_terminal (state record))))
              (updateState K record Completed)))"

section \<open>The credential exchange\<close>

definition canOffer_from :: "vt_flow_record \<Rightarrow> vt_flow_state list" where
  "canOffer_from r =
     [Validated, ValidatedPendingClaims, Completed] @
     (if variant r = DirectIssuance then [Validating] else [])"

definition assertCanOfferCredential :: "vt_flow_record \<Rightarrow> ('s, err, unit) comp" where
  "assertCanOfferCredential record =
     sqn (assertRole record Validator) (assertState record (canOffer_from record))"

definition attachCredentialExchangeRecord ::
  "('st, 'x) env \<Rightarrow> string \<Rightarrow> cred_exchange \<Rightarrow> string option \<Rightarrow> int option \<Rightarrow> string option \<Rightarrow>
   (('st, 'x) world, err, vt_flow_record) comp" where
  "attachCredentialExchangeRecord K recordId ex digest issuer credId =
     bnd (getById K recordId) (\<lambda>record.
     sqn (assertCanOfferCredential record)
     (let record1 = record\<lparr>credentialExchangeRecordId := Some (ex_id ex), credentialId := credId\<rparr>;
          record2 = (if truthy digest then record1\<lparr>credentialDigest := digest\<rparr> else record1);
          record3 = (if issuer \<noteq> None then record2\<lparr>issuerParticipantId := issuer\<rparr> else record2);
          record4 = record3\<lparr>subprotocolThid := Some (ex_threadId ex)\<rparr>
      in updateState K record4 CredOffered))"

definition setEcsSchemaKey ::
  "('st, 'x) env \<Rightarrow> string \<Rightarrow> string \<Rightarrow> (('st, 'x) world, err, vt_flow_record) comp" where
  "setEcsSchemaKey K recordId key =
     bnd (getById K recordId) (\<lambda>record.
     sqn (assertRole record Applicant)
     (let record1 = record\<lparr>ecsSchemaKey := Some key\<rparr>
      in sqn (repository_update K record1) (ret record1)))"

definition setCredentialId ::
  "('st, 'x) env \<Rightarrow> string \<Rightarrow> string \<Rightarrow> (('st, 'x) world, err, vt_flow_record) comp" where
  "setCredentialId K recordId credId =
     bnd (getById K recordId) (\<lambda>record.
     sqn (assertRole record Applicant)
     (let record1 = record\<lparr>credentialId := Some credId\<rparr>
      in sqn (repository_update K record1) (ret record1)))"

definition detachCredentialExchange ::
  "('st, 'x) env \<Rightarrow> string \<Rightarrow> string option \<Rightarrow> (('st, 'x) world, err, vt_flow_record) comp" where
  "detachCredentialExchange K recordId credId =
     bnd (getById K recordId) (\<lambda>record.
     sqn (assertRole record Applicant)
     (let record1 = (if truthy credId then record\<lparr>credentialId := credId\<rparr> else record);
          record2 = record1\<lparr>credentialExchangeRecordId := None\<rparr>
      in sqn (repository_update K record2) (ret record2)))"

definition setCredentialDigest ::
  "('st, 'x) env \<Rightarrow> string \<Rightarrow> string \<Rightarrow> (('st, 'x) world, err, vt_flow_record) comp" where
  "setCredentialDigest K recordId digest =
     bnd (getById K recordId) (\<lambda>record.
     sqn (assertRole record Validator)
     (let record1 = record\<lparr>credentialDigest := Some digest\<rparr>
      in sqn (repository_update K record1) (ret record1)))"

definition notifyCredentialStateChange ::
  "('st, 'x) env \<Rightarrow> string \<Rightarrow> string \<Rightarrow> string \<Rightarrow> string option \<Rightarrow>
   (('st, 'x) world, err, vt_flow_record \<times> credential_state_change) comp" where
  "notifyCredentialStateChange K recordId newState thid reason =
     bnd (getById K recordId) (\<lambda>record.
     sqn (assertRole record Validator)
    (sqn (assertState record
            (if newState = VtCredentialState_Revoked then [Completed, CredRevoked] else [Completed]))
    (bnd (generateId K) (\<lambda>i.
     let message = newCredentialStateChange i (threadId record) thid newState reason
     in bnd (if newState = VtCredentialState_Revoked then updateState K record CredRevoked
             else ret record)
          (\<lambda>r. ret (r, message))))))"

definition updateClaims_from :: "vt_flow_state list" where
  "updateClaims_from =
     [AwaitingOr, OobPending, Validating, AwaitingValidationTx, ValidationTxSubmitted,
      ValidationTxFailed, ValidatedPendingClaims, CredRevoked]"

definition updateClaims ::
  "('st, 'x) env \<Rightarrow> string \<Rightarrow> json \<Rightarrow> (('st, 'x) world, err, vt_flow_record) comp" where
  "updateClaims K recordId cl =
     bnd (getById K recordId) (\<lambda>record.
     sqn (assertRole record Validator)
    (sqn (assertState record updateClaims_from)
     (let record1 = record\<lparr>claims := Some cl\<rparr>
      in sqn (updateRecord K record1) (ret record1))))"

definition onSubprotocolStateChanged ::
  "('st, 'x) env \<Rightarrow> vt_flow_record \<Rightarrow> cred_exchange \<Rightarrow>
   (('st, 'x) world, err, vt_flow_record) comp" where
  "onSubprotocolStateChanged K record0 ex =
     bnd (if \<not> truthy (credentialExchangeRecordId record0) \<or>
             credentialExchangeRecordId record0 \<noteq> Some (ex_id ex)
          then let record1 = record0\<lparr>credentialExchangeRecordId := Some (ex_id ex),
                                     subprotocolThid := Some (ex_threadId ex)\<rparr>
               in sqn (repository_update K record1) (ret record1)
          else ret record0)
       (\<lambda>record.
        if ex_state ex = CS_OfferSent then
          if state record \<noteq> CredOffered \<and> state record = Validated
          then updateState K record CredOffered else ret record
        else if ex_state ex = CS_OfferReceived then
          bnd (if variant record = OnboardingProcess \<and>
                  state record \<in> set [OrSent, Validating, OobPending]
               then updateState K record Validated else ret record)
            (\<lambda>record1. if state record1 \<noteq> CredOffered then updateState K record1 CredOffered
                       else ret record1)
        else if ex_state ex = CS_Done then
          if state record \<noteq> Completed then updateState K record Completed else ret record
        else if ex_state ex = CS_Abandoned \<or> ex_state ex = CS_Declined then
          if state record \<noteq> Error
          then updateState K
                 (record\<lparr>errorMessage := orElse (errorMessage record) (Some ''Subprotocol abandoned'')\<rparr>)
                 Error
          else ret record
        else ret record)"

lemma post_assertCanOfferCredential [wp]:
  "post (assertCanOfferCredential r) Q E s =
     (if role r = Validator then
        if state r \<in> set (canOffer_from r) then Q () s
        else E (CredoError (msg_state (state r) (canOffer_from r))) s
      else E (CredoError (msg_role (role r) Validator)) s)"
  by (simp add: assertCanOfferCredential_def wp)

end
