(* ===== verification/FlowSpec.thy ===== *)
theory FlowSpec
  imports FlowActions
begin

text \<open>
  The abstract contract of a vt-flow agent: a transition system over the stored flows and the emitted
  events, labelled with the operation that moves, with the table \<open>can_move\<close> of the moves each
  operation may make. The second half proves that \<open>VtFlowService\<close> refines it: whatever an operation
  returns or throws, the store and the event log it leaves are reached by steps of the system.
\<close>

section \<open>The transition system\<close>

type_synonym sys = "(string \<Rightarrow> vt_flow_record option) \<times> vt_flow_state_changed list"

datatype flow_op =
    Op_SendOR | Op_SendIR | Op_Reattach | Op_RecvOR | Op_RecvIR | Op_RecvOob | Op_RecvValidating
  | Op_RecvCredState | Op_RecvProblemReport | Op_AcceptOR | Op_AcceptIR | Op_Reject
  | Op_TermApplicant | Op_TermValidator | Op_TermChain | Op_SendOob | Op_SendValidating
  | Op_RecordValidation | Op_MarkPending | Op_MarkValidated | Op_MarkCompleted | Op_Attach
  | Op_Notify | Op_Exchange | Op_Touch | Op_ChainValidated | Op_ChainCancel

fun can_move ::
  "flow_op \<Rightarrow> vt_flow_role \<Rightarrow> vt_flow_variant \<Rightarrow> vt_flow_state \<Rightarrow> vt_flow_state \<Rightarrow> bool" where
  "can_move Op_SendOR rl v s t \<longleftrightarrow>
     rl = Applicant \<and> (s = Completed \<or> s = CredRevoked \<or> s = Validated) \<and> t = OrSent"
| "can_move Op_Reattach rl v s t \<longleftrightarrow>
     rl = Applicant \<and> v = OnboardingProcess \<and> s = CredOffered \<and> t = Validating"
| "can_move Op_RecvOR rl v s t \<longleftrightarrow>
     rl = Validator \<and>
     ((s = Completed \<or> s = CredRevoked \<or> s = Validated) \<and> t = AwaitingOr \<or>
      s = CredOffered \<and> t = Validated \<or>
      \<not> isVtFlowTerminalState s \<and> t = Error)"
| "can_move Op_RecvIR rl v s t \<longleftrightarrow>
     rl = Validator \<and>
     (v = DirectIssuance \<and> s = CredOffered \<and> t = Validating \<or>
      \<not> isVtFlowTerminalState s \<and> t = Error)"
| "can_move Op_RecvOob rl v s t \<longleftrightarrow>
     rl = Applicant \<and> (s = OrSent \<or> s = IrSent \<or> s = Validating) \<and> t = OobPending"
| "can_move Op_RecvValidating rl v s t \<longleftrightarrow>
     rl = Applicant \<and> (s = OrSent \<or> s = IrSent \<or> s = OobPending) \<and> t = Validating"
| "can_move Op_RecvCredState rl v s t \<longleftrightarrow> t = CredRevoked"
| "can_move Op_RecvProblemReport rl v s t \<longleftrightarrow>
     \<not> isVtFlowTerminalState s \<and> isVtFlowTerminalState t"
| "can_move Op_AcceptOR rl v s t \<longleftrightarrow>
     rl = Validator \<and> v = OnboardingProcess \<and> s = AwaitingOr \<and> t = Validating"
| "can_move Op_AcceptIR rl v s t \<longleftrightarrow>
     rl = Validator \<and> v = DirectIssuance \<and> s = AwaitingIr \<and> t = Validating"
| "can_move Op_Reject rl v s t \<longleftrightarrow>
     \<not> isVtFlowTerminalState s \<and>
     (isVtFlowTerminalState t \<or>
      rl = Validator \<and> (s = AwaitingOr \<or> s = AwaitingIr \<or> s = Validating \<or> s = OobPending) \<and>
      t = (if v = OnboardingProcess then AwaitingOr else AwaitingIr))"
| "can_move Op_TermApplicant rl v s t \<longleftrightarrow> rl = Applicant \<and> t = TerminatedByApplicant"
| "can_move Op_TermValidator rl v s t \<longleftrightarrow>
     rl = Validator \<and> s \<in> set terminateByValidator_from \<and> t = TerminatedByValidator"
| "can_move Op_TermChain rl v s t \<longleftrightarrow> t = ParticipantRevoked \<or> t = ParticipantSlashed"
| "can_move Op_SendOob rl v s t \<longleftrightarrow> rl = Validator \<and> s = Validating \<and> t = OobPending"
| "can_move Op_SendValidating rl v s t \<longleftrightarrow> rl = Validator \<and> s = OobPending \<and> t = Validating"
| "can_move Op_RecordValidation rl v s t \<longleftrightarrow> rl = Validator"
| "can_move Op_MarkPending rl v s t \<longleftrightarrow>
     rl = Validator \<and> s = Validated \<and> t = ValidatedPendingClaims"
| "can_move Op_MarkValidated rl v s t \<longleftrightarrow>
     rl = Validator \<and> v = OnboardingProcess \<and> s \<in> set VtFlowValidatedFromStates \<and> t = Validated"
| "can_move Op_MarkCompleted rl v s t \<longleftrightarrow>
     v = OnboardingProcess \<and> \<not> isVtFlowTerminalState s \<and> t = Completed"
| "can_move Op_Attach rl v s t \<longleftrightarrow>
     rl = Validator \<and>
     (s = Validated \<or> s = ValidatedPendingClaims \<or> s = Completed \<or>
      v = DirectIssuance \<and> s = Validating) \<and> t = CredOffered"
| "can_move Op_Notify rl v s t \<longleftrightarrow> rl = Validator \<and> s = Completed \<and> t = CredRevoked"
| "can_move Op_Exchange rl v s t \<longleftrightarrow>
     v = OnboardingProcess \<and> (s = OrSent \<or> s = Validating \<or> s = OobPending) \<and> t = Validated \<or>
     t = CredOffered \<or> t = Completed \<or> t = Error"
| "can_move Op_ChainValidated rl v s t \<longleftrightarrow>
     rl = Applicant \<and> (s = OrSent \<or> s = Validating \<or> s = OobPending) \<and> t = Validated"
| "can_move Op_ChainCancel rl v s t \<longleftrightarrow>
     \<not> isVtFlowTerminalState s \<and> (t = Completed \<or> t = TerminatedByApplicant)"
| "can_move _ rl v s t \<longleftrightarrow> False"

fun can_create :: "flow_op \<Rightarrow> vt_flow_role \<Rightarrow> vt_flow_variant \<Rightarrow> vt_flow_state \<Rightarrow> bool" where
  "can_create Op_SendOR rl v s \<longleftrightarrow> rl = Applicant \<and> v = OnboardingProcess \<and> s = OrSent"
| "can_create Op_SendIR rl v s \<longleftrightarrow> rl = Applicant \<and> v = DirectIssuance \<and> s = IrSent"
| "can_create Op_RecvOR rl v s \<longleftrightarrow>
     rl = Validator \<and> v = OnboardingProcess \<and> (s = AwaitingOr \<or> s = Error)"
| "can_create Op_RecvIR rl v s \<longleftrightarrow>
     rl = Validator \<and> v = DirectIssuance \<and> (s = AwaitingIr \<or> s = Error)"
| "can_create _ rl v s \<longleftrightarrow> False"

text \<open>What a write never changes of a flow, and when it may leave an out-of-band link behind.\<close>

definition same_session :: "vt_flow_record \<Rightarrow> vt_flow_record \<Rightarrow> bool" where
  "same_session r0 r \<longleftrightarrow>
     rec_id r = rec_id r0 \<and> createdAt r = createdAt r0 \<and> role r = role r0 \<and>
     variant r = variant r0 \<and> participantSessionId r = participantSessionId r0"

lemma same_session_refl [simp, intro]: "same_session r r"
  by (simp add: same_session_def)

definition link_ok :: "vt_flow_record \<Rightarrow> vt_flow_record \<Rightarrow> bool" where
  "link_ok r0 r \<longleftrightarrow>
     oobLink r = None \<or> state r = OobPending \<or> state r0 \<noteq> OobPending \<and> oobLink r = oobLink r0"

inductive sys_step :: "flow_op \<Rightarrow> sys \<Rightarrow> sys \<Rightarrow> bool" where
  create:
    "f (rec_id r) = None \<Longrightarrow> can_create opn (role r) (variant r) (state r) \<Longrightarrow> oobLink r = None \<Longrightarrow>
     sys_step opn (f, ev) (f(rec_id r \<mapsto> r), ev @ [event_of r None])"
| stay:
    "f (rec_id r) = Some r0 \<Longrightarrow> same_session r0 r \<Longrightarrow> link_ok r0 r \<Longrightarrow> state r = state r0 \<Longrightarrow>
     sys_step opn (f, ev) (f(rec_id r \<mapsto> r), ev)"
| again:
    "f (rec_id r) = Some r \<Longrightarrow> opn = Op_RecvOR \<Longrightarrow> state r = AwaitingOr \<or> state r = Validated \<Longrightarrow>
     sys_step opn (f, ev) (f, ev @ [event_of r (Some (state r))])"
| move:
    "f (rec_id r) = Some r0 \<Longrightarrow> same_session r0 r \<Longrightarrow> link_ok r0 r \<Longrightarrow> state r \<noteq> state r0 \<Longrightarrow>
     can_move opn (role r0) (variant r0) (state r0) (state r) \<Longrightarrow>
     sys_step opn (f, ev) (f(rec_id r \<mapsto> r), ev @ [event_of r (Some (state r0))])"

inductive_cases sys_stepE: "sys_step opn (f, ev) (f', ev')"

definition path :: "flow_op set \<Rightarrow> sys \<Rightarrow> sys \<Rightarrow> bool" where
  "path ops = (\<lambda>s t. \<exists>opn \<in> ops. sys_step opn s t)\<^sup>*\<^sup>*"

lemma path_refl [simp, intro]: "path ops s s"
  by (simp add: path_def)

lemma path_trans [trans]: "path ops s t \<Longrightarrow> path ops t u \<Longrightarrow> path ops s u"
  by (auto simp: path_def)

lemma path_step: "sys_step opn s t \<Longrightarrow> opn \<in> ops \<Longrightarrow> path ops s t"
  by (auto simp: path_def)

lemma path_mono: "path ops s t \<Longrightarrow> ops \<subseteq> ops' \<Longrightarrow> path ops' s t"
  unfolding path_def by (erule rtranclp_mono [THEN predicate2D, rotated]) blast

lemma path_induct [consumes 1, case_names refl step]:
  assumes "path ops s t" and "P s"
    and "\<And>t opn u. path ops s t \<Longrightarrow> P t \<Longrightarrow> opn \<in> ops \<Longrightarrow> sys_step opn t u \<Longrightarrow> P u"
  shows "P t"
  using assms(1) unfolding path_def
proof (induction rule: rtranclp_induct)
  case base
  show ?case by (rule assms(2))
next
  case (step t u)
  then obtain opn where "opn \<in> ops" and "sys_step opn t u" by blast
  moreover have "path ops s t" using step.hyps(1) by (simp add: path_def)
  ultimately show ?case using step.IH assms(3) by blast
qed

text \<open>An invariant of single steps is an invariant of paths.\<close>

lemma path_inv:
  assumes "path ops s t" and "I s" and "\<And>opn s t. sys_step opn s t \<Longrightarrow> I s \<Longrightarrow> I t"
  shows "I t"
  using assms(1,2) by (induction rule: path_induct) (auto dest: assms(3))

section \<open>Refinement\<close>

definition sysof :: "('st, 'x) env \<Rightarrow> ('st, 'x) world \<Rightarrow> sys" where
  "sysof K w = (flows K w, events w)"

text \<open>
  \<open>refines_if K P ops m\<close>: from a world in \<open>P\<close>, whether \<open>m\<close> returns or throws, it leaves a world that
  steps of \<open>ops\<close> reach. \<open>P\<close> is kept by every step, so it still holds after a wait.
\<close>

definition refines_if ::
  "('st, 'x) env \<Rightarrow> (sys \<Rightarrow> bool) \<Rightarrow> flow_op set \<Rightarrow> (('st, 'x) world, err, 'a) comp \<Rightarrow> bool" where
  "refines_if K P ops m \<longleftrightarrow>
     (\<forall>w. P (sysof K w) \<longrightarrow> post m (\<lambda>_ w'. path ops (sysof K w) (sysof K w'))
            (\<lambda>_ w'. path ops (sysof K w) (sysof K w')) w)"

abbreviation refines ::
  "('st, 'x) env \<Rightarrow> flow_op set \<Rightarrow> (('st, 'x) world, err, 'a) comp \<Rightarrow> bool" where
  "refines K ops m \<equiv> refines_if K (\<lambda>_. True) ops m"

definition stable :: "(sys \<Rightarrow> bool) \<Rightarrow> bool" where
  "stable P \<longleftrightarrow> (\<forall>opn s t. sys_step opn s t \<longrightarrow> P s \<longrightarrow> P t)"

lemma stable_True [simp, intro]: "stable (\<lambda>_. True)"
  by (simp add: stable_def)

lemma stable_path: "stable P \<Longrightarrow> path ops s t \<Longrightarrow> P s \<Longrightarrow> P t"
  by (erule path_inv) (auto simp: stable_def)

lemma refines_ifI:
  assumes "\<And>w. P (sysof K w) \<Longrightarrow> post m (\<lambda>_ w'. path ops (sysof K w) (sysof K w'))
            (\<lambda>_ w'. path ops (sysof K w) (sysof K w')) w"
  shows "refines_if K P ops m"
  using assms by (simp add: refines_if_def)

lemma refinesD: "refines K ops m \<Longrightarrow> path ops (sysof K w) (sysof K (snd (m w)))"
  unfolding refines_if_def post_def
  by (metis (no_types, lifting) prod.case_eq_if sum.case_eq_if)

lemma refines_if_weaken: "refines K ops m \<Longrightarrow> ops \<subseteq> ops' \<Longrightarrow> refines_if K P ops' m"
  unfolding refines_if_def
  by (intro allI impI, erule allE, drule mp, rule TrueI, erule post_mono) (erule (1) path_mono)+

lemma refines_if_bnd:
  assumes "refines_if K P ops m" and "stable P" and "\<And>x. refines_if K P ops (f x)"
  shows "refines_if K P ops (bnd m f)"
proof (rule refines_ifI)
  fix w
  assume P: "P (sysof K w)"
  with assms(1) have "post m (\<lambda>_ w1. path ops (sysof K w) (sysof K w1))
     (\<lambda>_ w1. path ops (sysof K w) (sysof K w1)) w"
    by (simp add: refines_if_def)
  then show "post (bnd m f) (\<lambda>_ w'. path ops (sysof K w) (sysof K w'))
     (\<lambda>_ w'. path ops (sysof K w) (sysof K w')) w"
    unfolding post_bnd
  proof (rule post_mono)
    fix x w1
    assume here: "path ops (sysof K w) (sysof K w1)"
    with assms(2) P have "P (sysof K w1)" by (blast intro: stable_path)
    with assms(3) have "post (f x) (\<lambda>_ w'. path ops (sysof K w1) (sysof K w'))
       (\<lambda>_ w'. path ops (sysof K w1) (sysof K w')) w1"
      by (simp add: refines_if_def)
    then show "post (f x) (\<lambda>_ w'. path ops (sysof K w) (sysof K w'))
       (\<lambda>_ w'. path ops (sysof K w) (sysof K w')) w1"
      by (rule post_mono) (blast intro: path_trans [OF here])+
  qed
qed

lemma refines_if_sqn:
  "refines_if K P ops m \<Longrightarrow> stable P \<Longrightarrow> refines_if K P ops k \<Longrightarrow> refines_if K P ops (sqn m k)"
  unfolding sqn_def by (rule refines_if_bnd)

lemma refines_if_catch:
  assumes "refines_if K P ops m" and "stable P" and "\<And>e. refines_if K P ops (h e)"
  shows "refines_if K P ops (catch m h)"
proof (rule refines_ifI)
  fix w
  assume P: "P (sysof K w)"
  with assms(1) have "post m (\<lambda>_ w1. path ops (sysof K w) (sysof K w1))
     (\<lambda>_ w1. path ops (sysof K w) (sysof K w1)) w"
    by (simp add: refines_if_def)
  then show "post (catch m h) (\<lambda>_ w'. path ops (sysof K w) (sysof K w'))
     (\<lambda>_ w'. path ops (sysof K w) (sysof K w')) w"
    unfolding post_catch
  proof (rule post_mono)
    fix e w1
    assume here: "path ops (sysof K w) (sysof K w1)"
    with assms(2) P have "P (sysof K w1)" by (blast intro: stable_path)
    with assms(3) have "post (h e) (\<lambda>_ w'. path ops (sysof K w1) (sysof K w'))
       (\<lambda>_ w'. path ops (sysof K w1) (sysof K w')) w1"
      by (simp add: refines_if_def)
    then show "post (h e) (\<lambda>_ w'. path ops (sysof K w) (sysof K w'))
       (\<lambda>_ w'. path ops (sysof K w) (sysof K w')) w1"
      by (rule post_mono) (blast intro: path_trans [OF here])+
  qed
qed

lemma refines_if_pure [simp, intro]:
  "refines_if K P ops (ret x)" "refines_if K P ops (throw e)" "refines_if K P ops (guard b e)"
  "refines_if K P ops (gets f)" "refines_if K P ops (raise g)"
  by (auto simp: refines_if_def wp split: sum.splits)

text \<open>The flow of a record is still in the store, as the same session.\<close>

definition has_session :: "vt_flow_record \<Rightarrow> sys \<Rightarrow> bool" where
  "has_session r0 s \<longleftrightarrow> (\<exists>r. fst s (rec_id r0) = Some r \<and> same_session r0 r)"

lemma stable_has_session [simp, intro]: "stable (has_session r0)"
  unfolding stable_def
proof (intro allI impI)
  fix opn s t
  assume "sys_step opn s t" and "has_session r0 s"
  then show "has_session r0 t"
    by (induction rule: sys_step.induct)
      (auto simp: has_session_def same_session_def split: if_splits)
qed

lemma sysof_frame [simp]:
  "sysof K (w\<lparr>ext := x\<rparr>) = sysof K w" "sysof K (w\<lparr>sent := ms\<rparr>) = sysof K w"
  "sysof K (after_id K w) = sysof K w" "sysof K (after_now K w) = sysof K w"
  by (simp_all add: sysof_def)

text \<open>The three writes of the service as paths.\<close>

lemma path_updateState:
  assumes "repo_laws K" and "flows K w (rec_id r) = Some r0" and "same_session r0 r"
    and "state r = state r0"
    and "oobLink r = oobLink r0 \<or> oobLink r = None \<or> s = OobPending"
    and "state r0 \<noteq> s \<Longrightarrow> can_move opn (role r0) (variant r0) (state r0) s"
    and "opn \<in> ops"
  shows "path ops (sysof K w) (sysof K (moved_in K r s w))"
proof -
  have same: "same_session r0 (moved r s)" and link: "link_ok r0 (moved r s)"
    using assms(3-5) by (auto simp: same_session_def link_ok_def)
  show ?thesis
  proof (cases "state r = s")
    case True
    have "sys_step opn (flows K w, events w)
      ((flows K w)(rec_id (moved r s) \<mapsto> moved r s), events w)"
      by (rule stay) (use assms True same link in simp_all)
    with assms True show ?thesis by (auto simp: sysof_def intro: path_step)
  next
    case False
    have "sys_step opn (flows K w, events w)
      ((flows K w)(rec_id (moved r s) \<mapsto> moved r s),
       events w @ [event_of (moved r s) (Some (state r0))])"
      by (rule move) (use assms False same link in simp_all)
    with assms False show ?thesis by (auto simp: sysof_def intro: path_step)
  qed
qed

lemma path_updated:
  assumes "repo_laws K" and "flows K w (rec_id r) = Some r0" and "same_session r0 r"
    and "state r = state r0" and "oobLink r = oobLink r0" and "opn \<in> ops"
  shows "path ops (sysof K w) (sysof K (updated K r w))"
proof -
  have "link_ok r0 r" using assms(4,5) by (auto simp: link_ok_def)
  then have "sys_step opn (flows K w, events w) ((flows K w)(rec_id r \<mapsto> r), events w)"
    using assms by (intro stay) simp_all
  with assms show ?thesis by (auto simp: sysof_def intro: path_step)
qed

lemma path_saved:
  assumes "repo_laws K" and "flows K w (rec_id r) = None"
    and "can_create opn (role r) (variant r) (state r)" and "oobLink r = None" and "opn \<in> ops"
  shows "path ops (sysof K w)
    (sysof K ((saved K r w)\<lparr>events := events w @ [event_of r None]\<rparr>))"
proof -
  have "sys_step opn (flows K w, events w)
    ((flows K w)(rec_id r \<mapsto> r), events w @ [event_of r None])"
    using assms by (intro create) simp_all
  with assms show ?thesis by (auto simp: sysof_def intro: path_step)
qed

end
