(* ===== verification/FlowRefine.thy ===== *)
theory FlowRefine
  imports FlowSpec
begin

text \<open>
  Every operation of \<open>VtFlowService\<close> refines the transition system of \<open>FlowSpec\<close>, one lemma per
  method, under the repository's laws. A method that awaits a hook refines it when the hooks do
  (\<open>hooks_ok\<close>): while the method waits, the agent may take any other step.
\<close>

named_theorems op_defs \<open>the operations without hooks\<close>

lemmas [op_defs] = createOnboardingProcessRecord_def createDirectIssuanceRecord_def
  reattachOnboardingProcessRecord_def releaseCredentialExchange_def
  processReceiveOobLink_def processReceiveValidating_def processReceiveCredentialStateChange_def
  processReceiveProblemReport_def acceptIssuanceRequest_def rejectRequest_def
  terminateByApplicant_def terminateByValidator_def terminateByChainEvent_def
  sendOobLinkForSession_def sendValidatingForSession_def recordValidation_def recordIssuance_def
  markPendingClaims_def markValidated_def markCompleted_def attachCredentialExchangeRecord_def
  setEcsSchemaKey_def setCredentialId_def detachCredentialExchange_def setCredentialDigest_def
  notifyCredentialStateChange_def updateClaims_def onSubprotocolStateChanged_def getByThreadId_def

text \<open>Extending a path by a write, with the flow before the write read off the store.\<close>

lemma snoc_updateState:
  assumes "repo_laws K" and "path ops s0 (sysof K w)" and "flows K w (rec_id r) \<noteq> None"
    and "same_session (the (flows K w (rec_id r))) r"
    and "state (the (flows K w (rec_id r))) = state r"
    and "oobLink r = oobLink (the (flows K w (rec_id r))) \<or> oobLink r = None \<or> s = OobPending"
    and "state r \<noteq> s \<Longrightarrow>
      can_move opn (role (the (flows K w (rec_id r)))) (variant (the (flows K w (rec_id r))))
        (state r) s"
    and "opn \<in> ops"
  shows "path ops s0 (sysof K (moved_in K r s w))"
proof -
  from assms(3) obtain r0 where "flows K w (rec_id r) = Some r0" by blast
  with assms show ?thesis
    using path_updateState [of K w r r0 s opn ops] by (auto intro: path_trans)
qed

lemma snoc_updated:
  assumes "repo_laws K" and "path ops s0 (sysof K w)" and "flows K w (rec_id r) \<noteq> None"
    and "same_session (the (flows K w (rec_id r))) r"
    and "state (the (flows K w (rec_id r))) = state r"
    and "oobLink (the (flows K w (rec_id r))) = oobLink r" and "opn \<in> ops"
  shows "path ops s0 (sysof K (updated K r w))"
proof -
  from assms(3) obtain r0 where "flows K w (rec_id r) = Some r0" by blast
  with assms show ?thesis
    using path_updated [of K w r r0 opn ops] by (auto intro: path_trans)
qed

lemma snoc_saved:
  assumes "repo_laws K" and "path ops s0 (sysof K w)" and "flows K w (rec_id r) = None"
    and "can_create opn (role r) (variant r) (state r)" and "oobLink r = None" and "opn \<in> ops"
    and "es = events w @ [event_of r None]"
  shows "path ops s0 (sysof K ((saved K r w)\<lparr>events := es\<rparr>))"
  using assms(2) unfolding assms(7)
  by (rule path_trans) (rule path_saved [OF assms(1)], use assms(3-6) in auto)

lemma findThread_stored:
  "repo_laws K \<Longrightarrow> repo_findSingleByQuery K (store w) q = Inr (Some r) \<Longrightarrow>
     flows K w (rec_id r) = Some r"
  by (rule findSingle_Some)

lemma refines_assertReadyConnection [simp, intro]:
  "refines_if K P ops (assertReadyConnection K mc)"
  by (simp add: assertReadyConnection_def)

lemma after_store [simp]: "store (after_id K w) = store w" "store (after_now K w) = store w"
  by (simp_all add: after_id_def after_now_def)

lemmas upd = snoc_updateState snoc_updated snoc_saved

text \<open>An operation that first reads the flow by id, or by a tag.\<close>

lemma refines_getById:
  assumes laws: "repo_laws K"
    and "\<And>r w. flows K w (rec_id r) = Some r \<Longrightarrow> i = rec_id r \<Longrightarrow> P (sysof K w) \<Longrightarrow>
    post (f r) (\<lambda>_ w'. path ops (sysof K w) (sysof K w'))
      (\<lambda>_ w'. path ops (sysof K w) (sysof K w')) w"
  shows "refines_if K P ops (bnd (getById K i) f)"
proof (rule refines_ifI)
  fix w
  assume P: "P (sysof K w)"
  show "post (bnd (getById K i) f) (\<lambda>_ w'. path ops (sysof K w) (sysof K w'))
      (\<lambda>_ w'. path ops (sysof K w) (sysof K w')) w"
  proof (cases "flows K w i")
    case (Some r)
    then have "i = rec_id r" using repo_id [OF laws] by metis
    with Some P have "post (f r) (\<lambda>_ w'. path ops (sysof K w) (sysof K w'))
      (\<lambda>_ w'. path ops (sysof K w) (sysof K w')) w"
      by (intro assms) auto
    with Some show ?thesis by (simp add: wp laws)
  qed (simp add: wp laws)
qed

lemma refines_getById_session:
  assumes laws: "repo_laws K"
    and "\<And>r. i = rec_id r \<Longrightarrow> refines_if K (has_session r) ops (f r)"
  shows "refines K ops (bnd (getById K i) f)"
proof (rule refines_getById [OF laws])
  fix r w
  assume "flows K w (rec_id r) = Some r" and i: "i = rec_id r"
  then have "has_session r (sysof K w)" by (simp add: has_session_def sysof_def)
  then show "post (f r) (\<lambda>_ w'. path ops (sysof K w) (sysof K w'))
      (\<lambda>_ w'. path ops (sysof K w) (sysof K w')) w"
    using assms(2) [OF i] by (simp add: refines_if_def)
qed

lemma refines_found:
  assumes laws: "repo_laws K"
    and "\<And>w. post (f None) (\<lambda>_ w'. path ops (sysof K w) (sysof K w'))
      (\<lambda>_ w'. path ops (sysof K w) (sysof K w')) w"
    and "\<And>r w. flows K w (rec_id r) = Some r \<Longrightarrow> tags_match q r \<Longrightarrow>
    post (f (Some r)) (\<lambda>_ w'. path ops (sysof K w) (sysof K w'))
      (\<lambda>_ w'. path ops (sysof K w) (sysof K w')) w"
  shows "refines_if K P ops (bnd (raise (\<lambda>w. repo_findSingleByQuery K (store w) q)) f)"
proof (rule refines_ifI)
  fix w
  show "post (bnd (raise (\<lambda>w. repo_findSingleByQuery K (store w) q)) f)
      (\<lambda>_ w'. path ops (sysof K w) (sysof K w'))
      (\<lambda>_ w'. path ops (sysof K w) (sysof K w')) w"
  proof (cases "repo_findSingleByQuery K (store w) q")
    case (Inr x)
    then show ?thesis
      using assms findSingle_Some [OF laws, of w q] by (cases x) (simp_all add: wp)
  qed (simp add: wp)
qed

lemma refines_found_session:
  assumes laws: "repo_laws K"
    and "refines K ops (f None)"
    and "\<And>r. tags_match q r \<Longrightarrow> refines_if K (has_session r) ops (f (Some r))"
  shows "refines K ops (bnd (raise (\<lambda>w. repo_findSingleByQuery K (store w) q)) f)"
proof (rule refines_found [OF laws])
  fix w
  show "post (f None) (\<lambda>_ w'. path ops (sysof K w) (sysof K w'))
      (\<lambda>_ w'. path ops (sysof K w) (sysof K w')) w"
    using assms(2) by (simp add: refines_if_def)
next
  fix r w
  assume "flows K w (rec_id r) = Some r" and "tags_match q r"
  then have "has_session r (sysof K w)" by (simp add: has_session_def sysof_def)
  then show "post (f (Some r)) (\<lambda>_ w'. path ops (sysof K w) (sysof K w'))
      (\<lambda>_ w'. path ops (sysof K w) (sysof K w')) w"
    using assms(3) [OF \<open>tags_match q r\<close>] by (simp add: refines_if_def)
qed

lemma refines_getByThreadId:
  assumes laws: "repo_laws K"
    and "\<And>r w. flows K w (rec_id r) = Some r \<Longrightarrow>
    post (f r) (\<lambda>_ w'. path ops (sysof K w) (sysof K w'))
      (\<lambda>_ w'. path ops (sysof K w) (sysof K w')) w"
  shows "refines K ops (bnd (getByThreadId K t) f)"
proof (rule refines_ifI)
  fix w
  show "post (bnd (getByThreadId K t) f)
      (\<lambda>_ w'. path ops (sysof K w) (sysof K w'))
      (\<lambda>_ w'. path ops (sysof K w) (sysof K w')) w"
  proof (cases "repo_findSingleByQuery K (store w) [(''threadId'', t)]")
    case (Inr x)
    then show ?thesis
      using assms findSingle_Some [OF laws, of w "[(''threadId'', t)]"]
      by (cases x) (simp_all add: getByThreadId_def wp)
  qed (simp add: getByThreadId_def wp)
qed

section \<open>Operations without hooks\<close>

lemma refines_createOnboardingProcessRecord:
  assumes laws: "repo_laws K"
  shows "refines K {Op_SendOR} (createOnboardingProcessRecord K p)"
  unfolding createOnboardingProcessRecord_def findByParticipantSessionId_def
  by (rule refines_if_bnd, simp add: refines_if_def wp, simp, simp only: Let_def,
      rule refines_found [OF laws])
    (auto simp: wp laws same_session_def dest!: isVtFlowRenewable_states intro!: upd)

lemma refines_createDirectIssuanceRecord:
  assumes laws: "repo_laws K"
  shows "refines K {Op_SendIR} (createDirectIssuanceRecord K p)"
  unfolding createDirectIssuanceRecord_def
  by (rule refines_ifI) (auto simp: wp laws intro!: upd)

lemma refines_reattachOnboardingProcessRecord:
  assumes laws: "repo_laws K"
  shows "refines K {Op_Reattach} (reattachOnboardingProcessRecord K i c)"
  unfolding op_defs
  by (rule refines_getById [OF laws])
    (auto simp: wp laws same_session_def split: option.splits sum.splits intro!: upd)

lemma refines_processReceiveOobLink:
  assumes laws: "repo_laws K"
  shows "refines K {Op_RecvOob} (processReceiveOobLink K mc)"
  unfolding processReceiveOobLink_def Let_def
  by (rule refines_if_bnd, simp, simp, rule refines_getByThreadId [OF laws])
    (auto simp: wp laws same_session_def intro!: upd)

lemma refines_processReceiveValidating:
  assumes laws: "repo_laws K"
  shows "refines K {Op_RecvValidating} (processReceiveValidating K mc)"
  unfolding processReceiveValidating_def Let_def
  by (rule refines_if_bnd, simp, simp, rule refines_getByThreadId [OF laws])
    (auto simp: wp laws same_session_def intro!: upd)

lemma refines_processReceiveCredentialStateChange:
  assumes laws: "repo_laws K"
  shows "refines K {Op_RecvCredState} (processReceiveCredentialStateChange K mc)"
  unfolding processReceiveCredentialStateChange_def Let_def findByThreadId_def
  by (rule refines_if_bnd, simp, simp, rule refines_found [OF laws])
    (auto simp: wp laws same_session_def intro!: upd)

lemma refines_processReceiveProblemReport:
  assumes laws: "repo_laws K"
  shows "refines K {Op_RecvProblemReport} (processReceiveProblemReport K mc)"
  unfolding processReceiveProblemReport_def Let_def findByThreadId_def
  by (rule refines_found [OF laws])
    (auto simp: wp laws same_session_def split: option.splits intro!: upd
      dest: resolved_from_table_terminal)

lemma refines_acceptIssuanceRequest:
  assumes laws: "repo_laws K"
  shows "refines K {Op_AcceptIR} (acceptIssuanceRequest K i)"
  unfolding acceptIssuanceRequest_def
  by (rule refines_getById [OF laws]) (auto simp: wp laws same_session_def intro!: upd)

lemma refines_rejectRequest:
  assumes laws: "repo_laws K"
  shows "refines K {Op_Reject} (rejectRequest K i c en hint)"
  unfolding rejectRequest_def Let_def
  by (rule refines_getById [OF laws])
    (auto simp: wp laws same_session_def split: option.splits intro!: upd
      dest: resolved_from_table_terminal)

lemma refines_terminateByApplicant:
  assumes laws: "repo_laws K"
  shows "refines K {Op_TermApplicant} (terminateByApplicant K i c en hint)"
  unfolding terminateByApplicant_def
  by (rule refines_getById [OF laws]) (auto simp: wp laws same_session_def intro!: upd)

lemma refines_terminateByValidator:
  assumes laws: "repo_laws K"
  shows "refines K {Op_TermValidator} (terminateByValidator K i c en hint)"
  unfolding terminateByValidator_def
  by (rule refines_getById [OF laws]) (auto simp: wp laws same_session_def intro!: upd)

lemma refines_terminateByChainEvent:
  assumes laws: "repo_laws K"
  shows "refines K {Op_TermChain} (terminateByChainEvent K i c ending en)"
  unfolding terminateByChainEvent_def
  by (rule refines_getById [OF laws], cases ending) (auto simp: wp laws same_session_def intro!: upd)

lemma refines_sendOobLinkForSession:
  assumes laws: "repo_laws K"
  shows "refines K {Op_SendOob} (sendOobLinkForSession K i url d ex)"
  unfolding sendOobLinkForSession_def Let_def
  by (rule refines_getById [OF laws]) (auto simp: wp laws same_session_def intro!: upd)

lemma refines_sendValidatingForSession:
  assumes laws: "repo_laws K"
  shows "refines K {Op_SendValidating} (sendValidatingForSession K i cm)"
  unfolding sendValidatingForSession_def Let_def
  by (rule refines_getById [OF laws]) (auto simp: wp laws same_session_def intro!: upd)

lemma refines_recordValidation:
  assumes laws: "repo_laws K"
  shows "refines K {Op_RecordValidation} (recordValidation K i v st)"
  unfolding recordValidation_def Let_def
  by (rule refines_getById [OF laws]) (auto simp: wp laws same_session_def split: option.splits intro!: upd)

lemma refines_recordIssuance:
  assumes laws: "repo_laws K"
  shows "refines K {Op_Touch} (recordIssuance K i iss)"
  unfolding recordIssuance_def Let_def
  by (rule refines_getById [OF laws]) (auto simp: wp laws same_session_def intro!: upd)

lemma refines_markPendingClaims:
  assumes laws: "repo_laws K"
  shows "refines K {Op_MarkPending} (markPendingClaims K i)"
  unfolding markPendingClaims_def
  by (rule refines_getById [OF laws]) (auto simp: wp laws same_session_def intro!: upd)

lemma refines_markValidated:
  assumes laws: "repo_laws K"
  shows "refines K {Op_MarkValidated} (markValidated K i)"
  unfolding markValidated_def
  by (rule refines_getById [OF laws]) (auto simp: wp laws same_session_def intro!: upd)

lemma refines_markCompleted:
  assumes laws: "repo_laws K"
  shows "refines K {Op_MarkCompleted} (markCompleted K i)"
  unfolding markCompleted_def
  by (rule refines_getById [OF laws]) (auto simp: wp laws same_session_def intro!: upd)

lemma refines_attachCredentialExchangeRecord:
  assumes laws: "repo_laws K"
  shows "refines K {Op_Attach} (attachCredentialExchangeRecord K i ex dg iss cid)"
  unfolding attachCredentialExchangeRecord_def Let_def
  by (rule refines_getById [OF laws])
    (auto simp: wp laws same_session_def canOffer_from_def split: if_splits intro!: upd)

lemma refines_setters:
  assumes laws: "repo_laws K"
  shows "refines K {Op_Touch} (setEcsSchemaKey K i s)"
  "refines K {Op_Touch} (setCredentialId K i s)"
  "refines K {Op_Touch} (detachCredentialExchange K i so)"
  "refines K {Op_Touch} (setCredentialDigest K i s)"
  "refines K {Op_Touch} (updateClaims K i cl)"
  unfolding setEcsSchemaKey_def setCredentialId_def detachCredentialExchange_def
    setCredentialDigest_def updateClaims_def Let_def
  by (rule refines_getById [OF laws]; auto simp: wp laws same_session_def intro!: upd)+

lemma refines_notifyCredentialStateChange:
  assumes laws: "repo_laws K"
  shows "refines K {Op_Notify} (notifyCredentialStateChange K i st thid rs)"
  unfolding notifyCredentialStateChange_def Let_def
  by (rule refines_getById [OF laws])
    (auto simp: wp laws same_session_def split: if_splits intro!: upd)

lemma post_onSubprotocol:
  assumes laws: "repo_laws K" and "flows K w (rec_id r) = Some r"
  shows "post (onSubprotocolStateChanged K r e) (\<lambda>_ w'. path {Op_Exchange} (sysof K w) (sysof K w'))
    (\<lambda>_ w'. path {Op_Exchange} (sysof K w) (sysof K w')) w"
  using assms unfolding onSubprotocolStateChanged_def
  by (simp add: wp, intro conjI impI upd) (auto simp: same_session_def laws)

lemma post_bnd_refines:
  assumes "post m (\<lambda>_ w'. path ops (sysof K w) (sysof K w'))
      (\<lambda>_ w'. path ops (sysof K w) (sysof K w')) w"
    and "\<And>x. refines K ops (f x)"
  shows "post (bnd m f) (\<lambda>_ w'. path ops (sysof K w) (sysof K w'))
      (\<lambda>_ w'. path ops (sysof K w) (sysof K w')) w"
  using assms(1) unfolding post_bnd
proof (rule post_mono)
  fix x w1
  assume here: "path ops (sysof K w) (sysof K w1)"
  have "post (f x) (\<lambda>_ w'. path ops (sysof K w1) (sysof K w'))
      (\<lambda>_ w'. path ops (sysof K w1) (sysof K w')) w1"
    using assms(2) by (simp add: refines_if_def)
  then show "post (f x) (\<lambda>_ w'. path ops (sysof K w) (sysof K w'))
      (\<lambda>_ w'. path ops (sysof K w) (sysof K w')) w1"
    by (rule post_mono) (blast intro: path_trans [OF here])+
qed

section \<open>Hooks\<close>

text \<open>
  What is asked of the code an operation waits for: that it reaches the store only through steps of
  the system. It may run any operation of the package in the meantime.
\<close>

definition hooks_ok :: "flow_op set \<Rightarrow> ('st, 'x) env \<Rightarrow> bool" where
  "hooks_ok ops K \<longleftrightarrow>
     (\<forall>h d c. assertVerifiableService (config K) = Some h \<longrightarrow> refines K ops (h d c)) \<and>
     (\<forall>h d c p. checkEcsIssuanceExemption (config K) = Some h \<longrightarrow> refines K ops (h d c p)) \<and>
     (\<forall>h r. checkParticipantId (config K) = Some h \<longrightarrow> refines K ops (h r)) \<and>
     (\<forall>h r e. verifyCredential (config K) = Some h \<longrightarrow> refines K ops (h r e)) \<and>
     (\<forall>h r e. onCompleted (config K) = Some h \<longrightarrow> refines K ops (h r e)) \<and>
     (\<forall>h r. onCredentialRevoked (config K) = Some h \<longrightarrow> refines K ops (h r)) \<and>
     (\<forall>h r. onReconnected (config K) = Some h \<longrightarrow> refines K ops (h r)) \<and>
     (\<forall>h r. buildCredentialOffer (config K) = Some h \<longrightarrow> refines K ops (h r)) \<and>
     (\<forall>h r e j. onBeforeCredentialIssued (config K) = Some h \<longrightarrow> refines K ops (h r e j)) \<and>
     (\<forall>m c. refines K ops (msg_send K m c)) \<and>
     (\<forall>e. refines K ops (creds_acceptOffer K e)) \<and>
     (\<forall>e d. refines K ops (creds_declineOffer K e d)) \<and>
     (\<forall>e. refines K ops (creds_acceptCredential K e)) \<and>
     (\<forall>c p. refines K ops (proto_createOffer K c p)) \<and>
     (\<forall>e cm f. refines K ops (proto_acceptRequest K e cm f))"

definition env_ok :: "('st, 'x) env \<Rightarrow> bool" where
  "env_ok K \<longleftrightarrow> repo_laws K \<and> hooks_ok UNIV K"

lemma env_okD [dest]: "env_ok K \<Longrightarrow> repo_laws K" "env_ok K \<Longrightarrow> hooks_ok UNIV K"
  by (simp_all add: env_ok_def)

lemma mem_env_hooks_ok: "hooks_ok ops (mem_env no_options)"
  by (simp add: hooks_ok_def no_options_def)

lemma mem_env_ok: "env_ok (mem_env no_options)"
  by (simp add: env_ok_def mem_env_laws mem_env_hooks_ok)

section \<open>Operations that wait for a hook\<close>

lemma snoc_again:
  assumes "path ops s0 (sysof K w)" and "flows K w (rec_id r) = Some r"
    and "state r = AwaitingOr \<or> state r = Validated" and "Op_RecvOR \<in> ops"
    and "es = events w @ [event_of r (Some (state r))]"
  shows "path ops s0 (sysof K (w\<lparr>events := es\<rparr>))"
proof -
  have "sys_step Op_RecvOR (flows K w, events w)
      (flows K w, events w @ [event_of r (Some (state r))])"
    using assms(2,3) by (intro again) auto
  with assms show ?thesis by (auto simp: sysof_def intro: path_trans path_step)
qed

lemma has_session_role:
  "has_session r0 (sysof K w) \<Longrightarrow> flows K w (rec_id r) = Some r \<Longrightarrow> rec_id r0 = rec_id r \<Longrightarrow>
     role r = role r0 \<and> variant r = variant r0"
  by (auto simp: has_session_def sysof_def same_session_def)


lemma refines_isExempt:
  assumes laws2: "repo_laws K" and hooks: "hooks_ok ops K"
  shows "refines K ops (isExemptFromVsConnVs K c d p)"
  unfolding isExemptFromVsConnVs_def
  using hooks
  by (auto simp: hooks_ok_def intro!: refines_if_catch split: option.split)

lemma refines_checkIsVerifiableService:
  assumes laws2: "repo_laws K" and hooks: "hooks_ok ops K"
  shows "refines K ops (checkIsVerifiableService K c p)"
  unfolding checkIsVerifiableService_def Let_def
  using hooks
  by (auto simp: hooks_ok_def intro!: refines_if_sqn refines_if_bnd refines_if_catch refines_isExempt [OF laws2 hooks]
      split: option.split prod.split)

lemma refines_failRequest_new:
  assumes laws2: "repo_laws K" and hooks: "hooks_ok ops K"
    and "can_create opn (role r) (variant r) Error" and "oobLink r = None" and "opn \<in> ops"
  shows "refines K ops (failRequest K c r True e)"
  using assms unfolding failRequest_def
  by (cases e) (auto simp: refines_if_def wp laws2 intro!: upd [where opn = opn])

lemma refines_failRequest_old:
  assumes laws2: "repo_laws K" and hooks: "hooks_ok ops K"
    and "role r = Validator" and "opn = Op_RecvOR \<or> opn = Op_RecvIR"
    and "opn \<in> ops"
  shows "refines_if K (has_session r) ops (failRequest K c r False e)"
proof (cases e)
  case (VtFlowError code msg)
  show ?thesis
    unfolding failRequest_def VtFlowError Let_def err.case if_False
    using assms
    by (intro refines_getById [OF laws2])
      (auto simp: wp laws2 same_session_def dest: has_session_role intro!: upd [where opn = opn])
qed (simp_all add: failRequest_def)

lemma refines_checkRequest_new:
  assumes laws2: "repo_laws K" and hooks: "hooks_ok ops K"
    and "can_create opn (role r) (variant r) Error" and "oobLink r = None" and "opn \<in> ops"
  shows "refines_if K P ops (checkRequestFromVerifiableService K c r True pu)"
  unfolding checkRequestFromVerifiableService_def
  by (rule refines_if_weaken [OF refines_if_catch [OF refines_checkIsVerifiableService [OF laws2 hooks]]])
    (auto intro: refines_failRequest_new [OF assms])

lemma refines_checkRequest_old:
  assumes laws2: "repo_laws K" and hooks: "hooks_ok ops K"
    and "role r = Validator" and "opn = Op_RecvOR \<or> opn = Op_RecvIR"
    and "opn \<in> ops"
  shows "refines_if K (has_session r) ops (checkRequestFromVerifiableService K c r False pu)"
  unfolding checkRequestFromVerifiableService_def
  by (rule refines_if_catch [OF refines_if_weaken [OF refines_checkIsVerifiableService [OF laws2 hooks]]])
    (auto intro: refines_failRequest_old [OF assms])

lemma refines_new_id:
  assumes laws2: "repo_laws K" and hooks: "hooks_ok ops K"
    and "\<And>i t. refines K ops (f i t)"
  shows "refines K ops (bnd (generateId K) (\<lambda>i. bnd (date_now K) (f i)))"
  by (intro refines_if_bnd assms) (auto simp: refines_if_def wp)

lemma refines_save_emit:
  assumes laws2: "repo_laws K" and hooks: "hooks_ok ops K"
    and "can_create opn (role r) (variant r) (state r)" and "oobLink r = None" and "opn \<in> ops"
  shows "refines_if K P ops (sqn (repository_save K r) (sqn (emitStateChanged r None) (ret r)))"
  using assms by (auto simp: refines_if_def wp laws2 intro!: upd [where opn = opn])

lemma refines_resumeOnboarding:
  assumes laws2: "repo_laws K" and hooks: "hooks_ok ops K"
    and stored: "flows K w (rec_id r) = Some r" and "role r = Validator" and "Op_RecvOR \<in> ops"
  shows "post (resumeOnboarding K c m r) (\<lambda>_ w'. path ops (sysof K w) (sysof K w'))
    (\<lambda>_ w'. path ops (sysof K w) (sysof K w')) w"
proof -
  consider "isVtFlowRenewable r" | "\<not> isVtFlowRenewable r" "state r = CredOffered"
    | "\<not> isVtFlowRenewable r" "state r \<noteq> CredOffered" by blast
  then show ?thesis
  proof cases
    case 1
    with assms show ?thesis
      by (auto simp: resumeOnboarding_def Let_def wp laws2 same_session_def
          dest!: isVtFlowRenewable_states intro!: upd [where opn = Op_RecvOR])
  next
    case 2
    with assms show ?thesis
      by (auto simp: resumeOnboarding_def Let_def releaseCredentialExchange_def wp laws2
          same_session_def split: option.splits sum.splits intro!: upd [where opn = Op_RecvOR])
  next
    case 3
    have step: "path ops (sysof K w) (sysof K (updated K (reattached c m r) w))"
      by (rule upd [where opn = Op_RecvOR]) (use assms in \<open>auto simp: same_session_def\<close>)
    with 3 assms show ?thesis
      by (auto simp: resumeOnboarding_def Let_def wp laws2 intro!: snoc_again)
  qed
qed

lemma refines_resumeIssuance:
  assumes laws2: "repo_laws K" and hooks: "hooks_ok ops K"
    and "flows K w (rec_id r) = Some r" and "role r = Validator" and "variant r = DirectIssuance"
    and "Op_RecvIR \<in> ops"
  shows "post (resumeIssuance K c m r) (\<lambda>_ w'. path ops (sysof K w) (sysof K w'))
    (\<lambda>_ w'. path ops (sysof K w) (sysof K w')) w"
  using assms
  by (auto simp: resumeIssuance_def Let_def releaseCredentialExchange_def wp laws2 same_session_def
      split: option.splits sum.splits intro!: upd [where opn = Op_RecvIR])

lemma refines_processReceiveOnboardingRequest:
  assumes laws2: "repo_laws K" and hooks: "hooks_ok ops K"
    and "Op_RecvOR \<in> ops"
  shows "refines K ops (processReceiveOnboardingRequest K mc)"
  unfolding processReceiveOnboardingRequest_def Let_def findByParticipantSessionId_def
proof (rule refines_if_bnd, simp, simp, rule refines_found_session [OF laws2], goal_cases)
  case (1 c)
  note [simp] = assms
  show ?case
    by (simp only: option.case bnd_assoc bnd_ret, rule refines_new_id [OF laws2 hooks], rule refines_if_sqn)
      (auto intro!: refines_checkRequest_new [OF laws2 hooks, where opn = Op_RecvOR]
        refines_save_emit [OF laws2 hooks, where opn = Op_RecvOR])
next
  case (2 c ex)
  then have "role ex = Validator" by simp
  with assms show ?case
    by (simp only: option.case bnd_ret option.distinct, intro refines_if_sqn)
      (auto simp: assertNotTerminated_def assertSamePeer_def isSamePeer_def wp
        dest: has_session_role
        intro!: refines_checkRequest_old [OF laws2 hooks, where opn = Op_RecvOR] refines_if_bnd
          refines_getById [OF laws2] refines_resumeOnboarding [OF laws2 hooks])
qed

lemma refines_processReceiveIssuanceRequest:
  assumes laws2: "repo_laws K" and hooks: "hooks_ok ops K"
    and "Op_RecvIR \<in> ops"
  shows "refines K ops (processReceiveIssuanceRequest K mc)"
  unfolding processReceiveIssuanceRequest_def Let_def findByParticipantSessionId_def
proof (rule refines_if_bnd, simp, simp, rule refines_found_session [OF laws2], goal_cases)
  case (1 c)
  note [simp] = assms
  show ?case
    by (simp only: option.case bnd_assoc bnd_ret, rule refines_new_id [OF laws2 hooks], rule refines_if_sqn)
      (auto intro!: refines_checkRequest_new [OF laws2 hooks, where opn = Op_RecvIR]
        refines_save_emit [OF laws2 hooks, where opn = Op_RecvIR])
next
  case (2 c ex)
  then have "role ex = Validator" by simp
  show ?case
  proof (cases "variant ex = DirectIssuance \<and> schemaId ex = Some (ir_schemaId (in_message mc))")
    case True
    with assms \<open>role ex = Validator\<close> show ?thesis
      by (simp only: option.case bnd_ret option.distinct, intro refines_if_sqn)
        (auto simp: assertNotTerminated_def assertSamePeer_def isSamePeer_def wp
          dest: has_session_role
          intro!: refines_checkRequest_old [OF laws2 hooks, where opn = Op_RecvIR] refines_if_bnd
            refines_getById [OF laws2] refines_resumeIssuance [OF laws2 hooks])
  next
    case False
    with assms \<open>role ex = Validator\<close> show ?thesis
      by (simp only: option.case bnd_ret option.distinct sqn_guard if_False, intro refines_if_sqn)
        (auto simp: assertNotTerminated_def intro!: refines_checkRequest_old [OF laws2 hooks, where opn = Op_RecvIR])
  qed
qed

lemma refines_acceptOnboardingRequest:
  assumes laws2: "repo_laws K" and hooks: "hooks_ok ops K"
    and "Op_AcceptOR \<in> ops"
  shows "refines K ops (acceptOnboardingRequest K i)"
proof (cases "checkParticipantId (config K)")
  case None
  with assms show ?thesis
    unfolding acceptOnboardingRequest_def Let_def
    by (intro refines_getById [OF laws2])
      (auto simp: wp laws2 same_session_def intro!: upd [where opn = Op_AcceptOR])
next
  case (Some check)
  have "refines K ops (check r)" for r
    using hooks Some by (simp add: hooks_ok_def)
  then have check: "refines_if K P ops (check r)" for r P
    by (rule refines_if_weaken) simp
  have move: "refines_if K (has_session r0) ops
      (bnd (getById K (rec_id r0)) (\<lambda>record.
        if checked = CheckValidated then ret (record, None)
        else sqn (assertState record [AwaitingOr])
          (bnd (updateState K record Validating)
            (\<lambda>r. bnd (generateId K) (\<lambda>i. ret (r, Some (newValidatingMessage i (threadId r) None)))))))"
    if "role r0 = Validator" "variant r0 = OnboardingProcess" for r0 checked
    using that assms
    by (intro refines_getById [OF laws2])
      (auto simp: wp laws2 same_session_def dest: has_session_role
        intro!: upd [where opn = Op_AcceptOR])
  show ?thesis
    unfolding acceptOnboardingRequest_def Let_def Some option.case assertRole_def assertState_def
      assertVariant_def sqn_guard
    by (rule refines_getById_session [OF laws2])
      (auto intro!: refines_if_bnd check refines_if_sqn move [unfolded assertState_def sqn_guard])
qed

lemma refines_answerVtFlowError:
  assumes laws2: "repo_laws K" and hooks: "hooks_ok ops K"
    and "refines K ops m"
  shows "refines K ops (answerVtFlowError K t mc m)"
  unfolding answerVtFlowError_def
  by (auto intro!: refines_if_catch refines_if_bnd assms split: err.split)
    (auto simp: refines_if_def wp)

lemma refines_request_handlers:
  assumes laws2: "repo_laws K" and hooks: "hooks_ok ops K"
  shows "Op_RecvOR \<in> ops \<Longrightarrow> refines K ops (handleOnboardingRequest K m1)"
  "Op_RecvIR \<in> ops \<Longrightarrow> refines K ops (handleIssuanceRequest K m2)"
  unfolding handleOnboardingRequest_def handleIssuanceRequest_def
  by (auto intro: refines_answerVtFlowError [OF laws2 hooks] refines_processReceiveOnboardingRequest [OF laws2 hooks]
      refines_processReceiveIssuanceRequest [OF laws2 hooks])

lemma refines_handlers:
  assumes laws2: "repo_laws K" and hooks: "hooks_ok ops K"
  shows "refines K {Op_RecvOob} (handleOobLink K m3)"
  "refines K {Op_RecvValidating} (handleValidating K m4)"
  "refines K {Op_RecvCredState} (handleCredentialStateChange K m5)"
  "refines K {Op_RecvProblemReport} (handleProblemReport K m6)"
  unfolding handleOobLink_def handleValidating_def handleCredentialStateChange_def handleProblemReport_def
  by (intro refines_if_bnd refines_processReceiveOobLink [OF laws2]
      refines_processReceiveValidating [OF laws2] refines_processReceiveCredentialStateChange [OF laws2]
      refines_processReceiveProblemReport [OF laws2] refines_if_pure stable_True)+

end
