(* ===== verification/FlowInvariants.thy ===== *)
theory FlowInvariants
  imports FlowSpec
begin

text \<open>
  What the transition system of \<open>FlowSpec\<close> keeps: records stay under their id, an out-of-band link
  only in OOB_PENDING, an event log that mirrors the stored states without a gap, the immutable part
  of a session, and the short list of operations that can take a flow out of a terminal state.
\<close>

section \<open>The event log\<close>

definition evs :: "string \<Rightarrow> vt_flow_state_changed list \<Rightarrow> vt_flow_state_changed list" where
  "evs i es = filter (\<lambda>e. ev_vtFlowRecordId e = i) es"

text \<open>
  \<open>chained p es q\<close>: the events lead from the state \<open>p\<close> to the state \<open>q\<close>, each starting in the state the
  one before ended in; \<open>None\<close> is the state of a flow that does not exist yet.
\<close>

fun chained ::
  "vt_flow_state option \<Rightarrow> vt_flow_state_changed list \<Rightarrow> vt_flow_state option \<Rightarrow> bool" where
  "chained p [] q \<longleftrightarrow> p = q"
| "chained p (e # es) q \<longleftrightarrow> ev_previousState e = p \<and> chained (Some (ev_state e)) es q"

lemma chained_snoc [simp]:
  "chained p (es @ [e]) q \<longleftrightarrow> chained p es (ev_previousState e) \<and> q = Some (ev_state e)"
  by (induction es arbitrary: p) auto

lemma evs_Nil [simp]: "evs i [] = []"
  by (simp add: evs_def)

lemma evs_snoc [simp]:
  "evs i (es @ [e]) = (if ev_vtFlowRecordId e = i then evs i es @ [e] else evs i es)"
  by (simp add: evs_def)

lemma event_of_sel [simp]:
  "ev_vtFlowRecordId (event_of r p) = rec_id r" "ev_state (event_of r p) = state r"
  "ev_previousState (event_of r p) = p" "ev_threadId (event_of r p) = threadId r"
  "ev_participantSessionId (event_of r p) = participantSessionId r"
  by (simp_all add: event_of_def)

definition log_ok :: "sys \<Rightarrow> bool" where
  "log_ok s \<longleftrightarrow> (\<forall>i. chained None (evs i (snd s)) (map_option state (fst s i)))"

lemma log_okD: "log_ok (f, ev) \<Longrightarrow> f i = x \<Longrightarrow> chained None (evs i ev) (map_option state x)"
  by (auto simp: log_ok_def)

lemma log_ok_step: "sys_step opn s t \<Longrightarrow> log_ok s \<Longrightarrow> log_ok t"
proof (induction rule: sys_step.induct)
  case (create f r opn ev)
  from log_okD [OF create.prems create.hyps(1)] create.prems show ?case
    by (simp add: log_ok_def)
next
  case (stay f r r0 opn ev)
  from log_okD [OF stay.prems stay.hyps(1)] stay show ?case
    by (simp add: log_ok_def)
next
  case (again f r opn ev)
  from log_okD [OF again.prems again.hyps(1)] again.prems show ?case
    by (simp add: log_ok_def again.hyps(1))
next
  case (move f r r0 opn ev)
  from log_okD [OF move.prems move.hyps(1)] move.prems show ?case
    by (simp add: log_ok_def)
qed

section \<open>Well-formed stores\<close>

definition links_ok :: "sys \<Rightarrow> bool" where
  "links_ok s \<longleftrightarrow>
     (\<forall>i r. fst s i = Some r \<longrightarrow> rec_id r = i \<and> (oobLink r = None \<or> state r = OobPending))"

lemma links_okD: "links_ok (f, ev) \<Longrightarrow> f i = Some r \<Longrightarrow> oobLink r = None \<or> state r = OobPending"
  by (auto simp: links_ok_def)

lemma links_ok_upd:
  "links_ok (f, ev) \<Longrightarrow> oobLink r = None \<or> state r = OobPending \<Longrightarrow>
     links_ok (f(rec_id r \<mapsto> r), ev')"
  by (simp add: links_ok_def)

lemma links_ok_step: "sys_step opn s t \<Longrightarrow> links_ok s \<Longrightarrow> links_ok t"
proof (induction rule: sys_step.induct)
  case (stay f r r0 opn ev)
  then show ?case
    using links_okD [OF stay.prems stay.hyps(1)] by (auto simp: link_ok_def intro: links_ok_upd)
next
  case (move f r r0 opn ev)
  then show ?case
    using links_okD [OF move.prems move.hyps(1)] by (auto simp: link_ok_def intro: links_ok_upd)
qed (auto intro: links_ok_upd simp: links_ok_def)

definition sys_ok :: "sys \<Rightarrow> bool" where
  "sys_ok s \<longleftrightarrow> links_ok s \<and> log_ok s"

lemma sys_ok_step: "sys_step opn s t \<Longrightarrow> sys_ok s \<Longrightarrow> sys_ok t"
  by (auto simp: sys_ok_def intro: links_ok_step log_ok_step)

lemma sys_ok_path: "path ops s t \<Longrightarrow> sys_ok s \<Longrightarrow> sys_ok t"
  by (erule path_inv) (auto intro: sys_ok_step)

lemma sys_ok_empty: "sys_ok (\<lambda>_. None, [])"
  by (simp add: sys_ok_def links_ok_def log_ok_def)

section \<open>Sessions never change hands\<close>

lemma session_path:
  assumes "path ops s t" and "fst s i = Some r" and "rec_id r = i"
  shows "\<exists>r'. fst t i = Some r' \<and> same_session r r'"
proof -
  have "has_session r s" using assms(2,3) by (auto simp: has_session_def)
  then have "has_session r t" using assms(1) by (blast intro: stable_path stable_has_session)
  with assms(3) show ?thesis by (auto simp: has_session_def)
qed

section \<open>Leaving a terminal state\<close>

text \<open>The operations whose row of \<open>can_move\<close> has a terminal source.\<close>

definition leaves_terminal :: "flow_op set" where
  "leaves_terminal =
     {Op_RecvCredState, Op_TermApplicant, Op_TermChain, Op_RecordValidation, Op_Exchange}"

lemma can_move_terminal:
  "can_move opn rl v s t \<Longrightarrow> isVtFlowTerminalState s \<Longrightarrow> opn \<in> leaves_terminal"
  by (cases opn) (auto simp: leaves_terminal_def terminateByValidator_from_def)

definition in_state :: "string \<Rightarrow> vt_flow_state \<Rightarrow> sys \<Rightarrow> bool" where
  "in_state i st s \<longleftrightarrow> (\<exists>r. fst s i = Some r \<and> state r = st)"

lemma terminal_step:
  "sys_step opn s t \<Longrightarrow> opn \<notin> leaves_terminal \<Longrightarrow> in_state i st s \<Longrightarrow>
     isVtFlowTerminalState st \<Longrightarrow> in_state i st t"
  by (induction rule: sys_step.induct)
    (auto simp: in_state_def dest: can_move_terminal split: if_splits)

lemma terminal_path:
  "path ops s t \<Longrightarrow> ops \<inter> leaves_terminal = {} \<Longrightarrow> in_state i st s \<Longrightarrow>
     isVtFlowTerminalState st \<Longrightarrow> in_state i st t"
  by (induction rule: path_induct) (blast intro: terminal_step)+

text \<open>No operation moves a flow into AWAITING_OP.\<close>

lemma no_awaiting_op:
  "sys_step opn s t \<Longrightarrow> opn \<noteq> Op_RecordValidation \<Longrightarrow>
     (\<forall>i. \<not> in_state i AwaitingOp s) \<Longrightarrow> \<not> in_state i AwaitingOp t"
proof (induction rule: sys_step.induct)
  case (move f r r0 opn ev)
  then show ?case
    by (cases opn) (auto simp: in_state_def split: if_splits)
next
  case (create f r opn ev)
  then show ?case
    by (cases opn) (auto simp: in_state_def split: if_splits)
qed (auto simp: in_state_def split: if_splits)

end
