(* ===== verification/FlowApi.thy ===== *)
theory FlowApi
  imports FlowActions
begin

text \<open>
  \<open>VtFlowApi.ts\<close>: each method runs one transition of \<open>VtFlowService\<close> and hands its message to the
  message sender. Method names that would clash with the service's carry an \<open>api_\<close> prefix.
\<close>

section \<open>Sending\<close>

definition connectionById ::
  "('st, 'x) env \<Rightarrow> string \<Rightarrow> (('st, 'x) world, err, did_connection) comp" where
  "connectionById K c = raise (\<lambda>w. conn_getById K (ext w) c)"

definition readyConnectionById ::
  "('st, 'x) env \<Rightarrow> string \<Rightarrow> (('st, 'x) world, err, did_connection) comp" where
  "readyConnectionById K c =
     bnd (connectionById K c) (\<lambda>connection.
     sqn (raise (\<lambda>w. conn_assertReady K connection)) (ret connection))"

definition dispatchMessage ::
  "('st, 'x) env \<Rightarrow> string \<Rightarrow> wire_message \<Rightarrow> (('st, 'x) world, err, unit) comp" where
  "dispatchMessage K c m =
     bnd (connectionById K c) (\<lambda>connection. sendMessage K m (Some (conn_id connection)))"

section \<open>Requests\<close>

record send_onboarding_options =
  so_connectionId :: string
  so_participantSessionId :: "string option"
  so_applicantParticipantId :: string
  so_applicantParticipantRole :: "int option"
  so_validatorParticipantId :: "string option"
  so_schemaId :: "string option"
  so_agentParticipantId :: string
  so_walletAgentParticipantId :: string
  so_claims :: "json option"

record send_issuance_options =
  si_connectionId :: string
  si_participantSessionId :: "string option"
  si_schemaId :: string
  si_agentParticipantId :: string
  si_walletAgentParticipantId :: string
  si_claims :: "json option"

definition sessionIdOrNew ::
  "('st, 'x) env \<Rightarrow> string option \<Rightarrow> (('st, 'x) world, err, string) comp" where
  "sessionIdOrNew K p = (case p of None \<Rightarrow> generateId K | Some s \<Rightarrow> ret s)"

definition sendOnboardingRequest ::
  "('st, 'x) env \<Rightarrow> send_onboarding_options \<Rightarrow> (('st, 'x) world, err, vt_flow_record) comp" where
  "sendOnboardingRequest K o1 =
     bnd (readyConnectionById K (so_connectionId o1)) (\<lambda>connection.
     sqn (checkIsVerifiableService K connection None)
    (bnd (sessionIdOrNew K (so_participantSessionId o1)) (\<lambda>psid.
     bnd (createOnboardingProcessRecord K
           \<lparr> cp_connectionId = so_connectionId o1, cp_participantSessionId = psid,
             cp_applicantParticipantId = so_applicantParticipantId o1,
             cp_applicantParticipantRole = so_applicantParticipantRole o1,
             cp_validatorParticipantId = so_validatorParticipantId o1,
             cp_schemaId = so_schemaId o1, cp_agentParticipantId = so_agentParticipantId o1,
             cp_walletAgentParticipantId = so_walletAgentParticipantId o1,
             cp_claims = so_claims o1 \<rparr>) (\<lambda>(message, record).
     sqn (sendMessage K (Wire_OnboardingRequest message) (Some (conn_id connection)))
      (ret record)))))"

definition resendOnboardingRequest ::
  "('st, 'x) env \<Rightarrow> string \<Rightarrow> string \<Rightarrow> (('st, 'x) world, err, vt_flow_record) comp" where
  "resendOnboardingRequest K vtFlowRecordId c =
     bnd (readyConnectionById K c) (\<lambda>connection.
     sqn (checkIsVerifiableService K connection None)
    (bnd (reattachOnboardingProcessRecord K vtFlowRecordId c) (\<lambda>(message, record).
     sqn (sendMessage K (Wire_OnboardingRequest message) (Some (conn_id connection)))
      (ret record))))"

definition sendIssuanceRequest ::
  "('st, 'x) env \<Rightarrow> send_issuance_options \<Rightarrow> (('st, 'x) world, err, vt_flow_record) comp" where
  "sendIssuanceRequest K o1 =
     bnd (readyConnectionById K (si_connectionId o1)) (\<lambda>connection.
     sqn (checkIsVerifiableService K connection None)
    (bnd (sessionIdOrNew K (si_participantSessionId o1)) (\<lambda>psid.
     bnd (createDirectIssuanceRecord K
           \<lparr> ip_connectionId = si_connectionId o1, ip_participantSessionId = psid,
             ip_schemaId = si_schemaId o1, ip_agentParticipantId = si_agentParticipantId o1,
             ip_walletAgentParticipantId = si_walletAgentParticipantId o1,
             ip_claims = si_claims o1 \<rparr>) (\<lambda>(message, record).
     sqn (sendMessage K (Wire_IssuanceRequest message) (Some (conn_id connection)))
      (ret record)))))"

section \<open>The applicant's side of the credential exchange\<close>

definition msg_no_exchange :: "string \<Rightarrow> string" where
  "msg_no_exchange i =
     ''VtFlow record '' @ quoted i @ '' has no linked credentialExchangeRecordId''"

text \<open>The dash of this text is the UTF-8 form of U+2014.\<close>

definition msg_no_offer :: "string \<Rightarrow> string" where
  "msg_no_offer i =
     msg_no_exchange i @ '' '' @ [CHR 0xE2, CHR 0x80, CHR 0x94] @ '' did an offer arrive?''"

definition acceptReceivedCredential ::
  "('st, 'x) env \<Rightarrow> string \<Rightarrow> (('st, 'x) world, err, vt_flow_record) comp" where
  "acceptReceivedCredential K vtFlowRecordId =
     bnd (getById K vtFlowRecordId) (\<lambda>record.
     sqn (assertRole record Applicant)
    (sqn (guard (truthy (credentialExchangeRecordId record))
            (CredoError (msg_no_offer (rec_id record))))
    (sqn (creds_acceptCredential K (the (credentialExchangeRecordId record)))
      (ret record))))"

definition DATA_INTEGRITY_OFFER_FORMAT :: string where
  "DATA_INTEGRITY_OFFER_FORMAT = ''didcomm/w3c-di-vc-offer@v0.1''"

text \<open>\<open>conformant\<close>: exactly one format, the data integrity one, for data model 2.0, with no binding.\<close>

definition offer_conformant :: "offer_message option \<Rightarrow> bool" where
  "offer_conformant offer =
     (case offer of
        None \<Rightarrow> False
      | Some m \<Rightarrow>
          (case om_formats m of
             [(fmt, data)] \<Rightarrow>
               fmt = DATA_INTEGRITY_OFFER_FORMAT \<and>
               (case data of
                  None \<Rightarrow> False
                | Some d \<Rightarrow>
                    (case od_dataModelVersions d of
                       None \<Rightarrow> False
                     | Some vs \<Rightarrow> ''2.0'' \<in> set vs) \<and>
                    od_bindingRequired d \<noteq> Some True)
           | _ \<Rightarrow> False))"

definition msg_offer_must_be :: string where
  "msg_offer_must_be =
     ''The offer must be '' @ DATA_INTEGRITY_OFFER_FORMAT @
     '' for VC Data Model 2.0 with no binding''"

definition acceptCredentialOffer ::
  "('st, 'x) env \<Rightarrow> string \<Rightarrow> (('st, 'x) world, err, vt_flow_record) comp" where
  "acceptCredentialOffer K vtFlowRecordId =
     bnd (getById K vtFlowRecordId) (\<lambda>record.
     sqn (assertRole record Applicant)
    (sqn (guard (truthy (credentialExchangeRecordId record))
            (CredoError (msg_no_exchange (rec_id record))))
     (let exchangeId = the (credentialExchangeRecordId record)
      in bnd (gets (\<lambda>w. creds_findOfferMessage K (ext w) exchangeId)) (\<lambda>offer.
         if \<not> offer_conformant offer
         then sqn (creds_declineOffer K exchangeId msg_offer_must_be) (ret record)
         else sqn (creds_acceptOffer K exchangeId) (ret record)))))"

section \<open>Terminations, acceptance, rejection, out-of-band step\<close>

definition terminateSession ::
  "('st, 'x) env \<Rightarrow> string \<Rightarrow> vt_flow_error_code \<Rightarrow> string option \<Rightarrow> string option \<Rightarrow>
   (('st, 'x) world, err, vt_flow_record) comp" where
  "terminateSession K i code en hint =
     bnd (terminateByApplicant K i (Some code) en hint) (\<lambda>(record, problemReport).
     sqn (dispatchMessage K (connectionId record) (Wire_ProblemReport problemReport))
      (ret record))"

definition terminateSessionAsValidator ::
  "('st, 'x) env \<Rightarrow> string \<Rightarrow> vt_flow_error_code \<Rightarrow> string option \<Rightarrow> string option \<Rightarrow>
   (('st, 'x) world, err, vt_flow_record) comp" where
  "terminateSessionAsValidator K i code en hint =
     bnd (terminateByValidator K i (Some code) en hint) (\<lambda>(record, problemReport).
     sqn (dispatchMessage K (connectionId record) (Wire_ProblemReport problemReport))
      (ret record))"

definition api_terminateByChainEvent ::
  "('st, 'x) env \<Rightarrow> string \<Rightarrow> vt_flow_error_code \<Rightarrow> chain_end \<Rightarrow> string option \<Rightarrow>
   (('st, 'x) world, err, vt_flow_record) comp" where
  "api_terminateByChainEvent K i code ending en =
     bnd (terminateByChainEvent K i code ending en) (\<lambda>(record, problemReport).
     sqn (catch (dispatchMessage K (connectionId record) (Wire_ProblemReport problemReport))
            (\<lambda>e. ret ()))
      (ret record))"

definition api_rejectRequest ::
  "('st, 'x) env \<Rightarrow> string \<Rightarrow> vt_flow_error_code \<Rightarrow> string option \<Rightarrow> string option \<Rightarrow>
   (('st, 'x) world, err, vt_flow_record) comp" where
  "api_rejectRequest K i code en hint =
     bnd (rejectRequest K i code en hint) (\<lambda>(record, problemReport).
     sqn (dispatchMessage K (connectionId record) (Wire_ProblemReport problemReport))
      (ret record))"

definition api_acceptOnboardingRequest ::
  "('st, 'x) env \<Rightarrow> string \<Rightarrow> (('st, 'x) world, err, vt_flow_record) comp" where
  "api_acceptOnboardingRequest K i =
     catch
      (bnd (acceptOnboardingRequest K i) (\<lambda>(record, message).
       sqn (case message of
              None \<Rightarrow> ret ()
            | Some m \<Rightarrow> dispatchMessage K (connectionId record) (Wire_Validating m))
        (ret record)))
      (\<lambda>error. case error of
         VtFlowError code msg \<Rightarrow> sqn (api_rejectRequest K i code None None) (throw error)
       | _ \<Rightarrow> throw error)"

definition api_acceptIssuanceRequest ::
  "('st, 'x) env \<Rightarrow> string \<Rightarrow> (('st, 'x) world, err, vt_flow_record) comp" where
  "api_acceptIssuanceRequest K i =
     bnd (acceptIssuanceRequest K i) (\<lambda>(record, message).
     sqn (dispatchMessage K (connectionId record) (Wire_Validating message)) (ret record))"

definition sendOobLink ::
  "('st, 'x) env \<Rightarrow> string \<Rightarrow> string \<Rightarrow> string \<Rightarrow> int option \<Rightarrow>
   (('st, 'x) world, err, vt_flow_record) comp" where
  "sendOobLink K i url description expiresTime =
     bnd (sendOobLinkForSession K i url description expiresTime) (\<lambda>(record, message).
     sqn (dispatchMessage K (connectionId record) (Wire_OobLink message)) (ret record))"

definition sendValidating ::
  "('st, 'x) env \<Rightarrow> string \<Rightarrow> string option \<Rightarrow> (('st, 'x) world, err, vt_flow_record) comp" where
  "sendValidating K i comment =
     bnd (sendValidatingForSession K i comment) (\<lambda>(record, message).
     sqn (dispatchMessage K (connectionId record) (Wire_Validating message)) (ret record))"

section \<open>The validator's side of the credential exchange\<close>

definition msg_no_v2 :: string where
  "msg_no_v2 =
     ''DidCommCredentialV2Protocol is not registered on the agent. '' @
     ''vt-flow requires it for Issue Credential V2 offers.''"

definition offerCredentialForSession ::
  "('st, 'x) env \<Rightarrow> string \<Rightarrow> offer_payload \<Rightarrow>
   (('st, 'x) world, err, vt_flow_record \<times> cred_exchange) comp" where
  "offerCredentialForSession K vtFlowRecordId p =
     bnd (getById K vtFlowRecordId) (\<lambda>record.
     sqn (assertCanOfferCredential record)
    (bnd (readyConnectionById K (connectionId record)) (\<lambda>connection.
     sqn (guard (proto_registered K ''v2'') (CredoError msg_no_v2))
    (bnd (proto_createOffer K connection p) (\<lambda>ex.
     let ex1 = ex\<lparr>ex_parentThreadId := Some (threadId record)\<rparr>
     in sqn (exchange_update K ex1)
       (sqn (sendMessage K (Wire_OfferCredential (ex_threadId ex1) (Some (threadId record)))
              (Some (conn_id connection)))
       (sqn (bnd (attachCredentialExchangeRecord K (rec_id record) ex1 (of_credentialDigest p)
                   (of_issuerParticipantId p) (of_credentialId p)) (\<lambda>_. ret ()))
       (bnd (getById K (rec_id record)) (\<lambda>r. ret (r, ex1))))))))))"

definition msg_no_protocol :: "string \<Rightarrow> string" where
  "msg_no_protocol v = ''No credential protocol registered for version '' @ quoted v"

definition msg_no_issued :: "string \<Rightarrow> string" where
  "msg_no_issued e = ''Credential exchange '' @ quoted e @ '' has no issued credential''"

definition msg_no_body :: "string \<Rightarrow> string" where
  "msg_no_body e =
     ''Issued credential for '' @ quoted e @ '' has no data integrity credential body to anchor''"

text \<open>The message to deliver: the one signed by an earlier call, or one signed now without sending.\<close>

definition credentialMessage ::
  "('st, 'x) env \<Rightarrow> cred_exchange \<Rightarrow> string option \<Rightarrow> json option \<Rightarrow>
   (('st, 'x) world, err, json) comp" where
  "credentialMessage K ex comment formats =
     (let reissue = (ex_state ex = CS_CredentialIssued)
      in bnd (if reissue then gets (\<lambda>w. proto_findCredentialMessage K (ext w) (ex_id ex))
              else ret None) (\<lambda>storedMessage.
         sqn (guard (\<not> (reissue \<and> storedMessage = None)) (CredoError (msg_no_issued (ex_id ex))))
          (case storedMessage of
             Some m \<Rightarrow> ret m
           | None \<Rightarrow> proto_acceptRequest K ex comment
               (withDefault formats
                 (JObj [(''dataIntegrity'',
                    JObj [(''cryptosuite'', JStr (dataIntegrityCryptosuite (config K)))])])))))"

text \<open>
  The \<open>onBeforeCredentialIssued\<close> hook: \<open>True\<close> when the credential may be delivered, \<open>False\<close> when the
  anchoring transaction failed.
\<close>

definition anchorCredential ::
  "('st, 'x) env \<Rightarrow> vt_flow_record \<Rightarrow> cred_exchange \<Rightarrow> (('st, 'x) world, err, bool) comp" where
  "anchorCredential K record ex =
     (case onBeforeCredentialIssued (config K) of
        None \<Rightarrow> ret True
      | Some hook \<Rightarrow>
          bnd (gets (\<lambda>w. proto_getCredential K (ext w) (ex_id ex))) (\<lambda>credential.
          sqn (guard (credential \<noteq> None) (CredoError (msg_no_body (ex_id ex))))
         (bnd (hook record ex (the credential)) (\<lambda>result.
          let iss = (case result of None \<Rightarrow> None | Some b \<Rightarrow> bi_issuance b);
              digest = (case result of None \<Rightarrow> None | Some b \<Rightarrow> bi_credentialDigest b)
          in sqn (case iss of
                    None \<Rightarrow> ret ()
                  | Some x \<Rightarrow> bnd (recordIssuance K (rec_id record) x) (\<lambda>_. ret ()))
            (if (case iss of None \<Rightarrow> False | Some x \<Rightarrow>
                   (case issuance_tx x of None \<Rightarrow> False | Some t \<Rightarrow> tx_status t = TxStatus_Failed))
             then ret False
             else sqn (if truthy digest
                       then bnd (setCredentialDigest K (rec_id record) (the digest)) (\<lambda>_. ret ())
                       else ret ())
                    (ret True))))))"

definition issueCredentialForSession ::
  "('st, 'x) env \<Rightarrow> string \<Rightarrow> string \<Rightarrow> string option \<Rightarrow> json option \<Rightarrow>
   (('st, 'x) world, err, vt_flow_record \<times> cred_exchange) comp" where
  "issueCredentialForSession K vtFlowRecordId exchangeId comment formats =
     bnd (getById K vtFlowRecordId) (\<lambda>record.
     sqn (assertRole record Validator)
    (bnd (raise (\<lambda>w. exch_getById K (ext w) exchangeId)) (\<lambda>ex.
     sqn (guard (proto_registered K (ex_protocolVersion ex))
            (CredoError (msg_no_protocol (ex_protocolVersion ex))))
    (bnd (if truthy (ex_connectionId ex)
          then bnd (readyConnectionById K (the (ex_connectionId ex))) (\<lambda>c. ret (Some c))
          else ret None) (\<lambda>connection.
     bnd (credentialMessage K ex comment formats) (\<lambda>message.
     bnd (anchorCredential K record ex) (\<lambda>deliver.
     sqn (whenM deliver
            (sendMessage K (Wire_IssuedCredential message) (map_option conn_id connection)))
    (bnd (getById K (rec_id record)) (\<lambda>r. ret (r, ex))))))))))"

definition msg_no_subprotocol :: "string \<Rightarrow> string" where
  "msg_no_subprotocol i =
     ''VtFlow record '' @ quoted i @
     '' has no subprotocolThid; cannot notify credential-state-change.''"

definition api_notifyCredentialStateChange ::
  "('st, 'x) env \<Rightarrow> string \<Rightarrow> string \<Rightarrow> string option \<Rightarrow> string option \<Rightarrow>
   (('st, 'x) world, err, vt_flow_record) comp" where
  "api_notifyCredentialStateChange K i newState thid0 reason =
     bnd (getById K i) (\<lambda>existing.
     let thid = orElse thid0 (subprotocolThid existing)
     in sqn (guard (truthy thid) (CredoError (msg_no_subprotocol (rec_id existing))))
       (bnd (notifyCredentialStateChange K i newState (the thid) reason) (\<lambda>(record, message).
        sqn (dispatchMessage K (connectionId record) (Wire_CredentialStateChange message))
         (ret record))))"

end
