(* ===== verification/FlowModule.thy ===== *)
theory FlowModule
  imports FlowApi
begin

text \<open>
  \<open>VtFlowModule.ts\<close>: the four listeners \<open>initialize\<close> installs. The first runs on a state change of a
  credential exchange, the others on a \<open>VtFlowStateChanged\<close> event. A listener starts some time after
  its event was emitted, so it is a step of its own that reads the store as it finds it.
\<close>

definition auto_issue_failed :: string where
  "auto_issue_failed = ''Credential issuance aborted: the digest could not be anchored''"

definition verifyReceived ::
  "('st, 'x) env \<Rightarrow> vt_flow_record \<Rightarrow> cred_exchange \<Rightarrow> (('st, 'x) world, err, unit) comp" where
  "verifyReceived K record ex =
     (case verifyCredential (config K) of
        None \<Rightarrow> ret ()
      | Some verify \<Rightarrow>
          whenM (ex_state ex = CS_CredentialReceived \<and> role record = Applicant)
           (catch
             (bnd (verify record ex) (\<lambda>ok. whenM ok (creds_acceptCredential K (ex_id ex))))
             (\<lambda>e. ret ())))"

definition autoIssue ::
  "('st, 'x) env \<Rightarrow> vt_flow_record \<Rightarrow> cred_exchange \<Rightarrow> (('st, 'x) world, err, unit) comp" where
  "autoIssue K record ex =
     whenM (ex_state ex = CS_RequestReceived \<and> role record = Validator \<and>
            autoIssueCredentialOnRequest (config K))
      (catch
        (bnd (issueCredentialForSession K (rec_id record) (ex_id ex) None None) (\<lambda>_. ret ()))
        (\<lambda>e. catch
          (bnd (terminateSessionAsValidator K (rec_id record) EC_InternalError
                 (Some auto_issue_failed) None) (\<lambda>_. ret ()))
          (\<lambda>e2. ret ())))"

definition onCredentialExchangeChanged ::
  "('st, 'x) env \<Rightarrow> cred_exchange \<Rightarrow> (('st, 'x) world, err, unit) comp" where
  "onCredentialExchangeChanged K ex =
     (if \<not> truthy (ex_parentThreadId ex) then ret ()
      else bnd (findByThreadId K (the (ex_parentThreadId ex))) (\<lambda>found. case found of
        None \<Rightarrow> ret ()
      | Some record0 \<Rightarrow>
          bnd (onSubprotocolStateChanged K record0 ex) (\<lambda>record.
          sqn (verifyReceived K record ex) (autoIssue K record ex))))"

definition completedListener ::
  "('st, 'x) env \<Rightarrow> vt_flow_state_changed \<Rightarrow> (('st, 'x) world, err, unit) comp" where
  "completedListener K payload =
     (if ev_state payload \<noteq> Completed then ret ()
      else if ev_previousState payload = Some Completed then ret ()
      else case onCompleted (config K) of
        None \<Rightarrow> ret ()
      | Some hook \<Rightarrow>
          catch
           (bnd (findById K (ev_vtFlowRecordId payload)) (\<lambda>found. case found of
              None \<Rightarrow> ret ()
            | Some record \<Rightarrow>
                if \<not> truthy (credentialExchangeRecordId record) then ret ()
                else bnd (gets (\<lambda>w. exch_findById K (ext w)
                            (the (credentialExchangeRecordId record)))) (\<lambda>ex. case ex of
                    None \<Rightarrow> ret ()
                  | Some e \<Rightarrow> hook record e)))
           (\<lambda>e. ret ()))"

definition revokedListener ::
  "('st, 'x) env \<Rightarrow> vt_flow_state_changed \<Rightarrow> (('st, 'x) world, err, unit) comp" where
  "revokedListener K payload =
     (if ev_state payload \<noteq> CredRevoked then ret ()
      else if ev_previousState payload = Some CredRevoked then ret ()
      else case onCredentialRevoked (config K) of
        None \<Rightarrow> ret ()
      | Some hook \<Rightarrow>
          catch
           (bnd (findById K (ev_vtFlowRecordId payload)) (\<lambda>found. case found of
              None \<Rightarrow> ret ()
            | Some record \<Rightarrow> if role record \<noteq> Applicant then ret () else hook record))
           (\<lambda>e. ret ()))"

text \<open>The conditions of the auto-chain, one per automatic step.\<close>

definition autoAcceptsOffer ::
  "('st, 'x) env \<Rightarrow> vt_flow_state_changed \<Rightarrow> vt_flow_record \<Rightarrow> bool" where
  "autoAcceptsOffer K payload record \<longleftrightarrow>
     role record = Applicant \<and> ev_state payload = CredOffered \<and>
     autoAcceptCredentialOffer (config K) \<and> truthy (credentialExchangeRecordId record)"

definition autoAcceptsOR :: "('st, 'x) env \<Rightarrow> vt_flow_state_changed \<Rightarrow> bool" where
  "autoAcceptsOR K payload \<longleftrightarrow>
     ev_state payload = AwaitingOr \<and>
     (ev_previousState payload = None \<or> ev_previousState payload = Some AwaitingOr \<or>
      ev_previousState payload = Some Completed \<or> ev_previousState payload = Some Validated) \<and>
     autoAcceptOnboardingRequest (config K)"

definition autoAcceptsIR :: "('st, 'x) env \<Rightarrow> vt_flow_state_changed \<Rightarrow> bool" where
  "autoAcceptsIR K payload \<longleftrightarrow>
     ev_state payload = AwaitingIr \<and> ev_previousState payload = None \<and>
     autoAcceptIssuanceRequest (config K)"

definition autoMarks :: "('st, 'x) env \<Rightarrow> vt_flow_state_changed \<Rightarrow> vt_flow_record \<Rightarrow> bool" where
  "autoMarks K payload record \<longleftrightarrow>
     ev_state payload = Validating \<and> autoMarkValidated (config K) \<and>
     variant record = OnboardingProcess"

definition readyToOffer :: "vt_flow_state_changed \<Rightarrow> vt_flow_record \<Rightarrow> bool" where
  "readyToOffer payload record \<longleftrightarrow>
     (variant record = OnboardingProcess \<and> ev_state payload = Validated) \<or>
     (variant record = DirectIssuance \<and> ev_state payload = Validating \<and>
      ev_previousState payload \<noteq> Some OobPending)"

definition autoOffer ::
  "('st, 'x) env \<Rightarrow> vt_flow_record \<Rightarrow> (('st, 'x) world, err, unit) comp" where
  "autoOffer K record =
     (case buildCredentialOffer (config K) of
        None \<Rightarrow> ret ()
      | Some build \<Rightarrow>
          bnd (build record) (\<lambda>payload. case payload of
             None \<Rightarrow> ret ()
           | Some p \<Rightarrow> bnd (offerCredentialForSession K (rec_id record) p) (\<lambda>_. ret ())))"

definition autoChainListener ::
  "('st, 'x) env \<Rightarrow> vt_flow_state_changed \<Rightarrow> (('st, 'x) world, err, unit) comp" where
  "autoChainListener K payload =
     catch
      (bnd (findById K (ev_vtFlowRecordId payload)) (\<lambda>found. case found of
         None \<Rightarrow> ret ()
       | Some record \<Rightarrow>
           if autoAcceptsOffer K payload record then
             bnd (acceptCredentialOffer K (rec_id record)) (\<lambda>_. ret ())
           else if role record \<noteq> Validator then ret ()
           else if autoAcceptsOR K payload then
             bnd (api_acceptOnboardingRequest K (rec_id record)) (\<lambda>_. ret ())
           else if autoAcceptsIR K payload then
             bnd (api_acceptIssuanceRequest K (rec_id record)) (\<lambda>_. ret ())
           else if autoMarks K payload record then
             bnd (markValidated K (rec_id record)) (\<lambda>_. ret ())
           else if ev_state payload = Validated \<and> ev_previousState payload = Some Validated then
             (case onReconnected (config K) of None \<Rightarrow> ret () | Some hook \<Rightarrow> hook record)
           else if readyToOffer payload record \<and> autoOfferCredential (config K)
           then autoOffer K record
           else ret ()))
      (\<lambda>e. ret ())"

end
