(* ===== verification/FlowMachine.thy ===== *)
theory FlowMachine
  imports FlowRefine FlowInvariants FlowModule
begin

text \<open>
  The agent as a machine: one command per entry point of the package (every \<open>VtFlowApi\<close> method, every
  message handler, every listener, and a change of the world around it), run in any order. The API and
  the listeners refine the transition system as well, so a command run in any environment keeps the
  invariant of \<open>FlowInvariants\<close>. \<open>command_machine\<close> is interpreted on it twice, for the invariant and for the terminal states.
\<close>

section \<open>API and listeners refine the transition system\<close>

lemma refines_if_cases:
  "(\<And>a b. refines_if K P ops (f a b)) \<Longrightarrow> refines_if K P ops (case p of (a, b) \<Rightarrow> f a b)"
  "(c \<Longrightarrow> refines_if K P ops m) \<Longrightarrow> (\<not> c \<Longrightarrow> refines_if K P ops n) \<Longrightarrow>
     refines_if K P ops (if c then m else n)"
  "(c \<Longrightarrow> refines_if K P ops u) \<Longrightarrow> refines_if K P ops (whenM c u)"
  "(x = None \<Longrightarrow> refines_if K P ops m) \<Longrightarrow> (\<And>y. x = Some y \<Longrightarrow> refines_if K P ops (g y)) \<Longrightarrow>
     refines_if K P ops (case x of None \<Rightarrow> m | Some y \<Rightarrow> g y)"
  by (auto simp: whenM_def split: prod.split option.split)

lemma refines_calls [simp]:
  "refines_if K P ops (generateId K)" "refines_if K P ops (connectionById K c)"
  "refines_if K P ops (readyConnectionById K c)" "refines_if K P ops (assertRole r rl)"
  "refines_if K P ops (assertCanOfferCredential r)" "refines_if K P ops (exchange_update K e)"
  "refines_if K P ops (sessionIdOrNew K p)" "refines_if K P ops (getById K i)"
  "refines_if K P ops (findById K i)" "refines_if K P ops (findByThreadId K t)"
  by (auto simp: refines_if_def wp connectionById_def readyConnectionById_def sessionIdOrNew_def
      getById_def split: sum.splits option.splits)

lemmas refines_rules = refines_if_bnd refines_if_sqn refines_if_catch refines_if_cases
  refines_if_pure refines_calls stable_True


lemma refines_sendMessage:
  assumes laws: "repo_laws K" and hooks: "hooks_ok ops K"
  shows "refines K ops (sendMessage K m c)"
proof -
  have "refines K ops (msg_send K m c)" using hooks by (simp add: hooks_ok_def)
  moreover have "refines K ops (modify (\<lambda>w. w\<lparr>sent := sent w @ [(m, c)]\<rparr>))"
    by (simp add: refines_if_def wp)
  ultimately show ?thesis unfolding sendMessage_def by (blast intro: refines_if_sqn)
qed

lemma refines_dispatchMessage:
  assumes laws: "repo_laws K" and hooks: "hooks_ok ops K"
  shows "refines K ops (dispatchMessage K c m)"
  unfolding dispatchMessage_def by (intro refines_rules refines_sendMessage [OF laws hooks])

text \<open>The service's methods with the operation each one stands for.\<close>

lemma refines_service:
  assumes laws: "repo_laws K" and hooks: "hooks_ok ops K"
  shows "Op_SendOR \<in> ops \<Longrightarrow> refines K ops (createOnboardingProcessRecord K p1)"
  "Op_SendIR \<in> ops \<Longrightarrow> refines K ops (createDirectIssuanceRecord K p2)"
  "Op_Reattach \<in> ops \<Longrightarrow> refines K ops (reattachOnboardingProcessRecord K i c)"
  "Op_AcceptIR \<in> ops \<Longrightarrow> refines K ops (acceptIssuanceRequest K i)"
  "Op_Reject \<in> ops \<Longrightarrow> refines K ops (rejectRequest K i code en hint)"
  "Op_TermApplicant \<in> ops \<Longrightarrow> refines K ops (terminateByApplicant K i oc en hint)"
  "Op_TermValidator \<in> ops \<Longrightarrow> refines K ops (terminateByValidator K i oc en hint)"
  "Op_TermChain \<in> ops \<Longrightarrow> refines K ops (terminateByChainEvent K i code ending en)"
  "Op_SendOob \<in> ops \<Longrightarrow> refines K ops (sendOobLinkForSession K i url d ex)"
  "Op_SendValidating \<in> ops \<Longrightarrow> refines K ops (sendValidatingForSession K i so)"
  "Op_RecordValidation \<in> ops \<Longrightarrow> refines K ops (recordValidation K i v st)"
  "Op_Touch \<in> ops \<Longrightarrow> refines K ops (recordIssuance K i iss)"
  "Op_MarkPending \<in> ops \<Longrightarrow> refines K ops (markPendingClaims K i)"
  "Op_MarkValidated \<in> ops \<Longrightarrow> refines K ops (markValidated K i)"
  "Op_MarkCompleted \<in> ops \<Longrightarrow> refines K ops (markCompleted K i)"
  "Op_Attach \<in> ops \<Longrightarrow> refines K ops (attachCredentialExchangeRecord K i e dg is cid)"
  "Op_Touch \<in> ops \<Longrightarrow> refines K ops (setEcsSchemaKey K i s)"
  "Op_Touch \<in> ops \<Longrightarrow> refines K ops (setCredentialId K i s)"
  "Op_Touch \<in> ops \<Longrightarrow> refines K ops (detachCredentialExchange K i so)"
  "Op_Touch \<in> ops \<Longrightarrow> refines K ops (setCredentialDigest K i s)"
  "Op_Touch \<in> ops \<Longrightarrow> refines K ops (updateClaims K i cl)"
  "Op_Notify \<in> ops \<Longrightarrow> refines K ops (notifyCredentialStateChange K i s thid so)"
  by (blast intro: refines_if_weaken [OF refines_createOnboardingProcessRecord [OF laws]]
      refines_if_weaken [OF refines_createDirectIssuanceRecord [OF laws]]
      refines_if_weaken [OF refines_reattachOnboardingProcessRecord [OF laws]]
      refines_if_weaken [OF refines_acceptIssuanceRequest [OF laws]]
      refines_if_weaken [OF refines_rejectRequest [OF laws]]
      refines_if_weaken [OF refines_terminateByApplicant [OF laws]]
      refines_if_weaken [OF refines_terminateByValidator [OF laws]]
      refines_if_weaken [OF refines_terminateByChainEvent [OF laws]]
      refines_if_weaken [OF refines_sendOobLinkForSession [OF laws]]
      refines_if_weaken [OF refines_sendValidatingForSession [OF laws]]
      refines_if_weaken [OF refines_recordValidation [OF laws]]
      refines_if_weaken [OF refines_recordIssuance [OF laws]]
      refines_if_weaken [OF refines_markPendingClaims [OF laws]]
      refines_if_weaken [OF refines_markValidated [OF laws]]
      refines_if_weaken [OF refines_markCompleted [OF laws]]
      refines_if_weaken [OF refines_attachCredentialExchangeRecord [OF laws]]
      refines_if_weaken [OF refines_setters(1) [OF laws]]
      refines_if_weaken [OF refines_setters(2) [OF laws]]
      refines_if_weaken [OF refines_setters(3) [OF laws]]
      refines_if_weaken [OF refines_setters(4) [OF laws]]
      refines_if_weaken [OF refines_setters(5) [OF laws]]
      refines_if_weaken [OF refines_notifyCredentialStateChange [OF laws]])+

lemma refines_hooks:
  assumes laws: "repo_laws K" and hooks: "hooks_ok ops K"
  shows "refines K ops (creds_acceptOffer K e)" "refines K ops (creds_declineOffer K e d)"
  "refines K ops (creds_acceptCredential K e)" "refines K ops (proto_createOffer K c p)"
  "refines K ops (proto_acceptRequest K x so f)"
  using hooks by (simp_all add: hooks_ok_def)

lemma refines_api:
  assumes laws: "repo_laws K" and hooks: "hooks_ok ops K"
  shows "Op_SendOR \<in> ops \<Longrightarrow> refines K ops (sendOnboardingRequest K o1)"
  "Op_Reattach \<in> ops \<Longrightarrow> refines K ops (resendOnboardingRequest K i c)"
  "Op_SendIR \<in> ops \<Longrightarrow> refines K ops (sendIssuanceRequest K o2)"
  "refines K ops (acceptReceivedCredential K i)"
  "refines K ops (acceptCredentialOffer K i)"
  "Op_TermApplicant \<in> ops \<Longrightarrow> refines K ops (terminateSession K i code en hint)"
  "Op_TermValidator \<in> ops \<Longrightarrow> refines K ops (terminateSessionAsValidator K i code en hint)"
  "Op_TermChain \<in> ops \<Longrightarrow> refines K ops (api_terminateByChainEvent K i code ending en)"
  "Op_Reject \<in> ops \<Longrightarrow> refines K ops (api_rejectRequest K i code en hint)"
  "Op_AcceptIR \<in> ops \<Longrightarrow> refines K ops (api_acceptIssuanceRequest K i)"
  "Op_SendOob \<in> ops \<Longrightarrow> refines K ops (sendOobLink K i url d ex)"
  "Op_SendValidating \<in> ops \<Longrightarrow> refines K ops (sendValidating K i so)"
  "Op_Notify \<in> ops \<Longrightarrow> refines K ops (api_notifyCredentialStateChange K i s so1 so2)"
  unfolding sendOnboardingRequest_def resendOnboardingRequest_def sendIssuanceRequest_def
    acceptReceivedCredential_def acceptCredentialOffer_def terminateSession_def
    terminateSessionAsValidator_def api_terminateByChainEvent_def api_rejectRequest_def
    api_acceptIssuanceRequest_def sendOobLink_def sendValidating_def
    api_notifyCredentialStateChange_def Let_def
  by (intro refines_rules refines_service [OF laws hooks] refines_checkIsVerifiableService [OF laws hooks] refines_sendMessage [OF laws hooks] refines_dispatchMessage [OF laws hooks]
      refines_hooks [OF laws hooks]; assumption)+

lemma refines_api_acceptOnboardingRequest:
  assumes laws: "repo_laws K" and hooks: "hooks_ok ops K"
  shows "Op_AcceptOR \<in> ops \<Longrightarrow> Op_Reject \<in> ops \<Longrightarrow> refines K ops (api_acceptOnboardingRequest K i)"
  unfolding api_acceptOnboardingRequest_def
  by (auto intro!: refines_rules refines_acceptOnboardingRequest [OF laws hooks]
      refines_api [OF laws hooks] refines_dispatchMessage [OF laws hooks] split: err.split)

lemma refines_offerCredentialForSession:
  assumes laws: "repo_laws K" and hooks: "hooks_ok ops K"
  shows "Op_Attach \<in> ops \<Longrightarrow> refines K ops (offerCredentialForSession K i p)"
  unfolding offerCredentialForSession_def Let_def
  by (intro refines_rules refines_service [OF laws hooks] refines_sendMessage [OF laws hooks] refines_hooks [OF laws hooks]; assumption)

lemma refines_issueCredentialForSession:
  assumes laws: "repo_laws K" and hooks: "hooks_ok ops K"
  shows "Op_Touch \<in> ops \<Longrightarrow> refines K ops (issueCredentialForSession K i e so f)"
proof -
  assume touch: "Op_Touch \<in> ops"
  have "refines K ops (credentialMessage K ex so f)" for ex
    unfolding credentialMessage_def Let_def
    by (intro refines_rules refines_hooks [OF laws hooks])
  moreover have "refines K ops (anchorCredential K r ex)" for r ex
    using touch hooks unfolding anchorCredential_def Let_def
    by (intro refines_rules refines_service [OF laws hooks]) (auto simp: hooks_ok_def)
  ultimately show ?thesis
    unfolding issueCredentialForSession_def
    by (intro refines_rules refines_sendMessage [OF laws hooks])
qed

lemma refines_onCredentialExchangeChanged:
  assumes laws: "repo_laws K" and hooks: "hooks_ok ops K"
    and own: "{Op_Exchange, Op_Touch, Op_TermValidator} \<subseteq> ops"
  shows "refines K ops (onCredentialExchangeChanged K ex)"
proof -
  have rest: "refines K ops (sqn (verifyReceived K r ex) (autoIssue K r ex))" for r
    using hooks own unfolding verifyReceived_def autoIssue_def
    by (intro refines_rules refines_hooks [OF laws hooks] refines_api [OF laws hooks]
        refines_issueCredentialForSession [OF laws hooks]) (auto simp: hooks_ok_def)
  have body: "post (bnd (onSubprotocolStateChanged K r ex)
        (\<lambda>r. sqn (verifyReceived K r ex) (autoIssue K r ex)))
      (\<lambda>_ w'. path ops (sysof K w) (sysof K w'))
      (\<lambda>_ w'. path ops (sysof K w) (sysof K w')) w"
    if "flows K w (rec_id r) = Some r" for r w
  proof (rule post_bnd_refines [OF _ rest])
    from post_onSubprotocol [OF laws that, of ex]
    show "post (onSubprotocolStateChanged K r ex) (\<lambda>_ w'. path ops (sysof K w) (sysof K w'))
        (\<lambda>_ w'. path ops (sysof K w) (sysof K w')) w"
      by (rule post_mono) (use own in \<open>auto elim: path_mono\<close>)
  qed
  show ?thesis
    unfolding onCredentialExchangeChanged_def findByThreadId_def
    by (rule refines_if_cases(2), simp, rule refines_found [OF laws]) (simp_all add: wp body [unfolded post_bnd])
qed

lemma refines_listeners:
  assumes laws: "repo_laws K" and hooks: "hooks_ok ops K"
  shows "refines K ops (completedListener K ev)" "refines K ops (revokedListener K ev)"
  using hooks unfolding completedListener_def revokedListener_def
  by (intro refines_rules; simp add: hooks_ok_def)+

lemma refines_autoChainListener:
  assumes laws: "repo_laws K" and hooks: "hooks_ok ops K"
    and own: "{Op_AcceptOR, Op_Reject, Op_AcceptIR, Op_MarkValidated, Op_Attach} \<subseteq> ops"
  shows "refines K ops (autoChainListener K ev)"
proof -
  have "refines K ops (autoOffer K r)" for r
    using hooks own unfolding autoOffer_def
    by (intro refines_rules refines_offerCredentialForSession [OF laws hooks])
      (auto simp: hooks_ok_def)
  then show ?thesis
    using hooks own unfolding autoChainListener_def
    by (intro refines_rules refines_service [OF laws hooks] refines_api [OF laws hooks]
        refines_api_acceptOnboardingRequest [OF laws hooks]) (auto simp: hooks_ok_def)
qed

section \<open>Commands\<close>

datatype 'x flow_cmd =
    C_SendOR send_onboarding_options
  | C_ResendOR string string
  | C_SendIR send_issuance_options
  | C_AcceptReceived string
  | C_AcceptOffer string
  | C_Terminate string vt_flow_error_code "string option" "string option"
  | C_TerminateAsValidator string vt_flow_error_code "string option" "string option"
  | C_TerminateByChain string vt_flow_error_code chain_end "string option"
  | C_AcceptOR string
  | C_AcceptIR string
  | C_Reject string vt_flow_error_code "string option" "string option"
  | C_SendOobLink string string string "int option"
  | C_SendValidating string "string option"
  | C_RecordValidation string vt_flow_validation "vt_flow_state option"
  | C_RecordIssuance string vt_flow_issuance
  | C_MarkValidated string
  | C_MarkPendingClaims string
  | C_MarkCompleted string
  | C_Offer string offer_payload
  | C_Issue string string "string option" "json option"
  | C_Notify string string "string option" "string option"
  | C_SetEcsSchemaKey string string
  | C_SetCredentialId string string
  | C_Detach string "string option"
  | C_UpdateClaims string json
  | C_InOnboardingRequest "onboarding_request inbound"
  | C_InIssuanceRequest "issuance_request inbound"
  | C_InOobLink "oob_link_message inbound"
  | C_InValidating "validating_message inbound"
  | C_InCredentialState "credential_state_change inbound"
  | C_InProblemReport "problem_report inbound"
  | C_ExchangeChanged cred_exchange
  | C_CompletedListener vt_flow_state_changed
  | C_RevokedListener vt_flow_state_changed
  | C_AutoChainListener vt_flow_state_changed
  | C_Outside 'x

text \<open>The result of a command is dropped; what it throws goes to its caller and changes nothing more.\<close>

definition quiet :: "('s, 'e, 'a) comp \<Rightarrow> ('s, 'e, unit) comp" where
  "quiet m = bnd m (\<lambda>_. ret ())"

fun run_cmd :: "('st, 'x) env \<Rightarrow> 'x flow_cmd \<Rightarrow> (('st, 'x) world, err, unit) comp" where
  "run_cmd K (C_SendOR o1) = quiet (sendOnboardingRequest K o1)"
| "run_cmd K (C_ResendOR i c) = quiet (resendOnboardingRequest K i c)"
| "run_cmd K (C_SendIR o1) = quiet (sendIssuanceRequest K o1)"
| "run_cmd K (C_AcceptReceived i) = quiet (acceptReceivedCredential K i)"
| "run_cmd K (C_AcceptOffer i) = quiet (acceptCredentialOffer K i)"
| "run_cmd K (C_Terminate i c en h) = quiet (terminateSession K i c en h)"
| "run_cmd K (C_TerminateAsValidator i c en h) = quiet (terminateSessionAsValidator K i c en h)"
| "run_cmd K (C_TerminateByChain i c e en) = quiet (api_terminateByChainEvent K i c e en)"
| "run_cmd K (C_AcceptOR i) = quiet (api_acceptOnboardingRequest K i)"
| "run_cmd K (C_AcceptIR i) = quiet (api_acceptIssuanceRequest K i)"
| "run_cmd K (C_Reject i c en h) = quiet (api_rejectRequest K i c en h)"
| "run_cmd K (C_SendOobLink i u d t) = quiet (sendOobLink K i u d t)"
| "run_cmd K (C_SendValidating i cm) = quiet (sendValidating K i cm)"
| "run_cmd K (C_RecordValidation i v s) = quiet (recordValidation K i v s)"
| "run_cmd K (C_RecordIssuance i v) = quiet (recordIssuance K i v)"
| "run_cmd K (C_MarkValidated i) = quiet (markValidated K i)"
| "run_cmd K (C_MarkPendingClaims i) = quiet (markPendingClaims K i)"
| "run_cmd K (C_MarkCompleted i) = quiet (markCompleted K i)"
| "run_cmd K (C_Offer i p) = quiet (offerCredentialForSession K i p)"
| "run_cmd K (C_Issue i e cm f) = quiet (issueCredentialForSession K i e cm f)"
| "run_cmd K (C_Notify i s t r) = quiet (api_notifyCredentialStateChange K i s t r)"
| "run_cmd K (C_SetEcsSchemaKey i s) = quiet (setEcsSchemaKey K i s)"
| "run_cmd K (C_SetCredentialId i s) = quiet (setCredentialId K i s)"
| "run_cmd K (C_Detach i s) = quiet (detachCredentialExchange K i s)"
| "run_cmd K (C_UpdateClaims i cl) = quiet (updateClaims K i cl)"
| "run_cmd K (C_InOnboardingRequest m) = quiet (handleOnboardingRequest K m)"
| "run_cmd K (C_InIssuanceRequest m) = quiet (handleIssuanceRequest K m)"
| "run_cmd K (C_InOobLink m) = handleOobLink K m"
| "run_cmd K (C_InValidating m) = handleValidating K m"
| "run_cmd K (C_InCredentialState m) = handleCredentialStateChange K m"
| "run_cmd K (C_InProblemReport m) = handleProblemReport K m"
| "run_cmd K (C_ExchangeChanged e) = onCredentialExchangeChanged K e"
| "run_cmd K (C_CompletedListener ev) = completedListener K ev"
| "run_cmd K (C_RevokedListener ev) = revokedListener K ev"
| "run_cmd K (C_AutoChainListener ev) = autoChainListener K ev"
| "run_cmd K (C_Outside x) = modify (\<lambda>w. w\<lparr>ext := x\<rparr>)"

definition flow_step :: "('st, 'x) env \<Rightarrow> 'x flow_cmd \<Rightarrow> ('st, 'x) world \<Rightarrow> ('st, 'x) world" where
  "flow_step K c w = snd (run_cmd K c w)"

text \<open>The operations of the transition system a command may take by itself.\<close>

fun cmd_ops :: "'x flow_cmd \<Rightarrow> flow_op set" where
  "cmd_ops (C_SendOR o1) = {Op_SendOR}"
| "cmd_ops (C_ResendOR i c) = {Op_Reattach}"
| "cmd_ops (C_SendIR o1) = {Op_SendIR}"
| "cmd_ops (C_Terminate i c en h) = {Op_TermApplicant}"
| "cmd_ops (C_TerminateAsValidator i c en h) = {Op_TermValidator}"
| "cmd_ops (C_TerminateByChain i c e en) = {Op_TermChain}"
| "cmd_ops (C_AcceptOR i) = {Op_AcceptOR, Op_Reject}"
| "cmd_ops (C_AcceptIR i) = {Op_AcceptIR}"
| "cmd_ops (C_Reject i c en h) = {Op_Reject}"
| "cmd_ops (C_SendOobLink i u d t) = {Op_SendOob}"
| "cmd_ops (C_SendValidating i cm) = {Op_SendValidating}"
| "cmd_ops (C_RecordValidation i v s) = {Op_RecordValidation}"
| "cmd_ops (C_RecordIssuance i v) = {Op_Touch}"
| "cmd_ops (C_MarkValidated i) = {Op_MarkValidated}"
| "cmd_ops (C_MarkPendingClaims i) = {Op_MarkPending}"
| "cmd_ops (C_MarkCompleted i) = {Op_MarkCompleted}"
| "cmd_ops (C_Offer i p) = {Op_Attach}"
| "cmd_ops (C_Issue i e cm f) = {Op_Touch}"
| "cmd_ops (C_Notify i s t r) = {Op_Notify}"
| "cmd_ops (C_SetEcsSchemaKey i s) = {Op_Touch}"
| "cmd_ops (C_SetCredentialId i s) = {Op_Touch}"
| "cmd_ops (C_Detach i s) = {Op_Touch}"
| "cmd_ops (C_UpdateClaims i cl) = {Op_Touch}"
| "cmd_ops (C_InOnboardingRequest m) = {Op_RecvOR}"
| "cmd_ops (C_InIssuanceRequest m) = {Op_RecvIR}"
| "cmd_ops (C_InOobLink m) = {Op_RecvOob}"
| "cmd_ops (C_InValidating m) = {Op_RecvValidating}"
| "cmd_ops (C_InCredentialState m) = {Op_RecvCredState}"
| "cmd_ops (C_InProblemReport m) = {Op_RecvProblemReport}"
| "cmd_ops (C_ExchangeChanged e) = {Op_Exchange, Op_Touch, Op_TermValidator}"
| "cmd_ops (C_AutoChainListener ev) =
     {Op_AcceptOR, Op_Reject, Op_AcceptIR, Op_MarkValidated, Op_Attach}"
| "cmd_ops _ = {}"

lemma refines_quiet: "refines K ops m \<Longrightarrow> refines K ops (quiet m)"
  unfolding quiet_def by (intro refines_rules)

text \<open>Every command refines the transition system restricted to its own operations and its hooks'.\<close>

lemma refines_run_cmd:
  assumes laws: "repo_laws K" and hooks: "hooks_ok ops K" and own: "cmd_ops c \<subseteq> ops"
  shows "refines K ops (run_cmd K c)"
proof (cases c)
  case (C_Outside x)
  then show ?thesis by (simp add: refines_if_def wp)
qed (use own in \<open>auto intro!: refines_quiet refines_api [OF laws hooks]
    refines_service [OF laws hooks] refines_api_acceptOnboardingRequest [OF laws hooks]
    refines_offerCredentialForSession [OF laws hooks]
    refines_issueCredentialForSession [OF laws hooks] refines_request_handlers [OF laws hooks]
    refines_if_weaken [OF refines_handlers(1) [OF laws hooks]]
    refines_if_weaken [OF refines_handlers(2) [OF laws hooks]]
    refines_if_weaken [OF refines_handlers(3) [OF laws hooks]]
    refines_if_weaken [OF refines_handlers(4) [OF laws hooks]]
    refines_onCredentialExchangeChanged [OF laws hooks] refines_listeners [OF laws hooks]
    refines_autoChainListener [OF laws hooks]\<close>)

lemma flow_step_path:
  "repo_laws K \<Longrightarrow> hooks_ok ops K \<Longrightarrow> cmd_ops c \<subseteq> ops \<Longrightarrow>
     path ops (sysof K w) (sysof K (flow_step K c w))"
  unfolding flow_step_def by (rule refinesD) (rule refines_run_cmd)

section \<open>Two machines\<close>

interpretation agent: command_machine "flow_step K" "\<lambda>w. env_ok K \<and> sys_ok (sysof K w)" "\<lambda>_. True" for K
  by unfold_locales (auto intro: sys_ok_path [OF flow_step_path [where ops = UNIV]])

text \<open>A flow that has ended, under commands and hooks none of whose operations leaves an end state.\<close>

definition ending :: "'x flow_cmd \<Rightarrow> bool" where
  "ending c \<longleftrightarrow> cmd_ops c \<inter> leaves_terminal = {}"

definition ended :: "('st, 'x) env \<Rightarrow> string \<Rightarrow> vt_flow_state \<Rightarrow> ('st, 'x) world \<Rightarrow> bool" where
  "ended K i s w \<longleftrightarrow> repo_laws K \<and> hooks_ok (- leaves_terminal) K \<and>
     isVtFlowTerminalState s \<and> in_state i s (sysof K w)"

lemma ended_step: "ended K i s w \<Longrightarrow> ending c \<Longrightarrow> ended K i s (flow_step K c w)"
  using flow_step_path [of K "- leaves_terminal" c w]
  by (auto simp: ended_def ending_def intro: terminal_path)

interpretation over: command_machine "flow_step K" "ended K i s" ending for K i s
  by unfold_locales (rule ended_step)

end
