(* ===== verification/FlowProps.thy ===== *)
theory FlowProps
  imports FlowMachine
begin

text \<open>
  The properties of the vt-flow package, each with the concrete run that shows its hypotheses can
  hold. The first group is about runs of the whole agent, the second about single operations.
\<close>

section \<open>Concrete worlds for the witnesses\<close>

definition ex_connection :: did_connection where
  "ex_connection =
     \<lparr> conn_id = ''c1'', conn_did = Some ''did:us'', conn_theirDid = Some ''did:peer'',
       conn_invitationDid = None, conn_previousDids = None, conn_previousTheirDids = [] \<rparr>"

abbreviation ex_env :: "(mem_store, mem_ext) env" where
  "ex_env \<equiv> mem_env no_options"

definition ex_onboarding :: send_onboarding_options where
  "ex_onboarding =
     \<lparr> so_connectionId = ''c1'', so_participantSessionId = Some ''s1'',
       so_applicantParticipantId = ''7'', so_applicantParticipantRole = Some 6,
       so_validatorParticipantId = None, so_schemaId = None, so_agentParticipantId = ''1'',
       so_walletAgentParticipantId = ''2'', so_claims = None \<rparr>"

definition ex_flow :: "vt_flow_role \<Rightarrow> vt_flow_variant \<Rightarrow> vt_flow_state \<Rightarrow> vt_flow_record" where
  "ex_flow rl v s =
     (newVtFlowRecord ''f1'' 0 ''t1'' ''s1'' ''c1'' rl s v ''1'' ''2'')
       \<lparr>applicantParticipantId := Some ''7''\<rparr>"

lemma ex_flow_sel [simp]:
  "rec_id (ex_flow rl v s) = ''f1''" "role (ex_flow rl v s) = rl" "variant (ex_flow rl v s) = v"
  "state (ex_flow rl v s) = s" "threadId (ex_flow rl v s) = ''t1''"
  "participantSessionId (ex_flow rl v s) = ''s1''" "connectionId (ex_flow rl v s) = ''c1''"
  "oobLink (ex_flow rl v s) = None" "applicantParticipantId (ex_flow rl v s) = Some ''7''"
  by (simp_all add: ex_flow_def)

definition ex_world :: "vt_flow_record list \<Rightarrow> (mem_store, mem_ext) world" where
  "ex_world rs = mem_world rs [ex_connection] []"

lemma ex_world_sel [simp]:
  "store (ex_world rs) = rs" "events (ex_world rs) = []" "sent (ex_world rs) = []"
  "flows (mem_env cfg) (ex_world rs) = mem_find rs"
  by (simp_all add: ex_world_def mem_world_def flows_def)

lemma ex_world_ok: "sys_ok (sysof ex_env (ex_world []))"
  by (simp add: sysof_def sys_ok_def links_ok_def log_ok_def mem_find_def)

text \<open>The definitions a concrete run unfolds.\<close>

lemmas ex_run = run_defs mem_find_def mem_query_def ex_world_def mem_world_def no_options_def
  ex_connection_def ex_flow_def newVtFlowRecord_def Let_def tags_match_def emitStateChanged_def
  flow_step_def quiet_def readyConnectionById_def connectionById_def dispatchMessage_def
  checkIsVerifiableService_def peerAnchorDid_def sessionIdOrNew_def assertReadyConnection_def
  assertRole_def assertState_def assertVariant_def updateState_def updateRecord_def
  event_of_def appendMessage_def

section \<open>Runs of the whole agent\<close>

text \<open>
  C2. Whatever sequence of API calls, inbound messages and listeners an agent runs, with hooks that
  may themselves run any of them while a method waits: the \<open>VtFlowStateChanged\<close> events of a flow form
  a chain from its creation to its stored state, each starting where the one before ended. No state
  change goes unreported and none is reported that did not happen.
\<close>

theorem event_log_mirrors_store:
  assumes "env_ok K" and "sys_ok (sysof K w)"
  shows "chained None (evs i (events (fold (flow_step K) cs w)))
    (map_option state (flows K (fold (flow_step K) cs w) i))"
proof -
  have "env_ok K \<and> sys_ok (sysof K (fold (flow_step K) cs w))"
    using assms by (intro agent.run_inv) (auto simp: list_all_iff)
  then show ?thesis by (simp add: sys_ok_def log_ok_def sysof_def)
qed

definition ex_cmds :: "mem_ext flow_cmd list" where
  "ex_cmds = [C_SendOR ex_onboarding, C_Terminate ''ii'' EC_SessionTerminated None None]"

lemma ex_cmds_run:
  "map_option state (flows ex_env (fold (flow_step ex_env) ex_cmds (ex_world [])) ''ii'') =
     Some TerminatedByApplicant"
  by (simp add: ex_cmds_def ex_run sendOnboardingRequest_def createOnboardingProcessRecord_def
      ex_onboarding_def terminateSession_def terminateByApplicant_def)

theorem event_log_mirrors_store_witness:
  "chained None (evs ''ii'' (events (fold (flow_step ex_env) ex_cmds (ex_world []))))
     (Some TerminatedByApplicant)"
  using event_log_mirrors_store [OF mem_env_ok ex_world_ok, of "''ii''" ex_cmds]
  by (simp add: ex_cmds_run)

text \<open>
  C3. Under the same runs, a stored flow carries an out-of-band link only while it is in OOB_PENDING,
  on both sides: no stale link outlives the step it was issued for.
\<close>

theorem oob_link_only_when_pending:
  assumes "env_ok K" and "sys_ok (sysof K w)"
    and "flows K (fold (flow_step K) cs w) i = Some r" and "oobLink r \<noteq> None"
  shows "state r = OobPending"
proof -
  have "env_ok K \<and> sys_ok (sysof K (fold (flow_step K) cs w))"
    using assms(1,2) by (intro agent.run_inv) (auto simp: list_all_iff)
  then have "links_ok (flows K (fold (flow_step K) cs w), events (fold (flow_step K) cs w))"
    by (simp add: sys_ok_def sysof_def)
  from links_okD [OF this assms(3)] assms(4) show ?thesis by simp
qed

definition ex_oob_cmds :: "mem_ext flow_cmd list" where
  "ex_oob_cmds = [C_SendOR ex_onboarding,
     C_InOobLink \<lparr> in_message = newOobLinkMessage ''m'' ''i'' ''url'' ''text'' None,
                   in_connection = Some ex_connection \<rparr>]"

lemma ex_oob_run:
  "\<exists>r. flows ex_env (fold (flow_step ex_env) ex_oob_cmds (ex_world [])) ''ii'' = Some r \<and>
     oobLink r \<noteq> None"
  by (simp add: ex_oob_cmds_def ex_run sendOnboardingRequest_def createOnboardingProcessRecord_def
      ex_onboarding_def handleOobLink_def processReceiveOobLink_def getByThreadId_def getTags_def)

theorem oob_link_only_when_pending_witness:
  "\<exists>r. flows ex_env (fold (flow_step ex_env) ex_oob_cmds (ex_world [])) ''ii'' = Some r \<and>
     oobLink r \<noteq> None \<and> state r = OobPending"
  using ex_oob_run oob_link_only_when_pending [OF mem_env_ok ex_world_ok] by blast

text \<open>
  C4. A session keeps its identity: whatever commands run, a stored flow stays stored under its id
  with the same role, variant, participant session and creation date.
\<close>

theorem session_identity_kept:
  assumes "env_ok K" and "flows K w i = Some r"
  shows "\<exists>r'. flows K (fold (flow_step K) cs w) i = Some r' \<and> same_session r r'"
proof -
  have "path UNIV (sysof K w) (sysof K (fold (flow_step K) cs w))"
  proof (induction cs arbitrary: w)
    case (Cons c cs)
    have "path UNIV (sysof K w) (sysof K (flow_step K c w))"
      using assms(1) by (intro flow_step_path) auto
    with Cons show ?case by (simp add: path_trans [OF _ Cons])
  qed simp
  moreover have "rec_id r = i" using assms by (auto dest: repo_id)
  ultimately show ?thesis
    using session_path [of UNIV "sysof K w" "sysof K (fold (flow_step K) cs w)" i r] assms(2)
    by (simp add: sysof_def)
qed

theorem session_identity_kept_witness:
  "\<exists>r'. flows ex_env (fold (flow_step ex_env) ex_cmds
       (ex_world [ex_flow Validator OnboardingProcess Validating])) ''f1'' = Some r' \<and>
     same_session (ex_flow Validator OnboardingProcess Validating) r'"
  by (rule session_identity_kept [OF mem_env_ok]) (simp add: mem_find_def)

text \<open>
  C17. A flow that has ended stays in its end state under every sequence of commands other than an
  inbound credential-state-change, a credential exchange event, a recorded validation, the
  applicant's termination and a termination by the chain, when no hook runs one of those either:
  neither a request, a problem-report, an acceptance, a rejection nor an offer revives it.
\<close>

theorem ended_flow_stays_ended:
  assumes "repo_laws K" and "hooks_ok (- leaves_terminal) K"
    and "flows K w i = Some r" and "isVtFlowTerminalState (state r)"
    and "list_all ending cs"
  shows "map_option state (flows K (fold (flow_step K) cs w) i) = Some (state r)"
proof -
  have "ended K i (state r) w"
    using assms by (auto simp: ended_def in_state_def sysof_def)
  then have "ended K i (state r) (fold (flow_step K) cs w)"
    using assms(5) by (rule over.run_inv)
  then show ?thesis by (auto simp: ended_def in_state_def sysof_def)
qed

theorem ended_flow_stays_ended_witness:
  "map_option state (flows ex_env (fold (flow_step ex_env)
      [C_Reject ''f1'' EC_InternalError None None, C_MarkCompleted ''f1'']
      (ex_world [ex_flow Validator OnboardingProcess TerminatedByValidator])) ''f1'') =
   Some TerminatedByValidator"
  using ended_flow_stays_ended [OF mem_env_laws mem_env_hooks_ok, of
      "ex_world [ex_flow Validator OnboardingProcess TerminatedByValidator]" "''f1''"
      "ex_flow Validator OnboardingProcess TerminatedByValidator"
      "[C_Reject ''f1'' EC_InternalError None None, C_MarkCompleted ''f1'']"]
  by (simp add: mem_find_def ending_def leaves_terminal_def)

text \<open>
  C18. The exception is real: a REVOKED credential-state-change on the thread of a flow that has ended
  moves it to CRED_REVOKED, on the validator's side as well as the applicant's, from which an
  onboarding-request may renew it.
\<close>

theorem revocation_revives_ended_flow:
  assumes "repo_laws K" and "ctx_assertReadyConnection K (in_connection mc) = Inr c"
    and "repo_findSingleByQuery K (store w) [(''threadId'', msg_threadId (in_message mc))] = Inr (Some r)"
    and "cs_state (in_message mc) = VtCredentialState_Revoked"
  shows "post (processReceiveCredentialStateChange K mc)
    (\<lambda>_ w'. \<exists>r'. flows K w' (rec_id r) = Some r' \<and> state r' = CredRevoked \<and> role r' = role r \<and>
        isVtFlowRenewable r')
    (\<lambda>_ _. False) w"
  using assms findSingle_Some [OF assms(1,3)]
  by (simp add: processReceiveCredentialStateChange_def wp isVtFlowRenewable_def)

definition ex_revoked :: "credential_state_change inbound" where
  "ex_revoked =
     \<lparr> in_message = newCredentialStateChange ''m'' ''t1'' ''sub'' VtCredentialState_Revoked None,
       in_connection = Some ex_connection \<rparr>"

theorem revocation_revives_ended_flow_witness:
  "post (processReceiveCredentialStateChange ex_env ex_revoked)
    (\<lambda>_ w'. \<exists>r'. flows ex_env w' ''f1'' = Some r' \<and> state r' = CredRevoked \<and>
        role r' = Validator \<and> isVtFlowRenewable r')
    (\<lambda>_ _. False) (ex_world [ex_flow Validator OnboardingProcess TerminatedByValidator])"
  using revocation_revives_ended_flow [OF mem_env_laws, of no_options ex_revoked ex_connection
      "ex_world [ex_flow Validator OnboardingProcess TerminatedByValidator]"
      "ex_flow Validator OnboardingProcess TerminatedByValidator"]
  by (simp add: ex_revoked_def newCredentialStateChange_def msg_threadId_def mem_query_def
      mem_find_def)

end
