(* ===== verification/FlowOpProps.thy ===== *)
theory FlowOpProps
  imports FlowProps
begin

text \<open>
  Properties of single operations of the vt-flow package and of the exchange between its two parties:
  transitions, problem-reports, session attachment, acceptance, issuance.
\<close>

section \<open>Transitions\<close>

text \<open>
  C19. A transition of a stored flow always succeeds, stores exactly the moved record and touches no
  other flow. It emits one event with the old and the new state when they differ and none when they do
  not, drops the out-of-band link on leaving OOB_PENDING, and sends nothing.
\<close>

theorem updateState_stores_and_reports:
  assumes "repo_laws K" and "flows K w (rec_id r) \<noteq> None"
  shows "post (updateState K r s)
    (\<lambda>r' w'. flows K w' = (flows K w)(rec_id r \<mapsto> r') \<and> state r' = s \<and> same_session r r' \<and>
       oobLink r' = (if state r = OobPending \<and> s \<noteq> OobPending then None else oobLink r) \<and>
       events w' = events w @ (if state r = s then [] else
         [\<lparr> ev_vtFlowRecordId = rec_id r, ev_threadId = threadId r,
            ev_participantSessionId = participantSessionId r, ev_state = s,
            ev_previousState = Some (state r) \<rparr>]) \<and>
       sent w' = sent w)
    (\<lambda>_ _. False) w"
  using assms by (auto simp: wp same_session_def event_of_def)

theorem updateState_stores_and_reports_witness:
  "post (updateState ex_env (ex_flow Validator OnboardingProcess OobPending) Validating)
    (\<lambda>r' w'. state r' = Validating \<and> length (events w') = 1)
    (\<lambda>_ _. False) (ex_world [ex_flow Validator OnboardingProcess OobPending])"
  by (rule post_mono [OF updateState_stores_and_reports [OF mem_env_laws]])
    (auto simp: mem_find_def)

section \<open>Problem-reports: both parties land in the same state\<close>

text \<open>The state the Error Codes table gives the receiver of a report built with the table's defaults.\<close>

definition received_state :: "vt_flow_error_code \<Rightarrow> vt_flow_role \<Rightarrow> vt_flow_state option" where
  "received_state code receiver =
     resolveErrorFlowState (ei_flowState (VT_FLOW_ERROR_INFO code)) receiver
       (whoRetriesMap (ei_whoRetries (VT_FLOW_ERROR_INFO code)))"

lemma received_state_terminal: "received_state code rl = Some s \<Longrightarrow> isVtFlowTerminalState s"
  unfolding received_state_def by (rule resolved_from_table_terminal)

lemma receive_report:
  assumes "repo_laws L" and "msg_threadId m = t"
    and "repo_findSingleByQuery L (store u) [(''threadId'', t)] = Inr (Some p)"
    and "\<not> isVtFlowTerminalState (state p)"
    and "pr_code m = Some (code_str code)"
    and "pr_whoRetries m = Some (whoRetriesMap (ei_whoRetries (VT_FLOW_ERROR_INFO code)))"
  shows "post (processReceiveProblemReport L \<lparr> in_message = m, in_connection = c \<rparr>)
    (\<lambda>_ u'. \<exists>p'. flows L u' (rec_id p) = Some p' \<and>
       state p' = withDefault (received_state code (role p)) (state p))
    (\<lambda>_ _. False) u"
proof -
  have p: "flows L u (rec_id p) = Some p" using findSingle_Some [OF assms(1,3)] by simp
  show ?thesis
    using assms p
    by (cases "received_state code (role p)"; cases "role p")
      (simp_all add: processReceiveProblemReport_def wp received_state_def)
qed

lemma reject_outcome:
  assumes "repo_laws K" and "flows K w i = Some r" and "\<not> isVtFlowTerminalState (state r)"
  shows "post (rejectRequest K i code en hint)
    (\<lambda>(r', report) w'. flows K w' i = Some r' \<and>
       report = buildVtFlowProblemReport (new_id K w) code (threadId r) en hint None None \<and>
       state r' = (case received_state code (if role r = Validator then Applicant else Validator) of
           Some s \<Rightarrow> s
         | None \<Rightarrow> if role r = Applicant then state r
             else if variant r = OnboardingProcess then AwaitingOr else AwaitingIr))
    (\<lambda>_ w'. sysof K w' = sysof K w) w"
proof -
  have "rec_id r = i" using assms(1,2) by (rule repo_id)
  with assms show ?thesis
    by (cases "received_state code (if role r = Validator then Applicant else Validator)";
        cases "role r")
      (simp_all add: rejectRequest_def wp received_state_def)
qed

text \<open>
  C24. Rejection agrees across the wire. Whichever party rejects a flow, with whatever error code and
  texts: when the code is fatal the peer that processes the report ends in the very state the sender
  stored, and when it is retryable the peer's state does not change while a rejecting validator goes
  back to wait for the request. The peer never fails on the report.
\<close>

theorem rejection_agrees_with_peer:
  assumes "repo_laws K" and "repo_laws L"
    and "flows K w i = Some r" and "\<not> isVtFlowTerminalState (state r)"
    and "repo_findSingleByQuery L (store u) [(''threadId'', threadId r)] = Inr (Some p)"
    and "role p \<noteq> role r" and "\<not> isVtFlowTerminalState (state p)"
  shows "post (rejectRequest K i code en hint)
    (\<lambda>(r', report) w'.
       flows K w' i = Some r' \<and>
       (\<not> isVtFlowTerminalState (state r') \<and> role r = Validator \<longrightarrow>
          state r' = (if variant r = OnboardingProcess then AwaitingOr else AwaitingIr)) \<and>
       post (processReceiveProblemReport L \<lparr> in_message = report, in_connection = c \<rparr>)
         (\<lambda>_ u'. \<exists>p'. flows L u' (rec_id p) = Some p' \<and>
            state p' = (if isVtFlowTerminalState (state r') then state r' else state p))
         (\<lambda>_ _. False) u)
    (\<lambda>_ w'. sysof K w' = sysof K w) w"
  using reject_outcome [OF assms(1,3,4), of code en hint]
proof (rule post_mono, goal_cases)
  case (1 x w')
  let ?m = "buildVtFlowProblemReport (new_id K w) code (threadId r) en hint None None"
  let ?peer = "if role r = Validator then Applicant else Validator"
  let ?retry = "if variant r = OnboardingProcess then AwaitingOr else AwaitingIr"
  from 1 obtain r' where x: "x = (r', ?m)" and stored: "flows K w' i = Some r'"
    and st: "state r' = (case received_state code ?peer of
           Some s \<Rightarrow> s | None \<Rightarrow> if role r = Applicant then state r else ?retry)"
    by auto
  have peer: "?peer = role p"
    using assms(6) by (cases "role r"; cases "role p") auto
  have "withDefault (received_state code (role p)) (state p) =
      (if isVtFlowTerminalState (state r') then state r' else state p)"
    using st assms(4) unfolding peer
    by (auto split: option.splits dest: received_state_terminal)
  moreover have "\<not> isVtFlowTerminalState (state r') \<and> role r = Validator \<longrightarrow> state r' = ?retry"
    using st by (auto split: option.splits dest: received_state_terminal)
  ultimately show ?case
    using x stored receive_report [OF assms(2) _ assms(5,7), of ?m code c] by simp
qed

theorem rejection_agrees_with_peer_witness:
  "post (rejectRequest ex_env ''f1'' EC_ValidationRefused None None)
    (\<lambda>(r', report) w'.
       flows ex_env w' ''f1'' = Some r' \<and>
       post (processReceiveProblemReport ex_env \<lparr> in_message = report, in_connection = None \<rparr>)
         (\<lambda>_ u'. \<exists>p'. flows ex_env u' ''f1'' = Some p' \<and>
            state p' = (if isVtFlowTerminalState (state r') then state r' else OrSent))
         (\<lambda>_ _. False) (ex_world [ex_flow Applicant OnboardingProcess OrSent]))
    (\<lambda>_ w'. True) (ex_world [ex_flow Validator OnboardingProcess Validating])"
  by (rule post_mono [OF rejection_agrees_with_peer [OF mem_env_laws mem_env_laws,
        where r = "ex_flow Validator OnboardingProcess Validating"
          and p = "ex_flow Applicant OnboardingProcess OrSent" and c = None
          and u = "ex_world [ex_flow Applicant OnboardingProcess OrSent]"]])
    (auto simp: mem_find_def mem_query_def)

section \<open>Who may attach to a session\<close>

lemma post_check_known:
  "checkIsVerifiableService K c p w = (Inr (), w1) \<Longrightarrow>
     post (checkIsVerifiableService K c p) Q E w = Q () w1"
  "checkIsVerifiableService K c p w = (Inl e, w1) \<Longrightarrow>
     post (checkIsVerifiableService K c p) Q E w = E e w1"
  by (simp_all add: post_def)

text \<open>
  What a request for a session of somebody else may do, by the outcome \<open>res\<close> of the VS-CONN-VS check and the
  world \<open>w1\<close> it left: the answer, and the flows and the event log afterwards.
\<close>

definition answers_with :: "vt_flow_error_code \<Rightarrow> onboarding_request inbound \<Rightarrow> problem_report option \<Rightarrow> bool" where
  "answers_with code mc answer \<longleftrightarrow> (\<exists>report. answer = Some report \<and>
     pr_code report = Some (code_str code) \<and> msg_threadId report = msg_threadId (in_message mc))"

definition ends_in_error ::
  "('st, 'x) env \<Rightarrow> ('st, 'x) world \<Rightarrow> vt_flow_record \<Rightarrow> string \<Rightarrow> ('st, 'x) world \<Rightarrow> bool" where
  "ends_in_error K w1 r msg w' \<longleftrightarrow> (\<exists>r' ev. flows K w' = (flows K w1)(rec_id r \<mapsto> r') \<and> events w' = events w1 @ [ev] \<and>
     state r' = Error \<and> errorMessage r' = Some msg \<and> same_session r r')"

text \<open>How a check that failed ends the request of an existing flow.\<close>

definition failed_check ::
  "('st, 'x) env \<Rightarrow> ('st, 'x) world \<Rightarrow> did_connection \<Rightarrow> vt_flow_record \<Rightarrow> err \<Rightarrow> err \<Rightarrow> ('st, 'x) world \<Rightarrow> bool"
  where
  "failed_check K w1 c ex e x w' \<longleftrightarrow>
     (case e of
        VtFlowError code msg \<Rightarrow>
          (case flows K w1 (rec_id ex) of
             None \<Rightarrow> w' = w1 \<and> \<not> isVtFlowError x
           | Some latest \<Rightarrow> x = e \<and> sent w' = sent w1 \<and>
               (if isVtFlowTerminalState (state latest) \<or> \<not> samePeer K w1 latest c then sysof K w' = sysof K w1
                else ends_in_error K w1 latest msg w'))
      | _ \<Rightarrow> x = e \<and> w' = w1)"

lemma post_failRequest:
  assumes "repo_laws K"
  shows "post (failRequest K c ex False e) (\<lambda>_ _. False) (failed_check K w1 c ex e) w1"
proof (cases "\<exists>code msg latest. e = VtFlowError code msg \<and> flows K w1 (rec_id ex) = Some latest")
  case True
  then obtain code msg latest where e: "e = VtFlowError code msg" "flows K w1 (rec_id ex) = Some latest" by blast
  have "rec_id latest = rec_id ex" using assms e(2) by (rule repo_id)
  with assms e show ?thesis
    by (auto simp: failRequest_def failed_check_def ends_in_error_def wp same_session_def moved_in_def)
next
  case False
  with assms show ?thesis
    by (auto simp: failRequest_def failed_check_def wp split: err.split option.split)
qed

text \<open>
  C25. A participant session cannot be taken over. An onboarding-request whose session already belongs
  to a flow that has ended, that was opened for another participant, or that another peer opened, never
  resumes that flow. When the sender passes the VS-CONN-VS check, every flow and the event log stay as the
  check left them, and the answer is invalid-participant-session-id on the request's own thread. When
  it fails the check, the answer is the check's error; the flow, as it is after the check, is left alone when it
  has ended or another peer opened it, and otherwise - its own peer asked for another participant - it alone
  moves to ERROR. Any other failure of the check is thrown, with nothing changed.
\<close>

theorem foreign_request_is_refused:
  assumes "repo_laws K" and "ctx_assertReadyConnection K (in_connection mc) = Inr c"
    and "repo_findSingleByQuery K (store w)
      [(''participantSessionId'', or_participantSessionId (in_message mc)), (''role'', ''validator'')] =
      Inr (Some ex)"
    and "checkIsVerifiableService K c
      (Some \<lparr> pu_participantId = Some (or_participantId (in_message mc)), pu_schemaId = None \<rparr>) w = (res, w1)"
    and "isVtFlowTerminalState (state ex) \<or>
      applicantParticipantId ex \<noteq> Some (or_participantId (in_message mc)) \<or> \<not> samePeer K w1 ex c"
  shows "case res of
      Inr _ \<Rightarrow> post (handleOnboardingRequest K mc)
        (\<lambda>answer w'. answers_with EC_InvalidParticipantSessionId mc answer \<and>
           sysof K w' = sysof K w1 \<and> sent w' = sent w1) (\<lambda>_ _. False) w
    | Inl (VtFlowError code msg) \<Rightarrow> post (handleOnboardingRequest K mc)
        (\<lambda>answer w'. answers_with code mc answer \<and> sent w' = sent w1 \<and>
           (\<exists>latest. flows K w1 (rec_id ex) = Some latest \<and>
              (if isVtFlowTerminalState (state latest) \<or> \<not> samePeer K w1 latest c then sysof K w' = sysof K w1
               else ends_in_error K w1 latest msg w')))
        (\<lambda>_ w'. flows K w1 (rec_id ex) = None \<and> w' = w1) w
    | Inl e \<Rightarrow> post (handleOnboardingRequest K mc) (\<lambda>_ _. False) (\<lambda>x w'. x = e \<and> w' = w1) w"
proof (cases res)
  case (Inr u)
  with assms(4) have "post (checkIsVerifiableService K c (Some \<lparr> pu_participantId =
      Some (or_participantId (in_message mc)), pu_schemaId = None \<rparr>)) Q E w = Q () w1" for Q E
    by (intro post_check_known(1)) simp
  with Inr show ?thesis
    using assms(2,3,5)
    by (auto simp: handleOnboardingRequest_def answerVtFlowError_def processReceiveOnboardingRequest_def
        checkRequestFromVerifiableService_def answers_with_def wp)
next
  case (Inl e)
  with assms(4) have check: "post (checkIsVerifiableService K c (Some \<lparr> pu_participantId =
      Some (or_participantId (in_message mc)), pu_schemaId = None \<rparr>)) Q E w = E e w1" for Q E
    by (intro post_check_known(2)) simp
  have "post (processReceiveOnboardingRequest K mc) (\<lambda>_ _. False) (failed_check K w1 c ex e) w"
    using assms(2,3) post_failRequest [OF assms(1), of c ex e w1]
    by (simp add: processReceiveOnboardingRequest_def checkRequestFromVerifiableService_def wp check post_mono)
  then have "post (handleOnboardingRequest K mc)
      (\<lambda>answer w'. \<exists>code text u. failed_check K w1 c ex e (VtFlowError code text) u \<and> answers_with code mc answer \<and>
         sysof K w' = sysof K u \<and> sent w' = sent u)
      (\<lambda>x w'. failed_check K w1 c ex e x w' \<and> (\<forall>code text. x \<noteq> VtFlowError code text)) w"
    unfolding handleOnboardingRequest_def answerVtFlowError_def post_catch post_bnd
    by (rule post_mono) (auto simp: wp answers_with_def assms(2) split: err.split)
  then show ?thesis
    unfolding Inl by (cases e) (auto simp: failed_check_def ends_in_error_def sysof_def elim!: post_mono split: option.splits)
qed

definition ex_request :: "string \<Rightarrow> onboarding_request inbound" where
  "ex_request pid =
     \<lparr> in_message = newOnboardingRequest ''t9'' pid ''s1'' ''1'' ''2'' None None,
       in_connection = Some ex_connection \<rparr>"

text \<open>A configuration whose VS-CONN-VS hook refuses every peer.\<close>

definition ex_refusing :: "(mem_store, mem_ext) env" where
  "ex_refusing = mem_env (no_options\<lparr>assertVerifiableService := Some (\<lambda>d c. ret False)\<rparr>)"

text \<open>
  A Verifiable Service that asks for participant 8 in a completed session of 7; and a peer that is none and asks
  for 8 in its own open session, which ends in ERROR.
\<close>

theorem foreign_request_is_refused_witness:
  "post (handleOnboardingRequest ex_env (ex_request ''8''))
    (\<lambda>answer w'. flows ex_env w' ''f1'' = Some (ex_flow Validator OnboardingProcess Completed) \<and>
       answers_with EC_InvalidParticipantSessionId (ex_request ''8'') answer)
    (\<lambda>_ _. False) (ex_world [ex_flow Validator OnboardingProcess Completed]) \<and>
   post (handleOnboardingRequest ex_refusing (ex_request ''8''))
    (\<lambda>answer w'. answers_with EC_NotAVerifiableService (ex_request ''8'') answer \<and>
       ends_in_error ex_refusing (ex_world [ex_flow Validator OnboardingProcess AwaitingOr])
         (ex_flow Validator OnboardingProcess AwaitingOr) (msg_not_vs ''did:peer'' None) w')
    (\<lambda>_ _. False) (ex_world [ex_flow Validator OnboardingProcess AwaitingOr])"
proof
  let ?done = "ex_world [ex_flow Validator OnboardingProcess Completed]"
  let ?open = "ex_world [ex_flow Validator OnboardingProcess AwaitingOr]"
  let ?msg = "in_message (ex_request ''8'')"
  let ?query = "[(''participantSessionId'', or_participantSessionId ?msg), (''role'', ''validator'')]"
  let ?purpose = "Some \<lparr> pu_participantId = Some (or_participantId ?msg), pu_schemaId = None \<rparr>"
  have ready: "ctx_assertReadyConnection (mem_env cfg) (in_connection (ex_request ''8'')) = Inr ex_connection" for cfg
    by (simp add: ex_request_def)
  have single: "repo_findSingleByQuery (mem_env cfg) (store (ex_world [ex_flow Validator OnboardingProcess s])) ?query =
      Inr (Some (ex_flow Validator OnboardingProcess s))" for cfg s
    by (simp add: ex_request_def newOnboardingRequest_def mem_query_def mem_find_def)
  have other: "applicantParticipantId (ex_flow Validator OnboardingProcess s) \<noteq> Some (or_participantId ?msg)" for s
    by (simp add: ex_request_def newOnboardingRequest_def ex_flow_def)
  have passed: "checkIsVerifiableService ex_env ex_connection ?purpose ?done = (Inr (), ?done)"
    by (simp add: checkIsVerifiableService_def peerAnchorDid_def ex_connection_def no_options_def comp_defs)
  have failed: "checkIsVerifiableService ex_refusing ex_connection ?purpose ?open =
      (Inl (VtFlowError EC_NotAVerifiableService (msg_not_vs ''did:peer'' None)), ?open)"
    by (simp add: ex_refusing_def ex_request_def newOnboardingRequest_def checkIsVerifiableService_def
        isExemptFromVsConnVs_def peerAnchorDid_def ex_connection_def no_options_def comp_defs)
  have laws: "repo_laws ex_refusing" by (simp add: ex_refusing_def mem_env_laws)
  have refusing: "ctx_assertReadyConnection ex_refusing (in_connection (ex_request ''8'')) = Inr ex_connection"
    "repo_findSingleByQuery ex_refusing (store ?open) ?query = Inr (Some (ex_flow Validator OnboardingProcess AwaitingOr))"
    unfolding ex_refusing_def by (rule ready, rule single)
  have same: "samePeer ex_refusing ?open (ex_flow Validator OnboardingProcess AwaitingOr) ex_connection"
    by (simp add: samePeer_def ex_flow_def newVtFlowRecord_def ex_connection_def)
  show "post (handleOnboardingRequest ex_env (ex_request ''8''))
    (\<lambda>answer w'. flows ex_env w' ''f1'' = Some (ex_flow Validator OnboardingProcess Completed) \<and>
       answers_with EC_InvalidParticipantSessionId (ex_request ''8'') answer) (\<lambda>_ _. False) ?done"
    by (rule post_mono [OF foreign_request_is_refused [OF mem_env_laws ready single passed, OF disjI2, OF disjI1,
          OF other, unfolded sum.case]])
      (auto simp: sysof_def mem_find_def)
  have flow: "flows ex_refusing ?open ''f1'' = Some (ex_flow Validator OnboardingProcess AwaitingOr)"
    by (simp add: ex_refusing_def mem_find_def)
  show "post (handleOnboardingRequest ex_refusing (ex_request ''8''))
    (\<lambda>answer w'. answers_with EC_NotAVerifiableService (ex_request ''8'') answer \<and>
       ends_in_error ex_refusing ?open (ex_flow Validator OnboardingProcess AwaitingOr)
         (msg_not_vs ''did:peer'' None) w') (\<lambda>_ _. False) ?open"
    by (rule post_mono [OF foreign_request_is_refused [OF laws refusing failed, OF disjI2, OF disjI1, OF other, unfolded sum.case err.case]])
      (use flow same in auto)
qed

text \<open>
  Nothing leaves the agent for a peer that is not a Verifiable Service: when the VS-CONN-VS hook
  answers false or throws, sending an onboarding-request fails with not-a-verifiable-service and the
  world is the one the hook left, so no flow was stored, no event emitted and no message sent.
\<close>

theorem unverified_peer_gets_no_request:
  assumes "conn_getById K (ext w) (so_connectionId o1) = Inr c" and "conn_assertReady K c = Inr ()"
    and "truthy (conn_theirDid c)" and "peerAnchorDid c = Some d" and "d \<noteq> []"
    and "assertVerifiableService (config K) = Some h"
    and "h d (conn_id c) w = (Inr False, w1) \<or> h d (conn_id c) w = (Inl e, w1)"
  shows "\<exists>msg. sendOnboardingRequest K o1 w = (Inl (VtFlowError EC_NotAVerifiableService msg), w1)"
  using assms
  by (auto simp: sendOnboardingRequest_def readyConnectionById_def connectionById_def
      checkIsVerifiableService_def comp_defs Let_def)

theorem unverified_peer_gets_no_request_witness:
  "\<exists>msg. sendOnboardingRequest ex_refusing ex_onboarding (ex_world []) =
     (Inl (VtFlowError EC_NotAVerifiableService msg), ex_world [])"
  by (rule unverified_peer_gets_no_request [where c = ex_connection and d = "''did:peer''"
        and h = "\<lambda>d c. ret False"])
    (simp_all add: ex_refusing_def ex_onboarding_def ex_world_def mem_world_def ex_connection_def
      peerAnchorDid_def ret_def)

section \<open>Duplicate sessions\<close>

lemma findSingle_duplicate:
  assumes "repo_laws K" and "flows K w i = Some r" and "flows K w j = Some s" and "i \<noteq> j"
    and "tags_match q r" and "tags_match q s"
  shows "\<exists>m. repo_findSingleByQuery K (store w) q = Inl (RecordDuplicateError m)"
proof -
  let ?l = "repo_findByQuery K (store w) q"
  have set: "set ?l = {r. repo_findById K (store w) (rec_id r) = Some r \<and> tags_match q r}"
    using assms(1) by (simp add: repo_laws_def)
  have "rec_id r = i" "rec_id s = j" using assms(1-3) by (auto dest: repo_id)
  with assms set have "r \<in> set ?l" "s \<in> set ?l" "r \<noteq> s" by (auto simp: flows_def)
  then obtain a b l where "?l = a # b # l"
    by (cases ?l; cases "tl ?l") auto
  moreover have "case ?l of
         [] \<Rightarrow> repo_findSingleByQuery K (store w) q = Inr None
       | [r] \<Rightarrow> repo_findSingleByQuery K (store w) q = Inr (Some r)
       | _ \<Rightarrow> (\<exists>m. repo_findSingleByQuery K (store w) q = Inl (RecordDuplicateError m))"
    using assms(1) by (simp add: repo_laws_def)
  ultimately show ?thesis by simp
qed

lemma fst_findByParticipantSessionId:
  "fst (findByParticipantSessionId K p (Some Validator) w) =
     repo_findSingleByQuery K (store w) [(''participantSessionId'', p), (''role'', ''validator'')]"
  by (simp add: findByParticipantSessionId_def raise_def)

text \<open>
  C26. The lookup and the save of a new session are not atomic. When the session is unknown at first
  and, while the VS-CONN-VS check of one onboarding-request waits, another request stores the session,
  the first one is stored as well: the wallet then holds two flows of one session, and from there on
  every lookup of that session fails with a duplicate error.
\<close>

theorem concurrent_requests_duplicate_session:
  assumes "repo_laws K" and "ctx_assertReadyConnection K (in_connection mc) = Inr c"
    and "repo_findSingleByQuery K (store w)
      [(''participantSessionId'', or_participantSessionId (in_message mc)), (''role'', ''validator'')] =
      Inr None"
    and "checkIsVerifiableService K c
      (Some \<lparr> pu_participantId = Some (or_participantId (in_message mc)), pu_schemaId = None \<rparr>)
      (after_now K (after_id K w)) = (Inr (), w1)"
    and "flows K w1 j = Some r" and "role r = Validator"
    and "participantSessionId r = or_participantSessionId (in_message mc)"
    and "flows K w1 (new_id K w) = None"
  shows "post (processReceiveOnboardingRequest K mc)
    (\<lambda>r' w'. flows K w' j = Some r \<and> flows K w' (rec_id r') = Some r' \<and> rec_id r' \<noteq> j \<and>
       (\<exists>m. fst (findByParticipantSessionId K (or_participantSessionId (in_message mc))
               (Some Validator) w') = Inl (RecordDuplicateError m)))
    (\<lambda>_ _. False) w"
proof -
  have dup: "\<exists>m. repo_findSingleByQuery K (store (saved K n w1))
        [(''participantSessionId'', or_participantSessionId (in_message mc)), (''role'', ''validator'')] =
      Inl (RecordDuplicateError m)"
    if "rec_id n = new_id K w" "role n = Validator"
      "participantSessionId n = or_participantSessionId (in_message mc)" for n
    using that assms(1,5-8)
    by (intro findSingle_duplicate [of K "saved K n w1" j r "new_id K w" n]) auto
  have "j \<noteq> new_id K w" using assms(5,8) by auto
  with assms(1-3,5-8) show ?thesis
    by (auto simp: processReceiveOnboardingRequest_def checkRequestFromVerifiableService_def wp
        post_check_known(1) [OF assms(4)] fst_findByParticipantSessionId intro!: dup)
qed

text \<open>An environment in which another request of the session arrives during the check.\<close>

definition ex_racing :: "(mem_store, mem_ext) env" where
  "ex_racing = mem_env (no_options\<lparr>assertVerifiableService := Some (\<lambda>d c.
     sqn (quiet (processReceiveOnboardingRequest ex_env (ex_request ''7''))) (ret True))\<rparr>)"

lemma ex_race_check:
  "\<exists>w1 r. checkIsVerifiableService ex_racing ex_connection
      (Some \<lparr> pu_participantId = Some ''7'', pu_schemaId = None \<rparr>)
      (after_now ex_racing (after_id ex_racing (ex_world []))) = (Inr (), w1) \<and>
    flows ex_racing w1 ''ii'' = Some r \<and> role r = Validator \<and> participantSessionId r = ''s1'' \<and>
    flows ex_racing w1 (new_id ex_racing (ex_world [])) = None"
  by (simp add: ex_racing_def ex_run after_now_def after_id_def new_id_def ex_request_def
      newOnboardingRequest_def processReceiveOnboardingRequest_def
      checkRequestFromVerifiableService_def msg_threadId_def)

theorem concurrent_requests_duplicate_session_witness:
  "\<exists>r. post (processReceiveOnboardingRequest ex_racing (ex_request ''7''))
    (\<lambda>r' w'. flows ex_racing w' ''ii'' = Some r \<and> flows ex_racing w' (rec_id r') = Some r' \<and>
       rec_id r' \<noteq> ''ii'')
    (\<lambda>_ _. False) (ex_world [])"
proof -
  obtain w1 r where check: "checkIsVerifiableService ex_racing ex_connection
      (Some \<lparr> pu_participantId = Some ''7'', pu_schemaId = None \<rparr>)
      (after_now ex_racing (after_id ex_racing (ex_world []))) = (Inr (), w1)"
    and r: "flows ex_racing w1 ''ii'' = Some r" "role r = Validator" "participantSessionId r = ''s1''"
      "flows ex_racing w1 (new_id ex_racing (ex_world [])) = None"
    using ex_race_check by blast
  have laws: "repo_laws ex_racing" by (simp add: ex_racing_def mem_env_laws)
  show ?thesis
    by (intro exI, rule post_mono [OF concurrent_requests_duplicate_session [OF laws,
          where c = ex_connection and j = "''ii''" and r = r and ?w1.0 = w1]])
      (use check r in \<open>auto simp: ex_request_def newOnboardingRequest_def ex_racing_def
        mem_query_def\<close>)
qed

section \<open>Acceptance\<close>

lemma post_known:
  "m w = (Inr x, w1) \<Longrightarrow> post m Q E w = Q x w1"
  "m w = (Inl e, w1) \<Longrightarrow> post m Q E w = E e w1"
  by (simp_all add: post_def)

text \<open>
  C29. Acceptance never overwrites what happened while it waited for the participant check: when the
  check accepts, the flow it reads afterwards is the one that moves to VALIDATING, with a validating
  message, and only if that flow still awaits acceptance. A flow that a chain event, a termination or
  another acceptance moved in the meantime is left exactly as it was.
\<close>

theorem accept_rechecks_after_wait:
  assumes "repo_laws K" and "flows K w i = Some r" and "role r = Validator"
    and "variant r = OnboardingProcess" and "state r = AwaitingOr"
    and "checkParticipantId (config K) = Some h" and "h r w = (Inr CheckTrue, w1)"
    and "flows K w1 i = Some r1"
  shows "post (acceptOnboardingRequest K i)
    (\<lambda>(r', message) w'. state r1 = AwaitingOr \<and> state r' = Validating \<and> same_session r1 r' \<and>
       flows K w' = (flows K w1)(i \<mapsto> r') \<and>
       (\<exists>m. message = Some m \<and> msg_threadId m = threadId r1))
    (\<lambda>e w'. state r1 \<noteq> AwaitingOr \<and> \<not> isVtFlowError e \<and> w' = w1) w"
proof -
  have "rec_id r = i" "rec_id r1 = i" using assms(1,2,8) by (auto dest: repo_id)
  with assms show ?thesis
    by (auto simp: acceptOnboardingRequest_def wp post_known(1) [where m = "h r", OF assms(7)]
        same_session_def)
qed

definition ex_checking :: "participant_check \<Rightarrow> (mem_store, mem_ext) env" where
  "ex_checking c = mem_env (no_options\<lparr>checkParticipantId := Some (\<lambda>r. ret c)\<rparr>)"

lemma ex_checking_sel [simp]:
  "repo_laws (ex_checking c)" "flows (ex_checking c) (ex_world rs) = mem_find rs"
  "checkParticipantId (config (ex_checking c)) = Some (\<lambda>r. ret c)"
  "msg_send (ex_checking c) m d = ret ()"
  by (simp_all add: ex_checking_def mem_env_laws)

theorem accept_rechecks_after_wait_witness:
  "post (acceptOnboardingRequest (ex_checking CheckTrue) ''f1'')
    (\<lambda>(r', message) w'. state r' = Validating \<and> flows (ex_checking CheckTrue) w' ''f1'' = Some r')
    (\<lambda>e w'. False) (ex_world [ex_flow Validator OnboardingProcess AwaitingOr])"
  by (rule post_mono [OF accept_rechecks_after_wait [where
          r = "ex_flow Validator OnboardingProcess AwaitingOr"
          and h = "\<lambda>r. ret CheckTrue" and ?r1.0 = "ex_flow Validator OnboardingProcess AwaitingOr"
          and ?w1.0 = "ex_world [ex_flow Validator OnboardingProcess AwaitingOr]"]])
    (auto simp: mem_find_def ret_def)

text \<open>
  A participant id the check refuses is answered, not just refused: the API stores the flow back in
  AWAITING_OR with the report among its messages, hands the applicant a problem-report with the code
  invalid-participant-id on the flow's thread, and throws the error to its caller.
\<close>

theorem refused_participant_is_reported:
  assumes "repo_laws K" and "flows K w i = Some r" and "role r = Validator"
    and "variant r = OnboardingProcess" and "state r = AwaitingOr"
    and "checkParticipantId (config K) = Some h" and "h r w = (Inr CheckFalse, w1)"
    and "flows K w1 i = Some r" and "\<And>x. conn_getById K x (connectionId r) = Inr c"
    and "\<And>m d. msg_send K m d = ret ()"
  shows "post (api_acceptOnboardingRequest K i) (\<lambda>_ _. False)
    (\<lambda>e w'. \<exists>r' report. isVtFlowError e \<and> flows K w' i = Some r' \<and> state r' = AwaitingOr \<and>
       messages r' \<noteq> None \<and> events w' = events w1 \<and>
       sent w' = sent w1 @ [(Wire_ProblemReport report, Some (conn_id c))] \<and>
       pr_code report = Some (code_str EC_InvalidParticipantId) \<and>
       msg_threadId report = threadId r)
    w"
proof -
  have "rec_id r = i" using assms(1,2) by (auto dest: repo_id)
  with assms(1-6,8-10) show ?thesis
    by (auto simp: api_acceptOnboardingRequest_def acceptOnboardingRequest_def wp
        post_known(1) [where m = "h r", OF assms(7)] api_rejectRequest_def rejectRequest_def
        resolveErrorFlowState_def dispatchMessage_def connectionById_def appendMessage_def)
qed

lemma repo_laws_conn [simp]: "repo_laws (K\<lparr>conn_getById := f\<rparr>) = repo_laws K"
  by (simp add: repo_laws_def cong: option.case_cong list.case_cong)

text \<open>The same, with every connection id resolving.\<close>

definition ex_reachable :: "(mem_store, mem_ext) env" where
  "ex_reachable = (ex_checking CheckFalse)\<lparr>conn_getById := \<lambda>x i. Inr ex_connection\<rparr>"

theorem refused_participant_is_reported_witness:
  "post (api_acceptOnboardingRequest ex_reachable ''f1'') (\<lambda>_ _. False)
    (\<lambda>e w'. isVtFlowError e \<and> length (sent w') = 1)
    (ex_world [ex_flow Validator OnboardingProcess AwaitingOr])"
proof -
  have laws: "repo_laws ex_reachable"
    by (simp add: ex_reachable_def ex_checking_def mem_env_laws)
  show ?thesis
    by (rule post_mono [OF refused_participant_is_reported [OF laws,
          where r = "ex_flow Validator OnboardingProcess AwaitingOr" and c = ex_connection
            and h = "\<lambda>r. ret CheckFalse"
            and ?w1.0 = "ex_world [ex_flow Validator OnboardingProcess AwaitingOr]"]])
      (auto simp: ex_reachable_def ex_checking_def flows_def mem_find_def ex_flow_def
        newVtFlowRecord_def ret_def)
qed

section \<open>Both ends of a new session\<close>

lemma agent_newVtFlowRecord:
  "agentParticipantId (newVtFlowRecord uid now thid psid conn rl st vr ag wal) = ag"
  by (simp add: newVtFlowRecord_def)

text \<open>
  The two parties of an onboarding start with the same session: the onboarding-request an applicant
  creates for an unknown session, received by a validator that does not know it either, makes a flow
  on the validator's side with the same thread, participant session, participant and claims, in
  AWAITING_OR against the applicant's OR_SENT, and both report a creation.
\<close>

theorem onboarding_handshake_agrees:
  assumes "repo_laws K" and "repo_laws L"
    and "repo_findSingleByQuery K (store w)
      [(''participantSessionId'', cp_participantSessionId p), (''role'', ''applicant'')] = Inr None"
    and "flows K w (new_id K (after_id K w)) = None"
    and "ctx_assertReadyConnection L c = Inr d"
    and "repo_findSingleByQuery L (store u)
      [(''participantSessionId'', cp_participantSessionId p), (''role'', ''validator'')] = Inr None"
    and "checkIsVerifiableService L d
      (Some \<lparr> pu_participantId = Some (cp_applicantParticipantId p), pu_schemaId = None \<rparr>)
      (after_now L (after_id L u)) = (Inr (), u1)"
    and "flows L u1 (new_id L u) = None"
  shows "post (createOnboardingProcessRecord K p)
    (\<lambda>(message, a) w'.
       flows K w' (rec_id a) = Some a \<and> state a = OrSent \<and>
       events w' = events w @ [event_of a None] \<and>
       post (processReceiveOnboardingRequest L \<lparr> in_message = message, in_connection = c \<rparr>)
         (\<lambda>v u'. flows L u' (rec_id v) = Some v \<and> state v = AwaitingOr \<and>
            events u' = events u1 @ [event_of v None] \<and>
            role a = Applicant \<and> role v = Validator \<and> variant v = variant a \<and>
            threadId v = threadId a \<and> participantSessionId v = participantSessionId a \<and>
            applicantParticipantId v = applicantParticipantId a \<and> claims v = claims a \<and>
            agentParticipantId v = agentParticipantId a)
         (\<lambda>_ _. False) u)
    (\<lambda>_ _. False) w"
  using assms(1-6,8)
  by (auto simp: createOnboardingProcessRecord_def processReceiveOnboardingRequest_def wp
      checkRequestFromVerifiableService_def newOnboardingRequest_def msg_threadId_def
      agent_newVtFlowRecord
      post_known(1) [where m = "checkIsVerifiableService L d
      (Some \<lparr> pu_participantId = Some (cp_applicantParticipantId p), pu_schemaId = None \<rparr>)", OF assms(7)])

definition ex_create :: onboarding_params where
  "ex_create =
     \<lparr> cp_connectionId = ''c1'', cp_participantSessionId = ''s1'', cp_applicantParticipantId = ''7'',
       cp_applicantParticipantRole = Some 6, cp_validatorParticipantId = None, cp_schemaId = None,
       cp_agentParticipantId = ''1'', cp_walletAgentParticipantId = ''2'', cp_claims = None \<rparr>"

theorem onboarding_handshake_agrees_witness:
  "post (createOnboardingProcessRecord ex_env ex_create)
    (\<lambda>(message, a) w'. state a = OrSent \<and>
       post (processReceiveOnboardingRequest ex_env
           \<lparr> in_message = message, in_connection = Some ex_connection \<rparr>)
         (\<lambda>v u'. state v = AwaitingOr \<and> threadId v = threadId a) (\<lambda>_ _. False) (ex_world []))
    (\<lambda>_ _. False) (ex_world [])"
proof -
  have "checkIsVerifiableService ex_env ex_connection
      (Some \<lparr> pu_participantId = Some (cp_applicantParticipantId ex_create), pu_schemaId = None \<rparr>)
      (after_now ex_env (after_id ex_env (ex_world []))) =
      (Inr (), after_now ex_env (after_id ex_env (ex_world [])))"
    by (simp add: ex_run)
  from onboarding_handshake_agrees [where K = ex_env and L = ex_env and w = "ex_world []"
      and c = "Some ex_connection", OF mem_env_laws mem_env_laws _ _ _ _ this]
  show ?thesis
    by (simp add: mem_query_def mem_find_def) (auto elim!: post_mono)
qed

end
