(* ===== verification/FlowSessionProps.thy ===== *)
theory FlowSessionProps
  imports FlowOpProps
begin

text \<open>
  Properties of the longer exchanges of the vt-flow package: renewal of a session, anchoring and
  delivery of the credential, what a problem-report may do, and the sub-protocol that drives a flow.
\<close>

section \<open>Renewal\<close>

text \<open>
  A peer that returns to a finished session restarts it and carries nothing over: the flow goes
  back to AWAITING_OR on the new thread and connection with no link, validation or issuance of the
  earlier round, and exactly one event reports it. The automatic acceptance that follows that event
  skips one case: a flow whose credential had been revoked is renewed but never accepted by itself.
\<close>

theorem renewal_starts_over:
  assumes "repo_laws K" and "ctx_assertReadyConnection K (in_connection mc) = Inr c"
    and "repo_findSingleByQuery K (store w)
      [(''participantSessionId'', or_participantSessionId (in_message mc)), (''role'', ''validator'')] =
      Inr (Some ex)"
    and "checkIsVerifiableService K c
      (Some \<lparr> pu_participantId = Some (or_participantId (in_message mc)), pu_schemaId = None \<rparr>) w =
      (Inr (), w1)"
    and "\<not> isVtFlowTerminalState (state ex)"
    and "applicantParticipantId ex = Some (or_participantId (in_message mc))" and "samePeer K w1 ex c"
    and "flows K w1 (rec_id ex) = Some fresh" and "isVtFlowRenewable fresh"
  shows "post (processReceiveOnboardingRequest K mc)
    (\<lambda>r' w'. flows K w' = (flows K w1)(rec_id ex \<mapsto> r') \<and> state r' = AwaitingOr \<and>
       threadId r' = msg_threadId (in_message mc) \<and> connectionId r' = conn_id c \<and>
       oobLink r' = None \<and> validation r' = None \<and> issuance r' = None \<and>
       events w' = events w1 @ [event_of r' (Some (state fresh))] \<and> sent w' = sent w1 \<and>
       (autoAcceptsOR K (event_of r' (Some (state fresh))) \<longleftrightarrow>
          autoAcceptOnboardingRequest (config K) \<and> state fresh \<noteq> CredRevoked))
    (\<lambda>_ _. False) w"
proof -
  have "rec_id fresh = rec_id ex" using assms(1,8) by (rule repo_id)
  moreover have "state fresh \<noteq> OobPending" "state fresh \<noteq> AwaitingOr" "\<not> isVtFlowTerminalState (state fresh)"
    and "state fresh = Validated \<or> state fresh = Completed \<or> state fresh = CredRevoked"
    using isVtFlowRenewable_states [OF assms(9)] by auto
  ultimately show ?thesis
    using assms(1-3,5-9)
    by (auto simp: processReceiveOnboardingRequest_def checkRequestFromVerifiableService_def
        resumeOnboarding_def wp post_check_known(1) [OF assms(4)] event_of_def autoAcceptsOR_def)
qed

theorem renewal_starts_over_witness:
  "post (processReceiveOnboardingRequest ex_env (ex_request ''7''))
    (\<lambda>r' w'. state r' = AwaitingOr \<and> length (events w') = 1)
    (\<lambda>_ _. False) (ex_world [ex_flow Validator OnboardingProcess CredRevoked])"
  by (rule post_mono [OF renewal_starts_over [OF mem_env_laws,
        where c = ex_connection and ex = "ex_flow Validator OnboardingProcess CredRevoked"
          and fresh = "ex_flow Validator OnboardingProcess CredRevoked"
          and ?w1.0 = "ex_world [ex_flow Validator OnboardingProcess CredRevoked]"]])
    (auto simp: ex_request_def newOnboardingRequest_def mem_query_def mem_find_def
      checkIsVerifiableService_def peerAnchorDid_def ex_connection_def no_options_def comp_defs
      isVtFlowRenewable_def samePeer_def)

text \<open>
  C30. The applicant's renewal trusts the session id alone. When the session it is asked to open already
  has a renewable flow, that flow is sent again whatever its variant and participant are: the message
  names the requested participant, while the stored flow, now in OR_SENT, keeps the participant, the
  variant and the agent ids it had.
\<close>

theorem reopened_session_keeps_old_party:
  assumes "repo_laws K"
    and "repo_findSingleByQuery K (store w)
      [(''participantSessionId'', cp_participantSessionId p), (''role'', ''applicant'')] = Inr (Some ex)"
    and "isVtFlowRenewable ex"
  shows "post (createOnboardingProcessRecord K p)
    (\<lambda>(m, r') w'. flows K w' = (flows K w)(rec_id ex \<mapsto> r') \<and> state r' = OrSent \<and>
       threadId r' = msg_threadId m \<and> or_participantId m = cp_applicantParticipantId p \<and>
       applicantParticipantId r' = applicantParticipantId ex \<and> variant r' = variant ex \<and>
       agentParticipantId r' = agentParticipantId ex \<and>
       events w' = events w @ [event_of r' (Some (state ex))])
    (\<lambda>_ _. False) w"
proof -
  have "state ex = Validated \<or> state ex = Completed \<or> state ex = CredRevoked"
    using assms(3) by (rule isVtFlowRenewable_states)
  with assms findSingle_Some(1) [OF assms(1,2)] show ?thesis
    by (auto simp: createOnboardingProcessRecord_def newOnboardingRequest_def wp event_of_def
        msg_threadId_def moved_def)
qed

theorem reopened_session_keeps_old_party_witness:
  "post (createOnboardingProcessRecord ex_env (ex_create\<lparr>cp_applicantParticipantId := ''9''\<rparr>))
    (\<lambda>(m, r') w'. state r' = OrSent \<and> variant r' = DirectIssuance \<and> or_participantId m = ''9'' \<and>
       applicantParticipantId r' = Some ''7'')
    (\<lambda>_ _. False) (ex_world [ex_flow Applicant DirectIssuance Completed])"
  by (rule post_mono [OF reopened_session_keeps_old_party [OF mem_env_laws,
        where ex = "ex_flow Applicant DirectIssuance Completed"]])
    (auto simp: ex_create_def mem_query_def mem_find_def isVtFlowRenewable_def)

section \<open>Problem-reports received\<close>

text \<open>
  A problem-report can only end a flow. Whatever it holds, from whoever it comes, an ended flow
  and every flow of another thread are not touched, and the flow of its thread keeps its state or moves
  to an ended one; it moves only on a code of the Error Codes table.
\<close>

theorem report_only_ends_flow:
  assumes "repo_laws K"
    and "repo_findSingleByQuery K (store w) [(''threadId'', msg_threadId (in_message mc))] = Inr (Some r)"
  shows "post (processReceiveProblemReport K mc)
    (\<lambda>_ w'. (isVtFlowTerminalState (state r) \<longrightarrow> w' = w) \<and>
       (\<forall>j. j \<noteq> rec_id r \<longrightarrow> flows K w' j = flows K w j) \<and>
       (\<exists>r'. flows K w' (rec_id r) = Some r' \<and> same_session r r' \<and>
          (state r' = state r \<or> isVtFlowTerminalState (state r') \<and>
             (\<exists>code. pr_code (in_message mc) = Some (code_str code)))))
    (\<lambda>_ _. False) w"
  using assms findSingle_Some(1) [OF assms]
  by (cases "pr_code (in_message mc)")
    (auto simp: processReceiveProblemReport_def wp same_session_def
      split: option.split dest: resolved_from_table_terminal code_of_str_Some)

theorem report_only_ends_flow_witness:
  "post (processReceiveProblemReport ex_env
      \<lparr> in_message = buildVtFlowProblemReport ''m1'' EC_ValidationRefused ''t1'' None None None None,
        in_connection = None \<rparr>)
    (\<lambda>_ w'. \<exists>r'. flows ex_env w' ''f1'' = Some r' \<and>
       (state r' = OrSent \<or> isVtFlowTerminalState (state r')))
    (\<lambda>_ _. False) (ex_world [ex_flow Applicant OnboardingProcess OrSent])"
  by (rule post_mono [OF report_only_ends_flow [OF mem_env_laws,
        where r = "ex_flow Applicant OnboardingProcess OrSent"]])
    (auto simp: mem_query_def mem_find_def)

section \<open>Anchoring and delivery\<close>

text \<open>What the anchoring hook answered, read as the permission to deliver.\<close>

fun delivers :: "err + before_issued option \<Rightarrow> bool" where
  "delivers (Inl e) = False"
| "delivers (Inr None) = True"
| "delivers (Inr (Some b)) =
     (case bi_issuance b of
        None \<Rightarrow> True
      | Some x \<Rightarrow> (case issuance_tx x of None \<Rightarrow> True | Some t \<Rightarrow> tx_status t \<noteq> TxStatus_Failed))"

lemma post_anchorCredential:
  assumes "repo_laws K" and "onBeforeCredentialIssued (config K) = Some h"
    and "proto_getCredential K (ext w) (ex_id ex) = Some cred" and "h r ex cred w = (res, w1)"
  shows "post (anchorCredential K r ex)
    (\<lambda>ok w'. ok = delivers res \<and> sent w' = sent w1) (\<lambda>_ w'. sent w' = sent w1) w"
proof (cases res)
  case (Inl e)
  with assms show ?thesis
    by (simp add: anchorCredential_def wp post_known(2) [where m = "h r ex cred"])
next
  case (Inr b)
  with assms(4) have "h r ex cred w = (Inr b, w1)" by simp
  with assms(1-3) Inr show ?thesis
    by (cases b)
      (auto simp: anchorCredential_def recordIssuance_def setCredentialDigest_def wp
        post_known(1) [where m = "h r ex cred"] split: option.splits)
qed

text \<open>The connection an exchange answers on: none, one that is ready, or the error of looking it up.\<close>

definition exchange_connection :: "('st, 'x) env \<Rightarrow> ('st, 'x) world \<Rightarrow> cred_exchange \<Rightarrow> err + string option" where
  "exchange_connection K w ex =
     (if \<not> truthy (ex_connectionId ex) then Inr None
      else map_sum id (Some \<circ> conn_id) (fst (readyConnectionById K (the (ex_connectionId ex)) w)))"

lemma post_msg_send:
  assumes "keeps (\<lambda>t. sent t = earlier) (msg_send K m d)" and "sent v = earlier"
  shows "post (msg_send K m d) (\<lambda>_ t. sent t = earlier) (\<lambda>_ t. sent t = earlier) v"
  using assms by (simp add: keeps_def)

text \<open>
  C31. A credential leaves the agent only when its anchor allows it. With an anchoring hook installed,
  issuing sends at most one message beyond what the hook itself sent: the signed credential, to the
  exchange's connection, and only when the hook returned without reporting a failed transaction. A hook
  that throws, a failed transaction, or a flow that disappears or changes meanwhile send nothing. When the
  connection of the exchange is unknown or not ready, issuing throws and neither anchors nor sends anything.
\<close>

theorem credential_leaves_only_when_anchored:
  assumes "repo_laws K" and "flows K w i = Some r" and "role r = Validator"
    and "exch_getById K (ext w) e = Inr ex" and "proto_registered K (ex_protocolVersion ex)"
    and "credentialMessage K ex cm fs w = (Inr message, w1)"
    and "onBeforeCredentialIssued (config K) = Some h"
    and "proto_getCredential K (ext w1) (ex_id ex) = Some cred" and "h r ex cred w1 = (res, w2)"
    and "\<And>m d earlier. keeps (\<lambda>t. sent t = earlier) (msg_send K m d)"
  shows "case exchange_connection K w ex of
      Inl er \<Rightarrow> post (issueCredentialForSession K i e cm fs) (\<lambda>_ _. False) (\<lambda>x w'. x = er \<and> w' = w) w
    | Inr d \<Rightarrow> post (issueCredentialForSession K i e cm fs)
        (\<lambda>_ w'. delivers res \<and> sent w' = sent w2 @ [(Wire_IssuedCredential message, d)] \<or>
           \<not> delivers res \<and> sent w' = sent w2)
        (\<lambda>_ w'. sent w' = sent w2 \<or>
           delivers res \<and> sent w' = sent w2 @ [(Wire_IssuedCredential message, d)])
        w"
proof -
  note anchor = post_anchorCredential [OF assms(1,7,8,9)]
  have issue: "post (bnd (credentialMessage K ex cm fs) (\<lambda>message.
      bnd (anchorCredential K r ex) (\<lambda>deliver.
      sqn (whenM deliver (sendMessage K (Wire_IssuedCredential message) d))
     (bnd (getById K (rec_id r)) (\<lambda>r. ret (r, ex))))))
    (\<lambda>_ w'. delivers res \<and> sent w' = sent w2 @ [(Wire_IssuedCredential message, d)] \<or>
       \<not> delivers res \<and> sent w' = sent w2)
    (\<lambda>_ w'. sent w' = sent w2 \<or> delivers res \<and> sent w' = sent w2 @ [(Wire_IssuedCredential message, d)]) w" for d
    unfolding post_bnd post_sqn post_known(1) [where m = "credentialMessage K ex cm fs", OF assms(6)]
    by (rule post_mono [OF anchor])
      (auto simp: wp assms(1) split: option.split intro!: post_mono [OF post_msg_send [OF assms(10)]])
  have conn: "exchange_connection K w ex =
    (if \<not> truthy (ex_connectionId ex) then Inr None
     else case conn_getById K (ext w) (the (ex_connectionId ex)) of Inl e \<Rightarrow> Inl e
     | Inr c \<Rightarrow> (case conn_assertReady K c of Inl e \<Rightarrow> Inl e | Inr _ \<Rightarrow> Inr (Some (conn_id c))))"
    by (simp add: exchange_connection_def readyConnectionById_def connectionById_def comp_defs split: sum.split)
  show ?thesis
    using issue assms(1-5)
    by (auto simp: issueCredentialForSession_def conn readyConnectionById_def connectionById_def wp split: sum.split)
qed

text \<open>An exchange over a ready connection, anchored by a transaction with the given status.\<close>

definition ex_exchange :: cred_exchange where
  "ex_exchange =
     \<lparr> ex_id = ''e1'', ex_threadId = ''et1'', ex_parentThreadId = Some ''t1'',
       ex_state = CS_RequestReceived, ex_connectionId = Some ''c1'', ex_protocolVersion = ''v2'' \<rparr>"

definition ex_anchor :: "vt_flow_tx_status \<Rightarrow> before_issued" where
  "ex_anchor status = \<lparr> bi_credentialDigest = None, bi_issuance = Some \<lparr> issuance_tx = Some
     \<lparr> tx_hash = None, tx_submittedAt = None, tx_height = None, tx_status = status,
       tx_reason = None, tx_error = None \<rparr> \<rparr> \<rparr>"

definition ex_anchoring :: "vt_flow_tx_status \<Rightarrow> (mem_store, mem_ext) env" where
  "ex_anchoring status =
     mem_env (no_options\<lparr>onBeforeCredentialIssued := Some (\<lambda>r ex c. ret (Some (ex_anchor status)))\<rparr>)"

definition ex_exchanging :: "vt_flow_record list \<Rightarrow> (mem_store, mem_ext) world" where
  "ex_exchanging rs = mem_world rs [ex_connection] [ex_exchange]"

definition ex_signed_credential :: json where
  "ex_signed_credential = JObj [(''dataIntegrity'',
     JObj [(''cryptosuite'', JStr DEFAULT_DATA_INTEGRITY_CRYPTOSUITE)])]"

lemma ex_credential_message:
  "credentialMessage (ex_anchoring status) ex_exchange None None w = (Inr ex_signed_credential, w)"
  by (simp add: credentialMessage_def ex_anchoring_def comp_defs ex_exchange_def ex_signed_credential_def
      dataIntegrityCryptosuite_def no_options_def)

text \<open>A failed transaction sends nothing; any other sends the credential over the exchange's connection.\<close>

theorem credential_leaves_only_when_anchored_witness:
  "\<forall>status. post (issueCredentialForSession (ex_anchoring status) ''f1'' ''e1'' None None)
    (\<lambda>_ w'. sent w' = (if status = TxStatus_Failed then []
       else [(Wire_IssuedCredential ex_signed_credential, Some ''c1'')])) (\<lambda>_ w'. length (sent w') \<le> 1)
    (ex_exchanging [ex_flow Validator OnboardingProcess CredOffered])"
proof
  fix status
  let ?w = "ex_exchanging [ex_flow Validator OnboardingProcess CredOffered]"
  have c: "exchange_connection (ex_anchoring status) ?w ex_exchange = Inr (Some ''c1'')"
    by (simp add: exchange_connection_def ex_exchange_def ex_anchoring_def ex_exchanging_def mem_world_def
        readyConnectionById_def connectionById_def comp_defs ex_connection_def)
  have d: "delivers (Inr (Some (ex_anchor status))) = (status \<noteq> TxStatus_Failed)"
    by (simp add: ex_anchor_def)
  have quiet: "keeps (\<lambda>t. sent t = earlier) (msg_send (ex_anchoring status) m c)" for m c earlier
    by (simp add: ex_anchoring_def keeps_ret)
  note issued = credential_leaves_only_when_anchored [where K = "ex_anchoring status" and w = ?w and i = "''f1''"
      and e = "''e1''" and r = "ex_flow Validator OnboardingProcess CredOffered" and cred = JNull
      and res = "Inr (Some (ex_anchor status))" and ?w2.0 = ?w and h = "\<lambda>r ex c. ret (Some (ex_anchor status))",
      OF _ _ _ _ _ ex_credential_message _ _ _ quiet, unfolded c sum.case d]
  show "post (issueCredentialForSession (ex_anchoring status) ''f1'' ''e1'' None None)
    (\<lambda>_ w'. sent w' = (if status = TxStatus_Failed then []
       else [(Wire_IssuedCredential ex_signed_credential, Some ''c1'')])) (\<lambda>_ w'. length (sent w') \<le> 1) ?w"
    by (rule post_mono [OF issued])
      (auto simp: ex_anchoring_def mem_env_laws ex_exchanging_def mem_world_def flows_def
        mem_find_def ex_flow_def newVtFlowRecord_def ex_exchange_def ret_def no_options_def)
qed

section \<open>The sub-protocol\<close>

text \<open>
  C32. The sub-protocol does not look at the state it moves. A credential exchange whose parent thread
  is a flow's thread completes that flow when it is done, whatever state the flow is in: a flow a party
  terminated, the chain revoked or an error ended reaches COMPLETED again.
\<close>

theorem late_exchange_completes_ended_flow:
  assumes "repo_laws K" and "truthy (ex_parentThreadId ex)" and "ex_state ex = CS_Done"
    and "repo_findSingleByQuery K (store w) [(''threadId'', the (ex_parentThreadId ex))] = Inr (Some r)"
    and "isVtFlowTerminalState (state r)"
  shows "post (onCredentialExchangeChanged K ex)
    (\<lambda>_ w'. \<exists>r'. flows K w' = (flows K w)(rec_id r \<mapsto> r') \<and> same_session r r' \<and>
       state r' = Completed \<and> events w' = events w @ [event_of r' (Some (state r))])
    (\<lambda>_ _. False) w"
proof -
  have "state r \<noteq> Completed" "state r \<noteq> OobPending" using assms(5) by auto
  moreover have "flows K w (rec_id r) = Some r" using assms(1,4) by (rule findSingle_Some)
  ultimately show ?thesis
    using assms
    by (auto simp: onCredentialExchangeChanged_def onSubprotocolStateChanged_def verifyReceived_def
        autoIssue_def wp same_session_def event_of_def split: option.split)
qed

theorem late_exchange_completes_ended_flow_witness:
  "post (onCredentialExchangeChanged ex_env (ex_exchange\<lparr>ex_state := CS_Done\<rparr>))
    (\<lambda>_ w'. map_option state (flows ex_env w' ''f1'') = Some Completed)
    (\<lambda>_ _. False) (ex_world [ex_flow Validator OnboardingProcess TerminatedByApplicant])"
  by (rule post_mono [OF late_exchange_completes_ended_flow [OF mem_env_laws,
        where r = "ex_flow Validator OnboardingProcess TerminatedByApplicant"]])
    (auto simp: ex_exchange_def mem_query_def mem_find_def)

end
