(* ===== verification/JsValues.thy ===== *)
theory JsValues
  imports VtPrelude
begin

text \<open>
  The part of JavaScript's numbers and maps the chain side of the agent uses: decimal rendering,
  \<open>String(v)\<close> and \<open>Number(v)\<close> on parsed JSON, \<open>Array.prototype.sort\<close> with a comparator, and \<open>Map\<close> with
  its insertion order.

  Numbers are exact rationals with NaN and the two infinities beside them; the rounding of a double
  is left out, which is invisible on the integers the code computes with.
\<close>

section \<open>Decimal numbers\<close>

fun nat_str :: "nat \<Rightarrow> string" where
  "nat_str n = (if n < 10 then [] else nat_str (n div 10)) @ [char_of (48 + n mod 10)]"

declare nat_str.simps [simp del]

definition int_str :: "int \<Rightarrow> string" where
  "int_str i = (if i < 0 then ''-'' @ nat_str (nat (- i)) else nat_str (nat i))"

definition is_digit :: "char \<Rightarrow> bool" where
  "is_digit c \<longleftrightarrow> 48 \<le> (of_char c :: nat) \<and> (of_char c :: nat) \<le> 57"

definition digits_value :: "string \<Rightarrow> nat" where
  "digits_value s = foldl (\<lambda>a c. 10 * a + (of_char c - 48)) 0 s"

lemma digits_value_append:
  "digits_value (s @ [c]) = 10 * digits_value s + (of_char c - 48)"
  by (simp add: digits_value_def)

lemma of_char_digit: "d < 10 \<Longrightarrow> of_char (char_of (48 + d) :: char) = 48 + (d :: nat)"
  by (simp add: of_char_of)

lemma digits_value_nat_str [simp]: "digits_value (nat_str n) = n"
proof (induction n rule: nat_str.induct)
  case (1 n)
  then show ?case
    by (subst nat_str.simps)
      (auto simp: digits_value_append of_char_digit digits_value_def)
qed

lemma nat_str_digits: "list_all is_digit (nat_str n)"
proof (induction n rule: nat_str.induct)
  case (1 n)
  have "is_digit (char_of (48 + n mod 10))"
    by (simp add: is_digit_def of_char_digit)
  with 1 show ?case by (subst nat_str.simps) auto
qed

lemma nat_str_nonempty [simp]: "nat_str n \<noteq> []"
  by (subst nat_str.simps) simp

lemma nat_str_inject [simp]: "nat_str m = nat_str n \<longleftrightarrow> m = n"
  by (metis digits_value_nat_str)

lemma is_digit_minus [simp]: "\<not> is_digit (CHR ''-'')" "\<not> is_digit (CHR '':'')"
  by (simp_all add: is_digit_def)

lemma nat_str_not: "\<not> is_digit c \<Longrightarrow> c \<notin> set (nat_str n)"
  using nat_str_digits [of n] by (auto simp: list_all_iff)

lemma hd_nat_str: "is_digit (hd (nat_str n))"
  using nat_str_digits [of n] by (cases "nat_str n") simp_all

lemma int_str_inject [simp]: "int_str i = int_str j \<longleftrightarrow> i = j"
proof -
  have minus: "''-'' @ nat_str m \<noteq> nat_str n" for m n
    using hd_nat_str [of n] by (metis append_Cons is_digit_minus(1) list.sel(1))
  show ?thesis
    using minus minus [symmetric] by (auto simp: int_str_def)
qed

lemma int_str_no_colon: "CHR '':'' \<notin> set (int_str i)"
  by (auto simp: int_str_def nat_str_not)

section \<open>\<open>String\<close> and \<open>Number\<close>\<close>

datatype jsnum = JsNaN | JsInf bool | JsFin rat

text \<open>A finite decimal fraction; \<open>fuel\<close> bounds the digits after the point.\<close>

fun frac_digits :: "nat \<Rightarrow> rat \<Rightarrow> string" where
  "frac_digits 0 q = []"
| "frac_digits (Suc k) q =
     (if q = 0 then [] else char_of (48 + nat \<lfloor>10 * q\<rfloor>) # frac_digits k (10 * q - of_int \<lfloor>10 * q\<rfloor>))"

definition rat_str :: "rat \<Rightarrow> string" where
  "rat_str q =
     (let a = \<bar>q\<bar>; w = \<lfloor>a\<rfloor>; f = a - of_int w
      in (if q < 0 then ''-'' else []) @ nat_str (nat w) @
         (if f = 0 then [] else ''.'' @ frac_digits 17 f))"

fun js_String :: "json \<Rightarrow> string" where
  "js_String JNull = ''null''"
| "js_String (JBool b) = (if b then ''true'' else ''false'')"
| "js_String (JNum q) = rat_str q"
| "js_String (JStr s) = s"
| "js_String (JArr xs) =
     join_with '','' (map (\<lambda>x. if x = JNull then [] else js_String x) xs)"
| "js_String (JObj ps) = ''[object Object]''"

definition is_space :: "char \<Rightarrow> bool" where
  "is_space c \<longleftrightarrow> (of_char c :: nat) \<in> {9, 10, 11, 12, 13, 32, 160}"

definition js_trim :: "string \<Rightarrow> string" where
  "js_trim s = rev (dropWhile is_space (rev (dropWhile is_space s)))"

definition digit_of :: "nat \<Rightarrow> char \<Rightarrow> nat option" where
  "digit_of base c =
     (let n = of_char c :: nat;
          d = (if 48 \<le> n \<and> n \<le> 57 then n - 48
               else if 97 \<le> n \<and> n \<le> 122 then n - 87
               else if 65 \<le> n \<and> n \<le> 90 then n - 55 else 36)
      in if d < base then Some d else None)"

fun base_value :: "nat \<Rightarrow> nat \<Rightarrow> string \<Rightarrow> nat option" where
  "base_value base a [] = Some a"
| "base_value base a (c # cs) =
     (case digit_of base c of None \<Rightarrow> None | Some d \<Rightarrow> base_value base (base * a + d) cs)"

text \<open>\<open>[+-]? digits? ( . digits? )? ( [eE] [+-]? digits )?\<close> with at least one digit before the exponent.\<close>

definition take_sign :: "string \<Rightarrow> bool \<times> string" where
  "take_sign s =
     (case s of
        c # cs \<Rightarrow> if c = CHR ''-'' then (True, cs) else if c = CHR ''+'' then (False, cs) else (False, s)
      | [] \<Rightarrow> (False, []))"

definition exponent_value :: "string \<Rightarrow> int option" where
  "exponent_value s =
     (case s of
        [] \<Rightarrow> Some 0
      | c # cs \<Rightarrow>
          if c = CHR ''e'' \<or> c = CHR ''E'' then
            (case take_sign cs of (neg, ds) \<Rightarrow>
               if ds \<noteq> [] \<and> list_all is_digit ds
               then Some (if neg then - int (digits_value ds) else int (digits_value ds))
               else None)
          else None)"

definition decimal_value :: "string \<Rightarrow> rat option" where
  "decimal_value s =
     (let w = takeWhile is_digit s; r1 = dropWhile is_digit s;
          dotted = (r1 \<noteq> [] \<and> hd r1 = CHR ''.'');
          r2 = (if dotted then tl r1 else r1);
          f = (if dotted then takeWhile is_digit r2 else []);
          r3 = (if dotted then dropWhile is_digit r2 else r2)
      in if w = [] \<and> f = [] then None
         else case exponent_value r3 of
                None \<Rightarrow> None
              | Some e \<Rightarrow>
                  let m = of_nat (digits_value (w @ f)) / 10 ^ length f
                  in Some (if e < 0 then m / 10 ^ nat (- e) else m * 10 ^ nat e))"

definition js_parse_number :: "string \<Rightarrow> jsnum" where
  "js_parse_number s0 =
     (let s = js_trim s0
      in if s = [] then JsFin 0
         else if length s > 2 \<and> hd s = CHR ''0'' \<and> s ! 1 \<in> set ''xXoObB'' then
           (let b = (if s ! 1 \<in> set ''xX'' then 16 else if s ! 1 \<in> set ''oO'' then 8 else 2)
            in case base_value b 0 (drop 2 s) of None \<Rightarrow> JsNaN | Some n \<Rightarrow> JsFin (of_nat n))
         else case take_sign s of (neg, r) \<Rightarrow>
           if r = ''Infinity'' then JsInf neg
           else case decimal_value r of
                  None \<Rightarrow> JsNaN
                | Some q \<Rightarrow> JsFin (if neg then - q else q))"

fun js_Number :: "json \<Rightarrow> jsnum" where
  "js_Number JNull = JsFin 0"
| "js_Number (JBool b) = JsFin (if b then 1 else 0)"
| "js_Number (JNum q) = JsFin q"
| "js_Number (JStr s) = js_parse_number s"
| "js_Number (JArr xs) = js_parse_number (js_String (JArr xs))"
| "js_Number (JObj ps) = JsNaN"

lemma takeWhile_all: "list_all P xs \<Longrightarrow> takeWhile P xs = xs" "list_all P xs \<Longrightarrow> dropWhile P xs = []"
  by (auto simp: list_all_iff takeWhile_eq_all_conv dropWhile_eq_Nil_conv)

lemma digit_not_space: "is_digit c \<Longrightarrow> \<not> is_space c"
  by (auto simp: is_digit_def is_space_def)

lemma trim_digits:
  assumes "s \<noteq> []" and "list_all is_digit s"
  shows "js_trim s = s"
proof -
  have "dropWhile is_space s = s" and "dropWhile is_space (rev s) = rev s"
    using assms digit_not_space
    by (auto simp: list_all_iff dropWhile_eq_self_iff hd_rev)
  then show ?thesis by (simp add: js_trim_def)
qed

text \<open>The round trip the code relies on: an id turned into a string is read back by \<open>Number\<close>.\<close>

lemma parse_nat_str: "js_parse_number (nat_str n) = JsFin (of_nat n)"
proof -
  let ?s = "nat_str n"
  have ds: "list_all is_digit ?s" and ne: "?s \<noteq> []" by (simp_all add: nat_str_digits)
  have trim: "js_trim ?s = ?s" using ne ds by (rule trim_digits)
  have sign: "take_sign ?s = (False, ?s)"
    using ds by (cases ?s) (auto simp: take_sign_def is_digit_def)
  have tw: "takeWhile is_digit ?s = ?s" "dropWhile is_digit ?s = []"
    using ds by (rule takeWhile_all)+
  have dec: "decimal_value ?s = Some (of_nat n)"
    by (simp add: decimal_value_def exponent_value_def tw)
  have letter: "\<not> is_digit c" if "c \<in> set ''xXoObB''" for c
    using that by (auto simp: is_digit_def)
  have prefix: "\<not> (length ?s > 2 \<and> hd ?s = CHR ''0'' \<and> ?s ! 1 \<in> set ''xXoObB'')"
  proof
    assume p: "length ?s > 2 \<and> hd ?s = CHR ''0'' \<and> ?s ! 1 \<in> set ''xXoObB''"
    then have "1 < length ?s" by linarith
    then have "is_digit (?s ! 1)" using ds by (simp only: list_all_length)
    with p letter show False by blast
  qed
  have inf: "?s \<noteq> ''Infinity''" using ds by (auto simp: is_digit_def)
  show ?thesis
    by (simp only: js_parse_number_def Let_def trim if_not_P [OF ne] if_not_P [OF prefix] sign
        prod.case if_not_P [OF inf] dec option.case if_False)
qed

section \<open>Sorting with a comparator\<close>

text \<open>
  \<open>Array.prototype.sort\<close> is stable, so with a consistent comparator its result is the one a stable
  insertion sort computes.
\<close>

fun js_insert :: "('a \<Rightarrow> 'a \<Rightarrow> int) \<Rightarrow> 'a \<Rightarrow> 'a list \<Rightarrow> 'a list" where
  "js_insert cmp x [] = [x]"
| "js_insert cmp x (y # ys) = (if cmp x y \<le> 0 then x # y # ys else y # js_insert cmp x ys)"

definition js_sort :: "('a \<Rightarrow> 'a \<Rightarrow> int) \<Rightarrow> 'a list \<Rightarrow> 'a list" where
  "js_sort cmp xs = foldr (js_insert cmp) xs []"

lemma js_insert_key:
  fixes f :: "'a \<Rightarrow> 'b::linorder"
  assumes "\<And>x y. cmp x y \<le> 0 \<longleftrightarrow> f x \<le> f y"
  shows "js_insert cmp x ys = insort_key f x ys"
  by (induction ys) (simp_all add: assms)

lemma js_sort_key:
  fixes f :: "'a \<Rightarrow> 'b::linorder"
  assumes "\<And>x y. cmp x y \<le> 0 \<longleftrightarrow> f x \<le> f y"
  shows "js_sort cmp xs = sort_key f xs"
proof -
  have "js_insert cmp = insort_key f"
    by (intro ext js_insert_key assms)
  then show ?thesis by (simp add: js_sort_def sort_key_def)
qed

section \<open>\<open>Map\<close>\<close>

text \<open>A \<open>Map\<close> lists its entries in insertion order; setting an existing key keeps its place.\<close>

fun jsmap_set :: "'k \<Rightarrow> 'v \<Rightarrow> ('k \<times> 'v) list \<Rightarrow> ('k \<times> 'v) list" where
  "jsmap_set k v [] = [(k, v)]"
| "jsmap_set k v ((a, b) # m) = (if a = k then (k, v) # m else (a, b) # jsmap_set k v m)"

definition jsmap_delete :: "'k \<Rightarrow> ('k \<times> 'v) list \<Rightarrow> ('k \<times> 'v) list" where
  "jsmap_delete k m = filter (\<lambda>p. fst p \<noteq> k) m"

lemma map_of_jsmap_set [simp]: "map_of (jsmap_set k v m) = (map_of m)(k \<mapsto> v)"
  by (induction m) auto

lemma map_of_jsmap_delete [simp]: "map_of (jsmap_delete k m) = (map_of m)(k := None)"
  by (induction m) (auto simp: jsmap_delete_def)

lemma keys_jsmap_set:
  "map fst (jsmap_set k v m) = (if k \<in> fst ` set m then map fst m else map fst m @ [k])"
  by (induction m) force+

lemma distinct_jsmap_set: "distinct (map fst m) \<Longrightarrow> distinct (map fst (jsmap_set k v m))"
  by (auto simp: keys_jsmap_set)

lemma distinct_jsmap_delete: "distinct (map fst m) \<Longrightarrow> distinct (map fst (jsmap_delete k m))"
  by (simp add: jsmap_delete_def distinct_map_filter)

end
