(* ===== verification/IndexerSync.thy ===== *)
theory IndexerSync
  imports JsValues "HOL-Library.Product_Lexorder" "HOL-Library.Multiset"
begin

text \<open>
  \<open>indexerSync.ts\<close>: the identity and the order of indexer events, and the cursor of the REST catch-up;
  with the pages a catch-up reads and what the documented behaviour of the events API makes of them.
\<close>

section \<open>Events\<close>

text \<open>
  An event without a payload is dropped by \<open>isProcessableEvent\<close> before anything reads the payload; here
  it is one with an empty sender, which \<open>isProcessableEvent\<close> drops as well.
\<close>

record event_payload =
  pl_module :: string
  pl_action :: string
  pl_message_type :: string
  pl_tx_index :: int
  pl_message_index :: int
  pl_sender :: string
  pl_related_dids :: "string list"
  pl_entity_type :: "string option"
  pl_entity_id :: "string option"

record indexer_event =
  ie_type :: string
  ie_event_type :: string
  ie_did :: string
  ie_block_height :: int
  ie_tx_hash :: string
  ie_timestamp :: string
  ie_payload :: event_payload

definition eventKey :: "indexer_event \<Rightarrow> string" where
  "eventKey e =
     ie_tx_hash e @ '':'' @ int_str (pl_message_index (ie_payload e)) @ '':'' @ ie_event_type e"

definition isProcessableEvent :: "indexer_event \<Rightarrow> bool" where
  "isProcessableEvent e \<longleftrightarrow>
     ie_type e = ''indexer-event'' \<and> ie_block_height e > 0 \<and> pl_sender (ie_payload e) \<noteq> []"

definition comparePosition :: "indexer_event \<Rightarrow> indexer_event \<Rightarrow> int" where
  "comparePosition a b =
     (if ie_block_height a \<noteq> ie_block_height b then ie_block_height a - ie_block_height b
      else if pl_tx_index (ie_payload a) \<noteq> pl_tx_index (ie_payload b)
      then pl_tx_index (ie_payload a) - pl_tx_index (ie_payload b)
      else pl_message_index (ie_payload a) - pl_message_index (ie_payload b))"

definition sortEventsByPosition :: "indexer_event list \<Rightarrow> indexer_event list" where
  "sortEventsByPosition es = js_sort comparePosition es"

text \<open>The position of an event on the chain, compared lexicographically.\<close>

definition position :: "indexer_event \<Rightarrow> int \<times> int \<times> int" where
  "position e =
     (ie_block_height e, pl_tx_index (ie_payload e), pl_message_index (ie_payload e))"

lemma comparePosition_iff: "comparePosition a b \<le> 0 \<longleftrightarrow> position a \<le> position b"
  by (auto simp: comparePosition_def position_def)

lemma sortEventsByPosition_key: "sortEventsByPosition es = sort_key position es"
  unfolding sortEventsByPosition_def by (rule js_sort_key) (rule comparePosition_iff)

lemma block_mono: "position a \<le> position b \<Longrightarrow> ie_block_height a \<le> ie_block_height b"
  by (auto simp: position_def)

lemma split_at_colon:
  assumes "a @ CHR '':'' # x = b @ CHR '':'' # y" and "CHR '':'' \<notin> set a" and "CHR '':'' \<notin> set b"
  shows "a = b \<and> x = y"
proof -
  have "takeWhile (\<lambda>c. c \<noteq> CHR '':'') (a @ CHR '':'' # x) = a"
    and "takeWhile (\<lambda>c. c \<noteq> CHR '':'') (b @ CHR '':'' # y) = b"
    using assms(2,3) by (auto simp: takeWhile_tail intro!: takeWhile_append2 [THEN trans])
  with assms(1) have "a = b" by metis
  with assms(1) show ?thesis by simp
qed

section \<open>The REST cursor\<close>

record rest_cursor =
  rc_done :: bool
  rc_cursor :: int
  rc_blockExceedsPage :: bool

definition nextRestCursor :: "indexer_event list \<Rightarrow> int \<Rightarrow> nat \<Rightarrow> rest_cursor" where
  "nextRestCursor events currentCursor pageLimit =
     (if length events < pageLimit
      then \<lparr> rc_done = True, rc_cursor = currentCursor, rc_blockExceedsPage = False \<rparr>
      else
        let maxBlock = foldl (\<lambda>m e. if ie_block_height e > m then ie_block_height e else m)
                         currentCursor events;
            rewound = maxBlock - 1
        in if rewound > currentCursor
           then \<lparr> rc_done = False, rc_cursor = rewound, rc_blockExceedsPage = False \<rparr>
           else \<lparr> rc_done = False, rc_cursor = maxBlock, rc_blockExceedsPage = True \<rparr>)"

definition page_max :: "int \<Rightarrow> indexer_event list \<Rightarrow> int" where
  "page_max c es = foldl (\<lambda>m e. if ie_block_height e > m then ie_block_height e else m) c es"

lemma page_max_Nil [simp]: "page_max c [] = c"
  by (simp add: page_max_def)

lemma page_max_Cons [simp]: "page_max c (e # es) = page_max (max c (ie_block_height e)) es"
  by (simp add: page_max_def max_def)

lemma page_max_ge: "c \<le> page_max c es" "e \<in> set es \<Longrightarrow> ie_block_height e \<le> page_max c es"
proof (induction es arbitrary: c)
  case (Cons a es)
  { case 1 show ?case using Cons(1) [of "max c (ie_block_height a)"] by simp }
  { case 2 then show ?case
      using Cons(1,2) [of "max c (ie_block_height a)"] by auto }
qed simp_all

lemma page_max_in: "page_max c es = c \<or> (\<exists>e\<in>set es. ie_block_height e = page_max c es)"
proof (induction es arbitrary: c)
  case (Cons a es)
  show ?case using Cons [of "max c (ie_block_height a)"] by (auto simp: max_def split: if_splits)
qed simp

lemma nextRestCursor_cases:
  "rc_done (nextRestCursor es c n) \<longleftrightarrow> length es < n"
  "\<not> length es < n \<Longrightarrow> rc_cursor (nextRestCursor es c n) =
     (if page_max c es - 1 > c then page_max c es - 1 else page_max c es)"
  "rc_blockExceedsPage (nextRestCursor es c n) \<longleftrightarrow> \<not> length es < n \<and> page_max c es - 1 \<le> c"
  by (simp_all add: nextRestCursor_def Let_def page_max_def)

text \<open>
  \<open>pages get n c\<close>: the pages a catch-up from cursor \<open>c\<close> reads when \<open>get\<close> answers, with \<open>fuel\<close> requests at
  most; \<open>None\<close> when that many do not end it.
\<close>

fun pages ::
  "nat \<Rightarrow> (int \<Rightarrow> indexer_event list) \<Rightarrow> nat \<Rightarrow> int \<Rightarrow> indexer_event list list option" where
  "pages 0 get n c = None"
| "pages (Suc fuel) get n c =
     (let page = get c; next = nextRestCursor page c n
      in if rc_done next then Some [page]
         else map_option ((#) page) (pages fuel get n (rc_cursor next)))"

text \<open>
  What the events API documents: the first \<open>n\<close> events of the scope in chain order, of the blocks after
  the cursor.
\<close>

definition events_after :: "indexer_event list \<Rightarrow> int \<Rightarrow> indexer_event list" where
  "events_after chain c = filter (\<lambda>e. c < ie_block_height e) chain"

definition api_page :: "indexer_event list \<Rightarrow> nat \<Rightarrow> int \<Rightarrow> indexer_event list" where
  "api_page chain n c = take n (events_after chain c)"

definition in_chain_order :: "indexer_event list \<Rightarrow> bool" where
  "in_chain_order chain \<longleftrightarrow> sorted (map position chain)"

definition block_size :: "indexer_event list \<Rightarrow> int \<Rightarrow> nat" where
  "block_size chain b = length (filter (\<lambda>e. ie_block_height e = b) chain)"

text \<open>The number of events of the chain a cursor leaves behind.\<close>

definition passed :: "indexer_event list \<Rightarrow> int \<Rightarrow> nat" where
  "passed chain c = length (filter (\<lambda>e. ie_block_height e \<le> c) chain)"

lemma sorted_blocks: "in_chain_order chain \<Longrightarrow> sorted (map ie_block_height chain)"
  unfolding in_chain_order_def by (induction chain) (auto simp: block_mono)

lemma events_after_drop:
  assumes "in_chain_order chain"
  shows "events_after chain c = drop (passed chain c) chain"
proof -
  have "sorted (map ie_block_height chain)" using assms by (rule sorted_blocks)
  then show ?thesis
  proof (induction chain)
    case (Cons e es)
    then have ih: "events_after es c = drop (passed es c) es" by simp
    show ?case
    proof (cases "ie_block_height e \<le> c")
      case True
      then show ?thesis using ih by (simp add: events_after_def passed_def)
    next
      case False
      then have "\<forall>x\<in>set es. c < ie_block_height x" using Cons.prems by auto
      then show ?thesis using False by (auto simp: events_after_def passed_def filter_empty_conv not_le)
    qed
  qed (simp add: events_after_def passed_def)
qed

lemma api_page_segment:
  "in_chain_order chain \<Longrightarrow> api_page chain n c = take n (drop (passed chain c) chain)"
  by (simp add: api_page_def events_after_drop)

lemma passed_le: "passed chain c \<le> length chain"
  by (simp add: passed_def)

lemma nth_passed:
  assumes "in_chain_order chain" and "i < length chain"
  shows "i < passed chain c \<longleftrightarrow> ie_block_height (chain ! i) \<le> c"
proof -
  have "sorted (map ie_block_height chain)" using assms(1) by (rule sorted_blocks)
  with assms(2) show ?thesis
  proof (induction chain arbitrary: i)
    case (Cons e es)
    show ?case
    proof (cases "ie_block_height e \<le> c")
      case True
      with Cons show ?thesis by (cases i) (auto simp: passed_def)
    next
      case False
      then have above: "\<forall>x\<in>set (e # es). c < ie_block_height x" using Cons.prems by auto
      then have "passed (e # es) c = 0" by (auto simp: passed_def filter_empty_conv not_le)
      moreover have "c < ie_block_height ((e # es) ! i)"
        using above Cons.prems(1) nth_mem by blast
      ultimately show ?thesis by simp
    qed
  qed simp
qed

text \<open>A full page moves the cursor forward, and never past an event it did not deliver.\<close>

lemma full_page_progress:
  assumes "\<not> length (api_page chain n c) < n" and "n > 0"
  shows "c < rc_cursor (nextRestCursor (api_page chain n c) c n)"
proof -
  let ?p = "api_page chain n c"
  obtain e where e: "e \<in> set ?p" using assms by (cases ?p) auto
  then have "c < ie_block_height e"
    by (auto simp: api_page_def events_after_def dest: in_set_takeD)
  also have "\<dots> \<le> page_max c ?p" using e by (rule page_max_ge)
  finally show ?thesis using assms(1) by (simp add: nextRestCursor_cases)
qed

lemma full_page_bound:
  assumes "\<not> length (api_page chain n c) < n" and "\<forall>e\<in>set chain. ie_block_height e \<le> h" and "c \<le> h"
  shows "rc_cursor (nextRestCursor (api_page chain n c) c n) \<le> h"
proof -
  have "\<forall>e\<in>set (api_page chain n c). ie_block_height e \<le> h"
    using assms(2) by (auto simp: api_page_def events_after_def dest!: in_set_takeD)
  then have "page_max c (api_page chain n c) \<le> h"
    using page_max_in [of c "api_page chain n c"] assms(3) by metis
  with assms(1) show ?thesis by (simp add: nextRestCursor_cases)
qed

lemma full_page_covers:
  assumes order: "in_chain_order chain" and full: "\<not> length (api_page chain n c) < n"
    and size: "\<And>b. block_size chain b \<le> n" and "n > 0"
  shows "passed chain (rc_cursor (nextRestCursor (api_page chain n c) c n)) \<le> passed chain c + n"
proof (rule ccontr)
  let ?p = "api_page chain n c" let ?i = "passed chain c" let ?m = "page_max c ?p"
  let ?c = "rc_cursor (nextRestCursor ?p c n)"
  assume neg: "\<not> passed chain ?c \<le> ?i + n"
  then have lt: "?i + n < length chain" using passed_le [of chain ?c] by linarith
  then have p: "?p = take n (drop ?i chain)" and "length ?p = n"
    by (simp_all add: api_page_segment [OF order])
  have next_block: "ie_block_height (chain ! (?i + n)) \<le> ?c"
    using neg nth_passed [OF order lt, of ?c] by simp
  have mono: "ie_block_height (chain ! j) \<le> ie_block_height (chain ! k)" if "j \<le> k" "k < length chain" for j k
    using sorted_blocks [OF order] that by (auto dest: sorted_nth_mono)
  have member: "chain ! j \<in> set ?p" if "?i \<le> j" "j < ?i + n" for j
  proof -
    have "?p ! (j - ?i) = chain ! j" using that lt by (simp add: p)
    moreover have "j - ?i < length ?p" using that \<open>length ?p = n\<close> by linarith
    ultimately show ?thesis by (metis nth_mem)
  qed
  have "?m \<le> ie_block_height (chain ! (?i + n))"
  proof -
    have "c < ie_block_height (chain ! (?i + n))"
      using nth_passed [OF order lt, of c] by simp
    moreover have "ie_block_height e \<le> ie_block_height (chain ! (?i + n))" if mem: "e \<in> set ?p" for e
    proof -
      obtain j where j: "j < length ?p" "?p ! j = e"
        using mem by (metis in_set_conv_nth)
      then have "j < n" using \<open>length ?p = n\<close> by simp
      moreover from this have "?p ! j = chain ! (?i + j)" using lt by (simp add: p)
      ultimately have "e = chain ! (?i + j)" using j(2) by simp
      with \<open>j < n\<close> show ?thesis using mono [of "?i + j" "?i + n"] lt by simp
    qed
    ultimately show ?thesis using page_max_in [of c ?p] by fastforce
  qed
  moreover have c_le: "?c \<le> ?m" using full by (simp add: nextRestCursor_cases)
  ultimately have eq: "ie_block_height (chain ! (?i + n)) = ?m" "?c = ?m"
    using next_block by linarith+
  then have small: "?m - 1 \<le> c"
    using full by (auto simp: nextRestCursor_cases split: if_splits)
  have "ie_block_height (chain ! j) = ?m" if "?i \<le> j" "j \<le> ?i + n" for j
  proof -
    have "c < ie_block_height (chain ! j)"
      using nth_passed [OF order, of j c] that lt by simp
    moreover have "ie_block_height (chain ! j) \<le> ?m"
      using mono [of j "?i + n"] that lt eq(1) by simp
    ultimately show ?thesis using small by linarith
  qed
  then have "\<forall>e \<in> set (take (Suc n) (drop ?i chain)). ie_block_height e = ?m"
    using lt by (auto simp: in_set_conv_nth)
  then have "filter (\<lambda>e. ie_block_height e = ?m) (take (Suc n) (drop ?i chain)) =
      take (Suc n) (drop ?i chain)"
    by (simp add: filter_id_conv)
  moreover have "length (filter P (take k (drop i xs))) \<le> length (filter P xs)"
    for P k i and xs :: "indexer_event list"
  proof -
    have "xs = take i xs @ take k (drop i xs) @ drop k (drop i xs)"
      by (metis append_take_drop_id)
    then have "length (filter P xs) = length (filter P (take i xs)) +
        length (filter P (take k (drop i xs))) + length (filter P (drop k (drop i xs)))"
      by (metis (no_types, lifting) add.assoc filter_append length_append)
    then show ?thesis by linarith
  qed
  ultimately have "Suc n \<le> block_size chain ?m"
    using lt unfolding block_size_def
    by (metis (no_types, lifting) Suc_leI diff_diff_left length_drop length_take less_diff_conv
        min_absorb2 add.commute)
  with size [of ?m] show False by linarith
qed

end
