(* ===== verification/ChainState.thy ===== *)
theory ChainState
  imports JsValues
begin

text \<open>
  What the agent keeps of the chain: the DTOs of the indexer (\<open>types.ts\<close>) with their mapping to the
  model the code computes with (\<open>indexerMappers.ts\<close>), the synchronisation state \<open>VeranaSyncState\<close> with
  the form it is stored in, and the mutation each chain message makes to it
  (\<open>handlers/stateMutations.ts\<close>).
\<close>

section \<open>Participants and schemas of the indexer\<close>

datatype participant_role =
  PR_Issuer | PR_Verifier | PR_IssuerGrantor | PR_VerifierGrantor | PR_Ecosystem | PR_Holder

fun participant_role_str :: "participant_role \<Rightarrow> string" where
  "participant_role_str PR_Issuer = ''ISSUER''"
| "participant_role_str PR_Verifier = ''VERIFIER''"
| "participant_role_str PR_IssuerGrantor = ''ISSUER_GRANTOR''"
| "participant_role_str PR_VerifierGrantor = ''VERIFIER_GRANTOR''"
| "participant_role_str PR_Ecosystem = ''ECOSYSTEM''"
| "participant_role_str PR_Holder = ''HOLDER''"

datatype validation_state = VS_Unspecified | VS_Pending | VS_Validated | VS_Terminated

fun validation_state_num :: "validation_state \<Rightarrow> int" where
  "validation_state_num VS_Unspecified = 0"
| "validation_state_num VS_Pending = 1"
| "validation_state_num VS_Validated = 2"
| "validation_state_num VS_Terminated = 3"

record participant_dto =
  pd_id :: int
  pd_schema_id :: int
  pd_did :: "string option"
  pd_role :: string
  pd_vs_operator :: "string option"
  pd_participant_state :: "string option"
  pd_op_state :: "string option"
  pd_revoked :: "string option"
  pd_slashed :: "string option"
  pd_effective_from :: "string option"
  pd_effective_until :: "string option"
  pd_modified :: string
  pd_validator_participant_id :: "int option"
  pd_op_summary_digest :: "string option"
  pd_validation_fees :: "rat option"
  pd_issuance_fees :: "rat option"
  pd_verification_fees :: "rat option"
  pd_issuance_fee_discount :: "rat option"
  pd_verification_fee_discount :: "rat option"

record credential_schema_dto =
  sd_id :: int
  sd_ecosystem_id :: int
  sd_json_schema :: string
  sd_digest_algorithm :: string
  sd_issuer_onboarding_mode :: "string option"
  sd_verifier_onboarding_mode :: "string option"
  sd_holder_validation_validity_period :: "int option"
  sd_archived :: "string option"

text \<open>A \<open>Date\<close> is kept as the text it is built from.\<close>

record chain_participant =
  cpt_id :: int
  cpt_schemaId :: int
  cpt_role :: int
  cpt_did :: string
  cpt_validatorParticipantId :: int
  cpt_opState :: "validation_state option"
  cpt_opSummaryDigest :: string
  cpt_revoked :: "string option"
  cpt_slashed :: "string option"

record chain_schema =
  csc_id :: int
  csc_ecosystemId :: int
  csc_jsonSchema :: string
  csc_digestAlgorithm :: string
  csc_issuerOnboardingMode :: int
  csc_verifierOnboardingMode :: int
  csc_holderOnboardingMode :: int
  csc_archived :: "string option"

definition ROLE :: "string \<rightharpoonup> int" where
  "ROLE = map_of
     [(''ISSUER'', 1), (''VERIFIER'', 2), (''ISSUER_GRANTOR'', 3), (''VERIFIER_GRANTOR'', 4),
      (''ECOSYSTEM'', 5), (''HOLDER'', 6)]"

definition OP_STATE :: "string \<rightharpoonup> validation_state" where
  "OP_STATE = map_of
     [(''PENDING'', VS_Pending), (''VALIDATED'', VS_Validated), (''TERMINATED'', VS_Terminated)]"

definition ONBOARDING_MODE :: "string \<rightharpoonup> int" where
  "ONBOARDING_MODE = map_of
     [(''OPEN'', 1), (''ECOSYSTEM_ONBOARDING_PROCESS'', 2), (''GRANTOR_ONBOARDING_PROCESS'', 3)]"

definition dto_date :: "string option \<Rightarrow> string option" where
  "dto_date v = (if truthy v then v else None)"

definition toParticipant :: "participant_dto \<Rightarrow> chain_participant" where
  "toParticipant d =
     \<lparr> cpt_id = pd_id d, cpt_schemaId = pd_schema_id d, cpt_role = withDefault (ROLE (pd_role d)) 0,
       cpt_did = withDefault (pd_did d) [],
       cpt_validatorParticipantId = withDefault (pd_validator_participant_id d) 0,
       cpt_opState =
         (if truthy (pd_op_state d)
          then Some (withDefault (OP_STATE (the (pd_op_state d))) VS_Unspecified) else None),
       cpt_opSummaryDigest = withDefault (pd_op_summary_digest d) [],
       cpt_revoked = dto_date (pd_revoked d), cpt_slashed = dto_date (pd_slashed d) \<rparr>"

definition toCredentialSchema :: "credential_schema_dto \<Rightarrow> chain_schema" where
  "toCredentialSchema d =
     \<lparr> csc_id = sd_id d, csc_ecosystemId = sd_ecosystem_id d, csc_jsonSchema = sd_json_schema d,
       csc_digestAlgorithm = sd_digest_algorithm d,
       csc_issuerOnboardingMode =
         withDefault (ONBOARDING_MODE (withDefault (sd_issuer_onboarding_mode d) [])) 0,
       csc_verifierOnboardingMode =
         withDefault (ONBOARDING_MODE (withDefault (sd_verifier_onboarding_mode d) [])) 0,
       csc_holderOnboardingMode = 0, csc_archived = dto_date (sd_archived d) \<rparr>"

lemma ROLE_role: "ROLE (participant_role_str r) \<noteq> None"
  by (cases r) (simp_all add: ROLE_def)

section \<open>The synchronisation state\<close>

text \<open>
  A number field holds what \<open>Number\<close> returned; \<open>None\<close> is the \<open>null\<close> that storing a NaN or an infinity
  as JSON leaves behind.
\<close>

record synced_ecosystem =
  se_id :: "jsnum option"
  se_did :: string
  se_corporationId :: "jsnum option"
  se_archived :: bool
  se_activeVersion :: "int option"
  se_lastModifiedBlock :: int

record synced_schema =
  sc_id :: "jsnum option"
  sc_ecosystemId :: "jsnum option"
  sc_jsonSchema :: string
  sc_issuerMode :: "string option"
  sc_verifierMode :: "string option"
  sc_archived :: bool
  sc_lastModifiedBlock :: int

record synced_participant =
  sp_id :: "jsnum option"
  sp_schemaId :: "jsnum option"
  sp_did :: string
  sp_role :: "jsnum option"
  sp_opState :: "string option"
  sp_effectiveUntil :: "string option"
  sp_revoked :: bool
  sp_slashed :: bool
  sp_lastModifiedBlock :: int

record sync_state =
  sy_lastBlockHeight :: int
  sy_ecosystems :: "string \<rightharpoonup> synced_ecosystem"
  sy_credentialSchemas :: "string \<rightharpoonup> synced_schema"
  sy_participants :: "string \<rightharpoonup> synced_participant"
  sy_partialBlock :: "int option"
  sy_partialKeys :: "string list option"

definition emptyState :: sync_state where
  "emptyState =
     \<lparr> sy_lastBlockHeight = 0, sy_ecosystems = Map.empty, sy_credentialSchemas = Map.empty,
       sy_participants = Map.empty, sy_partialBlock = None, sy_partialKeys = Some [] \<rparr>"

fun stored_num :: "jsnum option \<Rightarrow> jsnum option" where
  "stored_num (Some (JsFin q)) = Some (JsFin q)"
| "stored_num _ = None"

definition stored_state :: "sync_state \<Rightarrow> sync_state" where
  "stored_state s = s\<lparr>
     sy_ecosystems := (\<lambda>i. map_option (\<lambda>e. e\<lparr>se_id := stored_num (se_id e),
       se_corporationId := stored_num (se_corporationId e)\<rparr>) (sy_ecosystems s i)),
     sy_credentialSchemas := (\<lambda>i. map_option (\<lambda>e. e\<lparr>sc_id := stored_num (sc_id e),
       sc_ecosystemId := stored_num (sc_ecosystemId e)\<rparr>) (sy_credentialSchemas s i)),
     sy_participants := (\<lambda>i. map_option (\<lambda>e. e\<lparr>sp_id := stored_num (sp_id e),
       sp_schemaId := stored_num (sp_schemaId e), sp_role := stored_num (sp_role e)\<rparr>)
       (sy_participants s i))\<rparr>"

lemma stored_num_idem [simp]: "stored_num (stored_num n) = stored_num n"
  by (cases n rule: stored_num.cases) simp_all

lemma stored_state_sel [simp]:
  "sy_lastBlockHeight (stored_state s) = sy_lastBlockHeight s"
  "sy_partialBlock (stored_state s) = sy_partialBlock s"
  "sy_partialKeys (stored_state s) = sy_partialKeys s"
  by (simp_all add: stored_state_def)

lemma stored_state_idem [simp]: "stored_state (stored_state s) = stored_state s"
  by (simp add: stored_state_def option.map_comp comp_def)

section \<open>Activities\<close>

text \<open>\<open>changes\<close> is the entity as the indexer returned it, a parsed JSON object.\<close>

record activity =
  ac_timestamp :: string
  ac_block_height :: int
  ac_entity_type :: string
  ac_entity_id :: string
  ac_msg :: string
  ac_changes :: "(string \<times> json) list"
  ac_account :: string

text \<open>\<open>c[k]\<close> with \<open>null\<close> and undefined taken together, as \<open>??\<close> takes them.\<close>

definition present :: "(string \<times> json) list \<Rightarrow> string \<Rightarrow> json option" where
  "present c k = (case map_of c k of Some JNull \<Rightarrow> None | v \<Rightarrow> v)"

fun js_truthy :: "json \<Rightarrow> bool" where
  "js_truthy JNull = False"
| "js_truthy (JBool b) = b"
| "js_truthy (JNum q) = (q \<noteq> 0)"
| "js_truthy (JStr s) = (s \<noteq> [])"
| "js_truthy _ = True"

text \<open>\<open>Number(c[k] ?? old ?? 0)\<close>, \<open>String(c[k] ?? old ?? '')\<close>, \<open>c[k] ? String(c[k]) : old\<close>.\<close>

definition num_field :: "(string \<times> json) list \<Rightarrow> string \<Rightarrow> jsnum option \<Rightarrow> jsnum option" where
  "num_field c k old =
     Some (case present c k of Some v \<Rightarrow> js_Number v | None \<Rightarrow> withDefault old (JsFin 0))"

definition str_field :: "(string \<times> json) list \<Rightarrow> string \<Rightarrow> string option \<Rightarrow> string" where
  "str_field c k old =
     (case present c k of Some v \<Rightarrow> js_String v | None \<Rightarrow> withDefault old [])"

definition mode_field :: "(string \<times> json) list \<Rightarrow> string \<Rightarrow> string option \<Rightarrow> string option" where
  "mode_field c k old =
     (case map_of c k of
        Some v \<Rightarrow> if js_truthy v then Some (js_String v) else old
      | None \<Rightarrow> old)"

definition archived_field :: "(string \<times> json) list \<Rightarrow> bool option \<Rightarrow> bool" where
  "archived_field c old =
     (case map_of c ''archived'' of
        Some v \<Rightarrow> v \<noteq> JNull \<and> v \<noteq> JBool False
      | None \<Rightarrow> withDefault old False)"

lemma field_idem [simp]:
  "num_field c k (num_field c k old) = num_field c k old"
  "str_field c k (Some (str_field c k old_s)) = str_field c k old_s"
  "mode_field c k (mode_field c k old_m) = mode_field c k old_m"
  "archived_field c (Some (archived_field c old_b)) = archived_field c old_b"
  by (auto simp: num_field_def str_field_def mode_field_def archived_field_def
      split: option.split)

section \<open>The mutation of each message\<close>

definition upsertEcosystem :: "sync_state \<Rightarrow> activity \<Rightarrow> sync_state" where
  "upsertEcosystem s a =
     (let block = ac_block_height a; i = ac_entity_id a; c = ac_changes a;
          existing = sy_ecosystems s i
      in s\<lparr>sy_ecosystems := (sy_ecosystems s)(i \<mapsto>
           \<lparr> se_id = Some (js_Number (JStr i)),
             se_did = str_field c ''did'' (map_option se_did existing),
             se_corporationId =
               num_field c ''corporation_id'' (Option.bind existing se_corporationId),
             se_archived = archived_field c (map_option se_archived existing),
             se_activeVersion = Option.bind existing se_activeVersion,
             se_lastModifiedBlock = block \<rparr>)\<rparr>)"

definition bumpActiveVersion :: "sync_state \<Rightarrow> activity \<Rightarrow> sync_state" where
  "bumpActiveVersion s a =
     (let block = ac_block_height a; i = ac_entity_id a; existing = sy_ecosystems s i
      in s\<lparr>sy_ecosystems := (sy_ecosystems s)(i \<mapsto>
           \<lparr> se_id = Some (js_Number (JStr i)),
             se_did = withDefault (map_option se_did existing) [],
             se_corporationId =
               Some (withDefault (Option.bind existing se_corporationId) (JsFin 0)),
             se_archived = withDefault (map_option se_archived existing) False,
             se_activeVersion = Some (withDefault (Option.bind existing se_activeVersion) 0 + 1),
             se_lastModifiedBlock = block \<rparr>)\<rparr>)"

definition upsertCredentialSchema :: "sync_state \<Rightarrow> activity \<Rightarrow> sync_state" where
  "upsertCredentialSchema s a =
     (let block = ac_block_height a; i = ac_entity_id a; c = ac_changes a;
          existing = sy_credentialSchemas s i
      in s\<lparr>sy_credentialSchemas := (sy_credentialSchemas s)(i \<mapsto>
           \<lparr> sc_id = Some (js_Number (JStr i)),
             sc_ecosystemId = num_field c ''ecosystem_id'' (Option.bind existing sc_ecosystemId),
             sc_jsonSchema = str_field c ''json_schema'' (map_option sc_jsonSchema existing),
             sc_issuerMode =
               mode_field c ''issuer_onboarding_mode'' (Option.bind existing sc_issuerMode),
             sc_verifierMode =
               mode_field c ''verifier_onboarding_mode'' (Option.bind existing sc_verifierMode),
             sc_archived = archived_field c (map_option sc_archived existing),
             sc_lastModifiedBlock = block \<rparr>)\<rparr>)"

record participant_overrides =
  ov_opState :: "string option"
  ov_revoked :: "bool option"
  ov_slashed :: "bool option"
  ov_effectiveUntil :: "string option"

definition no_overrides :: participant_overrides where
  "no_overrides =
     \<lparr> ov_opState = None, ov_revoked = None, ov_slashed = None, ov_effectiveUntil = None \<rparr>"

definition upsertParticipant ::
  "sync_state \<Rightarrow> activity \<Rightarrow> participant_overrides \<Rightarrow> sync_state" where
  "upsertParticipant s a ov =
     (let block = ac_block_height a; i = ac_entity_id a; c = ac_changes a;
          existing = sy_participants s i
      in s\<lparr>sy_participants := (sy_participants s)(i \<mapsto>
           \<lparr> sp_id = Some (js_Number (JStr i)),
             sp_schemaId = num_field c ''schema_id'' (Option.bind existing sp_schemaId),
             sp_did = str_field c ''did'' (map_option sp_did existing),
             sp_role = num_field c ''role'' (Option.bind existing sp_role),
             sp_opState = Some (withDefault (ov_opState ov)
               (str_field c ''op_state'' (Option.bind existing sp_opState))),
             sp_effectiveUntil = Some (withDefault (ov_effectiveUntil ov)
               (withDefault (Option.bind existing sp_effectiveUntil) [])),
             sp_revoked = withDefault (ov_revoked ov)
               (withDefault (map_option sp_revoked existing) False),
             sp_slashed = withDefault (ov_slashed ov)
               (withDefault (map_option sp_slashed existing) False),
             sp_lastModifiedBlock = block \<rparr>)\<rparr>)"

text \<open>The \<open>switch\<close> of \<open>applyStateMutation\<close>: which mutation a message makes.\<close>

datatype mutation =
  Mut_Ecosystem | Mut_Version | Mut_Schema | Mut_Participant participant_overrides | Mut_None

definition mutation_of :: "activity \<Rightarrow> mutation" where
  "mutation_of a =
     (let m = ac_msg a in
      if m \<in> set [''CreateNewEcosystem'', ''UpdateEcosystem'', ''ArchiveEcosystem'',
                  ''AddGovernanceFrameworkDocument''] then Mut_Ecosystem
      else if m = ''IncreaseActiveGFVersion'' then Mut_Version
      else if m \<in> set [''CreateNewCredentialSchema'', ''UpdateCredentialSchema'',
                       ''ArchiveCredentialSchema''] then Mut_Schema
      else if m \<in> set [''StartParticipantOP'', ''RenewParticipantOP'']
      then Mut_Participant (no_overrides\<lparr>ov_opState := Some ''PENDING''\<rparr>)
      else if m \<in> set [''CreateRootParticipant'', ''SelfCreateParticipant'']
      then Mut_Participant no_overrides
      else if m = ''SetParticipantOPToValidated''
      then Mut_Participant (no_overrides\<lparr>ov_opState := Some ''VALIDATED''\<rparr>)
      else if m = ''SetParticipantEffectiveUntil''
      then Mut_Participant (no_overrides\<lparr>ov_effectiveUntil :=
             Some (str_field (ac_changes a) ''effective_until'' None)\<rparr>)
      else if m = ''RevokeParticipant''
      then Mut_Participant (no_overrides\<lparr>ov_revoked := Some True\<rparr>)
      else if m = ''SlashParticipantTrustDeposit''
      then Mut_Participant (no_overrides\<lparr>ov_slashed := Some True\<rparr>)
      else if m = ''RepayParticipantSlashedTrustDeposit''
      then Mut_Participant (no_overrides\<lparr>ov_slashed := Some False\<rparr>)
      else if m = ''CancelParticipantOPLastRequest'' then Mut_Participant no_overrides
      else Mut_None)"

definition applyStateMutation :: "sync_state \<Rightarrow> activity \<Rightarrow> sync_state" where
  "applyStateMutation s a =
     (case mutation_of a of
        Mut_Ecosystem \<Rightarrow> upsertEcosystem s a
      | Mut_Version \<Rightarrow> bumpActiveVersion s a
      | Mut_Schema \<Rightarrow> upsertCredentialSchema s a
      | Mut_Participant ov \<Rightarrow> upsertParticipant s a ov
      | Mut_None \<Rightarrow> s)"

lemmas upsert_defs = upsertEcosystem_def bumpActiveVersion_def upsertCredentialSchema_def
  upsertParticipant_def Let_def

lemma applyStateMutation_frame [simp]:
  "sy_lastBlockHeight (applyStateMutation s a) = sy_lastBlockHeight s"
  "sy_partialBlock (applyStateMutation s a) = sy_partialBlock s"
  "sy_partialKeys (applyStateMutation s a) = sy_partialKeys s"
  by (simp_all add: applyStateMutation_def upsert_defs split: mutation.split)

lemma withDefault_idem [simp]:
  "withDefault d (withDefault d e) = withDefault d e"
  "withDefault ds (str_field c k (Some (withDefault ds (str_field c k old)))) =
     withDefault ds (str_field c k old)"
  by (cases d, simp_all) (cases ds, simp_all)

lemma withDefault_not_False: "o1 \<noteq> Some False \<Longrightarrow> withDefault o1 True"
  by (cases o1) auto

lemma mutation_slash_only:
  "mutation_of a = Mut_Participant ov \<Longrightarrow> ov_revoked ov \<noteq> Some False"
  by (auto simp: mutation_of_def no_overrides_def Let_def split: if_splits)

lemma mutation_version: "mutation_of a = Mut_Version \<longleftrightarrow> ac_msg a = ''IncreaseActiveGFVersion''"
  by (auto simp: mutation_of_def Let_def)

end
