(* ===== verification/HandlerRegistry.thy ===== *)
theory HandlerRegistry
  imports FlowMessages ChainState
begin

text \<open>
  \<open>handlers/IndexerHandlerRegistry.ts\<close>: the handlers of the indexer messages, and the wrapping of
  handlers that are already registered (\<open>handlers/authorizationHandlers.ts\<close>,
  \<open>handlers/selfIssuanceHandlers.ts\<close>).

  A handler reads the synchronisation state of its context; no handler of the repository writes to it.
\<close>

record handler_context =
  hc_blockHeight :: int
  hc_operatorAddress :: string
  hc_state :: sync_state
  hc_txHash :: string

type_synonym 'w handler = "activity \<Rightarrow> handler_context \<Rightarrow> ('w, err, unit) comp"

type_synonym 'w registry = "(string \<times> 'w handler) list"

definition registry_register :: "string \<Rightarrow> 'w handler \<Rightarrow> 'w registry \<Rightarrow> 'w registry" where
  "registry_register msg h r = jsmap_set msg h r"

definition registry_unregister :: "string \<Rightarrow> 'w registry \<Rightarrow> 'w registry" where
  "registry_unregister msg r = jsmap_delete msg r"

definition registry_get :: "'w registry \<Rightarrow> string \<Rightarrow> 'w handler option" where
  "registry_get r = map_of r"

definition registry_has :: "'w registry \<Rightarrow> string \<Rightarrow> bool" where
  "registry_has r msg \<longleftrightarrow> registry_get r msg \<noteq> None"

definition registry_keys :: "'w registry \<Rightarrow> string list" where
  "registry_keys r = map fst r"

definition registry_clear :: "'w registry \<Rightarrow> 'w registry" where
  "registry_clear r = []"

definition dispatch ::
  "'w registry \<Rightarrow> activity \<Rightarrow> handler_context \<Rightarrow> ('w, err, unit) comp" where
  "dispatch r a ctx =
     (case registry_get r (ac_msg a) of None \<Rightarrow> ret () | Some h \<Rightarrow> h a ctx)"

text \<open>
  \<open>wrap\<close> of \<open>registerAuthorizationHandlers\<close>: the original first, then an effect whose failure is
  only logged.
\<close>

definition wrapped ::
  "'w handler option \<Rightarrow> (activity \<Rightarrow> ('w, err, unit) comp) \<Rightarrow> 'w handler" where
  "wrapped original effect =
     (\<lambda>a ctx. sqn (case original of None \<Rightarrow> ret () | Some h \<Rightarrow> h a ctx)
                 (catch (effect a) (\<lambda>e. ret ())))"

definition wrap ::
  "string \<Rightarrow> (activity \<Rightarrow> ('w, err, unit) comp) \<Rightarrow> 'w registry \<Rightarrow> 'w registry" where
  "wrap msg effect r = registry_register msg (wrapped (registry_get r msg) effect) r"

definition REFRESH_MSGS :: "string list" where
  "REFRESH_MSGS =
     [''StartParticipantOP'', ''SelfCreateParticipant'', ''CreateRootParticipant'',
      ''SetParticipantOPToValidated'', ''SetParticipantEffectiveUntil'',
      ''GrantVSOperatorAuthorization'', ''UpdateVSOperatorAuthorization'',
      ''GrantOperatorAuthorization'', ''RevokeOperatorAuthorization'']"

definition REVOKE_MSGS :: "string list" where
  "REVOKE_MSGS =
     [''RevokeParticipant'', ''SlashParticipantTrustDeposit'', ''CancelParticipantOPLastRequest'',
      ''RevokeVSOperatorAuthorization'']"

text \<open>The calls into \<open>AuthorizationService\<close> a wrapped handler makes.\<close>

record 'w authorization_service =
  as_refreshForOperator :: "int \<Rightarrow> ('w, err, unit) comp"
  as_invalidateParticipant :: "rat \<Rightarrow> ('w, err, unit) comp"

definition revoke_effect ::
  "'w authorization_service \<Rightarrow> activity \<Rightarrow> ('w, err, unit) comp" where
  "revoke_effect S a =
     sqn (case js_Number (JStr (ac_entity_id a)) of
            JsFin q \<Rightarrow> as_invalidateParticipant S q
          | _ \<Rightarrow> ret ())
       (as_refreshForOperator S (ac_block_height a))"

definition registerAuthorizationHandlers ::
  "'w authorization_service \<Rightarrow> 'w registry \<Rightarrow> 'w registry" where
  "registerAuthorizationHandlers S r =
     fold (\<lambda>msg. wrap msg (revoke_effect S)) REVOKE_MSGS
       (fold (\<lambda>msg. wrap msg (\<lambda>a. as_refreshForOperator S (ac_block_height a))) REFRESH_MSGS r)"

section \<open>The table behind the registry\<close>

text \<open>
  What the users of the registry rely on: reading back what was registered. The lemmas about wrapping
  hold of any table with these laws.
\<close>

locale handler_table =
  fixes get :: "'r \<Rightarrow> string \<Rightarrow> 'h option"
    and register :: "string \<Rightarrow> 'h \<Rightarrow> 'r \<Rightarrow> 'r"
    and unregister :: "string \<Rightarrow> 'r \<Rightarrow> 'r"
  assumes get_register: "get (register msg h r) = (get r)(msg \<mapsto> h)"
    and get_unregister: "get (unregister msg r) = (get r)(msg := None)"
begin

lemma get_register_all:
  "get (fold (\<lambda>m. register m (f m)) ms r) msg =
     (if msg \<in> set ms then Some (f msg) else get r msg)"
  by (induction ms arbitrary: r) (auto simp: get_register)

lemma get_wrap_all:
  "distinct ms \<Longrightarrow>
     get (fold (\<lambda>m r. register m (f (get r m)) r) ms r) msg =
       (if msg \<in> set ms then Some (f (get r msg)) else get r msg)"
  by (induction ms arbitrary: r) (auto simp: get_register)

lemma register_unregister: "get (unregister msg (register msg h r)) = get (unregister msg r)"
  by (simp add: get_register get_unregister)

end

interpretation registry: handler_table registry_get registry_register registry_unregister
  by unfold_locales
    (simp_all add: registry_get_def registry_register_def registry_unregister_def)

lemma wrap_all:
  "distinct ms \<Longrightarrow> registry_get (fold (\<lambda>m. wrap m eff) ms r) msg =
     (if msg \<in> set ms then Some (wrapped (registry_get r msg) eff) else registry_get r msg)"
  unfolding wrap_def
  by (rule registry.get_wrap_all [where f = "\<lambda>o1. wrapped o1 eff"])

lemma distinct_keys_register:
  "distinct (registry_keys r) \<Longrightarrow> distinct (registry_keys (registry_register msg h r))"
  unfolding registry_keys_def registry_register_def by (rule distinct_jsmap_set)

lemma message_lists:
  "distinct REFRESH_MSGS" "distinct REVOKE_MSGS" "set REFRESH_MSGS \<inter> set REVOKE_MSGS = {}"
  by (simp_all add: REFRESH_MSGS_def REVOKE_MSGS_def)

lemma post_wrapped [wp]:
  "post (wrapped original effect a ctx) Q E w =
     (case original of
        None \<Rightarrow> post (effect a) Q (\<lambda>_. Q ()) w
      | Some h \<Rightarrow> post (h a ctx) (\<lambda>_. post (effect a) Q (\<lambda>_. Q ())) E w)"
proof -
  have r: "post (ret ()) Q E = Q ()"
    by (rule ext) (rule post_ret)
  then have "post (catch (effect a) (\<lambda>e. ret ())) Q E = post (effect a) Q (\<lambda>_. Q ())"
    by (intro ext) (simp add: post_catch)
  with r show ?thesis by (simp add: wrapped_def post_sqn post_ret split: option.split)
qed

end
