(* ===== verification/IndexerSocket.thy ===== *)
theory IndexerSocket
  imports IndexerSync HandlerRegistry
begin

text \<open>
  \<open>IndexerWebSocketService.ts\<close> with \<open>VeranaHelpers.ts\<close>: the connection to the chain indexer, the REST
  catch-up, the buffer of live events, and the application of one event to the stored state.

  The private fields of the service are the record \<open>socket\<close>. What runs without an await is a function
  on the whole world; what awaits is a computation in which every awaited call is a parameter that may
  run other parts of the service. The promise chain of \<open>runExclusive\<close> is the queue of tasks that have
  not started.
\<close>

section \<open>State\<close>

datatype connection_phase = Ph_Connecting | Ph_CatchingUp | Ph_Synced

datatype subscribe_outcome = Out_Acknowledged | Out_TimedOut | Out_Disconnected

datatype indexer_sync_status = St_NeverSynced | St_CatchingUp | St_Disconnected | St_Synced

text \<open>
  Sockets are numbered in the order of their creation. \<open>sk_settle\<close> is the connection attempt whose
  subscription promise \<open>settleSubscribed\<close> resolves, \<open>sk_outcomes\<close> the promises resolved so far, and
  \<open>sk_awaiting\<close> the attempts that still wait for theirs.
\<close>

record socket =
  sk_ws :: "nat option"
  sk_sockets :: nat
  sk_reconnectAttempt :: nat
  sk_reconnectTimer :: "int option"
  sk_watchdog :: bool
  sk_stopped :: bool
  sk_syncing :: bool
  sk_phase :: connection_phase
  sk_everSynced :: bool
  sk_generation :: nat
  sk_queue :: "(indexer_event \<times> nat) list"
  sk_syncBuffer :: "indexer_event list"
  sk_settle :: "nat option"
  sk_outcomes :: "(nat \<times> subscribe_outcome) list"
  sk_awaiting :: "nat list"

definition new_socket :: socket where
  "new_socket =
     \<lparr> sk_ws = None, sk_sockets = 0, sk_reconnectAttempt = 0, sk_reconnectTimer = None,
       sk_watchdog = False, sk_stopped = False, sk_syncing = False, sk_phase = Ph_Connecting,
       sk_everSynced = False, sk_generation = 0, sk_queue = [], sk_syncBuffer = [],
       sk_settle = None, sk_outcomes = [], sk_awaiting = [] \<rparr>"

record indexer_notification =
  nt_event_type :: string
  nt_did :: string
  nt_block_height :: int
  nt_tx_hash :: string
  nt_timestamp :: string
  nt_payload :: event_payload
  nt_changes :: "(string \<times> json) list option"

datatype indexer_subscription = Sub_Corporation int | Sub_Dids "string list option"

record ('st, 'x) iworld =
  iw_store :: 'st
  iw_socket :: socket
  iw_notes :: "indexer_notification list"
  iw_subscriptions :: "indexer_subscription list"
  iw_ext :: 'x

text \<open>
  The calls out of the service: Credo's generic records, the HTTP client of the indexer, the registered
  handlers. \<open>ix_findRecord\<close> tells a missing record from one without content.
\<close>

record ('st, 'x) idx_env =
  ix_did :: "string option"
  ix_corporationId :: "int option"
  ix_findRecord :: "'st \<Rightarrow> sync_state option option"
  ix_saveRecord :: "'st \<Rightarrow> sync_state \<Rightarrow> err + 'st"
  ix_updateRecord :: "'st \<Rightarrow> sync_state \<Rightarrow> err + 'st"
  ix_getEvents ::
    "string \<Rightarrow> int \<Rightarrow> nat \<Rightarrow> int option \<Rightarrow> (('st, 'x) iworld, err, indexer_event list) comp"
  ix_getEcosystem :: "string \<Rightarrow> (('st, 'x) iworld, err, (string \<times> json) list) comp"
  ix_getCredentialSchema :: "string \<Rightarrow> (('st, 'x) iworld, err, (string \<times> json) list) comp"
  ix_getParticipant :: "string \<Rightarrow> (('st, 'x) iworld, err, (string \<times> json) list) comp"
  ix_getCorporation :: "string \<Rightarrow> (('st, 'x) iworld, err, (string \<times> json) list option) comp"
  ix_registry :: "('st, 'x) iworld registry"

definition on_socket :: "(socket \<Rightarrow> socket) \<Rightarrow> ('st, 'x) iworld \<Rightarrow> ('st, 'x) iworld" where
  "on_socket f w = w\<lparr>iw_socket := f (iw_socket w)\<rparr>"

lemma on_socket_sel [simp]:
  "iw_socket (on_socket f w) = f (iw_socket w)" "iw_store (on_socket f w) = iw_store w"
  "iw_notes (on_socket f w) = iw_notes w" "iw_ext (on_socket f w) = iw_ext w"
  "iw_subscriptions (on_socket f w) = iw_subscriptions w"
  by (simp_all add: on_socket_def)

section \<open>Constants and status\<close>

definition MAX_RECONNECT_DELAY_MS :: int where
  "MAX_RECONNECT_DELAY_MS = 300000"

definition REST_PAGE_LIMIT :: nat where
  "REST_PAGE_LIMIT = 500"

definition MAX_SYNC_BUFFER :: nat where
  "MAX_SYNC_BUFFER = 10000"

definition syncStatus :: "socket \<Rightarrow> indexer_sync_status" where
  "syncStatus s =
     (if sk_phase s = Ph_CatchingUp then St_CatchingUp
      else if sk_phase s = Ph_Synced then St_Synced
      else if sk_everSynced s then St_Disconnected else St_NeverSynced)"

section \<open>Timers and reconnection\<close>

definition clearWatchdog :: "socket \<Rightarrow> socket" where
  "clearWatchdog s = s\<lparr>sk_watchdog := False\<rparr>"

definition armWatchdog :: "socket \<Rightarrow> socket" where
  "armWatchdog s =
     (let s1 = clearWatchdog s in if sk_stopped s1 then s1 else s1\<lparr>sk_watchdog := True\<rparr>)"

definition scheduleReconnect :: "socket \<Rightarrow> socket" where
  "scheduleReconnect s =
     (if sk_reconnectTimer s \<noteq> None \<or> sk_stopped s then s
      else s\<lparr>sk_reconnectTimer :=
               Some (min (1000 * 2 ^ sk_reconnectAttempt s) MAX_RECONNECT_DELAY_MS),
             sk_reconnectAttempt := sk_reconnectAttempt s + 1\<rparr>)"

definition forceReconnect :: "socket \<Rightarrow> socket" where
  "forceReconnect s =
     (if sk_stopped s then s
      else scheduleReconnect
        ((clearWatchdog (s\<lparr>sk_phase := Ph_Connecting, sk_generation := sk_generation s + 1\<rparr>))
           \<lparr>sk_ws := None\<rparr>))"

definition resolveSubscribed :: "subscribe_outcome \<Rightarrow> socket \<Rightarrow> socket" where
  "resolveSubscribed out s =
     (case sk_settle s of
        None \<Rightarrow> s
      | Some g \<Rightarrow> s\<lparr>sk_outcomes := sk_outcomes s @ [(g, out)], sk_settle := None\<rparr>)"

definition stop :: "socket \<Rightarrow> socket" where
  "stop s =
     (clearWatchdog (s\<lparr>sk_stopped := True\<rparr>))\<lparr>sk_reconnectTimer := None, sk_ws := None\<rparr>"

section \<open>Opening a connection\<close>

definition msg_no_did :: string where
  "msg_no_did = ''Agent does not have any defined public DID''"

definition openWebSocket :: "('st, 'x) idx_env \<Rightarrow> (('st, 'x) iworld, err, unit) comp" where
  "openWebSocket K =
     sqn (guard (truthy (ix_did K)) (OtherError msg_no_did))
      (modify (on_socket (\<lambda>s. armWatchdog
         (s\<lparr>sk_ws := Some (sk_sockets s), sk_sockets := sk_sockets s + 1\<rparr>))))"

text \<open>\<open>connect\<close> up to its first await; the attempt then waits for the outcome of its subscription.\<close>

definition connect :: "('st, 'x) idx_env \<Rightarrow> (('st, 'x) iworld, err, unit) comp" where
  "connect K =
     bnd (gets (\<lambda>w. sk_stopped (iw_socket w))) (\<lambda>stopped.
     if stopped then ret ()
     else
       sqn (modify (on_socket (\<lambda>s.
              s\<lparr>sk_generation := sk_generation s + 1, sk_syncing := True,
                sk_phase := Ph_Connecting, sk_syncBuffer := [],
                sk_settle := Some (sk_generation s + 1)\<rparr>)))
      (sqn (openWebSocket K)
        (modify (on_socket (\<lambda>s. s\<lparr>sk_awaiting := sk_awaiting s @ [sk_generation s]\<rparr>)))))"

definition start :: "('st, 'x) idx_env \<Rightarrow> (('st, 'x) iworld, err, unit) comp" where
  "start K = sqn (modify (on_socket (\<lambda>s. s\<lparr>sk_stopped := False\<rparr>))) (connect K)"

section \<open>Socket events\<close>

text \<open>The listeners of \<open>openWebSocket\<close>, for the socket with number \<open>n\<close>.\<close>

definition onPing :: "nat \<Rightarrow> socket \<Rightarrow> socket" where
  "onPing n s = (if sk_ws s = Some n then armWatchdog s else s)"

definition onError :: "nat \<Rightarrow> socket \<Rightarrow> socket" where
  "onError n s = resolveSubscribed Out_Disconnected s"

definition onClose :: "nat \<Rightarrow> socket \<Rightarrow> socket" where
  "onClose n s =
     (let s1 = resolveSubscribed Out_Disconnected s
      in if sk_ws s1 \<noteq> Some n then s1
         else
           let s2 = (clearWatchdog s1)\<lparr>sk_phase := Ph_Connecting\<rparr>
           in if sk_stopped s2 then s2 else scheduleReconnect s2)"

text \<open>The watchdog and the reconnect timer, when they fire.\<close>

definition onWatchdog :: "socket \<Rightarrow> socket" where
  "onWatchdog s = (if sk_watchdog s then forceReconnect s else s)"

definition onReconnectTimer :: "('st, 'x) idx_env \<Rightarrow> (('st, 'x) iworld, err, unit) comp" where
  "onReconnectTimer K =
     bnd (gets (\<lambda>w. sk_reconnectTimer (iw_socket w))) (\<lambda>timer.
     if timer = None then ret ()
     else sqn (modify (on_socket (\<lambda>s. s\<lparr>sk_reconnectTimer := None\<rparr>)))
           (bnd (gets (\<lambda>w. sk_stopped (iw_socket w))) (\<lambda>stopped.
            if stopped then ret () else connect K)))"

section \<open>Messages\<close>

datatype indexer_message =
    Msg_Unparsable
  | Msg_Ready
  | Msg_Subscribed int
  | Msg_Block "indexer_event list"
  | Msg_Unknown

definition subscription_of :: "('st, 'x) idx_env \<Rightarrow> indexer_subscription" where
  "subscription_of K =
     (case ix_corporationId K of
        Some c \<Rightarrow> Sub_Corporation c
      | None \<Rightarrow> Sub_Dids (if truthy (ix_did K) then Some [the (ix_did K)] else None))"

definition enqueueLive :: "indexer_event \<Rightarrow> nat \<Rightarrow> socket \<Rightarrow> socket" where
  "enqueueLive e g s = s\<lparr>sk_queue := sk_queue s @ [(e, g)]\<rparr>"

fun handleBlock :: "nat \<Rightarrow> indexer_event list \<Rightarrow> socket \<Rightarrow> socket" where
  "handleBlock g [] s = s"
| "handleBlock g (e # es) s =
     (if \<not> isProcessableEvent e then handleBlock g es s
      else if \<not> sk_syncing s then handleBlock g es (enqueueLive e g s)
      else if length (sk_syncBuffer s) < MAX_SYNC_BUFFER
      then handleBlock g es (s\<lparr>sk_syncBuffer := sk_syncBuffer s @ [e]\<rparr>)
      else forceReconnect s)"

definition handleMessage ::
  "('st, 'x) idx_env \<Rightarrow> indexer_message \<Rightarrow> ('st, 'x) iworld \<Rightarrow> ('st, 'x) iworld" where
  "handleMessage K m w =
     (case m of
        Msg_Unparsable \<Rightarrow> w
      | Msg_Ready \<Rightarrow>
          (on_socket (\<lambda>s. s\<lparr>sk_reconnectAttempt := 0\<rparr>) w)
            \<lparr>iw_subscriptions := iw_subscriptions w @ [subscription_of K]\<rparr>
      | Msg_Subscribed b \<Rightarrow> on_socket (resolveSubscribed Out_Acknowledged) w
      | Msg_Block es \<Rightarrow> on_socket (\<lambda>s. handleBlock (sk_generation s) es s) w
      | Msg_Unknown \<Rightarrow> w)"

definition onMessage ::
  "('st, 'x) idx_env \<Rightarrow> nat \<Rightarrow> indexer_message \<Rightarrow> ('st, 'x) iworld \<Rightarrow> ('st, 'x) iworld" where
  "onMessage K n m w =
     (if sk_ws (iw_socket w) \<noteq> Some n then w else handleMessage K m (on_socket armWatchdog w))"

section \<open>The stored synchronisation state\<close>

definition synced :: "('st, 'x) idx_env \<Rightarrow> 'st \<Rightarrow> sync_state" where
  "synced K st = (case ix_findRecord K st of Some (Some s) \<Rightarrow> s | _ \<Rightarrow> emptyState)"

definition loadSyncState :: "('st, 'x) idx_env \<Rightarrow> (('st, 'x) iworld, err, sync_state) comp" where
  "loadSyncState K = gets (\<lambda>w. synced K (iw_store w))"

definition saveSyncState ::
  "('st, 'x) idx_env \<Rightarrow> sync_state \<Rightarrow> (('st, 'x) iworld, err, unit) comp" where
  "saveSyncState K s =
     (\<lambda>w. case (if ix_findRecord K (iw_store w) \<noteq> None then ix_updateRecord K (iw_store w) s
                else ix_saveRecord K (iw_store w) s) of
        Inl e \<Rightarrow> (Inl e, w) | Inr st \<Rightarrow> (Inr (), w\<lparr>iw_store := st\<rparr>))"

text \<open>Credo stores the content as JSON and gives back what was stored.\<close>

definition storage_laws :: "('st, 'x) idx_env \<Rightarrow> bool" where
  "storage_laws K \<longleftrightarrow>
     (\<forall>st s. if ix_findRecord K st = None
        then (\<exists>st'. ix_saveRecord K st s = Inr st' \<and>
                ix_findRecord K st' = Some (Some (stored_state s)))
        else (\<exists>st'. ix_updateRecord K st s = Inr st' \<and>
                ix_findRecord K st' = Some (Some (stored_state s))))"

section \<open>Applying one event\<close>

definition fetchEntity ::
  "('st, 'x) idx_env \<Rightarrow> string option \<Rightarrow> string \<Rightarrow>
   (('st, 'x) iworld, err, (string \<times> json) list) comp" where
  "fetchEntity K entityType i =
     (if entityType = Some ''Ecosystem'' then ix_getEcosystem K i
      else if entityType = Some ''CredentialSchema'' then ix_getCredentialSchema K i
      else if entityType = Some ''Participant'' then ix_getParticipant K i
      else if entityType = Some ''Corporation''
      then bnd (ix_getCorporation K i) (\<lambda>c. ret (withDefault c []))
      else ret [])"

definition fetchActivity ::
  "('st, 'x) idx_env \<Rightarrow> indexer_event \<Rightarrow> (('st, 'x) iworld, err, activity option) comp" where
  "fetchActivity K e =
     (let p = ie_payload e in
      if \<not> truthy (pl_entity_id p) then ret None
      else bnd (fetchEntity K (pl_entity_type p) (the (pl_entity_id p))) (\<lambda>changes.
        ret (Some \<lparr> ac_timestamp = ie_timestamp e, ac_block_height = ie_block_height e,
                    ac_entity_type = withDefault (pl_entity_type p) [],
                    ac_entity_id = the (pl_entity_id p), ac_msg = ie_event_type e,
                    ac_changes = changes, ac_account = pl_sender p \<rparr>)))"

definition notification_of ::
  "indexer_event \<Rightarrow> (string \<times> json) list option \<Rightarrow> indexer_notification" where
  "notification_of e changes =
     \<lparr> nt_event_type = ie_event_type e, nt_did = ie_did e, nt_block_height = ie_block_height e,
       nt_tx_hash = ie_tx_hash e, nt_timestamp = ie_timestamp e, nt_payload = ie_payload e,
       nt_changes = (case changes of Some c \<Rightarrow> if c \<noteq> [] then Some c else None | None \<Rightarrow> None) \<rparr>"

definition emitNotification ::
  "indexer_event \<Rightarrow> (string \<times> json) list option \<Rightarrow> (('st, 'x) iworld, err, unit) comp" where
  "emitNotification e changes =
     modify (\<lambda>w. w\<lparr>iw_notes := iw_notes w @ [notification_of e changes]\<rparr>)"

text \<open>
  \<open>applyChanges\<close> as \<open>applyEvent\<close> calls it, with the state it has loaded; the branch that loads a state
  of its own has no caller. The state with the mutation applied is returned.
\<close>

definition applyChanges ::
  "('st, 'x) idx_env \<Rightarrow> indexer_event \<Rightarrow> activity option \<Rightarrow> sync_state \<Rightarrow>
   (('st, 'x) iworld, err, sync_state) comp" where
  "applyChanges K e act s =
     (case act of
        None \<Rightarrow> sqn (emitNotification e None) (ret s)
      | Some a \<Rightarrow>
          let s1 = applyStateMutation s a
          in sqn (dispatch (ix_registry K) a
                 \<lparr> hc_blockHeight = ie_block_height e, hc_operatorAddress = pl_sender (ie_payload e),
                   hc_state = s1, hc_txHash = ie_tx_hash e \<rparr>)
            (sqn (emitNotification e (Some (ac_changes a))) (ret s1)))"

definition alreadyApplied :: "sync_state \<Rightarrow> indexer_event \<Rightarrow> bool" where
  "alreadyApplied s e \<longleftrightarrow>
     ie_block_height e \<le> sy_lastBlockHeight s \<or>
     (Some (ie_block_height e) = sy_partialBlock s \<and>
      eventKey e \<in> set (withDefault (sy_partialKeys s) []))"

definition markApplied :: "indexer_event \<Rightarrow> sync_state \<Rightarrow> sync_state" where
  "markApplied e s =
     (let block = ie_block_height e; key = eventKey e;
          s1 = (if sy_partialBlock s = None \<or> block > the (sy_partialBlock s)
                then s\<lparr>sy_partialBlock := Some block, sy_partialKeys := Some [key]\<rparr>
                else s\<lparr>sy_partialKeys := Some (withDefault (sy_partialKeys s) [] @ [key])\<rparr>)
      in s1\<lparr>sy_lastBlockHeight := max (sy_lastBlockHeight s1) (block - 1)\<rparr>)"

definition current :: "nat \<Rightarrow> socket \<Rightarrow> bool" where
  "current g s \<longleftrightarrow> \<not> sk_stopped s \<and> g = sk_generation s"

definition applyEvent ::
  "('st, 'x) idx_env \<Rightarrow> indexer_event \<Rightarrow> nat \<Rightarrow> (('st, 'x) iworld, err, unit) comp" where
  "applyEvent K e g =
     bnd (gets (\<lambda>w. current g (iw_socket w))) (\<lambda>live.
     if \<not> live then ret ()
     else bnd (loadSyncState K) (\<lambda>s.
       if alreadyApplied s e then ret ()
       else bnd (fetchActivity K e) (\<lambda>act.
         bnd (gets (\<lambda>w. current g (iw_socket w))) (\<lambda>live1.
         if \<not> live1 then ret ()
         else bnd (applyChanges K e act s) (\<lambda>s1. saveSyncState K (markApplied e s1))))))"

section \<open>The queue\<close>

text \<open>A live task: a failure of the current connection forces a reconnect.\<close>

definition runLive ::
  "('st, 'x) idx_env \<Rightarrow> indexer_event \<times> nat \<Rightarrow> (('st, 'x) iworld, err, unit) comp" where
  "runLive K t =
     (case t of (e, g) \<Rightarrow>
        catch (applyEvent K e g)
          (\<lambda>er. modify (on_socket (\<lambda>s. if g = sk_generation s then forceReconnect s else s))))"

definition runNextTask :: "('st, 'x) idx_env \<Rightarrow> (('st, 'x) iworld, err, unit) comp" where
  "runNextTask K =
     bnd (gets (\<lambda>w. sk_queue (iw_socket w))) (\<lambda>q. case q of
       [] \<Rightarrow> ret ()
     | t # ts \<Rightarrow> sqn (modify (on_socket (\<lambda>s. s\<lparr>sk_queue := tl (sk_queue s)\<rparr>))) (runLive K t))"

text \<open>\<open>runExclusive\<close> of the catch-up: the tasks queued before run first.\<close>

definition runExclusive ::
  "('st, 'x) idx_env \<Rightarrow> (('st, 'x) iworld, err, unit) comp \<Rightarrow> (('st, 'x) iworld, err, unit) comp" where
  "runExclusive K task =
     bnd (gets (\<lambda>w. sk_queue (iw_socket w))) (\<lambda>q.
     sqn (modify (on_socket (\<lambda>s. s\<lparr>sk_queue := []\<rparr>)))
    (sqn (forM q (runLive K)) task))"

section \<open>The catch-up\<close>

text \<open>The \<open>for\<close> over a sorted page: \<open>False\<close> when the connection is no longer the current one.\<close>

fun applyPage ::
  "('st, 'x) idx_env \<Rightarrow> nat \<Rightarrow> indexer_event list \<Rightarrow> (('st, 'x) iworld, err, bool) comp" where
  "applyPage K g [] = ret True"
| "applyPage K g (e # es) =
     bnd (gets (\<lambda>w. current g (iw_socket w))) (\<lambda>live.
     if \<not> live then ret False
     else sqn (runExclusive K (applyEvent K e g)) (applyPage K g es))"

text \<open>
  The \<open>for (;;)\<close> of \<open>syncRest\<close>, with at most \<open>fuel\<close> requests; \<open>False\<close> when they were not enough.
\<close>

fun syncRestLoop ::
  "nat \<Rightarrow> ('st, 'x) idx_env \<Rightarrow> nat \<Rightarrow> string \<Rightarrow> int \<Rightarrow> (('st, 'x) iworld, err, bool) comp" where
  "syncRestLoop 0 K g did cursor = ret False"
| "syncRestLoop (Suc fuel) K g did cursor =
     bnd (gets (\<lambda>w. current g (iw_socket w))) (\<lambda>live.
     if \<not> live then ret True
     else bnd (ix_getEvents K did cursor REST_PAGE_LIMIT (ix_corporationId K)) (\<lambda>page.
       bnd (applyPage K g (sortEventsByPosition (filter isProcessableEvent page))) (\<lambda>completed.
       if \<not> completed then ret True
       else
         let next = nextRestCursor page cursor REST_PAGE_LIMIT
         in if rc_done next then ret True
            else syncRestLoop fuel K g did (rc_cursor next))))"

definition syncRest ::
  "nat \<Rightarrow> ('st, 'x) idx_env \<Rightarrow> nat \<Rightarrow> (('st, 'x) iworld, err, bool) comp" where
  "syncRest fuel K g =
     sqn (guard (truthy (ix_did K)) (OtherError msg_no_did))
      (bnd (loadSyncState K) (\<lambda>s.
       syncRestLoop fuel K g (the (ix_did K)) (sy_lastBlockHeight s)))"

definition drainSyncBuffer :: "nat \<Rightarrow> socket \<Rightarrow> socket" where
  "drainSyncBuffer g s =
     fold (\<lambda>e. enqueueLive e g) (sortEventsByPosition (sk_syncBuffer s)) (s\<lparr>sk_syncBuffer := []\<rparr>)"

text \<open>\<open>connect\<close> from the moment its catch-up has ended.\<close>

definition connectSynced :: "nat \<Rightarrow> socket \<Rightarrow> socket" where
  "connectSynced g s =
     (if \<not> current g s then s
      else drainSyncBuffer g
        (s\<lparr>sk_syncing := False, sk_phase := Ph_Synced, sk_everSynced := True\<rparr>))"

text \<open>\<open>connect\<close> after its first await, for the attempt \<open>g\<close> whose subscription ended with \<open>out\<close>.\<close>

definition connectSubscribed ::
  "nat \<Rightarrow> ('st, 'x) idx_env \<Rightarrow> nat \<Rightarrow> subscribe_outcome \<Rightarrow> (('st, 'x) iworld, err, unit) comp" where
  "connectSubscribed fuel K g out =
     bnd (gets (\<lambda>w. current g (iw_socket w))) (\<lambda>live.
     if \<not> live \<or> out = Out_Disconnected then ret ()
     else
       sqn (modify (on_socket (\<lambda>s. s\<lparr>sk_phase := Ph_CatchingUp\<rparr>)))
      (bnd (catch (bnd (syncRest fuel K g) (\<lambda>finished. ret finished))
              (\<lambda>e. sqn (modify (on_socket (\<lambda>s.
                     if g = sk_generation s then forceReconnect s else s)))
                   (ret False))) (\<lambda>caughtUp.
       if \<not> caughtUp then ret () else modify (on_socket (connectSynced g)))))"

text \<open>The await itself: an attempt goes on once, when its promise is resolved or the delay is over.\<close>

definition resumeConnect ::
  "nat \<Rightarrow> ('st, 'x) idx_env \<Rightarrow> nat \<Rightarrow> subscribe_outcome \<Rightarrow> (('st, 'x) iworld, err, unit) comp" where
  "resumeConnect fuel K g out =
     bnd (gets (\<lambda>w. g \<in> set (sk_awaiting (iw_socket w)) \<and>
                    (out = Out_TimedOut \<or> (g, out) \<in> set (sk_outcomes (iw_socket w))))) (\<lambda>enabled.
     if \<not> enabled then ret ()
     else sqn (modify (on_socket (\<lambda>s. s\<lparr>sk_awaiting := remove1 g (sk_awaiting s)\<rparr>)))
           (connectSubscribed fuel K g out))"

end
