(* ===== verification/IndexerMachine.thy ===== *)
theory IndexerMachine
  imports IndexerSocket
begin

text \<open>
  The service of \<open>IndexerSocket\<close> as a machine: its commands are the public methods, the socket events,
  the timers and the continuations of what awaits, in any order. The invariant of its private fields is
  kept by each, whatever the calls it awaits run meanwhile.
\<close>

section \<open>The invariant of the fields\<close>

definition sock_ok :: "('st, 'x) idx_env \<Rightarrow> socket \<Rightarrow> bool" where
  "sock_ok K s \<longleftrightarrow>
     length (sk_syncBuffer s) \<le> MAX_SYNC_BUFFER \<and>
     list_all isProcessableEvent (sk_syncBuffer s) \<and>
     list_all (\<lambda>(e, g). isProcessableEvent e \<and> g \<le> sk_generation s) (sk_queue s) \<and>
     (\<forall>d. sk_reconnectTimer s = Some d \<longrightarrow> 1000 \<le> d \<and> d \<le> MAX_RECONNECT_DELAY_MS) \<and>
     (sk_stopped s \<longrightarrow> sk_reconnectTimer s = None \<and> \<not> sk_watchdog s \<and> sk_ws s = None) \<and>
     (sk_phase s = Ph_Synced \<longrightarrow> sk_everSynced s \<and> \<not> sk_syncing s) \<and>
     (truthy (ix_did K) \<and> sk_generation s > 0 \<and> \<not> sk_stopped s \<longrightarrow>
        sk_ws s \<noteq> None \<and> sk_watchdog s \<or> sk_reconnectTimer s \<noteq> None)"

lemma new_socket_ok: "sock_ok K new_socket"
  by (simp add: sock_ok_def new_socket_def)

lemma delay_bounds:
  "1000 \<le> min (1000 * 2 ^ n) MAX_RECONNECT_DELAY_MS"
  "min (1000 * 2 ^ n) MAX_RECONNECT_DELAY_MS \<le> MAX_RECONNECT_DELAY_MS"
  by (simp_all add: MAX_RECONNECT_DELAY_MS_def)

lemma list_all_mono_generation:
  "list_all (\<lambda>(e, g). P e \<and> g \<le> n) xs \<Longrightarrow> n \<le> m \<Longrightarrow> list_all (\<lambda>(e, g). P e \<and> g \<le> (m::nat)) xs"
  by (auto simp: list_all_iff)

lemma sock_ok_step:
  assumes "sock_ok K s"
  shows "sock_ok K (armWatchdog s)" and "sock_ok K (scheduleReconnect s)"
    and "sock_ok K (forceReconnect s)" and "sock_ok K (resolveSubscribed out s)"
    and "sock_ok K (stop s)" and "sock_ok K (onWatchdog s)"
  using assms delay_bounds
  by (auto simp: sock_ok_def armWatchdog_def clearWatchdog_def scheduleReconnect_def
      forceReconnect_def resolveSubscribed_def stop_def onWatchdog_def Let_def list_all_iff
      split: option.split)

lemma sock_ok_sockets:
  assumes "sock_ok K s"
  shows "sock_ok K (onPing n s)" and "sock_ok K (onError n s)" and "sock_ok K (onClose n s)"
proof -
  show "sock_ok K (onPing n s)" "sock_ok K (onError n s)"
    using assms by (simp_all add: onPing_def onError_def sock_ok_step)
  have "sock_ok K (resolveSubscribed Out_Disconnected s)" using assms by (rule sock_ok_step)
  then show "sock_ok K (onClose n s)"
    by (auto simp: onClose_def Let_def sock_ok_def clearWatchdog_def scheduleReconnect_def MAX_RECONNECT_DELAY_MS_def min_le_iff_disj)
qed

lemma sock_ok_enqueue:
  "sock_ok K s \<Longrightarrow> isProcessableEvent e \<Longrightarrow> g \<le> sk_generation s \<Longrightarrow> sock_ok K (enqueueLive e g s)"
  by (simp add: sock_ok_def enqueueLive_def)

lemma sock_ok_buffer:
  "sock_ok K s \<Longrightarrow> isProcessableEvent e \<Longrightarrow> length (sk_syncBuffer s) < MAX_SYNC_BUFFER \<Longrightarrow>
     sock_ok K (s\<lparr>sk_syncBuffer := sk_syncBuffer s @ [e]\<rparr>)"
  by (simp add: sock_ok_def)

lemma sock_ok_handleBlock:
  "sock_ok K s \<Longrightarrow> g \<le> sk_generation s \<Longrightarrow> sock_ok K (handleBlock g es s)"
  by (induction g es s rule: handleBlock.induct)
    (auto simp: sock_ok_enqueue sock_ok_buffer sock_ok_step, simp_all add: enqueueLive_def)

lemma sock_ok_attempt [simp]: "sock_ok K (s\<lparr>sk_reconnectAttempt := n\<rparr>) = sock_ok K s"
  by (simp add: sock_ok_def)

lemma sock_ok_message: "sock_ok K (iw_socket w) \<Longrightarrow> sock_ok K (iw_socket (onMessage K n m w))"
  using sock_ok_step(1) [of K "iw_socket w"]
  by (auto simp: onMessage_def handleMessage_def sock_ok_step sock_ok_handleBlock
      split: indexer_message.split)

lemma sock_ok_drain:
  assumes "sock_ok K s" and "g \<le> sk_generation s"
  shows "sock_ok K (drainSyncBuffer g s)"
proof -
  have gen: "sk_generation (enqueueLive e g t) = sk_generation t" for e t
    by (simp add: enqueueLive_def)
  have "sock_ok K t \<and> g \<le> sk_generation t \<Longrightarrow> list_all isProcessableEvent es \<Longrightarrow>
      sock_ok K (fold (\<lambda>e. enqueueLive e g) es t)" for es t
    by (induction es arbitrary: t) (auto simp: sock_ok_enqueue gen)
  moreover have "list_all isProcessableEvent (sortEventsByPosition (sk_syncBuffer s))"
    using assms(1) by (auto simp: sock_ok_def sortEventsByPosition_key list_all_iff)
  moreover have "sock_ok K (s\<lparr>sk_syncBuffer := []\<rparr>)" using assms(1) by (simp add: sock_ok_def)
  ultimately show ?thesis using assms(2) by (simp add: drainSyncBuffer_def)
qed

lemma sock_ok_connectSynced: "sock_ok K s \<Longrightarrow> sock_ok K (connectSynced g s)"
  unfolding connectSynced_def
  by (auto simp: current_def intro!: sock_ok_drain) (simp add: sock_ok_def)

section \<open>What the awaited calls keep\<close>

abbreviation iw_ok :: "('st, 'x) idx_env \<Rightarrow> ('st, 'x) iworld \<Rightarrow> bool" where
  "iw_ok K w \<equiv> sock_ok K (iw_socket w)"

text \<open>The calls out may run any of the service's commands, so all they promise is the invariant.\<close>

definition calls_ok :: "('st, 'x) idx_env \<Rightarrow> bool" where
  "calls_ok K \<longleftrightarrow>
     (\<forall>d c n corp. keeps (iw_ok K) (ix_getEvents K d c n corp)) \<and>
     (\<forall>i. keeps (iw_ok K) (ix_getEcosystem K i)) \<and>
     (\<forall>i. keeps (iw_ok K) (ix_getCredentialSchema K i)) \<and>
     (\<forall>i. keeps (iw_ok K) (ix_getParticipant K i)) \<and>
     (\<forall>i. keeps (iw_ok K) (ix_getCorporation K i)) \<and>
     (\<forall>m h a ctx. registry_get (ix_registry K) m = Some h \<longrightarrow> keeps (iw_ok K) (h a ctx))"

lemma keeps_on_socket [keeps_rules]:
  "(\<And>s. sock_ok K s \<Longrightarrow> sock_ok K (f s)) \<Longrightarrow> keeps (iw_ok K) (modify (on_socket f))"
  by (rule keeps_modify) simp

lemma keeps_saveSyncState [keeps_rules]: "keeps (iw_ok K) (saveSyncState K s)"
  by (auto simp: keeps_iff saveSyncState_def split: sum.split)

lemma keeps_connect: "keeps (iw_ok K) (connect K)" "keeps (iw_ok K) (start K)"
  "keeps (iw_ok K) (onReconnectTimer K)"
  by (auto simp: keeps_def connect_def start_def onReconnectTimer_def openWebSocket_def wp
      sock_ok_def armWatchdog_def clearWatchdog_def Let_def list_all_iff)

lemma keeps_fetchActivity:
  assumes "calls_ok K"
  shows "keeps (iw_ok K) (fetchActivity K e)"
  using assms unfolding fetchActivity_def fetchEntity_def calls_ok_def Let_def
  by (intro keeps_rules) auto

lemma keeps_dispatch: "calls_ok K \<Longrightarrow> keeps (iw_ok K) (dispatch (ix_registry K) a ctx)"
  unfolding dispatch_def by (intro keeps_rules) (auto simp: calls_ok_def)

lemma keeps_applyEvent:
  assumes "calls_ok K"
  shows "keeps (iw_ok K) (applyEvent K e g)"
proof -
  have emits: "keeps (iw_ok K) (emitNotification e c)" for c
    unfolding emitNotification_def by (rule keeps_modify) simp
  have changes: "keeps (iw_ok K) (applyChanges K e act s)" for act s
    unfolding applyChanges_def Let_def
    by (intro keeps_rules emits keeps_dispatch [OF assms])
  show ?thesis
    unfolding applyEvent_def loadSyncState_def
    by (intro keeps_rules changes keeps_fetchActivity [OF assms])
qed

lemma keeps_runLive:
  assumes "calls_ok K"
  shows "keeps (iw_ok K) (runLive K t)"
  unfolding runLive_def
  by (intro keeps_rules keeps_applyEvent assms) (simp add: sock_ok_step)

lemma sock_ok_tail: "sock_ok K s \<Longrightarrow> sock_ok K (s\<lparr>sk_queue := tl (sk_queue s)\<rparr>)"
  by (cases "sk_queue s") (simp_all add: sock_ok_def)

lemma sock_ok_simple:
  "sock_ok K s \<Longrightarrow> sock_ok K (s\<lparr>sk_queue := []\<rparr>)"
  "sock_ok K s \<Longrightarrow> sock_ok K (s\<lparr>sk_phase := Ph_CatchingUp\<rparr>)"
  "sock_ok K s \<Longrightarrow> sock_ok K (s\<lparr>sk_awaiting := gs\<rparr>)"
  by (simp_all add: sock_ok_def)

lemma keeps_runNextTask:
  assumes "calls_ok K"
  shows "keeps (iw_ok K) (runNextTask K)"
  unfolding runNextTask_def
  by (intro keeps_rules keeps_runLive assms sock_ok_tail)

lemma keeps_runExclusive:
  "calls_ok K \<Longrightarrow> keeps (iw_ok K) m \<Longrightarrow> keeps (iw_ok K) (runExclusive K m)"
  unfolding runExclusive_def
  by (intro keeps_rules keeps_runLive sock_ok_simple)

lemma keeps_applyPage:
  assumes "calls_ok K"
  shows "keeps (iw_ok K) (applyPage K g es)"
proof (induction es)
  case (Cons e es)
  show ?case
    unfolding applyPage.simps
    by (intro keeps_rules keeps_runExclusive keeps_applyEvent assms Cons)
qed (simp add: keeps_ret)

lemma keeps_syncRestLoop:
  assumes "calls_ok K"
  shows "keeps (iw_ok K) (syncRestLoop fuel K g did c)"
proof (induction fuel arbitrary: c)
  case (Suc fuel)
  have "keeps (iw_ok K) (ix_getEvents K did c REST_PAGE_LIMIT (ix_corporationId K))"
    using assms by (simp add: calls_ok_def)
  then show ?case
    unfolding syncRestLoop.simps Let_def
    by (intro keeps_rules keeps_applyPage assms Suc)
qed (simp add: keeps_ret)

lemma keeps_resumeConnect:
  assumes "calls_ok K"
  shows "keeps (iw_ok K) (resumeConnect fuel K g out)"
proof -
  have "sock_ok K (if g = sk_generation s then forceReconnect s else s)" if "sock_ok K s" for s
    using that by (simp add: sock_ok_step)
  then show ?thesis
    unfolding resumeConnect_def connectSubscribed_def syncRest_def loadSyncState_def
    by (intro keeps_rules keeps_syncRestLoop assms sock_ok_simple sock_ok_connectSynced)
qed

section \<open>Commands\<close>

datatype sock_cmd =
    S_Start
  | S_Stop
  | S_Ping nat
  | S_Error nat
  | S_Close nat
  | S_Message nat indexer_message
  | S_Watchdog
  | S_ReconnectTimer
  | S_Resume nat nat subscribe_outcome
  | S_RunTask

definition sock_step ::
  "('st, 'x) idx_env \<Rightarrow> sock_cmd \<Rightarrow> ('st, 'x) iworld \<Rightarrow> ('st, 'x) iworld" where
  "sock_step K c w =
     (case c of
        S_Start \<Rightarrow> snd (start K w)
      | S_Stop \<Rightarrow> on_socket stop w
      | S_Ping n \<Rightarrow> on_socket (onPing n) w
      | S_Error n \<Rightarrow> on_socket (onError n) w
      | S_Close n \<Rightarrow> on_socket (onClose n) w
      | S_Message n m \<Rightarrow> onMessage K n m w
      | S_Watchdog \<Rightarrow> on_socket onWatchdog w
      | S_ReconnectTimer \<Rightarrow> snd (onReconnectTimer K w)
      | S_Resume fuel g out \<Rightarrow> snd (resumeConnect fuel K g out w)
      | S_RunTask \<Rightarrow> snd (runNextTask K w))"

definition sock_inv :: "('st, 'x) idx_env \<Rightarrow> ('st, 'x) iworld \<Rightarrow> bool" where
  "sock_inv K w \<longleftrightarrow> calls_ok K \<and> iw_ok K w"

lemma sock_step_inv: "sock_inv K w \<Longrightarrow> sock_inv K (sock_step K c w)"
  unfolding sock_inv_def sock_step_def
  by (cases c)
    (auto simp: sock_ok_step sock_ok_sockets sock_ok_message
      dest: keepsD [OF keeps_connect(2)] keepsD [OF keeps_connect(3)]
        keepsD [OF keeps_resumeConnect] keepsD [OF keeps_runNextTask])

interpretation indexer: command_machine "sock_step K" "sock_inv K" "\<lambda>_. True"
  for K :: "('st, 'x) idx_env"
  by unfold_locales (rule sock_step_inv)

end
