(* ===== verification/IndexerExact.thy ===== *)
theory IndexerExact
  imports IndexerMachine
begin

text \<open>
  Exactly-once application. The stored state remembers which events of the chain have been applied only
  by the height of the last closed block and the keys of the open one; on a list of events in chain
  order this is the same as a position in the list. The catch-up moves that position to the end, over
  pages that overlap, from wherever an earlier run stopped.
\<close>

section \<open>The applied prefix\<close>

text \<open>\<open>es\<close> in chain order, without two events of one block and key.\<close>

definition event_log :: "indexer_event list \<Rightarrow> bool" where
  "event_log es \<longleftrightarrow>
     sorted (map ie_block_height es) \<and> distinct (map (\<lambda>e. (ie_block_height e, eventKey e)) es)"

text \<open>The height never lags more than one block behind the open block.\<close>

definition state_ok :: "sync_state \<Rightarrow> bool" where
  "state_ok s \<longleftrightarrow> (\<forall>p. sy_partialBlock s = Some p \<longrightarrow> p - 1 \<le> sy_lastBlockHeight s)"

text \<open>Of the log \<open>es\<close>, the first \<open>k\<close> events are the ones \<open>applyEvent\<close> skips.\<close>

definition covers :: "sync_state \<Rightarrow> indexer_event list \<Rightarrow> nat \<Rightarrow> bool" where
  "covers s es k \<longleftrightarrow>
     k \<le> length es \<and> (\<forall>i < length es. alreadyApplied s (es ! i) \<longleftrightarrow> i < k)"

lemma emptyState_ok: "state_ok emptyState"
  by (simp add: state_ok_def emptyState_def)

lemma emptyState_covers: "list_all isProcessableEvent es \<Longrightarrow> covers emptyState es 0"
  by (auto simp: covers_def alreadyApplied_def emptyState_def list_all_length isProcessableEvent_def)

lemma markApplied_ok: "\<not> alreadyApplied s e \<Longrightarrow> state_ok s \<Longrightarrow> state_ok (markApplied e s)"
  by (auto simp: state_ok_def markApplied_def alreadyApplied_def Let_def)

lemma alreadyApplied_markApplied:
  assumes "\<not> alreadyApplied s e" and "state_ok s" and "ie_block_height e \<le> ie_block_height f"
  shows "alreadyApplied (markApplied e s) f \<longleftrightarrow>
    alreadyApplied s f \<and> sy_partialBlock s = Some (ie_block_height e) \<or>
    (ie_block_height f = ie_block_height e \<and> eventKey f = eventKey e)"
proof (cases "sy_partialBlock s = None \<or> ie_block_height e > the (sy_partialBlock s)")
  case True
  show ?thesis
  proof (cases "sy_partialBlock s")
    case None
    then show ?thesis
      using assms by (auto simp: alreadyApplied_def markApplied_def Let_def)
  next
    case (Some p)
    with True have "p < ie_block_height e" by simp
    with Some assms show ?thesis
      by (auto simp: alreadyApplied_def markApplied_def Let_def)
  qed
next
  case False
  then obtain p where p: "sy_partialBlock s = Some p" "ie_block_height e \<le> p" by auto
  moreover have "p - 1 \<le> sy_lastBlockHeight s" using assms(2) p(1) by (simp add: state_ok_def)
  moreover have "sy_lastBlockHeight s < ie_block_height e"
    using assms(1) by (simp add: alreadyApplied_def)
  ultimately have "p = ie_block_height e" by linarith
  with p(1) assms \<open>p - 1 \<le> sy_lastBlockHeight s\<close> show ?thesis
    by (auto simp: alreadyApplied_def markApplied_def Let_def)
qed

lemma alreadyApplied_earlier:
  assumes "\<not> alreadyApplied s e" and "state_ok s" and "alreadyApplied s f"
    and "ie_block_height f \<le> ie_block_height e"
  shows "alreadyApplied (markApplied e s) f"
  using assms
  by (cases "sy_partialBlock s")
    (auto simp: alreadyApplied_def markApplied_def state_ok_def Let_def)

lemma covers_mark:
  assumes "event_log es" and "state_ok s" and "covers s es k" and "k < length es"
  shows "covers (markApplied (es ! k) s) es (Suc k)"
  unfolding covers_def
proof (intro conjI allI impI)
  show "Suc k \<le> length es" using assms(4) by simp
  fix i assume i: "i < length es"
  have new: "\<not> alreadyApplied s (es ! k)" using assms(3,4) by (simp add: covers_def)
  have mono: "a \<le> b \<Longrightarrow> b < length es \<Longrightarrow> ie_block_height (es ! a) \<le> ie_block_height (es ! b)" for a b
    using assms(1) by (auto simp: event_log_def dest: sorted_nth_mono)
  show "alreadyApplied (markApplied (es ! k) s) (es ! i) \<longleftrightarrow> i < Suc k"
  proof (cases "i < k")
    case True
    then have "alreadyApplied s (es ! i)" using assms(3) i by (simp add: covers_def)
    then have "alreadyApplied (markApplied (es ! k) s) (es ! i)"
      using new assms(2) mono [of i k] assms(4) True by (intro alreadyApplied_earlier) auto
    with True show ?thesis by simp
  next
    case False
    then have "\<not> alreadyApplied s (es ! i)" using assms(3) i by (simp add: covers_def)
    moreover have "ie_block_height (es ! i) = ie_block_height (es ! k) \<and>
        eventKey (es ! i) = eventKey (es ! k) \<longleftrightarrow> i = k"
      using assms(1,4) i by (auto simp: event_log_def distinct_conv_nth)
    ultimately show ?thesis
      using False mono [of k i] i
      by (auto simp: alreadyApplied_markApplied [OF new assms(2)])
  qed
qed

lemma covers_cong:
  assumes "sy_lastBlockHeight s = sy_lastBlockHeight t" and "sy_partialBlock s = sy_partialBlock t"
    and "sy_partialKeys s = sy_partialKeys t"
  shows "covers s es k \<longleftrightarrow> covers t es k" and "state_ok s \<longleftrightarrow> state_ok t"
    and "alreadyApplied s e \<longleftrightarrow> alreadyApplied t e"
  using assms by (simp_all add: covers_def alreadyApplied_def state_ok_def)

section \<open>One event, when the awaited calls succeed\<close>

text \<open>
  A call that returns and, while it is awaited, runs nothing that writes the stored state, emits a
  notification or ends the connection.
\<close>

definition quiet_call :: "(('st, 'x) iworld, err, 'a) comp \<Rightarrow> bool" where
  "quiet_call m \<longleftrightarrow> (\<forall>w. \<exists>r x. m w = (Inr r, w\<lparr>iw_ext := x\<rparr>))"

definition quiet_env :: "('st, 'x) idx_env \<Rightarrow> bool" where
  "quiet_env K \<longleftrightarrow>
     (\<forall>i. quiet_call (ix_getEcosystem K i)) \<and> (\<forall>i. quiet_call (ix_getCredentialSchema K i)) \<and>
     (\<forall>i. quiet_call (ix_getParticipant K i)) \<and> (\<forall>i. quiet_call (ix_getCorporation K i)) \<and>
     (\<forall>m h a ctx. registry_get (ix_registry K) m = Some h \<longrightarrow> quiet_call (h a ctx))"

text \<open>The notification of an event, whatever changes it reports.\<close>

definition notes_event :: "indexer_notification \<Rightarrow> indexer_event \<Rightarrow> bool" where
  "notes_event n e \<longleftrightarrow> (\<exists>c. n = notification_of e c)"

lemma quiet_ret: "quiet_call (ret x)"
  unfolding quiet_call_def ret_def
proof
  fix w :: "('a, 'b) iworld"
  show "\<exists>r y. (Inr x, w) = (Inr r, w\<lparr>iw_ext := y\<rparr>)"
    by (rule exI [of _ x], rule exI [of _ "iw_ext w"]) simp
qed

lemma quiet_bnd: "quiet_call m \<Longrightarrow> (\<And>x. quiet_call (f x)) \<Longrightarrow> quiet_call (bnd m f)"
  unfolding quiet_call_def bnd_def
proof
  fix w
  assume m: "\<forall>w. \<exists>r x. m w = (Inr r, w\<lparr>iw_ext := x\<rparr>)"
    and f: "\<And>x. \<forall>w. \<exists>r y. f x w = (Inr r, w\<lparr>iw_ext := y\<rparr>)"
  obtain r x where 1: "m w = (Inr r, w\<lparr>iw_ext := x\<rparr>)" using m by blast
  obtain q y where 2: "f r (w\<lparr>iw_ext := x\<rparr>) = (Inr q, w\<lparr>iw_ext := x\<rparr>\<lparr>iw_ext := y\<rparr>)" using f by blast
  show "\<exists>q y. (case m w of (Inl e, t) \<Rightarrow> (Inl e, t) | (Inr x, t) \<Rightarrow> f x t) = (Inr q, w\<lparr>iw_ext := y\<rparr>)"
    using 1 2 by (auto intro: exI [of _ y])
qed

lemma quiet_fetchActivity: "quiet_env K \<Longrightarrow> quiet_call (fetchActivity K e)"
  by (auto simp: fetchActivity_def fetchEntity_def quiet_env_def Let_def intro!: quiet_bnd quiet_ret)

lemma quiet_dispatch: "quiet_env K \<Longrightarrow> quiet_call (dispatch (ix_registry K) a ctx)"
  by (auto simp: dispatch_def quiet_env_def quiet_ret split: option.split)

lemma post_quiet:
  assumes "quiet_call m" and "\<And>r x. Q r (w\<lparr>iw_ext := x\<rparr>)"
  shows "post m Q E w"
proof -
  obtain r x where "m w = (Inr r, w\<lparr>iw_ext := x\<rparr>)" using assms(1) unfolding quiet_call_def by blast
  then show ?thesis using assms(2) by (simp add: post_def)
qed

lemma post_loadSyncState [wp]: "post (loadSyncState K) Q E w = Q (synced K (iw_store w)) w"
  by (simp add: loadSyncState_def wp)

lemma post_saveSyncState:
  assumes "storage_laws K" and "\<And>st. synced K st = stored_state s \<Longrightarrow> Q () (w\<lparr>iw_store := st\<rparr>)"
  shows "post (saveSyncState K s) Q E w"
proof -
  have "if ix_findRecord K (iw_store w) = None
        then (\<exists>st'. ix_saveRecord K (iw_store w) s = Inr st' \<and>
                ix_findRecord K st' = Some (Some (stored_state s)))
        else (\<exists>st'. ix_updateRecord K (iw_store w) s = Inr st' \<and>
                ix_findRecord K st' = Some (Some (stored_state s)))"
    using assms(1) by (simp add: storage_laws_def)
  then show ?thesis
    using assms(2) by (auto simp: post_def saveSyncState_def synced_def split: if_splits)
qed

text \<open>What one \<open>applyEvent\<close> of the current connection does to the state and the notifications.\<close>

definition applied_once ::
  "('st, 'x) idx_env \<Rightarrow> indexer_event \<Rightarrow> ('st, 'x) iworld \<Rightarrow> ('st, 'x) iworld \<Rightarrow> bool" where
  "applied_once K e w w' \<longleftrightarrow>
     iw_socket w' = iw_socket w \<and>
     (let s = synced K (iw_store w); s' = synced K (iw_store w') in
      if alreadyApplied s e then iw_notes w' = iw_notes w \<and> s' = s
      else (\<exists>n s1. iw_notes w' = iw_notes w @ [n] \<and> notes_event n e \<and>
              sy_lastBlockHeight s1 = sy_lastBlockHeight s \<and>
              sy_partialBlock s1 = sy_partialBlock s \<and> sy_partialKeys s1 = sy_partialKeys s \<and>
              s' = stored_state (markApplied e s1)))"

lemma post_applyEvent:
  assumes "storage_laws K" and "quiet_env K" and "current g (iw_socket w)"
  shows "post (applyEvent K e g) (\<lambda>_. applied_once K e w) (\<lambda>_ _. False) w"
proof (cases "alreadyApplied (synced K (iw_store w)) e")
  case True
  with assms(3) show ?thesis by (simp add: applyEvent_def wp applied_once_def)
next
  case False
  have save: "post (saveSyncState K (markApplied e s1)) (\<lambda>_. applied_once K e w) (\<lambda>_ _. False)
      (w\<lparr>iw_ext := x, iw_notes := iw_notes w @ [notification_of e c]\<rparr>)"
    if "sy_lastBlockHeight s1 = sy_lastBlockHeight (synced K (iw_store w))"
      "sy_partialBlock s1 = sy_partialBlock (synced K (iw_store w))"
      "sy_partialKeys s1 = sy_partialKeys (synced K (iw_store w))" for s1 x c
    using that False
    by (intro post_saveSyncState [OF assms(1)])
      (auto simp: applied_once_def notes_event_def Let_def intro!: exI [of _ s1])
  have "post (applyChanges K e act (synced K (iw_store w)))
      (\<lambda>s1. post (saveSyncState K (markApplied e s1)) (\<lambda>_. applied_once K e w) (\<lambda>_ _. False))
      (\<lambda>_ _. False) (w\<lparr>iw_ext := x\<rparr>)" for act x
    by (cases act)
      (auto simp: applyChanges_def emitNotification_def wp save
        intro!: post_quiet [OF quiet_dispatch [OF assms(2)]])
  then show ?thesis
    using False assms(3)
    by (auto simp: applyEvent_def wp intro!: post_quiet [OF quiet_fetchActivity [OF assms(2)]])
qed

text \<open>The position after an event of the log.\<close>

lemma applied_once_covers:
  assumes "applied_once K (es ! i) w w'" and "event_log es" and "i < length es"
    and "state_ok (synced K (iw_store w))" and "covers (synced K (iw_store w)) es k" and "i \<le> k"
  shows "state_ok (synced K (iw_store w')) \<and> covers (synced K (iw_store w')) es (max k (Suc i)) \<and>
    iw_socket w' = iw_socket w \<and>
    (\<exists>ns. iw_notes w' = iw_notes w @ ns \<and>
       list_all2 notes_event ns (take (max k (Suc i) - k) (drop k es)))"
proof (cases "i < k")
  case True
  then have "alreadyApplied (synced K (iw_store w)) (es ! i)"
    using assms(3,5) by (simp add: covers_def)
  moreover have "max k (Suc i) = k" using True by simp
  ultimately show ?thesis using assms(1,4,5) by (simp add: applied_once_def)
next
  case False
  with assms(6) have [simp]: "i = k" by simp
  have new: "\<not> alreadyApplied (synced K (iw_store w)) (es ! k)"
    using assms(3,5) by (simp add: covers_def)
  with assms(1) obtain n s1 where s1: "iw_notes w' = iw_notes w @ [n]" "notes_event n (es ! k)"
    "sy_lastBlockHeight s1 = sy_lastBlockHeight (synced K (iw_store w))"
    "sy_partialBlock s1 = sy_partialBlock (synced K (iw_store w))"
    "sy_partialKeys s1 = sy_partialKeys (synced K (iw_store w))"
    "synced K (iw_store w') = stored_state (markApplied (es ! k) s1)"
    by (auto simp: applied_once_def Let_def)
  note same = covers_cong [OF s1(3-5)] covers_cong [of "stored_state t" t for t]
  have "covers s1 es k" "state_ok s1" "\<not> alreadyApplied s1 (es ! k)"
    using assms(4,5) new by (simp_all add: same)
  then have "covers (markApplied (es ! k) s1) es (Suc k)" "state_ok (markApplied (es ! k) s1)"
    using assms(2,3) by (simp_all add: covers_mark markApplied_ok)
  moreover have "take (Suc 0) (drop k es) = [es ! k]"
    using assms(3) by (simp add: take_Suc_conv_app_nth)
  ultimately show ?thesis
    using s1 assms(1) by (simp add: same applied_once_def)
qed

section \<open>A page\<close>

text \<open>The position the state is at, and the notifications emitted on the way there from \<open>k0\<close>.\<close>

definition at_position ::
  "('st, 'x) idx_env \<Rightarrow> indexer_event list \<Rightarrow> nat \<Rightarrow> ('st, 'x) iworld \<Rightarrow> nat \<Rightarrow> ('st, 'x) iworld \<Rightarrow> bool" where
  "at_position K es k0 w0 k w \<longleftrightarrow>
     k0 \<le> k \<and> state_ok (synced K (iw_store w)) \<and> covers (synced K (iw_store w)) es k \<and>
     iw_socket w = iw_socket w0 \<and>
     (\<exists>ns. iw_notes w = iw_notes w0 @ ns \<and> list_all2 notes_event ns (take (k - k0) (drop k0 es)))"

lemma at_position_step:
  assumes "at_position K es k0 w0 k w" and "applied_once K (es ! i) w w'"
    and "event_log es" and "i < length es" and "i \<le> k"
  shows "at_position K es k0 w0 (max k (Suc i)) w'"
proof -
  from assms(1) obtain ns where ns: "iw_notes w = iw_notes w0 @ ns"
    "list_all2 notes_event ns (take (k - k0) (drop k0 es))" and k: "k0 \<le> k"
    by (auto simp: at_position_def)
  from assms(1) have "state_ok (synced K (iw_store w))" "covers (synced K (iw_store w)) es k"
    by (auto simp: at_position_def)
  from applied_once_covers [OF assms(2,3,4) this assms(5)] obtain ms where
    ms: "iw_notes w' = iw_notes w @ ms" "list_all2 notes_event ms (take (max k (Suc i) - k) (drop k es))"
    and rest: "state_ok (synced K (iw_store w'))" "covers (synced K (iw_store w')) es (max k (Suc i))"
      "iw_socket w' = iw_socket w"
    by blast
  have "take (max k (Suc i) - k0) (drop k0 es) =
      take (k - k0) (drop k0 es) @ take (max k (Suc i) - k) (drop k es)"
    using k take_add [of "k - k0" "max k (Suc i) - k" "drop k0 es"] by (simp add: max_def)
  then have "list_all2 notes_event (ns @ ms) (take (max k (Suc i) - k0) (drop k0 es))"
    using ns(2) ms(2) by (simp add: list_all2_appendI)
  then show ?thesis
    using assms(1) rest ns(1) ms(1) by (auto simp: at_position_def)
qed

lemma forM_Nil_queue: "sk_queue (iw_socket w) = [] \<Longrightarrow> post (runExclusive K m) Q E w = post m Q E w"
proof -
  assume q: "sk_queue (iw_socket w) = []"
  then have same: "on_socket (\<lambda>s. s\<lparr>sk_queue := []\<rparr>) w = w" by (simp add: on_socket_def)
  show ?thesis by (simp add: runExclusive_def wp q same)
qed

lemma post_applyPage:
  assumes "storage_laws K" and "quiet_env K" and "event_log es"
    and "current g (iw_socket w0)" and "sk_queue (iw_socket w0) = []"
  shows "xs = take m (drop i es) \<Longrightarrow> i \<le> k \<Longrightarrow> at_position K es k0 w0 k w \<Longrightarrow>
    post (applyPage K g xs)
      (\<lambda>ok w'. ok \<and> at_position K es k0 w0 (max k (min (i + m) (length es))) w')
      (\<lambda>_ _. False) w"
proof (induction xs arbitrary: i m k w)
  case Nil
  then have "m = 0 \<or> length es \<le> i" by auto
  moreover have "k \<le> length es" using Nil.prems(3) by (simp add: at_position_def covers_def)
  ultimately have "max k (min (i + m) (length es)) = k" using Nil.prems(2) by auto
  with Nil show ?case by (simp add: wp)
next
  case (Cons x xs)
  have "m \<noteq> 0" and lt: "i < length es" using Cons.prems(1)
    by (metis list.distinct(1) take_0, metis drop_eq_Nil list.distinct(1) not_le take_Nil)
  then obtain m' where m: "m = Suc m'" by (cases m) auto
  have "drop i es = es ! i # drop (Suc i) es" using lt by (simp add: Cons_nth_drop_Suc)
  then have x: "x = es ! i" and xs: "xs = take m' (drop (Suc i) es)"
    using Cons.prems(1) m by simp_all
  have sock: "iw_socket w = iw_socket w0" using Cons.prems(3) by (simp add: at_position_def)
  then have cur: "current g (iw_socket w)" and q: "sk_queue (iw_socket w) = []"
    using assms(4,5) by simp_all
  have "post (applyEvent K x g)
      (\<lambda>_ w1. post (applyPage K g xs)
        (\<lambda>ok w'. ok \<and> at_position K es k0 w0 (max k (min (i + m) (length es))) w') (\<lambda>_ _. False) w1)
      (\<lambda>_ _. False) w"
  proof (rule post_mono [OF post_applyEvent [OF assms(1,2) cur]])
    fix u w1 assume "applied_once K x w w1"
    then have "at_position K es k0 w0 (max k (Suc i)) w1"
      using Cons.prems assms(3) lt x by (intro at_position_step [of K es k0 w0 k w]) auto
    moreover have "max (max k (Suc i)) (min (Suc i + m') (length es)) = max k (min (i + m) (length es))"
      using lt m by auto
    ultimately show "post (applyPage K g xs)
        (\<lambda>ok w'. ok \<and> at_position K es k0 w0 (max k (min (i + m) (length es))) w') (\<lambda>_ _. False) w1"
      using Cons.IH [OF xs, of "max k (Suc i)" w1] by simp
  qed simp
  then show ?case using cur q by (simp add: wp forM_Nil_queue)
qed

section \<open>The whole catch-up\<close>

text \<open>The events API answers each request with a page of one chain.\<close>

definition api_serves :: "('st, 'x) idx_env \<Rightarrow> indexer_event list \<Rightarrow> bool" where
  "api_serves K chain \<longleftrightarrow>
     (\<forall>d c n corp w. \<exists>x. ix_getEvents K d c n corp w = (Inr (api_page chain n c), w\<lparr>iw_ext := x\<rparr>))"

lemma sort_key_sorted: "sorted (map f xs) \<Longrightarrow> sort_key f xs = xs"
  for f :: "'a \<Rightarrow> 'b::linorder"
proof (induction xs)
  case (Cons x xs)
  then have "sort_key f xs = xs" and "\<forall>y\<in>set xs. f x \<le> f y" by auto
  then show ?case by (cases xs) simp_all
qed simp

lemma page_sorted:
  assumes "in_chain_order chain"
  shows "sortEventsByPosition (filter P (api_page chain n c)) = filter P (api_page chain n c)"
proof -
  have "sorted (map position (filter Q chain))" for Q
    using assms by (simp add: in_chain_order_def sorted_filter)
  then have "sorted (map position (api_page chain n c))"
    unfolding api_page_def events_after_def by (metis sorted_wrt_take take_map)
  then show ?thesis
    unfolding sortEventsByPosition_key by (intro sort_key_sorted sorted_filter)
qed

text \<open>How many of the events kept by \<open>P\<close> are among the first \<open>j\<close>.\<close>

definition kept :: "('a \<Rightarrow> bool) \<Rightarrow> 'a list \<Rightarrow> nat \<Rightarrow> nat" where
  "kept P xs j = length (filter P (take j xs))"

lemma kept_mono: "i \<le> j \<Longrightarrow> kept P xs i \<le> kept P xs j"
proof -
  assume "i \<le> j"
  then have "take j xs = take i xs @ take (j - i) (drop i xs)"
    using take_add [of i "j - i" xs] by simp
  then show ?thesis by (simp add: kept_def)
qed

lemma kept_all: "length xs \<le> j \<Longrightarrow> kept P xs j = length (filter P xs)"
  by (simp add: kept_def)

lemma kept_le: "kept P xs j \<le> length (filter P xs)"
  using kept_mono [of j "max j (length xs)" P xs] by (simp add: kept_all)

lemma filter_segment:
  "filter P (take n (drop j xs)) = take (kept P xs (j + n) - kept P xs j) (drop (kept P xs j) (filter P xs))"
proof -
  have 1: "xs = take j xs @ take n (drop j xs) @ drop (j + n) xs"
    by (metis append_take_drop_id drop_drop add.commute)
  have 2: "take (j + n) xs = take j xs @ take n (drop j xs)"
    by (rule take_add)
  have "filter P xs = filter P (take j xs) @ filter P (take n (drop j xs)) @ filter P (drop (j + n) xs)"
    using 1 by (metis filter_append)
  then show ?thesis by (simp add: kept_def 2)
qed

lemma passed_mono: "c \<le> d \<Longrightarrow> passed chain c \<le> passed chain d"
proof -
  assume "c \<le> d"
  then have "filter (\<lambda>e. ie_block_height e \<le> c) chain =
      filter (\<lambda>e. ie_block_height e \<le> c) (filter (\<lambda>e. ie_block_height e \<le> d) chain)"
    by (auto intro: filter_cong)
  then show ?thesis by (metis passed_def length_filter_le)
qed

lemma post_syncRestLoop:
  assumes "storage_laws K" and "quiet_env K" and "api_serves K chain" and "in_chain_order chain"
    and "\<And>b. block_size chain b \<le> REST_PAGE_LIMIT" and "\<And>e. e \<in> set chain \<Longrightarrow> ie_block_height e \<le> h"
    and "es = filter isProcessableEvent (events_after chain l)" and "event_log es"
    and "current g (iw_socket w0)" and "sk_queue (iw_socket w0) = []"
  shows "at_position K es k0 w0 k w \<Longrightarrow> l \<le> c \<Longrightarrow>
    kept isProcessableEvent (events_after chain l) (passed chain c - passed chain l) \<le> k \<Longrightarrow>
    nat (h - c) < fuel \<Longrightarrow>
    post (syncRestLoop fuel K g did c)
      (\<lambda>finished w'. finished \<and> at_position K es k0 w0 (length es) w') (\<lambda>_ _. False) w"
proof (induction fuel arbitrary: c k w)
  case (Suc fuel)
  let ?n = REST_PAGE_LIMIT let ?P = isProcessableEvent let ?after = "events_after chain l"
  let ?page = "api_page chain ?n c" let ?next = "nextRestCursor ?page c ?n"
  let ?j = "passed chain c - passed chain l"
  let ?k' = "max k (kept ?P ?after (?j + ?n))"
  have n: "?n > 0" by (simp add: REST_PAGE_LIMIT_def)
  have le: "passed chain l \<le> passed chain c" using Suc.prems(2) by (rule passed_mono)
  have "?page = take ?n (drop ?j ?after)"
    using le by (simp add: api_page_segment [OF assms(4)] events_after_drop [OF assms(4)])
  then have fpage: "filter ?P ?page =
      take (kept ?P ?after (?j + ?n) - kept ?P ?after ?j) (drop (kept ?P ?after ?j) es)"
    unfolding assms(7) by (simp add: filter_segment)
  have k': "max k (min (kept ?P ?after ?j + (kept ?P ?after (?j + ?n) - kept ?P ?after ?j)) (length es)) = ?k'"
    using kept_mono [of ?j "?j + ?n" ?P ?after] kept_le [of ?P ?after "?j + ?n"]
    by (simp add: assms(7))
  have loop: "post (if rc_done ?next then ret True else syncRestLoop fuel K g did (rc_cursor ?next))
      (\<lambda>finished w'. finished \<and> at_position K es k0 w0 (length es) w') (\<lambda>_ _. False) w1"
    if pos: "at_position K es k0 w0 ?k' w1" for w1
  proof (cases "rc_done ?next")
    case True
    then have "length ?page < ?n" by (simp add: nextRestCursor_cases)
    then have "length ?after \<le> ?j + ?n"
      using le by (simp add: api_page_segment [OF assms(4)] events_after_drop [OF assms(4)])
    then have "?k' = max k (length es)" by (simp add: kept_all assms(7))
    moreover have "k \<le> length es" using Suc.prems(1) by (simp add: at_position_def covers_def)
    ultimately show ?thesis using pos True by (simp add: wp)
  next
    case False
    then have full: "\<not> length ?page < ?n" by (simp add: nextRestCursor_cases)
    have forward: "c < rc_cursor ?next" using full n by (rule full_page_progress)
    have bound: "rc_cursor ?next \<le> h" if "c \<le> h"
      using full assms(6) that by (intro full_page_bound) auto
    have "c < h"
    proof (rule ccontr)
      assume "\<not> c < h"
      then have "events_after chain c = []"
        using assms(6) by (fastforce simp: events_after_def filter_empty_conv)
      with full n show False by (simp add: api_page_def)
    qed
    have "passed chain (rc_cursor ?next) \<le> passed chain c + ?n"
      using assms(4) full assms(5) n by (rule full_page_covers)
    then have "passed chain (rc_cursor ?next) - passed chain l \<le> ?j + ?n" using le by linarith
    then have "kept ?P ?after (passed chain (rc_cursor ?next) - passed chain l) \<le>
        kept ?P ?after (?j + ?n)"
      by (rule kept_mono)
    then have "kept ?P ?after (passed chain (rc_cursor ?next) - passed chain l) \<le> ?k'"
      by simp
    then show ?thesis
      using False Suc.IH [OF pos] Suc.prems(2,4) forward bound \<open>c < h\<close> by simp
  qed
  have sock: "current g (iw_socket w)" using Suc.prems(1) assms(9) by (simp add: at_position_def)
  obtain x where x: "ix_getEvents K did c ?n (ix_corporationId K) w = (Inr ?page, w\<lparr>iw_ext := x\<rparr>)"
    using assms(3) unfolding api_serves_def by blast
  have "at_position K es k0 w0 k (w\<lparr>iw_ext := x\<rparr>)"
    using Suc.prems(1) by (simp add: at_position_def)
  from post_applyPage [OF assms(1,2,8,9,10) fpage Suc.prems(3) this]
  have "post (applyPage K g (sortEventsByPosition (filter ?P ?page)))
      (\<lambda>ok w'. ok \<and> at_position K es k0 w0 ?k' w') (\<lambda>_ _. False) (w\<lparr>iw_ext := x\<rparr>)"
    unfolding k' page_sorted [OF assms(4)] .
  then have "post (applyPage K g (sortEventsByPosition (filter ?P ?page)))
      (\<lambda>ok w'. post (if \<not> ok then ret True
          else if rc_done ?next then ret True else syncRestLoop fuel K g did (rc_cursor ?next))
        (\<lambda>finished w'. finished \<and> at_position K es k0 w0 (length es) w') (\<lambda>_ _. False) w')
      (\<lambda>_ _. False) (w\<lparr>iw_ext := x\<rparr>)"
    by (rule post_mono) (use loop in auto)
  then show ?case
    by (simp only: syncRestLoop.simps post_bnd post_gets sock post_returns [where m = "ix_getEvents K did c ?n (ix_corporationId K)", OF x] Let_def
        not_True_eq_False if_False)
qed simp

end
