(* ===== verification/IndexerProps.thy ===== *)
theory IndexerProps
  imports IndexerExact
begin

text \<open>
  The properties of the chain synchronisation: the order and the identity of events, the catch-up, the
  connection, and the state kept of the chain; each with the concrete run that shows its hypotheses can
  hold.
\<close>

section \<open>Concrete worlds for the witnesses\<close>

definition ex_event :: "int \<Rightarrow> int \<Rightarrow> int \<Rightarrow> indexer_event" where
  "ex_event b t m =
     \<lparr> ie_type = ''indexer-event'', ie_event_type = ''RevokeParticipant'', ie_did = ''did:a'',
       ie_block_height = b, ie_tx_hash = ''AB'', ie_timestamp = ''t'',
       ie_payload = \<lparr> pl_module = ''pp'', pl_action = ''a'', pl_message_type = ''m'', pl_tx_index = t,
         pl_message_index = m, pl_sender = ''verana1'', pl_related_dids = [],
         pl_entity_type = Some ''Participant'', pl_entity_id = Some ''7'' \<rparr> \<rparr>"

lemma ex_event_sel [simp]:
  "ie_block_height (ex_event b t m) = b" "ie_tx_hash (ex_event b t m) = ''AB''"
  "ie_event_type (ex_event b t m) = ''RevokeParticipant''"
  "pl_tx_index (ie_payload (ex_event b t m)) = t" "pl_message_index (ie_payload (ex_event b t m)) = m"
  "isProcessableEvent (ex_event b t m) \<longleftrightarrow> b > 0"
  by (simp_all add: ex_event_def isProcessableEvent_def)

text \<open>An indexer that serves \<open>chain\<close> and an agent that stores its state in memory.\<close>

definition mem_idx ::
  "indexer_event list \<Rightarrow> (sync_state option, unit) iworld registry \<Rightarrow> (sync_state option, unit) idx_env"
  where
  "mem_idx chain reg =
     \<lparr> ix_did = Some ''did:a'', ix_corporationId = None,
       ix_findRecord = map_option Some, ix_saveRecord = (\<lambda>st s. Inr (Some (stored_state s))),
       ix_updateRecord = (\<lambda>st s. Inr (Some (stored_state s))),
       ix_getEvents = (\<lambda>d c n corp. ret (api_page chain n c)), ix_getEcosystem = (\<lambda>i. ret []),
       ix_getCredentialSchema = (\<lambda>i. ret []), ix_getParticipant = (\<lambda>i. ret []),
       ix_getCorporation = (\<lambda>i. ret None), ix_registry = reg \<rparr>"

definition idx_world :: "socket \<Rightarrow> (sync_state option, unit) iworld" where
  "idx_world s =
     \<lparr> iw_store = None, iw_socket = s, iw_notes = [], iw_subscriptions = [], iw_ext = () \<rparr>"

lemma idx_world_sel [simp]:
  "iw_socket (idx_world s) = s" "iw_store (idx_world s) = None" "iw_notes (idx_world s) = []"
  "synced (mem_idx chain reg) None = emptyState" "truthy (ix_did (mem_idx chain reg))"
  by (simp_all add: idx_world_def synced_def mem_idx_def)

lemma mem_idx_laws:
  "storage_laws (mem_idx chain reg)" "quiet_env (mem_idx chain [])" "api_serves (mem_idx chain reg) chain"
  "calls_ok (mem_idx chain [])"
  by (auto simp: storage_laws_def quiet_env_def api_serves_def mem_idx_def quiet_ret registry_get_def
      calls_ok_def keeps_ret) (auto simp: ret_def intro: exI [of _ "iw_ext _"])

section \<open>Events\<close>

text \<open>
  Events are applied in chain order: sorting by position keeps exactly the events given, orders them
  by block, transaction and message index, and leaves events of one position in the order they came.
\<close>

theorem events_sorted_by_position:
  "sorted (map position (sortEventsByPosition es)) \<and>
   mset (sortEventsByPosition es) = mset es \<and>
   filter (\<lambda>e. position e = p) (sortEventsByPosition es) = filter (\<lambda>e. position e = p) es"
  unfolding sortEventsByPosition_key
  using stable_sort_key_sort_key by (auto simp: stable_sort_key_def)

text \<open>
  The key an event is remembered by identifies it: two events whose transaction hashes hold no colon
  have the same key only when hash, message index and type agree.
\<close>

theorem eventKey_identifies:
  assumes "CHR '':'' \<notin> set (ie_tx_hash e)" and "CHR '':'' \<notin> set (ie_tx_hash f)"
  shows "eventKey e = eventKey f \<longleftrightarrow>
    ie_tx_hash e = ie_tx_hash f \<and> ie_event_type e = ie_event_type f \<and>
    pl_message_index (ie_payload e) = pl_message_index (ie_payload f)"
proof
  assume "eventKey e = eventKey f"
  then have "ie_tx_hash e = ie_tx_hash f" and
    rest: "int_str (pl_message_index (ie_payload e)) @ CHR '':'' # ie_event_type e =
      int_str (pl_message_index (ie_payload f)) @ CHR '':'' # ie_event_type f"
    using split_at_colon [OF _ assms] by (auto simp: eventKey_def)
  moreover from split_at_colon [OF rest int_str_no_colon int_str_no_colon]
  have "pl_message_index (ie_payload e) = pl_message_index (ie_payload f)"
    and "ie_event_type e = ie_event_type f" by simp_all
  ultimately show "ie_tx_hash e = ie_tx_hash f \<and> ie_event_type e = ie_event_type f \<and>
    pl_message_index (ie_payload e) = pl_message_index (ie_payload f)" by simp
qed (simp add: eventKey_def)

theorem eventKey_identifies_witness:
  "eventKey (ex_event 1 0 0) \<noteq> eventKey (ex_event 1 0 (-1))"
  by (simp add: eventKey_identifies)

section \<open>The catch-up\<close>

text \<open>
  The REST cursor neither stalls nor skips: after a full page of a chain whose blocks fit a page,
  it moves forward, and every event up to it was delivered by that page or lies before the old cursor.
\<close>

theorem rest_cursor_progress:
  assumes "in_chain_order chain" and "\<And>b. block_size chain b \<le> n" and "n > 0"
    and "\<not> rc_done (nextRestCursor (api_page chain n c) c n)"
  shows "c < rc_cursor (nextRestCursor (api_page chain n c) c n) \<and>
    (\<forall>e\<in>set chain. ie_block_height e \<le> rc_cursor (nextRestCursor (api_page chain n c) c n) \<longrightarrow>
       ie_block_height e \<le> c \<or> e \<in> set (api_page chain n c))"
proof (intro conjI ballI impI)
  let ?next = "rc_cursor (nextRestCursor (api_page chain n c) c n)"
  have full: "\<not> length (api_page chain n c) < n" using assms(4) by (simp add: nextRestCursor_cases)
  show "c < ?next" using full assms(3) by (rule full_page_progress)
  fix e assume e: "e \<in> set chain" "ie_block_height e \<le> ?next"
  then obtain i where i: "i < length chain" "chain ! i = e" by (auto simp: in_set_conv_nth)
  have "i < passed chain c + n"
    using nth_passed [OF assms(1) i(1), of ?next] e(2) i(2) full_page_covers [OF assms(1) full assms(2,3)]
    by simp
  moreover have "chain ! i \<in> set (api_page chain n c)" if "passed chain c \<le> i" "i < passed chain c + n"
    using that i(1)
    by (auto simp: api_page_segment [OF assms(1)] in_set_conv_nth
        intro!: exI [of _ "i - passed chain c"])
  ultimately show "ie_block_height e \<le> c \<or> e \<in> set (api_page chain n c)"
    using nth_passed [OF assms(1) i(1), of c] i(2) by (cases "i < passed chain c") auto
qed

definition ex_event_chain :: "indexer_event list" where
  "ex_event_chain = [ex_event 4 0 0, ex_event 5 0 0, ex_event 5 0 1]"

lemma ex_chain_ok:
  "in_chain_order ex_event_chain" "block_size ex_event_chain b \<le> 2"
  by (auto simp: ex_event_chain_def in_chain_order_def position_def block_size_def)

theorem rest_cursor_progress_witness:
  "rc_cursor (nextRestCursor (api_page ex_event_chain 2 3) 3 2) > 3"
  using rest_cursor_progress [OF ex_chain_ok(1) ex_chain_ok(2), of 3]
  by (simp add: nextRestCursor_cases ex_event_chain_def api_page_def events_after_def)

text \<open>
  C33. A catch-up applies every event exactly once. From any state that has applied some first part of
  the chain after its height - wherever the run before stopped, also in the middle of a block - the
  catch-up ends, and it has emitted one notification for each event that was missing, in chain order and
  for no other; the stored state then skips every one of them.
\<close>

theorem catch_up_exactly_once:
  assumes "storage_laws K" and "quiet_env K" and "api_serves K chain" and "in_chain_order chain"
    and "\<And>b. block_size chain b \<le> REST_PAGE_LIMIT"
    and "\<And>e. e \<in> set chain \<Longrightarrow> ie_block_height e \<le> h"
    and "truthy (ix_did K)" and "current g (iw_socket w)" and "sk_queue (iw_socket w) = []"
    and "s = synced K (iw_store w)" and "state_ok s"
    and "es = filter isProcessableEvent (events_after chain (sy_lastBlockHeight s))"
    and "distinct (map (\<lambda>e. (ie_block_height e, eventKey e)) es)" and "covers s es k"
    and "nat (h - sy_lastBlockHeight s) < fuel"
  shows "post (syncRest fuel K g)
    (\<lambda>finished w'. finished \<and> covers (synced K (iw_store w')) es (length es) \<and>
       (\<exists>ns. iw_notes w' = iw_notes w @ ns \<and> list_all2 notes_event ns (drop k es)))
    (\<lambda>_ _. False) w"
proof -
  have "sorted (map ie_block_height es)"
    using sorted_blocks [OF assms(4)] assms(12) by (simp add: events_after_def sorted_filter)
  with assms(13) have log: "event_log es" by (simp add: event_log_def)
  have start: "at_position K es k w k w"
    using assms(10,11,14) by (simp add: at_position_def)
  have "post (syncRestLoop fuel K g (the (ix_did K)) (sy_lastBlockHeight s))
      (\<lambda>finished w'. finished \<and> at_position K es k w (length es) w') (\<lambda>_ _. False) w"
    by (rule post_syncRestLoop [OF assms(1-5) assms(6) assms(12) log assms(8,9) start])
      (use assms(15) in \<open>simp_all add: kept_def\<close>)
  then have "post (syncRestLoop fuel K g (the (ix_did K)) (sy_lastBlockHeight s))
      (\<lambda>finished w'. finished \<and> covers (synced K (iw_store w')) es (length es) \<and>
         (\<exists>ns. iw_notes w' = iw_notes w @ ns \<and> list_all2 notes_event ns (drop k es)))
      (\<lambda>_ _. False) w"
    by (rule post_mono) (auto simp: at_position_def)
  with assms(7,10) show ?thesis by (simp add: syncRest_def wp)
qed

theorem catch_up_exactly_once_witness:
  "post (syncRest 9 (mem_idx ex_event_chain []) 0)
    (\<lambda>finished w'. finished \<and> (\<exists>ns. iw_notes w' = ns \<and> list_all2 notes_event ns ex_event_chain))
    (\<lambda>_ _. False) (idx_world new_socket)"
proof -
  have es: "filter isProcessableEvent (events_after ex_event_chain (sy_lastBlockHeight emptyState)) = ex_event_chain"
    by (simp add: ex_event_chain_def events_after_def emptyState_def)
  have size: "block_size ex_event_chain b \<le> REST_PAGE_LIMIT" for b
    using ex_chain_ok(2) [of b] by (simp add: REST_PAGE_LIMIT_def)
  have "distinct (map (\<lambda>e. (ie_block_height e, eventKey e)) ex_event_chain)"
    by (simp add: ex_event_chain_def eventKey_def)
  moreover have "covers emptyState ex_event_chain 0"
    by (rule emptyState_covers) (simp add: ex_event_chain_def)
  moreover have "sy_lastBlockHeight emptyState = 0" by (simp add: emptyState_def)
  moreover have "\<forall>e\<in>set ex_event_chain. ie_block_height e \<le> 5" by (simp add: ex_event_chain_def)
  ultimately show ?thesis
    by (intro post_mono [OF catch_up_exactly_once [where chain = ex_event_chain and h = 5 and k = 0
            and s = emptyState and es = ex_event_chain, OF mem_idx_laws(1-3) ex_chain_ok(1) size]])
      (use es in \<open>auto simp: emptyState_ok current_def new_socket_def\<close>)
qed

section \<open>The connection\<close>

text \<open>
  C34. Whatever order its calls, socket events, timers and awaits run in, and whatever the awaited calls
  run meanwhile, the service stays within its bounds: at most ten thousand events wait in the sync
  buffer, a pending reconnect is between one second and five minutes away, a stopped service has no
  socket, timer or watchdog, and only events that pass the filter are ever queued.
\<close>

theorem indexer_stays_in_bounds:
  assumes "calls_ok K" and "iw_ok K w"
  shows "case iw_socket (fold (sock_step K) cs w) of s \<Rightarrow>
    length (sk_syncBuffer s) \<le> 10000 \<and>
    (\<forall>d. sk_reconnectTimer s = Some d \<longrightarrow> 1000 \<le> d \<and> d \<le> 300000) \<and>
    (sk_stopped s \<longrightarrow> sk_reconnectTimer s = None \<and> \<not> sk_watchdog s \<and> sk_ws s = None) \<and>
    (\<forall>(e, g)\<in>set (sk_queue s). isProcessableEvent e)"
proof -
  have "sock_inv K (fold (sock_step K) cs w)"
    by (rule indexer.run_inv) (use assms in \<open>simp_all add: sock_inv_def list_all_iff\<close>)
  then show ?thesis
    by (auto simp: sock_inv_def sock_ok_def MAX_SYNC_BUFFER_def MAX_RECONNECT_DELAY_MS_def list_all_iff)
qed

theorem indexer_stays_in_bounds_witness:
  "length (sk_syncBuffer (iw_socket
     (fold (sock_step (mem_idx [] [])) [S_Start, S_Message 0 (Msg_Block [ex_event 1 0 0])]
       (idx_world new_socket)))) \<le> 10000"
  using indexer_stays_in_bounds [OF mem_idx_laws(4), where w = "idx_world new_socket"
      and cs = "[S_Start, S_Message 0 (Msg_Block [ex_event 1 0 0])]"]
  by (simp add: new_socket_ok)

lemma started_is_watched:
  assumes "calls_ok K" and "iw_ok K w" and "truthy (ix_did K)"
    and "s = iw_socket (fold (sock_step K) cs w)" and "sk_generation s > 0" and "\<not> sk_stopped s"
  shows "sk_reconnectTimer s \<noteq> None \<or> sk_ws s \<noteq> None \<and> sk_watchdog s"
proof -
  have "sock_inv K (fold (sock_step K) cs w)"
    by (rule indexer.run_inv) (use assms(1,2) in \<open>simp_all add: sock_inv_def list_all_iff\<close>)
  with assms(3-6) show ?thesis by (auto simp: sock_inv_def sock_ok_def)
qed

lemmas sock_run = sock_step_def start_def connect_def openWebSocket_def comp_defs on_socket_def
  armWatchdog_def clearWatchdog_def onClose_def onWatchdog_def resolveSubscribed_def
  scheduleReconnect_def forceReconnect_def stop_def Let_def new_socket_def idx_world_def

text \<open>
  C35. A lost connection is always replaced. After any sequence of commands, a service that was started and not
  stopped has a reconnect pending, or a current socket with the watchdog armed on it; when the current socket
  closes, or the watchdog fires because nothing was heard from it, a reconnect is pending at once; and when
  the reconnect timer fires, the service has a new socket with the watchdog armed, in a new generation that
  waits for its subscription. Whether the subscription then leads to a catch-up is not part of this: the late
  close of an older socket can end that wait.
\<close>

theorem lost_connection_is_replaced:
  assumes "calls_ok K" and "iw_ok K w" and "truthy (ix_did K)"
    and "w' = fold (sock_step K) cs w" and "sk_generation (iw_socket w') > 0" and "\<not> sk_stopped (iw_socket w')"
  shows "(sk_reconnectTimer (iw_socket w') \<noteq> None \<or>
      sk_ws (iw_socket w') \<noteq> None \<and> sk_watchdog (iw_socket w')) \<and>
    (\<forall>n. sk_ws (iw_socket w') = Some n \<longrightarrow>
       sk_reconnectTimer (iw_socket (sock_step K (S_Close n) w')) \<noteq> None) \<and>
    (sk_watchdog (iw_socket w') \<longrightarrow>
       sk_reconnectTimer (iw_socket (sock_step K S_Watchdog w')) \<noteq> None \<and>
       sk_ws (iw_socket (sock_step K S_Watchdog w')) = None) \<and>
    (sk_reconnectTimer (iw_socket w') \<noteq> None \<longrightarrow>
      (case iw_socket (sock_step K S_ReconnectTimer w') of s \<Rightarrow>
         sk_ws s = Some (sk_sockets (iw_socket w')) \<and> sk_watchdog s \<and> sk_reconnectTimer s = None \<and>
         sk_generation s = sk_generation (iw_socket w') + 1 \<and> sk_generation s \<in> set (sk_awaiting s)))"
  using started_is_watched [OF assms(1-3) refl, of cs] assms(3-6)
  by (auto simp: sock_run sock_step_def onReconnectTimer_def split: option.split)

text \<open>The socket closes, and the timer of the reconnect fires.\<close>

theorem lost_connection_is_replaced_witness:
  "case fold (sock_step (mem_idx [] [])) [S_Start] (idx_world new_socket) of w \<Rightarrow>
     sk_ws (iw_socket w) = Some 0 \<and>
     sk_reconnectTimer (iw_socket (sock_step (mem_idx [] []) (S_Close 0) w)) \<noteq> None"
proof -
  let ?w = "fold (sock_step (mem_idx [] [])) [S_Start] (idx_world new_socket)"
  have run: "sk_ws (iw_socket ?w) = Some 0" "sk_generation (iw_socket ?w) > 0" "\<not> sk_stopped (iw_socket ?w)"
    by (simp_all add: sock_run mem_idx_def)
  have "sk_reconnectTimer (iw_socket (sock_step (mem_idx [] []) (S_Close 0) ?w)) \<noteq> None"
    using lost_connection_is_replaced [OF mem_idx_laws(4) _ _ refl run(2,3)] run(1)
    by (simp add: new_socket_ok)
  with run(1) show ?thesis by simp
qed

text \<open>
  The retry delay doubles from one second and stops at five minutes; a socket that announces itself
  ready starts it over.
\<close>

theorem reconnect_delay_doubles:
  assumes "sk_reconnectTimer s = None" and "\<not> sk_stopped s"
  shows "sk_reconnectTimer (scheduleReconnect s) =
      Some (min (1000 * 2 ^ sk_reconnectAttempt s) 300000) \<and>
    sk_reconnectTimer (scheduleReconnect ((scheduleReconnect s)\<lparr>sk_reconnectTimer := None\<rparr>)) =
      map_option (\<lambda>d. min (2 * d) 300000) (sk_reconnectTimer (scheduleReconnect s)) \<and>
    scheduleReconnect (scheduleReconnect s) = scheduleReconnect s \<and>
    sk_reconnectAttempt (iw_socket (handleMessage K Msg_Ready w)) = 0"
  using assms
  by (simp add: scheduleReconnect_def MAX_RECONNECT_DELAY_MS_def handleMessage_def min_def)

theorem reconnect_delay_doubles_witness:
  "sk_reconnectTimer (scheduleReconnect new_socket) = Some 1000"
  using reconnect_delay_doubles [of new_socket "mem_idx [] []" "idx_world new_socket"]
  by (simp add: new_socket_def)

text \<open>The calls out leave the stored state alone.\<close>

definition store_untouched :: "('st, 'x) idx_env \<Rightarrow> bool" where
  "store_untouched K \<longleftrightarrow>
     (\<forall>st e. keeps (\<lambda>w. iw_store w = st) (fetchActivity K e)) \<and>
     (\<forall>st a ctx. keeps (\<lambda>w. iw_store w = st) (dispatch (ix_registry K) a ctx))"

lemma applyEvent_failure_keeps_store:
  assumes "store_untouched K"
  shows "post (applyEvent K e g) (\<lambda>_ _. True) (\<lambda>_ w'. iw_store w' = iw_store w) w"
proof -
  let ?I = "\<lambda>w'. iw_store w' = iw_store w"
  have save: "?I v \<Longrightarrow> post (saveSyncState K s) (\<lambda>_ _. True) (\<lambda>_. ?I) v" for s v
    by (auto simp: post_def saveSyncState_def split: sum.split)
  have changes: "post (applyChanges K e act s) (\<lambda>_. ?I) (\<lambda>_. ?I) v" if "?I v" for act s v
  proof (cases act)
    case (Some a)
    let ?ctx = "\<lparr> hc_blockHeight = ie_block_height e, hc_operatorAddress = pl_sender (ie_payload e),
      hc_state = applyStateMutation s a, hc_txHash = ie_tx_hash e \<rparr>"
    have "keeps ?I (dispatch (ix_registry K) a ?ctx)"
      using assms unfolding store_untouched_def by blast
    then have "post (dispatch (ix_registry K) a ?ctx) (\<lambda>_. ?I) (\<lambda>_. ?I) v"
      using that unfolding keeps_def by blast
    then show ?thesis
      using Some by (auto simp: applyChanges_def emitNotification_def wp elim!: post_mono)
  qed (use that in \<open>simp add: applyChanges_def emitNotification_def wp\<close>)
  have "keeps ?I (fetchActivity K e)"
    using assms unfolding store_untouched_def by blast
  then have "post (fetchActivity K e) (\<lambda>_. ?I) (\<lambda>_. ?I) w"
    unfolding keeps_def by blast
  then have "post (fetchActivity K e)
      (\<lambda>act v. if current g (iw_socket v) then
         post (applyChanges K e act (synced K (iw_store w)))
           (\<lambda>s1. post (saveSyncState K (markApplied e s1)) (\<lambda>_ _. True) (\<lambda>_. ?I)) (\<lambda>_. ?I) v
       else True) (\<lambda>_. ?I) w"
    by (rule post_mono) (auto intro!: post_mono [OF changes] save)
  then show ?thesis
    by (auto simp: applyEvent_def wp elim!: post_mono split: if_splits)
qed

lemma stale_task: "\<not> current g (iw_socket w) \<Longrightarrow> runLive K (e, g) w = (Inr (), w)"
  by (simp add: runLive_def applyEvent_def comp_defs)

lemma stale_tasks:
  "\<forall>(e, g)\<in>set ts. \<not> current g (iw_socket w) \<Longrightarrow> forM ts (runLive K) w = (Inr (), w)"
proof (induction ts)
  case (Cons t ts)
  then have "runLive K t w = (Inr (), w)" by (cases t) (auto intro: stale_task)
  with Cons show ?case by (simp add: sqn_def bnd_def)
qed (simp add: ret_def)

text \<open>
  A live event that fails is not skipped over: when applying it throws, the stored state is the one
  before, the service reconnects under a new generation, and every task queued behind it does nothing;
  the height cannot pass the failed event, so the catch-up of the next connection reads it again.
\<close>

theorem failed_event_stops_queue:
  assumes "store_untouched K" and "applyEvent K e g w = (Inl er, w1)" and "g = sk_generation (iw_socket w1)"
    and "\<not> sk_stopped (iw_socket w1)" and "\<And>f h. (f, h) \<in> set ts \<Longrightarrow> h \<le> g"
  shows "post (sqn (runLive K (e, g)) (forM ts (runLive K)))
    (\<lambda>_ w'. iw_store w' = iw_store w \<and> iw_notes w' = iw_notes w1 \<and>
       sk_generation (iw_socket w') = Suc g \<and> sk_ws (iw_socket w') = None \<and>
       sk_reconnectTimer (iw_socket w') \<noteq> None)
    (\<lambda>_ _. False) w"
proof -
  let ?w = "on_socket forceReconnect w1"
  have store: "iw_store w1 = iw_store w"
    using applyEvent_failure_keeps_store [OF assms(1), of e g w] assms(2) by (simp add: post_def)
  have "runLive K (e, g) w = (Inr (), ?w)"
    using assms(2,3) by (simp add: runLive_def catch_def modify_def on_socket_def)
  moreover have fr: "sk_generation (forceReconnect (iw_socket w1)) = Suc g"
      "sk_ws (forceReconnect (iw_socket w1)) = None"
      "sk_reconnectTimer (forceReconnect (iw_socket w1)) \<noteq> None"
    using assms(3,4) by (simp_all add: forceReconnect_def scheduleReconnect_def clearWatchdog_def)
  moreover have "forM ts (runLive K) ?w = (Inr (), ?w)"
    using assms(5) by (intro stale_tasks) (fastforce simp: current_def fr)
  ultimately show ?thesis
    using store by (simp add: post_def sqn_def bnd_def)
qed

definition ex_failing :: "(sync_state option, unit) iworld registry" where
  "ex_failing = [(''RevokeParticipant'', \<lambda>a ctx. throw (OtherError ''offline''))]"

lemma ex_failing_untouched: "store_untouched (mem_idx [] ex_failing)"
  by (auto simp: store_untouched_def mem_idx_def fetchActivity_def fetchEntity_def dispatch_def
      registry_get_def ex_failing_def Let_def intro!: keeps_rules)

theorem failed_event_stops_queue_witness:
  "post (sqn (runLive (mem_idx [] ex_failing) (ex_event 4 0 0, 0))
      (forM [(ex_event 5 0 0, 0)] (runLive (mem_idx [] ex_failing))))
    (\<lambda>_ w'. iw_store w' = None \<and> iw_notes w' = []) (\<lambda>_ _. False) (idx_world new_socket)"
proof -
  have "applyEvent (mem_idx [] ex_failing) (ex_event 4 0 0) 0 (idx_world new_socket) =
      (Inl (OtherError ''offline''), idx_world new_socket)"
    by (simp add: applyEvent_def comp_defs current_def new_socket_def loadSyncState_def
        alreadyApplied_def emptyState_def fetchActivity_def fetchEntity_def ex_event_def mem_idx_def
        applyChanges_def dispatch_def registry_get_def ex_failing_def idx_world_def synced_def)
  from failed_event_stops_queue [OF ex_failing_untouched this, of "[(ex_event 5 0 0, 0)]"]
  show ?thesis by (auto simp: new_socket_def elim!: post_mono)
qed

text \<open>
  A connection that closes during the catch-up is reported as in sync. The close schedules a
  reconnect but leaves the generation, so the catch-up that is still running ends as if the socket were
  open: until the reconnect, at most five minutes later, the status is synced while nothing is received.
\<close>

theorem closed_socket_reports_synced:
  assumes "sk_ws s = Some n" and "current g s" and "sk_phase s = Ph_CatchingUp"
  shows "syncStatus (connectSynced g (onClose n s)) = St_Synced \<and>
    sk_reconnectTimer (connectSynced g (onClose n s)) \<noteq> None"
proof -
  have fields: "sk_ws (resolveSubscribed out s) = sk_ws s"
    "sk_stopped (resolveSubscribed out s) = sk_stopped s"
    "sk_generation (resolveSubscribed out s) = sk_generation s" for out
    by (simp_all add: resolveSubscribed_def split: option.split)
  have "current g (onClose n s)" "sk_reconnectTimer (onClose n s) \<noteq> None"
    using assms(1,2)
    by (simp_all add: current_def onClose_def fields Let_def clearWatchdog_def scheduleReconnect_def)
  moreover have "sk_phase (fold (\<lambda>e. enqueueLive e g) es t) = sk_phase t \<and>
      sk_reconnectTimer (fold (\<lambda>e. enqueueLive e g) es t) = sk_reconnectTimer t" for es t
    by (induction es arbitrary: t) (simp_all add: enqueueLive_def)
  ultimately show ?thesis
    by (simp add: connectSynced_def drainSyncBuffer_def syncStatus_def)
qed

theorem closed_socket_reports_synced_witness:
  "syncStatus (connectSynced 1 (onClose 0
     (new_socket\<lparr>sk_ws := Some 0, sk_generation := 1, sk_phase := Ph_CatchingUp\<rparr>))) = St_Synced"
  using closed_socket_reports_synced
    [of "new_socket\<lparr>sk_ws := Some 0, sk_generation := 1, sk_phase := Ph_CatchingUp\<rparr>" 0 1]
  by (simp add: current_def new_socket_def)

text \<open>
  The close of an old socket can stop a new connection. A service that is stopped and started again
  before its first socket has closed takes that close for the failure of its new subscription: the new
  socket stays open and its events are buffered, but no catch-up runs, no reconnect is pending and the
  acknowledgement that arrives later changes nothing.
\<close>

theorem late_close_blocks_restart:
  "case iw_socket (fold (sock_step (mem_idx chain []))
     [S_Start, S_Stop, S_Start, S_Close 0, S_Resume fuel 2 Out_Disconnected,
      S_Message 1 (Msg_Subscribed b), S_Resume fuel 2 Out_Acknowledged, S_Resume fuel 2 Out_TimedOut]
     (idx_world new_socket)) of s \<Rightarrow>
   sk_ws s = Some 1 \<and> sk_syncing s \<and> syncStatus s = St_NeverSynced \<and>
   sk_reconnectTimer s = None \<and> sk_queue s = []"
  by (simp add: sock_run mem_idx_def resumeConnect_def connectSubscribed_def current_def onMessage_def
      handleMessage_def syncStatus_def)

end
