(* ===== verification/ChainProps.thy ===== *)
theory ChainProps
  imports HandlerRegistry
begin

text \<open>
  Properties of the state kept of the chain and of the handler registry, with their witnesses.
\<close>

section \<open>The mutations\<close>

text \<open>
  Replaying an event does no harm: applying a message to the state a second time in a row changes
  nothing, except that each new governance framework version counts.
\<close>

theorem state_mutation_idempotent:
  "applyStateMutation (applyStateMutation s a) a = applyStateMutation s a \<longleftrightarrow>
     ac_msg a \<noteq> ''IncreaseActiveGFVersion''"
proof (cases "ac_msg a = ''IncreaseActiveGFVersion''")
  case True
  then have "mutation_of a = Mut_Version" by (simp add: mutation_version)
  moreover have "sy_ecosystems (bumpActiveVersion (bumpActiveVersion s a) a) (ac_entity_id a) \<noteq>
      sy_ecosystems (bumpActiveVersion s a) (ac_entity_id a)"
    by (simp add: bumpActiveVersion_def Let_def)
  ultimately show ?thesis using True by (auto simp: applyStateMutation_def)
next
  case False
  then have "mutation_of a \<noteq> Mut_Version" by (simp add: mutation_version)
  then show ?thesis
    using False
    by (cases "mutation_of a") (simp_all add: applyStateMutation_def upsert_defs)
qed

text \<open>
  C36. A revoked participant stays revoked: once the state has it so, no sequence of messages, of this or
  of any other participant, brings it back or removes it.
\<close>

theorem revoked_participant_stays_revoked:
  assumes "sy_participants s i = Some p" and "sp_revoked p"
  shows "\<exists>q. sy_participants (fold (\<lambda>a s. applyStateMutation s a) as s) i = Some q \<and> sp_revoked q"
  using assms
proof (induction as arbitrary: s p)
  case (Cons a as)
  have "\<exists>q. sy_participants (applyStateMutation s a) i = Some q \<and> sp_revoked q"
    using Cons.prems mutation_slash_only [of a]
    by (cases "mutation_of a")
      (auto simp: applyStateMutation_def upsert_defs withDefault_not_False)
  then show ?case using Cons.IH by auto
qed simp

definition ex_activity :: "string \<Rightarrow> string \<Rightarrow> activity" where
  "ex_activity msg i =
     \<lparr> ac_timestamp = ''t'', ac_block_height = 5, ac_entity_type = ''Participant'',
       ac_entity_id = i, ac_msg = msg, ac_changes = [(''role'', JStr ''ISSUER'')],
       ac_account = ''verana1'' \<rparr>"

theorem revoked_participant_stays_revoked_witness:
  "\<exists>q. sy_participants (fold (\<lambda>a s. applyStateMutation s a)
      [ex_activity ''SetParticipantOPToValidated'' ''7'', ex_activity ''RenewParticipantOP'' ''7'']
      (applyStateMutation emptyState (ex_activity ''RevokeParticipant'' ''7''))) ''7'' = Some q \<and>
    sp_revoked q"
  by (rule revoked_participant_stays_revoked,
      simp add: applyStateMutation_def mutation_of_def ex_activity_def upsert_defs no_overrides_def, simp)

text \<open>
  The role of a participant is lost on the way into the state. The indexer names roles
  (\<open>ISSUER\<close>, \<open>HOLDER\<close>, ...), and \<open>toParticipant\<close> maps each to its number; the synchronisation
  state converts the name with \<open>Number\<close>, which is not a number for any of them, and reads back nothing
  once it was stored.
\<close>

theorem synced_role_is_not_a_number:
  assumes "mutation_of a = Mut_Participant ov"
    and "map_of (ac_changes a) ''role'' = Some (JStr (participant_role_str r))"
  shows "\<exists>p q. sy_participants (applyStateMutation s a) (ac_entity_id a) = Some p \<and>
    sp_role p = Some JsNaN \<and>
    sy_participants (stored_state (applyStateMutation s a)) (ac_entity_id a) = Some q \<and>
    sp_role q = None \<and>
    (pd_role d = participant_role_str r \<longrightarrow> cpt_role (toParticipant d) \<in> {1..6})"
proof -
  have "js_parse_number (participant_role_str r) = JsNaN"
    by (cases r; hypsubst; code_simp)
  with assms show ?thesis
    by (cases r)
      (simp_all add: applyStateMutation_def upsert_defs num_field_def present_def stored_state_def
        toParticipant_def ROLE_def)
qed

definition ex_participant :: participant_dto where
  "ex_participant =
     \<lparr> pd_id = 7, pd_schema_id = 3, pd_did = Some ''did:a'', pd_role = ''ISSUER'',
       pd_vs_operator = None, pd_participant_state = None, pd_op_state = Some ''VALIDATED'',
       pd_revoked = None, pd_slashed = None, pd_effective_from = None,
       pd_effective_until = None, pd_modified = [], pd_validator_participant_id = Some 1,
       pd_op_summary_digest = None, pd_validation_fees = None, pd_issuance_fees = None,
       pd_verification_fees = None, pd_issuance_fee_discount = None,
       pd_verification_fee_discount = None \<rparr>"

theorem synced_role_is_not_a_number_witness:
  "\<exists>p. sy_participants (applyStateMutation emptyState (ex_activity ''SelfCreateParticipant'' ''7'')) ''7'' =
     Some p \<and> sp_role p = Some JsNaN"
  using synced_role_is_not_a_number [of "ex_activity ''SelfCreateParticipant'' ''7''" no_overrides PR_Issuer
      emptyState ex_participant]
  by (auto simp: mutation_of_def ex_activity_def)

section \<open>Handlers\<close>

text \<open>
  Wrapping for the authorization cache keeps every handler: after it, each of the thirteen messages
  runs what was registered for it before and then the refresh or the invalidation, whose failure is
  swallowed; a message of neither list has the handler it had, and a failing original still fails.
\<close>

theorem authorization_wrapping_keeps_handlers:
  "registry_get (registerAuthorizationHandlers S r) msg =
     (if msg \<in> set REVOKE_MSGS then Some (wrapped (registry_get r msg) (revoke_effect S))
      else if msg \<in> set REFRESH_MSGS
      then Some (wrapped (registry_get r msg) (\<lambda>a. as_refreshForOperator S (ac_block_height a)))
      else registry_get r msg) \<and>
   (registry_get r msg = Some h \<and> h a ctx w = (Inl e, w') \<and> ac_msg a = msg \<longrightarrow>
      dispatch (registerAuthorizationHandlers S r) a ctx w = (Inl e, w'))"
proof -
  have get: "registry_get (registerAuthorizationHandlers S r) msg =
     (if msg \<in> set REVOKE_MSGS then Some (wrapped (registry_get r msg) (revoke_effect S))
      else if msg \<in> set REFRESH_MSGS
      then Some (wrapped (registry_get r msg) (\<lambda>a. as_refreshForOperator S (ac_block_height a)))
      else registry_get r msg)"
    unfolding registerAuthorizationHandlers_def
    using message_lists(3)
    by (auto simp: wrap_all [OF message_lists(1)] wrap_all [OF message_lists(2)])
  then show ?thesis
    by (auto simp: dispatch_def wrapped_def sqn_def bnd_def)
qed

theorem authorization_wrapping_keeps_handlers_witness:
  "dispatch (registerAuthorizationHandlers
      \<lparr> as_refreshForOperator = \<lambda>b. ret (), as_invalidateParticipant = \<lambda>q. ret () \<rparr>
      [(''RevokeParticipant'', \<lambda>a ctx. throw (OtherError ''offline''))])
     (ex_activity ''RevokeParticipant'' ''7'')
     \<lparr> hc_blockHeight = 5, hc_operatorAddress = ''verana1'', hc_state = emptyState, hc_txHash = ''AB'' \<rparr>
     () = (Inl (OtherError ''offline''), ())"
  by (rule authorization_wrapping_keeps_handlers [where msg = "''RevokeParticipant''"
          and h = "\<lambda>a ctx. throw (OtherError ''offline'')", THEN conjunct2, THEN mp])
    (simp add: registry_get_def throw_def ex_activity_def)

end
