(* ===== verification/JsText.thy ===== *)
theory JsText
  imports JsValues
begin

text \<open>
  Texts the orchestrator reads: \<open>JSON.parse\<close>, the object spread, \<open>Date.parse\<close> of ISO 8601 forms, and the
  loop with a deadline that every lookup of the agent is.

  A string is the list of the bytes of its UTF-8 form; an escaped surrogate pair is left as the forms
  of its two code units. A date text that is not ISO 8601 is left to the engine in ECMAScript, so
  \<open>iso_parse\<close> answers \<open>None\<close> for it. A date with a time and no offset is read in UTC.
\<close>

section \<open>\<open>JSON.parse\<close>\<close>

definition is_json_space :: "char \<Rightarrow> bool" where
  "is_json_space c \<longleftrightarrow> (of_char c :: nat) \<in> {9, 10, 13, 32}"

abbreviation skip_space :: "string \<Rightarrow> string" where
  "skip_space s \<equiv> dropWhile is_json_space s"

definition utf8 :: "nat \<Rightarrow> string" where
  "utf8 n =
     (if n < 128 then [char_of n]
      else if n < 2048 then [char_of (192 + n div 64), char_of (128 + n mod 64)]
      else [char_of (224 + n div 4096), char_of (128 + n div 64 mod 64), char_of (128 + n mod 64)])"

text \<open>The body of a string literal, up to and without its closing quote.\<close>

fun json_string :: "string \<Rightarrow> (string \<times> string) option" where
  "json_string [] = None"
| "json_string (c # s) =
     (let n = of_char c :: nat
      in if n = 34 then Some ([], s)
         else if n < 32 then None
         else if n \<noteq> 92 then map_option (\<lambda>(t, r). (c # t, r)) (json_string s)
         else case s of
             [] \<Rightarrow> None
           | e # s1 \<Rightarrow>
               (let m = of_char e :: nat;
                    simple = map_of [(34, 34), (92, 92), (47, 47), (98, 8), (102, 12), (110, 10),
                                     (114, 13), (116, 9)] m
                in case simple of
                     Some k \<Rightarrow> map_option (\<lambda>(t, r). (char_of (k :: nat) # t, r)) (json_string s1)
                   | None \<Rightarrow>
                       if m = 117 then
                         (case s1 of
                            a # b # c1 # d # s2 \<Rightarrow>
                              (case base_value 16 0 [a, b, c1, d] of
                                 None \<Rightarrow> None
                               | Some k \<Rightarrow> map_option (\<lambda>(t, r). (utf8 k @ t, r)) (json_string s2))
                          | _ \<Rightarrow> None)
                       else None))"

definition json_number :: "string \<Rightarrow> (json \<times> string) option" where
  "json_number s =
     (let inTok = (\<lambda>c. is_digit c \<or> c \<in> set ''+-.eE'');
          tok = takeWhile inTok s; rest = dropWhile inTok s;
          neg = (tok \<noteq> [] \<and> hd tok = CHR ''-''); r = (if neg then tl tok else tok);
          w = takeWhile is_digit r; after = dropWhile is_digit r;
          ok = (w \<noteq> [] \<and> (hd w = CHR ''0'' \<longrightarrow> length w = 1) \<and>
                (after \<noteq> [] \<and> hd after = CHR ''.'' \<longrightarrow> length after > 1 \<and> is_digit (after ! 1)))
      in if ok then map_option (\<lambda>q. (JNum (if neg then - q else q), rest)) (decimal_value r)
         else None)"

text \<open>
  A value; the elements of an array after \<open>[\<close> and the members of an object after \<open>{\<close>, with the reader of
  a value as an argument. Every nested value and every further element consumes a character, so the
  length of the text is fuel enough.
\<close>

type_synonym json_reader = "string \<Rightarrow> (json \<times> string) option"

text \<open>The next character that is not a space, and what follows it.\<close>

definition next_char :: "string \<Rightarrow> (nat \<times> string) option" where
  "next_char s = (case skip_space s of [] \<Rightarrow> None | c # r \<Rightarrow> Some (of_char c, r))"

primrec json_elements :: "nat \<Rightarrow> json_reader \<Rightarrow> json list \<Rightarrow> json_reader" where
  "json_elements 0 rd xs s = None"
| "json_elements (Suc k) rd xs s =
     Option.bind (rd s) (\<lambda>(v, r).
     Option.bind (next_char r) (\<lambda>(c, u).
     if c = 93 then Some (JArr (xs @ [v]), u)
     else if c = 44 then json_elements k rd (xs @ [v]) u
     else None))"

definition json_member :: "json_reader \<Rightarrow> string \<Rightarrow> ((string \<times> json) \<times> string) option" where
  "json_member rd s =
     Option.bind (next_char s) (\<lambda>(c, r).
     if c \<noteq> 34 then None
     else Option.bind (json_string r) (\<lambda>(key, r1).
       Option.bind (next_char r1) (\<lambda>(d, r2).
       if d \<noteq> 58 then None
       else map_option (\<lambda>(v, r3). ((key, v), r3)) (rd r2))))"

primrec json_members :: "nat \<Rightarrow> json_reader \<Rightarrow> (string \<times> json) list \<Rightarrow> json_reader" where
  "json_members 0 rd ms s = None"
| "json_members (Suc k) rd ms s =
     Option.bind (json_member rd s) (\<lambda>((key, v), r).
     Option.bind (next_char r) (\<lambda>(c, u).
     let ms1 = jsmap_set key v ms
     in if c = 125 then Some (JObj ms1, u)
        else if c = 44 then json_members k rd ms1 u
        else None))"

definition json_bracketed ::
  "nat \<Rightarrow> json \<Rightarrow> (string \<Rightarrow> (json \<times> string) option) \<Rightarrow> string \<Rightarrow> (json \<times> string) option" where
  "json_bracketed close none more s =
     Option.bind (next_char s) (\<lambda>(c, u). if c = close then Some (none, u) else more s)"

primrec json_value :: "nat \<Rightarrow> json_reader" where
  "json_value 0 s0 = None"
| "json_value (Suc k) s0 =
     (let s = skip_space s0
      in if take 4 s = ''null'' then Some (JNull, drop 4 s)
         else if take 4 s = ''true'' then Some (JBool True, drop 4 s)
         else if take 5 s = ''false'' then Some (JBool False, drop 5 s)
         else Option.bind (next_char s) (\<lambda>(c, r).
           if c = 34 then map_option (\<lambda>(t, u). (JStr t, u)) (json_string r)
           else if c = 91 then json_bracketed 93 (JArr []) (json_elements k (json_value k) []) r
           else if c = 123 then json_bracketed 125 (JObj []) (json_members k (json_value k) []) r
           else json_number s))"

definition JSON_parse :: "string \<Rightarrow> json option" where
  "JSON_parse s =
     (case json_value (length s + 1) s of
        Some (v, r) \<Rightarrow> if skip_space r = [] then Some v else None
      | None \<Rightarrow> None)"

section \<open>Objects\<close>

fun fields :: "json \<Rightarrow> (string \<times> json) list" where
  "fields (JObj ps) = ps"
| "fields _ = []"

text \<open>\<open>v.k\<close>: undefined on everything that is not an object with that member.\<close>

definition member :: "json \<Rightarrow> string \<Rightarrow> json option" where
  "member v k = map_of (fields v) k"

fun as_string :: "json option \<Rightarrow> string option" where
  "as_string (Some (JStr s)) = Some s"
| "as_string _ = None"

text \<open>\<open>{ ...a, ...b }\<close>.\<close>

definition spread :: "(string \<times> json) list \<Rightarrow> (string \<times> json) list \<Rightarrow> (string \<times> json) list" where
  "spread a b = fold (\<lambda>(k, v). jsmap_set k v) b a"

lemma map_of_spread: "distinct (map fst b) \<Longrightarrow> map_of (spread a b) = map_of a ++ map_of b"
proof (induction b arbitrary: a)
  case Nil
  then show ?case by (simp add: spread_def)
next
  case (Cons p b)
  obtain k v where p: "p = (k, v)" by (cases p)
  have "map_of (spread a (p # b)) = map_of (spread (jsmap_set k v a) b)"
    by (simp add: spread_def p)
  also have "\<dots> = (map_of a)(k \<mapsto> v) ++ map_of b" using Cons by simp
  also have "\<dots> = map_of a ++ map_of (p # b)"
  proof -
    have "map_of b k = None" using Cons.prems by (simp add: p map_of_eq_None_iff)
    then show ?thesis by (auto simp: p map_add_def fun_eq_iff split: option.split)
  qed
  finally show ?case .
qed

section \<open>\<open>Date.parse\<close>\<close>

definition leap :: "int \<Rightarrow> bool" where
  "leap y \<longleftrightarrow> 4 dvd y \<and> (\<not> 100 dvd y \<or> 400 dvd y)"

definition days_in_month :: "int \<Rightarrow> int \<Rightarrow> int" where
  "days_in_month y m =
     (if m = 2 then (if leap y then 29 else 28) else if m \<in> {4, 6, 9, 11} then 30 else 31)"

definition days_from_civil :: "int \<Rightarrow> int \<Rightarrow> int \<Rightarrow> int" where
  "days_from_civil y0 m d =
     (let y = (if m \<le> 2 then y0 - 1 else y0); era = y div 400; yoe = y mod 400;
          mp = (if m > 2 then m - 3 else m + 9);
          doy = (153 * mp + 2) div 5 + d - 1;
          doe = yoe * 365 + yoe div 4 - yoe div 100 + doy
      in era * 146097 + doe - 719468)"

definition take_digits :: "nat \<Rightarrow> string \<Rightarrow> (int \<times> string) option" where
  "take_digits n s =
     (if length (take n s) = n \<and> list_all is_digit (take n s)
      then Some (int (digits_value (take n s)), drop n s) else None)"

fun expect :: "char \<Rightarrow> string \<Rightarrow> string option" where
  "expect c [] = None"
| "expect c (d # s) = (if d = c then Some s else None)"

text \<open>\<open>HH:mm(:ss(.s+)?)?\<close> in milliseconds.\<close>

definition iso_seconds :: "string \<Rightarrow> (int \<times> string) option" where
  "iso_seconds s =
     (case expect (CHR '':'') s of
        None \<Rightarrow> Some (0, s)
      | Some s1 \<Rightarrow>
          (case take_digits 2 s1 of
             None \<Rightarrow> None
           | Some (sec, s2) \<Rightarrow>
               if sec > 59 then None
               else case expect (CHR ''.'') s2 of
                   None \<Rightarrow> Some (sec * 1000, s2)
                 | Some s3 \<Rightarrow>
                     (let ds = takeWhile is_digit s3
                      in if ds = [] then None
                         else Some (sec * 1000 +
                                (1000 * int (digits_value ds)) div 10 ^ length ds,
                              dropWhile is_digit s3))))"

definition iso_time :: "string \<Rightarrow> (int \<times> string) option" where
  "iso_time s =
     Option.bind (take_digits 2 s) (\<lambda>(h, s1).
     Option.bind (expect (CHR '':'') s1) (\<lambda>s2.
     Option.bind (take_digits 2 s2) (\<lambda>(mi, s3).
     Option.bind (iso_seconds s3) (\<lambda>(ms, s4).
     if mi > 59 \<or> h > 24 \<or> (h = 24 \<and> (mi \<noteq> 0 \<or> ms \<noteq> 0)) then None
     else Some (h * 3600000 + mi * 60000 + ms, s4)))))"

definition iso_offset :: "string \<Rightarrow> int option" where
  "iso_offset s =
     (case s of
        [] \<Rightarrow> Some 0
      | c # r \<Rightarrow>
          if c = CHR ''Z'' then (if r = [] then Some 0 else None)
          else if c = CHR ''+'' \<or> c = CHR ''-'' then
            Option.bind (take_digits 2 r) (\<lambda>(h, r1).
            Option.bind (expect (CHR '':'') r1) (\<lambda>r2.
            Option.bind (take_digits 2 r2) (\<lambda>(mi, r3).
            if r3 \<noteq> [] \<or> h > 23 \<or> mi > 59 then None
            else Some ((if c = CHR ''+'' then 1 else - 1) * (h * 3600000 + mi * 60000)))))
          else None)"

text \<open>\<open>YYYY(-MM(-DD)?)?\<close>, with the rest of the text.\<close>

definition iso_date :: "string \<Rightarrow> (int \<times> string) option" where
  "iso_date s =
     Option.bind (take_digits 4 s) (\<lambda>(y, s1).
     case Option.bind (expect (CHR ''-'') s1) (take_digits 2) of
       None \<Rightarrow> Some (days_from_civil y 1 1, s1)
     | Some (m, s2) \<Rightarrow>
         if m < 1 \<or> m > 12 then None
         else case Option.bind (expect (CHR ''-'') s2) (take_digits 2) of
             None \<Rightarrow> Some (days_from_civil y m 1, s2)
           | Some (d, s3) \<Rightarrow>
               if d < 1 \<or> d > days_in_month y m then None else Some (days_from_civil y m d, s3))"

definition iso_parse :: "string \<Rightarrow> int option" where
  "iso_parse s =
     Option.bind (iso_date s) (\<lambda>(days, r).
     if r = [] then Some (days * 86400000)
     else Option.bind (expect (CHR ''T'') r) (\<lambda>r1.
       Option.bind (iso_time r1) (\<lambda>(ms, r2).
       Option.bind (iso_offset r2) (\<lambda>off. Some (days * 86400000 + ms - off)))))"

section \<open>A lookup with a deadline\<close>

text \<open>
  \<open>for (;;) { ...attempt...; await sleep }\<close>: from the values of the loop's variables, the attempt answers
  \<open>Inl\<close> to leave the loop with a result and \<open>Inr\<close> to go on with new values. Out of fuel the result is
  \<open>None\<close>.
\<close>

fun poll ::
  "nat \<Rightarrow> ('b \<Rightarrow> ('s, 'e, 'a + 'b) comp) \<Rightarrow> ('s, 'e, unit) comp \<Rightarrow> 'b \<Rightarrow> ('s, 'e, 'a option) comp" where
  "poll 0 attempt pause b = ret None"
| "poll (Suc k) attempt pause b =
     bnd (attempt b) (\<lambda>r. case r of
        Inl x \<Rightarrow> ret (Some x)
      | Inr c \<Rightarrow> sqn pause (poll k attempt pause c))"

lemma post_case_sum [wp]:
  "post (case x of Inl a \<Rightarrow> f a | Inr b \<Rightarrow> g b) Q E s =
     (case x of Inl a \<Rightarrow> post (f a) Q E s | Inr b \<Rightarrow> post (g b) Q E s)"
  by (cases x) simp_all

text \<open>
  The contract of such a loop: \<open>left\<close> is the time to its deadline; a pause takes at least \<open>every\<close> of it,
  and an attempt past the deadline leaves the loop. Then a bounded number of rounds is enough.
\<close>

locale deadline_loop =
  fixes attempt :: "'b \<Rightarrow> ('s, 'e, 'a + 'b) comp"
    and pause :: "('s, 'e, unit) comp"
    and inv :: "'b \<Rightarrow> 's \<Rightarrow> bool"
    and left :: "'s \<Rightarrow> int"
    and every :: int
  assumes attempt_ends: "inv b s \<Longrightarrow>
      post (attempt b) (\<lambda>r t. \<forall>c. r = Inr c \<longrightarrow> inv c t \<and> 0 < left s \<and> left t \<le> left s)
        (\<lambda>_ _. True) s"
    and pause_passes: "inv b s \<Longrightarrow>
      post pause (\<lambda>_ t. inv b t \<and> left t \<le> left s - every) (\<lambda>_ _. True) s"
begin

lemma loop_ends:
  assumes "inv b s" and "left s \<le> int n * every"
  shows "post (poll (Suc n) attempt pause b) (\<lambda>r _. r \<noteq> None) (\<lambda>_ _. True) s"
  using assms
proof (induction n arbitrary: b s)
  case 0
  from attempt_ends [OF 0(1)] show ?case
    unfolding poll.simps post_bnd
    by (rule post_mono) (use 0(2) in \<open>auto simp: wp split: sum.split\<close>)
next
  case (Suc n)
  from attempt_ends [OF Suc.prems(1)] show ?case
    unfolding poll.simps(2) [of "Suc n"] post_bnd
  proof (rule post_mono, goal_cases)
    case (1 r t)
    show ?case
    proof (cases r)
      case (Inr c)
      with 1 have t: "inv c t" "left t \<le> left s" by auto
      from pause_passes [OF t(1)]
      have "post pause (\<lambda>_. post (poll (Suc n) attempt pause c) (\<lambda>r _. r \<noteq> None) (\<lambda>_ _. True))
        (\<lambda>_ _. True) t"
      proof (rule post_mono, goal_cases)
        case (1 x u)
        have "int (Suc n) * every = int n * every + every" by (simp add: algebra_simps)
        with 1 t(2) Suc.prems(2) have "left u \<le> int n * every" by linarith
        with 1 Suc.IH show ?case by blast
      qed simp
      then show ?thesis by (simp only: Inr sum.case post_sqn)
    qed (simp add: wp)
  qed simp
qed

end

end
