(* ===== verification/FeePreflight.thy ===== *)
theory FeePreflight
  imports JsText FlowMessages
begin

text \<open>
  Transactions and who pays them: the fee allowances of \<open>VeranaChainService.ts\<close>, the fee preflight of
  \<open>feePreflight.ts\<close>, and the messages the agent signs.

  \<open>'s chain_calls\<close> is the signing client of cosmjs, code outside \<open>src\<close>: each of its calls is an
  arbitrary computation. The amounts cosmjs renders as decimal strings are integers here. Protobuf
  encoding is left out: a decoded allowance or message is the record itself.
\<close>

section \<open>What a call can answer\<close>

definition answers :: "('s, 'e, 'a) comp \<Rightarrow> 'a \<Rightarrow> bool" where
  "answers m a \<longleftrightarrow> (\<exists>s t. m s = (Inr a, t))"

lemma answersI: "m s = (Inr a, t) \<Longrightarrow> answers m a"
  by (auto simp: answers_def)

lemma post_answers:
  assumes "\<And>a t. answers m a \<Longrightarrow> Q a t" and "\<And>e t. E e t"
  shows "post m Q E s"
  using assms by (intro postI) (auto intro: answersI)

section \<open>Messages, fees, allowances\<close>

text \<open>
  The messages the agent signs. A \<open>Date\<close> is its time in milliseconds, \<open>None\<close> when it is invalid.
\<close>

record to_validated =
  tv_corporation :: string
  tv_operator :: string
  tv_id :: jsnum
  tv_effectiveUntil :: "int option option"
  tv_validationFees :: rat
  tv_issuanceFees :: rat
  tv_verificationFees :: rat
  tv_opSummaryDigest :: "string option"
  tv_issuanceFeeDiscount :: int
  tv_verificationFeeDiscount :: int

record session_anchor =
  sa_corporation :: string
  sa_operator :: string
  sa_id :: string
  sa_issuerParticipantId :: int
  sa_agentParticipantId :: jsnum
  sa_walletAgentParticipantId :: jsnum
  sa_digest :: string

text \<open>The messages about an entry that name nothing but it.\<close>

record entry_msg =
  em_corporation :: string
  em_operator :: string
  em_id :: int

datatype chain_msg =
    MsgSetParticipantOPToValidated to_validated
  | MsgCreateOrUpdateParticipantSession session_anchor
  | MsgRenewParticipantOP entry_msg
  | MsgCancelParticipantOPLastRequest entry_msg
  | MsgTriggerResolver entry_msg

record std_fee =
  fee_amount :: "(string \<times> int) list"
  fee_gas :: string
  fee_granter :: "string option"

datatype fee_allowance = Unlimited | Limited int

definition amountOf :: "(string \<times> int) list \<Rightarrow> string \<Rightarrow> int" where
  "amountOf coins denom = withDefault (map_of coins denom) 0"

text \<open>\<open>hasPassed\<close>: a timestamp is its seconds.\<close>

definition hasPassed :: "int option \<Rightarrow> int \<Rightarrow> bool" where
  "hasPassed ts now = (case ts of None \<Rightarrow> False | Some sec \<Rightarrow> sec * 1000 \<le> now)"

record basic_allowance =
  ba_spendLimit :: "(string \<times> int) list"
  ba_expiration :: "int option"

datatype granted =
    AllowedMsgAllowance "granted option"
  | BasicAllowance basic_allowance
  | PeriodicAllowance "basic_allowance option" "(string \<times> int) list" "(string \<times> int) list" "int option"
  | OtherAllowance

text \<open>
  \<open>PeriodicAllowance basic periodSpendLimit periodCanSpend periodReset\<close>. Only one level of
  \<open>AllowedMsgAllowance\<close> is unwrapped.
\<close>

definition feeAllowanceOf :: "granted option \<Rightarrow> string \<Rightarrow> int \<Rightarrow> fee_allowance option" where
  "feeAllowanceOf allowance denom now =
     (case (case allowance of Some (AllowedMsgAllowance inner) \<Rightarrow> inner | _ \<Rightarrow> allowance) of
        Some (BasicAllowance b) \<Rightarrow>
          if hasPassed (ba_expiration b) now then None
          else if ba_spendLimit b = [] then Some Unlimited
          else Some (Limited (amountOf (ba_spendLimit b) denom))
      | Some (PeriodicAllowance basic spendLimit canSpend reset) \<Rightarrow>
          if hasPassed (Option.bind basic ba_expiration) now then None
          else
            let inPeriod = amountOf (if hasPassed reset now then spendLimit else canSpend) denom;
                overall = (case basic of None \<Rightarrow> [] | Some b \<Rightarrow> ba_spendLimit b)
            in Some (Limited (if overall = [] then inPeriod
                 else if inPeriod < amountOf overall denom then inPeriod
                 else amountOf overall denom))
      | _ \<Rightarrow> None)"

section \<open>The preflight\<close>

definition FEE_DENOM :: string where
  "FEE_DENOM = ''uvna''"

datatype fee_preflight = Fee std_fee | Stopped vt_flow_tx_reason string

record 's chain_calls =
  ch_feeAllowance :: "string \<Rightarrow> string \<Rightarrow> ('s, err, fee_allowance option) comp"
  ch_estimateFee :: "chain_msg list \<Rightarrow> string option \<Rightarrow> ('s, err, std_fee) comp"
  ch_getAccountBalance :: "string \<Rightarrow> string \<Rightarrow> ('s, err, int) comp"
  ch_getBalance :: "string \<Rightarrow> ('s, err, int) comp"
  ch_signAndBroadcast :: "chain_msg list \<Rightarrow> std_fee \<Rightarrow> ('s, err, string) comp"
  ch_signAndBroadcastSync :: "chain_msg list \<Rightarrow> std_fee \<Rightarrow> ('s, err, string) comp"
  ch_findTx :: "string \<Rightarrow> ('s, err, (int \<times> int \<times> string) option) comp"

text \<open>\<open>try { x = await call } catch (error) { return failed(PreflightError, error) }\<close>.\<close>

definition try_read ::
  "('s, err, 'a) comp \<Rightarrow> ('a \<Rightarrow> ('s, err, fee_preflight) comp) \<Rightarrow> ('s, err, fee_preflight) comp" where
  "try_read m k =
     bnd (catch (bnd m (\<lambda>x. ret (Inr x))) (\<lambda>e. ret (Inl e))) (\<lambda>r. case r of
        Inl e \<Rightarrow> ret (Stopped PreflightError (error_message e))
      | Inr x \<Rightarrow> k x)"

definition fee_amount_due :: "std_fee \<Rightarrow> int" where
  "fee_amount_due f = amountOf (fee_amount f) FEE_DENOM"

text \<open>The Corporation pays through its grant, when its own account holds the amount.\<close>

definition corporationPays ::
  "'s chain_calls \<Rightarrow> string \<Rightarrow> std_fee \<Rightarrow> ('s, err, fee_preflight) comp" where
  "corporationPays C granter fee =
     try_read (ch_getAccountBalance C granter FEE_DENOM) (\<lambda>corporation.
     if corporation < fee_amount_due fee
     then ret (Stopped InsufficientFundsCorporation
            (''the Corporation holds '' @ int_str corporation @ FEE_DENOM))
     else ret (Fee fee))"

definition agentPays :: "'s chain_calls \<Rightarrow> std_fee \<Rightarrow> ('s, err, fee_preflight) comp" where
  "agentPays C fee =
     try_read (ch_getBalance C FEE_DENOM) (\<lambda>own.
     if own < fee_amount_due fee
     then ret (Stopped InsufficientFundsAgent
            (''the agent account holds '' @ int_str own @ FEE_DENOM))
     else ret (Fee fee))"

text \<open>The second half of the preflight: whether the payer can pay the estimated fee.\<close>

definition checkPayer ::
  "'s chain_calls \<Rightarrow> string option \<Rightarrow> fee_allowance option \<Rightarrow> std_fee \<Rightarrow>
   ('s, err, fee_preflight) comp" where
  "checkPayer C granter allowance fee =
     (if \<not> truthy granter then agentPays C fee
      else case allowance of
          Some (Limited remaining) \<Rightarrow>
            if remaining < fee_amount_due fee
            then ret (Stopped FeegrantExhausted
                   (''the fee allowance has '' @ int_str remaining @ FEE_DENOM @ '' left''))
            else corporationPays C (the granter) fee
        | _ \<Rightarrow> corporationPays C (the granter) fee)"

definition preflightFee ::
  "'s chain_calls \<Rightarrow> chain_msg \<Rightarrow> string option \<Rightarrow> ('s, err, fee_preflight) comp" where
  "preflightFee C message granter =
     try_read (if truthy granter then ch_feeAllowance C (the granter) FEE_DENOM else ret None)
      (\<lambda>allowance.
     if truthy granter \<and> allowance = None
     then ret (Stopped FeegrantExpired ''the Corporation grants the agent no active fee allowance'')
     else try_read (ch_estimateFee C [message] granter) (checkPayer C granter allowance))"

section \<open>What the preflight lets through\<close>

lemma post_try_read [wp]:
  "post (try_read m k) Q E s =
     post m (\<lambda>x. post (k x) Q E) (\<lambda>e. Q (Stopped PreflightError (error_message e))) s"
  by (simp add: try_read_def post_def comp_defs split: prod.split sum.split)

text \<open>The payer of a fee holds it, as the chain answered.\<close>

definition payer_covers :: "'s chain_calls \<Rightarrow> string option \<Rightarrow> int \<Rightarrow> bool" where
  "payer_covers C granter amount \<longleftrightarrow>
     (if truthy granter then
        (\<exists>al bal. answers (ch_feeAllowance C (the granter) FEE_DENOM) (Some al) \<and>
           (\<forall>n. al = Limited n \<longrightarrow> amount \<le> n) \<and>
           answers (ch_getAccountBalance C (the granter) FEE_DENOM) bal \<and> amount \<le> bal)
      else (\<exists>own. answers (ch_getBalance C FEE_DENOM) own \<and> amount \<le> own))"

lemma payer_coversI:
  "truthy granter \<Longrightarrow> answers (ch_feeAllowance C (the granter) FEE_DENOM) (Some al) \<Longrightarrow>
     \<forall>n. al = Limited n \<longrightarrow> amount \<le> n \<Longrightarrow>
     answers (ch_getAccountBalance C (the granter) FEE_DENOM) bal \<Longrightarrow> amount \<le> bal \<Longrightarrow>
     payer_covers C granter amount"
  "\<not> truthy granter \<Longrightarrow> answers (ch_getBalance C FEE_DENOM) own \<Longrightarrow> amount \<le> own \<Longrightarrow>
     payer_covers C granter amount"
  by (auto simp: payer_covers_def)

lemma post_checkPayer:
  assumes al: "truthy granter \<Longrightarrow> \<exists>a. allowance = Some a \<and>
      answers (ch_feeAllowance C (the granter) FEE_DENOM) (Some a)"
    and fee: "\<And>t. payer_covers C granter (fee_amount_due fee) \<Longrightarrow> Q (Fee fee) t"
    and stop: "\<And>reason error t. Q (Stopped reason error) t"
  shows "post (checkPayer C granter allowance fee) Q E s"
proof (cases "truthy granter")
  case True
  with al obtain a where a: "allowance = Some a"
    "answers (ch_feeAllowance C (the granter) FEE_DENOM) (Some a)" by blast
  have pays: "post (corporationPays C (the granter) fee) Q E s"
    if "\<forall>n. a = Limited n \<longrightarrow> fee_amount_due fee \<le> n"
    unfolding corporationPays_def post_try_read
    by (rule post_answers)
      (use that a(2) True in \<open>auto simp: wp not_less stop intro!: fee payer_coversI(1)\<close>)
  then show ?thesis
    using True a(1) by (cases a) (auto simp: checkPayer_def wp stop)
next
  case False
  show ?thesis
    unfolding checkPayer_def agentPays_def if_P [OF False] post_try_read
    by (rule post_answers)
      (use False in \<open>auto simp: wp not_less stop intro!: fee payer_coversI(2)\<close>)
qed

lemma post_preflightFee:
  assumes fee: "\<And>fee t. answers (ch_estimateFee C [message] granter) fee \<Longrightarrow>
      payer_covers C granter (fee_amount_due fee) \<Longrightarrow> Q (Fee fee) t"
    and stop: "\<And>reason error t. Q (Stopped reason error) t"
  shows "post (preflightFee C message granter) Q E s"
proof -
  have rest: "post (try_read (ch_estimateFee C [message] granter) (checkPayer C granter allowance)) Q E t"
    if "truthy granter \<Longrightarrow> \<exists>a. allowance = Some a \<and>
      answers (ch_feeAllowance C (the granter) FEE_DENOM) (Some a)" for allowance t
    unfolding post_try_read
    by (rule post_answers) (auto intro!: post_checkPayer fee stop that)
  show ?thesis
  proof (cases "truthy granter")
    case True
    show ?thesis
      unfolding preflightFee_def post_try_read if_P [OF True]
      by (rule post_answers) (use rest in \<open>auto simp: True post_ret stop\<close>)
  next
    case False
    with rest [of None s] show ?thesis by (simp add: preflightFee_def wp)
  qed
qed

end
