(* ===== verification/Authorization.thy ===== *)
theory Authorization
  imports FeePreflight ChainState
begin

text \<open>
  What the agent may sign: the authorization records of the indexer's delegation pages
  (\<open>VeranaIndexerService.ts\<close>), the cache \<open>AuthorizationService\<close> keeps of them, and the payer of a
  transaction (\<open>feeGranterFor\<close>). The stateful calls take the current time as an argument; the agent's
  environment supplies it.
\<close>

section \<open>Durations\<close>

record duration_param =
  du_seconds :: jsnum
  du_nanos :: "int option"

datatype raw_duration = DurationText string | DurationFields "json option" "int option"

text \<open>\<open>Number.parseFloat\<close>: the longest prefix that is a number; \<open>None\<close> is NaN.\<close>

definition number_prefix :: "string \<Rightarrow> rat option" where
  "number_prefix s =
     (case find (\<lambda>n. decimal_value (take n s) \<noteq> None) (rev [1..<Suc (length s)]) of
        None \<Rightarrow> None
      | Some n \<Rightarrow> decimal_value (take n s))"

definition parseFloat :: "string \<Rightarrow> jsnum" where
  "parseFloat s0 =
     (case take_sign (dropWhile is_space s0) of (neg, s) \<Rightarrow>
        if take 8 s = ''Infinity'' then JsInf neg
        else case number_prefix s of
               None \<Rightarrow> JsNaN
             | Some q \<Rightarrow> JsFin (if neg then - q else q))"

definition js_trunc :: "rat \<Rightarrow> rat" where
  "js_trunc q = (if q < 0 then - of_int \<lfloor>- q\<rfloor> else of_int \<lfloor>q\<rfloor>)"

definition toDuration :: "raw_duration option \<Rightarrow> duration_param option" where
  "toDuration raw =
     (case raw of
        None \<Rightarrow> None
      | Some (DurationText t) \<Rightarrow>
          (case parseFloat (if t \<noteq> [] \<and> last t = CHR ''s'' then butlast t else t) of
             JsFin q \<Rightarrow> Some \<lparr> du_seconds = JsFin (js_trunc q), du_nanos = None \<rparr>
           | _ \<Rightarrow> None)
      | Some (DurationFields sec nanos) \<Rightarrow>
          Some \<lparr> du_seconds = (case sec of
                   None \<Rightarrow> JsFin 0 | Some JNull \<Rightarrow> JsFin 0 | Some v \<Rightarrow> js_Number v),
                 du_nanos = nanos \<rparr>)"

section \<open>Delegation pages\<close>

record raw_operator_authorization =
  ro_id :: int
  ro_corporation_id :: int
  ro_operator :: string
  ro_msg_types :: "string list option"
  ro_expiration :: "string option"
  ro_period :: "raw_duration option"

record raw_vs_record =
  rv_participant_id :: int
  rv_msg_types :: "string list option"
  rv_with_feegrant :: "bool option"
  rv_expiration :: "string option"
  rv_period :: "raw_duration option"

record raw_vs_authorization =
  rw_id :: int
  rw_corporation_id :: int
  rw_vs_operator :: string
  rw_records :: "raw_vs_record list option"

record 'a delegation_page =
  dp_atBlock :: "int option"
  dp_authorizations :: "'a list option"

record operator_authorization =
  oa_id :: int
  oa_corporationId :: int
  oa_operator :: string
  oa_msgTypes :: "string list"
  oa_expiration :: "string option"
  oa_period :: "duration_param option"

record vs_record =
  vr_participantId :: int
  vr_msgTypes :: "string list"
  vr_withFeegrant :: bool
  vr_expiration :: "string option"
  vr_period :: "duration_param option"

record vs_authorization =
  va_id :: int
  va_corporationId :: int
  va_vsOperator :: string
  va_records :: "vs_record list"

text \<open>The rows of the two lists; a \<open>Date\<close> is kept as its text.\<close>

definition toOperatorAuthorization :: "raw_operator_authorization \<Rightarrow> operator_authorization" where
  "toOperatorAuthorization a =
     \<lparr> oa_id = ro_id a, oa_corporationId = ro_corporation_id a, oa_operator = ro_operator a,
       oa_msgTypes = withDefault (ro_msg_types a) [], oa_expiration = dto_date (ro_expiration a),
       oa_period = toDuration (ro_period a) \<rparr>"

definition toVsRecord :: "raw_vs_record \<Rightarrow> vs_record" where
  "toVsRecord r =
     \<lparr> vr_participantId = rv_participant_id r, vr_msgTypes = withDefault (rv_msg_types r) [],
       vr_withFeegrant = withDefault (rv_with_feegrant r) False,
       vr_expiration = dto_date (rv_expiration r), vr_period = toDuration (rv_period r) \<rparr>"

definition toVsAuthorization :: "raw_vs_authorization \<Rightarrow> vs_authorization" where
  "toVsAuthorization a =
     \<lparr> va_id = rw_id a, va_corporationId = rw_corporation_id a, va_vsOperator = rw_vs_operator a,
       va_records = map toVsRecord (withDefault (rw_records a) []) \<rparr>"

text \<open>
  One round of \<open>delegationPage\<close>: the rows once the projection has reached the block, an error past the
  deadline, and otherwise another round.
\<close>

definition msg_never_reached :: "int \<Rightarrow> int \<Rightarrow> string \<Rightarrow> string" where
  "msg_never_reached atBlock minBlock path =
     ''[VeranaIndexer] delegation checkpoint '' @ int_str atBlock @ '' never reached block '' @
     int_str minBlock @ '' for '' @ path"

definition delegation_round ::
  "('s, err, 'a delegation_page) comp \<Rightarrow> ('s, err, int) comp \<Rightarrow> string \<Rightarrow> int option \<Rightarrow> int \<Rightarrow>
   ('s, err, 'a list + unit) comp" where
  "delegation_round fetch now path minBlock deadline =
     bnd fetch (\<lambda>data.
     let atBlock = withDefault (dp_atBlock data) 0
     in case minBlock of
          None \<Rightarrow> ret (Inl (withDefault (dp_authorizations data) []))
        | Some b \<Rightarrow>
            if b \<le> atBlock then ret (Inl (withDefault (dp_authorizations data) []))
            else bnd now (\<lambda>t.
              if deadline \<le> t then throw (OtherError (msg_never_reached atBlock b path))
              else ret (Inr ())))"

definition DELEGATION_CATCHUP_TIMEOUT_MS :: int where
  "DELEGATION_CATCHUP_TIMEOUT_MS = 15000"

definition CATCHUP_INTERVAL_MS :: int where
  "CATCHUP_INTERVAL_MS = 500"

definition delegationPage ::
  "nat \<Rightarrow> ('s, err, 'a delegation_page) comp \<Rightarrow> ('s, err, int) comp \<Rightarrow> (int \<Rightarrow> ('s, err, unit) comp) \<Rightarrow>
   string \<Rightarrow> int option \<Rightarrow> ('s, err, 'a list option) comp" where
  "delegationPage fuel fetch now sleep path minBlock =
     bnd now (\<lambda>t.
     poll fuel (\<lambda>_. delegation_round fetch now path minBlock (t + DELEGATION_CATCHUP_TIMEOUT_MS))
       (sleep CATCHUP_INTERVAL_MS) ())"

section \<open>The cache\<close>

record cached_record = vs_record +
  cr_corporationId :: int
  cr_vsOperator :: string

record auth_service =
  au_vsoaByParticipant :: "(int \<times> cached_record) list"
  au_lastRefreshAt :: int
  au_lastRefreshAtBlock :: int
  au_corporationId :: "int option"
  au_minRefreshIntervalMs :: int

definition new_auth_service :: "int option \<Rightarrow> int option \<Rightarrow> auth_service" where
  "new_auth_service corp interval =
     \<lparr> au_vsoaByParticipant = [], au_lastRefreshAt = 0, au_lastRefreshAtBlock = 0,
       au_corporationId = corp, au_minRefreshIntervalMs = withDefault interval 2000 \<rparr>"

text \<open>\<open>a.expiration\<close> as a time: \<open>None\<close> for an invalid date, which no comparison accepts.\<close>

definition renews :: "duration_param option \<Rightarrow> bool" where
  "renews period =
     (case period of
        None \<Rightarrow> False
      | Some d \<Rightarrow>
          (case du_seconds d of JsNaN \<Rightarrow> False | JsInf neg \<Rightarrow> \<not> neg | JsFin q \<Rightarrow> 0 < q) \<or>
          0 < withDefault (du_nanos d) 0)"

definition isAuthorizationActive ::
  "(string \<Rightarrow> int option) \<Rightarrow> int \<Rightarrow> string option \<Rightarrow> duration_param option \<Rightarrow> bool" where
  "isAuthorizationActive dateTime now expiration period \<longleftrightarrow>
     (case expiration of
        None \<Rightarrow> True
      | Some e \<Rightarrow> (case dateTime e of None \<Rightarrow> False | Some t \<Rightarrow> now < t)) \<or> renews period"

text \<open>\<open>AUTHZ-CHECK-3\<close>; a text that is no date compares false, so it neither starts late nor ends.\<close>

definition isActiveParticipant ::
  "(string \<Rightarrow> int option) \<Rightarrow> int \<Rightarrow> participant_dto \<Rightarrow> bool" where
  "isActiveParticipant dateTime now p =
     (if \<not> truthy (pd_effective_from p) \<or>
         (case dateTime (the (pd_effective_from p)) of None \<Rightarrow> False | Some t \<Rightarrow> now < t)
      then False
      else if truthy (pd_effective_until p) \<and>
         (case dateTime (the (pd_effective_until p)) of None \<Rightarrow> False | Some t \<Rightarrow> t \<le> now)
      then False
      else \<not> truthy (pd_revoked p) \<and> \<not> truthy (pd_slashed p))"

definition inScope :: "auth_service \<Rightarrow> int \<Rightarrow> bool" where
  "inScope S c \<longleftrightarrow> au_corporationId S = None \<or> au_corporationId S = Some c"

definition refresh_due :: "auth_service \<Rightarrow> int option \<Rightarrow> int \<Rightarrow> bool" where
  "refresh_due S minBlock now \<longleftrightarrow>
     (case minBlock of None \<Rightarrow> False | Some b \<Rightarrow> au_lastRefreshAtBlock S < b) \<or>
     au_minRefreshIntervalMs S \<le> now - au_lastRefreshAt S"

definition cache_record :: "vs_authorization \<Rightarrow> vs_record \<Rightarrow> cached_record" where
  "cache_record v r =
     \<lparr> vr_participantId = vr_participantId r, vr_msgTypes = vr_msgTypes r,
       vr_withFeegrant = vr_withFeegrant r, vr_expiration = vr_expiration r,
       vr_period = vr_period r, cr_corporationId = va_corporationId v,
       cr_vsOperator = va_vsOperator v \<rparr>"

definition rebuilt_cache :: "auth_service \<Rightarrow> vs_authorization list \<Rightarrow> (int \<times> cached_record) list" where
  "rebuilt_cache S vsoas =
     fold (\<lambda>v m. if inScope S (va_corporationId v)
                 then fold (\<lambda>r. jsmap_set (vr_participantId r) (cache_record v r)) (va_records v) m
                 else m) vsoas []"

definition refreshed :: "auth_service \<Rightarrow> vs_authorization list \<Rightarrow> int option \<Rightarrow> int \<Rightarrow> auth_service" where
  "refreshed S vsoas minBlock now =
     S\<lparr>au_lastRefreshAt := now,
       au_lastRefreshAtBlock := withDefault minBlock (au_lastRefreshAtBlock S),
       au_vsoaByParticipant := rebuilt_cache S vsoas\<rparr>"

definition invalidateParticipant :: "int \<Rightarrow> auth_service \<Rightarrow> auth_service" where
  "invalidateParticipant i S = S\<lparr>au_vsoaByParticipant := jsmap_delete i (au_vsoaByParticipant S)\<rparr>"

definition getVsOperatorAuthorizationRecord :: "auth_service \<Rightarrow> int \<Rightarrow> cached_record option" where
  "getVsOperatorAuthorizationRecord S i = map_of (au_vsoaByParticipant S) i"

definition listVsOperatorAuthorizationRecords :: "auth_service \<Rightarrow> cached_record list" where
  "listVsOperatorAuthorizationRecords S = map snd (au_vsoaByParticipant S)"

definition canSign ::
  "(string \<Rightarrow> int option) \<Rightarrow> int \<Rightarrow> auth_service \<Rightarrow> participant_dto \<Rightarrow> string \<Rightarrow> bool" where
  "canSign dateTime now S p msgType =
     (case map_of (au_vsoaByParticipant S) (pd_id p) of
        None \<Rightarrow> False
      | Some r \<Rightarrow> msgType \<in> set (vr_msgTypes r) \<and> isActiveParticipant dateTime now p)"

text \<open>\<open>callerHoldsOperatorGrant\<close> on the operator authorizations of the account.\<close>

definition holdsOperatorGrant ::
  "(string \<Rightarrow> int option) \<Rightarrow> int \<Rightarrow> auth_service \<Rightarrow> string \<Rightarrow> operator_authorization list \<Rightarrow> bool" where
  "holdsOperatorGrant dateTime now S msgType auths =
     list_ex (\<lambda>a. inScope S (oa_corporationId a) \<and> msgType \<in> set (oa_msgTypes a) \<and>
       isAuthorizationActive dateTime now (oa_expiration a) (oa_period a)) auths"

definition blank_account :: "string \<Rightarrow> bool" where
  "blank_account a \<longleftrightarrow> js_trim a = []"

text \<open>The payer: the Corporation when the record of the entry has \<open>with_feegrant\<close>, else the agent.\<close>

definition feeGranterFor ::
  "string option \<Rightarrow> auth_service option \<Rightarrow> int option \<Rightarrow> string option" where
  "feeGranterFor corporation service participantId =
     (case (corporation, participantId) of
        (Some c, Some i) \<Rightarrow>
          (case Option.bind service (\<lambda>S. getVsOperatorAuthorizationRecord S i) of
             Some r \<Rightarrow> if vr_withFeegrant r then Some c else None
           | None \<Rightarrow> None)
      | _ \<Rightarrow> None)"

section \<open>What a refresh leaves in the cache\<close>

lemma find_SomeD: "find P xs = Some x \<Longrightarrow> x \<in> set xs \<and> P x"
  by (induction xs) (auto split: if_splits)

lemma map_of_fold_cache:
  "map_of (fold (\<lambda>r. jsmap_set (vr_participantId r) (cache_record v r)) rs m) i =
     (case find (\<lambda>r. vr_participantId r = i) (rev rs) of
        Some r \<Rightarrow> Some (cache_record v r) | None \<Rightarrow> map_of m i)"
proof (induction rs rule: rev_induct)
  case Nil
  then show ?case by simp
next
  case (snoc r rs)
  then show ?case by auto
qed

definition cache_page :: "auth_service \<Rightarrow> vs_authorization \<Rightarrow> (int \<times> cached_record) list \<Rightarrow>
   (int \<times> cached_record) list" where
  "cache_page S v m =
     (if inScope S (va_corporationId v)
      then fold (\<lambda>r. jsmap_set (vr_participantId r) (cache_record v r)) (va_records v) m
      else m)"

end
