(* ===== verification/EcsSchemas.thy ===== *)
theory EcsSchemas
  imports JsText ChainState "HOL-Library.List_Lexorder" "HOL-Library.Multiset"
begin

text \<open>
  The JSON schemas of the Essential Credential Schemas (\<open>packages/model/src/utils/ecs.ts\<close>): canonical
  form, digest, classification, and the \<open>validUntil\<close> requirement; and the data model of a credential
  (\<open>agent-sdk/src/utils/vcdm2.ts\<close>).

  The base64 form of a SHA-384 digest is the argument \<open>H\<close>: it comes from the Web Crypto API. Object keys
  are compared by their bytes, which is the order of their code points.
\<close>

section \<open>The canonical form\<close>

definition hex_digit :: "nat \<Rightarrow> char" where
  "hex_digit n = char_of (if n < 10 then 48 + n else 87 + n)"

definition json_escape :: "char \<Rightarrow> string" where
  "json_escape c =
     (let n = of_char c :: nat
      in if n = 34 then [CHR 0x5C, CHR 0x22]
         else if n = 92 then [CHR 0x5C, CHR 0x5C]
         else if n = 8 then [CHR 0x5C, CHR ''b'']
         else if n = 12 then [CHR 0x5C, CHR ''f'']
         else if n = 10 then [CHR 0x5C, CHR ''n'']
         else if n = 13 then [CHR 0x5C, CHR ''r'']
         else if n = 9 then [CHR 0x5C, CHR ''t'']
         else if n < 32 then CHR 0x5C # ''u00'' @ [hex_digit (n div 16), hex_digit (n mod 16)]
         else [c])"

definition json_quote :: "string \<Rightarrow> string" where
  "json_quote s = CHR 0x22 # concat (map json_escape s) @ [CHR 0x22]"

definition key_order :: "string \<times> 'a \<Rightarrow> nat list" where
  "key_order p = map of_char (fst p)"

definition canonical_object :: "(string \<times> string) list \<Rightarrow> string" where
  "canonical_object ps =
     ''{'' @ join_with '','' (map (\<lambda>(k, t). json_quote k @ '':'' @ t) (sort_key key_order ps)) @ ''}''"

function canonicalize :: "json \<Rightarrow> string" where
  "canonicalize JNull = ''null''"
| "canonicalize (JBool b) = (if b then ''true'' else ''false'')"
| "canonicalize (JNum q) = rat_str q"
| "canonicalize (JStr s) = json_quote s"
| "canonicalize (JArr xs) = ''['' @ join_with '','' (map canonicalize xs) @ '']''"
| "canonicalize (JObj ps) = canonical_object (map (\<lambda>p. (fst p, canonicalize (snd p))) ps)"
  by pat_completeness auto

lemma size_member: "p \<in> set ps \<Longrightarrow> size (snd p) < Suc (size_list (size_prod (\<lambda>_. 0) size) ps)"
  by (induction ps) auto

termination canonicalize
  by (relation "measure size") (auto simp: less_Suc_eq_le size_list_estimation' dest!: size_member)

section \<open>Digest and classification\<close>

datatype ecs = ECS_SERVICE | ECS_ORG | ECS_PERSONA | ECS_USER_AGENT | ECS_BADGE | Inherited string

text \<open>
  \<open>Inherited k\<close> is not a member of the enum: it is what the lookup in an object literal answers for the
  name \<open>k\<close> of a member of \<open>Object.prototype\<close>.
\<close>

fun ecs_str :: "ecs \<Rightarrow> string" where
  "ecs_str ECS_SERVICE = ''ecs-service''"
| "ecs_str ECS_ORG = ''ecs-org''"
| "ecs_str ECS_PERSONA = ''ecs-persona''"
| "ecs_str ECS_USER_AGENT = ''ecs-user-agent''"
| "ecs_str ECS_BADGE = ''ecs-badge''"
| "ecs_str (Inherited k) = k"

definition ECS_SCHEMA_DIGESTS :: "(ecs \<times> string) list" where
  "ECS_SCHEMA_DIGESTS =
     [(ECS_SERVICE, ''sha384-0v+BAFGpnBX/RVqH9dUlMglxMrD4AKy4qUtb1lMN4iW9I2gO7XjcUfmGOf0oInP3''),
      (ECS_ORG, ''sha384-UPn4TDqS1nMBAN3FyMzTAZOWp99zBjBD69OjpbhwOKZj7iOrS5qPwJ2SArRz0yzu''),
      (ECS_PERSONA, ''sha384-VfXTfuks02OkoR5USaTfEdc4NU25m4+vNrLATnjC0r0Pn1S3tFTdOvGCfSYdjE2I''),
      (ECS_USER_AGENT, ''sha384-rIWkh3zBD1Ak7CNGpAwZ/ONSmf+ywOYSF3H60ULc9/a1ZYKv6EqiQMJ2dm8dOfjm''),
      (ECS_BADGE, ''sha384-ZxJ2aRpoF/5DJSILWwOES6bmpMg3RZYOfO2CCF8hC/YDNvU+PhCqAnAXq/66nXCq'')]"

text \<open>\<open>{ $id: _, ...rest }\<close>: the own members but for \<open>$id\<close>; an array and a string have their indices.\<close>

fun own_members :: "json \<Rightarrow> (string \<times> json) list" where
  "own_members (JObj ps) = ps"
| "own_members (JArr xs) = zip (map nat_str [0..<length xs]) xs"
| "own_members (JStr s) = zip (map nat_str [0..<length s]) (map (\<lambda>c. JStr [c]) s)"
| "own_members _ = []"

definition without_id :: "json \<Rightarrow> (string \<times> json) list" where
  "without_id v = filter (\<lambda>p. fst p \<noteq> ''$id'') (own_members v)"

definition computeSchemaDigest :: "(string \<Rightarrow> string) \<Rightarrow> json \<Rightarrow> string" where
  "computeSchemaDigest H schema = ''sha384-'' @ H (canonicalize (JObj (without_id schema)))"

definition identifySchema :: "(string \<Rightarrow> string) \<Rightarrow> json \<Rightarrow> ecs option" where
  "identifySchema H schema =
     map_option fst (find (\<lambda>p. snd p = computeSchemaDigest H schema) ECS_SCHEMA_DIGESTS)"

definition object_prototype :: "string list" where
  "object_prototype =
     [''constructor'', ''__proto__'', ''hasOwnProperty'', ''isPrototypeOf'', ''propertyIsEnumerable'',
      ''toLocaleString'', ''toString'', ''valueOf'', ''__defineGetter__'', ''__defineSetter__'',
      ''__lookupGetter__'', ''__lookupSetter__'']"

definition ECS_TITLE_BY_TYPE :: "string \<Rightarrow> ecs option" where
  "ECS_TITLE_BY_TYPE title =
     (case map_of
        [(''ServiceCredential'', ECS_SERVICE), (''OrganizationCredential'', ECS_ORG),
         (''PersonaCredential'', ECS_PERSONA), (''UserAgentCredential'', ECS_USER_AGENT),
         (''BadgeCredential'', ECS_BADGE)] title of
        Some e \<Rightarrow> Some e
      | None \<Rightarrow> if title \<in> set object_prototype then Some (Inherited title) else None)"

definition classifyEcsSchema :: "(string \<Rightarrow> string) \<Rightarrow> string \<Rightarrow> ecs option" where
  "classifyEcsSchema H text0 =
     (case JSON_parse text0 of
        None \<Rightarrow> None
      | Some JNull \<Rightarrow> None
      | Some parsed \<Rightarrow>
          (case identifySchema H parsed of
             Some e \<Rightarrow> Some e
           | None \<Rightarrow>
               (let title = withDefault (as_string (member parsed ''title'')) []
                in ECS_TITLE_BY_TYPE title)))"

definition schemaRequiresValidUntil :: "string \<Rightarrow> bool" where
  "schemaRequiresValidUntil text0 =
     (case Option.bind (JSON_parse text0) (\<lambda>v. member v ''required'') of
        Some (JArr xs) \<Rightarrow> JStr ''validUntil'' \<in> set xs
      | _ \<Rightarrow> False)"

section \<open>The data model of a credential\<close>

definition CREDENTIALS_CONTEXT_V2_URL :: string where
  "CREDENTIALS_CONTEXT_V2_URL = ''https://www.w3.org/ns/credentials/v2''"

definition CREDENTIALS_UNDEFINED_TERMS_V2_URL :: string where
  "CREDENTIALS_UNDEFINED_TERMS_V2_URL = ''https://www.w3.org/ns/credentials/undefined-terms/v2''"

definition CREDENTIALS_V2_CONTEXT :: "string list" where
  "CREDENTIALS_V2_CONTEXT = [CREDENTIALS_CONTEXT_V2_URL, CREDENTIALS_UNDEFINED_TERMS_V2_URL]"

definition isVcdm2Credential :: "json \<Rightarrow> bool" where
  "isVcdm2Credential credential =
     ((case member credential ''@context'' of
         Some (JArr xs) \<Rightarrow> (case xs of [] \<Rightarrow> None | x # _ \<Rightarrow> Some x)
       | c \<Rightarrow> c) = Some (JStr CREDENTIALS_CONTEXT_V2_URL))"

definition isDataIntegrityVcdm2Credential :: "json \<Rightarrow> bool" where
  "isDataIntegrityVcdm2Credential credential =
     (let proofs = (case member credential ''proof'' of
            Some (JArr xs) \<Rightarrow> xs
          | Some p \<Rightarrow> if js_truthy p then [p] else []
          | None \<Rightarrow> [])
      in isVcdm2Credential credential \<and> proofs \<noteq> [] \<and>
         list_all (\<lambda>p. member p ''type'' = Some (JStr ''DataIntegrityProof'')) proofs)"

section \<open>The order of members does not matter\<close>

text \<open>Two JSON values that differ in the order of the members of their objects, at any depth.\<close>

inductive reordered :: "json \<Rightarrow> json \<Rightarrow> bool" where
  same: "reordered v v"
| array: "list_all2 reordered xs ys \<Longrightarrow> reordered (JArr xs) (JArr ys)"
| object: "distinct (map fst ps) \<Longrightarrow> mset qs = mset ps \<Longrightarrow>
     list_all2 (\<lambda>p r. fst p = fst r \<and> reordered (snd p) (snd r)) qs rs \<Longrightarrow>
     reordered (JObj ps) (JObj rs)"

lemma inj_key_order: "map (of_char :: char \<Rightarrow> nat) s = map of_char t \<Longrightarrow> s = t"
  using inj_map_eq_map [of "of_char :: char \<Rightarrow> nat"] by (simp add: inj_def)

lemma sort_key_perm:
  fixes f :: "'a \<Rightarrow> 'b::linorder"
  assumes "mset xs = mset ys" and "inj_on f (set xs)"
  shows "sort_key f xs = sort_key f ys"
  by (rule sort_key_inj_key_eq [OF _ assms(2)]) (simp_all add: assms(1))

lemma canonical_object_perm:
  assumes "mset ps = mset qs" and "distinct (map fst ps)"
  shows "canonical_object ps = canonical_object qs"
proof -
  have "inj_on key_order (set ps)"
  proof (rule inj_onI)
    fix p q
    assume "p \<in> set ps" "q \<in> set ps" "key_order p = key_order q"
    then have "fst p = fst q" by (auto simp: key_order_def dest: inj_key_order)
    with \<open>p \<in> set ps\<close> \<open>q \<in> set ps\<close> assms(2) show "p = q"
      by (metis eq_key_imp_eq_value prod.collapse)
  qed
  with assms(1) have "sort_key key_order ps = sort_key key_order qs" by (rule sort_key_perm)
  then show ?thesis by (simp add: canonical_object_def)
qed

lemma canonicalize_reordered: "reordered v w \<Longrightarrow> canonicalize v = canonicalize w"
proof (induction rule: reordered.induct)
  case (same v)
  show ?case ..
next
  case (array xs ys)
  then have "map canonicalize xs = map canonicalize ys"
    by (induction rule: list_all2_induct) auto
  then show ?case by simp
next
  case (object ps qs rs)
  let ?c = "map (\<lambda>p. (fst p, canonicalize (snd p)))"
  have "?c qs = ?c rs" using object(3)
    by (induction rule: list_all2_induct) auto
  moreover have "canonical_object (?c ps) = canonical_object (?c qs)"
    using object(1,2) by (intro canonical_object_perm) (simp_all add: comp_def)
  ultimately show ?case by simp
qed

text \<open>A schema whose title is the name of a member of \<open>Object.prototype\<close> is classified as an ECS.\<close>

lemma inherited_title_classified:
  assumes "JSON_parse t = Some (JObj ps)" and "map_of ps ''title'' = Some (JStr ''toString'')"
    and "identifySchema H (JObj ps) = None"
  shows "classifyEcsSchema H t = Some (Inherited ''toString'')"
  using assms
  by (simp add: classifyEcsSchema_def member_def ECS_TITLE_BY_TYPE_def object_prototype_def)

end
