(* ===== verification/AgentEnv.thy ===== *)
theory AgentEnv
  imports FlowApi Authorization EcsSchemas
begin

text \<open>
  The agent around the vt-flow package: the part of the world the orchestrator adds, the code outside
  \<open>src\<close> it calls, and the helpers under \<open>utils/\<close> and \<open>blockchain/\<close> it goes through.

  \<open>'y agent_state\<close> is the \<open>ext\<close> part of the world: the module-level sets and maps of
  \<open>VtFlowOrchestrator.ts\<close> and \<open>utils/agent.ts\<close>, the authorization cache, the calls left running without
  an await, the transactions handed to the signing client so far, the pending resolver triggers of
  \<open>blockchain/triggerResolver.ts\<close>, and an opaque rest.
  \<open>('st, 'y) agent\<close> holds the environment of the vt-flow package (\<open>ag_flow\<close>) and every other call as an
  arbitrary computation on the whole world, so that whatever runs while the code awaits is part of it.
\<close>

section \<open>The world of the agent\<close>

record 'y agent_state =
  ax_marking :: "string set"
  ax_continuing :: "string \<rightharpoonup> nat"
  ax_ticket :: nat
  ax_connecting :: "string set"
  ax_tasks :: "string list"
  ax_auth :: "auth_service option"
  ax_signed :: "(chain_msg list \<times> std_fee) list"
  ax_triggers :: "(string \<times> string) list"
  ax_rest :: 'y

type_synonym ('st, 'y) agent_world = "('st, 'y agent_state) world"

type_synonym ('st, 'y, 'a) act = "(('st, 'y) agent_world, err, 'a) comp"

record ecosystem_dto =
  ed_id :: int
  ed_did :: "string option"
  ed_archived :: "string option"

record session_dto =
  ss_id :: string
  ss_session_records :: "int option list option"

record participant_filter =
  pf_schemaId :: "jsnum option"
  pf_role :: "participant_role option"
  pf_did :: "string option"
  pf_participantState :: "string option"

record w3c_options =
  w3_id :: string
  w3_type :: "string list"
  w3_issuer :: "string option"
  w3_context :: "string list"
  w3_credentialSubject :: json
  w3_credentialSchema :: json
  w3_validFrom :: string
  w3_validUntil :: "string option"

record vtjsc_entry =
  ve_credentialId :: "string option"
  ve_presentationId :: "string option"
  ve_firstCredentialId :: "string option"
  ve_attached :: "bool option"

record ('st, 'y) chain_client =
  cc_calls :: "('st, 'y) agent_world chain_calls"
  cc_address :: string
  cc_corporation :: string
  cc_chainId :: string

text \<open>
  \<open>lv_createVtc\<close> and \<open>lv_removeStored\<close> stand for the store of trust credentials of
  \<open>utils/trustCredentialStore.ts\<close>. A session record is its \<open>issuer_participant_id\<close>. An indexer read by id answers \<open>None\<close> for a 404 and
  throws on any other failure.
\<close>

record ('st, 'y) agent =
  ag_flow :: "('st, 'y agent_state) env"
  ag_did :: "string option"
  ag_chain :: "('st, 'y) chain_client option"
  ag_publicApiBaseUrl :: "string option"
  ag_agentParticipantId :: "int option"
  ag_walletAgentParticipantId :: "int option"
  ag_trustedEcosystemDids :: "string list option"
  ag_indexerUrl :: string
  ag_toValidatedUrl :: string
  ag_fuel :: nat
  ag_sleep :: "int \<Rightarrow> ('st, 'y, unit) act"
  ag_awaitRun :: "string \<Rightarrow> nat \<Rightarrow> ('st, 'y, unit) act"
  ag_awaitConnecting :: "string \<Rightarrow> ('st, 'y, string) act"
  ag_legacyDate :: "string \<Rightarrow> int option"
  ag_ajv :: "json option \<Rightarrow> json \<Rightarrow> err + (string \<times> string) list"
  ag_sha384 :: "string \<Rightarrow> string"
  ag_digestJCS :: "json \<Rightarrow> string \<Rightarrow> err + string"
  ag_credentialJson :: "w3c_options \<Rightarrow> json"
  ix_participant :: "string \<Rightarrow> ('st, 'y, participant_dto option) act"
  ix_schema :: "string \<Rightarrow> ('st, 'y, credential_schema_dto option) act"
  ix_ecosystem :: "string \<Rightarrow> ('st, 'y, ecosystem_dto option) act"
  ix_session :: "string \<Rightarrow> ('st, 'y, session_dto option) act"
  ix_digest :: "string \<Rightarrow> ('st, 'y, string option) act"
  ix_participants :: "participant_filter \<Rightarrow> ('st, 'y, participant_dto list) act"
  ix_operatorAuthorizations ::
    "string \<Rightarrow> ('st, 'y, raw_operator_authorization delegation_page) act"
  ix_vsOperatorAuthorizations ::
    "string \<Rightarrow> ('st, 'y, raw_vs_authorization delegation_page) act"
  dc_findConnections :: "string \<Rightarrow> ('st, 'y, (did_connection \<times> string option) list) act"
  dc_deleteConnection :: "string \<Rightarrow> ('st, 'y, unit) act"
  dc_receiveImplicitInvitation :: "string \<Rightarrow> string \<Rightarrow> ('st, 'y, did_connection option) act"
  dc_setPublicDid :: "did_connection \<Rightarrow> string \<Rightarrow> ('st, 'y, unit) act"
  dc_returnWhenIsConnected :: "string \<Rightarrow> ('st, 'y, did_connection) act"
  dc_getFormatData :: "string \<Rightarrow> ('st, 'y, json option) act"
  di_createdVtjscs :: "string \<Rightarrow> ('st, 'y, (string \<times> vtjsc_entry) list option) act"
  di_serviceEndpoint :: "string \<Rightarrow> string \<Rightarrow> ('st, 'y, json option) act"
  ht_presentationCredentialId :: "string \<Rightarrow> ('st, 'y, string option) act"
  dc_rotate :: "string \<Rightarrow> ('st, 'y, unit) act"
  lv_createVtc :: "string \<Rightarrow> string \<Rightarrow> json \<Rightarrow> ('st, 'y, unit) act"
  lv_removeStored :: "string option \<Rightarrow> string option \<Rightarrow> ('st, 'y, string option) act"

section \<open>State of the modules\<close>

definition getx :: "('y agent_state \<Rightarrow> 'a) \<Rightarrow> ('st, 'y, 'a) act" where
  "getx f = gets (\<lambda>w. f (ext w))"

definition modx :: "('y agent_state \<Rightarrow> 'y agent_state) \<Rightarrow> ('st, 'y, unit) act" where
  "modx f = modify (\<lambda>w. w\<lparr>ext := f (ext w)\<rparr>)"

lemma post_getx [wp]: "post (getx f) Q E w = Q (f (ext w)) w"
  by (simp add: getx_def wp)

lemma post_modx [wp]: "post (modx f) Q E w = Q () (w\<lparr>ext := f (ext w)\<rparr>)"
  by (simp add: modx_def wp)

text \<open>
  The outcome of a call as a value, \<open>try { m } finally { k }\<close>, \<open>m.catch(() => undefined)\<close>, and
  \<open>Promise.all\<close>: every call runs, and the first rejection is the result.
\<close>

definition outcome :: "('s, 'e, 'a) comp \<Rightarrow> ('s, 'e, 'e + 'a) comp" where
  "outcome m = (\<lambda>s. case m s of (r, t) \<Rightarrow> (Inr r, t))"

lemma post_outcome [wp]:
  "post (outcome m) Q E s = post m (\<lambda>x. Q (Inr x)) (\<lambda>e. Q (Inl e)) s"
  by (simp add: outcome_def post_def split: prod.split sum.split)

definition finally_do :: "('s, 'e, 'a) comp \<Rightarrow> ('s, 'e, unit) comp \<Rightarrow> ('s, 'e, 'a) comp" where
  "finally_do m k =
     bnd (outcome m) (\<lambda>r. sqn k (case r of Inl e \<Rightarrow> throw e | Inr x \<Rightarrow> ret x))"

lemma post_finally_do [wp]:
  "post (finally_do m k) Q E s =
     post m (\<lambda>x. post k (\<lambda>_. Q x) E) (\<lambda>e. post k (\<lambda>_. E e) E) s"
  by (simp add: finally_do_def outcome_def post_def comp_defs split: prod.split sum.split)

fun promise_all :: "('s, 'e, 'a) comp list \<Rightarrow> ('s, 'e, unit) comp" where
  "promise_all [] = ret ()"
| "promise_all (m # ms) =
     bnd (outcome m) (\<lambda>r.
     sqn (case r of Inl e \<Rightarrow> sqn (outcome (promise_all ms)) (throw e) | Inr x \<Rightarrow> promise_all ms)
      (ret ()))"

definition or_undefined :: "('s, 'e, 'a) comp \<Rightarrow> ('s, 'e, 'a option) comp" where
  "or_undefined m = catch (bnd m (\<lambda>x. ret (Some x))) (\<lambda>e. ret None)"

lemma post_or_undefined [wp]:
  "post (or_undefined m) Q E s = post m (\<lambda>x. Q (Some x)) (\<lambda>e. Q None) s"
  by (simp add: or_undefined_def post_def comp_defs split: prod.split sum.split)

section \<open>Errors of the admin API\<close>

datatype admin_api_error_code =
    InvalidInput | InvalidCursor | Unauthenticated | Forbidden | UnknownId | InvalidState
  | InvalidClaims | NoCompatibleCredentials | NoCredentialForRole | InvalidPackage
  | UnsupportedFormat | NotReady | NotAuthorized | PeerNotAuthorized | ResolverUnavailable | Internal

fun admin_code_str :: "admin_api_error_code \<Rightarrow> string" where
  "admin_code_str InvalidInput = ''INVALID_INPUT''"
| "admin_code_str InvalidCursor = ''INVALID_CURSOR''"
| "admin_code_str Unauthenticated = ''UNAUTHENTICATED''"
| "admin_code_str Forbidden = ''FORBIDDEN''"
| "admin_code_str UnknownId = ''UNKNOWN_ID''"
| "admin_code_str InvalidState = ''INVALID_STATE''"
| "admin_code_str InvalidClaims = ''INVALID_CLAIMS''"
| "admin_code_str NoCompatibleCredentials = ''NO_COMPATIBLE_CREDENTIALS''"
| "admin_code_str NoCredentialForRole = ''NO_CREDENTIAL_FOR_ROLE''"
| "admin_code_str InvalidPackage = ''INVALID_PACKAGE''"
| "admin_code_str UnsupportedFormat = ''UNSUPPORTED_FORMAT''"
| "admin_code_str NotReady = ''NOT_READY''"
| "admin_code_str NotAuthorized = ''NOT_AUTHORIZED''"
| "admin_code_str PeerNotAuthorized = ''PEER_NOT_AUTHORIZED''"
| "admin_code_str ResolverUnavailable = ''RESOLVER_UNAVAILABLE''"
| "admin_code_str Internal = ''INTERNAL''"

definition invalidInput :: "string \<Rightarrow> err" where
  "invalidInput m = AdminApiError (admin_code_str InvalidInput) 400 m []"

definition invalidState :: "string \<Rightarrow> err" where
  "invalidState m = AdminApiError (admin_code_str InvalidState) 409 m []"

section \<open>The indexer\<close>

definition indexer_path :: "('st, 'y) agent \<Rightarrow> string \<Rightarrow> string \<Rightarrow> string" where
  "indexer_path A path i = ag_indexerUrl A @ path @ i"

text \<open>\<open>fetchJson\<close> without \<open>allowNotFound\<close>: a 404 is an error too.\<close>

definition found :: "string \<Rightarrow> ('s, err, 'a option) comp \<Rightarrow> ('s, err, 'a) comp" where
  "found url m =
     bnd m (\<lambda>r. case r of
        None \<Rightarrow> throw (OtherError (''Failed to fetch '' @ url @ '': Not Found''))
      | Some x \<Rightarrow> ret x)"

definition getParticipant :: "('st, 'y) agent \<Rightarrow> string \<Rightarrow> ('st, 'y, participant_dto) act" where
  "getParticipant A i = found (indexer_path A ''/v4/participant/get/'' i) (ix_participant A i)"

definition findParticipant ::
  "('st, 'y) agent \<Rightarrow> string \<Rightarrow> ('st, 'y, chain_participant option) act" where
  "findParticipant A i = bnd (ix_participant A i) (\<lambda>d. ret (map_option toParticipant d))"

definition getCredentialSchema ::
  "('st, 'y) agent \<Rightarrow> string \<Rightarrow> ('st, 'y, credential_schema_dto) act" where
  "getCredentialSchema A i = found (indexer_path A ''/v4/credential-schema/get/'' i) (ix_schema A i)"

definition getEcosystem :: "('st, 'y) agent \<Rightarrow> string \<Rightarrow> ('st, 'y, ecosystem_dto) act" where
  "getEcosystem A i = found (indexer_path A ''/v4/ecosystem/get/'' i) (ix_ecosystem A i)"

definition is_active :: "participant_dto \<Rightarrow> bool" where
  "is_active p \<longleftrightarrow> \<not> truthy (pd_revoked p) \<and> \<not> truthy (pd_slashed p)"

definition no_filter :: participant_filter where
  "no_filter = \<lparr> pf_schemaId = None, pf_role = None, pf_did = None, pf_participantState = None \<rparr>"

definition findActiveHolderParticipantIdByDid ::
  "('st, 'y) agent \<Rightarrow> string \<Rightarrow> ('st, 'y, int option) act" where
  "findActiveHolderParticipantIdByDid A did =
     bnd (ix_participants A (no_filter\<lparr>pf_did := Some did, pf_role := Some PR_Holder\<rparr>)) (\<lambda>ps.
     ret (map_option pd_id (find (\<lambda>p. pd_did p = Some did \<and>
            pd_role p = participant_role_str PR_Holder \<and> is_active p) ps)))"

definition findActiveIssuerParticipantId ::
  "('st, 'y) agent \<Rightarrow> string \<Rightarrow> int \<Rightarrow> string \<Rightarrow> ('st, 'y, int option) act" where
  "findActiveIssuerParticipantId A did sid vsOperator =
     bnd (ix_participants A (no_filter\<lparr>pf_did := Some did, pf_schemaId := Some (JsFin (of_int sid)),
            pf_role := Some PR_Issuer\<rparr>)) (\<lambda>ps.
     ret (map_option pd_id (find (\<lambda>p. pd_did p = Some did \<and>
            pd_role p = participant_role_str PR_Issuer \<and> pd_schema_id p = sid \<and>
            pd_vs_operator p = Some vsOperator \<and> is_active p) ps)))"

section \<open>The authorization service\<close>

definition now :: "('st, 'y) agent \<Rightarrow> ('st, 'y, int) act" where
  "now A = date_now (ag_flow A)"

definition Date_parse :: "('st, 'y) agent \<Rightarrow> string \<Rightarrow> int option" where
  "Date_parse A s = (case iso_parse s of Some t \<Rightarrow> Some t | None \<Rightarrow> ag_legacyDate A s)"

text \<open>A loop that runs out of fuel has not returned: \<open>None\<close>.\<close>

definition listVsOperatorAuthorizations ::
  "('st, 'y) agent \<Rightarrow> string \<Rightarrow> int option \<Rightarrow> ('st, 'y, vs_authorization list option) act" where
  "listVsOperatorAuthorizations A op minBlock =
     bnd (delegationPage (ag_fuel A) (ix_vsOperatorAuthorizations A op) (now A) (ag_sleep A)
            (''/v4/delegation/vs-operator-authorizations?vs_operator='' @ op) minBlock) (\<lambda>rows.
     ret (map_option (map toVsAuthorization) rows))"

definition listOperatorAuthorizations ::
  "('st, 'y) agent \<Rightarrow> string \<Rightarrow> int option \<Rightarrow> ('st, 'y, operator_authorization list option) act" where
  "listOperatorAuthorizations A op minBlock =
     bnd (delegationPage (ag_fuel A) (ix_operatorAuthorizations A op) (now A) (ag_sleep A)
            (''/v4/delegation/operator-authorizations?operator='' @ op) minBlock) (\<lambda>rows.
     ret (map_option (map toOperatorAuthorization) rows))"

text \<open>
  \<open>refreshForOperator\<close> of the service that the world holds. Without \<open>minBlock\<close> the page is read once; with
  one, a loop out of fuel leaves the cache as it is.
\<close>

definition refreshForOperator ::
  "('st, 'y) agent \<Rightarrow> string \<Rightarrow> int option \<Rightarrow> ('st, 'y, unit) act" where
  "refreshForOperator A address minBlock =
     bnd (getx ax_auth) (\<lambda>service. case service of
        None \<Rightarrow> ret ()
      | Some S \<Rightarrow>
          bnd (now A) (\<lambda>t.
          if \<not> refresh_due S minBlock t then ret ()
          else bnd (listVsOperatorAuthorizations A address minBlock) (\<lambda>vsoas. case vsoas of
             None \<Rightarrow> ret ()
           | Some vs \<Rightarrow>
               bnd (now A) (\<lambda>t1.
               modx (\<lambda>x. x\<lparr>ax_auth := map_option (\<lambda>S. refreshed S vs minBlock t1) (ax_auth x)\<rparr>)))))"

definition callerHoldsOperatorGrant ::
  "('st, 'y) agent \<Rightarrow> auth_service \<Rightarrow> string \<Rightarrow> string \<Rightarrow> ('st, 'y, bool option) act" where
  "callerHoldsOperatorGrant A S account msgType =
     (if blank_account account then ret (Some False)
      else bnd (listOperatorAuthorizations A account None) (\<lambda>auths. case auths of
         None \<Rightarrow> ret None
       | Some as \<Rightarrow> bnd (now A) (\<lambda>t.
           ret (Some (holdsOperatorGrant (Date_parse A) t S msgType as)))))"

section \<open>The chain client\<close>

definition requireChain :: "('st, 'y) agent \<Rightarrow> ('st, 'y, ('st, 'y) chain_client) act" where
  "requireChain A =
     (case ag_chain A of
        None \<Rightarrow> throw (OtherError ''Agent has no veranaChain configured'')
      | Some c \<Rightarrow> ret c)"

lemma post_requireChain [wp]:
  "post (requireChain A) Q E w =
     (case ag_chain A of
        None \<Rightarrow> E (OtherError ''Agent has no veranaChain configured'') w | Some c \<Rightarrow> Q c w)"
  by (simp add: requireChain_def wp split: option.split)

text \<open>The transactions handed to the signing client are logged before it signs.\<close>

definition log_signed :: "chain_msg list \<Rightarrow> std_fee \<Rightarrow> ('st, 'y, unit) act" where
  "log_signed ms f = modx (\<lambda>x. x\<lparr>ax_signed := ax_signed x @ [(ms, f)]\<rparr>)"

lemma post_log_signed [wp]:
  "post (log_signed ms f) Q E w = Q () (w\<lparr>ext := (ext w)\<lparr>ax_signed := ax_signed (ext w) @ [(ms, f)]\<rparr>\<rparr>)"
  by (simp add: log_signed_def wp)

definition broadcastWithoutWaiting ::
  "('st, 'y) chain_client \<Rightarrow> chain_msg list \<Rightarrow> std_fee \<Rightarrow> ('st, 'y, string) act" where
  "broadcastWithoutWaiting c ms f =
     sqn (log_signed ms f) (ch_signAndBroadcastSync (cc_calls c) ms f)"

text \<open>
  \<open>broadcastMsg\<close>, the funnel of the transactions that are waited for: preflight, then sign. The
  \<open>FeePreflightError\<close> it throws is kept as its message.
\<close>

definition broadcastMsg ::
  "('st, 'y) chain_client \<Rightarrow> chain_msg \<Rightarrow> string option \<Rightarrow> ('st, 'y, string) act" where
  "broadcastMsg c m granter =
     bnd (preflightFee (cc_calls c) m granter) (\<lambda>checked. case checked of
        Stopped reason error \<Rightarrow> throw (OtherError error)
      | Fee f \<Rightarrow> sqn (log_signed [m] f) (ch_signAndBroadcast (cc_calls c) [m] f))"

record validated_params =
  vp_id :: jsnum
  vp_effectiveUntil :: "int option option"
  vp_validationFees :: "rat option"
  vp_issuanceFees :: "rat option"
  vp_verificationFees :: "rat option"
  vp_issuanceFeeDiscount :: "int option"
  vp_verificationFeeDiscount :: "int option"
  vp_opSummaryDigest :: "string option"

definition setParticipantOPToValidatedMsg ::
  "('st, 'y) chain_client \<Rightarrow> validated_params \<Rightarrow> chain_msg" where
  "setParticipantOPToValidatedMsg c p = MsgSetParticipantOPToValidated
     \<lparr> tv_corporation = cc_corporation c, tv_operator = cc_address c, tv_id = vp_id p,
       tv_effectiveUntil = vp_effectiveUntil p,
       tv_validationFees = withDefault (vp_validationFees p) 0,
       tv_issuanceFees = withDefault (vp_issuanceFees p) 0,
       tv_verificationFees = withDefault (vp_verificationFees p) 0,
       tv_opSummaryDigest = vp_opSummaryDigest p,
       tv_issuanceFeeDiscount = withDefault (vp_issuanceFeeDiscount p) 0,
       tv_verificationFeeDiscount = withDefault (vp_verificationFeeDiscount p) 0 \<rparr>"

definition createOrUpdateParticipantSessionMsg ::
  "('st, 'y) chain_client \<Rightarrow> string \<Rightarrow> int \<Rightarrow> jsnum \<Rightarrow> jsnum \<Rightarrow> string \<Rightarrow> chain_msg" where
  "createOrUpdateParticipantSessionMsg c i issuer ag wal digest = MsgCreateOrUpdateParticipantSession
     \<lparr> sa_corporation = cc_corporation c, sa_operator = cc_address c, sa_id = i,
       sa_issuerParticipantId = issuer, sa_agentParticipantId = ag,
       sa_walletAgentParticipantId = wal, sa_digest = digest \<rparr>"

definition setParticipantOPToValidated ::
  "('st, 'y) chain_client \<Rightarrow> validated_params \<Rightarrow> ('st, 'y, string) act" where
  "setParticipantOPToValidated c p = broadcastMsg c (setParticipantOPToValidatedMsg c p) None"

definition createOrUpdateParticipantSession ::
  "('st, 'y) chain_client \<Rightarrow> string \<Rightarrow> int \<Rightarrow> jsnum \<Rightarrow> jsnum \<Rightarrow> string \<Rightarrow> string option \<Rightarrow>
   ('st, 'y, string) act" where
  "createOrUpdateParticipantSession c i issuer ag wal digest granter =
     broadcastMsg c (createOrUpdateParticipantSessionMsg c i issuer ag wal digest) granter"

definition about_entry :: "('st, 'y) chain_client \<Rightarrow> int \<Rightarrow> entry_msg" where
  "about_entry c i = \<lparr> em_corporation = cc_corporation c, em_operator = cc_address c, em_id = i \<rparr>"

definition renewParticipantOP ::
  "('st, 'y) chain_client \<Rightarrow> int \<Rightarrow> string option \<Rightarrow> ('st, 'y, string) act" where
  "renewParticipantOP c i granter = broadcastMsg c (MsgRenewParticipantOP (about_entry c i)) granter"

definition cancelParticipantOPLastRequest ::
  "('st, 'y) chain_client \<Rightarrow> int \<Rightarrow> string option \<Rightarrow> ('st, 'y, string) act" where
  "cancelParticipantOPLastRequest c i granter =
     broadcastMsg c (MsgCancelParticipantOPLastRequest (about_entry c i)) granter"

definition triggerResolverMsg :: "('st, 'y) chain_client \<Rightarrow> int \<Rightarrow> chain_msg" where
  "triggerResolverMsg c i = MsgTriggerResolver (about_entry c i)"

definition chain_triggerResolver ::
  "('st, 'y) chain_client \<Rightarrow> int \<Rightarrow> string option \<Rightarrow> ('st, 'y, string) act" where
  "chain_triggerResolver c i granter = broadcastMsg c (triggerResolverMsg c i) granter"

section \<open>Connections\<close>

definition isReady :: "('st, 'y) agent \<Rightarrow> did_connection \<Rightarrow> bool" where
  "isReady A c \<longleftrightarrow> conn_assertReady (ag_flow A) c = Inr ()"

definition isUsableConnectionTo :: "('st, 'y) agent \<Rightarrow> did_connection \<Rightarrow> string \<Rightarrow> bool" where
  "isUsableConnectionTo A c peer \<longleftrightarrow>
     isReady A c \<and> truthy (conn_theirDid c) \<and> peerAnchorDid c = Some peer"

definition findConnection :: "('st, 'y) agent \<Rightarrow> string \<Rightarrow> ('st, 'y, did_connection option) act" where
  "findConnection A i = gets (\<lambda>w. conn_findById (ag_flow A) (ext w) i)"

lemma post_findConnection [wp]:
  "post (findConnection A i) Q E w = Q (conn_findById (ag_flow A) (ext w) i) w"
  by (simp add: findConnection_def wp)

definition findOrOpenConnection ::
  "('st, 'y) agent \<Rightarrow> string \<Rightarrow> string \<Rightarrow> ('st, 'y, string) act" where
  "findOrOpenConnection A ourDid peer =
     bnd (dc_findConnections A peer) (\<lambda>connections.
     case find (\<lambda>p. isUsableConnectionTo A (fst p) peer) connections of
       Some usable \<Rightarrow> ret (conn_id (fst usable))
     | None \<Rightarrow>
         sqn (case find (\<lambda>p. snd p = Some peer) connections of
                None \<Rightarrow> ret ()
              | Some existing \<Rightarrow> dc_deleteConnection A (conn_id (fst existing)))
        (bnd (dc_receiveImplicitInvitation A peer ourDid) (\<lambda>r. case r of
           None \<Rightarrow> throw (OtherError (''Failed to establish a DIDComm connection to '' @ peer))
         | Some connection \<Rightarrow>
             catch
              (sqn (dc_setPublicDid A connection peer)
              (bnd (dc_returnWhenIsConnected A (conn_id connection)) (\<lambda>ready.
               ret (conn_id ready))))
              (\<lambda>error.
               sqn (catch (dc_deleteConnection A (conn_id connection)) (\<lambda>e. ret ()))
                (throw error)))))"

definition connectToPublicDid :: "('st, 'y) agent \<Rightarrow> string \<Rightarrow> ('st, 'y, string) act" where
  "connectToPublicDid A peer =
     (case ag_did A of
        None \<Rightarrow> throw (OtherError ''Agent has no public DID'')
      | Some did \<Rightarrow>
          let key = did @ '' '' @ peer
          in bnd (getx ax_connecting) (\<lambda>pending.
             if key \<in> pending then ag_awaitConnecting A key
             else sqn (modx (\<lambda>x. x\<lparr>ax_connecting := insert key (ax_connecting x)\<rparr>))
               (finally_do (findOrOpenConnection A did peer)
                 (modx (\<lambda>x. x\<lparr>ax_connecting := ax_connecting x - {key}\<rparr>)))))"

section \<open>The VTJSC of a schema\<close>

text \<open>\<open>findMetadataEntry(didRecord, '_vt/jsc', '', ref)?.data?.verifiableCredential?.[0]?.id\<close>.\<close>

definition localVtjscId :: "(string \<times> vtjsc_entry) list \<Rightarrow> string \<Rightarrow> string option" where
  "localVtjscId entries ref =
     (case map_of entries ref of
        Some e \<Rightarrow> ve_firstCredentialId e
      | None \<Rightarrow>
          let matched = filter (\<lambda>e. ve_credentialId e = Some [] \<or> ve_presentationId e = Some [])
                (map snd entries);
              dataId = (\<lambda>e. if ve_credentialId e = Some [] then None else ve_firstCredentialId e)
          in case find (\<lambda>e. ve_attached e \<noteq> Some False) matched of
               Some e \<Rightarrow> dataId e
             | None \<Rightarrow> (case matched of [] \<Rightarrow> None | e # _ \<Rightarrow> dataId e))"

definition resolveJsonSchemaCredentialId ::
  "('st, 'y) agent \<Rightarrow> string \<Rightarrow> string \<Rightarrow> ('st, 'y, string) act" where
  "resolveJsonSchemaCredentialId A sid chainId =
     (let schemaRef = ''vpr:verana:'' @ chainId @ '':cs:'' @ sid
      in bnd (getCredentialSchema A sid) (\<lambda>schema.
         bnd (getEcosystem A (int_str (sd_ecosystem_id schema))) (\<lambda>ecosystem.
         sqn (guard (truthy (ed_did ecosystem))
                (OtherError (''Ecosystem '' @ int_str (sd_ecosystem_id schema) @ '' of schema '' @
                   sid @ '' has no DID'')))
          (let did = the (ed_did ecosystem); serviceId = did @ ''#vpr-schemas-'' @ sid @ ''-vtjsc-vp''
           in bnd (di_createdVtjscs A did) (\<lambda>entries.
              let localId = Option.bind entries (\<lambda>es. localVtjscId es schemaRef)
              in if truthy localId then ret (the localId)
                 else bnd (di_serviceEndpoint A did serviceId) (\<lambda>endpoint. case endpoint of
                    Some (JStr url) \<Rightarrow>
                      bnd (ht_presentationCredentialId A url) (\<lambda>cid.
                      sqn (guard (truthy cid)
                             (OtherError (''The VTJSC presentation at '' @ url @
                                '' carries no credential'')))
                       (ret (the cid)))
                  | _ \<Rightarrow> throw (OtherError (''Ecosystem '' @ did @ '' publishes no VTJSC for schema '' @
                      sid @ '' (no service '' @ serviceId @ '')''))))))))"

section \<open>Claims\<close>

text \<open>
  \<open>schemaViolations(JSON.parse(jsonSchema), { id, ...(claims ?? {}) })\<close>; \<open>JSON.parse\<close> throws on a text
  that is not JSON, and reading a property of \<open>null\<close> throws.
\<close>

definition subject_of :: "string \<Rightarrow> json option \<Rightarrow> json" where
  "subject_of did cl =
     JObj (spread [(''id'', JStr did)] (case cl of None \<Rightarrow> [] | Some c \<Rightarrow> own_members c))"

definition schemaViolations ::
  "('st, 'y) agent \<Rightarrow> string \<Rightarrow> json \<Rightarrow> err + (string \<times> string) list" where
  "schemaViolations A jsonSchema subject =
     (case JSON_parse jsonSchema of
        None \<Rightarrow> Inl (OtherError ''SyntaxError'')
      | Some JNull \<Rightarrow> Inl (OtherError ''TypeError'')
      | Some v \<Rightarrow>
          (case member v ''properties'' of
             Some JNull \<Rightarrow> ag_ajv A None subject
           | Some ps \<Rightarrow> ag_ajv A (member ps ''credentialSubject'') subject
           | None \<Rightarrow> ag_ajv A None subject))"

definition msg_invalid_claims :: string where
  "msg_invalid_claims = ''the claim set does not satisfy the json_schema''"

definition assertClaims ::
  "('st, 'y) agent \<Rightarrow> string \<Rightarrow> string \<Rightarrow> json option \<Rightarrow> ('st, 'y, unit) act" where
  "assertClaims A jsonSchema did cl =
     bnd (raise (\<lambda>_. schemaViolations A jsonSchema (subject_of did cl))) (\<lambda>violations.
     guard (violations = [])
       (AdminApiError (admin_code_str InvalidClaims) 422 msg_invalid_claims violations))"

end
