(* ===== verification/Orchestrator.thy ===== *)
theory Orchestrator
  imports AgentEnv
begin

text \<open>
  \<open>vtFlow/VtFlowOrchestrator.ts\<close>, first half: the onboarding process on both sides and the credential
  that goes into an offer. Method names the vt-flow package already uses carry an \<open>orch_\<close> prefix.
\<close>

section \<open>Constants and terms\<close>

definition DISCOUNT_SCALE :: rat where
  "DISCOUNT_SCALE = 10000"

definition TX_LOOKUP_TIMEOUT_MS :: int where
  "TX_LOOKUP_TIMEOUT_MS = 60000"

definition TX_LOOKUP_INTERVAL_MS :: int where
  "TX_LOOKUP_INTERVAL_MS = 3000"

datatype term_key =
  ValidationFees | IssuanceFees | VerificationFees | IssuanceFeeDiscount | VerificationFeeDiscount

fun term_str :: "term_key \<Rightarrow> string" where
  "term_str ValidationFees = ''validationFees''"
| "term_str IssuanceFees = ''issuanceFees''"
| "term_str VerificationFees = ''verificationFees''"
| "term_str IssuanceFeeDiscount = ''issuanceFeeDiscount''"
| "term_str VerificationFeeDiscount = ''verificationFeeDiscount''"

definition FEE_KEYS :: "term_key list" where
  "FEE_KEYS = [ValidationFees, IssuanceFees, VerificationFees]"

definition DISCOUNT_KEYS :: "term_key list" where
  "DISCOUNT_KEYS = [IssuanceFeeDiscount, VerificationFeeDiscount]"

definition js_round :: "rat \<Rightarrow> int" where
  "js_round q = \<lfloor>q + 1/2\<rfloor>"

definition sameTerm :: "term_key \<Rightarrow> rat \<Rightarrow> rat \<Rightarrow> bool" where
  "sameTerm key given onEntry \<longleftrightarrow>
     (let scale = (if key \<in> set DISCOUNT_KEYS then DISCOUNT_SCALE else 1)
      in js_round (given * scale) = js_round (onEntry * scale))"

text \<open>\<open>HOLDER\<close>, \<open>ISSUER\<close>, \<open>VERIFIER\<close> and the grantors of \<open>types.ts\<close>.\<close>

definition HOLDER_PARTICIPANT_TYPE :: int where
  "HOLDER_PARTICIPANT_TYPE = 6"

definition applicantRoles :: "int list" where
  "applicantRoles = [1, 2, 3, 4, HOLDER_PARTICIPANT_TYPE]"

section \<open>Starting an onboarding process, applicant side\<close>

record start_input =
  st_applicantParticipantId :: int
  st_participantSessionId :: "string option"
  st_claims :: "json option"

text \<open>\<open>records.sort((a, b) => b.createdAt - a.createdAt)[0]\<close>.\<close>

definition latest_of :: "vt_flow_record list \<Rightarrow> vt_flow_record option" where
  "latest_of rs =
     (case js_sort (\<lambda>a b. createdAt b - createdAt a) rs of [] \<Rightarrow> None | r # _ \<Rightarrow> Some r)"

text \<open>The checks on the applicant entry and its validator, before anything of the wallet is read.\<close>

definition resolveValidator ::
  "('st, 'y) agent \<Rightarrow> int \<Rightarrow> ('st, 'y, chain_participant \<times> chain_participant) act" where
  "resolveValidator A applicantId =
     (let shown = int_str applicantId
      in bnd (findParticipant A shown) (\<lambda>found1. case found1 of
           None \<Rightarrow> throw (OtherError (''Applicant participant '' @ shown @ '' not found on chain''))
         | Some holder \<Rightarrow>
             sqn (guard (Some (cpt_did holder) = ag_did A)
                    (OtherError (''Applicant participant '' @ shown @ '' does not belong to this agent'')))
            (sqn (guard (cpt_role holder \<in> set applicantRoles)
                    (OtherError (''Participant '' @ shown @ '' has no applicant-capable role'')))
            (sqn (guard (cpt_validatorParticipantId holder \<noteq> 0)
                    (OtherError (''Applicant participant '' @ shown @ '' has no validator_participant_id'')))
             (let vid = int_str (cpt_validatorParticipantId holder)
              in bnd (findParticipant A vid) (\<lambda>found2. case found2 of
                   None \<Rightarrow> throw (OtherError (''Validator participant '' @ vid @ '' not resolvable''))
                 | Some v \<Rightarrow>
                     sqn (guard (cpt_did v \<noteq> [])
                            (OtherError (''Validator participant '' @ vid @ '' not resolvable'')))
                    (sqn (guard (cpt_revoked v = None \<and> cpt_slashed v = None)
                            (OtherError (''Validator participant '' @ int_str (cpt_id v) @
                               '' is not active'')))
                     (ret (holder, v)))))))))"

definition onboarding_query :: "chain_participant \<Rightarrow> tag_query" where
  "onboarding_query holder =
     [(''applicantParticipantId'', int_str (cpt_id holder)), (''role'', role_str Applicant),
      (''flowVariant'', variant_str OnboardingProcess)]"

definition startOnboardingProcess ::
  "('st, 'y) agent \<Rightarrow> start_input \<Rightarrow> ('st, 'y, vt_flow_record) act" where
  "startOnboardingProcess A input =
     bnd (requireChain A) (\<lambda>_.
     sqn (guard (truthy (ag_did A)) (OtherError ''Agent has no public DID''))
    (bnd (resolveValidator A (st_applicantParticipantId input)) (\<lambda>(holder, validator).
     bnd (findAllByQuery (ag_flow A) (onboarding_query holder)) (\<lambda>records.
     let latest = latest_of (filter (\<lambda>r. \<not> isVtFlowTerminalState (state r)) records);
         running = (case latest of None \<Rightarrow> False | Some l \<Rightarrow> \<not> isVtFlowRenewable l)
     in bnd (case latest of
               None \<Rightarrow> ret None
             | Some l \<Rightarrow> bnd (findConnection A (connectionId l)) (\<lambda>connection.
                 ret (case connection of
                        None \<Rightarrow> None
                      | Some c \<Rightarrow> if isUsableConnectionTo A c (cpt_did validator)
                                 then Some (conn_id c) else None))) (\<lambda>usable.
        let undelivered = (running \<and> state (the latest) = OrSent \<and>
              cpt_opState holder = Some VS_Pending)
        in if running \<and> truthy usable \<and> \<not> undelivered then ret (the latest)
           else bnd (if truthy usable then ret (the usable)
                     else connectToPublicDid A (cpt_did validator)) (\<lambda>connection.
             if running then resendOnboardingRequest (ag_flow A) (rec_id (the latest)) connection
             else bnd (case orElse (st_participantSessionId input)
                             (map_option participantSessionId latest) of
                         Some s \<Rightarrow> ret s | None \<Rightarrow> generateId (ag_flow A)) (\<lambda>psid.
               sendOnboardingRequest (ag_flow A)
                 \<lparr> so_connectionId = connection, so_participantSessionId = Some psid,
                   so_applicantParticipantId = int_str (cpt_id holder),
                   so_applicantParticipantRole = Some (cpt_role holder),
                   so_validatorParticipantId = Some (int_str (cpt_validatorParticipantId holder)),
                   so_schemaId = Some (int_str (cpt_schemaId holder)),
                   so_agentParticipantId = int_str (withDefault (ag_agentParticipantId A) 0),
                   so_walletAgentParticipantId =
                     int_str (withDefault (ag_walletAgentParticipantId A) 0),
                   so_claims = st_claims input \<rparr>)))))))"

section \<open>The credential of an offer\<close>

record build_input =
  bc_credentialSchemaId :: string
  bc_subjectDid :: string
  bc_claims :: json
  bc_credentialType :: "string list option"
  bc_credentialContext :: "string list option"
  bc_validUntil :: "string option"

text \<open>\<open>JSON.stringify(violations, null, 2)\<close>.\<close>

definition violations_text :: "(string \<times> string) list \<Rightarrow> string" where
  "violations_text vs =
     (let nl = [CHR 0x0A]
      in ''['' @ nl @
         join_with ('','' @ nl)
           (map (\<lambda>(p, m). ''  {'' @ nl @
              ''    '' @ json_quote ''path'' @ '': '' @ json_quote p @ '','' @ nl @
              ''    '' @ json_quote ''message'' @ '': '' @ json_quote m @ nl @ ''  }'') vs) @
         nl @ '']'')"

definition validateSchema ::
  "('st, 'y) agent \<Rightarrow> string \<Rightarrow> json \<Rightarrow> ('st, 'y, unit) act" where
  "validateSchema A jsonSchema subject =
     bnd (raise (\<lambda>_. schemaViolations A jsonSchema subject)) (\<lambda>violations.
     guard (violations = [])
       (OtherError (''Invalid claims for '' @
          withDefault (as_string (Option.bind (JSON_parse jsonSchema) (\<lambda>v. member v ''$id'')))
            ''undefined'' @ '': '' @ violations_text violations)))"

definition createW3cV2Credential ::
  "('st, 'y) agent \<Rightarrow> build_input \<Rightarrow> string \<Rightarrow> string \<Rightarrow> string \<Rightarrow> json" where
  "createW3cV2Credential A input uid jsc validFrom = ag_credentialJson A
     \<lparr> w3_id = withDefault (ag_did A) ''undefined'' @ ''#'' @ uid,
       w3_type = withDefault (bc_credentialType input)
         [''VerifiableCredential'', ''VerifiableTrustCredential''],
       w3_issuer = ag_did A,
       w3_context = withDefault (bc_credentialContext input) CREDENTIALS_V2_CONTEXT,
       w3_credentialSubject =
         JObj (jsmap_set ''id'' (JStr (bc_subjectDid input)) (own_members (bc_claims input))),
       w3_credentialSchema =
         JObj [(''id'', JStr jsc), (''type'', JStr ''JsonSchemaCredential'')],
       w3_validFrom = validFrom, w3_validUntil = bc_validUntil input \<rparr>"

definition buildCredential :: "('st, 'y) agent \<Rightarrow> build_input \<Rightarrow> ('st, 'y, json) act" where
  "buildCredential A input =
     bnd (requireChain A) (\<lambda>chain.
     bnd (resolveJsonSchemaCredentialId A (bc_credentialSchemaId input) (cc_chainId chain)) (\<lambda>jsc.
     bnd (getCredentialSchema A (bc_credentialSchemaId input)) (\<lambda>schema.
     sqn (validateSchema A (sd_json_schema schema)
            (subject_of (bc_subjectDid input) (Some (bc_claims input))))
    (bnd (generateId (ag_flow A)) (\<lambda>uid.
     bnd (now_iso (ag_flow A)) (\<lambda>validFrom.
     ret (createW3cV2Credential A input uid jsc validFrom)))))))"

definition claims_or_empty :: "vt_flow_record \<Rightarrow> json" where
  "claims_or_empty r = withDefault (claims r) (JObj [])"

text \<open>The payload of an offer: the data integrity format with no binding.\<close>

definition offer_of :: "json \<Rightarrow> int \<Rightarrow> offer_payload" where
  "offer_of credential issuer =
     \<lparr> of_credential = credential, of_credentialId = None, of_credentialDigest = None,
       of_issuerParticipantId = Some issuer, of_comment = None, of_goal = None,
       of_goalCode = None \<rparr>"

section \<open>Validating an onboarding process, validator side\<close>

record validate_onboarding_input =
  vo_vtFlowRecordId :: string
  vo_credentialSchemaId :: "string option"
  vo_credentialType :: "string list option"
  vo_credentialContext :: "string list option"

text \<open>\<open>String(Number(s))\<close>, which is how a participant id travels to the indexer.\<close>

fun num_str :: "jsnum \<Rightarrow> string" where
  "num_str JsNaN = ''NaN''"
| "num_str (JsInf neg) = (if neg then ''-Infinity'' else ''Infinity'')"
| "num_str (JsFin q) = rat_str q"

definition msg_no_record :: "string \<Rightarrow> string" where
  "msg_no_record i = ''vt-flow record '' @ i @ '' not found''"

definition findRecord :: "('st, 'y) agent \<Rightarrow> string \<Rightarrow> ('st, 'y, vt_flow_record) act" where
  "findRecord A i =
     bnd (findById (ag_flow A) i) (\<lambda>r. case r of
        None \<Rightarrow> throw (OtherError (msg_no_record i)) | Some record \<Rightarrow> ret record)"

lemma post_findRecord [wp]:
  "post (findRecord A i) Q E w =
     (case flows (ag_flow A) w i of
        None \<Rightarrow> E (OtherError (msg_no_record i)) w | Some r \<Rightarrow> Q r w)"
  by (simp add: findRecord_def wp split: option.split)

definition validateOnboardingProcess ::
  "('st, 'y) agent \<Rightarrow> validate_onboarding_input \<Rightarrow>
   ('st, 'y, vt_flow_record \<times> chain_participant \<times> json option) act" where
  "validateOnboardingProcess A input =
     bnd (requireChain A) (\<lambda>chain.
     sqn (guard (truthy (ag_did A)) (OtherError ''Agent has no public DID''))
    (bnd (findRecord A (vo_vtFlowRecordId input)) (\<lambda>record.
     sqn (guard (role record = Validator) (OtherError ''Record is not validator-side''))
    (sqn (guard (variant record = OnboardingProcess)
            (OtherError (''Record variant is '' @ quoted (variant_str (variant record)) @
               '', expected OnboardingProcess'')))
     (let resumeOffer = (state record = Validated \<and> \<not> truthy (credentialExchangeRecordId record))
      in sqn (guard (state record = AwaitingOr \<or> resumeOffer)
             (OtherError (''Record state is '' @ quoted (state_str (state record)) @ '', expected '' @
                quoted (state_str AwaitingOr) @ '', or '' @ quoted (state_str Validated) @
                '' with no credential exchange'')))
        (sqn (guard (truthy (applicantParticipantId record))
                (OtherError ''Record has no applicantParticipantId''))
         (let pid = js_parse_number (the (applicantParticipantId record))
          in bnd (findParticipant A (num_str pid)) (\<lambda>found1. case found1 of
               None \<Rightarrow> throw (OtherError (''Applicant participant '' @ num_str pid @
                              '' not found on chain''))
             | Some participant \<Rightarrow>
                 sqn (guard (cpt_did participant \<noteq> [])
                        (OtherError ''Applicant participant has no DID''))
                (bnd (if cpt_role participant = HOLDER_PARTICIPANT_TYPE
                      then bnd (buildCredential A
                             \<lparr> bc_credentialSchemaId = withDefault (vo_credentialSchemaId input)
                                 (int_str (cpt_schemaId participant)),
                               bc_subjectDid = cpt_did participant,
                               bc_claims = claims_or_empty record,
                               bc_credentialType = vo_credentialType input,
                               bc_credentialContext = vo_credentialContext input,
                               bc_validUntil = None \<rparr>) (\<lambda>c. ret (Some c))
                      else ret None) (\<lambda>credential.
                 if resumeOffer then ret (record, participant, credential)
                 else
                   bnd (setParticipantOPToValidated chain
                     \<lparr> vp_id = pid, vp_effectiveUntil = None, vp_validationFees = None,
                       vp_issuanceFees = None, vp_verificationFees = None,
                       vp_issuanceFeeDiscount = None, vp_verificationFeeDiscount = None,
                       vp_opSummaryDigest = None \<rparr>) (\<lambda>_.
                   bnd (api_acceptOnboardingRequest (ag_flow A) (rec_id record)) (\<lambda>_.
                   bnd (markValidated (ag_flow A) (rec_id record)) (\<lambda>validated.
                   ret (validated, participant, credential))))))))))))))"

record offer_input =
  oi_vtFlowRecordId :: string
  oi_credential :: "json option"
  oi_credentialSchemaId :: "string option"
  oi_participant :: "chain_participant option"
  oi_credentialType :: "string list option"
  oi_credentialContext :: "string list option"

definition offerOnboardingCredential ::
  "('st, 'y) agent \<Rightarrow> offer_input \<Rightarrow> ('st, 'y, vt_flow_record) act" where
  "offerOnboardingCredential A input =
     bnd (requireChain A) (\<lambda>_.
     bnd (findRecord A (oi_vtFlowRecordId input)) (\<lambda>record.
     sqn (guard (truthy (applicantParticipantId record))
            (OtherError ''Record has no applicantParticipantId''))
    (bnd (case oi_participant input of
            Some p \<Rightarrow> ret (Some p)
          | None \<Rightarrow> findParticipant A (num_str (js_parse_number (the (applicantParticipantId record)))))
      (\<lambda>found1. case found1 of
       None \<Rightarrow> throw (OtherError ''Applicant participant has no DID'')
     | Some participant \<Rightarrow>
         sqn (guard (cpt_did participant \<noteq> []) (OtherError ''Applicant participant has no DID''))
        (bnd (case oi_credential input of
                Some c \<Rightarrow> ret c
              | None \<Rightarrow> buildCredential A
                  \<lparr> bc_credentialSchemaId = withDefault (oi_credentialSchemaId input)
                      (int_str (cpt_schemaId participant)),
                    bc_subjectDid = cpt_did participant, bc_claims = claims_or_empty record,
                    bc_credentialType = oi_credentialType input,
                    bc_credentialContext = oi_credentialContext input,
                    bc_validUntil = Option.bind (validation record) effectiveUntil \<rparr>) (\<lambda>unsigned.
         bnd (offerCredentialForSession (ag_flow A) (rec_id record)
                (offer_of unsigned (cpt_validatorParticipantId participant))) (\<lambda>(offered, ex).
         ret offered)))))))"

definition completeOnboardingProcess :: "('st, 'y) agent \<Rightarrow> string \<Rightarrow> ('st, 'y, vt_flow_record) act" where
  "completeOnboardingProcess A i = markCompleted (ag_flow A) i"

section \<open>Direct issuance\<close>

definition participant_state_active :: string where
  "participant_state_active = ''ACTIVE''"

definition issuer_filter :: "string option \<Rightarrow> jsnum \<Rightarrow> string option \<Rightarrow> participant_filter" where
  "issuer_filter did sid st =
     \<lparr> pf_schemaId = Some sid, pf_role = Some PR_Issuer,
       pf_did = did, pf_participantState = st \<rparr>"

definition buildDirectIssuanceOffer ::
  "('st, 'y) agent \<Rightarrow> string \<Rightarrow> ('st, 'y, offer_payload option) act" where
  "buildDirectIssuanceOffer A i =
     bnd (requireChain A) (\<lambda>chain.
     sqn (guard (truthy (ag_did A)) (OtherError ''Agent has no public DID''))
    (bnd (findRecord A i) (\<lambda>record.
     if role record \<noteq> Validator \<or> variant record \<noteq> DirectIssuance then ret None
     else
       sqn (guard (truthy (schemaId record)) (OtherError ''Record has no schemaId''))
      (bnd (ix_participants A (issuer_filter (ag_did A) (js_parse_number (the (schemaId record)))
              (Some participant_state_active))) (\<lambda>issuers.
       case find (\<lambda>p. \<not> truthy (pd_revoked p) \<and> \<not> truthy (pd_slashed p) \<and>
                   pd_vs_operator p = Some (cc_address chain)) issuers of
         None \<Rightarrow> ret None
       | Some issuer \<Rightarrow>
           bnd (findConnection A (connectionId record)) (\<lambda>connection.
           let theirDid = Option.bind connection conn_theirDid
           in sqn (guard (truthy theirDid) (OtherError ''Flow connection has no peer DID''))
             (bnd (buildCredential A
                     \<lparr> bc_credentialSchemaId = the (schemaId record), bc_subjectDid = the theirDid,
                       bc_claims = claims_or_empty record, bc_credentialType = None,
                       bc_credentialContext = None, bc_validUntil = None \<rparr>) (\<lambda>unsigned.
              ret (Some (offer_of unsigned (pd_id issuer)))))))))))"

end
