(* ===== verification/ValidationTx.thy ===== *)
theory ValidationTx
  imports Orchestrator
begin

text \<open>
  \<open>vtFlow/VtFlowOrchestrator.ts\<close>, second half: the validation of a flow by the admin API, its
  transaction from broadcast to outcome, and the issuance that follows VALIDATED.
\<close>

section \<open>The terms of a validation\<close>

record validate_input =
  vi_vtFlowRecordId :: string
  vi_validationFees :: "rat option"
  vi_issuanceFees :: "rat option"
  vi_verificationFees :: "rat option"
  vi_issuanceFeeDiscount :: "rat option"
  vi_verificationFeeDiscount :: "rat option"
  vi_effectiveUntil :: "string option"
  vi_opSummaryDigest :: "string option"

text \<open>\<open>input[key]\<close>, the value on the entry, and \<open>recorded?.[key]\<close>.\<close>

fun input_term :: "validate_input \<Rightarrow> term_key \<Rightarrow> rat option" where
  "input_term i ValidationFees = vi_validationFees i"
| "input_term i IssuanceFees = vi_issuanceFees i"
| "input_term i VerificationFees = vi_verificationFees i"
| "input_term i IssuanceFeeDiscount = vi_issuanceFeeDiscount i"
| "input_term i VerificationFeeDiscount = vi_verificationFeeDiscount i"

fun onEntry :: "participant_dto \<Rightarrow> term_key \<Rightarrow> rat" where
  "onEntry p ValidationFees = withDefault (pd_validation_fees p) 0"
| "onEntry p IssuanceFees = withDefault (pd_issuance_fees p) 0"
| "onEntry p VerificationFees = withDefault (pd_verification_fees p) 0"
| "onEntry p IssuanceFeeDiscount = withDefault (pd_issuance_fee_discount p) 0"
| "onEntry p VerificationFeeDiscount = withDefault (pd_verification_fee_discount p) 0"

fun recorded_term :: "vt_flow_validation \<Rightarrow> term_key \<Rightarrow> rat option" where
  "recorded_term v ValidationFees = validationFees v"
| "recorded_term v IssuanceFees = issuanceFees v"
| "recorded_term v VerificationFees = verificationFees v"
| "recorded_term v IssuanceFeeDiscount = issuanceFeeDiscount v"
| "recorded_term v VerificationFeeDiscount = verificationFeeDiscount v"

record validation_terms =
  tm_effectiveUntil :: "string option"
  tm_opSummaryDigest :: "string option"
  tm_value :: "term_key \<Rightarrow> rat"

definition is_fee :: "rat \<Rightarrow> bool" where
  "is_fee q \<longleftrightarrow> of_int \<lfloor>q\<rfloor> = q \<and> 0 \<le> q"

definition is_discount :: "rat \<Rightarrow> bool" where
  "is_discount q \<longleftrightarrow> 0 \<le> q \<and> q \<le> 1"

definition is_renewal :: "participant_dto \<Rightarrow> bool" where
  "is_renewal p \<longleftrightarrow> truthy (pd_effective_from p)"

definition option_holds :: "('a \<Rightarrow> bool) \<Rightarrow> 'a option \<Rightarrow> bool" where
  "option_holds P x = (case x of None \<Rightarrow> True | Some y \<Rightarrow> P y)"

definition validationTerms ::
  "('st, 'y) agent \<Rightarrow> validate_input \<Rightarrow> participant_dto \<Rightarrow> vt_flow_record \<Rightarrow>
   err + validation_terms" where
  "validationTerms A input applicant record =
     (case find (\<lambda>k. \<not> option_holds is_fee (input_term input k)) FEE_KEYS of
        Some k \<Rightarrow> Inl (invalidInput (term_str k @ '' must be a non-negative integer''))
      | None \<Rightarrow>
     (case find (\<lambda>k. \<not> option_holds is_discount (input_term input k)) DISCOUNT_KEYS of
        Some k \<Rightarrow> Inl (invalidInput (term_str k @ '' must be between 0 and 1''))
      | None \<Rightarrow>
     if \<not> option_holds (\<lambda>s. Date_parse A s \<noteq> None) (vi_effectiveUntil input)
     then Inl (invalidInput ''effectiveUntil must be an ISO 8601 datetime'')
     else
       let renewal = is_renewal applicant;
           recorded = (if state record = ValidationTxFailed then validation record else None)
       in case find (\<lambda>k. renewal \<and>
              \<not> option_holds (\<lambda>g. sameTerm k g (onEntry applicant k)) (input_term input k))
              (FEE_KEYS @ DISCOUNT_KEYS) of
            Some k \<Rightarrow> Inl (invalidInput
              (term_str k @ '' differs from the entry, and a renewal keeps the agreed value''))
          | None \<Rightarrow> Inr
              \<lparr> tm_effectiveUntil =
                  orElse (vi_effectiveUntil input) (Option.bind recorded effectiveUntil),
                tm_opSummaryDigest =
                  orElse (vi_opSummaryDigest input) (Option.bind recorded opSummaryDigest),
                tm_value = (\<lambda>k. if renewal then onEntry applicant k
                  else withDefault (orElse (input_term input k)
                    (Option.bind recorded (\<lambda>v. recorded_term v k))) 0) \<rparr>))"

definition validation_of ::
  "string \<Rightarrow> vt_flow_submission \<Rightarrow> validation_terms \<Rightarrow> vt_flow_validation" where
  "validation_of decided sub terms =
     \<lparr> decidedAt = decided, submission = sub,
       validationFees = Some (tm_value terms ValidationFees),
       issuanceFees = Some (tm_value terms IssuanceFees),
       verificationFees = Some (tm_value terms VerificationFees),
       issuanceFeeDiscount = Some (tm_value terms IssuanceFeeDiscount),
       verificationFeeDiscount = Some (tm_value terms VerificationFeeDiscount),
       effectiveUntil = tm_effectiveUntil terms, opSummaryDigest = tm_opSummaryDigest terms,
       validation_tx = None \<rparr>"

section \<open>Guards\<close>

definition accepted_states :: "vt_flow_state list" where
  "accepted_states = [Validating, OobPending, ValidationTxFailed, ValidatedPendingClaims]"

definition acceptedOnceValidated :: "vt_flow_state list" where
  "acceptedOnceValidated = [AwaitingOr, AwaitingValidationTx, ValidationTxSubmitted, Validated]"

definition msg_not_accepted :: "vt_flow_record \<Rightarrow> string" where
  "msg_not_accepted r =
     ''the flow is '' @ quoted (state_str (state r)) @ '', which validate does not accept''"

definition assertValidateState :: "vt_flow_record \<Rightarrow> bool \<Rightarrow> ('st, 'y, unit) act" where
  "assertValidateState record entryValidated =
     guard (state record \<in> set accepted_states \<or>
            entryValidated \<and> state record \<in> set acceptedOnceValidated)
       (invalidState (msg_not_accepted record))"

definition assertClaimsAndTerm ::
  "('st, 'y) agent \<Rightarrow> vt_flow_record \<Rightarrow> participant_dto \<Rightarrow> validation_terms \<Rightarrow>
   ('st, 'y, unit) act" where
  "assertClaimsAndTerm A record applicant terms =
     (if pd_role applicant \<noteq> participant_role_str PR_Holder then ret ()
      else
        sqn (guard (truthy (pd_did applicant))
               (invalidState ''the applicant entry has no DID to issue to''))
       (bnd (getCredentialSchema A (int_str (pd_schema_id applicant))) (\<lambda>schema.
        sqn (assertClaims A (sd_json_schema schema) (the (pd_did applicant)) (claims record))
         (guard (\<not> (schemaRequiresValidUntil (sd_json_schema schema) \<and>
                    withDefault (sd_holder_validation_validity_period schema) 0 = 0 \<and>
                    \<not> truthy (tm_effectiveUntil terms)))
           (invalidInput ''this schema has no validity period, so effectiveUntil is required'')))))"

definition orch_sendValidating :: "('st, 'y) agent \<Rightarrow> vt_flow_record \<Rightarrow> ('st, 'y, unit) act" where
  "orch_sendValidating A record =
     bnd (findConnection A (connectionId record)) (\<lambda>connection.
     sqn (guard (case connection of None \<Rightarrow> False | Some c \<Rightarrow> isReady A c)
            (invalidState ''the flow connection is not ESTABLISHED''))
    (bnd (sendValidating (ag_flow A) (rec_id record) None) (\<lambda>_. ret ())))"

definition rejected_query :: "string \<Rightarrow> tag_query" where
  "rejected_query p = [(''role'', role_str Validator), (''applicantParticipantId'', p)]"

definition isRejectedInFlight :: "('st, 'y) agent \<Rightarrow> vt_flow_record \<Rightarrow> ('st, 'y, bool) act" where
  "isRejectedInFlight A record =
     (if state record \<noteq> TerminatedByValidator \<or> validation record = None then ret False
      else if \<not> truthy (applicantParticipantId record) then ret False
      else bnd (findAllByQuery (ag_flow A) (rejected_query (the (applicantParticipantId record))))
        (\<lambda>records. ret (map_option rec_id (latest_of records) = Some (rec_id record))))"

definition submissionPath ::
  "('st, 'y) agent \<Rightarrow> participant_dto \<Rightarrow> ('st, 'y, vt_flow_submission) act" where
  "submissionPath A applicant =
     bnd (getx ax_auth) (\<lambda>authorization.
     case (authorization, pd_validator_participant_id applicant, ag_chain A) of
       (Some _, Some vid, Some chain) \<Rightarrow>
         bnd (or_undefined (getParticipant A (int_str vid))) (\<lambda>validator. case validator of
            None \<Rightarrow> ret Submission_Operator
          | Some v \<Rightarrow>
              sqn (or_undefined (refreshForOperator A (cc_address chain) None))
             (bnd (now A) (\<lambda>t.
              bnd (getx ax_auth) (\<lambda>service.
              ret (if (case service of None \<Rightarrow> False
                       | Some S \<Rightarrow> canSign (Date_parse A) t S v (ag_toValidatedUrl A))
                   then Submission_Agent else Submission_Operator)))))
     | _ \<Rightarrow> ret Submission_Operator)"

section \<open>Submitting the validation transaction\<close>

definition failed_tx :: "vt_flow_tx_reason \<Rightarrow> string \<Rightarrow> vt_flow_tx" where
  "failed_tx reason error =
     \<lparr> tx_hash = None, tx_submittedAt = None, tx_height = None, tx_status = TxStatus_Failed,
       tx_reason = Some reason, tx_error = Some error \<rparr>"

definition submitted_tx :: "string \<Rightarrow> string \<Rightarrow> vt_flow_tx" where
  "submitted_tx hash submittedAt =
     \<lparr> tx_hash = Some hash, tx_submittedAt = Some submittedAt, tx_height = None,
       tx_status = TxStatus_Submitted, tx_reason = None, tx_error = None \<rparr>"

definition scaled_discount :: "rat option \<Rightarrow> int" where
  "scaled_discount d = js_round (withDefault d 0 * DISCOUNT_SCALE)"

definition validated_params_of ::
  "('st, 'y) agent \<Rightarrow> participant_dto \<Rightarrow> vt_flow_validation \<Rightarrow> validated_params" where
  "validated_params_of A applicant v =
     \<lparr> vp_id = JsFin (of_int (pd_id applicant)),
       vp_effectiveUntil = (if truthy (effectiveUntil v)
                            then Some (Date_parse A (the (effectiveUntil v))) else None),
       vp_validationFees = validationFees v, vp_issuanceFees = issuanceFees v,
       vp_verificationFees = verificationFees v,
       vp_issuanceFeeDiscount = Some (scaled_discount (issuanceFeeDiscount v)),
       vp_verificationFeeDiscount = Some (scaled_discount (verificationFeeDiscount v)),
       vp_opSummaryDigest = opSummaryDigest v \<rparr>"

definition preflight ::
  "('st, 'y) chain_client \<Rightarrow> chain_msg \<Rightarrow> int option \<Rightarrow> ('st, 'y, fee_preflight) act" where
  "preflight chain message pid =
     bnd (getx ax_auth) (\<lambda>service.
     preflightFee (cc_calls chain) message (feeGranterFor (Some (cc_corporation chain)) service pid))"

definition submitValidation ::
  "('st, 'y) agent \<Rightarrow> string \<Rightarrow> participant_dto \<Rightarrow> vt_flow_validation \<Rightarrow>
   ('st, 'y, vt_flow_record) act" where
  "submitValidation A recordId applicant v =
     bnd (requireChain A) (\<lambda>chain.
     let fail = (\<lambda>reason error. recordValidation (ag_flow A) recordId
           (v\<lparr>validation_tx := Some (failed_tx reason error)\<rparr>) (Some ValidationTxFailed));
         message = setParticipantOPToValidatedMsg chain (validated_params_of A applicant v)
     in bnd (preflight chain message (pd_validator_participant_id applicant)) (\<lambda>checked.
        case checked of
          Stopped reason error \<Rightarrow> fail reason error
        | Fee f \<Rightarrow>
            bnd (outcome (broadcastWithoutWaiting chain [message] f)) (\<lambda>sent1. case sent1 of
               Inl error \<Rightarrow> fail BroadcastError (error_message error)
             | Inr hash \<Rightarrow>
                 bnd (now_iso (ag_flow A)) (\<lambda>at1.
                 bnd (recordValidation (ag_flow A) recordId
                        (v\<lparr>validation_tx := Some (submitted_tx hash at1)\<rparr>)
                        (Some ValidationTxSubmitted)) (\<lambda>submitted.
                 sqn (modx (\<lambda>x. x\<lparr>ax_tasks := ax_tasks x @ [recordId]\<rparr>))
                  (ret submitted))))))"

section \<open>Moving to VALIDATED\<close>

record landed_tx =
  ld_hash :: string
  ld_height :: int
  ld_timestamp :: "string option"

text \<open>The validation that \<open>markValidated\<close> stores, from what the flow had recorded and the entry.\<close>

definition validated_validation ::
  "vt_flow_validation option \<Rightarrow> participant_dto \<Rightarrow> landed_tx option \<Rightarrow> vt_flow_validation" where
  "validated_validation recorded entry landed =
     (let recTx = Option.bind recorded validation_tx;
          agentTx = (if landed \<noteq> None \<and>
                Option.bind recTx tx_hash = Some (ld_hash (the landed)) then recTx else None);
          sub = (if landed = None \<and> truthy (Option.bind recTx tx_hash) \<and>
                    Option.bind recTx tx_reason \<noteq> Some TxFailed
                 then submission (the recorded)
                 else if agentTx \<noteq> None then Submission_Agent else Submission_Operator)
      in \<lparr> decidedAt = withDefault (orElse (map_option decidedAt recorded)
             (Option.bind landed ld_timestamp)) (pd_modified entry),
           submission = sub,
           validationFees = pd_validation_fees entry, issuanceFees = pd_issuance_fees entry,
           verificationFees = pd_verification_fees entry,
           issuanceFeeDiscount = pd_issuance_fee_discount entry,
           verificationFeeDiscount = pd_verification_fee_discount entry,
           effectiveUntil = pd_effective_until entry,
           opSummaryDigest = Option.bind recorded opSummaryDigest,
           validation_tx = (case agentTx of
               Some t \<Rightarrow> Some \<lparr> tx_hash = tx_hash t, tx_submittedAt = tx_submittedAt t,
                 tx_height = map_option ld_height landed, tx_status = TxStatus_Succeeded,
                 tx_reason = None, tx_error = None \<rparr>
             | None \<Rightarrow> recTx) \<rparr>)"

definition orch_markValidated ::
  "('st, 'y) agent \<Rightarrow> string \<Rightarrow> participant_dto \<Rightarrow> landed_tx option \<Rightarrow>
   ('st, 'y, vt_flow_record) act" where
  "orch_markValidated A i entry landed =
     bnd (getx ax_marking) (\<lambda>marking.
     sqn (guard (i \<notin> marking) (invalidState ''the flow is already moving to VALIDATED''))
    (sqn (modx (\<lambda>x. x\<lparr>ax_marking := insert i (ax_marking x)\<rparr>))
      (finally_do
        (bnd (findRecord A i) (\<lambda>record.
         sqn (guard (state record \<in> set VtFlowValidatedFromStates \<or>
                     state record = TerminatedByValidator)
                (invalidState (''the flow is '' @ quoted (state_str (state record)) @
                   '', which does not precede VALIDATED'')))
          (recordValidation (ag_flow A) i
             (validated_validation (validation record) entry landed) (Some Validated))))
        (modx (\<lambda>x. x\<lparr>ax_marking := ax_marking x - {i}\<rparr>)))))"

section \<open>After VALIDATED\<close>

definition issuanceAfterValidated :: "('st, 'y) agent \<Rightarrow> string \<Rightarrow> ('st, 'y, vt_flow_record) act" where
  "issuanceAfterValidated A i =
     bnd (findRecord A i) (\<lambda>record.
     if state record \<noteq> Validated \<and> state record \<noteq> ValidatedPendingClaims then ret record
     else
       let pid = (case applicantParticipantId record of
             None \<Rightarrow> JsNaN | Some p \<Rightarrow> js_parse_number p)
       in bnd (findParticipant A (num_str pid)) (\<lambda>found1. case found1 of
            None \<Rightarrow> throw (OtherError (''Applicant participant '' @
               withDefault (applicantParticipantId record) ''undefined'' @ '' not found''))
          | Some participant \<Rightarrow>
              if cpt_role participant \<noteq> HOLDER_PARTICIPANT_TYPE then ret record
              else bnd (getCredentialSchema A (int_str (cpt_schemaId participant))) (\<lambda>schema.
                   bnd (raise (\<lambda>_. schemaViolations A (sd_json_schema schema)
                          (subject_of (cpt_did participant) (claims record)))) (\<lambda>violations.
                   if violations \<noteq> [] then
                     (if state record = Validated then markPendingClaims (ag_flow A) i
                      else ret record)
                   else offerOnboardingCredential A
                     \<lparr> oi_vtFlowRecordId = i, oi_credential = None, oi_credentialSchemaId = None,
                       oi_participant = Some participant, oi_credentialType = None,
                       oi_credentialContext = None \<rparr>))))"

text \<open>
  One run at a time per flow: the run of a call waits for the run of the call before it, named by its
  ticket.
\<close>

definition continueAfterValidated :: "('st, 'y) agent \<Rightarrow> string \<Rightarrow> ('st, 'y, vt_flow_record) act" where
  "continueAfterValidated A i =
     bnd (getx (\<lambda>x. (ax_continuing x i, ax_ticket x))) (\<lambda>(previous, ticket).
     sqn (modx (\<lambda>x. x\<lparr>ax_continuing := (ax_continuing x)(i \<mapsto> ticket), ax_ticket := Suc ticket\<rparr>))
      (finally_do
        (sqn (case previous of None \<Rightarrow> ret () | Some p \<Rightarrow> ag_awaitRun A i p)
          (issuanceAfterValidated A i))
        (bnd (getx (\<lambda>x. ax_continuing x i)) (\<lambda>c.
         whenM (c = Some ticket)
           (modx (\<lambda>x. x\<lparr>ax_continuing := (ax_continuing x)(i := None)\<rparr>))))))"

section \<open>The outcome of a transaction\<close>

definition entry_validated :: "participant_dto \<Rightarrow> bool" where
  "entry_validated p \<longleftrightarrow> pd_op_state p = Some ''VALIDATED''"

definition failed_validation ::
  "vt_flow_validation \<Rightarrow> vt_flow_tx_reason \<Rightarrow> string \<Rightarrow> int option \<Rightarrow> vt_flow_validation" where
  "failed_validation v reason error height =
     v\<lparr>validation_tx := Some
        \<lparr> tx_hash = Option.bind (validation_tx v) tx_hash,
          tx_submittedAt = Option.bind (validation_tx v) tx_submittedAt, tx_height = height,
          tx_status = TxStatus_Failed, tx_reason = Some reason, tx_error = Some error \<rparr>\<rparr>"

definition failUnlessValidated ::
  "('st, 'y) agent \<Rightarrow> vt_flow_record \<Rightarrow> vt_flow_validation \<Rightarrow> vt_flow_tx_reason \<Rightarrow> string \<Rightarrow>
   int option \<Rightarrow> ('st, 'y, unit) act" where
  "failUnlessValidated A record v reason error height =
     bnd (if truthy (applicantParticipantId record)
          then bnd (getParticipant A (the (applicantParticipantId record))) (\<lambda>p. ret (Some p))
          else ret None) (\<lambda>applicant.
     let failed = failed_validation v reason error height; i = rec_id record
     in case (case applicant of None \<Rightarrow> None | Some p \<Rightarrow> if entry_validated p then Some p else None) of
          Some p \<Rightarrow>
            bnd (findById (ag_flow A) i) (\<lambda>current.
            if map_option state current \<noteq> Some ValidationTxSubmitted then ret ()
            else
              sqn (if reason = TxFailed
                   then bnd (recordValidation (ag_flow A) i failed None) (\<lambda>_. ret ())
                   else ret ())
             (sqn (orch_markValidated A i p None)
             (bnd (continueAfterValidated A i) (\<lambda>_. ret ()))))
        | None \<Rightarrow> bnd (recordValidation (ag_flow A) i failed (Some ValidationTxFailed)) (\<lambda>_. ret ()))"

text \<open>\<open>Date.now() - Date.parse(submittedAt) >= TX_LOOKUP_TIMEOUT_MS\<close>.\<close>

definition lookup_timed_out :: "('st, 'y) agent \<Rightarrow> string \<Rightarrow> int \<Rightarrow> bool" where
  "lookup_timed_out A submittedAt t =
     (case Date_parse A submittedAt of
        None \<Rightarrow> False | Some s \<Rightarrow> TX_LOOKUP_TIMEOUT_MS \<le> t - s)"

definition findTx ::
  "('st, 'y) chain_client \<Rightarrow> string \<Rightarrow> ('st, 'y, (int \<times> int \<times> string) option) act" where
  "findTx chain hash =
     bnd (or_undefined (ch_findTx (cc_calls chain) hash)) (\<lambda>r. ret (Option.bind r (\<lambda>t. t)))"

definition msg_not_found_60 :: string where
  "msg_not_found_60 = ''not found 60 seconds after the broadcast''"

text \<open>
  One round of \<open>resolveValidationTx\<close>: \<open>Inl\<close> ends the lookup; \<open>Inr\<close> carries the landed transaction into
  the next round.
\<close>

definition resolve_round ::
  "('st, 'y) agent \<Rightarrow> ('st, 'y) chain_client \<Rightarrow> string \<Rightarrow> (int \<times> int \<times> string) option \<Rightarrow>
   ('st, 'y, unit + (int \<times> int \<times> string) option) act" where
  "resolve_round A chain i landed =
     bnd (findById (ag_flow A) i) (\<lambda>found1.
     let hash = Option.bind (Option.bind (Option.bind found1 validation) validation_tx) tx_hash
     in case found1 of
          None \<Rightarrow> ret (Inl ())
        | Some record \<Rightarrow>
            if \<not> truthy (applicantParticipantId record) \<or> \<not> truthy hash then ret (Inl ())
            else if state record \<noteq> ValidationTxSubmitted then ret (Inl ())
            else
              let v = the (validation record);
                  submittedAt = withDefault (Option.bind (validation_tx v) tx_submittedAt)
                    (decidedAt v);
                  wait = (\<lambda>tx. bnd (now A) (\<lambda>t.
                    if \<not> lookup_timed_out A submittedAt t then ret (Inr tx)
                    else if tx \<noteq> None then ret (Inl ())
                    else bnd (failUnlessValidated A record v TxNotFound msg_not_found_60 None)
                           (\<lambda>_. ret (Inl ()))))
              in bnd (case landed of Some t \<Rightarrow> ret (Some t) | None \<Rightarrow> findTx chain (the hash)) (\<lambda>tx.
                 case tx of
                   None \<Rightarrow> wait None
                 | Some (code, height, rawLog) \<Rightarrow>
                     if code = 0 then
                       bnd (getParticipant A (the (applicantParticipantId record))) (\<lambda>entry.
                       if entry_validated entry then
                         sqn (orch_markValidated A i entry (Some \<lparr> ld_hash = the hash,
                                ld_height = height, ld_timestamp = None \<rparr>))
                        (bnd (continueAfterValidated A i) (\<lambda>_. ret (Inl ())))
                       else wait tx)
                     else bnd (failUnlessValidated A record v TxFailed rawLog (Some height))
                            (\<lambda>_. ret (Inl ()))))"

definition resolveValidationTx :: "('st, 'y) agent \<Rightarrow> string \<Rightarrow> ('st, 'y, unit option) act" where
  "resolveValidationTx A i =
     bnd (requireChain A) (\<lambda>chain.
     poll (ag_fuel A) (resolve_round A chain i) (ag_sleep A TX_LOOKUP_INTERVAL_MS) None)"

definition submitted_query :: "vt_flow_state \<Rightarrow> tag_query" where
  "submitted_query s = [(''role'', role_str Validator), (''flowState'', state_str s)]"

definition resumeValidationSubmissions :: "('st, 'y) agent \<Rightarrow> ('st, 'y, unit) act" where
  "resumeValidationSubmissions A =
     bnd (findAllByQuery (ag_flow A) (submitted_query ValidationTxSubmitted)) (\<lambda>pending.
     promise_all (map (\<lambda>r. resolveValidationTx A (rec_id r)) pending))"

definition anchoring_status :: "vt_flow_record \<Rightarrow> vt_flow_tx_status option" where
  "anchoring_status r = map_option tx_status (Option.bind (issuance r) issuance_tx)"

definition resumeIssuanceSubmissions :: "('st, 'y) agent \<Rightarrow> ('st, 'y, unit) act" where
  "resumeIssuanceSubmissions A =
     bnd (findAllByQuery (ag_flow A) (submitted_query CredOffered)) (\<lambda>offered.
     promise_all (map (\<lambda>r.
       if anchoring_status r = Some TxStatus_Submitted \<and> truthy (credentialExchangeRecordId r)
       then bnd (issueCredentialForSession (ag_flow A) (rec_id r)
                   (the (credentialExchangeRecordId r)) None None) (\<lambda>_. ret ())
       else ret ()) offered))"

section \<open>Validating a flow\<close>

definition validateDirectIssuance ::
  "('st, 'y) agent \<Rightarrow> vt_flow_record \<Rightarrow> ('st, 'y, vt_flow_record) act" where
  "validateDirectIssuance A record =
     sqn (guard (state record = Validating \<or> state record = OobPending)
            (invalidState (msg_not_accepted record)))
    (sqn (guard (truthy (schemaId record)) (invalidState ''the flow names no credential schema''))
    (bnd (findConnection A (connectionId record)) (\<lambda>connection.
     let theirDid = Option.bind connection conn_theirDid
     in sqn (guard (truthy theirDid) (invalidState ''the flow connection has no peer DID''))
       (bnd (getCredentialSchema A (the (schemaId record))) (\<lambda>schema.
        sqn (assertClaims A (sd_json_schema schema) (the theirDid) (claims record))
       (sqn (if state record = OobPending then orch_sendValidating A record else ret ())
       (bnd (buildDirectIssuanceOffer A (rec_id record)) (\<lambda>offer. case offer of
          None \<Rightarrow> throw (invalidState
            ''the agent holds no active ISSUER participant for the schema of the flow'')
        | Some p \<Rightarrow>
            bnd (offerCredentialForSession (ag_flow A) (rec_id record) p) (\<lambda>(offered, ex).
            ret offered)))))))))"

text \<open>From the guards on: the terms, the claims, and what the state of the flow and of the entry ask for.\<close>

definition decideValidation ::
  "('st, 'y) agent \<Rightarrow> validate_input \<Rightarrow> vt_flow_record \<Rightarrow> participant_dto \<Rightarrow> bool \<Rightarrow>
   ('st, 'y, vt_flow_record) act" where
  "decideValidation A input record applicant rejectedInFlight =
     bnd (raise (\<lambda>_. validationTerms A input applicant record)) (\<lambda>terms.
     sqn (assertClaimsAndTerm A record applicant terms)
      (if rejectedInFlight then orch_markValidated A (rec_id record) applicant None
       else
         sqn (if state record = OobPending then orch_sendValidating A record else ret ())
          (if state record = ValidatedPendingClaims then continueAfterValidated A (rec_id record)
           else if entry_validated applicant then
             sqn (if state record \<noteq> Validated
                  then bnd (orch_markValidated A (rec_id record) applicant None) (\<lambda>_. ret ())
                  else ret ())
              (continueAfterValidated A (rec_id record))
           else
             bnd (now_iso (ag_flow A)) (\<lambda>decided.
             bnd (submissionPath A applicant) (\<lambda>path.
             let v = validation_of decided path terms
             in if path = Submission_Operator
                then recordValidation (ag_flow A) (rec_id record) v (Some AwaitingValidationTx)
                else submitValidation A (rec_id record) applicant v)))))"

definition validateFlow ::
  "('st, 'y) agent \<Rightarrow> validate_input \<Rightarrow> ('st, 'y, vt_flow_record) act" where
  "validateFlow A input =
     bnd (requireChain A) (\<lambda>_.
     bnd (findById (ag_flow A) (vi_vtFlowRecordId input)) (\<lambda>found1. case found1 of
       None \<Rightarrow> throw (AdminApiError (admin_code_str UnknownId) 404
         (''no flow with id '' @ [CHR 0x22] @ vi_vtFlowRecordId input @ [CHR 0x22]) [])
     | Some record \<Rightarrow>
         sqn (guard (role record = Validator) (invalidState ''validate is a validator action''))
          (if state record = CredOffered \<and> anchoring_status record = Some TxStatus_Failed \<and>
              truthy (credentialExchangeRecordId record)
           then bnd (issueCredentialForSession (ag_flow A) (rec_id record)
                       (the (credentialExchangeRecordId record)) None None) (\<lambda>(issued, ex).
                ret issued)
           else if variant record = DirectIssuance then validateDirectIssuance A record
           else
             sqn (guard (truthy (applicantParticipantId record))
                    (invalidState ''the flow names no applicant participant''))
            (bnd (getParticipant A (the (applicantParticipantId record))) (\<lambda>applicant.
             bnd (if entry_validated applicant then isRejectedInFlight A record else ret False)
               (\<lambda>rejectedInFlight.
             sqn (if rejectedInFlight then ret ()
                  else sqn (assertValidateState record (entry_validated applicant))
                    (guard (connectionTerminated record \<noteq> Some True)
                      (invalidState
                        ''the flow connection is TERMINATED until the applicant reconnects'')))
              (decideValidation A input record applicant rejectedInFlight)))))))"

end
