(* ===== verification/CredentialCheck.thy ===== *)
theory CredentialCheck
  imports ValidationTx
begin

text \<open>
  \<open>vtFlow/VtFlowOrchestrator.ts\<close>, the hooks of the vt-flow package: the anchoring of an issued
  credential, the verification of a received one, the check of the participant of a request and the
  publication of a credential; and \<open>vtFlow/ecsIssuanceExemption.ts\<close>.
\<close>

section \<open>Anchoring an issued credential\<close>

definition pending_anchoring :: "vt_flow_record \<Rightarrow> vt_flow_tx option" where
  "pending_anchoring r =
     (if anchoring_status r = Some TxStatus_Submitted then Option.bind (issuance r) issuance_tx
      else None)"

definition anchored_tx ::
  "string \<Rightarrow> string \<Rightarrow> int option \<Rightarrow> vt_flow_tx_status \<Rightarrow> vt_flow_tx_reason option \<Rightarrow> string option \<Rightarrow>
   vt_flow_tx" where
  "anchored_tx hash submittedAt height status reason error =
     \<lparr> tx_hash = Some hash, tx_submittedAt = Some submittedAt, tx_height = height,
       tx_status = status, tx_reason = reason, tx_error = error \<rparr>"

definition anchor_round ::
  "('st, 'y) agent \<Rightarrow> ('st, 'y) chain_client \<Rightarrow> string \<Rightarrow> string \<Rightarrow> unit \<Rightarrow>
   ('st, 'y, vt_flow_tx + unit) act" where
  "anchor_round A chain hash submittedAt u =
     bnd (findTx chain hash) (\<lambda>tx. case tx of
        Some (code, height, rawLog) \<Rightarrow>
          ret (Inl (if code = 0
            then anchored_tx hash submittedAt (Some height) TxStatus_Succeeded None None
            else anchored_tx hash submittedAt (Some height) TxStatus_Failed (Some TxFailed)
                   (Some rawLog)))
      | None \<Rightarrow>
          bnd (now A) (\<lambda>t.
          ret (if lookup_timed_out A submittedAt t
               then Inl (anchored_tx hash submittedAt None TxStatus_Failed (Some TxNotFound)
                      (Some msg_not_found_60))
               else Inr ())))"

definition await_anchoring ::
  "('st, 'y) agent \<Rightarrow> ('st, 'y) chain_client \<Rightarrow> string \<Rightarrow> string \<Rightarrow>
   ('st, 'y, vt_flow_tx option) act" where
  "await_anchoring A chain hash submittedAt =
     poll (ag_fuel A) (anchor_round A chain hash submittedAt)
       (ag_sleep A TX_LOOKUP_INTERVAL_MS) ()"

text \<open>
  \<open>anchor\<close>: a transaction left SUBMITTED is looked up, and only without one is a new one broadcast. The
  result is \<open>None\<close> when the lookup runs out of fuel.
\<close>

definition anchor ::
  "('st, 'y) agent \<Rightarrow> vt_flow_record \<Rightarrow> chain_msg \<Rightarrow> int \<Rightarrow> ('st, 'y, vt_flow_tx option) act" where
  "anchor A record message issuerId =
     bnd (requireChain A) (\<lambda>chain.
     let pending = pending_anchoring record; hash0 = Option.bind pending tx_hash
     in bnd (case Option.bind pending tx_submittedAt of
               Some t \<Rightarrow> ret t | None \<Rightarrow> now_iso (ag_flow A)) (\<lambda>submittedAt.
        if truthy hash0 then await_anchoring A chain (the hash0) submittedAt
        else bnd (preflight chain message (Some issuerId)) (\<lambda>checked. case checked of
           Stopped reason error \<Rightarrow> ret (Some (failed_tx reason error))
         | Fee f \<Rightarrow>
             bnd (outcome (broadcastWithoutWaiting chain [message] f)) (\<lambda>sent1. case sent1 of
                Inl error \<Rightarrow> ret (Some (failed_tx BroadcastError (error_message error)))
              | Inr hash \<Rightarrow>
                  bnd (now_iso (ag_flow A)) (\<lambda>at1.
                  sqn (recordIssuance (ag_flow A) (rec_id record)
                         \<lparr> issuance_tx = Some (submitted_tx hash at1) \<rparr>)
                   (await_anchoring A chain hash at1))))))"

text \<open>\<open>credentialSchema\<close>: the digest algorithm of a schema and its ECS type.\<close>

definition credentialSchema :: "('st, 'y) agent \<Rightarrow> int \<Rightarrow> ('st, 'y, string \<times> ecs option) act" where
  "credentialSchema A sid =
     bnd (getCredentialSchema A (int_str sid)) (\<lambda>schema.
     sqn (guard (sd_digest_algorithm schema \<noteq> [])
            (OtherError (''Credential schema '' @ int_str sid @ '' has no digest_algorithm'')))
      (ret (sd_digest_algorithm schema, classifyEcsSchema (ag_sha384 A) (sd_json_schema schema))))"

definition number_or_zero :: "string \<Rightarrow> jsnum" where
  "number_or_zero s = (case js_parse_number s of JsNaN \<Rightarrow> JsFin 0 | n \<Rightarrow> n)"

definition onCredentialIssued ::
  "('st, 'y) agent \<Rightarrow> string \<Rightarrow> json \<Rightarrow> ('st, 'y, (string \<times> vt_flow_issuance) option) act" where
  "onCredentialIssued A i signed =
     bnd (requireChain A) (\<lambda>chain.
     bnd (findRecord A i) (\<lambda>record.
     case issuerParticipantId record of
       None \<Rightarrow> throw (OtherError (''vt-flow record '' @ i @
                  '' has no issuerParticipantId to anchor against''))
     | Some issuerId \<Rightarrow>
         bnd (getParticipant A (int_str issuerId)) (\<lambda>issuer.
         bnd (credentialSchema A (pd_schema_id issuer)) (\<lambda>(algorithm, ecsKey).
         bnd (raise (\<lambda>_. ag_digestJCS A signed algorithm)) (\<lambda>digest.
         let message = createOrUpdateParticipantSessionMsg chain (participantSessionId record)
               issuerId (number_or_zero (agentParticipantId record))
               (number_or_zero (walletAgentParticipantId record)) digest
         in bnd (anchor A record message issuerId) (\<lambda>tx.
            ret (map_option (\<lambda>t. (digest, \<lparr> issuance_tx = Some t \<rparr>)) tx)))))))"

section \<open>Verifying a received credential\<close>

definition getReceivedCredentialJson :: "('st, 'y) agent \<Rightarrow> string \<Rightarrow> ('st, 'y, json) act" where
  "getReceivedCredentialJson A e =
     bnd (dc_getFormatData A e) (\<lambda>c. case c of
        None \<Rightarrow> throw (OtherError ''Received credential has no data integrity credential body'')
      | Some j \<Rightarrow> ret j)"

text \<open>\<open>s.split('#')[0]\<close>.\<close>

definition before_hash :: "string \<Rightarrow> string" where
  "before_hash s = takeWhile (\<lambda>c. c \<noteq> CHR ''#'') s"

definition credential_part :: "json \<Rightarrow> string \<Rightarrow> string \<Rightarrow> json option" where
  "credential_part credential k1 k2 = Option.bind (member credential k1) (\<lambda>v. member v k2)"

definition shown :: "string option \<Rightarrow> string" where
  "shown s = withDefault s ''undefined''"

definition assertFlowCredentialFormat ::
  "('st, 'y) agent \<Rightarrow> json \<Rightarrow> participant_dto \<Rightarrow> ('st, 'y, unit) act" where
  "assertFlowCredentialFormat A credential issuer =
     (let method = as_string (credential_part credential ''proof'' ''verificationMethod'');
          subjectId = credential_part credential ''credentialSubject'' ''id'';
          schemaRef = credential_part credential ''credentialSchema'' ''id''
      in sqn (guard (isVcdm2Credential credential)
                (OtherError ''Received credential is not a VC Data Model 2.0 credential''))
        (sqn (guard (truthy (pd_did issuer) \<and> map_option before_hash method = pd_did issuer)
                (OtherError (''Proof verification method '' @ shown method @
                   '' is not one of the validator '' @ shown (pd_did issuer))))
        (sqn (guard (subjectId = map_option JStr (ag_did A))
                (OtherError (''Credential subject '' @ shown (as_string subjectId) @
                   '' is not the applicant '' @ shown (ag_did A))))
        (bnd (requireChain A) (\<lambda>chain.
         bnd (resolveJsonSchemaCredentialId A (int_str (pd_schema_id issuer)) (cc_chainId chain)) (\<lambda>jsc.
         guard (schemaRef = Some (JStr jsc))
           (OtherError (''Credential schema '' @ shown (as_string schemaRef) @ '' is not the VTJSC '' @
              jsc @ '' of the flow''))))))))"

text \<open>The first session record that names an issuer.\<close>

definition session_issuer :: "session_dto \<Rightarrow> int option" where
  "session_issuer s =
     Option.bind (find (\<lambda>r. r \<noteq> None) (withDefault (ss_session_records s) [])) (\<lambda>r. r)"

definition assertIssuer ::
  "vt_flow_record \<Rightarrow> int \<Rightarrow> participant_dto \<Rightarrow> ('st, 'y, unit) act" where
  "assertIssuer record issuerId issuer =
     (let who = ''Issuer participant '' @ int_str issuerId
      in sqn (guard (pd_role issuer = participant_role_str PR_Issuer)
                (OtherError (who @ '' is not an ISSUER (role='' @ pd_role issuer @ '')'')))
        (sqn (guard (pd_participant_state issuer = Some participant_state_active)
                (OtherError (who @ '' is not active (state='' @
                   shown (pd_participant_state issuer) @ '')'')))
          (guard (case schemaId record of
                    None \<Rightarrow> True
                  | Some s \<Rightarrow> js_parse_number s = JsFin (of_int (pd_schema_id issuer)))
            (OtherError (''Issuer participant schema '' @ int_str (pd_schema_id issuer) @
               '' does not match credential schema '' @ shown (schemaId record))))))"

definition verifyOfferedCredential :: "('st, 'y) agent \<Rightarrow> string \<Rightarrow> ('st, 'y, unit) act" where
  "verifyOfferedCredential A i =
     bnd (findRecord A i) (\<lambda>record.
     sqn (guard (role record = Applicant) (OtherError ''Record is not applicant-side''))
    (sqn (guard (truthy (credentialExchangeRecordId record))
            (OtherError ''Record has no credentialExchangeRecordId; nothing to verify''))
    (bnd (ix_session A (participantSessionId record)) (\<lambda>session. case session of
       None \<Rightarrow> throw (OtherError (''ParticipantSession '' @ participantSessionId record @
                  '' not found on indexer''))
     | Some s \<Rightarrow>
         (case session_issuer s of
            None \<Rightarrow> throw (OtherError (''ParticipantSession '' @ participantSessionId record @
                       '' has no issuer_participant_id''))
          | Some issuerId \<Rightarrow>
              bnd (getParticipant A (int_str issuerId)) (\<lambda>issuer.
              sqn (assertIssuer record issuerId issuer)
             (bnd (getReceivedCredentialJson A (the (credentialExchangeRecordId record)))
                (\<lambda>credential.
              sqn (assertFlowCredentialFormat A credential issuer)
             (bnd (credentialSchema A (pd_schema_id issuer)) (\<lambda>(algorithm, ecsKey).
              bnd (raise (\<lambda>_. ag_digestJCS A credential algorithm)) (\<lambda>digest.
              bnd (ix_digest A digest) (\<lambda>anchored.
              sqn (guard (anchored \<noteq> None)
                     (OtherError (''Credential digest '' @ digest @ '' is not anchored on-chain'')))
               (case ecsKey of
                  None \<Rightarrow> ret ()
                | Some k \<Rightarrow> bnd (setEcsSchemaKey (ag_flow A) (rec_id record) (ecs_str k))
                    (\<lambda>_. ret ()))))))))))))))"

definition acceptCredential :: "('st, 'y) agent \<Rightarrow> string \<Rightarrow> ('st, 'y, vt_flow_record) act" where
  "acceptCredential A i =
     bnd (findRecord A i) (\<lambda>record.
     sqn (guard (role record = Applicant) (OtherError ''Record is not applicant-side''))
    (sqn (guard (state record = CredOffered)
            (OtherError (''Record state is '' @ quoted (state_str (state record)) @ '', expected '' @
               quoted (state_str CredOffered))))
    (sqn (verifyOfferedCredential A i)
      (acceptReceivedCredential (ag_flow A) i))))"

section \<open>The participant of a request\<close>

definition has_moved_on :: "vt_flow_record option \<Rightarrow> bool" where
  "has_moved_on flow \<longleftrightarrow> map_option state flow \<noteq> Some AwaitingOr"

text \<open>
  One round of \<open>checkParticipantId\<close>; the loop variable is \<open>validatedAtFirstRead\<close>, which the first round
  sets.
\<close>

definition participant_round ::
  "('st, 'y) agent \<Rightarrow> vt_flow_record \<Rightarrow> int \<Rightarrow> bool option \<Rightarrow>
   ('st, 'y, participant_check + bool option) act" where
  "participant_round A record deadline seen =
     bnd (or_undefined (getParticipant A (the (applicantParticipantId record)))) (\<lambda>entry.
     let first = withDefault seen
           (case entry of None \<Rightarrow> False | Some e \<Rightarrow> entry_validated e);
         next_round = bnd (now A) (\<lambda>t.
           ret (if deadline \<le> t then Inl CheckFalse else Inr (Some first)))
     in case entry of
          None \<Rightarrow> next_round
        | Some e \<Rightarrow>
            (case pd_validator_participant_id e of
               None \<Rightarrow> ret (Inl CheckFalse)
             | Some vid \<Rightarrow>
                 if truthy (pd_revoked e) \<or> truthy (pd_slashed e) then ret (Inl CheckFalse)
                 else bnd (or_undefined (getParticipant A (int_str vid))) (\<lambda>validator.
                   case validator of
                     None \<Rightarrow> next_round
                   | Some v \<Rightarrow>
                       if pd_did v \<noteq> ag_did A then ret (Inl CheckFalse)
                       else if pd_op_state e = Some ''PENDING'' then ret (Inl CheckTrue)
                       else if entry_validated e then
                         bnd (findById (ag_flow A) (rec_id record)) (\<lambda>flow.
                         bnd (getx ax_marking) (\<lambda>marking.
                         if has_moved_on flow \<or> rec_id record \<in> marking
                         then ret (Inl CheckValidated)
                         else if \<not> first then
                           sqn (orch_markValidated A (rec_id record) e None)
                          (sqn (continueAfterValidated A (rec_id record))
                            (ret (Inl CheckValidated)))
                         else next_round))
                       else next_round)))"

definition orch_checkParticipantId ::
  "('st, 'y) agent \<Rightarrow> vt_flow_record \<Rightarrow> ('st, 'y, participant_check option) act" where
  "orch_checkParticipantId A record =
     (if \<not> truthy (applicantParticipantId record) \<or> \<not> truthy (ag_did A) then ret (Some CheckFalse)
      else bnd (now A) (\<lambda>t.
        poll (ag_fuel A) (participant_round A record (t + TX_LOOKUP_TIMEOUT_MS))
          (ag_sleep A TX_LOOKUP_INTERVAL_MS) None))"

section \<open>The ECS issuance exemption\<close>

definition EXEMPT_ECS_TYPES :: "ecs list" where
  "EXEMPT_ECS_TYPES = [ECS_ORG, ECS_PERSONA, ECS_SERVICE]"

definition toEntityId :: "string \<Rightarrow> int option" where
  "toEntityId s =
     (case js_parse_number s of
        JsFin q \<Rightarrow> if of_int \<lfloor>q\<rfloor> = q \<and> 0 < q then Some \<lfloor>q\<rfloor> else None
      | _ \<Rightarrow> None)"

definition schemaOfPendingOnboarding ::
  "('st, 'y) agent \<Rightarrow> string \<Rightarrow> string \<Rightarrow> string \<Rightarrow> ('st, 'y, int option) act" where
  "schemaOfPendingOnboarding A participantId peerDid ownDid =
     (case toEntityId participantId of
        None \<Rightarrow> ret None
      | Some i \<Rightarrow>
          bnd (getParticipant A (int_str i)) (\<lambda>p.
          if pd_did p \<noteq> Some peerDid then ret None
          else if pd_op_state p \<noteq> Some ''PENDING'' then ret None
          else if truthy (pd_revoked p) \<or> truthy (pd_slashed p) then ret None
          else case pd_validator_participant_id p of
              None \<Rightarrow> ret None
            | Some vid \<Rightarrow>
                bnd (getParticipant A (int_str vid)) (\<lambda>v.
                ret (if pd_did v \<noteq> Some ownDid then None else Some (pd_schema_id p)))))"

definition isUsableIssuer :: "participant_dto \<Rightarrow> bool" where
  "isUsableIssuer p \<longleftrightarrow>
     \<not> truthy (pd_revoked p) \<and> \<not> truthy (pd_slashed p) \<and>
     (pd_participant_state p = Some ''ACTIVE'' \<or> pd_participant_state p = Some ''FUTURE'')"

definition schemaOfDirectIssuance ::
  "('st, 'y) agent \<Rightarrow> string option \<Rightarrow> string \<Rightarrow> ('st, 'y, int option) act" where
  "schemaOfDirectIssuance A sid ownDid =
     (case Option.bind sid toEntityId of
        None \<Rightarrow> ret None
      | Some i \<Rightarrow>
          bnd (ix_participants A (issuer_filter (Some ownDid) (JsFin (of_int i)) None)) (\<lambda>issuers.
          ret (if list_ex isUsableIssuer issuers then Some i else None)))"

definition isTrustedEcsSchema :: "('st, 'y) agent \<Rightarrow> int \<Rightarrow> ('st, 'y, bool) act" where
  "isTrustedEcsSchema A sid =
     bnd (getCredentialSchema A (int_str sid)) (\<lambda>schema.
     if truthy (sd_archived schema) then ret False
     else case classifyEcsSchema (ag_sha384 A) (sd_json_schema schema) of
         None \<Rightarrow> ret False
       | Some e \<Rightarrow>
           if e \<notin> set EXEMPT_ECS_TYPES then ret False
           else (case ag_trustedEcosystemDids A of
               Some (d # ds) \<Rightarrow>
                 bnd (getEcosystem A (int_str (sd_ecosystem_id schema))) (\<lambda>eco.
                 ret (\<not> truthy (ed_archived eco) \<and>
                      (case ed_did eco of None \<Rightarrow> False | Some did \<Rightarrow> did \<in> set (d # ds))))
             | _ \<Rightarrow> ret True))"

definition isEcsIssuanceExempt ::
  "('st, 'y) agent \<Rightarrow> string \<Rightarrow> request_purpose \<Rightarrow> ('st, 'y, bool) act" where
  "isEcsIssuanceExempt A peerDid purpose =
     (if \<not> truthy (ag_did A) then ret False
      else catch
        (bnd (if truthy (pu_participantId purpose)
              then schemaOfPendingOnboarding A (the (pu_participantId purpose)) peerDid
                     (the (ag_did A))
              else schemaOfDirectIssuance A (pu_schemaId purpose) (the (ag_did A))) (\<lambda>sid.
         case sid of None \<Rightarrow> ret False | Some s \<Rightarrow> isTrustedEcsSchema A s))
        (\<lambda>error. ret False))"

section \<open>Publishing and withdrawing a credential\<close>

text \<open>\<open>/schemas-([a-z0-9-]+?)-(?:jsc|c-vp)\.json/i\<close>: the first match, with the shortest group.\<close>

definition is_schema_char :: "char \<Rightarrow> bool" where
  "is_schema_char c \<longleftrightarrow> is_digit c \<or> c = CHR ''-'' \<or>
     (97 \<le> (of_char c :: nat) \<and> (of_char c :: nat) \<le> 122)"

definition ends_group :: "string \<Rightarrow> bool" where
  "ends_group s \<longleftrightarrow> take 9 s = ''-jsc.json'' \<or> take 10 s = ''-c-vp.json''"

definition group_at :: "string \<Rightarrow> string option" where
  "group_at s =
     (if take 8 s \<noteq> ''schemas-'' then None
      else
        let r = drop 8 s
        in map_option (\<lambda>n. take n r)
             (find (\<lambda>n. list_all is_schema_char (take n r) \<and> ends_group (drop n r))
               [1..<Suc (length r)]))"

fun first_group :: "string \<Rightarrow> string option" where
  "first_group [] = None"
| "first_group (c # s) = (case group_at (c # s) of None \<Rightarrow> first_group s | Some g \<Rightarrow> Some g)"

definition extractSchemaBaseId :: "string \<Rightarrow> string option" where
  "extractSchemaBaseId url = first_group (map lower_char url)"

definition linkedVpSchemaId :: "string \<Rightarrow> string" where
  "linkedVpSchemaId key = (if take 4 key = ''ecs-'' then drop 4 key else key)"

definition publishCredentialAsLinkedVp :: "('st, 'y) agent \<Rightarrow> string \<Rightarrow> ('st, 'y, unit) act" where
  "publishCredentialAsLinkedVp A i =
     sqn (guard (truthy (ag_publicApiBaseUrl A))
            (OtherError ''publicApiBaseUrl is required to publish a LinkedVerifiablePresentation''))
    (bnd (findRecord A i) (\<lambda>record.
     sqn (guard (role record = Applicant) (OtherError ''Record is not applicant-side''))
    (sqn (guard (truthy (credentialExchangeRecordId record))
            (OtherError (''vt-flow record '' @ i @ '' has no credentialExchangeRecordId'')))
    (bnd (getReceivedCredentialJson A (the (credentialExchangeRecordId record))) (\<lambda>credential.
     let schemaRef = as_string (credential_part credential ''credentialSchema'' ''id'');
         baseId = (if truthy schemaRef then extractSchemaBaseId (the schemaRef) else None)
     in sqn (guard (truthy baseId)
               (OtherError (''Cannot publish Linked VP: credential has no extractable schema base id '' @
                  ''(credentialSchema.id='' @ shown schemaRef @ '')'')))
       (sqn (lv_createVtc A (the (ag_publicApiBaseUrl A))
               (if truthy (ecsSchemaKey record) then linkedVpSchemaId (the (ecsSchemaKey record))
                else the baseId) credential)
         (case as_string (member credential ''id'') of
            None \<Rightarrow> ret ()
          | Some cid \<Rightarrow> bnd (setCredentialId (ag_flow A) (rec_id record) cid) (\<lambda>_. ret ()))))))))"

definition onCredentialCompleted :: "('st, 'y) agent \<Rightarrow> string \<Rightarrow> ('st, 'y, unit) act" where
  "onCredentialCompleted A i =
     bnd (findById (ag_flow A) i) (\<lambda>found1. case found1 of
        None \<Rightarrow> ret ()
      | Some record \<Rightarrow>
          if role record \<noteq> Applicant \<or> \<not> truthy (ag_publicApiBaseUrl A) then ret ()
          else publishCredentialAsLinkedVp A i)"

definition orch_onCredentialRevoked :: "('st, 'y) agent \<Rightarrow> string \<Rightarrow> ('st, 'y, unit) act" where
  "orch_onCredentialRevoked A i =
     bnd (findById (ag_flow A) i) (\<lambda>found1. case found1 of
        None \<Rightarrow> ret ()
      | Some record \<Rightarrow>
          if role record \<noteq> Applicant \<or> \<not> truthy (ag_publicApiBaseUrl A) then ret ()
          else if \<not> truthy (credentialId record) \<and> \<not> truthy (credentialExchangeRecordId record)
          then ret ()
          else bnd (lv_removeStored A (credentialId record) (credentialExchangeRecordId record))
                 (\<lambda>_. ret ()))"

definition rotateRequesterDidToPeer :: "('st, 'y) agent \<Rightarrow> string \<Rightarrow> ('st, 'y, unit) act" where
  "rotateRequesterDidToPeer A c = dc_rotate A c"

end
