(* ===== verification/EcsClaims.thy ===== *)
theory EcsClaims
  imports AgentEnv
begin

text \<open>
  \<open>utils/ecsClaims.ts\<close>: the claims an agent proposes for an ECS credential, from the variables the
  operator set; and \<open>utils/didReadiness.ts\<close>: the wait for the agent's own DID document. \<open>host\<close> is the
  agent together with what the process around it reads and publishes.
\<close>

section \<open>The process around the agent\<close>

record ecs_claims =
  ec_localResources :: "(string \<times> string) list option"
  ec_org :: "(string \<times> string option) list option"
  ec_persona :: "(string \<times> string option) list option"
  ec_service :: "(string \<times> string option) list option"

text \<open>
  \<open>ho_getBytes\<close> is \<open>axios.get\<close> of a URI, \<open>ho_fetchOk\<close> whether a \<open>fetch\<close> answers 2xx. The store of trust
  credentials (\<open>utils/trustCredentialStore.ts\<close>) and the publication of the artifacts of a schema are
  calls: \<open>ho_createJsc\<close> publishes the VTJSC of a schema id, a schema reference and the schema's text, and
  answers the id of the credential.
\<close>

record ('st, 'y) host =
  ho_agent :: "('st, 'y) agent"
  ho_ecsClaims :: "ecs_claims option"
  ho_getBytes :: "string \<Rightarrow> ('st, 'y, string) act"
  ho_fetchOk :: "string \<Rightarrow> ('st, 'y, bool) act"
  ho_publicDids :: "('st, 'y, string list) act"
  ho_withdrawSelfIssued :: "int \<Rightarrow> ('st, 'y, string list) act"
  ho_createJsc :: "string \<Rightarrow> string \<Rightarrow> string \<Rightarrow> ('st, 'y, string option) act"
  ho_publishTypeMetadata :: "jsnum \<Rightarrow> string \<Rightarrow> string \<Rightarrow> string \<Rightarrow> ('st, 'y, bool) act"
  ho_publishAnonCredsSchema :: "jsnum \<Rightarrow> string \<Rightarrow> string \<Rightarrow> ('st, 'y, string option) act"
  ho_reconcileVtjsc :: "ecs_claims \<Rightarrow> ('st, 'y, unit) act"

section \<open>Claims\<close>

datatype claim_group = G_org | G_persona | G_service

definition GROUP_OF :: "ecs \<Rightarrow> claim_group option" where
  "GROUP_OF e = (case e of
     ECS_SERVICE \<Rightarrow> Some G_service | ECS_PERSONA \<Rightarrow> Some G_persona | ECS_ORG \<Rightarrow> Some G_org
   | _ \<Rightarrow> None)"

fun group_claims :: "ecs_claims \<Rightarrow> claim_group \<Rightarrow> (string \<times> string option) list option" where
  "group_claims c G_org = ec_org c"
| "group_claims c G_persona = ec_persona c"
| "group_claims c G_service = ec_service c"

definition groupOf :: "ecs_claims \<Rightarrow> ecs \<Rightarrow> (string \<times> string option) list option" where
  "groupOf c e = Option.bind (GROUP_OF e) (group_claims c)"

definition DIGEST_OF :: "(string \<times> string) list" where
  "DIGEST_OF =
     [(''logoDigestSri'', ''logoUri''), (''avatarDigestSri'', ''avatarUri''),
      (''termsAndConditionsDigestSri'', ''termsAndConditionsUri''),
      (''privacyPolicyDigestSri'', ''privacyPolicyUri'')]"

text \<open>The variable of each URI claim, which an error message names.\<close>

definition ECS_CLAIMS_VARIABLES :: "claim_group \<Rightarrow> (string \<times> string) list" where
  "ECS_CLAIMS_VARIABLES g = (case g of
     G_org \<Rightarrow>
       [(''name'', ''ECS_CLAIMS_ORG_NAME''), (''logoUri'', ''ECS_CLAIMS_ORG_LOGO_URI''),
        (''registryId'', ''ECS_CLAIMS_ORG_REGISTRY_ID''),
        (''registryUri'', ''ECS_CLAIMS_ORG_REGISTRY_URI''), (''address'', ''ECS_CLAIMS_ORG_ADDRESS''),
        (''countryCode'', ''ECS_CLAIMS_ORG_COUNTRY_CODE''),
        (''legalJurisdiction'', ''ECS_CLAIMS_ORG_LEGAL_JURISDICTION''),
        (''organizationKind'', ''ECS_CLAIMS_ORG_ORGANIZATION_KIND''), (''lei'', ''ECS_CLAIMS_ORG_LEI'')]
   | G_persona \<Rightarrow>
       [(''name'', ''ECS_CLAIMS_PERSONA_NAME''), (''description'', ''ECS_CLAIMS_PERSONA_DESCRIPTION''),
        (''descriptionFormat'', ''ECS_CLAIMS_PERSONA_DESCRIPTION_FORMAT''),
        (''avatarUri'', ''ECS_CLAIMS_PERSONA_AVATAR_URI''),
        (''controllerCountryCode'', ''ECS_CLAIMS_PERSONA_CONTROLLER_COUNTRY_CODE''),
        (''controllerJurisdiction'', ''ECS_CLAIMS_PERSONA_CONTROLLER_JURISDICTION'')]
   | G_service \<Rightarrow>
       [(''name'', ''ECS_CLAIMS_SERVICE_NAME''), (''type'', ''ECS_CLAIMS_SERVICE_TYPE''),
        (''description'', ''ECS_CLAIMS_SERVICE_DESCRIPTION''),
        (''descriptionFormat'', ''ECS_CLAIMS_SERVICE_DESCRIPTION_FORMAT''),
        (''logoUri'', ''ECS_CLAIMS_SERVICE_LOGO_URI''),
        (''minimumAgeRequired'', ''ECS_CLAIMS_SERVICE_MINIMUM_AGE_REQUIRED''),
        (''termsAndConditionsUri'', ''ECS_CLAIMS_SERVICE_TERMS_AND_CONDITIONS_URI''),
        (''privacyPolicyUri'', ''ECS_CLAIMS_SERVICE_PRIVACY_POLICY_URI'')])"

text \<open>\<open>readEcsClaimsFromEnv\<close>; \<open>env0\<close> is \<open>process.env\<close>, and an empty value counts as unset.\<close>

definition readEcsClaimsFromEnv :: "(string \<Rightarrow> string option) \<Rightarrow> ecs_claims" where
  "readEcsClaimsFromEnv env0 =
     (let read = (\<lambda>g. Some (map (\<lambda>(claim, name).
            (claim, case env0 name of
               None \<Rightarrow> None
             | Some v \<Rightarrow> if js_trim v = [] then None else Some (js_trim v))) (ECS_CLAIMS_VARIABLES g)))
      in \<lparr> ec_localResources = None, ec_org = read G_org, ec_persona = read G_persona,
           ec_service = read G_service \<rparr>)"

definition DIGEST_ATTEMPTS :: nat where
  "DIGEST_ATTEMPTS = 4"

definition DIGEST_BASE_DELAY_MS :: int where
  "DIGEST_BASE_DELAY_MS = 500"

definition digestOfBytes :: "('st, 'y) agent \<Rightarrow> string \<Rightarrow> string" where
  "digestOfBytes A content = ''sha384-'' @ ag_sha384 A content"

text \<open>The attempts of \<open>digestOfUri\<close>; \<open>k\<close> of them are left, the first of the four having \<open>k = 4\<close>.\<close>

definition msg_no_digest :: "string \<Rightarrow> string \<Rightarrow> err \<Rightarrow> string" where
  "msg_no_digest uri variable e =
     ''cannot compute the digest of '' @ variable @ '' ('' @ uri @ ''): '' @ error_message e"

fun digest_attempts ::
  "('st, 'y) host \<Rightarrow> string \<Rightarrow> string \<Rightarrow> nat \<Rightarrow> err \<Rightarrow> ('st, 'y, string) act" where
  "digest_attempts H uri variable 0 lastError = throw (OtherError (msg_no_digest uri variable lastError))"
| "digest_attempts H uri variable (Suc k) lastError =
     bnd (outcome (ho_getBytes H uri)) (\<lambda>r. case r of
        Inr content \<Rightarrow> ret (digestOfBytes (ho_agent H) content)
      | Inl e \<Rightarrow>
          sqn (whenM (k \<noteq> 0)
                 (ag_sleep (ho_agent H) (DIGEST_BASE_DELAY_MS * 2 ^ (DIGEST_ATTEMPTS - Suc k))))
            (digest_attempts H uri variable k e))"

definition digestOfUri :: "('st, 'y) host \<Rightarrow> string \<Rightarrow> string \<Rightarrow> ('st, 'y, string) act" where
  "digestOfUri H uri variable =
     digest_attempts H uri variable DIGEST_ATTEMPTS (OtherError ''undefined'')"

text \<open>
  \<open>composeEcsClaims\<close>: the configured claims, with \<open>minimumAgeRequired\<close> as a number, then the digest of
  each URI claim. JSON has no NaN: a claim that is no number is kept as \<open>JNull\<close>, as it is serialized.
\<close>

definition claim_value :: "string \<Rightarrow> string \<Rightarrow> json" where
  "claim_value claim v =
     (if claim = ''minimumAgeRequired''
      then (case js_parse_number v of JsFin q \<Rightarrow> JNum q | _ \<Rightarrow> JNull)
      else JStr v)"

definition configured_claims :: "ecs_claims \<Rightarrow> ecs \<Rightarrow> (string \<times> string) list" where
  "configured_claims c e =
     map (\<lambda>(k, v). (k, the v))
       (filter (\<lambda>(k, v). v \<noteq> None \<and> v \<noteq> Some []) (withDefault (groupOf c e) []))"

definition claim_variable :: "ecs \<Rightarrow> string \<Rightarrow> string" where
  "claim_variable e uriClaim =
     (case GROUP_OF e of
        None \<Rightarrow> uriClaim
      | Some g \<Rightarrow> withDefault (map_of (ECS_CLAIMS_VARIABLES g) uriClaim) uriClaim)"

definition digest_claim ::
  "('st, 'y) host \<Rightarrow> ecs_claims \<Rightarrow> ecs \<Rightarrow> string \<times> string \<Rightarrow> (string \<times> json) list \<Rightarrow>
   ('st, 'y, (string \<times> json) list) act" where
  "digest_claim H c e p composed =
     (case map_of composed (snd p) of
        Some (JStr uri) \<Rightarrow>
          (let local0 = Option.bind (ec_localResources c) (\<lambda>m. map_of m uri)
           in bnd (if truthy local0 then ret (digestOfBytes (ho_agent H) (the local0))
                   else digestOfUri H uri (claim_variable e (snd p))) (\<lambda>d.
              ret (jsmap_set (fst p) (JStr d) composed)))
      | _ \<Rightarrow> ret composed)"

fun digest_claims ::
  "('st, 'y) host \<Rightarrow> ecs_claims \<Rightarrow> ecs \<Rightarrow> (string \<times> string) list \<Rightarrow> (string \<times> json) list \<Rightarrow>
   ('st, 'y, (string \<times> json) list) act" where
  "digest_claims H c e [] composed = ret composed"
| "digest_claims H c e (p # ps) composed =
     bnd (digest_claim H c e p composed) (digest_claims H c e ps)"

definition composeEcsClaims ::
  "('st, 'y) host \<Rightarrow> ecs_claims \<Rightarrow> ecs \<Rightarrow> ('st, 'y, (string \<times> json) list option) act" where
  "composeEcsClaims H c e =
     (let set0 = configured_claims c e
      in if set0 = [] then ret None
         else bnd (digest_claims H c e DIGEST_OF (map (\<lambda>(k, v). (k, claim_value k v)) set0))
                (\<lambda>composed. ret (Some composed)))"

section \<open>The agent's own DID document\<close>

definition OWN_DID_READY_TIMEOUT_MS :: int where
  "OWN_DID_READY_TIMEOUT_MS = 60000"

definition OWN_DID_READY_POLL_INTERVAL_MS :: int where
  "OWN_DID_READY_POLL_INTERVAL_MS = 2000"

text \<open>\<open>baseUrl.replace(/\/+$/, '')\<close>, and whether \<open>new URL(baseUrl)\<close> has a path other than \<open>/\<close>.\<close>

definition without_slashes :: "string \<Rightarrow> string" where
  "without_slashes u = rev (dropWhile (\<lambda>c. c = CHR ''/'') (rev u))"

fun after_scheme :: "string \<Rightarrow> string option" where
  "after_scheme [] = None"
| "after_scheme (c # s) = (if take 3 (c # s) = ''://'' then Some (drop 2 s) else after_scheme s)"

definition has_path :: "string \<Rightarrow> bool" where
  "has_path rest =
     (let tail = takeWhile (\<lambda>c. c \<noteq> CHR ''?'' \<and> c \<noteq> CHR ''#'') rest;
          path0 = dropWhile (\<lambda>c. c \<noteq> CHR ''/'') tail
      in path0 \<noteq> [] \<and> path0 \<noteq> ''/'')"

definition documentUrl :: "string \<Rightarrow> string \<Rightarrow> err + string" where
  "documentUrl did base =
     (let file = (if take 8 did = ''did:web:'' then ''did.json'' else ''did.jsonl'');
          baseUrl = without_slashes base
      in case after_scheme baseUrl of
           None \<Rightarrow> Inl (OtherError ''Invalid URL'')
         | Some rest \<Rightarrow> Inr (if has_path rest then baseUrl @ ''/'' @ file
                            else baseUrl @ ''/.well-known/'' @ file))"

text \<open>One turn of the loop: the deadline is read before the fetch, and a fetch that throws is a miss.\<close>

definition ready_round :: "('st, 'y) host \<Rightarrow> string \<Rightarrow> int \<Rightarrow> unit \<Rightarrow> ('st, 'y, unit + unit) act" where
  "ready_round H url deadline u =
     bnd (now (ho_agent H)) (\<lambda>t.
     if deadline \<le> t then ret (Inl ())
     else bnd (or_undefined (ho_fetchOk H url)) (\<lambda>answered.
       ret (if answered = Some True then Inl () else Inr ())))"

definition waitUntilOwnDidIsPubliclyResolvable :: "('st, 'y) host \<Rightarrow> ('st, 'y, unit option) act" where
  "waitUntilOwnDidIsPubliclyResolvable H =
     (let A = ho_agent H
      in if \<not> truthy (ag_did A) \<or> \<not> truthy (ag_publicApiBaseUrl A) then ret (Some ())
         else bnd (raise (\<lambda>_. documentUrl (the (ag_did A)) (the (ag_publicApiBaseUrl A)))) (\<lambda>url.
              bnd (now A) (\<lambda>t.
              poll (ag_fuel A) (ready_round H url (t + OWN_DID_READY_TIMEOUT_MS))
                (ag_sleep A OWN_DID_READY_POLL_INTERVAL_MS) ())))"

end
