(* ===== verification/ChainReactions.thy ===== *)
theory ChainReactions
  imports CredentialCheck EcsClaims HandlerRegistry
begin

text \<open>
  The reactions of an agent to the events of the chain: the second part of
  \<open>blockchain/handlers/stateMutations.ts\<close>, the table of \<open>defaultHandlers.ts\<close> and the handlers of
  \<open>selfIssuanceHandlers.ts\<close>. An agent has one public base URL, which the source reads from the agent
  here and from the orchestrator's options elsewhere.
\<close>

section \<open>The flows of a participant\<close>

definition reconcileVtFlowRecordsForParticipant ::
  "('st, 'y) agent \<Rightarrow> string \<Rightarrow> (vt_flow_record \<Rightarrow> ('st, 'y, string option) act) \<Rightarrow>
   ('st, 'y, unit) act" where
  "reconcileVtFlowRecordsForParticipant A participantId reconcile =
     bnd (findAllByQuery (ag_flow A) [(''applicantParticipantId'', participantId)]) (\<lambda>records.
     forM records (\<lambda>record. catch (bnd (reconcile record) (\<lambda>_. ret ())) (\<lambda>e. ret ())))"

definition markVtFlowRecordsValidated ::
  "('st, 'y) agent \<Rightarrow> string \<Rightarrow> landed_tx \<Rightarrow> ('st, 'y, unit) act" where
  "markVtFlowRecordsValidated A participantId tx =
     reconcileVtFlowRecordsForParticipant A participantId (\<lambda>record.
       if role record \<noteq> Validator then ret None
       else bnd (isRejectedInFlight A record) (\<lambda>rejectedInFlight.
         if state record \<notin> set VtFlowValidatedFromStates \<and> \<not> rejectedInFlight then ret None
         else
           bnd (getParticipant A participantId) (\<lambda>entry.
           sqn (orch_markValidated A (rec_id record) entry (Some tx))
          (sqn (if rejectedInFlight then ret ()
                else bnd (continueAfterValidated A (rec_id record)) (\<lambda>_. ret ()))
            (ret (Some ''VALIDATED''))))))"

definition markApplicantVtFlowRecordsValidated :: "('st, 'y) agent \<Rightarrow> string \<Rightarrow> ('st, 'y, unit) act" where
  "markApplicantVtFlowRecordsValidated A participantId =
     reconcileVtFlowRecordsForParticipant A participantId (\<lambda>record.
       if role record \<noteq> Applicant \<or> state record \<notin> {OrSent, Validating, OobPending} then ret None
       else sqn (updateState (ag_flow A) record Validated) (ret (Some ''VALIDATED'')))"

definition msg_revoked :: "string \<Rightarrow> string" where
  "msg_revoked p = ''Participant '' @ p @ '' has been revoked on-chain''"

definition msg_slashed :: "string \<Rightarrow> string" where
  "msg_slashed p = ''Participant '' @ p @ '' trust deposit has been slashed on-chain''"

definition setVtFlowRecordsParticipantRevoked :: "('st, 'y) agent \<Rightarrow> string \<Rightarrow> ('st, 'y, unit) act" where
  "setVtFlowRecordsParticipantRevoked A participantId =
     reconcileVtFlowRecordsForParticipant A participantId (\<lambda>record.
       if state record = ParticipantRevoked \<or> state record = ParticipantSlashed then ret None
       else sqn (api_terminateByChainEvent (ag_flow A) (rec_id record) EC_ParticipantRevoked
                   End_ParticipantRevoked (Some (msg_revoked participantId)))
              (ret (Some ''PARTICIPANT_REVOKED'')))"

definition setVtFlowRecordsParticipantSlashed :: "('st, 'y) agent \<Rightarrow> string \<Rightarrow> ('st, 'y, unit) act" where
  "setVtFlowRecordsParticipantSlashed A participantId =
     reconcileVtFlowRecordsForParticipant A participantId (\<lambda>record.
       if state record = ParticipantSlashed \<or> state record = ParticipantRevoked then ret None
       else sqn (api_terminateByChainEvent (ag_flow A) (rec_id record) EC_ParticipantSlashed
                   End_ParticipantSlashed (Some (msg_slashed participantId)))
              (ret (Some ''PARTICIPANT_SLASHED'')))"

definition reconcileVtFlowRecordsOnCancel :: "('st, 'y) agent \<Rightarrow> string \<Rightarrow> ('st, 'y, unit) act" where
  "reconcileVtFlowRecordsOnCancel A participantId =
     bnd (or_undefined (findParticipant A participantId)) (\<lambda>participant.
     let stillValidated =
           (case Option.bind participant (\<lambda>p. p) of
              None \<Rightarrow> False | Some p \<Rightarrow> cpt_opState p = Some VS_Validated)
     in reconcileVtFlowRecordsForParticipant A participantId (\<lambda>record.
          if isVtFlowTerminalState (state record) then ret None
          else if stillValidated \<and> truthy (credentialExchangeRecordId record) then
            (if state record = Completed then ret None
             else sqn (updateState (ag_flow A) record Completed) (ret (Some ''COMPLETED'')))
          else sqn (updateState (ag_flow A) record TerminatedByApplicant)
                 (ret (Some ''TERMINATED_BY_APPLICANT''))))"

section \<open>Credentials of a revoked participant\<close>

definition own_participant_of_role ::
  "('st, 'y) agent \<Rightarrow> string \<Rightarrow> int \<Rightarrow> ('st, 'y, chain_participant option) act" where
  "own_participant_of_role A participantId rl =
     bnd (or_undefined (findParticipant A participantId)) (\<lambda>r.
     ret (case Option.bind r (\<lambda>p. p) of
            None \<Rightarrow> None
          | Some p \<Rightarrow> if cpt_role p = rl \<and> Some (cpt_did p) = ag_did A then Some p else None))"

definition removeHolderTrustCredentialIfRevoked :: "('st, 'y) agent \<Rightarrow> string \<Rightarrow> ('st, 'y, unit) act" where
  "removeHolderTrustCredentialIfRevoked A participantId =
     bnd (own_participant_of_role A participantId HOLDER_PARTICIPANT_TYPE) (\<lambda>participant.
     if participant = None \<or> \<not> truthy (ag_publicApiBaseUrl A) then ret ()
     else bnd (findAllByQuery (ag_flow A) [(''applicantParticipantId'', participantId)]) (\<lambda>records.
       forM records (\<lambda>record.
         if role record \<noteq> Applicant then ret ()
         else if \<not> truthy (credentialId record) \<and> \<not> truthy (credentialExchangeRecordId record)
         then ret ()
         else catch (bnd (lv_removeStored A (credentialId record) (credentialExchangeRecordId record))
                       (\<lambda>_. ret ())) (\<lambda>e. ret ()))))"

definition removeSelfIssuedEcsCredentialsIfIssuerRevoked ::
  "('st, 'y) host \<Rightarrow> string \<Rightarrow> ('st, 'y, unit) act" where
  "removeSelfIssuedEcsCredentialsIfIssuerRevoked H participantId =
     (let A = ho_agent H
      in if \<not> truthy (ag_publicApiBaseUrl A) then ret ()
         else bnd (own_participant_of_role A participantId 1) (\<lambda>participant.
           case participant of
             None \<Rightarrow> ret ()
           | Some p \<Rightarrow>
               catch (bnd (ho_withdrawSelfIssued H (cpt_id p)) (\<lambda>_. ret ())) (\<lambda>e. ret ())))"

section \<open>The automatic onboarding of an own participant\<close>

definition onboardingClaims ::
  "('st, 'y) host \<Rightarrow> int \<Rightarrow> ('st, 'y, (string \<times> json) list option) act" where
  "onboardingClaims H sid =
     (case ho_ecsClaims H of
        None \<Rightarrow> ret None
      | Some claims0 \<Rightarrow>
          if \<not> truthy (ag_did (ho_agent H)) then ret None
          else bnd (getCredentialSchema (ho_agent H) (int_str sid)) (\<lambda>schema.
            case classifyEcsSchema (ag_sha384 (ho_agent H)) (sd_json_schema schema) of
              None \<Rightarrow> ret None
            | Some ecsKey \<Rightarrow> composeEcsClaims H claims0 ecsKey))"

text \<open>
  Entity ids are integers. A wait that runs out of fuel has not returned, so nothing after it runs.
\<close>

definition startParticipantOPAutoFlow :: "('st, 'y) host \<Rightarrow> activity \<Rightarrow> ('st, 'y, unit) act" where
  "startParticipantOPAutoFlow H a =
     (let A = ho_agent H
      in case ag_chain A of
           None \<Rightarrow> ret ()
         | Some _ \<Rightarrow>
             (case js_Number (JStr (ac_entity_id a)) of
                JsFin q \<Rightarrow>
                  bnd (findParticipant A (int_str \<lfloor>q\<rfloor>)) (\<lambda>holder. case holder of
                    None \<Rightarrow> ret ()
                  | Some p \<Rightarrow>
                      if Some (cpt_did p) \<noteq> ag_did A then ret ()
                      else catch
                        (bnd (waitUntilOwnDidIsPubliclyResolvable H) (\<lambda>waited. case waited of
                           None \<Rightarrow> ret ()
                         | Some _ \<Rightarrow>
                             bnd (onboardingClaims H (cpt_schemaId p)) (\<lambda>claims0.
                             bnd (startOnboardingProcess A
                                    \<lparr> st_applicantParticipantId = \<lfloor>q\<rfloor>,
                                      st_participantSessionId = None,
                                      st_claims = map_option JObj claims0 \<rparr>) (\<lambda>_. ret ()))))
                        (\<lambda>err. ret ()))
              | _ \<Rightarrow> ret ()))"

section \<open>The VTJSC of a schema of an own ecosystem\<close>

definition synced_id :: "jsnum option \<Rightarrow> string" where
  "synced_id i = (case i of None \<Rightarrow> ''null'' | Some n \<Rightarrow> num_str n)"

text \<open>A step whose failure is only logged.\<close>

definition attempt_logged :: "('s, err, 'a) comp \<Rightarrow> ('s, err, unit) comp" where
  "attempt_logged m = catch (bnd m (\<lambda>_. ret ())) (\<lambda>e. ret ())"

definition publish_artifacts ::
  "('st, 'y) host \<Rightarrow> synced_schema \<Rightarrow> string \<Rightarrow> string \<Rightarrow> ('st, 'y, unit) act" where
  "publish_artifacts H schema ref jscId =
     (let sid = withDefault (sc_id schema) JsNaN
      in sqn (attempt_logged (ho_publishTypeMetadata H sid (sc_jsonSchema schema) jscId ref))
           (attempt_logged (ho_publishAnonCredsSchema H sid (sc_jsonSchema schema) jscId)))"

definition publishVtjscIfOwner ::
  "('st, 'y) host \<Rightarrow> sync_state \<Rightarrow> string \<Rightarrow> ('st, 'y, unit) act" where
  "publishVtjscIfOwner H st schemaEntityId =
     (case sy_credentialSchemas st schemaEntityId of
        None \<Rightarrow> ret ()
      | Some schema \<Rightarrow>
          (case sy_ecosystems st (synced_id (sc_ecosystemId schema)) of
             None \<Rightarrow> ret ()
           | Some ecosystem \<Rightarrow>
               bnd (ho_publicDids H) (\<lambda>dids.
               if se_did ecosystem \<notin> set dids then ret ()
               else case ag_chain (ho_agent H) of
                   None \<Rightarrow> ret ()
                 | Some chain \<Rightarrow>
                     if cc_chainId chain = [] then ret ()
                     else
                       let ref = ''vpr:verana:'' @ cc_chainId chain @ '':cs:'' @ synced_id (sc_id schema)
                       in bnd (or_undefined (ho_createJsc H (synced_id (sc_id schema)) ref
                                 (sc_jsonSchema schema))) (\<lambda>r.
                          case Option.bind r (\<lambda>i. i) of
                            None \<Rightarrow> ret ()
                          | Some i \<Rightarrow>
                              if i = [] then ret () else publish_artifacts H schema ref i))))"

section \<open>The handlers\<close>

text \<open>\<open>defaultHandlers\<close>: the messages in their order; most of them only log.\<close>

definition logged_only :: "('w handler)" where
  "logged_only a ctx = ret ()"

definition defaultHandlers :: "('st, 'y) host \<Rightarrow> (string \<times> ('st, 'y) agent_world handler) list" where
  "defaultHandlers H =
     (let A = ho_agent H in
      [(''CreateNewEcosystem'', logged_only), (''UpdateEcosystem'', logged_only),
       (''AddGovernanceFrameworkDocument'', logged_only), (''IncreaseActiveGFVersion'', logged_only),
       (''CreateNewCredentialSchema'',
          \<lambda>a ctx. publishVtjscIfOwner H (hc_state ctx) (ac_entity_id a)),
       (''UpdateCredentialSchema'', logged_only), (''ArchiveCredentialSchema'', logged_only),
       (''StartParticipantOP'', \<lambda>a ctx. startParticipantOPAutoFlow H a),
       (''RenewParticipantOP'', \<lambda>a ctx. startParticipantOPAutoFlow H a),
       (''SetParticipantOPToValidated'',
          \<lambda>a ctx. sqn (markVtFlowRecordsValidated A (ac_entity_id a)
                         \<lparr> ld_hash = hc_txHash ctx, ld_height = hc_blockHeight ctx,
                           ld_timestamp = Some (ac_timestamp a) \<rparr>)
                    (markApplicantVtFlowRecordsValidated A (ac_entity_id a))),
       (''SetParticipantEffectiveUntil'', logged_only),
       (''RevokeParticipant'',
          \<lambda>a ctx. sqn (removeHolderTrustCredentialIfRevoked A (ac_entity_id a))
                    (setVtFlowRecordsParticipantRevoked A (ac_entity_id a))),
       (''SlashParticipantTrustDeposit'',
          \<lambda>a ctx. sqn (removeHolderTrustCredentialIfRevoked A (ac_entity_id a))
                    (setVtFlowRecordsParticipantSlashed A (ac_entity_id a))),
       (''RepayParticipantSlashedTrustDeposit'', logged_only),
       (''CancelParticipantOPLastRequest'',
          \<lambda>a ctx. reconcileVtFlowRecordsOnCancel A (ac_entity_id a)),
       (''CreateNewCorporation'', logged_only), (''UpdateCorporation'', logged_only),
       (''ArchiveEcosystem'', logged_only), (''CreateRootParticipant'', logged_only),
       (''SelfCreateParticipant'', logged_only), (''TriggerResolver'', logged_only)])"

definition buildDefaultIndexerHandlerRegistry ::
  "('st, 'y) host \<Rightarrow> ('st, 'y) agent_world registry" where
  "buildDefaultIndexerHandlerRegistry H =
     fold (\<lambda>(msg, h). registry_register msg h) (defaultHandlers H) []"

definition ISSUER_READY_MSGS :: "string list" where
  "ISSUER_READY_MSGS =
     [''SetParticipantOPToValidated'', ''SelfCreateParticipant'', ''SetParticipantEffectiveUntil'']"

definition ISSUER_REVOKED_MSGS :: "string list" where
  "ISSUER_REVOKED_MSGS = [''RevokeParticipant'', ''SlashParticipantTrustDeposit'']"

text \<open>
  What the wrapped handlers of \<open>registerSelfIssuanceAnchorHandlers\<close> do after the original. Their queue
  only makes a run wait for the one before it, so a run is the effect itself.
\<close>

definition on_chain_with_did :: "('st, 'y) agent \<Rightarrow> bool" where
  "on_chain_with_did A \<longleftrightarrow> truthy (ag_did A) \<and> ag_chain A \<noteq> None"

definition issuer_ready_effect ::
  "('st, 'y) host \<Rightarrow> ecs_claims \<Rightarrow> activity \<Rightarrow> ('st, 'y, unit) act" where
  "issuer_ready_effect H c a =
     (let A = ho_agent H
      in if \<not> on_chain_with_did A then ret ()
         else bnd (or_undefined (getParticipant A (ac_entity_id a))) (\<lambda>participant.
           case participant of
             None \<Rightarrow> ret ()
           | Some p \<Rightarrow>
               if pd_did p \<noteq> ag_did A \<or> pd_role p \<noteq> participant_role_str PR_Issuer then ret ()
               else attempt_logged (ho_reconcileVtjsc H c)))"

definition issuer_revoked_effect :: "('st, 'y) host \<Rightarrow> activity \<Rightarrow> ('st, 'y, unit) act" where
  "issuer_revoked_effect H a =
     (if \<not> on_chain_with_did (ho_agent H) then ret ()
      else attempt_logged (removeSelfIssuedEcsCredentialsIfIssuerRevoked H (ac_entity_id a)))"

definition registerSelfIssuanceAnchorHandlers ::
  "('st, 'y) host \<Rightarrow> ecs_claims \<Rightarrow> ('st, 'y) agent_world registry \<Rightarrow>
   ('st, 'y) agent_world registry" where
  "registerSelfIssuanceAnchorHandlers H c r =
     fold (\<lambda>msg. wrap msg (issuer_revoked_effect H)) ISSUER_REVOKED_MSGS
       (fold (\<lambda>msg. wrap msg (issuer_ready_effect H c)) ISSUER_READY_MSGS r)"

end
