(* ===== verification/AgentWiring.thy ===== *)
theory AgentWiring
  imports ChainReactions
begin

text \<open>
  How an application puts the agent together (\<open>apps/vs-agent/src/utils/setupAgent.ts\<close>): the hooks of the
  vt-flow module, which call the orchestrator. None of the orchestrator methods behind a hook reads the
  hooks in turn, so the hooks are built from the agent before they are installed. A call whose lookup is
  out of fuel has not returned; here it throws \<open>not_returned\<close>.
\<close>

definition not_returned :: err where
  "not_returned = OtherError ''not returned''"

definition returned :: "('s, err, 'a option) comp \<Rightarrow> ('s, err, 'a) comp" where
  "returned m = bnd m (\<lambda>r. case r of None \<Rightarrow> throw not_returned | Some x \<Rightarrow> ret x)"

definition hook_buildCredentialOffer ::
  "('st, 'y) agent \<Rightarrow> vt_flow_record \<Rightarrow> ('st, 'y, offer_payload option) act" where
  "hook_buildCredentialOffer A r = catch (buildDirectIssuanceOffer A (rec_id r)) (\<lambda>e. ret None)"

definition hook_onBeforeCredentialIssued ::
  "('st, 'y) agent \<Rightarrow> vt_flow_record \<Rightarrow> cred_exchange \<Rightarrow> json \<Rightarrow> ('st, 'y, before_issued option) act" where
  "hook_onBeforeCredentialIssued A r ex credential =
     bnd (returned (onCredentialIssued A (rec_id r) credential)) (\<lambda>(digest, iss).
     ret (Some \<lparr> bi_credentialDigest = Some digest, bi_issuance = Some iss \<rparr>))"

definition VERIFY_ATTEMPTS :: nat where
  "VERIFY_ATTEMPTS = 10"

text \<open>\<open>verifyCredential\<close>: up to ten attempts with a pause of three seconds between them.\<close>

fun verify_attempts :: "('st, 'y) agent \<Rightarrow> string \<Rightarrow> nat \<Rightarrow> ('st, 'y, bool) act" where
  "verify_attempts A i 0 = ret False"
| "verify_attempts A i (Suc k) =
     bnd (outcome (verifyOfferedCredential A i)) (\<lambda>r. case r of
        Inr u \<Rightarrow> ret True
      | Inl e \<Rightarrow> if k = 0 then ret False else sqn (ag_sleep A 3000) (verify_attempts A i k))"

definition hook_logged :: "(string \<Rightarrow> ('st, 'y, unit) act) \<Rightarrow> vt_flow_record \<Rightarrow> ('st, 'y, unit) act" where
  "hook_logged m r = catch (m (rec_id r)) (\<lambda>e. ret ())"

definition vtFlowOptions ::
  "('st, 'y) agent \<Rightarrow> (string \<Rightarrow> string \<Rightarrow> ('st, 'y, bool) act) option \<Rightarrow>
   ('st, 'y agent_state) config_options" where
  "vtFlowOptions A trust =
     \<lparr> opt_oobExpirationDays = None, opt_terminalRetentionDays = None,
       opt_dataIntegrityCryptosuite = None, opt_autoAcceptOnboardingRequest = Some True,
       opt_autoAcceptIssuanceRequest = Some True, opt_autoMarkValidated = None,
       opt_autoOfferCredential = Some True, opt_autoAcceptCredentialOffer = Some True,
       opt_autoIssueCredentialOnRequest = Some True,
       verifyCredential = Some (\<lambda>r ex. verify_attempts A (rec_id r) VERIFY_ATTEMPTS),
       onCompleted = Some (\<lambda>r ex. hook_logged (onCredentialCompleted A) r),
       onCredentialRevoked = Some (hook_logged (orch_onCredentialRevoked A)),
       onReconnected = Some (\<lambda>r. bnd (continueAfterValidated A (rec_id r)) (\<lambda>_. ret ())),
       buildCredentialOffer = Some (hook_buildCredentialOffer A),
       onBeforeCredentialIssued = Some (hook_onBeforeCredentialIssued A),
       assertVerifiableService = trust,
       checkEcsIssuanceExemption = Some (\<lambda>peerDid connectionId purpose.
         isEcsIssuanceExempt A peerDid purpose),
       checkParticipantId = Some (\<lambda>r. returned (orch_checkParticipantId A r)) \<rparr>"

text \<open>The agent with its hooks installed.\<close>

definition setupAgent ::
  "('st, 'y) agent \<Rightarrow> (string \<Rightarrow> string \<Rightarrow> ('st, 'y, bool) act) option \<Rightarrow> ('st, 'y) agent" where
  "setupAgent A trust = A\<lparr>ag_flow := (ag_flow A)\<lparr>config := vtFlowOptions A trust\<rparr>\<rparr>"

section \<open>The handlers of the chain events\<close>

text \<open>The authorization service as the wrapped handlers call it; ids of participants are integers.\<close>

definition authorization_calls :: "('st, 'y) agent \<Rightarrow> ('st, 'y) agent_world authorization_service" where
  "authorization_calls A =
     \<lparr> as_refreshForOperator = (\<lambda>block. case ag_chain A of
          None \<Rightarrow> ret () | Some c \<Rightarrow> refreshForOperator A (cc_address c) (Some block)),
       as_invalidateParticipant = (\<lambda>q. modx (\<lambda>x.
          x\<lparr>ax_auth := map_option (invalidateParticipant \<lfloor>q\<rfloor>) (ax_auth x)\<rparr>)) \<rparr>"

text \<open>
  What the environment variables choose at startup (\<open>apps/vs-agent/src/main.ts\<close>): the default handlers
  that are disabled, whether there is an authorization service, and whether the agent belongs to a
  corporation.
\<close>

record boot_options =
  bo_override :: "string list"
  bo_authorization :: bool
  bo_corporation :: bool

definition no_ecs_claims :: ecs_claims where
  "no_ecs_claims =
     \<lparr> ec_localResources = None, ec_org = None, ec_persona = None, ec_service = None \<rparr>"

definition agent_registry :: "('st, 'y) host \<Rightarrow> boot_options \<Rightarrow> ('st, 'y) agent_world registry" where
  "agent_registry H b =
     (let r0 = buildDefaultIndexerHandlerRegistry H;
          r1 = (if ''*'' \<in> set (bo_override b) then registry_clear r0
                else fold registry_unregister (bo_override b) r0);
          r2 = (if bo_authorization b
                then registerAuthorizationHandlers (authorization_calls (ho_agent H)) r1 else r1)
      in if bo_corporation b
         then registerSelfIssuanceAnchorHandlers H (withDefault (ho_ecsClaims H) no_ecs_claims) r2
         else r2)"

end
