(* ===== verification/OrchestratorRefine.thy ===== *)
theory OrchestratorRefine
  imports FlowMachine AgentWiring
begin

text \<open>
  The orchestrator refines the flow contract of \<open>FlowSpec\<close>: whatever the indexer, the chain and the
  wallet answer, and whatever runs while the code awaits them, each of its methods leaves the flows and
  the event log in a state that steps of its own operations reach. \<open>orch_cmd\<close> has one command per
  public method; \<open>command_machine\<close> is interpreted on them together with the commands of the vt-flow
  package.
\<close>

section \<open>Every awaited call\<close>

definition chain_ok :: "flow_op set \<Rightarrow> ('st, 'y) agent \<Rightarrow> ('st, 'y) chain_client \<Rightarrow> bool" where
  "chain_ok ops A c \<longleftrightarrow>
     (let K = ag_flow A; C = cc_calls c
      in (\<forall>g d. refines K ops (ch_feeAllowance C g d)) \<and>
         (\<forall>ms g. refines K ops (ch_estimateFee C ms g)) \<and>
         (\<forall>a d. refines K ops (ch_getAccountBalance C a d)) \<and>
         (\<forall>d. refines K ops (ch_getBalance C d)) \<and>
         (\<forall>ms f. refines K ops (ch_signAndBroadcast C ms f)) \<and>
         (\<forall>ms f. refines K ops (ch_signAndBroadcastSync C ms f)) \<and>
         (\<forall>h. refines K ops (ch_findTx C h)))"

definition indexer_ok :: "flow_op set \<Rightarrow> ('st, 'y) agent \<Rightarrow> bool" where
  "indexer_ok ops A \<longleftrightarrow>
     (let K = ag_flow A
      in (\<forall>i. refines K ops (ix_participant A i)) \<and> (\<forall>i. refines K ops (ix_schema A i)) \<and>
         (\<forall>i. refines K ops (ix_ecosystem A i)) \<and> (\<forall>i. refines K ops (ix_session A i)) \<and>
         (\<forall>d. refines K ops (ix_digest A d)) \<and> (\<forall>f. refines K ops (ix_participants A f)) \<and>
         (\<forall>a. refines K ops (ix_operatorAuthorizations A a)) \<and>
         (\<forall>a. refines K ops (ix_vsOperatorAuthorizations A a)))"

definition wallet_ok :: "flow_op set \<Rightarrow> ('st, 'y) agent \<Rightarrow> bool" where
  "wallet_ok ops A \<longleftrightarrow>
     (let K = ag_flow A
      in (\<forall>d. refines K ops (dc_findConnections A d)) \<and> (\<forall>i. refines K ops (dc_deleteConnection A i)) \<and>
         (\<forall>p d. refines K ops (dc_receiveImplicitInvitation A p d)) \<and>
         (\<forall>c p. refines K ops (dc_setPublicDid A c p)) \<and>
         (\<forall>i. refines K ops (dc_returnWhenIsConnected A i)) \<and>
         (\<forall>i. refines K ops (dc_getFormatData A i)) \<and> (\<forall>d. refines K ops (di_createdVtjscs A d)) \<and>
         (\<forall>d s. refines K ops (di_serviceEndpoint A d s)) \<and>
         (\<forall>u. refines K ops (ht_presentationCredentialId A u)) \<and> (\<forall>c. refines K ops (dc_rotate A c)) \<and>
         (\<forall>u s j. refines K ops (lv_createVtc A u s j)) \<and>
         (\<forall>c e. refines K ops (lv_removeStored A c e)) \<and> (\<forall>n. refines K ops (ag_sleep A n)) \<and>
         (\<forall>i n. refines K ops (ag_awaitRun A i n)) \<and> (\<forall>k. refines K ops (ag_awaitConnecting A k)))"

definition agent_ok :: "flow_op set \<Rightarrow> ('st, 'y) agent \<Rightarrow> bool" where
  "agent_ok ops A \<longleftrightarrow>
     repo_laws (ag_flow A) \<and> hooks_ok ops (ag_flow A) \<and> indexer_ok ops A \<and> wallet_ok ops A \<and>
     (\<forall>c. ag_chain A = Some c \<longrightarrow> chain_ok ops A c)"

lemma agent_okD:
  assumes "agent_ok ops A"
  shows "repo_laws (ag_flow A)" "hooks_ok ops (ag_flow A)"
    "refines (ag_flow A) ops (ix_participant A i)" "refines (ag_flow A) ops (ix_schema A i)"
    "refines (ag_flow A) ops (ix_ecosystem A i)" "refines (ag_flow A) ops (ix_session A i)"
    "refines (ag_flow A) ops (ix_digest A i)" "refines (ag_flow A) ops (ix_participants A f)"
    "refines (ag_flow A) ops (ix_operatorAuthorizations A i)"
    "refines (ag_flow A) ops (ix_vsOperatorAuthorizations A i)"
    "refines (ag_flow A) ops (dc_findConnections A i)" "refines (ag_flow A) ops (dc_deleteConnection A i)"
    "refines (ag_flow A) ops (dc_receiveImplicitInvitation A i d)"
    "refines (ag_flow A) ops (dc_setPublicDid A c i)"
    "refines (ag_flow A) ops (dc_returnWhenIsConnected A i)"
    "refines (ag_flow A) ops (dc_getFormatData A i)" "refines (ag_flow A) ops (di_createdVtjscs A i)"
    "refines (ag_flow A) ops (di_serviceEndpoint A i d)"
    "refines (ag_flow A) ops (ht_presentationCredentialId A i)" "refines (ag_flow A) ops (dc_rotate A i)"
    "refines (ag_flow A) ops (lv_createVtc A i d j)" "refines (ag_flow A) ops (lv_removeStored A o1 o2)"
    "refines (ag_flow A) ops (ag_sleep A n)" "refines (ag_flow A) ops (ag_awaitRun A i m)"
    "refines (ag_flow A) ops (ag_awaitConnecting A i)"
  using assms by (simp_all add: agent_ok_def indexer_ok_def wallet_ok_def Let_def)

lemma chain_okD:
  assumes "agent_ok ops A" and "ag_chain A = Some ch"
  shows "refines (ag_flow A) ops (ch_feeAllowance (cc_calls ch) i d)"
    "refines (ag_flow A) ops (ch_estimateFee (cc_calls ch) ms g)"
    "refines (ag_flow A) ops (ch_getAccountBalance (cc_calls ch) i d)"
    "refines (ag_flow A) ops (ch_getBalance (cc_calls ch) i)"
    "refines (ag_flow A) ops (ch_signAndBroadcast (cc_calls ch) ms fe)"
    "refines (ag_flow A) ops (ch_signAndBroadcastSync (cc_calls ch) ms fe)"
    "refines (ag_flow A) ops (ch_findTx (cc_calls ch) i)"
  using assms by (simp_all add: agent_ok_def chain_ok_def Let_def)

section \<open>Refinement through the combinators\<close>

lemma refines_sum:
  "(\<And>a. refines_if K P ops (f a)) \<Longrightarrow> (\<And>b. refines_if K P ops (g b)) \<Longrightarrow>
     refines_if K P ops (case x of Inl a \<Rightarrow> f a | Inr b \<Rightarrow> g b)"
  by (cases x) simp_all

lemma refines_list_case:
  "refines_if K P ops m \<Longrightarrow> (\<And>y ys. refines_if K P ops (f y ys)) \<Longrightarrow>
     refines_if K P ops (case xs of [] \<Rightarrow> m | y # ys \<Rightarrow> f y ys)"
  by (cases xs) simp_all

lemma refines_ext:
  "refines_if K P ops (getx h)" "refines_if K P ops (modx h')"
  "refines_if K P ops (date_now K)" "refines_if K P ops (now_iso K)"
  "refines_if K P ops (findAllByQuery K q)"
  by (auto simp: refines_if_def wp findAllByQuery_def)

lemma refines_outcome: "refines K ops m \<Longrightarrow> refines K ops (outcome m)"
  by (auto simp: refines_if_def wp)

lemma refines_finally:
  "refines K ops m \<Longrightarrow> refines K ops k \<Longrightarrow> refines K ops (finally_do m k)"
  unfolding finally_do_def
  by (intro refines_rules refines_outcome refines_sum; assumption)

lemma refines_undefined: "refines K ops m \<Longrightarrow> refines K ops (or_undefined m)"
  unfolding or_undefined_def by (intro refines_rules; assumption)

lemma refines_promise_all:
  "(\<And>m. m \<in> set ms \<Longrightarrow> refines K ops m) \<Longrightarrow> refines K ops (promise_all ms)"
proof (induction ms)
  case (Cons m ms)
  then have m: "refines K ops m" and ms: "refines K ops (promise_all ms)" by auto
  show ?case
    unfolding promise_all.simps by (intro refines_rules refines_outcome refines_sum m ms)
qed simp

lemma refines_poll:
  assumes attempt: "\<And>b. refines K ops (attempt b)" and pause: "refines K ops pause"
  shows "refines K ops (poll n attempt pause b)"
proof (induction n arbitrary: b)
  case (Suc n)
  show ?case
    unfolding poll.simps by (intro refines_rules refines_sum attempt pause Suc.IH)
qed simp

lemma refines_try_read:
  "refines K ops m \<Longrightarrow> (\<And>x. refines K ops (k x)) \<Longrightarrow> refines K ops (try_read m k)"
  unfolding try_read_def by (intro refines_rules refines_sum; assumption)

lemma refines_found_dto: "refines K ops m \<Longrightarrow> refines K ops (found u m)"
  unfolding found_def by (intro refines_rules; assumption)

lemmas agent_rules = refines_rules refines_sum refines_list_case refines_ext refines_outcome refines_finally
  refines_undefined refines_poll refines_try_read refines_found_dto

section \<open>Indexer, chain and connections\<close>

lemma refines_reads:
  assumes "agent_ok ops A"
  shows "refines (ag_flow A) ops (getParticipant A i)" "refines (ag_flow A) ops (findParticipant A i)"
    "refines (ag_flow A) ops (getCredentialSchema A i)" "refines (ag_flow A) ops (getEcosystem A i)"
    "refines (ag_flow A) ops (now A)" "refines (ag_flow A) ops (findConnection A i)"
    "refines (ag_flow A) ops (findRecord A i)"
  unfolding getParticipant_def findParticipant_def getCredentialSchema_def getEcosystem_def now_def
    findConnection_def findRecord_def
  by (intro agent_rules agent_okD [OF assms])+

text \<open>A method that needs the chain runs on the client that the agent holds.\<close>

lemma bnd_requireChain:
  "bnd (requireChain A) f = (case ag_chain A of
     None \<Rightarrow> throw (OtherError ''Agent has no veranaChain configured'') | Some c \<Rightarrow> f c)"
  by (cases "ag_chain A") (auto simp: requireChain_def comp_defs)

lemma refines_delegation:
  assumes "agent_ok ops A"
  shows "refines (ag_flow A) ops (listVsOperatorAuthorizations A a b)"
    "refines (ag_flow A) ops (listOperatorAuthorizations A a b)"
  unfolding listVsOperatorAuthorizations_def listOperatorAuthorizations_def delegationPage_def
    delegation_round_def Let_def
  by (intro agent_rules agent_okD [OF assms] refines_reads [OF assms])+

lemma refines_authorization:
  assumes "agent_ok ops A"
  shows "refines (ag_flow A) ops (refreshForOperator A a b)"
    "refines (ag_flow A) ops (callerHoldsOperatorGrant A S a m)"
  unfolding refreshForOperator_def callerHoldsOperatorGrant_def
  by (intro agent_rules refines_reads [OF assms] refines_delegation [OF assms])+

lemma refines_data_cases:
  "refines_if K P ops u \<Longrightarrow> (\<And>n. refines_if K P ops (l n)) \<Longrightarrow>
     refines_if K P ops (case al of Unlimited \<Rightarrow> u | Limited n \<Rightarrow> l n)"
  "(\<And>f. refines_if K P ops (m f)) \<Longrightarrow> (\<And>r e. refines_if K P ops (k r e)) \<Longrightarrow>
     refines_if K P ops (case fp of Fee f \<Rightarrow> m f | Stopped r e \<Rightarrow> k r e)"
  by (simp_all split: fee_allowance.split fee_preflight.split)

lemma refines_preflight:
  assumes "agent_ok ops A" and "ag_chain A = Some c"
  shows "refines (ag_flow A) ops (preflightFee (cc_calls c) m g)"
    "refines (ag_flow A) ops (preflight c m pid)"
    "refines (ag_flow A) ops (broadcastWithoutWaiting c ms f)"
    "refines (ag_flow A) ops (broadcastMsg c m g)"
    "refines (ag_flow A) ops (setParticipantOPToValidated c p)"
    "refines (ag_flow A) ops (findTx c h)"
  unfolding preflight_def broadcastWithoutWaiting_def broadcastMsg_def log_signed_def
    setParticipantOPToValidated_def findTx_def preflightFee_def checkPayer_def corporationPays_def
    agentPays_def
  by (intro agent_rules refines_data_cases chain_okD [OF assms])+

lemma refines_connections:
  assumes "agent_ok ops A"
  shows "refines (ag_flow A) ops (findOrOpenConnection A d p)"
    "refines (ag_flow A) ops (connectToPublicDid A p)"
  unfolding connectToPublicDid_def findOrOpenConnection_def Let_def
  by (intro agent_rules agent_okD [OF assms])+

lemma refines_json_case:
  "(\<And>u. refines_if K P ops (f u)) \<Longrightarrow> refines_if K P ops g \<Longrightarrow>
     refines_if K P ops (case j of JStr u \<Rightarrow> f u | _ \<Rightarrow> g)"
  by (cases j) simp_all

lemma refines_schemas:
  assumes "agent_ok ops A"
  shows "refines (ag_flow A) ops (resolveJsonSchemaCredentialId A s c)"
    "refines (ag_flow A) ops (assertClaims A j d cl)" "refines (ag_flow A) ops (validateSchema A j v)"
    "refines (ag_flow A) ops (credentialSchema A n)"
  unfolding resolveJsonSchemaCredentialId_def assertClaims_def validateSchema_def
    credentialSchema_def Let_def
  by (intro agent_rules refines_json_case agent_okD [OF assms] refines_reads [OF assms])+

section \<open>The orchestrator\<close>

lemma refines_buildCredential:
  assumes "agent_ok ops A"
  shows "refines (ag_flow A) ops (buildCredential A b)"
  unfolding buildCredential_def bnd_requireChain
  by (intro agent_rules refines_reads [OF assms] refines_schemas [OF assms])

lemma refines_resolveValidator:
  assumes "agent_ok ops A"
  shows "refines (ag_flow A) ops (resolveValidator A n)"
  unfolding resolveValidator_def Let_def by (intro agent_rules refines_reads [OF assms])

lemma refines_startOnboardingProcess:
  assumes "agent_ok ops A" and "Op_SendOR \<in> ops" and "Op_Reattach \<in> ops"
  shows "refines (ag_flow A) ops (startOnboardingProcess A b)"
  unfolding startOnboardingProcess_def bnd_requireChain Let_def
  by (intro agent_rules refines_reads [OF assms(1)] refines_resolveValidator [OF assms(1)]
      refines_connections [OF assms(1)] refines_api [OF agent_okD(1,2) [OF assms(1)]] assms(2,3))

lemma refines_offering:
  assumes "agent_ok ops A" and "Op_Attach \<in> ops"
  shows "refines (ag_flow A) ops (offerOnboardingCredential A b)"
    "refines (ag_flow A) ops (buildDirectIssuanceOffer A i)"
  unfolding offerOnboardingCredential_def buildDirectIssuanceOffer_def bnd_requireChain Let_def
  by (intro agent_rules refines_reads [OF assms(1)] refines_buildCredential [OF assms(1)]
      agent_okD [OF assms(1)]
      refines_offerCredentialForSession [OF agent_okD(1,2) [OF assms(1)]] assms(2))+

lemma refines_onboarding:
  assumes "agent_ok ops A"
  shows "{Op_AcceptOR, Op_Reject, Op_MarkValidated} \<subseteq> ops \<Longrightarrow>
      refines (ag_flow A) ops (validateOnboardingProcess A b1)"
    "Op_MarkCompleted \<in> ops \<Longrightarrow> refines (ag_flow A) ops (completeOnboardingProcess A i)"
proof -
  assume own: "{Op_AcceptOR, Op_Reject, Op_MarkValidated} \<subseteq> ops"
  show "refines (ag_flow A) ops (validateOnboardingProcess A b1)"
    using own
    unfolding validateOnboardingProcess_def bnd_requireChain Let_def
    by (intro agent_rules refines_reads [OF assms] refines_buildCredential [OF assms]
        refines_preflight [OF assms] refines_service [OF agent_okD(1,2) [OF assms]]
        refines_api_acceptOnboardingRequest [OF agent_okD(1,2) [OF assms]]) auto
next
  assume "Op_MarkCompleted \<in> ops"
  then show "refines (ag_flow A) ops (completeOnboardingProcess A i)"
    unfolding completeOnboardingProcess_def by (rule refines_service [OF agent_okD(1,2) [OF assms]])
qed

text \<open>What follows a validated entry: the fill, the offer or the wait for claims.\<close>

definition validation_ops :: "flow_op set" where
  "validation_ops = {Op_RecordValidation, Op_MarkPending, Op_Attach}"

lemma refines_markValidated_orch:
  assumes "agent_ok ops A" and "Op_RecordValidation \<in> ops"
  shows "refines (ag_flow A) ops (orch_markValidated A i p l)"
  unfolding orch_markValidated_def
  by (intro agent_rules refines_reads [OF assms(1)]
      refines_service [OF agent_okD(1,2) [OF assms(1)]] assms(2))

lemma refines_afterValidated:
  assumes "agent_ok ops A" and "validation_ops \<subseteq> ops"
  shows "refines (ag_flow A) ops (issuanceAfterValidated A i)"
    "refines (ag_flow A) ops (continueAfterValidated A i)"
proof -
  have own: "Op_MarkPending \<in> ops" "Op_Attach \<in> ops"
    using assms(2) by (auto simp: validation_ops_def)
  show issue: "refines (ag_flow A) ops (issuanceAfterValidated A i)"
    unfolding issuanceAfterValidated_def Let_def
    by (intro agent_rules refines_reads [OF assms(1)] refines_offering [OF assms(1)]
        refines_service [OF agent_okD(1,2) [OF assms(1)]] own)
  show "refines (ag_flow A) ops (continueAfterValidated A i)"
    unfolding continueAfterValidated_def by (intro agent_rules agent_okD [OF assms(1)] issue)
qed

lemma refines_resolve:
  assumes "agent_ok ops A" and "validation_ops \<subseteq> ops"
  shows "refines (ag_flow A) ops (failUnlessValidated A r v reason e h)"
    "refines (ag_flow A) ops (resolveValidationTx A i)"
    "refines (ag_flow A) ops (orch_checkParticipantId A r)"
proof -
  have own: "Op_RecordValidation \<in> ops" using assms(2) by (auto simp: validation_ops_def)
  note calls = refines_reads [OF assms(1)] refines_markValidated_orch [OF assms(1) own]
    refines_afterValidated [OF assms] refines_service [OF agent_okD(1,2) [OF assms(1)]]
    agent_okD [OF assms(1)] own
  show unless: "refines (ag_flow A) ops (failUnlessValidated A r v reason e h)" for r v reason e h
    unfolding failUnlessValidated_def Let_def by (intro agent_rules calls)
  show "refines (ag_flow A) ops (resolveValidationTx A i)"
    unfolding resolveValidationTx_def resolve_round_def bnd_requireChain Let_def
    by (intro agent_rules calls unless refines_preflight [OF assms(1)])
  show "refines (ag_flow A) ops (orch_checkParticipantId A r)"
    unfolding orch_checkParticipantId_def participant_round_def Let_def
    by (intro agent_rules calls)
qed

lemma refines_issuing:
  assumes "agent_ok ops A" and "Op_Touch \<in> ops"
  shows "refines (ag_flow A) ops (onCredentialIssued A i j)"
    "refines (ag_flow A) ops (verifyOfferedCredential A i)"
    "refines (ag_flow A) ops (acceptCredential A i)"
    "refines (ag_flow A) ops (onCredentialCompleted A i)"
    "refines (ag_flow A) ops (orch_onCredentialRevoked A i)"
    "refines (ag_flow A) ops (rotateRequesterDidToPeer A i)"
proof -
  note calls = refines_reads [OF assms(1)] refines_service [OF agent_okD(1,2) [OF assms(1)]]
    refines_preflight [OF assms(1)] refines_schemas [OF assms(1)] agent_okD [OF assms(1)]
    refines_data_cases assms(2)
  have wait: "refines (ag_flow A) ops (await_anchoring A c h t)" if "ag_chain A = Some c" for c h t
    unfolding await_anchoring_def anchor_round_def by (intro agent_rules calls that)
  have received: "refines (ag_flow A) ops (getReceivedCredentialJson A e)" for e
    unfolding getReceivedCredentialJson_def by (intro agent_rules calls)
  have format: "refines (ag_flow A) ops (assertFlowCredentialFormat A v p)" for v p
    unfolding assertFlowCredentialFormat_def bnd_requireChain Let_def by (intro agent_rules calls)
  have issuer: "refines (ag_flow A) ops (assertIssuer r n p)" for r n p
    unfolding assertIssuer_def Let_def by (intro agent_rules calls)
  show "refines (ag_flow A) ops (onCredentialIssued A i j)"
    unfolding onCredentialIssued_def anchor_def bnd_requireChain Let_def
    by (intro agent_rules calls wait)
  show verify: "refines (ag_flow A) ops (verifyOfferedCredential A i)"
    unfolding verifyOfferedCredential_def by (intro agent_rules calls received format issuer)
  show "refines (ag_flow A) ops (acceptCredential A i)"
    unfolding acceptCredential_def
    by (intro agent_rules calls verify refines_api [OF agent_okD(1,2) [OF assms(1)]])
  show "refines (ag_flow A) ops (onCredentialCompleted A i)"
    unfolding onCredentialCompleted_def publishCredentialAsLinkedVp_def Let_def
    by (intro agent_rules calls received)
  show "refines (ag_flow A) ops (orch_onCredentialRevoked A i)"
    "refines (ag_flow A) ops (rotateRequesterDidToPeer A i)"
    unfolding orch_onCredentialRevoked_def rotateRequesterDidToPeer_def by (intro agent_rules calls)+
qed

lemma refines_exemption:
  assumes "agent_ok ops A"
  shows "refines (ag_flow A) ops (isEcsIssuanceExempt A d p)"
    "refines (ag_flow A) ops (isRejectedInFlight A r)"
    "refines (ag_flow A) ops (submissionPath A q)"
    "refines (ag_flow A) ops (assertClaimsAndTerm A r q ts)"
    "refines (ag_flow A) ops (assertValidateState r b)"
  unfolding isEcsIssuanceExempt_def schemaOfPendingOnboarding_def schemaOfDirectIssuance_def
    isTrustedEcsSchema_def isRejectedInFlight_def submissionPath_def assertClaimsAndTerm_def
    assertValidateState_def
  by (intro agent_rules refines_reads [OF assms] refines_schemas [OF assms]
      refines_authorization [OF assms] agent_okD [OF assms])+

definition validate_ops :: "flow_op set" where
  "validate_ops = insert Op_SendValidating (insert Op_Touch validation_ops)"

lemma refines_validateFlow:
  assumes "agent_ok ops A" and "validate_ops \<subseteq> ops"
  shows "refines (ag_flow A) ops (submitValidation A i q v)"
    "refines (ag_flow A) ops (validateFlow A b)"
proof -
  have own: "Op_RecordValidation \<in> ops" "Op_SendValidating \<in> ops" "Op_Attach \<in> ops" "Op_Touch \<in> ops"
    and sub: "validation_ops \<subseteq> ops"
    using assms(2) by (auto simp: validate_ops_def validation_ops_def)
  note hooks = agent_okD(1,2) [OF assms(1)]
  note calls = refines_reads [OF assms(1)] refines_service [OF hooks] refines_api [OF hooks]
    refines_preflight [OF assms(1)] refines_schemas [OF assms(1)] agent_okD [OF assms(1)]
    refines_exemption [OF assms(1)] refines_data_cases refines_markValidated_orch [OF assms(1)]
    refines_afterValidated [OF assms(1) sub] refines_offering [OF assms(1)]
    refines_offerCredentialForSession [OF hooks] refines_issueCredentialForSession [OF hooks] own
  show submit: "refines (ag_flow A) ops (submitValidation A i q v)" for i q v
    unfolding submitValidation_def bnd_requireChain Let_def by (intro agent_rules calls)
  have sendv: "refines (ag_flow A) ops (orch_sendValidating A r)" for r
    unfolding orch_sendValidating_def by (intro agent_rules calls)
  have direct: "refines (ag_flow A) ops (validateDirectIssuance A r)" for r
    unfolding validateDirectIssuance_def Let_def by (intro agent_rules calls sendv)
  have decide: "refines (ag_flow A) ops (decideValidation A b r q rej)" for r q rej
    unfolding decideValidation_def Let_def by (intro agent_rules calls sendv submit)
  show "refines (ag_flow A) ops (validateFlow A b)"
    unfolding validateFlow_def bnd_requireChain by (intro agent_rules calls direct decide)
qed

lemma refines_resume:
  assumes "agent_ok ops A" and "validate_ops \<subseteq> ops"
  shows "refines (ag_flow A) ops (resumeValidationSubmissions A)"
    "refines (ag_flow A) ops (resumeIssuanceSubmissions A)"
proof -
  have sub: "validation_ops \<subseteq> ops" and touch: "Op_Touch \<in> ops"
    using assms(2) by (auto simp: validate_ops_def)
  have issued: "refines (ag_flow A) ops
      (issueCredentialForSession (ag_flow A) (rec_id r) e None None)" for r e
    by (rule refines_issueCredentialForSession [OF agent_okD(1,2) [OF assms(1)] touch])
  show "refines (ag_flow A) ops (resumeValidationSubmissions A)"
    unfolding resumeValidationSubmissions_def
    by (intro agent_rules refines_promise_all) (auto intro: refines_resolve [OF assms(1) sub])
  show "refines (ag_flow A) ops (resumeIssuanceSubmissions A)"
    unfolding resumeIssuanceSubmissions_def
    by (intro agent_rules refines_promise_all)
      (auto intro!: refines_if_cases refines_if_bnd refines_if_pure issued)
qed

end
