(* ===== verification/AgentMachine.thy ===== *)
theory AgentMachine
  imports OrchestratorRefine
begin

text \<open>
  The deployed agent as a machine: the commands of the vt-flow package, every public method of the
  orchestrator and the reaction to every chain event, in any order. The reactions refine the flow
  contract too, and so do the hooks that \<open>setupAgent\<close> installs, so the hypothesis \<open>hooks_ok\<close> of the
  vt-flow package holds of the deployed agent.
\<close>

section \<open>Reactions that work on the records they read\<close>

text \<open>
  A reaction that writes the record the query answered relies on it being the stored one: it holds
  because nothing is awaited between the query and the write of each record but the writes of the
  other records.
\<close>

definition own_write ::
  "('st, 'x) env \<Rightarrow> flow_op set \<Rightarrow> vt_flow_record \<Rightarrow> (('st, 'x) world, err, 'a) comp \<Rightarrow> bool" where
  "own_write K ops r m \<longleftrightarrow>
     (\<forall>w. flows K w (rec_id r) = Some r \<longrightarrow>
        post m (\<lambda>_ w'. path ops (sysof K w) (sysof K w') \<and>
                  (\<forall>j. j \<noteq> rec_id r \<longrightarrow> flows K w' j = flows K w j))
          (\<lambda>_ w'. path ops (sysof K w) (sysof K w') \<and>
                  (\<forall>j. j \<noteq> rec_id r \<longrightarrow> flows K w' j = flows K w j)) w)"

lemma own_write_forM:
  assumes "\<And>r. r \<in> set rs \<Longrightarrow> own_write K ops r (f r)" and "distinct (map rec_id rs)"
    and "\<And>r. r \<in> set rs \<Longrightarrow> flows K w (rec_id r) = Some r"
  shows "post (forM rs (\<lambda>r. catch (bnd (f r) (\<lambda>_. ret ())) (\<lambda>e. ret ())))
    (\<lambda>_ w'. path ops (sysof K w) (sysof K w')) (\<lambda>_ w'. path ops (sysof K w) (sysof K w')) w"
  using assms
proof (induction rs arbitrary: w)
  case Nil
  then show ?case by (simp add: wp)
next
  case (Cons r rs)
  let ?loop = "forM rs (\<lambda>r. catch (bnd (f r) (\<lambda>_. ret ())) (\<lambda>e. ret ()))"
  have tail: "post ?loop (\<lambda>_ w'. path ops (sysof K w) (sysof K w'))
      (\<lambda>_ w'. path ops (sysof K w) (sysof K w')) w1"
    if here: "path ops (sysof K w) (sysof K w1)"
      and others: "\<forall>j. j \<noteq> rec_id r \<longrightarrow> flows K w1 j = flows K w j" for w1
  proof -
    have "flows K w1 (rec_id x) = Some x" if "x \<in> set rs" for x
    proof -
      from that have "rec_id x \<in> rec_id ` set rs" by (rule imageI)
      with Cons.prems(2) have "rec_id x \<noteq> rec_id r" by (intro notI) simp
      with others Cons.prems(3) that show ?thesis by simp
    qed
    with Cons.prems(1,2) have "post ?loop (\<lambda>_ w'. path ops (sysof K w1) (sysof K w'))
        (\<lambda>_ w'. path ops (sysof K w1) (sysof K w')) w1"
      by (intro Cons.IH) auto
    then show ?thesis by (rule post_mono) (blast intro: path_trans [OF here])+
  qed
  have "own_write K ops r (f r)" and "flows K w (rec_id r) = Some r"
    using Cons.prems(1,3) by simp_all
  then have "post (f r) (\<lambda>_ w'. path ops (sysof K w) (sysof K w') \<and>
        (\<forall>j. j \<noteq> rec_id r \<longrightarrow> flows K w' j = flows K w j))
      (\<lambda>_ w'. path ops (sysof K w) (sysof K w') \<and>
        (\<forall>j. j \<noteq> rec_id r \<longrightarrow> flows K w' j = flows K w j)) w"
    by (simp add: own_write_def)
  then show ?case
    unfolding forM.simps post_sqn post_catch post_bnd post_ret
    by (rule post_mono) (blast intro: tail)+
qed

lemma queried_records:
  assumes "repo_laws K"
  shows "r \<in> set (repo_findByQuery K (store w) q) \<Longrightarrow> flows K w (rec_id r) = Some r"
    and "distinct (map rec_id (repo_findByQuery K (store w) q))"
proof -
  let ?l = "repo_findByQuery K (store w) q"
  have set: "set ?l = {r. repo_findById K (store w) (rec_id r) = Some r \<and> tags_match q r}"
    and dist: "distinct ?l"
    using assms by (simp_all add: repo_laws_def)
  show stored: "flows K w (rec_id r) = Some r" if "r \<in> set ?l" for r
    using that unfolding set by (simp add: flows_def)
  have "inj_on rec_id (set ?l)"
  proof (rule inj_onI)
    fix x y
    assume x: "x \<in> set ?l" and y: "y \<in> set ?l" and same: "rec_id x = rec_id y"
    from stored [OF x] stored [OF y] show "x = y" unfolding same by simp
  qed
  with dist show "distinct (map rec_id ?l)" by (simp add: distinct_map)
qed

lemma refines_reconcile_own:
  assumes "repo_laws (ag_flow A)" and "\<And>r. own_write (ag_flow A) ops r (f r)"
  shows "refines (ag_flow A) ops (reconcileVtFlowRecordsForParticipant A p f)"
proof (rule refines_ifI)
  fix w :: "('a, 'b) agent_world"
  show "post (reconcileVtFlowRecordsForParticipant A p f)
      (\<lambda>_ w'. path ops (sysof (ag_flow A) w) (sysof (ag_flow A) w'))
      (\<lambda>_ w'. path ops (sysof (ag_flow A) w) (sysof (ag_flow A) w')) w"
    unfolding reconcileVtFlowRecordsForParticipant_def findAllByQuery_def post_bnd post_gets
    by (rule own_write_forM) (simp_all add: assms(2) queried_records [OF assms(1)])
qed

lemma refines_reconcile:
  assumes "\<And>r. refines (ag_flow A) ops (f r)"
  shows "refines (ag_flow A) ops (reconcileVtFlowRecordsForParticipant A p f)"
proof -
  have loop: "refines (ag_flow A) ops (forM rs (\<lambda>r. catch (bnd (f r) (\<lambda>_. ret ())) (\<lambda>e. ret ())))"
    for rs
  proof (induction rs)
    case (Cons r rs)
    show ?case unfolding forM.simps by (intro agent_rules assms Cons.IH)
  qed simp
  show ?thesis
    unfolding reconcileVtFlowRecordsForParticipant_def by (intro agent_rules loop)
qed

lemma own_write_updateState:
  assumes "repo_laws K" and "opn \<in> ops"
    and "state r \<noteq> s \<Longrightarrow> can_move opn (role r) (variant r) (state r) s"
  shows "own_write K ops r (sqn (updateState K r s) (ret x))"
  unfolding own_write_def
proof (intro allI impI)
  fix w
  assume stored: "flows K w (rec_id r) = Some r"
  show "post (sqn (updateState K r s) (ret x))
      (\<lambda>_ w'. path ops (sysof K w) (sysof K w') \<and> (\<forall>j. j \<noteq> rec_id r \<longrightarrow> flows K w' j = flows K w j))
      (\<lambda>_ w'. path ops (sysof K w) (sysof K w') \<and> (\<forall>j. j \<noteq> rec_id r \<longrightarrow> flows K w' j = flows K w j)) w"
    using path_updateState [OF assms(1) stored same_session_refl refl _ assms(3,2)] stored assms(1)
    by (simp add: wp)
qed

lemma own_write_ret [simp, intro]: "own_write K ops r (ret x)"
  by (simp add: own_write_def wp)

section \<open>The reactions\<close>

definition host_ok :: "flow_op set \<Rightarrow> ('st, 'y) host \<Rightarrow> bool" where
  "host_ok ops H \<longleftrightarrow>
     (let K = ag_flow (ho_agent H)
      in agent_ok ops (ho_agent H) \<and> (\<forall>u. refines K ops (ho_getBytes H u)) \<and>
         (\<forall>u. refines K ops (ho_fetchOk H u)) \<and> refines K ops (ho_publicDids H) \<and>
         (\<forall>i. refines K ops (ho_withdrawSelfIssued H i)) \<and>
         (\<forall>i r t. refines K ops (ho_createJsc H i r t)) \<and>
         (\<forall>i t c r. refines K ops (ho_publishTypeMetadata H i t c r)) \<and>
         (\<forall>i t c. refines K ops (ho_publishAnonCredsSchema H i t c)) \<and>
         (\<forall>c. refines K ops (ho_reconcileVtjsc H c)))"

lemma host_okD:
  assumes "host_ok ops H"
  shows "agent_ok ops (ho_agent H)" "refines (ag_flow (ho_agent H)) ops (ho_getBytes H u)"
    "refines (ag_flow (ho_agent H)) ops (ho_fetchOk H u)"
    "refines (ag_flow (ho_agent H)) ops (ho_publicDids H)"
    "refines (ag_flow (ho_agent H)) ops (ho_withdrawSelfIssued H i)"
    "refines (ag_flow (ho_agent H)) ops (ho_createJsc H s1 s2 s3)"
    "refines (ag_flow (ho_agent H)) ops (ho_publishTypeMetadata H n s1 s2 s3)"
    "refines (ag_flow (ho_agent H)) ops (ho_publishAnonCredsSchema H n s1 s2)"
    "refines (ag_flow (ho_agent H)) ops (ho_reconcileVtjsc H c)"
  using assms by (simp_all add: host_ok_def Let_def)

lemma refines_participant_of_role:
  assumes "agent_ok ops A"
  shows "refines (ag_flow A) ops (own_participant_of_role A p n)"
    "refines (ag_flow A) ops (removeHolderTrustCredentialIfRevoked A p)"
proof -
  show own: "refines (ag_flow A) ops (own_participant_of_role A p n)" for n
    unfolding own_participant_of_role_def by (intro agent_rules refines_reads [OF assms])
  have loop: "refines (ag_flow A) ops (forM rs (\<lambda>r.
      if role r \<noteq> Applicant then ret ()
      else if \<not> truthy (credentialId r) \<and> \<not> truthy (credentialExchangeRecordId r) then ret ()
      else catch (bnd (lv_removeStored A (credentialId r) (credentialExchangeRecordId r)) (\<lambda>_. ret ()))
             (\<lambda>e. ret ())))" for rs
  proof (induction rs)
    case (Cons r rs)
    show ?case unfolding forM.simps by (intro agent_rules agent_okD [OF assms] Cons.IH)
  qed simp
  show "refines (ag_flow A) ops (removeHolderTrustCredentialIfRevoked A p)"
    unfolding removeHolderTrustCredentialIfRevoked_def by (intro agent_rules own loop)
qed

lemma refines_reactions:
  assumes "agent_ok ops A"
  shows "validation_ops \<subseteq> ops \<Longrightarrow> refines (ag_flow A) ops (markVtFlowRecordsValidated A p tx)"
    "Op_ChainValidated \<in> ops \<Longrightarrow>
       refines (ag_flow A) ops (markApplicantVtFlowRecordsValidated A p)"
    "Op_TermChain \<in> ops \<Longrightarrow> refines (ag_flow A) ops (setVtFlowRecordsParticipantRevoked A p)"
    "Op_TermChain \<in> ops \<Longrightarrow> refines (ag_flow A) ops (setVtFlowRecordsParticipantSlashed A p)"
    "Op_ChainCancel \<in> ops \<Longrightarrow> refines (ag_flow A) ops (reconcileVtFlowRecordsOnCancel A p)"
proof -
  note hooks = agent_okD(1,2) [OF assms]
  show "refines (ag_flow A) ops (markVtFlowRecordsValidated A p tx)" if sub: "validation_ops \<subseteq> ops"
  proof -
    have "Op_RecordValidation \<in> ops" using sub by (auto simp: validation_ops_def)
    then show ?thesis
      unfolding markVtFlowRecordsValidated_def
      by (intro refines_reconcile agent_rules refines_reads [OF assms] refines_exemption [OF assms]
          refines_markValidated_orch [OF assms] refines_afterValidated [OF assms sub])
  qed
  show "refines (ag_flow A) ops (setVtFlowRecordsParticipantRevoked A p)"
    "refines (ag_flow A) ops (setVtFlowRecordsParticipantSlashed A p)" if "Op_TermChain \<in> ops"
    unfolding setVtFlowRecordsParticipantRevoked_def setVtFlowRecordsParticipantSlashed_def
    by (intro refines_reconcile agent_rules refines_api [OF hooks] that)+
  show "refines (ag_flow A) ops (markApplicantVtFlowRecordsValidated A p)"
    if "Op_ChainValidated \<in> ops"
    unfolding markApplicantVtFlowRecordsValidated_def
    by (rule refines_reconcile_own [OF hooks(1)])
      (auto intro!: own_write_updateState [OF hooks(1) that])
  show "refines (ag_flow A) ops (reconcileVtFlowRecordsOnCancel A p)"
    if own: "Op_ChainCancel \<in> ops"
  proof -
    have "own_write (ag_flow A) ops r
        (if isVtFlowTerminalState (state r) then ret None
         else if b \<and> truthy (credentialExchangeRecordId r) then
           (if state r = Completed then ret None
            else sqn (updateState (ag_flow A) r Completed) (ret (Some ''COMPLETED'')))
         else sqn (updateState (ag_flow A) r TerminatedByApplicant)
                (ret (Some ''TERMINATED_BY_APPLICANT'')))" for b r
      by (auto intro!: own_write_updateState [OF hooks(1) own])
    then have loop: "refines (ag_flow A) ops (reconcileVtFlowRecordsForParticipant A p (\<lambda>r.
        if isVtFlowTerminalState (state r) then ret None
        else if b \<and> truthy (credentialExchangeRecordId r) then
          (if state r = Completed then ret None
           else sqn (updateState (ag_flow A) r Completed) (ret (Some ''COMPLETED'')))
        else sqn (updateState (ag_flow A) r TerminatedByApplicant)
               (ret (Some ''TERMINATED_BY_APPLICANT''))))" for b
      by (rule refines_reconcile_own [OF hooks(1)])
    show ?thesis
      unfolding reconcileVtFlowRecordsOnCancel_def Let_def
      by (intro agent_rules refines_reads [OF assms] loop)
  qed
qed

lemma refines_json4:
  "(\<And>u. refines_if K P ops (f u)) \<Longrightarrow> refines_if K P ops g \<Longrightarrow>
     refines_if K P ops (case j of JsFin u \<Rightarrow> f u | _ \<Rightarrow> g)"
  by (cases j) simp_all

lemma refines_compose:
  assumes "host_ok ops H"
  shows "refines (ag_flow (ho_agent H)) ops (composeEcsClaims H c e)"
proof -
  have attempts: "refines (ag_flow (ho_agent H)) ops (digest_attempts H u v k er)" for u v k er
  proof (induction k arbitrary: er)
    case (Suc k)
    show ?case
      unfolding digest_attempts.simps
      by (intro agent_rules Suc.IH host_okD [OF assms] agent_okD [OF host_okD(1) [OF assms]])
  qed simp
  have digest: "refines (ag_flow (ho_agent H)) ops (digest_claims H c e ps m)" for ps m
  proof (induction ps arbitrary: m)
    case (Cons p ps)
    show ?case
      unfolding digest_claims.simps digest_claim_def digestOfUri_def Let_def
      by (intro agent_rules refines_json_case attempts Cons.IH)
  qed simp
  show ?thesis unfolding composeEcsClaims_def Let_def by (intro agent_rules digest)
qed

lemma refines_host_reactions:
  assumes "host_ok ops H"
  shows "{Op_SendOR, Op_Reattach} \<subseteq> ops \<Longrightarrow>
      refines (ag_flow (ho_agent H)) ops (startParticipantOPAutoFlow H a)"
    "refines (ag_flow (ho_agent H)) ops (publishVtjscIfOwner H st i)"
    "refines (ag_flow (ho_agent H)) ops (issuer_ready_effect H c a)"
    "refines (ag_flow (ho_agent H)) ops (issuer_revoked_effect H a)"
proof -
  have ok: "agent_ok ops (ho_agent H)" by (rule host_okD [OF assms])
  note calls = refines_reads [OF ok] host_okD [OF assms] agent_okD [OF ok] refines_compose [OF assms]
    refines_participant_of_role [OF ok]
  have ready: "refines (ag_flow (ho_agent H)) ops (waitUntilOwnDidIsPubliclyResolvable H)"
    unfolding waitUntilOwnDidIsPubliclyResolvable_def ready_round_def Let_def
    by (intro agent_rules calls)
  have claims: "refines (ag_flow (ho_agent H)) ops (onboardingClaims H n)" for n
    unfolding onboardingClaims_def by (intro agent_rules calls)
  show "refines (ag_flow (ho_agent H)) ops (startParticipantOPAutoFlow H a)"
    if "{Op_SendOR, Op_Reattach} \<subseteq> ops"
  proof -
    have "Op_SendOR \<in> ops" "Op_Reattach \<in> ops" using that by auto
    then show ?thesis
      unfolding startParticipantOPAutoFlow_def Let_def
      by (intro agent_rules refines_json4 calls ready claims refines_startOnboardingProcess [OF ok])
  qed
  show "refines (ag_flow (ho_agent H)) ops (publishVtjscIfOwner H st i)"
    unfolding publishVtjscIfOwner_def publish_artifacts_def attempt_logged_def Let_def
    by (intro agent_rules calls)
  show "refines (ag_flow (ho_agent H)) ops (issuer_ready_effect H c a)"
    "refines (ag_flow (ho_agent H)) ops (issuer_revoked_effect H a)"
    unfolding issuer_ready_effect_def issuer_revoked_effect_def attempt_logged_def
      removeSelfIssuedEcsCredentialsIfIssuerRevoked_def Let_def
    by (intro agent_rules calls)+
qed

text \<open>The handlers of a registry, through registration and wrapping.\<close>

definition registry_ok ::
  "('st, 'x) env \<Rightarrow> flow_op set \<Rightarrow> ('st, 'x) world registry \<Rightarrow> bool" where
  "registry_ok K ops r \<longleftrightarrow>
     (\<forall>msg h a ctx. registry_get r msg = Some h \<longrightarrow> refines K ops (h a ctx))"

lemma registry_okI [intro]:
  "registry_ok K ops r \<Longrightarrow> (\<And>a ctx. refines K ops (h a ctx)) \<Longrightarrow>
     registry_ok K ops (registry_register msg h r)"
  "registry_ok K ops r \<Longrightarrow> registry_ok K ops (registry_unregister msg r)"
  "registry_ok K ops (registry_clear r)" "registry_ok K ops []"
  by (simp_all add: registry_ok_def registry.get_register registry.get_unregister
      registry_clear_def registry_get_def [of "[]"])

lemma registry_ok_wrap:
  assumes "registry_ok K ops r" and "\<And>a. refines K ops (eff a)"
  shows "registry_ok K ops (wrap msg eff r)"
  unfolding wrap_def
proof (rule registry_okI(1) [OF assms(1)])
  fix a ctx
  have "refines K ops (case registry_get r msg of None \<Rightarrow> ret () | Some h \<Rightarrow> h a ctx)"
    using assms(1) by (cases "registry_get r msg") (auto simp: registry_ok_def)
  then show "refines K ops (wrapped (registry_get r msg) eff a ctx)"
    unfolding wrapped_def
    by (intro refines_if_sqn refines_if_catch refines_if_pure stable_True assms(2); assumption)
qed

lemma registry_ok_fold:
  "(\<And>m r. m \<in> set ms \<Longrightarrow> registry_ok K ops r \<Longrightarrow> registry_ok K ops (f m r)) \<Longrightarrow>
     registry_ok K ops r \<Longrightarrow> registry_ok K ops (fold f ms r)"
  by (induction ms arbitrary: r) auto

definition reaction_ops :: "flow_op set" where
  "reaction_ops =
     validation_ops \<union> {Op_SendOR, Op_Reattach, Op_ChainValidated, Op_TermChain, Op_ChainCancel}"

lemma default_handlers_ok:
  assumes "host_ok ops H" and "reaction_ops \<subseteq> ops" and "(msg, h) \<in> set (defaultHandlers H)"
  shows "refines (ag_flow (ho_agent H)) ops (h a ctx)"
proof -
  have ok: "agent_ok ops (ho_agent H)" by (rule host_okD [OF assms(1)])
  have own: "validation_ops \<subseteq> ops" "{Op_SendOR, Op_Reattach} \<subseteq> ops" "Op_ChainValidated \<in> ops"
    "Op_TermChain \<in> ops" "Op_ChainCancel \<in> ops"
    using assms(2) by (auto simp: reaction_ops_def)
  note calls = refines_host_reactions [OF assms(1)] refines_reactions [OF ok] own
    refines_participant_of_role [OF ok]
  have "h \<in> snd ` set (defaultHandlers H)" using assms(3) by force
  then have "h = logged_only \<or> (h = (\<lambda>a ctx. publishVtjscIfOwner H (hc_state ctx) (ac_entity_id a))) \<or>
      h = (\<lambda>a ctx. startParticipantOPAutoFlow H a) \<or>
      h = (\<lambda>a ctx. sqn (markVtFlowRecordsValidated (ho_agent H) (ac_entity_id a)
                        \<lparr> ld_hash = hc_txHash ctx, ld_height = hc_blockHeight ctx,
                          ld_timestamp = Some (ac_timestamp a) \<rparr>)
                   (markApplicantVtFlowRecordsValidated (ho_agent H) (ac_entity_id a))) \<or>
      h = (\<lambda>a ctx. sqn (removeHolderTrustCredentialIfRevoked (ho_agent H) (ac_entity_id a))
                   (setVtFlowRecordsParticipantRevoked (ho_agent H) (ac_entity_id a))) \<or>
      h = (\<lambda>a ctx. sqn (removeHolderTrustCredentialIfRevoked (ho_agent H) (ac_entity_id a))
                   (setVtFlowRecordsParticipantSlashed (ho_agent H) (ac_entity_id a))) \<or>
      h = (\<lambda>a ctx. reconcileVtFlowRecordsOnCancel (ho_agent H) (ac_entity_id a))"
    unfolding defaultHandlers_def Let_def list.set image_insert snd_conv image_empty by blast
  then show ?thesis
    by (elim disjE) (simp only: logged_only_def, intro refines_rules calls)+
qed

lemma agent_registry_ok:
  assumes "host_ok ops H" and "reaction_ops \<subseteq> ops"
  shows "registry_ok (ag_flow (ho_agent H)) ops (agent_registry H b)"
proof -
  let ?K = "ag_flow (ho_agent H)"
  have ok: "agent_ok ops (ho_agent H)" by (rule host_okD [OF assms(1)])
  have r0: "registry_ok ?K ops (buildDefaultIndexerHandlerRegistry H)"
    unfolding buildDefaultIndexerHandlerRegistry_def
    by (rule registry_ok_fold) (auto intro: default_handlers_ok [OF assms])
  have r1: "registry_ok ?K ops (fold registry_unregister ms (buildDefaultIndexerHandlerRegistry H))"
    for ms
    by (auto intro: registry_ok_fold r0)
  have choice: "registry_ok ?K ops (if c then r else r')"
    if "registry_ok ?K ops r" "registry_ok ?K ops r'" for c r r'
    using that by simp
  have auth: "refines ?K ops (as_refreshForOperator (authorization_calls (ho_agent H)) n)"
    "refines ?K ops (as_invalidateParticipant (authorization_calls (ho_agent H)) q)" for n q
    unfolding authorization_calls_def authorization_service.simps
    by (intro agent_rules refines_authorization [OF ok])+
  have revoke: "refines ?K ops (revoke_effect (authorization_calls (ho_agent H)) a)" for a
    unfolding revoke_effect_def by (intro agent_rules refines_json4 auth)
  have r2: "registry_ok ?K ops (registerAuthorizationHandlers (authorization_calls (ho_agent H)) r)"
    if "registry_ok ?K ops r" for r
    unfolding registerAuthorizationHandlers_def
    by (intro registry_ok_fold registry_ok_wrap that revoke auth)
  have r3: "registry_ok ?K ops (registerSelfIssuanceAnchorHandlers H c r)"
    if "registry_ok ?K ops r" for c r
    unfolding registerSelfIssuanceAnchorHandlers_def
    by (intro registry_ok_fold registry_ok_wrap that refines_host_reactions [OF assms(1)])
  show ?thesis
    unfolding agent_registry_def Let_def by (intro choice r3 r2 r1 registry_okI(3))
qed

section \<open>The hooks of the deployed agent\<close>

lemma refines_config [simp]: "refines_if (K\<lparr>config := c\<rparr>) P ops m = refines_if K P ops m"
  by (simp add: refines_if_def sysof_def flows_def)

definition hook_ops :: "flow_op set" where
  "hook_ops = insert Op_Touch validation_ops"

lemma refines_hooks_installed:
  assumes "agent_ok ops A" and "hook_ops \<subseteq> ops"
    and "\<And>h d c. trust = Some h \<Longrightarrow> refines (ag_flow A) ops (h d c)"
  shows "hooks_ok ops (ag_flow (setupAgent A trust))"
proof -
  have own: "Op_Touch \<in> ops" "validation_ops \<subseteq> ops" "Op_Attach \<in> ops"
    using assms(2) by (auto simp: hook_ops_def validation_ops_def)
  note calls = refines_issuing [OF assms(1) own(1)] refines_resolve [OF assms(1) own(2)]
    refines_afterValidated [OF assms(1) own(2)] refines_exemption [OF assms(1)]
    refines_offering [OF assms(1) own(3)] agent_okD [OF assms(1)]
  have returned: "refines (ag_flow A) ops (returned m)" if "refines (ag_flow A) ops m" for m
    unfolding returned_def by (intro agent_rules that)
  have verify: "refines (ag_flow A) ops (verify_attempts A i n)" for i n
  proof (induction n)
    case (Suc n)
    show ?case unfolding verify_attempts.simps by (intro agent_rules calls Suc.IH)
  qed simp
  have offer: "refines (ag_flow A) ops (hook_buildCredentialOffer A r)" for r
    unfolding hook_buildCredentialOffer_def by (intro agent_rules calls)
  have issued: "refines (ag_flow A) ops (hook_onBeforeCredentialIssued A r ex j)" for r ex j
    unfolding hook_onBeforeCredentialIssued_def by (intro agent_rules calls returned)
  have logged: "refines (ag_flow A) ops (hook_logged (onCredentialCompleted A) r)"
    "refines (ag_flow A) ops (hook_logged (orch_onCredentialRevoked A) r)" for r
    unfolding hook_logged_def by (intro agent_rules calls)+
  have next_run: "refines (ag_flow A) ops (bnd (continueAfterValidated A i) (\<lambda>_. ret ()))" for i
    by (intro agent_rules calls)
  show ?thesis
    using agent_okD(2) [OF assms(1)]
    by (simp add: hooks_ok_def setupAgent_def vtFlowOptions_def assms(3) verify offer issued logged
        next_run calls returned)
qed

text \<open>The deployed host: its agent has the hooks installed.\<close>

definition deployed ::
  "('st, 'y) host \<Rightarrow> (string \<Rightarrow> string \<Rightarrow> ('st, 'y, bool) act) option \<Rightarrow> ('st, 'y) host" where
  "deployed H trust = H\<lparr>ho_agent := setupAgent (ho_agent H) trust\<rparr>"

lemma setupAgent_frame [simp]:
  "sysof (ag_flow (setupAgent A trust)) = sysof (ag_flow A)"
  "refines_if (ag_flow (setupAgent A trust)) P ops m = refines_if (ag_flow A) P ops m"
  "flows (ag_flow (setupAgent A trust)) = flows (ag_flow A)"
proof -
  show "sysof (ag_flow (setupAgent A trust)) = sysof (ag_flow A)"
    by (rule ext) (simp add: setupAgent_def sysof_def flows_def)
  show "flows (ag_flow (setupAgent A trust)) = flows (ag_flow A)"
    by (rule ext) (simp add: setupAgent_def flows_def)
  show "refines_if (ag_flow (setupAgent A trust)) P ops m = refines_if (ag_flow A) P ops m"
    by (simp add: setupAgent_def)
qed

lemma deployed_ok:
  assumes "host_ok ops H" and "hook_ops \<subseteq> ops"
    and "\<And>h d c. trust = Some h \<Longrightarrow> refines (ag_flow (ho_agent H)) ops (h d c)"
  shows "host_ok ops (deployed H trust)"
proof -
  let ?A = "ho_agent H" let ?S = "setupAgent (ho_agent H) trust"
  have ok: "agent_ok ops ?A" by (rule host_okD [OF assms(1)])
  have "hooks_ok ops (ag_flow ?S)" by (rule refines_hooks_installed [OF ok assms(2)]) (rule assms(3))
  moreover have "repo_laws (ag_flow ?S)"
    using agent_okD(1) [OF ok]
    by (simp add: setupAgent_def repo_laws_def cong: option.case_cong list.case_cong)
  moreover have "indexer_ok ops ?S" "wallet_ok ops ?S"
    using ok by (simp_all add: agent_ok_def indexer_ok_def wallet_ok_def Let_def setupAgent_def)
  moreover have "\<forall>c. ag_chain ?S = Some c \<longrightarrow> chain_ok ops ?S c"
    using ok by (simp add: agent_ok_def chain_ok_def Let_def setupAgent_def)
  ultimately have "agent_ok ops ?S" by (simp add: agent_ok_def)
  with assms(1) show ?thesis by (simp add: host_ok_def deployed_def Let_def)
qed

section \<open>Commands\<close>

datatype 'x agent_cmd =
    AC_Flow "'x flow_cmd"
  | AC_StartOnboarding start_input
  | AC_ValidateOnboarding validate_onboarding_input
  | AC_OfferOnboarding offer_input
  | AC_CompleteOnboarding string
  | AC_Validate validate_input
  | AC_ResolveTx string
  | AC_ResumeValidations
  | AC_ResumeIssuances
  | AC_Accept string
  | AC_MarkValidated string participant_dto "landed_tx option"
  | AC_Continue string
  | AC_CheckParticipant vt_flow_record
  | AC_CheckExemption string request_purpose
  | AC_DirectOffer string
  | AC_Issued string json
  | AC_Verify string
  | AC_Completed string
  | AC_Revoked string
  | AC_Rotate string
  | AC_ChainEvent activity handler_context

fun run_agent_cmd ::
  "('st, 'y) host \<Rightarrow> boot_options \<Rightarrow> ('y agent_state) agent_cmd \<Rightarrow> ('st, 'y, unit) act" where
  "run_agent_cmd H b (AC_Flow c) = run_cmd (ag_flow (ho_agent H)) c"
| "run_agent_cmd H b (AC_StartOnboarding i) = quiet (startOnboardingProcess (ho_agent H) i)"
| "run_agent_cmd H b (AC_ValidateOnboarding i) = quiet (validateOnboardingProcess (ho_agent H) i)"
| "run_agent_cmd H b (AC_OfferOnboarding i) = quiet (offerOnboardingCredential (ho_agent H) i)"
| "run_agent_cmd H b (AC_CompleteOnboarding i) = quiet (completeOnboardingProcess (ho_agent H) i)"
| "run_agent_cmd H b (AC_Validate i) = quiet (validateFlow (ho_agent H) i)"
| "run_agent_cmd H b (AC_ResolveTx i) = quiet (resolveValidationTx (ho_agent H) i)"
| "run_agent_cmd H b AC_ResumeValidations = resumeValidationSubmissions (ho_agent H)"
| "run_agent_cmd H b AC_ResumeIssuances = resumeIssuanceSubmissions (ho_agent H)"
| "run_agent_cmd H b (AC_Accept i) = quiet (acceptCredential (ho_agent H) i)"
| "run_agent_cmd H b (AC_MarkValidated i p l) = quiet (orch_markValidated (ho_agent H) i p l)"
| "run_agent_cmd H b (AC_Continue i) = quiet (continueAfterValidated (ho_agent H) i)"
| "run_agent_cmd H b (AC_CheckParticipant r) = quiet (orch_checkParticipantId (ho_agent H) r)"
| "run_agent_cmd H b (AC_CheckExemption d p) = quiet (isEcsIssuanceExempt (ho_agent H) d p)"
| "run_agent_cmd H b (AC_DirectOffer i) = quiet (buildDirectIssuanceOffer (ho_agent H) i)"
| "run_agent_cmd H b (AC_Issued i j) = quiet (onCredentialIssued (ho_agent H) i j)"
| "run_agent_cmd H b (AC_Verify i) = verifyOfferedCredential (ho_agent H) i"
| "run_agent_cmd H b (AC_Completed i) = onCredentialCompleted (ho_agent H) i"
| "run_agent_cmd H b (AC_Revoked i) = orch_onCredentialRevoked (ho_agent H) i"
| "run_agent_cmd H b (AC_Rotate i) = rotateRequesterDidToPeer (ho_agent H) i"
| "run_agent_cmd H b (AC_ChainEvent a ctx) = dispatch (agent_registry H b) a ctx"

fun agent_cmd_ops :: "'x agent_cmd \<Rightarrow> flow_op set" where
  "agent_cmd_ops (AC_Flow c) = cmd_ops c"
| "agent_cmd_ops (AC_StartOnboarding i) = {Op_SendOR, Op_Reattach}"
| "agent_cmd_ops (AC_ValidateOnboarding i) = {Op_AcceptOR, Op_Reject, Op_MarkValidated}"
| "agent_cmd_ops (AC_OfferOnboarding i) = {Op_Attach}"
| "agent_cmd_ops (AC_CompleteOnboarding i) = {Op_MarkCompleted}"
| "agent_cmd_ops (AC_Validate i) = validate_ops"
| "agent_cmd_ops (AC_ResolveTx i) = validation_ops"
| "agent_cmd_ops AC_ResumeValidations = validate_ops"
| "agent_cmd_ops AC_ResumeIssuances = validate_ops"
| "agent_cmd_ops (AC_Accept i) = {Op_Touch}"
| "agent_cmd_ops (AC_MarkValidated i p l) = {Op_RecordValidation}"
| "agent_cmd_ops (AC_Continue i) = validation_ops"
| "agent_cmd_ops (AC_CheckParticipant r) = validation_ops"
| "agent_cmd_ops (AC_CheckExemption d p) = {}"
| "agent_cmd_ops (AC_DirectOffer i) = {Op_Attach}"
| "agent_cmd_ops (AC_ChainEvent a ctx) = reaction_ops"
| "agent_cmd_ops _ = {Op_Touch}"

lemma refines_run_agent_cmd:
  assumes host: "host_ok ops H" and own: "agent_cmd_ops c \<subseteq> ops"
  shows "refines (ag_flow (ho_agent H)) ops (run_agent_cmd H b c)"
proof -
  have ok: "agent_ok ops (ho_agent H)" by (rule host_okD [OF host])
  note hooks = agent_okD(1,2) [OF ok]
  show ?thesis
  proof (cases c)
    case (AC_ChainEvent a ctx)
    with own have "registry_ok (ag_flow (ho_agent H)) ops (agent_registry H b)"
      by (intro agent_registry_ok [OF host]) simp
    then show ?thesis
      using AC_ChainEvent by (auto simp: dispatch_def registry_ok_def split: option.split)
  qed (use own in \<open>auto intro!: refines_quiet refines_run_cmd [OF hooks] refines_onboarding [OF ok]
      refines_startOnboardingProcess [OF ok] refines_offering [OF ok] refines_validateFlow [OF ok]
      refines_resolve [OF ok] refines_resume [OF ok] refines_issuing [OF ok]
      refines_markValidated_orch [OF ok] refines_afterValidated [OF ok] refines_exemption [OF ok]\<close>)
qed

definition agent_step ::
  "('st, 'y) host \<Rightarrow> boot_options \<Rightarrow> ('y agent_state) agent_cmd \<Rightarrow> ('st, 'y) agent_world \<Rightarrow>
   ('st, 'y) agent_world" where
  "agent_step H b c w = snd (run_agent_cmd H b c w)"

lemma agent_step_path:
  "host_ok ops H \<Longrightarrow> agent_cmd_ops c \<subseteq> ops \<Longrightarrow>
     path ops (sysof (ag_flow (ho_agent H)) w) (sysof (ag_flow (ho_agent H)) (agent_step H b c w))"
  unfolding agent_step_def by (rule refinesD) (rule refines_run_agent_cmd)

interpretation deployment: command_machine "agent_step H b"
    "\<lambda>w. host_ok UNIV H \<and> sys_ok (sysof (ag_flow (ho_agent H)) w)" "\<lambda>_. True" for H b
  by unfold_locales (auto intro: sys_ok_path [OF agent_step_path [where ops = UNIV]])

end
