(* ===== verification/AgentExamples.thy ===== *)
theory AgentExamples
  imports AgentMachine FlowProps
begin

text \<open>
  An agent whose every call answers at once, on the in-memory repository of \<open>FlowEnv\<close>: the concrete
  instance on which the witnesses of the agent's properties run. The rest of its world is the
  \<open>mem_ext\<close> of that repository; sleeping moves its clock.
\<close>

type_synonym ex_state = "mem_ext agent_state"

definition agent_env :: "(mem_store, ex_state) config_options \<Rightarrow> (mem_store, ex_state) env" where
  "agent_env cfg =
     (let M = ex_env
      in \<lparr> config = cfg, repo_findById = repo_findById M, repo_getById = repo_getById M,
           repo_findByQuery = repo_findByQuery M,
           repo_findSingleByQuery = repo_findSingleByQuery M, repo_save = repo_save M,
           repo_update = repo_update M,
           gen_uuid = (\<lambda>x. case gen_uuid M (ax_rest x) of (i, y) \<Rightarrow> (i, x\<lparr>ax_rest := y\<rparr>)),
           clock_ms = (\<lambda>x. (m_time (ax_rest x), x)),
           ctx_assertReadyConnection = ctx_assertReadyConnection M,
           conn_findById = (\<lambda>x. conn_findById M (ax_rest x)),
           conn_getById = (\<lambda>x. conn_getById M (ax_rest x)), conn_assertReady = conn_assertReady M,
           exch_findById = (\<lambda>x. exch_findById M (ax_rest x)),
           exch_getById = (\<lambda>x. exch_getById M (ax_rest x)),
           exch_update = (\<lambda>x e. map_sum id (\<lambda>y. x\<lparr>ax_rest := y\<rparr>) (exch_update M (ax_rest x) e)),
           msg_send = (\<lambda>_ _. ret ()), creds_findOfferMessage = (\<lambda>_ _. None),
           creds_acceptOffer = (\<lambda>_. ret ()), creds_declineOffer = (\<lambda>_ _. ret ()),
           creds_acceptCredential = (\<lambda>_. ret ()), proto_registered = (\<lambda>_. True),
           proto_createOffer = (\<lambda>c p. ret
              \<lparr> ex_id = ''exchange'', ex_threadId = ''exchange-thread'', ex_parentThreadId = None,
                ex_state = CS_OfferSent, ex_connectionId = Some (conn_id c),
                ex_protocolVersion = ''v2'' \<rparr>),
           proto_acceptRequest = (\<lambda>_ _ j. ret j),
           proto_findCredentialMessage = (\<lambda>_ _. Some JNull),
           proto_getCredential = (\<lambda>_ _. Some JNull) \<rparr>)"

definition agent_options :: "(mem_store, ex_state) config_options" where
  "agent_options =
     \<lparr> opt_oobExpirationDays = None, opt_terminalRetentionDays = None,
       opt_dataIntegrityCryptosuite = None, opt_autoAcceptOnboardingRequest = None,
       opt_autoAcceptIssuanceRequest = None, opt_autoMarkValidated = None,
       opt_autoOfferCredential = None, opt_autoAcceptCredentialOffer = None,
       opt_autoIssueCredentialOnRequest = None, verifyCredential = None, onCompleted = None,
       onCredentialRevoked = None, onReconnected = None, buildCredentialOffer = None,
       onBeforeCredentialIssued = None, assertVerifiableService = None,
       checkEcsIssuanceExemption = None, checkParticipantId = None \<rparr>"

lemma repo_laws_same:
  assumes "repo_laws L" and "repo_findById K = repo_findById L"
    and "repo_getById K = repo_getById L" and "repo_findByQuery K = repo_findByQuery L"
    and "repo_findSingleByQuery K = repo_findSingleByQuery L" and "repo_save K = repo_save L"
    and "repo_update K = repo_update L"
  shows "repo_laws K"
  using assms(1) unfolding repo_laws_def assms(2-7) .

lemma agent_env_repo [simp]:
  "repo_findById (agent_env cfg) = mem_find" "repo_findByQuery (agent_env cfg) = mem_query"
  "repo_getById (agent_env cfg) = repo_getById ex_env"
  "repo_findSingleByQuery (agent_env cfg) = repo_findSingleByQuery ex_env"
  "repo_save (agent_env cfg) = repo_save ex_env" "repo_update (agent_env cfg) = repo_update ex_env"
  "config (agent_env cfg) = cfg" "conn_assertReady (agent_env cfg) c = Inr ()"
  "conn_findById (agent_env cfg) x i = find (\<lambda>c. conn_id c = i) (m_conns (ax_rest x))"
  "clock_ms (agent_env cfg) x = (m_time (ax_rest x), x)"
  by (simp_all add: agent_env_def Let_def)

lemma agent_env_laws [simp]: "repo_laws (agent_env cfg)"
  by (rule repo_laws_same [OF mem_env_laws [of no_options]]) simp_all

lemma agent_env_hooks: "hooks_ok ops (agent_env agent_options)"
  by (simp add: hooks_ok_def agent_env_def agent_options_def Let_def)

definition ex_chain :: "(mem_store, mem_ext) agent_world chain_calls" where
  "ex_chain =
     \<lparr> ch_feeAllowance = (\<lambda>g d. ret (Some Unlimited)),
       ch_estimateFee = (\<lambda>ms g. ret \<lparr> fee_amount = [(FEE_DENOM, 5)], fee_gas = ''1'', fee_granter = g \<rparr>),
       ch_getAccountBalance = (\<lambda>a d. ret 100), ch_getBalance = (\<lambda>d. ret 100),
       ch_signAndBroadcast = (\<lambda>ms f. ret ''hash''), ch_signAndBroadcastSync = (\<lambda>ms f. ret ''hash''),
       ch_findTx = (\<lambda>h. ret (Some (0, 9, []))) \<rparr>"

definition ex_client :: "(mem_store, mem_ext) chain_client" where
  "ex_client =
     \<lparr> cc_calls = ex_chain, cc_address = ''addr'', cc_corporation = ''corp'', cc_chainId = ''vna'' \<rparr>"

text \<open>The indexer of the example answers the participants \<open>ps\<close> and nothing else.\<close>

definition ex_agent :: "(string \<rightharpoonup> participant_dto) \<Rightarrow> (mem_store, mem_ext) agent" where
  "ex_agent ps =
     \<lparr> ag_flow = agent_env agent_options, ag_did = Some ''did:us'', ag_chain = Some ex_client,
       ag_publicApiBaseUrl = None, ag_agentParticipantId = None, ag_walletAgentParticipantId = None,
       ag_trustedEcosystemDids = None, ag_indexerUrl = ''indexer'', ag_toValidatedUrl = ''url'',
       ag_fuel = 40,
       ag_sleep = (\<lambda>n. modx (\<lambda>x. x\<lparr>ax_rest := (ax_rest x)\<lparr>m_time := m_time (ax_rest x) + n\<rparr>\<rparr>)),
       ag_awaitRun = (\<lambda>_ _. ret ()), ag_awaitConnecting = (\<lambda>_. ret ''c1''),
       ag_legacyDate = (\<lambda>_. None), ag_ajv = (\<lambda>_ _. Inr []), ag_sha384 = (\<lambda>s. s),
       ag_digestJCS = (\<lambda>_ s. Inr s), ag_credentialJson = (\<lambda>_. JNull),
       ix_participant = (\<lambda>i. ret (ps i)), ix_schema = (\<lambda>_. ret None), ix_ecosystem = (\<lambda>_. ret None),
       ix_session = (\<lambda>_. ret None), ix_digest = (\<lambda>_. ret None), ix_participants = (\<lambda>_. ret []),
       ix_operatorAuthorizations = (\<lambda>_. ret \<lparr> dp_atBlock = None, dp_authorizations = None \<rparr>),
       ix_vsOperatorAuthorizations = (\<lambda>_. ret \<lparr> dp_atBlock = None, dp_authorizations = None \<rparr>),
       dc_findConnections = (\<lambda>_. ret []), dc_deleteConnection = (\<lambda>_. ret ()),
       dc_receiveImplicitInvitation = (\<lambda>_ _. ret None), dc_setPublicDid = (\<lambda>_ _. ret ()),
       dc_returnWhenIsConnected = (\<lambda>_. throw (OtherError [])), dc_getFormatData = (\<lambda>_. ret None),
       di_createdVtjscs = (\<lambda>_. ret None), di_serviceEndpoint = (\<lambda>_ _. ret None),
       ht_presentationCredentialId = (\<lambda>_. ret None), dc_rotate = (\<lambda>_. ret ()),
       lv_createVtc = (\<lambda>_ _ _. ret ()), lv_removeStored = (\<lambda>_ _. ret None) \<rparr>"

lemma ex_agent_sel [simp]:
  "ag_flow (ex_agent ps) = agent_env agent_options" "ag_did (ex_agent ps) = Some ''did:us''"
  "ag_chain (ex_agent ps) = Some ex_client" "ag_fuel (ex_agent ps) = 40"
  "ix_participant (ex_agent ps) i = ret (ps i)"
  "ag_sleep (ex_agent ps) n =
     modx (\<lambda>x. x\<lparr>ax_rest := (ax_rest x)\<lparr>m_time := m_time (ax_rest x) + n\<rparr>\<rparr>)"
  "ag_legacyDate (ex_agent ps) s = None"
  by (simp_all add: ex_agent_def)

lemma ex_agent_ok: "agent_ok ops (ex_agent ps)"
  by (simp add: agent_ok_def indexer_ok_def wallet_ok_def chain_ok_def Let_def ex_agent_def
      ex_client_def ex_chain_def agent_env_hooks refines_ext)

definition ex_host :: "(string \<rightharpoonup> participant_dto) \<Rightarrow> (mem_store, mem_ext) host" where
  "ex_host ps =
     \<lparr> ho_agent = ex_agent ps, ho_ecsClaims = None, ho_getBytes = (\<lambda>_. ret []),
       ho_fetchOk = (\<lambda>_. ret True), ho_publicDids = ret [], ho_withdrawSelfIssued = (\<lambda>_. ret []),
       ho_createJsc = (\<lambda>_ _ _. ret None), ho_publishTypeMetadata = (\<lambda>_ _ _ _. ret True),
       ho_publishAnonCredsSchema = (\<lambda>_ _ _. ret None), ho_reconcileVtjsc = (\<lambda>_. ret ()) \<rparr>"

lemma ex_host_agent [simp]: "ho_agent (ex_host ps) = ex_agent ps"
  by (simp add: ex_host_def)

lemma ex_host_ok: "host_ok ops (ex_host ps)"
  by (simp add: host_ok_def ex_host_def Let_def ex_agent_ok)

definition agent_world :: "vt_flow_record list \<Rightarrow> (mem_store, mem_ext) agent_world" where
  "agent_world rs =
     \<lparr> store = rs,
       ext = \<lparr> ax_marking = {}, ax_continuing = (\<lambda>_. None), ax_ticket = 0, ax_connecting = {},
               ax_tasks = [], ax_auth = None, ax_signed = [], ax_triggers = [],
               ax_rest = \<lparr> m_next = ''i'', m_time = 0, m_conns = [ex_connection], m_exchs = [] \<rparr> \<rparr>,
       events = [], sent = [] \<rparr>"

lemma agent_world_sel [simp]:
  "store (agent_world rs) = rs" "events (agent_world rs) = []" "sent (agent_world rs) = []"
  "flows (agent_env cfg) (agent_world rs) = mem_find rs"
  "ax_auth (ext (agent_world rs)) = None" "ax_signed (ext (agent_world rs)) = []"
  "ax_marking (ext (agent_world rs)) = {}" "m_time (ax_rest (ext (agent_world rs))) = 0"
  "m_conns (ax_rest (ext (agent_world rs))) = [ex_connection]"
  by (simp_all add: agent_world_def flows_def)

lemma agent_world_empty_ok: "sys_ok (sysof (agent_env cfg) (agent_world []))"
  by (simp add: sysof_def sys_ok_def links_ok_def log_ok_def mem_find_def)

text \<open>A participant entry: a holder of schema 3 whose validator is participant 1.\<close>

definition ex_entry :: participant_dto where
  "ex_entry =
     \<lparr> pd_id = 7, pd_schema_id = 3, pd_did = Some ''did:us'', pd_role = ''HOLDER'',
       pd_vs_operator = None, pd_participant_state = Some ''ACTIVE'', pd_op_state = Some ''VALIDATED'',
       pd_revoked = None, pd_slashed = None, pd_effective_from = None, pd_effective_until = None,
       pd_modified = ''2025'', pd_validator_participant_id = Some 1, pd_op_summary_digest = None,
       pd_validation_fees = Some 10, pd_issuance_fees = None, pd_verification_fees = None,
       pd_issuance_fee_discount = Some (1/2), pd_verification_fee_discount = None \<rparr>"

end
