(* ===== verification/AgentProps.thy ===== *)
theory AgentProps
  imports AgentExamples
begin

text \<open>
  Properties of the deployed agent: its runs, the reactions to chain events and the start of an
  onboarding process.
\<close>

section \<open>Runs of the deployed agent\<close>

text \<open>
  The agent as \<open>setupAgent\<close> wires it, with the orchestrator's hooks installed in the vt-flow
  package and its handlers registered for the chain events: whatever sequence of API calls, messages,
  listeners, orchestrator methods and chain events it runs, and whatever runs while they await, the
  \<open>VtFlowStateChanged\<close> events of a flow chain from its creation to its stored state, and a stored flow
  stays stored under its id with the same role, variant, participant session and creation date.
\<close>

theorem deployed_agent_keeps_flow_contract:
  assumes host: "host_ok UNIV H"
    and trust: "\<And>h d c. trust = Some h \<Longrightarrow> refines (ag_flow (ho_agent H)) UNIV (h d c)"
    and start: "sys_ok (sysof (ag_flow (ho_agent H)) w)"
    and run: "w' = fold (agent_step (deployed H trust) b) cs w"
  shows "chained None (evs i (events w')) (map_option state (flows (ag_flow (ho_agent H)) w' i)) \<and>
    (\<forall>r. flows (ag_flow (ho_agent H)) w i = Some r \<longrightarrow>
       (\<exists>r'. flows (ag_flow (ho_agent H)) w' i = Some r' \<and> same_session r r'))"
proof -
  let ?K = "ag_flow (ho_agent H)" and ?D = "deployed H trust"
  have dep: "host_ok UNIV ?D" by (rule deployed_ok [OF host]) (simp, rule trust)
  have frame: "sysof (ag_flow (ho_agent ?D)) = sysof ?K" "flows (ag_flow (ho_agent ?D)) = flows ?K"
    by (simp_all add: deployed_def)
  have "host_ok UNIV ?D \<and> sys_ok (sysof (ag_flow (ho_agent ?D)) w')"
    unfolding run using dep start by (intro deployment.run_inv) (auto simp: frame list_all_iff)
  then have "chained None (evs i (events w')) (map_option state (flows ?K w' i))"
    by (simp add: sys_ok_def log_ok_def sysof_def frame)
  moreover have "path UNIV (sysof ?K w) (sysof ?K w')"
    unfolding run using frame(1) agent_step_path [OF dep, where b = b]
    by (induction cs arbitrary: w) (auto intro: path_trans)
  then have "\<exists>r'. flows ?K w' i = Some r' \<and> same_session r r'" if "flows ?K w i = Some r" for r
    using session_path [of UNIV "sysof ?K w" "sysof ?K w'" i r] that
      repo_id [OF agent_okD(1) [OF host_okD(1) [OF host]] that]
    by (simp add: sysof_def)
  ultimately show ?thesis by blast
qed

definition ex_boot :: boot_options where
  "ex_boot = \<lparr> bo_override = [], bo_authorization = True, bo_corporation = True \<rparr>"

definition ex_revocation :: "mem_ext agent_state agent_cmd" where
  "ex_revocation = AC_ChainEvent
     \<lparr> ac_timestamp = ''2025-01-01T00:00:00.000Z'', ac_block_height = 5,
       ac_entity_type = ''Participant'', ac_entity_id = ''7'', ac_msg = ''RevokeParticipant'',
       ac_changes = [], ac_account = ''operator'' \<rparr>
     \<lparr> hc_blockHeight = 5, hc_operatorAddress = ''addr'', hc_state = emptyState, hc_txHash = ''tx'' \<rparr>"

theorem deployed_agent_keeps_flow_contract_witness:
  "\<exists>w'. w' = fold (agent_step (deployed (ex_host (\<lambda>_. None)) None) ex_boot)
       [AC_Flow (C_SendOR ex_onboarding), ex_revocation] (agent_world []) \<and>
     chained None (evs ''ii'' (events w')) (map_option state (flows (agent_env agent_options) w' ''ii''))"
  using deployed_agent_keeps_flow_contract [where H = "ex_host (\<lambda>_. None)" and trust = None and
      w = "agent_world []" and b = ex_boot and i = "''ii''" and
      cs = "[AC_Flow (C_SendOR ex_onboarding), ex_revocation]", OF ex_host_ok _ _ refl]
  by (simp add: agent_world_empty_ok)

section \<open>The flows of a participant\<close>

definition sends_quietly :: "('st, 'x) env \<Rightarrow> bool" where
  "sends_quietly K \<longleftrightarrow>
     (\<forall>m c w. post (msg_send K m c) (\<lambda>_ w'. flows K w' = flows K w)
        (\<lambda>_ w'. flows K w' = flows K w) w)"

definition rewrites_own ::
  "('st, 'x) env \<Rightarrow> (vt_flow_record \<Rightarrow> vt_flow_record \<Rightarrow> bool) \<Rightarrow> vt_flow_record \<Rightarrow>
   (('st, 'x) world, err, 'a) comp \<Rightarrow> bool" where
  "rewrites_own K P r m \<longleftrightarrow>
     (\<forall>w. flows K w (rec_id r) = Some r \<longrightarrow>
        post m (\<lambda>_ w'. \<exists>r'. flows K w' = (flows K w)(rec_id r \<mapsto> r') \<and> P r r') (\<lambda>_ _. False) w)"

lemma forM_pointwise:
  assumes "distinct (map rec_id rs)" and "\<And>r. r \<in> set rs \<Longrightarrow> flows K w (rec_id r) = Some r"
    and "\<And>r. r \<in> set rs \<Longrightarrow> rewrites_own K P r (f r)"
  shows "post (forM rs (\<lambda>r. catch (bnd (f r) (\<lambda>_. ret ())) (\<lambda>e. ret ())))
    (\<lambda>_ w'. (\<forall>r \<in> set rs. \<exists>r'. flows K w' (rec_id r) = Some r' \<and> P r r') \<and>
       (\<forall>j. j \<notin> rec_id ` set rs \<longrightarrow> flows K w' j = flows K w j)) (\<lambda>_ _. False) w"
  using assms
proof (induction rs arbitrary: w)
  case Nil
  then show ?case by (simp add: wp)
next
  case (Cons r rs)
  let ?loop = "forM rs (\<lambda>r. catch (bnd (f r) (\<lambda>_. ret ())) (\<lambda>e. ret ()))"
  let ?Q = "\<lambda>_ w'. (\<forall>x \<in> set (r # rs). \<exists>x'. flows K w' (rec_id x) = Some x' \<and> P x x') \<and>
       (\<forall>j. j \<notin> rec_id ` set (r # rs) \<longrightarrow> flows K w' j = flows K w j)"
  have fresh: "rec_id r \<notin> rec_id ` set rs" using Cons.prems(1) by simp
  have rest: "post ?loop ?Q (\<lambda>_ _. False) w1"
    if "flows K w1 = (flows K w)(rec_id r \<mapsto> r')" and "P r r'" for w1 r'
  proof -
    have "flows K w1 (rec_id x) = Some x" if "x \<in> set rs" for x
    proof -
      from that have "rec_id x \<in> rec_id ` set rs" by (rule imageI)
      with fresh have "rec_id x \<noteq> rec_id r" by (intro notI) simp
      with that Cons.prems(2) show ?thesis by (simp add: \<open>flows K w1 = _\<close>)
    qed
    with Cons.prems(1,3) have "post ?loop
        (\<lambda>_ w'. (\<forall>x \<in> set rs. \<exists>x'. flows K w' (rec_id x) = Some x' \<and> P x x') \<and>
           (\<forall>j. j \<notin> rec_id ` set rs \<longrightarrow> flows K w' j = flows K w1 j)) (\<lambda>_ _. False) w1"
      by (intro Cons.IH) auto
    then show ?thesis by (rule post_mono) (use that fresh in auto)
  qed
  have "rewrites_own K P r (f r)" and "flows K w (rec_id r) = Some r"
    using Cons.prems(2,3) by simp_all
  then have "post (f r) (\<lambda>_ w'. \<exists>r'. flows K w' = (flows K w)(rec_id r \<mapsto> r') \<and> P r r')
      (\<lambda>_ _. False) w" by (simp add: rewrites_own_def)
  then show ?case
    unfolding forM.simps post_sqn post_catch post_bnd post_ret
    by (rule post_mono) (erule exE conjE FalseE | rule rest | assumption)+
qed

lemma tags_match_participant [simp]:
  "tags_match [(''applicantParticipantId'', p)] r \<longleftrightarrow> applicantParticipantId r = Some p"
  by (auto simp: tags_match_def getTags_def)

lemma reconcile_pointwise:
  assumes laws: "repo_laws (ag_flow A)"
    and own: "\<And>r. applicantParticipantId r = Some p \<Longrightarrow> rewrites_own (ag_flow A) P r (f r)"
  shows "post (reconcileVtFlowRecordsForParticipant A p f)
    (\<lambda>_ w'. \<forall>i r. flows (ag_flow A) w i = Some r \<longrightarrow>
       (\<exists>r'. flows (ag_flow A) w' i = Some r' \<and>
          (if applicantParticipantId r = Some p then P r r' else r' = r)))
    (\<lambda>_ _. False) w"
proof -
  let ?K = "ag_flow A" and ?q = "[(''applicantParticipantId'', p)]"
  let ?rs = "repo_findByQuery (ag_flow A) (store w) [(''applicantParticipantId'', p)]"
  have mem: "r \<in> set ?rs \<longleftrightarrow> flows ?K w (rec_id r) = Some r \<and> applicantParticipantId r = Some p" for r
    using laws by (simp add: repo_laws_def flows_def)
  have "post (forM ?rs (\<lambda>r. catch (bnd (f r) (\<lambda>_. ret ())) (\<lambda>e. ret ())))
      (\<lambda>_ w'. (\<forall>r \<in> set ?rs. \<exists>r'. flows ?K w' (rec_id r) = Some r' \<and> P r r') \<and>
         (\<forall>j. j \<notin> rec_id ` set ?rs \<longrightarrow> flows ?K w' j = flows ?K w j)) (\<lambda>_ _. False) w"
    by (rule forM_pointwise) (simp_all add: queried_records [OF laws] mem own)
  then show ?thesis
    unfolding reconcileVtFlowRecordsForParticipant_def findAllByQuery_def post_bnd post_gets
  proof (rule post_mono, goal_cases)
    case (1 x w')
    show ?case
    proof (intro allI impI)
      fix i r
      assume r: "flows ?K w i = Some r"
      then have i: "rec_id r = i" by (rule repo_id [OF laws])
      show "\<exists>r'. flows ?K w' i = Some r' \<and>
          (if applicantParticipantId r = Some p then P r r' else r' = r)"
      proof (cases "applicantParticipantId r = Some p")
        case True
        with r i 1 mem [of r] show ?thesis by auto
      next
        case False
        with r i have "i \<notin> rec_id ` set ?rs" by (auto simp: mem)
        with r 1 False show ?thesis by auto
      qed
    qed
  qed simp
qed

lemma rewrites_own_ret: "P r r \<Longrightarrow> rewrites_own K P r (ret x)"
  by (auto simp: rewrites_own_def wp intro!: exI [of _ r])

lemma rewrites_own_updateState:
  "repo_laws K \<Longrightarrow> P r (moved r s) \<Longrightarrow> rewrites_own K P r (sqn (updateState K r s) (ret x))"
  by (auto simp: rewrites_own_def wp)

lemma post_ret_at: "post (ret x) Q E = Q x"
  by (rule ext) (rule post_ret)

lemma rewrites_own_byChain:
  assumes "repo_laws K" and "sends_quietly K"
    and "\<And>m. P r (moved (r\<lparr>errorMessage := m\<rparr>) (chain_end_state e))"
  shows "rewrites_own K P r (sqn (api_terminateByChainEvent K (rec_id r) code e en) (ret x))"
  unfolding rewrites_own_def
proof (intro allI impI)
  fix w
  assume stored: "flows K w (rec_id r) = Some r"
  have quietly: "post (msg_send K m c) (\<lambda>_ w'. Q (flows K w')) (\<lambda>_ w'. Q (flows K w')) w1"
    if "Q (flows K w1)" for m c w1 and Q
    using assms(2) that
    by (auto simp: sends_quietly_def elim!: allE [of _ m] allE [of _ c] allE [of _ w1] post_mono)
  show "post (sqn (api_terminateByChainEvent K (rec_id r) code e en) (ret x))
      (\<lambda>_ w'. \<exists>r'. flows K w' = (flows K w)(rec_id r \<mapsto> r') \<and> P r r') (\<lambda>_ _. False) w"
    using stored assms(1,3)
    by (auto simp: api_terminateByChainEvent_def terminateByChainEvent_def dispatchMessage_def
        connectionById_def wp post_ret_at split: sum.split
        intro!: quietly [where Q = "\<lambda>f. \<exists>r'. f = (flows K w)(rec_id r \<mapsto> r') \<and> P r r'"])
qed

lemma rewrites_own_cases:
  "(c \<Longrightarrow> rewrites_own K P r m) \<Longrightarrow> (\<not> c \<Longrightarrow> rewrites_own K P r n) \<Longrightarrow>
     rewrites_own K P r (if c then m else n)"
  by simp

text \<open>
  C21. The revocation of a participant ends every one of its flows: after the reaction each flow stored
  for the participant is PARTICIPANT_REVOKED or PARTICIPANT_SLASHED, also one that had completed, and
  also when its peer cannot be told; the flows of other participants are as they were. The reaction
  itself never fails.
\<close>

theorem revocation_ends_every_flow:
  assumes "repo_laws (ag_flow A)" and "sends_quietly (ag_flow A)"
  shows "post (setVtFlowRecordsParticipantRevoked A p)
    (\<lambda>_ w'. \<forall>i r. flows (ag_flow A) w i = Some r \<longrightarrow>
       (\<exists>r'. flows (ag_flow A) w' i = Some r' \<and>
          (if applicantParticipantId r = Some p
           then state r' = ParticipantRevoked \<or> state r' = ParticipantSlashed else r' = r)))
    (\<lambda>_ _. False) w"
  unfolding setVtFlowRecordsParticipantRevoked_def
  by (intro reconcile_pointwise rewrites_own_cases rewrites_own_ret rewrites_own_byChain assms)
    simp_all

theorem revocation_ends_every_flow_witness:
  "post (setVtFlowRecordsParticipantRevoked (ex_agent (\<lambda>_. None)) ''7'')
    (\<lambda>_ w'. map_option state (flows (agent_env agent_options) w' ''f1'') = Some ParticipantRevoked \<or>
        map_option state (flows (agent_env agent_options) w' ''f1'') = Some ParticipantSlashed)
    (\<lambda>_ _. False) (agent_world [ex_flow Validator OnboardingProcess Completed])"
proof -
  have "sends_quietly (ag_flow (ex_agent (\<lambda>_. None)))"
    by (simp add: sends_quietly_def agent_env_def Let_def wp)
  then have "post (setVtFlowRecordsParticipantRevoked (ex_agent (\<lambda>_. None)) ''7'')
    (\<lambda>_ w'. \<forall>i r. flows (ag_flow (ex_agent (\<lambda>_. None))) (agent_world [ex_flow Validator OnboardingProcess Completed]) i = Some r \<longrightarrow>
       (\<exists>r'. flows (ag_flow (ex_agent (\<lambda>_. None))) w' i = Some r' \<and>
          (if applicantParticipantId r = Some ''7''
           then state r' = ParticipantRevoked \<or> state r' = ParticipantSlashed else r' = r)))
    (\<lambda>_ _. False) (agent_world [ex_flow Validator OnboardingProcess Completed])"
    by (intro revocation_ends_every_flow) simp_all
  then show ?thesis by (rule post_mono) (auto simp: mem_find_def dest!: spec [of _ "''f1''"])
qed

text \<open>
  C22. A cancelled participant: the answer of the indexer decides what its running flows become, and no
  answer counts as "not validated". So when the read fails, every flow of the participant that has not
  ended is put in TERMINATED_BY_APPLICANT, a COMPLETED one whose credential was delivered included;
  only an answer that the entry is still VALIDATED keeps the flows with a credential exchange.
\<close>

theorem cancel_outcome:
  assumes "repo_laws (ag_flow A)"
    and "post (findParticipant A p) (\<lambda>q w1. entry = q \<and> flows (ag_flow A) w1 = flows (ag_flow A) w)
      (\<lambda>_ w1. entry = None \<and> flows (ag_flow A) w1 = flows (ag_flow A) w) w"
  shows "post (reconcileVtFlowRecordsOnCancel A p)
    (\<lambda>_ w'. \<forall>i r. flows (ag_flow A) w i = Some r \<longrightarrow>
       (\<exists>r'. flows (ag_flow A) w' i = Some r' \<and>
          state r' =
            (if applicantParticipantId r \<noteq> Some p \<or> isVtFlowTerminalState (state r) then state r
             else if (case entry of None \<Rightarrow> False | Some q \<Rightarrow> cpt_opState q = Some VS_Validated) \<and>
                     truthy (credentialExchangeRecordId r) then Completed
             else TerminatedByApplicant)))
    (\<lambda>_ _. False) w"
proof -
  let ?K = "ag_flow A"
  let ?f = "\<lambda>k record. if isVtFlowTerminalState (state record) then ret None
     else if k \<and> truthy (credentialExchangeRecordId record) then
       (if state record = Completed then ret None
        else sqn (updateState ?K record Completed) (ret (Some ''COMPLETED'')))
     else sqn (updateState ?K record TerminatedByApplicant) (ret (Some ''TERMINATED_BY_APPLICANT''))"
  let ?P = "\<lambda>k r r'. state r' = (if isVtFlowTerminalState (state r) then state r
     else if k \<and> truthy (credentialExchangeRecordId r) then Completed else TerminatedByApplicant)"
  have loop: "post (reconcileVtFlowRecordsForParticipant A p (?f k))
      (\<lambda>_ w'. \<forall>i r. flows ?K w i = Some r \<longrightarrow> (\<exists>r'. flows ?K w' i = Some r' \<and>
         (if applicantParticipantId r = Some p then ?P k r r' else r' = r)))
      (\<lambda>_ _. False) w1" if "flows ?K w1 = flows ?K w" for k w1
    unfolding that [symmetric]
    by (intro reconcile_pointwise rewrites_own_cases rewrites_own_ret rewrites_own_updateState
        assms(1)) simp_all
  show ?thesis
    unfolding reconcileVtFlowRecordsOnCancel_def Let_def post_bnd post_or_undefined
    by (rule post_mono [OF assms(2)]; rule post_mono [OF loop])
      (auto split: if_splits option.splits)
qed

text \<open>The read fails, and a completed flow is terminated.\<close>

theorem cancel_outcome_witness:
  "post (reconcileVtFlowRecordsOnCancel
       ((ex_agent (\<lambda>_. None))\<lparr>ix_participant := \<lambda>_. throw (OtherError ''502'')\<rparr>) ''7'')
    (\<lambda>_ w'. map_option state (flows (agent_env agent_options) w' ''f1'') =
        Some TerminatedByApplicant)
    (\<lambda>_ _. False) (agent_world [ex_flow Applicant OnboardingProcess Completed])"
  by (rule post_mono [OF cancel_outcome [where entry = None]])
    (auto simp: findParticipant_def wp mem_find_def isVtFlowTerminalState_def VtFlowTerminalStates_def
      dest!: spec [of _ "''f1''"])

end
