(* ===== verification/Lookups.thy ===== *)
theory Lookups
  imports AgentExamples
begin

text \<open>
  The lookups that wait for the chain or the indexer end: the transaction of an anchoring, the entry of
  an applicant and the delegation page each run as the loop \<open>poll\<close>, and \<open>deadline_loop\<close> is interpreted on
  all three. \<open>timely\<close> is what a clock and a timer do: the time never goes back, and a sleep takes at
  least as long as it was asked to.
\<close>

section \<open>Time\<close>

definition clock :: "('st, 'y) agent \<Rightarrow> ('st, 'y) agent_world \<Rightarrow> int" where
  "clock A w = fst (clock_ms (ag_flow A) (ext w))"

definition takes :: "('st, 'y) agent \<Rightarrow> int \<Rightarrow> ('st, 'y, 'a) act \<Rightarrow> bool" where
  "takes A d m \<longleftrightarrow>
     (\<forall>w. post m (\<lambda>_ t. clock A w + d \<le> clock A t) (\<lambda>_ t. clock A w + d \<le> clock A t) w)"

definition timely :: "('st, 'y) agent \<Rightarrow> bool" where
  "timely A \<longleftrightarrow>
     takes A 0 (now A) \<and> (\<forall>i. takes A 0 (ix_participant A i)) \<and>
     (\<forall>i. takes A 0 (ix_vsOperatorAuthorizations A i)) \<and>
     (\<forall>c h. ag_chain A = Some c \<longrightarrow> takes A 0 (ch_findTx (cc_calls c) h)) \<and>
     (\<forall>n \<ge> 0. takes A n (ag_sleep A n))"

lemma timelyD:
  assumes "timely A"
  shows "takes A 0 (now A)" "takes A 0 (ix_participant A i)"
    "takes A 0 (ix_vsOperatorAuthorizations A i)"
    "ag_chain A = Some c \<Longrightarrow> takes A 0 (ch_findTx (cc_calls c) h)"
    "0 \<le> n \<Longrightarrow> takes A n (ag_sleep A n)"
  using assms by (simp_all add: timely_def)

text \<open>A call after which the rest holds at every later time.\<close>

lemma post_takes:
  assumes "takes A 0 m" and "since \<le> clock A w" and "\<And>x t. since \<le> clock A t \<Longrightarrow> Q x t"
    and "\<And>e t. since \<le> clock A t \<Longrightarrow> E e t"
  shows "post m Q E w"
proof -
  have "post m (\<lambda>_ t. clock A w + 0 \<le> clock A t) (\<lambda>_ t. clock A w + 0 \<le> clock A t) w"
    using assms(1) unfolding takes_def by blast
  then show ?thesis by (rule post_mono) (use assms(2-4) in auto)
qed

lemma post_now:
  assumes "takes A 0 (now A)" and "\<And>t. clock A w \<le> clock A t \<Longrightarrow> Q (clock A w) t"
  shows "post (now A) Q E w"
proof -
  obtain t x where c: "clock_ms (ag_flow A) (ext w) = (t, x)" by (cases "clock_ms (ag_flow A) (ext w)")
  have "post (now A) (\<lambda>_ t. clock A w + 0 \<le> clock A t) (\<lambda>_ t. clock A w + 0 \<le> clock A t) w"
    using assms(1) unfolding takes_def by blast
  with assms(2) c show ?thesis
    by (simp add: now_def date_now_def post_def clock_def)
qed

lemma pause_takes:
  assumes "takes A n (ag_sleep A n)"
  shows "post (ag_sleep A n) (\<lambda>_ t. d - clock A t \<le> d - clock A w - n) (\<lambda>_ _. True) w"
proof -
  have "post (ag_sleep A n) (\<lambda>_ t. clock A w + n \<le> clock A t) (\<lambda>_ t. clock A w + n \<le> clock A t) w"
    using assms unfolding takes_def by blast
  then show ?thesis by (rule post_mono) auto
qed

section \<open>The three loops\<close>

lemma anchor_round_ends:
  assumes "timely A" and "ag_chain A = Some c" and "Date_parse A submittedAt = Some since"
  shows "post (anchor_round A c hash submittedAt u)
    (\<lambda>r t. \<forall>v. r = Inr v \<longrightarrow> 0 < since + TX_LOOKUP_TIMEOUT_MS - clock A w \<and>
       since + TX_LOOKUP_TIMEOUT_MS - clock A t \<le> since + TX_LOOKUP_TIMEOUT_MS - clock A w)
    (\<lambda>_ _. True) w"
  unfolding anchor_round_def findTx_def post_bnd post_or_undefined post_ret
  by (rule post_takes [OF timelyD(4) [OF assms(1,2)] order.refl])
    (auto simp: wp lookup_timed_out_def assms(3) split: option.split
      intro!: post_now [OF timelyD(1) [OF assms(1)]])

interpretation anchoring: deadline_loop "anchor_round A c hash submittedAt"
    "ag_sleep A TX_LOOKUP_INTERVAL_MS"
    "\<lambda>_ _. timely A \<and> ag_chain A = Some c \<and> Date_parse A submittedAt = Some since"
    "\<lambda>w. since + TX_LOOKUP_TIMEOUT_MS - clock A w" TX_LOOKUP_INTERVAL_MS
  for A c hash submittedAt since
proof (unfold_locales, goal_cases)
  case (1 b s)
  then have "post (anchor_round A c hash submittedAt b)
    (\<lambda>r t. \<forall>v. r = Inr v \<longrightarrow> 0 < since + TX_LOOKUP_TIMEOUT_MS - clock A s \<and>
       since + TX_LOOKUP_TIMEOUT_MS - clock A t \<le> since + TX_LOOKUP_TIMEOUT_MS - clock A s)
    (\<lambda>_ _. True) s"
    by (intro anchor_round_ends) simp_all
  with 1 show ?case by (auto elim: post_mono)
next
  case (2 b s)
  then have "takes A TX_LOOKUP_INTERVAL_MS (ag_sleep A TX_LOOKUP_INTERVAL_MS)"
    by (intro timelyD(5)) (simp_all add: TX_LOOKUP_INTERVAL_MS_def)
  from pause_takes [OF this] show ?case by (rule post_mono) (use 2 in auto)
qed

lemma participant_round_ends:
  assumes "timely A"
  shows "post (participant_round A record deadline seen)
    (\<lambda>r t. \<forall>v. r = Inr v \<longrightarrow> 0 < deadline - clock A w \<and>
       deadline - clock A t \<le> deadline - clock A w)
    (\<lambda>_ _. True) w"
proof -
  define Q where "Q = (\<lambda>(r :: participant_check + bool option) t. \<forall>v. r = Inr v \<longrightarrow>
       0 < deadline - clock A w \<and> deadline - clock A t \<le> deadline - clock A w)"
  have Q [simp]: "Q (Inl x) t" for x t by (simp add: Q_def)
  have next_round: "post (bnd (now A) (\<lambda>t. ret (if deadline \<le> t then Inl CheckFalse else Inr (Some b))))
      Q (\<lambda>_ _. True) w1" if "clock A w \<le> clock A w1" for b w1
    unfolding post_bnd using that
    by (intro post_now [OF timelyD(1) [OF assms]]) (auto simp: wp Q_def)
  have settled: "post (sqn m (sqn n (ret (Inl x)))) Q (\<lambda>_ _. True) w1"
    for m :: "('a, 'b, vt_flow_record) act" and n :: "('a, 'b, vt_flow_record) act" and x and w1
    unfolding post_sqn post_ret by (rule post_mono [OF post_triv], rule post_mono [OF post_triv]) auto
  have read: "post (or_undefined (getParticipant A i)) R (\<lambda>_ _. True) w1"
    if "clock A w \<le> clock A w1" and "\<And>x t. clock A w \<le> clock A t \<Longrightarrow> R x t" for i w1 R
    unfolding getParticipant_def found_def post_or_undefined post_bnd
    by (rule post_takes [OF timelyD(2) [OF assms] that(1)])
      (auto simp: wp that(2) split: option.split)
  have check: "post (bnd (or_undefined (getParticipant A i)) (\<lambda>v. case v of
        None \<Rightarrow> m | Some v \<Rightarrow> n v)) Q (\<lambda>_ _. True) w1"
    if "clock A w \<le> clock A w1"
      and "\<And>t. clock A w \<le> clock A t \<Longrightarrow> post m Q (\<lambda>_ _. True) t"
      and "\<And>v t. clock A w \<le> clock A t \<Longrightarrow> post (n v) Q (\<lambda>_ _. True) t" for i m n w1
    unfolding post_bnd by (rule read [OF that(1)]) (auto simp: that(2,3) split: option.split)
  have lookups: "post (bnd (findById (ag_flow A) i) f) Q E u = post (f (flows (ag_flow A) u i)) Q E u"
    "post (bnd (getx h) g) Q E u = post (g (h (ext u))) Q E u" for i f Q E u h g
    by (simp_all add: wp)
  have "post (participant_round A record deadline seen) Q (\<lambda>_ _. True) w"
    unfolding participant_round_def Let_def post_bnd [of "or_undefined m" for m]
    by (rule read [OF order.refl])
      (auto simp: post_ret lookups
        intro!: check next_round settled split: option.split)
  then show ?thesis by (simp add: Q_def)
qed

text \<open>\<open>inv\<close> carries the deadline; the loop variable of \<open>checkParticipantId\<close> does not matter.\<close>

interpretation participant_check: deadline_loop "participant_round A flow deadline"
    "ag_sleep A TX_LOOKUP_INTERVAL_MS" "\<lambda>_ _. timely A" "\<lambda>w. deadline - clock A w"
    TX_LOOKUP_INTERVAL_MS
  for A flow deadline
proof (unfold_locales, goal_cases)
  case (1 b s)
  from participant_round_ends [OF 1] show ?case by (rule post_mono) (use 1 in auto)
next
  case (2 b s)
  then have "takes A TX_LOOKUP_INTERVAL_MS (ag_sleep A TX_LOOKUP_INTERVAL_MS)"
    by (intro timelyD(5)) (simp_all add: TX_LOOKUP_INTERVAL_MS_def)
  from pause_takes [OF this] show ?case by (rule post_mono) (use 2 in auto)
qed

lemma delegation_round_ends:
  assumes "takes A 0 fetch" and "takes A 0 (now A)"
  shows "post (delegation_round fetch (now A) url minBlock deadline)
    (\<lambda>r t. \<forall>v. r = Inr v \<longrightarrow> 0 < deadline - clock A w \<and>
       deadline - clock A t \<le> deadline - clock A w)
    (\<lambda>_ _. True) w"
  unfolding delegation_round_def Let_def post_bnd
  by (rule post_takes [OF assms(1) order.refl])
    (auto simp: wp split: option.split intro!: post_now [OF assms(2)])

interpretation delegation: deadline_loop "\<lambda>_. delegation_round fetch (now A) url minBlock deadline"
    "ag_sleep A CATCHUP_INTERVAL_MS" "\<lambda>_ _. timely A \<and> takes A 0 fetch"
    "\<lambda>w. deadline - clock A w" CATCHUP_INTERVAL_MS
  for A fetch url minBlock deadline
proof (unfold_locales, goal_cases)
  case (1 b s)
  then have "takes A 0 fetch" "takes A 0 (now A)" by (simp_all add: timelyD(1))
  from delegation_round_ends [OF this] show ?case by (rule post_mono) (use 1 in auto)
next
  case (2 b s)
  then have "takes A CATCHUP_INTERVAL_MS (ag_sleep A CATCHUP_INTERVAL_MS)"
    by (intro timelyD(5)) (simp_all add: CATCHUP_INTERVAL_MS_def)
  from pause_takes [OF this] show ?case by (rule post_mono) (use 2 in auto)
qed

section \<open>The lookups end\<close>

lemma fuel_Suc: "n < k \<Longrightarrow> \<exists>m. k = Suc m \<and> n \<le> m"
  by (cases k) auto

lemma await_anchoring_ends:
  assumes "timely A" and "20 < ag_fuel A" and "ag_chain A = Some c"
    and "Date_parse A submittedAt = Some since" and "since \<le> clock A w"
  shows "post (await_anchoring A c hash submittedAt) (\<lambda>r _. r \<noteq> None) (\<lambda>_ _. True) w"
proof -
  from fuel_Suc [OF assms(2)] obtain m where m: "ag_fuel A = Suc m" "20 \<le> m" by blast
  show ?thesis
    unfolding await_anchoring_def m(1)
    by (rule anchoring.loop_ends [where since = since])
      (use assms m(2) in \<open>simp_all add: TX_LOOKUP_TIMEOUT_MS_def TX_LOOKUP_INTERVAL_MS_def\<close>)
qed

lemma check_participant_ends:
  assumes "timely A" and "20 < ag_fuel A"
  shows "post (orch_checkParticipantId A flow) (\<lambda>r _. r \<noteq> None) (\<lambda>_ _. True) w"
proof -
  from fuel_Suc [OF assms(2)] obtain m where m: "ag_fuel A = Suc m" "20 \<le> m" by blast
  have "post (poll (Suc m) (participant_round A flow (clock A w + TX_LOOKUP_TIMEOUT_MS))
      (ag_sleep A TX_LOOKUP_INTERVAL_MS) None) (\<lambda>r _. r \<noteq> None) (\<lambda>_ _. True) t"
    if "clock A w \<le> clock A t" for t
    by (rule participant_check.loop_ends)
      (use assms m(2) that in \<open>simp_all add: TX_LOOKUP_TIMEOUT_MS_def TX_LOOKUP_INTERVAL_MS_def\<close>)
  then show ?thesis
    unfolding orch_checkParticipantId_def m(1) post_if post_ret post_bnd
    by (auto intro!: post_now [OF timelyD(1) [OF assms(1)]])
qed

lemma delegation_page_ends:
  assumes "timely A" and "takes A 0 fetch" and "30 < n"
  shows "post (delegationPage n fetch (now A) (ag_sleep A) url minBlock) (\<lambda>r _. r \<noteq> None)
    (\<lambda>_ _. True) w"
proof -
  from fuel_Suc [OF assms(3)] obtain m where m: "n = Suc m" "30 \<le> m" by blast
  have "post (poll (Suc m) (\<lambda>_. delegation_round fetch (now A) url minBlock
        (clock A w + DELEGATION_CATCHUP_TIMEOUT_MS)) (ag_sleep A CATCHUP_INTERVAL_MS) ())
      (\<lambda>r _. r \<noteq> None) (\<lambda>_ _. True) t" if "clock A w \<le> clock A t" for t
    by (rule delegation.loop_ends)
      (use assms m(2) that in \<open>simp_all add: DELEGATION_CATCHUP_TIMEOUT_MS_def CATCHUP_INTERVAL_MS_def\<close>)
  then show ?thesis
    unfolding delegationPage_def m(1) post_bnd by (auto intro: post_now [OF timelyD(1) [OF assms(1)]])
qed

text \<open>
  C10. No lookup waits forever, whatever the indexer and the chain answer or fail to answer: with 31 rounds of
  fuel the wait for an anchoring transaction, the check of a participant and the read of a delegation
  page each return or throw. Their timeouts of 60 and 15 seconds at intervals of 3 seconds and 500
  milliseconds bound the rounds at 21 and 31.
\<close>

theorem lookups_end:
  assumes "timely A" and "30 < ag_fuel A" and "ag_chain A = Some c"
    and "Date_parse A submittedAt = Some since" and "since \<le> clock A w"
  shows "post (await_anchoring A c hash submittedAt) (\<lambda>r _. r \<noteq> None) (\<lambda>_ _. True) w \<and>
    post (orch_checkParticipantId A flow) (\<lambda>r _. r \<noteq> None) (\<lambda>_ _. True) w \<and>
    post (listVsOperatorAuthorizations A operator minBlock) (\<lambda>r _. r \<noteq> None) (\<lambda>_ _. True) w"
proof -
  have "20 < ag_fuel A" using assms(2) by simp
  moreover have "post (listVsOperatorAuthorizations A operator minBlock) (\<lambda>r _. r \<noteq> None)
      (\<lambda>_ _. True) w"
    unfolding listVsOperatorAuthorizations_def post_bnd post_ret
    by (rule post_mono [OF delegation_page_ends [OF assms(1) timelyD(3) [OF assms(1)] assms(2)]])
      simp_all
  ultimately show ?thesis
    using assms by (blast intro: await_anchoring_ends check_participant_ends)
qed

text \<open>The chain knows nothing of the transaction: the wait ends in its failure.\<close>

definition ex_silent :: "(mem_store, mem_ext) agent" where
  "ex_silent = (ex_agent (\<lambda>_. None))\<lparr>ag_chain :=
     Some (ex_client\<lparr>cc_calls := ex_chain\<lparr>ch_findTx := \<lambda>_. ret None\<rparr>\<rparr>)\<rparr>"

lemma ex_silent_timely: "timely ex_silent"
  by (auto simp: timely_def takes_def clock_def ex_silent_def now_def ex_agent_def ex_client_def wp
      after_now_def)

theorem lookups_end_witness:
  "post (await_anchoring ex_silent (the (ag_chain ex_silent)) ''hash'' ''1970-01-01T00:00:00.000Z'')
     (\<lambda>r _. r \<noteq> None) (\<lambda>_ _. True) (agent_world [])"
proof -
  have "iso_parse ''1970-01-01T00:00:00.000Z'' = Some 0" by code_simp
  then have parsed: "Date_parse ex_silent ''1970-01-01T00:00:00.000Z'' = Some 0"
    by (simp add: Date_parse_def)
  show ?thesis
    using lookups_end [OF ex_silent_timely _ _ parsed,
        of "the (ag_chain ex_silent)" "agent_world []"]
    by (simp add: ex_silent_def clock_def ex_agent_def)
qed

end
