(* ===== verification/ValidationProps.thy ===== *)
theory ValidationProps
  imports Lookups
begin

text \<open>
  Properties of a validation and of the anchoring of a credential: the terms that reach the chain, what
  is signed and who pays for it, and the transactions that are recorded.
\<close>

section \<open>The terms of a validation\<close>

definition terms_ok :: "(term_key \<Rightarrow> rat option) \<Rightarrow> bool" where
  "terms_ok f \<longleftrightarrow> (\<forall>k \<in> set FEE_KEYS. option_holds is_fee (f k)) \<and>
     (\<forall>k \<in> set DISCOUNT_KEYS. option_holds is_discount (f k))"

lemma find_None_holds: "find P xs = None \<longleftrightarrow> (\<forall>x \<in> set xs. \<not> P x)"
  by (auto simp: find_None_iff)

lemma option_holds_choice:
  "option_holds P a \<Longrightarrow> option_holds P b \<Longrightarrow> P 0 \<Longrightarrow> P (withDefault (orElse a b) 0)"
  by (cases a; cases b) (simp_all add: option_holds_def)

lemma zero_term [simp]: "is_fee 0" "is_discount 0"
  by (simp_all add: is_fee_def is_discount_def)

lemma accepted_values:
  assumes accepted: "validationTerms A input applicant record = Inr terms"
    and entry: "is_renewal applicant \<Longrightarrow> terms_ok (\<lambda>k. Some (onEntry applicant k))"
    and recorded: "\<And>v. state record = ValidationTxFailed \<Longrightarrow> validation record = Some v \<Longrightarrow>
        terms_ok (recorded_term v)"
  shows "terms_ok (\<lambda>k. Some (tm_value terms k))"
    and "is_renewal applicant \<Longrightarrow> tm_value terms = onEntry applicant"
proof -
  let ?old = "if state record = ValidationTxFailed then validation record else None"
  have given: "option_holds is_fee (input_term input k)" if "k \<in> set FEE_KEYS" for k
    using accepted that by (auto simp: validationTerms_def find_None_holds split: option.splits)
  have given': "option_holds is_discount (input_term input k)" if "k \<in> set DISCOUNT_KEYS" for k
    using accepted that by (auto simp: validationTerms_def find_None_holds split: option.splits)
  have val: "tm_value terms k = (if is_renewal applicant then onEntry applicant k
      else withDefault (orElse (input_term input k) (Option.bind ?old (\<lambda>v. recorded_term v k))) 0)" for k
    using accepted by (auto simp: validationTerms_def Let_def split: option.splits if_splits)
  have old: "option_holds is_fee (Option.bind ?old (\<lambda>v. recorded_term v k))"
    if "k \<in> set FEE_KEYS" for k
    using recorded that by (cases ?old) (auto simp: option_holds_def terms_ok_def split: if_splits)
  have old': "option_holds is_discount (Option.bind ?old (\<lambda>v. recorded_term v k))"
    if "k \<in> set DISCOUNT_KEYS" for k
    using recorded that by (cases ?old) (auto simp: option_holds_def terms_ok_def split: if_splits)
  show "tm_value terms = onEntry applicant" if "is_renewal applicant"
    using that by (intro ext) (simp add: val)
  show "terms_ok (\<lambda>k. Some (tm_value terms k))"
  proof (cases "is_renewal applicant")
    case True
    with entry show ?thesis by (simp add: val)
  next
    case False
    have "is_fee (tm_value terms k)" if "k \<in> set FEE_KEYS" for k
      unfolding val if_not_P [OF False]
      by (rule option_holds_choice [OF given [OF that] old [OF that]]) simp
    moreover have "is_discount (tm_value terms k)" if "k \<in> set DISCOUNT_KEYS" for k
      unfolding val if_not_P [OF False]
      by (rule option_holds_choice [OF given' [OF that] old' [OF that]]) simp
    ultimately show ?thesis by (simp add: terms_ok_def option_holds_def)
  qed
qed

lemma scaled_discount_bounds:
  assumes "is_discount q"
  shows "0 \<le> scaled_discount (Some q)" and "scaled_discount (Some q) \<le> 10000"
proof -
  have "0 \<le> q" "q \<le> 1" using assms by (simp_all add: is_discount_def)
  then have "0 \<le> q * 10000 + 1/2" and "q * 10000 + 1/2 < 10001" by simp_all
  then show "0 \<le> scaled_discount (Some q)" "scaled_discount (Some q) \<le> 10000"
    by (simp_all add: scaled_discount_def js_round_def DISCOUNT_SCALE_def le_floor_iff floor_le_iff)
qed

text \<open>The value a message carries for a term: a fee as it is, a discount in hundredths of a percent.\<close>

fun carried :: "to_validated \<Rightarrow> term_key \<Rightarrow> rat" where
  "carried m ValidationFees = tv_validationFees m"
| "carried m IssuanceFees = tv_issuanceFees m"
| "carried m VerificationFees = tv_verificationFees m"
| "carried m IssuanceFeeDiscount = of_int (tv_issuanceFeeDiscount m)"
| "carried m VerificationFeeDiscount = of_int (tv_verificationFeeDiscount m)"

definition in_chain_units :: "term_key \<Rightarrow> rat \<Rightarrow> rat" where
  "in_chain_units k q = (if k \<in> set DISCOUNT_KEYS then of_int \<lfloor>10000 * q + 1/2\<rfloor> else q)"

text \<open>
  What was agreed for a term: on a renewal the value of the entry; otherwise what the operator gives now or,
  when a failed transaction is retried, gave then; and zero when nobody gave it.
\<close>

definition agreed :: "validate_input \<Rightarrow> participant_dto \<Rightarrow> vt_flow_record \<Rightarrow> term_key \<Rightarrow> rat" where
  "agreed input applicant record k =
     (if is_renewal applicant then onEntry applicant k
      else case input_term input k of
        Some x \<Rightarrow> x
      | None \<Rightarrow>
          if state record = ValidationTxFailed
          then withDefault (Option.bind (validation record) (\<lambda>v. recorded_term v k)) 0 else 0)"

lemma agreed_value:
  "validationTerms A input applicant record = Inr terms \<Longrightarrow> tm_value terms k = agreed input applicant record k"
  by (cases "input_term input k") (auto simp: validationTerms_def agreed_def Let_def split: option.splits if_splits)

text \<open>
  C9. The transaction that validates a participant carries exactly the agreed terms, discounts in hundredths of a
  percent, all five of them: a renewal those of the entry, any other validation those the operator gave or had
  given before a failed attempt. The fees are non-negative integers, the discounts lie between 0 and 10000,
  and the terms recorded for a retry are in range again. Only an entry or an earlier record out of range,
  neither of which the agent writes, could break the ranges.
\<close>

theorem accepted_terms_in_range:
  assumes "validationTerms A input applicant record = Inr terms"
    and "is_renewal applicant \<Longrightarrow> terms_ok (\<lambda>k. Some (onEntry applicant k))"
    and "\<And>v. state record = ValidationTxFailed \<Longrightarrow> validation record = Some v \<Longrightarrow>
        terms_ok (recorded_term v)"
  shows "\<exists>m. setParticipantOPToValidatedMsg c
        (validated_params_of A applicant (validation_of decided sub terms)) =
          MsgSetParticipantOPToValidated m \<and>
      (\<forall>k. carried m k = in_chain_units k (agreed input applicant record k)) \<and>
      is_fee (tv_validationFees m) \<and> is_fee (tv_issuanceFees m) \<and> is_fee (tv_verificationFees m) \<and>
      tv_issuanceFeeDiscount m \<in> {0..10000} \<and> tv_verificationFeeDiscount m \<in> {0..10000} \<and>
      terms_ok (recorded_term (validation_of decided sub terms))"
proof -
  have vals: "terms_ok (\<lambda>k. Some (tm_value terms k))"
    using accepted_values [OF assms] by blast
  have each: "is_fee (tm_value terms ValidationFees)" "is_fee (tm_value terms IssuanceFees)"
    "is_fee (tm_value terms VerificationFees)" "is_discount (tm_value terms IssuanceFeeDiscount)"
    "is_discount (tm_value terms VerificationFeeDiscount)"
    using vals by (simp_all add: terms_ok_def FEE_KEYS_def DISCOUNT_KEYS_def option_holds_def)
  then have recorded: "terms_ok (recorded_term (validation_of decided sub terms))"
    by (simp add: terms_ok_def FEE_KEYS_def DISCOUNT_KEYS_def validation_of_def option_holds_def)
  obtain m where m: "setParticipantOPToValidatedMsg c
      (validated_params_of A applicant (validation_of decided sub terms)) = MsgSetParticipantOPToValidated m"
    by (simp add: setParticipantOPToValidatedMsg_def)
  have "carried m k = in_chain_units k (agreed input applicant record k)" for k
    using m agreed_value [OF assms(1), of k]
    by (cases k) (auto simp: setParticipantOPToValidatedMsg_def validated_params_of_def validation_of_def
        in_chain_units_def DISCOUNT_KEYS_def scaled_discount_def js_round_def DISCOUNT_SCALE_def mult.commute)
  moreover have "is_fee (tv_validationFees m)" "is_fee (tv_issuanceFees m)" "is_fee (tv_verificationFees m)"
    "tv_issuanceFeeDiscount m \<in> {0..10000}" "tv_verificationFeeDiscount m \<in> {0..10000}"
    using m each scaled_discount_bounds
    by (auto simp: setParticipantOPToValidatedMsg_def validated_params_of_def validation_of_def)
  ultimately show ?thesis using m recorded by blast
qed

definition ex_input :: validate_input where
  "ex_input =
     \<lparr> vi_vtFlowRecordId = ''f1'', vi_validationFees = Some 12, vi_issuanceFees = None,
       vi_verificationFees = None, vi_issuanceFeeDiscount = Some (1/3),
       vi_verificationFeeDiscount = None, vi_effectiveUntil = None, vi_opSummaryDigest = None \<rparr>"

theorem accepted_terms_in_range_witness:
  "\<exists>terms m. validationTerms (ex_agent (\<lambda>_. None)) ex_input ex_entry
       (ex_flow Validator OnboardingProcess Validating) = Inr terms \<and>
     setParticipantOPToValidatedMsg ex_client
        (validated_params_of (ex_agent (\<lambda>_. None)) ex_entry
           (validation_of ''now'' Submission_Agent terms)) = MsgSetParticipantOPToValidated m \<and>
     tv_validationFees m = 12 \<and> tv_issuanceFeeDiscount m = 3333"
proof -
  obtain terms where t: "validationTerms (ex_agent (\<lambda>_. None)) ex_input ex_entry
       (ex_flow Validator OnboardingProcess Validating) = Inr terms"
    by (simp add: validationTerms_def ex_input_def ex_entry_def FEE_KEYS_def DISCOUNT_KEYS_def
        option_holds_def is_fee_def is_discount_def is_renewal_def)
  have new: "\<not> is_renewal ex_entry" by (simp add: is_renewal_def ex_entry_def)
  have units: "in_chain_units ValidationFees (agreed ex_input ex_entry r ValidationFees) = 12"
    "in_chain_units IssuanceFeeDiscount (agreed ex_input ex_entry r IssuanceFeeDiscount) = 3333" for r
    by (simp_all add: agreed_def new in_chain_units_def DISCOUNT_KEYS_def ex_input_def floor_eq_iff)
  obtain m where m: "setParticipantOPToValidatedMsg ex_client
        (validated_params_of (ex_agent (\<lambda>_. None)) ex_entry (validation_of ''now'' Submission_Agent terms)) =
      MsgSetParticipantOPToValidated m"
    and each: "\<forall>k. carried m k = in_chain_units k (agreed ex_input ex_entry
      (ex_flow Validator OnboardingProcess Validating) k)"
    using accepted_terms_in_range [OF t, of ex_client "''now''" Submission_Agent] new by auto
  from each [rule_format, of ValidationFees] each [rule_format, of IssuanceFeeDiscount]
  have "tv_validationFees m = 12" "tv_issuanceFeeDiscount m = 3333" by (simp_all add: units)
  with t m show ?thesis by blast
qed

section \<open>What is signed\<close>

text \<open>A recorded transaction: a hash once it is sent, a reason and an error when it failed.\<close>

definition tx_ok :: "vt_flow_tx \<Rightarrow> bool" where
  "tx_ok t \<longleftrightarrow> (case tx_status t of
      TxStatus_Submitted \<Rightarrow> tx_hash t \<noteq> None \<and> tx_submittedAt t \<noteq> None \<and> tx_reason t = None \<and>
        tx_error t = None
    | TxStatus_Succeeded \<Rightarrow> tx_hash t \<noteq> None \<and> tx_height t \<noteq> None \<and> tx_reason t = None \<and>
        tx_error t = None
    | TxStatus_Failed \<Rightarrow> tx_reason t \<noteq> None \<and> tx_error t \<noteq> None)"

definition keeps_log :: "('st, 'y, 'a) act \<Rightarrow> bool" where
  "keeps_log m \<longleftrightarrow> (\<forall>w r t. m w = (r, t) \<longrightarrow> ax_signed (ext t) = ax_signed (ext w))"

text \<open>
  Nothing but the agent's own signing puts a transaction in the log, and reading the clock leaves the
  authorization cache alone.
\<close>

definition only_agent_signs :: "('st, 'y) agent \<Rightarrow> ('st, 'y) chain_client \<Rightarrow> bool" where
  "only_agent_signs A c \<longleftrightarrow>
     (\<forall>g d. keeps_log (ch_feeAllowance (cc_calls c) g d)) \<and>
     (\<forall>ms g. keeps_log (ch_estimateFee (cc_calls c) ms g)) \<and>
     (\<forall>a d. keeps_log (ch_getAccountBalance (cc_calls c) a d)) \<and>
     (\<forall>d. keeps_log (ch_getBalance (cc_calls c) d)) \<and>
     (\<forall>ms f. keeps_log (ch_signAndBroadcastSync (cc_calls c) ms f)) \<and>
     (\<forall>h. keeps_log (ch_findTx (cc_calls c) h)) \<and> (\<forall>n. keeps_log (ag_sleep A n)) \<and>
     keeps_log (now A) \<and>
     (\<forall>w. ax_auth (ext (after_now (ag_flow A) w)) = ax_auth (ext w))"

lemma post_keeps_log:
  assumes "post m Q E w" and "keeps_log m"
  shows "post m (\<lambda>x t. Q x t \<and> ax_signed (ext t) = ax_signed (ext w))
    (\<lambda>e t. E e t \<and> ax_signed (ext t) = ax_signed (ext w)) w"
  using assms by (auto simp: keeps_log_def post_def split: prod.splits sum.splits)

lemma keeps_log_rules:
  "keeps_log (ret x)" "keeps_log (getx h)"
  "keeps_log m \<Longrightarrow> (\<And>x. keeps_log (f x)) \<Longrightarrow> keeps_log (bnd m f)"
  "keeps_log m \<Longrightarrow> (\<And>x. keeps_log (k x)) \<Longrightarrow> keeps_log (try_read m k)"
  "(c \<Longrightarrow> keeps_log m) \<Longrightarrow> (\<not> c \<Longrightarrow> keeps_log n) \<Longrightarrow> keeps_log (if c then m else n)"
  unfolding keeps_log_def try_read_def getx_def
  by (auto simp: comp_defs split: prod.splits sum.splits if_splits)

lemma keeps_log_preflight:
  assumes "only_agent_signs A c"
  shows "keeps_log (preflight c message pid)"
proof -
  have calls: "keeps_log (ch_feeAllowance (cc_calls c) g d)"
    "keeps_log (ch_estimateFee (cc_calls c) ms go)"
    "keeps_log (ch_getAccountBalance (cc_calls c) g d)" "keeps_log (ch_getBalance (cc_calls c) d)"
    for g d ms go
    using assms by (simp_all add: only_agent_signs_def)
  have "keeps_log (checkPayer (cc_calls c) g al f)" for g al f
    by (auto simp: checkPayer_def corporationPays_def agentPays_def
        intro!: keeps_log_rules calls split: option.split fee_allowance.split)
  then show ?thesis
    unfolding preflight_def preflightFee_def by (intro keeps_log_rules calls)
qed

definition fee_payer :: "('st, 'y) agent_world \<Rightarrow> ('st, 'y) chain_client \<Rightarrow> int option \<Rightarrow> string option" where
  "fee_payer w c pid = feeGranterFor (Some (cc_corporation c)) (ax_auth (ext w)) pid"

lemma post_preflight:
  assumes "only_agent_signs A c"
    and fee: "\<And>f t. payer_covers (cc_calls c) (fee_payer w c pid) (fee_amount_due f) \<Longrightarrow>
        ax_signed (ext t) = ax_signed (ext w) \<Longrightarrow> Q (Fee f) t"
    and stop: "\<And>reason error t. ax_signed (ext t) = ax_signed (ext w) \<Longrightarrow> Q (Stopped reason error) t"
  shows "post (preflight c message pid) Q E w"
proof -
  have "post (preflight c message pid)
      (\<lambda>r t. case r of Stopped reason error \<Rightarrow> True
         | Fee f \<Rightarrow> payer_covers (cc_calls c) (fee_payer w c pid) (fee_amount_due f))
      (\<lambda>_ _. False) w"
    unfolding preflight_def fee_payer_def by (auto simp: wp intro!: post_preflightFee)
  from post_keeps_log [OF this keeps_log_preflight [OF assms(1)]] show ?thesis
    by (rule post_mono) (auto intro: fee stop split: fee_preflight.splits)
qed

text \<open>The transactions the agent handed to its signing client since \<open>w\<close>: none, or one that is paid for.\<close>

definition signed_at_most ::
  "('st, 'y) agent_world \<Rightarrow> ('st, 'y) chain_client \<Rightarrow> chain_msg \<Rightarrow> int option \<Rightarrow>
   ('st, 'y) agent_world \<Rightarrow> bool" where
  "signed_at_most w c message pid w' \<longleftrightarrow>
     ax_signed (ext w') = ax_signed (ext w) \<or>
     (\<exists>f. ax_signed (ext w') = ax_signed (ext w) @ [([message], f)] \<and>
        payer_covers (cc_calls c) (fee_payer w c pid) (fee_amount_due f))"

lemma signed_at_most_refl: "ax_signed (ext t) = ax_signed (ext w) \<Longrightarrow> signed_at_most w c m pid t"
  by (simp add: signed_at_most_def)

lemma signed_at_most_ext:
  "ax_signed (ext t') = ax_signed (ext t) \<Longrightarrow>
     signed_at_most w c m pid t \<Longrightarrow> signed_at_most w c m pid t'"
  by (simp add: signed_at_most_def)

text \<open>The broadcast: whatever it answers, exactly the one transaction was signed.\<close>

lemma post_broadcast:
  assumes "only_agent_signs A c"
    and "payer_covers (cc_calls c) (fee_payer w c pid) (fee_amount_due f)"
    and "ax_signed (ext t) = ax_signed (ext w)"
    and "\<And>r u. signed_at_most w c m pid u \<Longrightarrow> ax_signed (ext u) \<noteq> ax_signed (ext w) \<Longrightarrow> Q r u"
  shows "post (outcome (broadcastWithoutWaiting c [m] f)) Q E t"
proof -
  have "keeps_log (ch_signAndBroadcastSync (cc_calls c) [m] f)"
    using assms(1) by (simp add: only_agent_signs_def)
  from post_keeps_log [OF post_triv this]
  have "post (ch_signAndBroadcastSync (cc_calls c) [m] f)
      (\<lambda>_ u. ax_signed (ext u) = ax_signed (ext w) @ [([m], f)])
      (\<lambda>_ u. ax_signed (ext u) = ax_signed (ext w) @ [([m], f)])
      (t\<lparr>ext := (ext t)\<lparr>ax_signed := ax_signed (ext t) @ [([m], f)]\<rparr>\<rparr>)"
    by (rule post_mono) (simp_all add: assms(3))
  then show ?thesis
    unfolding broadcastWithoutWaiting_def post_outcome post_sqn post_log_signed
    by (rule post_mono) (auto intro!: assms(4) simp: signed_at_most_def assms(2))
qed

lemma keeps_log_now:
  assumes "only_agent_signs A c"
  shows "ax_signed (ext (after_now (ag_flow A) u)) = ax_signed (ext u)"
proof -
  have "keeps_log (now A)" using assms by (simp add: only_agent_signs_def)
  then show ?thesis
    by (cases "clock_ms (ag_flow A) (ext u)")
      (auto simp: keeps_log_def now_def date_now_def after_now_def split: prod.splits)
qed

lemma post_recordValidation:
  assumes "repo_laws K"
  shows "post (recordValidation K i v (Some s))
    (\<lambda>r t. flows K t i = Some r \<and> state r = s \<and> validation r = Some v \<and> ext t = ext u)
    (\<lambda>_ t. ext t = ext u) u"
  using assms
  by (auto simp: recordValidation_def wp assertRole_def Let_def dest: repo_id split: option.split)

text \<open>
  C7. Submitting a validation hands at most one transaction to the signing client, the one message of
  the recorded terms, and only after the account that pays its fee was seen to hold the amount (and
  the Corporation's allowance to cover it). The flow ends up VALIDATION_TX_SUBMITTED with the hash of
  the transaction or VALIDATION_TX_FAILED with a reason, and the recorded transaction is well-formed.
\<close>

theorem validation_is_signed_once:
  assumes laws: "repo_laws (ag_flow A)" and chain: "ag_chain A = Some c"
    and agent: "only_agent_signs A c"
    and message: "m = setParticipantOPToValidatedMsg c (validated_params_of A entry v)"
  shows "post (submitValidation A i entry v)
    (\<lambda>r t. signed_at_most w c m (pd_validator_participant_id entry) t \<and>
       flows (ag_flow A) t i = Some r \<and>
       (\<exists>tx. validation r = Some (v\<lparr>validation_tx := Some tx\<rparr>) \<and> tx_ok tx \<and>
          (state r = ValidationTxSubmitted \<and> tx_status tx = TxStatus_Submitted \<and>
             ax_signed (ext t) \<noteq> ax_signed (ext w) \<or>
           state r = ValidationTxFailed \<and> tx_status tx = TxStatus_Failed)))
    (\<lambda>_ t. signed_at_most w c m (pd_validator_participant_id entry) t) w"
proof -
  let ?K = "ag_flow A" and ?pid = "pd_validator_participant_id entry"
  let ?S = "\<lambda>t. signed_at_most w c m ?pid t"
  let ?T = "\<lambda>t. ax_signed (ext t) \<noteq> ax_signed (ext w)"
  define Q where "Q = (\<lambda>r t. ?S t \<and> flows ?K t i = Some r \<and>
       (\<exists>tx. validation r = Some (v\<lparr>validation_tx := Some tx\<rparr>) \<and> tx_ok tx \<and>
          (state r = ValidationTxSubmitted \<and> tx_status tx = TxStatus_Submitted \<and> ?T t \<or>
           state r = ValidationTxFailed \<and> tx_status tx = TxStatus_Failed)))"
  have fail: "post (recordValidation ?K i (v\<lparr>validation_tx := Some (failed_tx reason error)\<rparr>)
      (Some ValidationTxFailed)) Q (\<lambda>_. ?S) t" if "?S t" for reason error t
    by (rule post_mono [OF post_recordValidation [OF laws]])
      (use that in \<open>auto simp: Q_def failed_tx_def tx_ok_def intro: signed_at_most_ext\<close>)
  have sent: "post (bnd (now_iso ?K) (\<lambda>at1.
        bnd (recordValidation ?K i (v\<lparr>validation_tx := Some (submitted_tx hash at1)\<rparr>)
               (Some ValidationTxSubmitted)) (\<lambda>submitted.
        sqn (modx (\<lambda>x. x\<lparr>ax_tasks := ax_tasks x @ [i]\<rparr>)) (ret submitted)))) Q (\<lambda>_. ?S) t"
    if "?S t" and "?T t" for hash t
    unfolding post_bnd post_now_iso post_sqn post_modx post_ret
    by (rule post_mono [OF post_recordValidation [OF laws]])
      (use that in \<open>auto simp: Q_def submitted_tx_def tx_ok_def keeps_log_now [OF agent] flows_def
         intro: signed_at_most_ext\<close>)
  have "post (submitValidation A i entry v) Q (\<lambda>_. ?S) w"
    unfolding submitValidation_def requireChain_def chain option.case bnd_ret Let_def
      message [symmetric] post_bnd [of "preflight c m ?pid"]
    by (rule post_preflight [OF agent])
      (auto simp: post_bnd [of "outcome b" for b] intro!: fail post_broadcast [OF agent] sent
        intro: signed_at_most_refl split: sum.split)
  then show ?thesis by (simp add: Q_def)
qed

text \<open>Its run: the agent pays the fee of 5 from the 100 it holds.\<close>

lemma ex_agent_signs: "only_agent_signs (ex_agent ps) ex_client"
  by (simp add: only_agent_signs_def keeps_log_def ex_client_def ex_chain_def now_def date_now_def
      modx_def modify_def ret_def after_now_def)

theorem validation_is_signed_once_witness:
  "post (submitValidation (ex_agent (\<lambda>_. None)) ''f1'' ex_entry (validation_of ''now'' Submission_Agent
       \<lparr> tm_effectiveUntil = None, tm_opSummaryDigest = None, tm_value = \<lambda>_. 0 \<rparr>))
    (\<lambda>r t. length (ax_signed (ext t)) \<le> 1 \<and>
       (state r = ValidationTxSubmitted \<or> state r = ValidationTxFailed))
    (\<lambda>_ t. length (ax_signed (ext t)) \<le> 1) (agent_world [ex_flow Validator OnboardingProcess Validating])"
proof -
  let ?A = "ex_agent (\<lambda>_. None)"
  have laws: "repo_laws (ag_flow ?A)" and chain: "ag_chain ?A = Some ex_client" by simp_all
  show ?thesis
    by (rule post_mono [OF validation_is_signed_once [OF laws chain ex_agent_signs refl]])
      (auto simp: signed_at_most_def)
qed

section \<open>Anchoring\<close>

lemma post_anchor_round:
  assumes "only_agent_signs A c"
  shows "post (anchor_round A c hash at1 u)
    (\<lambda>r t. (\<forall>tx. r = Inl tx \<longrightarrow> tx_ok tx \<and> tx_status tx \<noteq> TxStatus_Submitted) \<and>
       ax_signed (ext t) = ax_signed (ext w))
    (\<lambda>_ t. ax_signed (ext t) = ax_signed (ext w)) w"
proof -
  have "keeps_log (ch_findTx (cc_calls c) hash)" using assms by (simp add: only_agent_signs_def)
  from post_keeps_log [OF post_triv this] show ?thesis
    unfolding anchor_round_def findTx_def now_def post_bnd post_or_undefined
    by (rule post_mono)
      (auto simp: wp anchored_tx_def tx_ok_def keeps_log_now [OF assms] split: option.split)
qed

lemma post_await_anchoring:
  assumes "only_agent_signs A c"
  shows "post (await_anchoring A c hash at1)
    (\<lambda>r t. (\<forall>tx. r = Some tx \<longrightarrow> tx_ok tx \<and> tx_status tx \<noteq> TxStatus_Submitted) \<and>
       ax_signed (ext t) = ax_signed (ext w))
    (\<lambda>_ t. ax_signed (ext t) = ax_signed (ext w)) w"
proof -
  have sleep: "keeps_log (ag_sleep A n)" for n using assms by (simp add: only_agent_signs_def)
  have "post (poll k (anchor_round A c hash at1) (ag_sleep A TX_LOOKUP_INTERVAL_MS) u)
    (\<lambda>r t. (\<forall>tx. r = Some tx \<longrightarrow> tx_ok tx \<and> tx_status tx \<noteq> TxStatus_Submitted) \<and>
       ax_signed (ext t) = ax_signed (ext w))
    (\<lambda>_ t. ax_signed (ext t) = ax_signed (ext w)) w1"
    if "ax_signed (ext w1) = ax_signed (ext w)" for k u w1
    using that
  proof (induction k arbitrary: u w1)
    case (Suc k)
    show ?case
      unfolding poll.simps post_bnd
      by (rule post_mono [OF post_anchor_round [OF assms]])
        (auto simp: wp Suc.prems intro!: post_mono [OF post_keeps_log [OF post_triv sleep]] Suc.IH
          split: sum.split)
  qed (simp add: wp)
  then show ?thesis by (simp add: await_anchoring_def)
qed

text \<open>
  C8. Anchoring a credential never signs twice. A flow whose anchoring transaction is still SUBMITTED,
  such as one taken up after a restart, only has that transaction looked up; any other has at most one
  transaction signed, after the payer of its fee was seen to hold it. What anchoring answers is a
  settled and well-formed transaction: succeeded with its hash and height, or failed with a reason.
\<close>

theorem anchoring_is_signed_once:
  assumes laws: "repo_laws (ag_flow A)" and chain: "ag_chain A = Some c"
    and agent: "only_agent_signs A c"
    and pending: "again \<longleftrightarrow> truthy (Option.bind (pending_anchoring record) tx_hash)"
  shows "post (anchor A record m issuerId)
    (\<lambda>r t. (\<forall>tx. r = Some tx \<longrightarrow> tx_ok tx \<and> tx_status tx \<noteq> TxStatus_Submitted) \<and>
       signed_at_most w c m (Some issuerId) t \<and> (again \<longrightarrow> ax_signed (ext t) = ax_signed (ext w)))
    (\<lambda>_ t. signed_at_most w c m (Some issuerId) t \<and>
       (again \<longrightarrow> ax_signed (ext t) = ax_signed (ext w))) w"
proof -
  let ?S = "\<lambda>t. signed_at_most w c m (Some issuerId) t"
  define Q where "Q = (\<lambda>r t. (\<forall>tx. r = Some tx \<longrightarrow> tx_ok tx \<and> tx_status tx \<noteq> TxStatus_Submitted) \<and>
       ?S t \<and> (again \<longrightarrow> ax_signed (ext t) = ax_signed (ext w)))"
  define E where "E = (\<lambda>(e :: err) t. ?S t \<and> (again \<longrightarrow> ax_signed (ext t) = ax_signed (ext w)))"
  have wait: "post (await_anchoring A c hash at1) Q E t"
    if "?S t" and "again \<longrightarrow> ax_signed (ext t) = ax_signed (ext w)" for hash at1 t
    by (rule post_mono [OF post_await_anchoring [OF agent]])
      (use that in \<open>auto simp: Q_def E_def intro: signed_at_most_ext\<close>)
  have failed: "Q (Some (failed_tx reason error)) t" if "?S t" and "\<not> again" for reason error t
    using that by (simp add: Q_def failed_tx_def tx_ok_def)
  have stored: "post (recordIssuance (ag_flow A) i v) (\<lambda>_ t. ext t = ext u) (\<lambda>_ t. ext t = ext u) u"
    for i v u
    using laws by (auto simp: recordIssuance_def wp assertRole_def Let_def split: option.split)
  have sent: "post (bnd (now_iso (ag_flow A)) (\<lambda>at1. sqn (recordIssuance (ag_flow A) i (v at1))
       (await_anchoring A c hash at1))) Q E t" if "?S t" and "\<not> again" for hash i v t
    unfolding post_bnd post_now_iso post_sqn
    by (rule post_mono [OF stored], rule wait)
      (use that in \<open>auto simp: E_def keeps_log_now [OF agent] intro: signed_at_most_ext\<close>)
  have payer: "fee_payer t c pid = fee_payer w c pid" if "ax_auth (ext t) = ax_auth (ext w)" for t pid
    using that by (simp add: fee_payer_def)
  have new: "post (bnd (preflight c m (Some issuerId)) (\<lambda>checked. case checked of
        Stopped reason error \<Rightarrow> ret (Some (failed_tx reason error))
      | Fee f \<Rightarrow> bnd (outcome (broadcastWithoutWaiting c [m] f)) (\<lambda>sent1. case sent1 of
            Inl error \<Rightarrow> ret (Some (failed_tx BroadcastError (error_message error)))
          | Inr hash \<Rightarrow> bnd (now_iso (ag_flow A)) (\<lambda>at1.
              sqn (recordIssuance (ag_flow A) i (v hash at1)) (await_anchoring A c hash at1))))) Q E u"
    if "\<not> again" and "ax_signed (ext u) = ax_signed (ext w)" and "ax_auth (ext u) = ax_auth (ext w)"
    for i v u
    unfolding post_bnd [of "preflight c m (Some issuerId)"]
    by (rule post_preflight [OF agent])
      (auto simp: post_bnd [of "outcome b" for b] post_ret that payer [OF that(3)]
        intro!: failed post_broadcast [OF agent] sent intro: signed_at_most_refl split: sum.split)
  have "ax_auth (ext (after_now (ag_flow A) w)) = ax_auth (ext w)"
    using agent by (simp add: only_agent_signs_def)
  then have "post (anchor A record m issuerId) Q E w"
    unfolding anchor_def requireChain_def chain option.case bnd_ret Let_def pending [symmetric]
    by (auto simp: post_bnd [of "case x of None \<Rightarrow> a | Some t \<Rightarrow> b t" for x a b] post_now_iso post_ret
        keeps_log_now [OF agent] pending intro!: wait new signed_at_most_refl split: option.split)
  then show ?thesis by (simp add: Q_def E_def)
qed

text \<open>An anchoring taken up again: nothing is signed.\<close>

definition ex_anchoring_flow :: vt_flow_record where
  "ex_anchoring_flow = (ex_flow Validator OnboardingProcess CredOffered)
     \<lparr>issuance := Some \<lparr> issuance_tx = Some (submitted_tx ''hash'' ''1970'') \<rparr>\<rparr>"

theorem anchoring_is_signed_once_witness:
  "post (anchor (ex_agent (\<lambda>_. None)) ex_anchoring_flow
       (setParticipantOPToValidatedMsg ex_client (validated_params_of (ex_agent (\<lambda>_. None)) ex_entry
          (validation_of ''now'' Submission_Agent
             \<lparr> tm_effectiveUntil = None, tm_opSummaryDigest = None, tm_value = \<lambda>_. 0 \<rparr>))) 5)
    (\<lambda>r t. ax_signed (ext t) = []) (\<lambda>_ t. ax_signed (ext t) = []) (agent_world [ex_anchoring_flow])"
proof -
  let ?A = "ex_agent (\<lambda>_. None)"
  have laws: "repo_laws (ag_flow ?A)" and chain: "ag_chain ?A = Some ex_client" by simp_all
  have "truthy (Option.bind (pending_anchoring ex_anchoring_flow) tx_hash)"
    by (simp add: pending_anchoring_def anchoring_status_def ex_anchoring_flow_def submitted_tx_def)
  then show ?thesis
    by (intro post_mono [OF anchoring_is_signed_once [OF laws chain ex_agent_signs refl]]) simp_all
qed

section \<open>Accepting a credential\<close>

lemma post_found_answers:
  assumes "\<And>x t. answers m (Some x) \<Longrightarrow> Q x t" and "\<And>e t. E e t"
  shows "post (found url m) Q E w"
  unfolding found_def post_bnd
  by (rule post_answers) (auto simp: wp assms split: option.split)

text \<open>What the applicant was shown when it accepts a credential of the flow \<open>record\<close>.\<close>

definition credential_checked :: "('st, 'y) agent \<Rightarrow> vt_flow_record \<Rightarrow> bool" where
  "credential_checked A record \<longleftrightarrow>
     (\<exists>session issuerId issuer credential schema digest anchored.
        answers (ix_session A (participantSessionId record)) (Some session) \<and>
        session_issuer session = Some issuerId \<and>
        answers (ix_participant A (int_str issuerId)) (Some issuer) \<and>
        pd_role issuer = participant_role_str PR_Issuer \<and>
        pd_participant_state issuer = Some participant_state_active \<and>
        (\<exists>e. credentialExchangeRecordId record = Some e \<and> answers (dc_getFormatData A e) (Some credential)) \<and>
        isVcdm2Credential credential \<and>
        credential_part credential ''credentialSubject'' ''id'' = map_option JStr (ag_did A) \<and>
        map_option before_hash (as_string (credential_part credential ''proof'' ''verificationMethod'')) =
          pd_did issuer \<and>
        answers (ix_schema A (int_str (pd_schema_id issuer))) (Some schema) \<and>
        ag_digestJCS A credential (sd_digest_algorithm schema) = Inr digest \<and>
        answers (ix_digest A digest) (Some anchored))"

lemma format_ensures:
  "post (assertFlowCredentialFormat A credential issuer)
    (\<lambda>_ _. isVcdm2Credential credential \<and>
       credential_part credential ''credentialSubject'' ''id'' = map_option JStr (ag_did A) \<and>
       map_option before_hash (as_string (credential_part credential ''proof'' ''verificationMethod'')) =
         pd_did issuer) (\<lambda>_ _. True) w"
  unfolding assertFlowCredentialFormat_def Let_def post_sqn post_guard
  by (auto intro: post_mono [OF post_triv])

lemma issuer_ensures:
  "post (assertIssuer record issuerId issuer)
    (\<lambda>_ _. pd_role issuer = participant_role_str PR_Issuer \<and>
       pd_participant_state issuer = Some participant_state_active) (\<lambda>_ _. True) w"
  by (auto simp: assertIssuer_def Let_def wp)

lemma schema_ensures:
  "post (credentialSchema A sid)
    (\<lambda>(algorithm, k) _. \<exists>schema. answers (ix_schema A (int_str sid)) (Some schema) \<and>
       algorithm = sd_digest_algorithm schema) (\<lambda>_ _. True) w"
  unfolding credentialSchema_def getCredentialSchema_def post_bnd
  by (rule post_found_answers) (auto simp: wp)

lemma received_ensures:
  "post (getReceivedCredentialJson A e) (\<lambda>c _. answers (dc_getFormatData A e) (Some c))
    (\<lambda>_ _. True) w"
  unfolding getReceivedCredentialJson_def post_bnd
  by (rule post_answers) (auto simp: wp split: option.split)

lemma digest_ensures:
  assumes "\<And>digest anchored. ag_digestJCS A credential algorithm = Inr digest \<Longrightarrow>
      answers (ix_digest A digest) (Some anchored) \<Longrightarrow> G"
  shows "post (bnd (raise (\<lambda>_. ag_digestJCS A credential algorithm)) (\<lambda>digest.
      bnd (ix_digest A digest) (\<lambda>anchored.
      sqn (guard (anchored \<noteq> None) (e digest)) m))) (\<lambda>_ _. G) (\<lambda>_ _. True) w"
proof -
  have "post (bnd (ix_digest A digest) (\<lambda>anchored. sqn (guard (anchored \<noteq> None) (e digest)) m))
      (\<lambda>_ _. G) (\<lambda>_ _. True) w" if "ag_digestJCS A credential algorithm = Inr digest" for digest
    unfolding post_bnd post_sqn post_guard
    by (rule post_answers) (auto intro: post_mono [OF post_triv] assms [OF that])
  then show ?thesis by (simp add: post_bnd [of "raise f" for f] post_raise split: sum.split)
qed

lemma verified_ensures:
  assumes "flows (ag_flow A) w i = Some record"
  shows "post (verifyOfferedCredential A i) (\<lambda>_ _. credential_checked A record) (\<lambda>_ _. True) w"
proof -
  have checks: "post (bnd (getParticipant A (int_str issuerId)) (\<lambda>issuer.
      sqn (assertIssuer record issuerId issuer)
     (bnd (getReceivedCredentialJson A e) (\<lambda>credential.
      sqn (assertFlowCredentialFormat A credential issuer)
     (bnd (credentialSchema A (pd_schema_id issuer)) (\<lambda>(algorithm, ecsKey).
      bnd (raise (\<lambda>_. ag_digestJCS A credential algorithm)) (\<lambda>digest.
      bnd (ix_digest A digest) (\<lambda>anchored.
      sqn (guard (anchored \<noteq> None) (m digest)) (k ecsKey))))))))) 
      (\<lambda>_ _. credential_checked A record) (\<lambda>_ _. True) t"
    if session: "answers (ix_session A (participantSessionId record)) (Some s)"
      "session_issuer s = Some issuerId"
      and exch: "credentialExchangeRecordId record = Some e" for s issuerId e m k t
    unfolding getParticipant_def post_bnd [of "found x y" for x y]
  proof (rule post_found_answers, goal_cases)
    case (1 issuer t)
    note issuer = this
    show ?case
      unfolding post_sqn [of "assertIssuer x y z" for x y z]
    proof (rule post_mono [OF issuer_ensures], goal_cases)
      case (1 u t)
      note role = this
      show ?case
        unfolding post_bnd [of "getReceivedCredentialJson A x" for x]
      proof (rule post_mono [OF received_ensures], goal_cases)
        case (1 credential t)
        note received = this
        show ?case
          unfolding post_sqn [of "assertFlowCredentialFormat x y z" for x y z]
        proof (rule post_mono [OF format_ensures], goal_cases)
          case (1 u t)
          note format = this
          show ?case
            unfolding post_bnd [of "credentialSchema A x" for x]
          proof (rule post_mono [OF schema_ensures], goal_cases)
            case (1 p t)
            then obtain schema ecsKey where p: "p = (sd_digest_algorithm schema, ecsKey)"
              "answers (ix_schema A (int_str (pd_schema_id issuer))) (Some schema)"
              by (cases p) auto
            show ?case
              unfolding p(1) prod.case
              by (rule digest_ensures)
                (unfold credential_checked_def,
                 use session exch issuer role received format p(2) in blast)
          qed simp
        qed simp
      qed simp
    qed simp
  qed simp
  have from_session: "post (bnd (ix_session A (participantSessionId record)) (\<lambda>session. case session of
        None \<Rightarrow> throw e1
      | Some s \<Rightarrow> (case session_issuer s of None \<Rightarrow> throw e2 | Some issuerId \<Rightarrow> f issuerId)))
      (\<lambda>_ _. credential_checked A record) (\<lambda>_ _. True) t"
    if "\<And>s issuerId t. answers (ix_session A (participantSessionId record)) (Some s) \<Longrightarrow>
      session_issuer s = Some issuerId \<Longrightarrow>
      post (f issuerId) (\<lambda>_ _. credential_checked A record) (\<lambda>_ _. True) t" for e1 e2 f t
    unfolding post_bnd
    by (rule post_answers) (auto simp: post_throw that split: option.split)
  show ?thesis
  proof (cases "role record = Applicant \<and> truthy (credentialExchangeRecordId record)")
    case True
    then obtain e where e: "credentialExchangeRecordId record = Some e"
      by (cases "credentialExchangeRecordId record") auto
    show ?thesis
      unfolding verifyOfferedCredential_def post_bnd [of "findRecord A x" for x] post_findRecord assms
        option.case post_sqn [of "guard b x" for b x] post_guard e option.sel
      using True e by (auto intro!: from_session checks)
  next
    case False
    then show ?thesis
      unfolding verifyOfferedCredential_def post_bnd [of "findRecord A x" for x] post_findRecord assms
        option.case post_sqn [of "guard b x" for b x] post_guard
      by auto
  qed
qed

text \<open>
  C5. A credential is accepted only after it was checked against the chain: the participant session of the
  flow names an issuer, the indexer shows that issuer as an ACTIVE one, the credential is a data model 2.0
  credential about this agent, proven by a verification method of that issuer, and the digest of exactly
  that credential is anchored. A check that fails or does not answer makes the acceptance throw.
\<close>

theorem accepted_credential_was_checked:
  assumes "acceptCredential A i w = (Inr r, w')"
  shows "\<exists>record. flows (ag_flow A) w i = Some record \<and> role record = Applicant \<and>
    state record = CredOffered \<and> credential_checked A record"
proof -
  have "post (acceptCredential A i) (\<lambda>_ _. \<exists>record. flows (ag_flow A) w i = Some record \<and>
      role record = Applicant \<and> state record = CredOffered \<and> credential_checked A record)
      (\<lambda>_ _. True) w"
    unfolding acceptCredential_def post_bnd post_findRecord post_sqn
    by (auto simp: post_guard split: option.split
        intro!: post_mono [OF verified_ensures] intro: post_mono [OF post_triv])
  with assms show ?thesis by (simp add: post_returns)
qed

text \<open>A run that accepts: every check of the example is answered.\<close>

definition ex_credential :: json where
  "ex_credential = JObj
     [(''@context'', JArr [JStr CREDENTIALS_CONTEXT_V2_URL]),
      (''credentialSubject'', JObj [(''id'', JStr ''did:us'')]),
      (''credentialSchema'', JObj [(''id'', JStr ''jsc'')]),
      (''proof'', JObj [(''verificationMethod'', JStr ''did:val#key'')])]"

definition ex_accepting :: "(mem_store, mem_ext) agent" where
  "ex_accepting = (ex_agent (\<lambda>_. Some (ex_entry\<lparr>pd_role := ''ISSUER'', pd_did := Some ''did:val''\<rparr>)))
     \<lparr>ix_session := \<lambda>_. ret (Some \<lparr> ss_id = ''s1'', ss_session_records = Some [Some 7] \<rparr>),
      ix_schema := \<lambda>_. ret (Some
        \<lparr> sd_id = 3, sd_ecosystem_id = 4, sd_json_schema = [], sd_digest_algorithm = ''sha384'',
          sd_issuer_onboarding_mode = None, sd_verifier_onboarding_mode = None,
          sd_holder_validation_validity_period = None, sd_archived = None \<rparr>),
      ix_ecosystem := \<lambda>_. ret (Some \<lparr> ed_id = 4, ed_did = Some ''did:eco'', ed_archived = None \<rparr>),
      di_createdVtjscs := \<lambda>_. ret (Some [(''vpr:verana:vna:cs:3'',
        \<lparr> ve_credentialId = None, ve_presentationId = None, ve_firstCredentialId = Some ''jsc'',
          ve_attached = None \<rparr>)]),
      dc_getFormatData := \<lambda>_. ret (Some ex_credential), ix_digest := \<lambda>_. ret (Some ''block'')\<rparr>"

lemma ex_credential_parts:
  "isVcdm2Credential ex_credential"
  "credential_part ex_credential ''credentialSubject'' ''id'' = Some (JStr ''did:us'')"
  "credential_part ex_credential ''credentialSchema'' ''id'' = Some (JStr ''jsc'')"
  "credential_part ex_credential ''proof'' ''verificationMethod'' = Some (JStr ''did:val#key'')"
  by code_simp+

lemma ex_accepting_runs:
  "post (acceptCredential ex_accepting ''f1'') (\<lambda>_ _. True) (\<lambda>_ _. False)
    (agent_world [(ex_flow Applicant OnboardingProcess CredOffered)\<lparr>credentialExchangeRecordId := Some ''e''\<rparr>])"
proof -
  have three: "int_str 3 = ''3''" by code_simp
  have parsed: "JSON_parse [] = None" by code_simp
  have flow: "schemaId (ex_flow Applicant OnboardingProcess CredOffered) = None"
    by (simp add: ex_flow_def newVtFlowRecord_def)
  have calls: "ag_digestJCS (ex_agent ps) j s = Inr s"
    "creds_acceptCredential (agent_env cfg) x = ret ()" for ps j s cfg x
    by (simp_all add: ex_agent_def agent_env_def Let_def)
  show ?thesis
    by (simp add: acceptCredential_def verifyOfferedCredential_def wp ex_accepting_def mem_find_def
        session_issuer_def getParticipant_def found_def assertIssuer_def Let_def ex_entry_def
        participant_state_active_def getReceivedCredentialJson_def assertFlowCredentialFormat_def
        ex_credential_parts before_hash_def flow calls
        resolveJsonSchemaCredentialId_def getCredentialSchema_def getEcosystem_def three parsed
        localVtjscId_def ex_client_def credentialSchema_def classifyEcsSchema_def
        acceptReceivedCredential_def assertRole_def)
qed

theorem accepted_credential_was_checked_witness:
  "\<exists>r w'. acceptCredential ex_accepting ''f1'' (agent_world
       [(ex_flow Applicant OnboardingProcess CredOffered)\<lparr>credentialExchangeRecordId := Some ''e''\<rparr>]) =
       (Inr r, w') \<and> (\<exists>record. credential_checked ex_accepting record)"
proof -
  obtain r w' where "acceptCredential ex_accepting ''f1'' (agent_world
       [(ex_flow Applicant OnboardingProcess CredOffered)\<lparr>credentialExchangeRecordId := Some ''e''\<rparr>]) =
       (Inr r, w')"
    using ex_accepting_runs by (auto simp: post_def split: prod.splits sum.splits)
  with accepted_credential_was_checked [OF this] show ?thesis by blast
qed

end
