(* ===== verification/OrchestratorProps.thy ===== *)
theory OrchestratorProps
  imports ValidationProps
begin

text \<open>
  Properties of single methods of the orchestrator: the check of a participant, the start of an onboarding
  process, and what the authorization cache lets the agent sign.
\<close>

section \<open>The check of a participant\<close>

text \<open>
  C23. \<open>checkParticipantId\<close> tells a validation of this round from one of an earlier round by its first read: an
  entry that was VALIDATED then does not settle the new request. A first read that fails counts as "not
  VALIDATED", so the next read of the very same entry moves the flow to VALIDATED although nobody
  validated this request.
\<close>

theorem unread_entry_settles_old_round:
  assumes laws: "repo_laws (ag_flow A)"
    and reads: "\<And>j. ix_participant A j = ret (ps j)"
    and flow: "flows (ag_flow A) w (rec_id r) = Some r" "state r = AwaitingOr" "role r = Validator"
    and entry: "applicantParticipantId r = Some p" "p \<noteq> []" "ps p = Some e" "entry_validated e"
      "\<not> truthy (pd_revoked e)" "\<not> truthy (pd_slashed e)" "cpt_role (toParticipant e) \<noteq> HOLDER_PARTICIPANT_TYPE"
      "num_str (js_parse_number p) = p"
    and ours: "pd_validator_participant_id e = Some vid" "ps (int_str vid) = Some v" "pd_did v = ag_did A"
    and idle: "rec_id r \<notin> ax_marking (ext w)" "ax_continuing (ext w) = (\<lambda>_. None)"
    and early: "clock A w < d"
  shows "post (participant_round (A\<lparr>ix_participant := \<lambda>_. throw x\<rparr>) r d None)
      (\<lambda>y w'. y = Inr (Some False) \<and> flows (ag_flow A) w' = flows (ag_flow A) w) (\<lambda>_ _. False) w \<and>
    post (participant_round A r d (Some False))
      (\<lambda>y w'. y = Inl CheckValidated \<and>
         map_option state (flows (ag_flow A) w' (rec_id r)) = Some Validated) (\<lambda>_ _. False) w \<and>
    post (participant_round A r d None)
      (\<lambda>y w'. y = Inr (Some True) \<and> flows (ag_flow A) w' = flows (ag_flow A) w) (\<lambda>_ _. False) w"
proof (intro conjI)
  have time: "clock A w = now_ms (ag_flow A) w" by (simp add: clock_def now_ms_def)
  show "post (participant_round (A\<lparr>ix_participant := \<lambda>_. throw x\<rparr>) r d None)
      (\<lambda>y w'. y = Inr (Some False) \<and> flows (ag_flow A) w' = flows (ag_flow A) w) (\<lambda>_ _. False) w"
    using early
    by (simp add: participant_round_def getParticipant_def found_def now_def wp time)
  show "post (participant_round A r d None)
      (\<lambda>y w'. y = Inr (Some True) \<and> flows (ag_flow A) w' = flows (ag_flow A) w) (\<lambda>_ _. False) w"
    using assms
    by (simp add: participant_round_def getParticipant_def found_def now_def wp time entry_validated_def
        has_moved_on_def)
  show "post (participant_round A r d (Some False))
      (\<lambda>y w'. y = Inl CheckValidated \<and>
         map_option state (flows (ag_flow A) w' (rec_id r)) = Some Validated) (\<lambda>_ _. False) w"
    using assms
    by (simp add: participant_round_def getParticipant_def found_def now_def wp entry_validated_def
        has_moved_on_def orch_markValidated_def VtFlowValidatedFromStates_def recordValidation_def
        assertRole_def Let_def continueAfterValidated_def issuanceAfterValidated_def findParticipant_def)
qed

definition ex_old_round :: "string \<rightharpoonup> participant_dto" where
  "ex_old_round = [''7'' \<mapsto> ex_entry\<lparr>pd_role := ''ISSUER''\<rparr>, ''1'' \<mapsto> ex_entry\<lparr>pd_id := 1\<rparr>]"

theorem unread_entry_settles_old_round_witness:
  "post (participant_round (ex_agent ex_old_round) (ex_flow Validator OnboardingProcess AwaitingOr) 60000
       (Some False))
     (\<lambda>y w'. map_option state (flows (agent_env agent_options) w' ''f1'') = Some Validated)
     (\<lambda>_ _. False) (agent_world [ex_flow Validator OnboardingProcess AwaitingOr])"
proof -
  let ?A = "ex_agent ex_old_round"
  have ids: "num_str (js_parse_number ''7'') = ''7''" "int_str 1 = ''1''" by code_simp+
  have idle: "ax_continuing (ext (agent_world rs)) = (\<lambda>_. None)" for rs by (simp add: agent_world_def)
  have role: "cpt_role (toParticipant (ex_entry\<lparr>pd_role := ''ISSUER''\<rparr>)) \<noteq> HOLDER_PARTICIPANT_TYPE"
    by code_simp
  have "post (participant_round ?A (ex_flow Validator OnboardingProcess AwaitingOr) 60000 (Some False))
      (\<lambda>y w'. y = Inl CheckValidated \<and> map_option state (flows (ag_flow ?A) w'
         (rec_id (ex_flow Validator OnboardingProcess AwaitingOr))) = Some Validated)
      (\<lambda>_ _. False) (agent_world [ex_flow Validator OnboardingProcess AwaitingOr])"
    using unread_entry_settles_old_round [where A = ?A and ps = ex_old_round
        and w = "agent_world [ex_flow Validator OnboardingProcess AwaitingOr]" and p = "''7''"
        and r = "ex_flow Validator OnboardingProcess AwaitingOr" and vid = 1
        and e = "ex_entry\<lparr>pd_role := ''ISSUER''\<rparr>" and v = "ex_entry\<lparr>pd_id := 1\<rparr>" and d = 60000] ids role idle
    by (simp add: mem_find_def ex_old_round_def ex_entry_def entry_validated_def clock_def)
  then show ?thesis by (rule post_mono) simp_all
qed

section \<open>What the agent may sign\<close>

text \<open>The records of a delegation page for one participant, inside the configured Corporation, in page order.\<close>

definition grants_for :: "auth_service \<Rightarrow> vs_authorization list \<Rightarrow> int \<Rightarrow> cached_record list" where
  "grants_for S vsoas i = concat (map (\<lambda>v.
     if inScope S (va_corporationId v)
     then map (cache_record v) (filter (\<lambda>r. vr_participantId r = i) (va_records v)) else []) vsoas)"

text \<open>A later record of a participant replaces an earlier one.\<close>

definition effective_grant :: "auth_service \<Rightarrow> vs_authorization list \<Rightarrow> int \<Rightarrow> cached_record option" where
  "effective_grant S vsoas i = (if grants_for S vsoas i = [] then None else Some (last (grants_for S vsoas i)))"

lemma find_rev: "find P (rev xs) = (if filter P xs = [] then None else Some (last (filter P xs)))"
  by (induction xs rule: rev_induct) auto

lemma cached_grant: "map_of (rebuilt_cache S vsoas) i = effective_grant S vsoas i"
proof (induction vsoas rule: rev_induct)
  case Nil
  then show ?case by (simp add: rebuilt_cache_def effective_grant_def grants_for_def)
next
  case (snoc v vsoas)
  have "rebuilt_cache S (vsoas @ [v]) = cache_page S v (rebuilt_cache S vsoas)"
    by (simp add: rebuilt_cache_def cache_page_def)
  with snoc show ?case
    by (simp add: cache_page_def map_of_fold_cache find_rev effective_grant_def grants_for_def last_map)
qed

text \<open>
  C20. What the agent may sign is exactly what the chain granted it at the last refresh. \<open>canSign\<close> holds if and
  only if the effective grant of the participant, the last record of the page for it inside the configured
  Corporation, lists the message type and the participant is active at that moment; the Corporation pays the
  fee if and only if that grant carries the fee grant, and otherwise the agent pays. Once the chain reports a
  participant revoked, nothing can be signed for it and its fees are the agent's, until the next refresh; the
  other participants keep their grants.
\<close>

theorem signing_follows_grants:
  "(canSign dateTime time (refreshed S vsoas minBlock t) p msgType \<longleftrightarrow>
      isActiveParticipant dateTime time p \<and>
      (case effective_grant S vsoas (pd_id p) of None \<Rightarrow> False | Some g \<Rightarrow> msgType \<in> set (vr_msgTypes g))) \<and>
   feeGranterFor corporation (Some (refreshed S vsoas minBlock t)) (Some i) =
     (case effective_grant S vsoas i of
        None \<Rightarrow> None | Some g \<Rightarrow> if vr_withFeegrant g then corporation else None) \<and>
   (canSign dateTime time (invalidateParticipant j (refreshed S vsoas minBlock t)) p msgType \<longleftrightarrow>
      pd_id p \<noteq> j \<and> canSign dateTime time (refreshed S vsoas minBlock t) p msgType) \<and>
   feeGranterFor corporation (Some (invalidateParticipant j (refreshed S vsoas minBlock t))) (Some i) =
     (if i = j then None else feeGranterFor corporation (Some (refreshed S vsoas minBlock t)) (Some i))"
proof (intro conjI)
  have cache: "map_of (au_vsoaByParticipant (refreshed S vsoas minBlock t)) k = effective_grant S vsoas k" for k
    by (simp add: refreshed_def cached_grant)
  show "canSign dateTime time (refreshed S vsoas minBlock t) p msgType \<longleftrightarrow>
      isActiveParticipant dateTime time p \<and>
      (case effective_grant S vsoas (pd_id p) of None \<Rightarrow> False | Some g \<Rightarrow> msgType \<in> set (vr_msgTypes g))"
    by (auto simp: canSign_def cache split: option.split)
  show "feeGranterFor corporation (Some (refreshed S vsoas minBlock t)) (Some i) =
     (case effective_grant S vsoas i of
        None \<Rightarrow> None | Some g \<Rightarrow> if vr_withFeegrant g then corporation else None)"
    by (auto simp: feeGranterFor_def getVsOperatorAuthorizationRecord_def cache split: option.split)
  show "canSign dateTime time (invalidateParticipant j (refreshed S vsoas minBlock t)) p msgType \<longleftrightarrow>
      pd_id p \<noteq> j \<and> canSign dateTime time (refreshed S vsoas minBlock t) p msgType"
    by (auto simp: canSign_def invalidateParticipant_def)
  show "feeGranterFor corporation (Some (invalidateParticipant j (refreshed S vsoas minBlock t))) (Some i) =
     (if i = j then None else feeGranterFor corporation (Some (refreshed S vsoas minBlock t)) (Some i))"
    by (auto simp: feeGranterFor_def getVsOperatorAuthorizationRecord_def invalidateParticipant_def split: option.split)
qed

text \<open>One record of participant 7 for one message type, inside the agent's Corporation.\<close>

theorem signing_follows_grants_witness:
  "\<exists>S'. S' = refreshed (new_auth_service (Some 2) None)
       [\<lparr> va_id = 1, va_corporationId = 2, va_vsOperator = ''addr'', va_records =
          [\<lparr> vr_participantId = 7, vr_msgTypes = [''m''], vr_withFeegrant = True, vr_expiration = None,
             vr_period = None \<rparr>] \<rparr>] None 0 \<and>
     canSign (\<lambda>_. Some 0) 5 S' (ex_entry\<lparr>pd_effective_from := Some ''then''\<rparr>) ''m'' \<and>
     \<not> canSign (\<lambda>_. Some 0) 5 S' (ex_entry\<lparr>pd_effective_from := Some ''then''\<rparr>) ''other'' \<and>
     feeGranterFor (Some ''corp'') (Some S') (Some 7) = Some ''corp'' \<and>
     \<not> canSign (\<lambda>_. Some 0) 5 (invalidateParticipant 7 S') (ex_entry\<lparr>pd_effective_from := Some ''then''\<rparr>) ''m''"
  by (simp add: signing_follows_grants effective_grant_def grants_for_def inScope_def new_auth_service_def
      cache_record_def ex_entry_def isActiveParticipant_def)

end
