(* ===== verification/Cursors.thy ===== *)
theory Cursors
  imports EcsSchemas AgentEnv
begin

text \<open>
  The cursor of a page of the admin API (\<open>agent-sdk/src/adminApi/pagination/cursor.ts\<close>): the base64url
  form of a JSON payload, bound to the method and the filters that minted it.

  A string is its UTF-8 bytes, so \<open>Buffer.from(text)\<close> is the text. \<open>H\<close> is the hexadecimal form of a
  SHA-256 digest and \<open>L\<close> is \<open>localeCompare\<close>, both from the platform.
\<close>

section \<open>base64url\<close>

fun to_sextets :: "nat list \<Rightarrow> nat list" where
  "to_sextets (a # b # c # r) =
     (let n = (a * 256 + b) * 256 + c
      in n div 262144 # n div 4096 mod 64 # n div 64 mod 64 # n mod 64 # to_sextets r)"
| "to_sextets [a, b] = (let n = a * 256 + b in [n div 1024, n div 16 mod 64, n mod 16 * 4])"
| "to_sextets [a] = [a div 4, a mod 4 * 16]"
| "to_sextets [] = []"

fun from_sextets :: "nat list \<Rightarrow> nat list" where
  "from_sextets (w # x # y # z # r) =
     (let n = ((w * 64 + x) * 64 + y) * 64 + z
      in n div 65536 # n div 256 mod 256 # n mod 256 # from_sextets r)"
| "from_sextets [w, x, y] = (let n = (w * 64 + x) * 64 + y in [n div 1024, n div 4 mod 256])"
| "from_sextets [w, x] = [(w * 64 + x) div 16]"
| "from_sextets [w] = []"
| "from_sextets [] = []"

definition sextet_char :: "nat \<Rightarrow> char" where
  "sextet_char n = char_of
     (if n < 26 then 65 + n else if n < 52 then 71 + n else if n < 62 then n - 4
      else if n = 62 then 45 else 95)"

text \<open>The decoder reads both alphabets and skips every other character.\<close>

definition char_sextet :: "char \<Rightarrow> nat option" where
  "char_sextet c =
     (let n = of_char c :: nat
      in if 65 \<le> n \<and> n \<le> 90 then Some (n - 65)
         else if 97 \<le> n \<and> n \<le> 122 then Some (n - 71)
         else if 48 \<le> n \<and> n \<le> 57 then Some (n + 4)
         else if n = 45 \<or> n = 43 then Some 62
         else if n = 95 \<or> n = 47 then Some 63
         else None)"

definition base64url_encode :: "string \<Rightarrow> string" where
  "base64url_encode s = map sextet_char (to_sextets (map of_char s))"

definition base64url_decode :: "string \<Rightarrow> string" where
  "base64url_decode t = map char_of (from_sextets (List.map_filter char_sextet t))"

lemma four_sextets: "((n div 262144 * 64 + n div 4096 mod 64) * 64 + n div 64 mod 64) * 64 + n mod 64 = (n :: nat)"
proof -
  have "n div 4096 = n div 64 div 64" "n div 262144 = n div 64 div 64 div 64"
    by (simp_all add: div_mult2_eq [symmetric])
  then show ?thesis by (simp only: div_mult_mod_eq)
qed

lemma three_bytes:
  assumes "b < 256" and "c < 256"
  shows "((a * 256 + b) * 256 + c) div 65536 = a" "((a * 256 + b) * 256 + c) div 256 mod 256 = b"
    "((a * 256 + b) * 256 + c) mod 256 = (c :: nat)"
proof -
  have step: "(m * 256 + k) div 256 = m" "(m * 256 + k) mod 256 = k" if "k < 256" for m k :: nat
    using that by simp_all
  have "m div 65536 = m div 256 div 256" for m :: nat by (simp add: div_mult2_eq [symmetric])
  then show "((a * 256 + b) * 256 + c) div 65536 = a" "((a * 256 + b) * 256 + c) div 256 mod 256 = b"
    "((a * 256 + b) * 256 + c) mod 256 = c"
    by (simp_all only: step [OF assms(1)] step [OF assms(2)])
qed

lemma sextets_roundtrip: "list_all (\<lambda>b. b < 256) bs \<Longrightarrow> from_sextets (to_sextets bs) = bs"
proof (induction bs rule: to_sextets.induct)
  case (1 a b c r)
  then have "b < 256" "c < 256" "from_sextets (to_sextets r) = r" by simp_all
  then show ?case
    by (simp only: to_sextets.simps from_sextets.simps Let_def four_sextets three_bytes)
next
  case (2 a b)
  define n where "n = a * 256 + b"
  have "n div 1024 = n div 16 div 64" by (simp add: div_mult2_eq [symmetric])
  then have "n div 1024 * 64 + n div 16 mod 64 = n div 16" by (simp only: div_mult_mod_eq)
  moreover have "n div 16 * 64 + n mod 16 * 4 = n * 4" by presburger
  moreover have "n * 4 div 1024 = n div 256" "n * 4 div 4 = n" by (simp_all add: div_mult2_eq)
  moreover have "n div 256 = a" "n mod 256 = b" using 2 by (simp_all add: n_def)
  ultimately show ?case by (simp add: Let_def n_def [symmetric])
next
  case (3 a)
  have "a div 4 * 64 + a mod 4 * 16 = a * 16" by presburger
  then show ?case by simp
qed simp

lemma sextets_bound: "list_all (\<lambda>b. b < 256) bs \<Longrightarrow> list_all (\<lambda>n. n < 64) (to_sextets bs)"
  by (induction bs rule: to_sextets.induct) (auto simp: Let_def div_less_iff_less_mult)

lemma char_sextet_char: "n < 64 \<Longrightarrow> char_sextet (sextet_char n) = Some n"
  by (auto simp: char_sextet_def sextet_char_def Let_def)

lemma base64url_roundtrip: "base64url_decode (base64url_encode s) = s"
proof -
  let ?ns = "to_sextets (map of_char s)"
  have bytes: "list_all (\<lambda>b. b < (256 :: nat)) (map of_char s)"
    by (simp add: list_all_iff)
  have "List.map_filter char_sextet (map sextet_char ns) = ns" if "list_all (\<lambda>n. n < 64) ns" for ns
    using that by (induction ns) (simp_all add: List.map_filter_simps char_sextet_char)
  from this [OF sextets_bound [OF bytes]] show ?thesis
    by (simp add: base64url_decode_def base64url_encode_def sextets_roundtrip [OF bytes] comp_def)
qed

section \<open>\<open>JSON.stringify\<close>\<close>

function JSON_stringify :: "json \<Rightarrow> string" where
  "JSON_stringify JNull = ''null''"
| "JSON_stringify (JBool b) = (if b then ''true'' else ''false'')"
| "JSON_stringify (JNum q) = rat_str q"
| "JSON_stringify (JStr s) = json_quote s"
| "JSON_stringify (JArr xs) = ''['' @ join_with '','' (map JSON_stringify xs) @ '']''"
| "JSON_stringify (JObj ps) =
     ''{'' @ join_with '','' (map (\<lambda>p. json_quote (fst p) @ '':'' @ JSON_stringify (snd p)) ps) @ ''}''"
  by pat_completeness auto

termination JSON_stringify
  by (relation "measure size") (auto simp: less_Suc_eq_le size_list_estimation' dest!: size_member)

lemma hex_value: "n < 16 \<Longrightarrow> digit_of 16 (hex_digit n) = Some n"
  by (auto simp: digit_of_def hex_digit_def Let_def)

lemma json_string_plain:
  assumes "32 \<le> (of_char c :: nat)" and "of_char c \<noteq> (34 :: nat)" and "of_char c \<noteq> (92 :: nat)"
  shows "json_string (c # s) = map_option (\<lambda>(t, r). (c # t, r)) (json_string s)"
  using assms by (subst json_string.simps) (simp only: Let_def if_False not_less [symmetric] simp_thms if_True)

lemma json_string_short:
  assumes "map_of [(34, 34), (92, 92), (47, 47), (98, 8), (102, 12), (110, 10), (114, 13), (116, 9)]
    (of_char e :: nat) = Some (k :: nat)"
  shows "json_string (CHR 0x5C # e # s) = map_option (\<lambda>(t, r). (char_of k # t, r)) (json_string s)"
proof -
  have "of_char (CHR 0x5C) = (92 :: nat)" by simp
  then show ?thesis
    by (subst json_string.simps) (simp only: Let_def assms option.case list.case, simp)
qed

lemma json_string_hex:
  assumes "base_value 16 0 [a, b, c, d] = Some k"
  shows "json_string (CHR 0x5C # CHR ''u'' # a # b # c # d # s) =
    map_option (\<lambda>(t, r). (utf8 k @ t, r)) (json_string s)"
proof -
  have code: "of_char (CHR 0x5C) = (92 :: nat)" "of_char (CHR ''u'') = (117 :: nat)" by simp_all
  show ?thesis
    by (subst json_string.simps) (simp only: Let_def code assms option.case list.case, simp add: assms del: base_value.simps json_string.simps)
qed

text \<open>A quoted text reads back, whatever characters it holds.\<close>

lemma json_string_escape:
  assumes t: "json_string t = Some (s, r)"
  shows "json_string (json_escape c @ t) = Some (c # s, r)"
proof -
  define n where "n = (of_char c :: nat)"
  have c: "c = char_of n" by (simp add: n_def)
  have "\<not> (n = 34 \<or> n = 92 \<or> n = 8 \<or> n = 12 \<or> n = 10 \<or> n = 13 \<or> n = 9) \<Longrightarrow> n < 32 \<Longrightarrow>
    json_escape c = CHR 0x5C # ''u00'' @ [hex_digit (n div 16), hex_digit (n mod 16)]"
    by (simp add: json_escape_def Let_def n_def)
  then consider (short) "n = 34 \<or> n = 92 \<or> n = 8 \<or> n = 12 \<or> n = 10 \<or> n = 13 \<or> n = 9"
    | (hex) "n < 32" "json_escape c = CHR 0x5C # ''u00'' @ [hex_digit (n div 16), hex_digit (n mod 16)]"
    | (plain) "32 \<le> n" "n \<noteq> 34" "n \<noteq> 92"
    by linarith
  then show ?thesis
  proof cases
    case short
    then obtain e where "json_escape c = [CHR 0x5C, e]"
      "map_of [(34, 34), (92, 92), (47, 47), (98, 8), (102, 12), (110, 10), (114, 13), (116, 9)]
        (of_char e :: nat) = Some n"
      unfolding json_escape_def Let_def n_def [symmetric] by (elim disjE) simp_all
    then show ?thesis by (simp add: json_string_short t c del: json_string.simps map_of.simps)
  next
    case hex
    have "base_value 16 0 [CHR ''0'', CHR ''0'', hex_digit (n div 16), hex_digit (n mod 16)] = Some n"
      using hex(1) by (simp add: hex_value digit_of_def [of 16 "CHR ''0''"])
    moreover have "utf8 n = [c]" using hex(1) by (simp add: utf8_def c)
    ultimately show ?thesis by (simp add: hex(2) json_string_hex t del: base_value.simps json_string.simps)
  next
    case plain
    then have "json_escape c = [c]" by (simp add: json_escape_def Let_def n_def)
    then show ?thesis using plain by (simp add: json_string_plain t n_def del: json_string.simps)
  qed
qed

lemma json_string_quote: "json_string (concat (map json_escape s) @ CHR 0x22 # r) = Some (s, r)"
  by (induction s) (simp_all add: json_string_escape del: json_string.simps(2), simp)

section \<open>Reading a JSON object\<close>

lemma json_value_quote: "json_value (Suc n) (json_quote s @ r) = Some (JStr s, r)"
  by (simp add: json_quote_def next_char_def is_json_space_def json_string_quote)

lemma json_member_quote:
  "json_member rd (json_quote key @ CHR '':'' # r) = map_option (\<lambda>(v, u). ((key, v), u)) (rd r)"
  by (simp add: json_member_def json_quote_def next_char_def is_json_space_def json_string_quote)

lemma json_value_brace:
  "json_value (Suc n) (CHR ''{'' # json_quote s @ r) = json_members n (json_value n) [] (json_quote s @ r)"
  by (simp add: json_quote_def next_char_def is_json_space_def json_bracketed_def)

lemma json_value_one: "json_value (Suc n) (CHR ''1'' # CHR '','' # r) = Some (JNum 1, CHR '','' # r)"
  by (simp add: next_char_def is_json_space_def json_number_def is_digit_def Let_def decimal_value_def
      exponent_value_def digits_value_def)

section \<open>Scopes and cursors\<close>

definition CURSOR_FORMAT_VERSION :: rat where
  "CURSOR_FORMAT_VERSION = 1"

record page_scope =
  ps_method :: string
  ps_filters :: "(string \<times> json option) list"

definition hashScope :: "(string \<Rightarrow> string) \<Rightarrow> (string \<Rightarrow> string \<Rightarrow> int) \<Rightarrow> page_scope \<Rightarrow> string" where
  "hashScope H L sc =
     (let filters = js_sort (\<lambda>p q. L (fst p) (fst q))
                      (List.map_filter (\<lambda>(k, v). map_option (\<lambda>w. (k, w)) v) (ps_filters sc))
      in take 16 (H (JSON_stringify
           (JArr [JStr (ps_method sc), JArr (map (\<lambda>(k, w). JArr [JStr k, w]) filters)]))))"

definition encodeCursor :: "string \<Rightarrow> string \<Rightarrow> string" where
  "encodeCursor scopeHash key =
     base64url_encode (JSON_stringify
       (JObj [(''v'', JNum CURSOR_FORMAT_VERSION), (''s'', JStr scopeHash), (''k'', JStr key)]))"

definition invalidCursor :: "string \<Rightarrow> err" where
  "invalidCursor m = AdminApiError (admin_code_str InvalidCursor) 400 m []"

definition decodeCursor :: "string \<Rightarrow> string \<Rightarrow> err + string" where
  "decodeCursor cursor scopeHash =
     (case JSON_parse (base64url_decode cursor) of
        None \<Rightarrow> Inl (invalidCursor ''the cursor is malformed'')
      | Some parsed \<Rightarrow>
          (case (member parsed ''v'', member parsed ''s'', member parsed ''k'') of
             (Some (JNum v), Some (JStr s), Some (JStr k)) \<Rightarrow>
               if v \<noteq> CURSOR_FORMAT_VERSION
               then Inl (invalidCursor ''the cursor uses a cursor format that this agent no longer accepts'')
               else if s \<noteq> scopeHash
               then Inl (invalidCursor ''the cursor was minted by another method or filter set'')
               else Inr k
           | _ \<Rightarrow> Inl (invalidCursor ''the cursor is malformed'')))"

lemma cursor_payload:
  "JSON_parse (JSON_stringify
     (JObj [(''v'', JNum CURSOR_FORMAT_VERSION), (''s'', JStr h), (''k'', JStr k)])) =
   Some (JObj [(''v'', JNum 1), (''s'', JStr h), (''k'', JStr k)])"
proof -
  define t where "t = json_quote k @ ''}''"
  define u where "u = json_quote h @ CHR '','' # json_quote ''k'' @ CHR '':'' # t"
  have one: "rat_str 1 = ''1''" by code_simp
  have shape: "JSON_stringify (JObj [(''v'', JNum CURSOR_FORMAT_VERSION), (''s'', JStr h), (''k'', JStr k)]) =
    CHR ''{'' # json_quote ''v'' @ CHR '':'' # ''1'' @ CHR '','' # json_quote ''s'' @ CHR '':'' # u"
    using one by (simp add: CURSOR_FORMAT_VERSION_def u_def t_def)
  have "json_members (Suc n) (json_value (Suc m)) ms (json_quote ''k'' @ CHR '':'' # t) =
    Some (JObj (jsmap_set ''k'' (JStr k) ms), [])" for n m ms
    unfolding t_def by (simp add: json_member_quote json_value_quote next_char_def is_json_space_def del: json_value.simps)
  then have "json_members (Suc (Suc n)) (json_value (Suc m)) ms (json_quote ''s'' @ CHR '':'' # u) =
    Some (JObj (jsmap_set ''k'' (JStr k) (jsmap_set ''s'' (JStr h) ms)), [])" for n m ms
    unfolding u_def
    by (subst json_members.simps)
      (simp add: json_member_quote json_value_quote next_char_def is_json_space_def del: json_value.simps json_members.simps)
  then have "json_value (Suc (Suc (Suc (Suc n))))
      (CHR ''{'' # json_quote ''v'' @ CHR '':'' # ''1'' @ CHR '','' # json_quote ''s'' @ CHR '':'' # u) =
    Some (JObj [(''v'', JNum 1), (''s'', JStr h), (''k'', JStr k)], [])" for n
    by (subst json_value_brace, subst json_members.simps)
      (simp add: json_member_quote json_value_one next_char_def is_json_space_def
        del: json_value.simps json_members.simps)
  moreover have "\<exists>n. length (CHR ''{'' # json_quote ''v'' @ CHR '':'' # ''1'' @ CHR '','' # json_quote ''s'' @ CHR '':'' # u) + 1 =
    Suc (Suc (Suc (Suc n)))"
    by (simp add: json_quote_def)
  ultimately have "json_value (length (CHR ''{'' # json_quote ''v'' @ CHR '':'' # ''1'' @ CHR '','' #
      json_quote ''s'' @ CHR '':'' # u) + 1)
      (CHR ''{'' # json_quote ''v'' @ CHR '':'' # ''1'' @ CHR '','' # json_quote ''s'' @ CHR '':'' # u) =
    Some (JObj [(''v'', JNum 1), (''s'', JStr h), (''k'', JStr k)], [])"
    by (elim exE) (simp only:)
  then show ?thesis unfolding JSON_parse_def shape by (simp only: option.case prod.case dropWhile.simps if_True refl)
qed

lemma decode_encode:
  "decodeCursor (encodeCursor h k) h' =
     (if h = h' then Inr k
      else Inl (invalidCursor ''the cursor was minted by another method or filter set''))"
proof -
  have parsed: "JSON_parse (base64url_decode (encodeCursor h k)) =
    Some (JObj [(''v'', JNum 1), (''s'', JStr h), (''k'', JStr k)])"
    unfolding encodeCursor_def base64url_roundtrip by (rule cursor_payload)
  show ?thesis by (simp add: decodeCursor_def parsed member_def CURSOR_FORMAT_VERSION_def)
qed

end
