(* ===== verification/Pagination.thy ===== *)
theory Pagination
  imports Cursors Authorization
begin

text \<open>
  The pages of the admin API (\<open>agent-sdk/src/adminApi/pagination/paginate.ts\<close>): a collection is sorted by
  a unique key, a page is what follows the key that the cursor carries, and the cursor of the next page
  carries the key of the last record. The last lemmas follow a caller through the pages of a collection
  that changes between two calls.

  Two keys are compared by their bytes, which is the order of their code units unless they hold
  characters beyond U+FFFF.
\<close>

section \<open>A page\<close>

definition PAGE_LIMIT_MIN :: int where "PAGE_LIMIT_MIN = 1"
definition PAGE_LIMIT_DEFAULT :: int where "PAGE_LIMIT_DEFAULT = 100"
definition PAGE_LIMIT_MAX :: int where "PAGE_LIMIT_MAX = 500"

record pagination_query =
  pq_limit :: "json option"
  pq_cursor :: "string option"

record 'a page =
  pg_items :: "'a list"
  pg_nextCursor :: "string option"

definition limitOf :: "json option \<Rightarrow> int" where
  "limitOf l =
     (case l of
        None \<Rightarrow> PAGE_LIMIT_DEFAULT
      | Some v \<Rightarrow>
          (case js_Number v of
             JsFin q \<Rightarrow> min (max \<lfloor>js_trunc q\<rfloor> PAGE_LIMIT_MIN) PAGE_LIMIT_MAX
           | _ \<Rightarrow> PAGE_LIMIT_DEFAULT))"

definition text_order :: "string \<Rightarrow> nat list" where
  "text_order s = map of_char s"

definition findIndex :: "('a \<Rightarrow> bool) \<Rightarrow> 'a list \<Rightarrow> int" where
  "findIndex P xs =
     (let i = length (takeWhile (\<lambda>x. \<not> P x) xs) in if i = length xs then -1 else int i)"

definition compareKeys :: "string \<times> 'a \<Rightarrow> string \<times> 'a \<Rightarrow> int" where
  "compareKeys a b =
     (if text_order (fst a) < text_order (fst b) then -1
      else if text_order (fst a) > text_order (fst b) then 1 else 0)"

fun assertUniqueKeys :: "(string \<times> 'a) list \<Rightarrow> string \<Rightarrow> err option" where
  "assertUniqueKeys (p # q # keyed) method =
     (if fst q \<noteq> fst p then assertUniqueKeys (q # keyed) method
      else Some (AdminApiError (admin_code_str Internal) 500
        (method @ '' gave two records the pagination key \"'' @ fst q @ ''\"'') []))"
| "assertUniqueKeys _ method = None"

definition startAfter :: "(string \<times> 'a) list \<Rightarrow> string option \<Rightarrow> string \<Rightarrow> err + nat" where
  "startAfter keyed cursor scopeHash =
     (case cursor of
        None \<Rightarrow> Inr 0
      | Some c \<Rightarrow>
          (case decodeCursor c scopeHash of
             Inl e \<Rightarrow> Inl e
           | Inr anchorKey \<Rightarrow>
               let index = findIndex (\<lambda>entry. text_order (fst entry) > text_order anchorKey) keyed
               in Inr (if index = -1 then length keyed else nat index)))"

definition paginate ::
  "(string \<Rightarrow> string) \<Rightarrow> (string \<Rightarrow> string \<Rightarrow> int) \<Rightarrow> 'a list \<Rightarrow> pagination_query \<Rightarrow> page_scope \<Rightarrow>
   ('a \<Rightarrow> string) \<Rightarrow> err + 'a page" where
  "paginate H L items query scope keyOf =
     (let limit = nat (limitOf (pq_limit query));
          scopeHash = hashScope H L scope;
          keyed = js_sort compareKeys (map (\<lambda>item. (keyOf item, item)) items)
      in case assertUniqueKeys keyed (ps_method scope) of
           Some e \<Rightarrow> Inl e
         | None \<Rightarrow>
             (case startAfter keyed (pq_cursor query) scopeHash of
                Inl e \<Rightarrow> Inl e
              | Inr start \<Rightarrow>
                  let page = take limit (drop start keyed);
                      hasMore = start + limit < length keyed
                  in Inr \<lparr> pg_items = map snd page,
                           pg_nextCursor =
                             (if hasMore \<and> page \<noteq> [] then Some (encodeCursor scopeHash (fst (last page)))
                              else None) \<rparr>))"

definition createdAtKey :: "string \<Rightarrow> string \<Rightarrow> string" where
  "createdAtKey createdAtIso i = createdAtIso @ ''|'' @ i"

definition mapPage :: "'a page \<Rightarrow> ('a \<Rightarrow> 'b) \<Rightarrow> 'b page" where
  "mapPage p f = \<lparr> pg_items = map f (pg_items p), pg_nextCursor = pg_nextCursor p \<rparr>"

section \<open>What a page holds\<close>

lemma text_order_inj: "text_order s = text_order t \<longleftrightarrow> s = t"
  by (simp add: text_order_def inj_map_eq_map inj_def)

lemma limit_range: "1 \<le> limitOf l" "limitOf l \<le> 500"
  by (auto simp: limitOf_def PAGE_LIMIT_MIN_def PAGE_LIMIT_MAX_def PAGE_LIMIT_DEFAULT_def
      split: option.split jsnum.split)

lemma keyed_sorted:
  "js_sort compareKeys (map (\<lambda>r. (keyOf r, r)) rs) =
   map (\<lambda>r. (keyOf r, r)) (sort_key (\<lambda>r. text_order (keyOf r)) rs)"
proof -
  let ?f = "\<lambda>p :: string \<times> 'a. text_order (fst p)"
  have "js_sort compareKeys ps = sort_key ?f ps" for ps :: "(string \<times> 'a) list"
    by (rule js_sort_key) (auto simp: compareKeys_def)
  moreover have "sort_key ?f (map (\<lambda>r. (keyOf r, r)) rs) =
    map (\<lambda>r. (keyOf r, r)) (sort_key (\<lambda>r. text_order (keyOf r)) rs)"
  proof (induction rs)
    case (Cons r rs)
    have "insort_key ?f (keyOf r, r) (map (\<lambda>r. (keyOf r, r)) xs) =
      map (\<lambda>r. (keyOf r, r)) (insort_key (\<lambda>r. text_order (keyOf r)) r xs)" for xs
      by (induction xs) auto
    with Cons show ?case by simp
  qed simp
  ultimately show ?thesis by simp
qed

lemma unique_keys:
  "sorted (map (text_order \<circ> fst) ps) \<Longrightarrow>
   assertUniqueKeys ps m = None \<longleftrightarrow> distinct (map fst ps)"
proof (induction ps m rule: assertUniqueKeys.induct)
  case (1 p q ps m)
  show ?case
  proof (cases "fst q = fst p")
    case False
    moreover have "fst p \<noteq> fst r" if "r \<in> set ps" for r
    proof
      assume "fst p = fst r"
      with 1(2) that have "text_order (fst q) = text_order (fst p)" by force
      with False show False by (simp add: text_order_inj)
    qed
    ultimately show ?thesis using 1 by (auto simp: image_iff)
  qed simp
qed simp_all

text \<open>The records in the order of their keys, and those after an anchor.\<close>

abbreviation in_order :: "('a \<Rightarrow> string) \<Rightarrow> 'a list \<Rightarrow> 'a list" where
  "in_order keyOf rs \<equiv> sort_key (\<lambda>r. text_order (keyOf r)) rs"

definition after :: "('a \<Rightarrow> string) \<Rightarrow> string option \<Rightarrow> 'a \<Rightarrow> bool" where
  "after keyOf anchor r \<longleftrightarrow> (case anchor of None \<Rightarrow> True | Some k \<Rightarrow> text_order k < text_order (keyOf r))"

lemma drop_to_filter:
  fixes f :: "'a \<Rightarrow> 'k::linorder"
  assumes "sorted (map f xs)"
  shows "drop (length (takeWhile (\<lambda>x. \<not> k < f x) xs)) xs = filter (\<lambda>x. k < f x) xs"
  using assms
proof (induction xs)
  case (Cons x xs)
  then show ?case
  proof (cases "k < f x")
    case True
    then have "filter (\<lambda>x. k < f x) xs = xs" using Cons.prems by (auto simp: filter_id_conv)
    with True show ?thesis by simp
  qed auto
qed simp

lemma sort_filter_commute: "filter P (sort_key f xs) = sort_key f (filter P xs)"
  by (rule filter_sort)

text \<open>One page, for a cursor that the same method and filters minted.\<close>

lemma paginate_page:
  assumes keys: "distinct (map keyOf rs)"
    and cursor: "pq_cursor query = map_option (encodeCursor (hashScope H L scope)) anchor"
    and limit: "n = nat (limitOf (pq_limit query))"
    and rest: "zs = in_order keyOf (filter (after keyOf anchor) rs)"
  shows "paginate H L rs query scope keyOf =
    Inr \<lparr> pg_items = take n zs,
          pg_nextCursor = (if n < length zs
            then Some (encodeCursor (hashScope H L scope) (keyOf (zs ! (n - 1)))) else None) \<rparr>"
proof -
  let ?ks = "map (\<lambda>r. (keyOf r, r)) (in_order keyOf rs)"
  have n: "0 < n" using limit limit_range(1) [of "pq_limit query"] by simp
  have "distinct (map fst ?ks)"
    using keys by (simp add: comp_def distinct_map inj_on_def)
  then have unique: "assertUniqueKeys ?ks m = None" for m
    by (subst unique_keys) (simp_all add: comp_def)
  have order: "zs = filter (after keyOf anchor) (in_order keyOf rs)"
    by (simp add: rest filter_sort)
  obtain start where start: "startAfter ?ks (pq_cursor query) (hashScope H L scope) = Inr start"
    and zs: "drop start (in_order keyOf rs) = zs" and bound: "start \<le> length rs"
  proof (cases anchor)
    case None
    then show ?thesis using that [of 0] cursor order by (simp add: startAfter_def after_def)
  next
    case (Some k)
    define i where "i = length (takeWhile (\<lambda>r. \<not> text_order k < text_order (keyOf r)) (in_order keyOf rs))"
    have le: "i \<le> length rs" unfolding i_def by (metis length_sort length_takeWhile_le)
    have "findIndex (\<lambda>e. text_order k < text_order (fst e)) ?ks = (if i = length rs then -1 else int i)"
      by (simp add: findIndex_def takeWhile_map comp_def i_def Let_def)
    then have "startAfter ?ks (pq_cursor query) (hashScope H L scope) = Inr i"
      using cursor Some by (simp add: startAfter_def decode_encode Let_def)
    moreover have "drop i (in_order keyOf rs) = zs"
      unfolding i_def order Some after_def by (subst drop_to_filter) simp_all
    ultimately show ?thesis using that le by blast
  qed
  have len: "length zs = length rs - start" using zs by auto
  have "last (take n (drop start ?ks)) = (keyOf (zs ! (n - 1)), zs ! (n - 1))" if "n < length zs"
  proof -
    have "take n zs \<noteq> []" and "length (take n zs) = n" using that n by auto
    then have "last (take n zs) = zs ! (n - 1)" using n by (simp add: last_conv_nth)
    with \<open>take n zs \<noteq> []\<close> show ?thesis by (simp add: drop_map take_map zs last_map)
  qed
  moreover have "start + n < length rs \<longleftrightarrow> n < length zs" using len bound by auto
  moreover have "take n (drop start ?ks) \<noteq> []" if "n < length zs"
    using that n len by auto
  moreover have "map snd (take n (drop start ?ks)) = take n zs"
    using zs by (simp add: drop_map take_map comp_def)
  ultimately show ?thesis
    by (simp add: paginate_def keyed_sorted unique start limit [symmetric] Let_def)
qed

section \<open>Following the cursors\<close>

text \<open>
  A caller reads one page after the other; \<open>collections\<close> is what the collection holds at each call. The
  result is the records it received and whether the last page was reached.
\<close>

fun read_pages ::
  "(string \<Rightarrow> string) \<Rightarrow> (string \<Rightarrow> string \<Rightarrow> int) \<Rightarrow> json option \<Rightarrow> page_scope \<Rightarrow> ('a \<Rightarrow> string) \<Rightarrow>
   'a list list \<Rightarrow> string option \<Rightarrow> err + ('a list \<times> bool)" where
  "read_pages H L limit scope keyOf [] cursor = Inr ([], False)"
| "read_pages H L limit scope keyOf (rs # collections) cursor =
     (case paginate H L rs \<lparr> pq_limit = limit, pq_cursor = cursor \<rparr> scope keyOf of
        Inl e \<Rightarrow> Inl e
      | Inr p \<Rightarrow>
          (case pg_nextCursor p of
             None \<Rightarrow> Inr (pg_items p, True)
           | Some c \<Rightarrow>
               (case read_pages H L limit scope keyOf collections (Some c) of
                  Inl e \<Rightarrow> Inl e
                | Inr (ys, whole) \<Rightarrow> Inr (pg_items p @ ys, whole))))"

abbreviation increasing :: "('a \<Rightarrow> string) \<Rightarrow> 'a list \<Rightarrow> bool" where
  "increasing keyOf \<equiv> sorted_wrt (\<lambda>a b. text_order (keyOf a) < text_order (keyOf b))"

lemma increasing_in_order:
  assumes "distinct (map keyOf rs)"
  shows "increasing keyOf (in_order keyOf rs)"
proof -
  have "distinct (map (\<lambda>r. text_order (keyOf r)) (in_order keyOf rs))"
    using assms by (simp add: distinct_map inj_on_def text_order_inj)
  then have "sorted_wrt (<) (map (\<lambda>r. text_order (keyOf r)) (in_order keyOf rs))"
    by (simp add: strict_sorted_iff)
  then show ?thesis by (simp add: sorted_wrt_map)
qed

text \<open>The first \<open>n\<close> records of an increasing list are those up to the \<open>n\<close>-th key.\<close>

lemma increasing_cut:
  assumes zs: "increasing keyOf zs" and n: "0 < n" "n < length zs" and z: "z = zs ! (n - 1)"
  shows "\<forall>r \<in> set (take n zs). text_order (keyOf r) \<le> text_order (keyOf z)"
    "\<forall>r \<in> set (drop n zs). text_order (keyOf z) < text_order (keyOf r)"
    "z \<in> set (take n zs)"
proof -
  have less: "text_order (keyOf (zs ! i)) < text_order (keyOf (zs ! j))" if "i < j" "j < length zs" for i j
    using sorted_wrt_nth_less [OF zs that] .
  show "\<forall>r \<in> set (take n zs). text_order (keyOf r) \<le> text_order (keyOf z)"
  proof
    fix r assume "r \<in> set (take n zs)"
    then obtain i where "i < n" "r = zs ! i" using n by (auto simp: in_set_conv_nth)
    moreover from \<open>i < n\<close> have "i = n - 1 \<or> i < n - 1" by linarith
    ultimately show "text_order (keyOf r) \<le> text_order (keyOf z)"
      using less [of i "n - 1"] n z by (elim disjE) (simp_all add: less_imp_le)
  qed
  show "\<forall>r \<in> set (drop n zs). text_order (keyOf z) < text_order (keyOf r)"
  proof
    fix r assume "r \<in> set (drop n zs)"
    then obtain i where "i < length zs - n" "r = zs ! (n + i)" by (auto simp: in_set_conv_nth)
    then show "text_order (keyOf z) < text_order (keyOf r)" using less [of "n - 1" "n + i"] n z by auto
  qed
  show "z \<in> set (take n zs)" using n z by (auto simp: in_set_conv_nth intro!: exI [of _ "n - 1"])
qed

lemma after_weaken: "after keyOf (Some (keyOf z)) r \<Longrightarrow> after keyOf anchor z \<Longrightarrow> after keyOf anchor r"
  by (auto simp: after_def split: option.splits)

lemma pages_from:
  assumes "list_all (\<lambda>rs. distinct (map keyOf rs)) collections"
  shows "\<exists>xs whole.
    read_pages H L limit scope keyOf collections
      (map_option (encodeCursor (hashScope H L scope)) anchor) = Inr (xs, whole) \<and>
    increasing keyOf xs \<and> list_all (after keyOf anchor) xs \<and> set xs \<subseteq> \<Union> (set ` set collections) \<and>
    (whole \<longrightarrow> (\<forall>r. (\<forall>rs \<in> set collections. r \<in> set rs) \<and> after keyOf anchor r \<longrightarrow> r \<in> set xs))"
  using assms
proof (induction collections arbitrary: anchor)
  case (Cons rs collections)
  define n where "n = nat (limitOf limit)"
  define zs where "zs = in_order keyOf (filter (after keyOf anchor) rs)"
  have n: "0 < n" using limit_range(1) [of limit] by (simp add: n_def)
  have keys: "distinct (map keyOf rs)" and tail: "list_all (\<lambda>rs. distinct (map keyOf rs)) collections"
    using Cons.prems by simp_all
  have zs: "increasing keyOf zs"
    unfolding zs_def by (rule increasing_in_order) (use keys in \<open>simp add: distinct_map_filter\<close>)
  have mem: "r \<in> set zs \<longleftrightarrow> r \<in> set rs \<and> after keyOf anchor r" for r by (auto simp: zs_def)
  note page = paginate_page [OF keys, of "\<lparr> pq_limit = limit,
      pq_cursor = map_option (encodeCursor (hashScope H L scope)) anchor \<rparr>" H L scope anchor n zs]
  show ?case
  proof (cases "n < length zs")
    case False
    then have "read_pages H L limit scope keyOf (rs # collections)
      (map_option (encodeCursor (hashScope H L scope)) anchor) = Inr (zs, True)"
      using page n_def zs_def by simp
    then show ?thesis using zs mem by (auto simp: list_all_iff)
  next
    case True
    define z where "z = zs ! (n - 1)"
    note cut = increasing_cut [OF zs n True z_def]
    have z: "after keyOf anchor z" using cut(3) mem set_take_subset by fastforce
    obtain ys whole where ys:
      "read_pages H L limit scope keyOf collections
         (Some (encodeCursor (hashScope H L scope) (keyOf z))) = Inr (ys, whole)"
      "increasing keyOf ys" "list_all (after keyOf (Some (keyOf z))) ys" "set ys \<subseteq> \<Union> (set ` set collections)"
      "whole \<longrightarrow> (\<forall>r. (\<forall>rs \<in> set collections. r \<in> set rs) \<and> after keyOf (Some (keyOf z)) r \<longrightarrow> r \<in> set ys)"
      using Cons.IH [OF tail, of "Some (keyOf z)"] by auto
    have "read_pages H L limit scope keyOf (rs # collections)
      (map_option (encodeCursor (hashScope H L scope)) anchor) = Inr (take n zs @ ys, whole)"
      using page n_def zs_def True ys(1) by (simp add: z_def)
    moreover have "increasing keyOf (take n zs @ ys)"
      using zs ys(2,3) cut(1) by (fastforce simp: sorted_wrt_append sorted_wrt_take list_all_iff after_def)
    moreover have "list_all (after keyOf anchor) (take n zs @ ys)"
      using ys(3) z mem by (auto simp: list_all_iff dest: in_set_takeD after_weaken)
    moreover have "set (take n zs @ ys) \<subseteq> \<Union> (set ` set (rs # collections))"
      using ys(4) mem by (auto dest: in_set_takeD)
    moreover have "r \<in> set (take n zs @ ys)"
      if "whole" "\<forall>rs \<in> set (rs # collections). r \<in> set rs" "after keyOf anchor r" for r
    proof -
      have "r \<in> set (take n zs @ drop n zs)" using that mem by simp
      then show ?thesis using that ys(5) cut(2) by (auto simp: after_def simp del: append_take_drop_id)
    qed
    ultimately show ?thesis by blast
  qed
qed auto

text \<open>A collection that stays the same is read completely, in the order of its keys.\<close>

lemma pages_of_constant:
  assumes keys: "distinct (map keyOf rs)" and n: "n = nat (limitOf limit)"
    and zs: "zs = in_order keyOf (filter (after keyOf anchor) rs)" and enough: "length zs \<le> n * k" "0 < k"
  shows "read_pages H L limit scope keyOf (replicate k rs)
    (map_option (encodeCursor (hashScope H L scope)) anchor) = Inr (zs, True)"
  using zs enough
proof (induction k arbitrary: anchor zs)
  case (Suc k)
  have pos: "0 < n" using limit_range(1) [of limit] by (simp add: n)
  note page = paginate_page [OF keys, of "\<lparr> pq_limit = limit,
      pq_cursor = map_option (encodeCursor (hashScope H L scope)) anchor \<rparr>" H L scope anchor n zs]
  show ?case
  proof (cases "n < length zs")
    case False
    then show ?thesis using page n Suc.prems(1) by simp
  next
    case True
    define z where "z = zs ! (n - 1)"
    have inc: "increasing keyOf zs"
      unfolding Suc.prems(1) by (rule increasing_in_order) (use keys in \<open>simp add: distinct_map_filter\<close>)
    note cut = increasing_cut [OF inc pos True z_def]
    have z: "after keyOf anchor z"
      using cut(3) Suc.prems(1) by (auto dest!: in_set_takeD)
    have later: "after keyOf anchor r \<and> after keyOf (Some (keyOf z)) r \<longleftrightarrow> after keyOf (Some (keyOf z)) r" for r
      using z after_weaken [of keyOf z r anchor] by blast
    have "filter (after keyOf (Some (keyOf z))) (take n zs @ drop n zs) = drop n zs"
      unfolding filter_append using cut(1,2)
      by (auto simp: filter_empty_conv filter_id_conv after_def)
    then have "drop n zs = in_order keyOf (filter (after keyOf (Some (keyOf z))) rs)"
      by (simp add: Suc.prems(1) filter_sort later conj_commute)
    moreover have "0 < k" using Suc.prems(2) True by (cases k) auto
    moreover have "length (drop n zs) \<le> n * k" using Suc.prems(2) by simp
    ultimately have "read_pages H L limit scope keyOf (replicate k rs)
      (Some (encodeCursor (hashScope H L scope) (keyOf z))) = Inr (drop n zs, True)"
      using Suc.IH [of "drop n zs" "Some (keyOf z)"] by simp
    then show ?thesis using page n Suc.prems(1) True by (simp add: z_def)
  qed
qed simp

section \<open>Properties\<close>

text \<open>
  C28. A cursor reads back as the key it was minted for, whatever characters key and scope hold, and only
  for the method and the filters that minted it: any other scope hash is refused with the error
  \<open>INVALID_CURSOR\<close>.
\<close>

theorem cursor_roundtrip:
  "decodeCursor (encodeCursor h k) h' =
     (if h = h' then Inr k
      else Inl (AdminApiError ''INVALID_CURSOR'' 400 ''the cursor was minted by another method or filter set'' []))"
  by (simp add: decode_encode invalidCursor_def)

text \<open>
  C27. A caller that follows the cursors of a collection never sees an error, whatever is added to or
  deleted from the collection between two calls, so long as the keys stay unique: no record comes twice,
  every record it receives was in the collection at some call, the records come in the order of their
  keys, and when it reaches the last page it has every record that was there at all the calls. A
  collection of \<open>n\<close> records that does not change is read completely after at most \<open>n / limit\<close> calls (one
  for an empty collection).
\<close>

theorem pages_enumerate_collection:
  assumes "list_all (\<lambda>rs. distinct (map keyOf rs)) collections"
  shows "(\<exists>xs whole. read_pages H L limit scope keyOf collections None = Inr (xs, whole) \<and>
      sorted_wrt (\<lambda>a b. text_order (keyOf a) < text_order (keyOf b)) xs \<and>
      set xs \<subseteq> \<Union> (set ` set collections) \<and>
      (whole \<longrightarrow> (\<forall>r. (\<forall>rs \<in> set collections. r \<in> set rs) \<longrightarrow> r \<in> set xs))) \<and>
    (\<forall>rs \<in> set collections. \<forall>k. 0 < k \<and> length rs \<le> nat (limitOf limit) * k \<longrightarrow>
      read_pages H L limit scope keyOf (replicate k rs) None =
        Inr (sort_key (\<lambda>r. text_order (keyOf r)) rs, True))"
proof (intro conjI ballI allI impI)
  show "\<exists>xs whole. read_pages H L limit scope keyOf collections None = Inr (xs, whole) \<and>
      sorted_wrt (\<lambda>a b. text_order (keyOf a) < text_order (keyOf b)) xs \<and>
      set xs \<subseteq> \<Union> (set ` set collections) \<and>
      (whole \<longrightarrow> (\<forall>r. (\<forall>rs \<in> set collections. r \<in> set rs) \<longrightarrow> r \<in> set xs))"
    using pages_from [OF assms, of H L limit scope None] by (auto simp: after_def)
next
  fix rs k assume "rs \<in> set collections" "0 < k \<and> length rs \<le> nat (limitOf limit) * k"
  then show "read_pages H L limit scope keyOf (replicate k rs) None =
      Inr (sort_key (\<lambda>r. text_order (keyOf r)) rs, True)"
    using pages_of_constant [of keyOf rs "nat (limitOf limit)" limit _ None k] assms
    by (simp add: list_all_iff after_def)
qed

text \<open>A record is deleted and another one added between two calls of limit 1.\<close>

theorem pages_enumerate_collection_witness:
  "(\<exists>xs whole. read_pages (\<lambda>t. t) (\<lambda>a b. 0) (Some (JNum 1)) \<lparr> ps_method = ''m'', ps_filters = [] \<rparr> id
      [[''b'', ''a''], [''c'', ''b'']] None = Inr (xs, whole) \<and>
      sorted_wrt (\<lambda>a b. text_order (id a) < text_order (id b)) xs \<and>
      set xs \<subseteq> \<Union> (set ` set [[''b'', ''a''], [''c'', ''b'']]) \<and>
      (whole \<longrightarrow> (\<forall>r. (\<forall>rs \<in> set [[''b'', ''a''], [''c'', ''b'']]. r \<in> set rs) \<longrightarrow> r \<in> set xs))) \<and>
   read_pages (\<lambda>t. t) (\<lambda>a b. 0) (Some (JNum 1)) \<lparr> ps_method = ''m'', ps_filters = [] \<rparr> id
      (replicate 2 [''b'', ''a'']) None =
     Inr (sort_key (\<lambda>r. text_order (id r)) [''b'', ''a''], True)"
proof -
  let ?cs = "[[''b'', ''a''], [''c'', ''b'']]"
  have keys: "list_all (\<lambda>rs. distinct (map id rs)) ?cs" by simp
  have "0 < (2 :: nat) \<and> length [''b'', ''a''] \<le> nat (limitOf (Some (JNum 1))) * 2" by code_simp
  moreover have "[''b'', ''a''] \<in> set ?cs" by simp
  ultimately show ?thesis
    using pages_enumerate_collection [OF keys, of "\<lambda>t. t" "\<lambda>a b. 0" "Some (JNum 1)"
        "\<lparr> ps_method = ''m'', ps_filters = [] \<rparr>"] by blast
qed

text \<open>
  The limit of a page is between 1 and 500 whatever the query holds: a missing limit, one that is not
  a number and an infinite one give 100, a fraction is cut, and a whole number in the range is kept.
\<close>

theorem limit_is_clamped:
  "1 \<le> limitOf l \<and> limitOf l \<le> 500 \<and> limitOf None = 100 \<and>
   limitOf (Some (JStr s)) = (case js_parse_number s of JsFin q \<Rightarrow> limitOf (Some (JNum q)) | _ \<Rightarrow> 100) \<and>
   limitOf (Some (JNum (of_int i))) = (if i < 1 then 1 else if 500 < i then 500 else i)"
proof -
  have "js_trunc (of_int i) = of_int i" by (simp add: js_trunc_def)
  then show ?thesis
    using limit_range [of l]
    by (auto simp: limitOf_def PAGE_LIMIT_MIN_def PAGE_LIMIT_MAX_def PAGE_LIMIT_DEFAULT_def split: jsnum.split)
qed

end
