(* ===== verification/PublishedDid.thy ===== *)
theory PublishedDid
  imports Cursors
begin

text \<open>
  The DID record of the agent and its one write point: \<open>utils/publishedDidRecord.ts\<close>,
  \<open>did/adminApiService.ts\<close>, and the coalescing of resolver triggers (\<open>blockchain/triggerResolver.ts\<close>).

  The record keeps the DID document and, in its metadata, the two buckets of published trust
  credentials: \<open>_vt/vtc\<close> (credentials about the agent) and \<open>_vt/jsc\<close> (schema credentials). A record
  read from the storage is a copy of it; the code changes that copy and writes it back.
\<close>

section \<open>The DID record\<close>

record did_service =
  ds_id :: string
  ds_type :: string
  ds_endpoint :: json

record did_method =
  dm_id :: string
  dm_type :: string

text \<open>An entry of \<open>assertionMethod\<close> names a method or embeds one.\<close>

datatype did_ref = RefTo string | Embedded string

record did_document =
  dd_id :: string
  dd_service :: "did_service list option"
  dd_verificationMethod :: "did_method list option"
  dd_assertionMethod :: "did_ref list option"
  dd_other :: json

record trust_entry =
  te_typeMetadata :: "string option"
  te_credential :: "json option"
  te_presentation :: "json option"
  te_serviceId :: "string option"
  te_integrityData :: "string option"
  te_attached :: "bool option"
  te_issuerParticipantId :: "int option"
  te_schemaKey :: "string option"

type_synonym bucket = "(string \<times> trust_entry) list"

datatype bucket_key = VtcBucket | JscBucket

record did_record =
  dr_id :: string
  dr_did :: string
  dr_document :: "did_document option"
  dr_vtc :: "bucket option"
  dr_jsc :: "bucket option"

definition bucket_of :: "did_record \<Rightarrow> bucket_key \<Rightarrow> bucket option" where
  "bucket_of r k = (case k of VtcBucket \<Rightarrow> dr_vtc r | JscBucket \<Rightarrow> dr_jsc r)"

definition set_bucket :: "bucket_key \<Rightarrow> bucket \<Rightarrow> did_record \<Rightarrow> did_record" where
  "set_bucket k b r = (case k of VtcBucket \<Rightarrow> r\<lparr>dr_vtc := Some b\<rparr> | JscBucket \<Rightarrow> r\<lparr>dr_jsc := Some b\<rparr>)"

text \<open>The services of the document; none when there is no document.\<close>

definition services_of :: "did_record \<Rightarrow> did_service list option" where
  "services_of r = Option.bind (dr_document r) dd_service"

definition map_services :: "(did_service list \<Rightarrow> did_service list) \<Rightarrow> did_record \<Rightarrow> did_record" where
  "map_services f r = r\<lparr>dr_document := map_option (\<lambda>d. d\<lparr>dd_service := map_option f (dd_service d)\<rparr>) (dr_document r)\<rparr>"

definition set_services :: "did_service list \<Rightarrow> did_record \<Rightarrow> did_record" where
  "set_services ss r = r\<lparr>dr_document := map_option (\<lambda>d. d\<lparr>dd_service := Some ss\<rparr>) (dr_document r)\<rparr>"

definition LVP_TYPE :: string where
  "LVP_TYPE = ''LinkedVerifiablePresentation''"

lemma bucket_of_set [simp]:
  "bucket_of (set_bucket k b r) k' = (if k' = k then Some b else bucket_of r k')"
  "dr_document (set_bucket k b r) = dr_document r" "dr_id (set_bucket k b r) = dr_id r"
  "dr_did (set_bucket k b r) = dr_did r" "services_of (set_bucket k b r) = services_of r"
  by (cases k; cases k'; simp add: bucket_of_def set_bucket_def services_of_def)+

lemma map_services_sel [simp]:
  "bucket_of (map_services f r) k = bucket_of r k" "dr_id (map_services f r) = dr_id r"
  "dr_did (map_services f r) = dr_did r" "services_of (map_services f r) = map_option f (services_of r)"
  "dr_document (map_services f r) = None \<longleftrightarrow> dr_document r = None"
  by (cases k; cases "dr_document r"; simp add: map_services_def services_of_def bucket_of_def)+

lemma set_services_sel [simp]:
  "bucket_of (set_services ss r) k = bucket_of r k" "dr_id (set_services ss r) = dr_id r"
  "dr_did (set_services ss r) = dr_did r"
  "services_of (set_services ss r) = (if dr_document r = None then None else Some ss)"
  "dr_document (set_services ss r) = None \<longleftrightarrow> dr_document r = None"
  by (cases k; cases "dr_document r"; simp add: set_services_def services_of_def bucket_of_def)+

section \<open>The environment\<close>

text \<open>
  Credo's DID repository (\<open>de_created\<close>, \<open>de_findById\<close>, \<open>de_save\<close>) and registrar (\<open>de_publish\<close>),
  \<open>localeCompare\<close>, the JSON of a document, the signatures of its W3C services, the credentials it holds,
  and the parts of the agent the store calls. The pending triggers are a module-level \<open>Map\<close> from the DID
  to the cause; a timer per entry runs \<open>de_trigger\<close>. An indexer read by id answers \<open>None\<close> for a 404.
\<close>

record 's did_env =
  de_did :: "string option"
  de_publicApiBaseUrl :: string
  de_adminEndpoint :: "string option"
  de_chain :: "(string \<times> string) option"
  de_localeCompare :: "string \<Rightarrow> string \<Rightarrow> int"
  de_documentJson :: "did_document \<Rightarrow> json"
  de_sha384 :: "string \<Rightarrow> string"
  de_pending :: "'s \<Rightarrow> (string \<times> string) list"
  de_setPending :: "(string \<times> string) list \<Rightarrow> 's \<Rightarrow> 's"
  de_created :: "string option \<Rightarrow> ('s, err, did_record list) comp"
  de_alternativeDids :: "('s, err, string list) comp"
  de_findById :: "string \<Rightarrow> ('s, err, did_record option) comp"
  de_save :: "did_record \<Rightarrow> ('s, err, unit) comp"
  de_publish :: "string \<Rightarrow> did_document \<Rightarrow> ('s, err, unit) comp"
  de_trigger :: "string \<Rightarrow> ('s, err, unit) comp"
  de_signCredential :: "w3c_options \<Rightarrow> string \<Rightarrow> ('s, err, json) comp"
  de_signDiPresentation :: "string \<Rightarrow> string option \<Rightarrow> json \<Rightarrow> string \<Rightarrow> ('s, err, json) comp"
  de_signLdpPresentation :: "string \<Rightarrow> string option \<Rightarrow> json \<Rightarrow> string \<Rightarrow> ('s, err, json) comp"
  de_v2Records :: "('s, err, (string \<times> string option) list) comp"
  de_v1Records :: "('s, err, (string \<times> string option) list) comp"
  de_deleteV2 :: "string \<Rightarrow> ('s, err, unit) comp"
  de_deleteV1 :: "string \<Rightarrow> ('s, err, unit) comp"
  de_formatData :: "string \<Rightarrow> ('s, err, json) comp"
  de_now :: "('s, err, int) comp"
  de_claims :: "string \<Rightarrow> ('s, err, (string \<times> json) list option) comp"
  de_validateSchema :: "string \<Rightarrow> json \<Rightarrow> ('s, err, unit) comp"
  de_indexerByChain :: "string \<Rightarrow> string option"
  de_fetchText :: "string \<Rightarrow> ('s, err, string + string) comp"
  de_metaSchemaErrors :: "json \<Rightarrow> string list option"
  de_digestJCS :: "json \<Rightarrow> string \<Rightarrow> err + string"
  de_anchored :: "string \<Rightarrow> ('s, err, string option) comp"
  de_anchorSession :: "int \<Rightarrow> string \<Rightarrow> ('s, err, unit) comp"
  de_waitForDigest :: "string \<Rightarrow> ('s, err, unit) comp"
  de_schema :: "string \<Rightarrow> ('s, err, credential_schema_dto) comp"
  de_ecosystem :: "string \<Rightarrow> ('s, err, ecosystem_dto option) comp"
  de_ecosystems :: "('s, err, ecosystem_dto list) comp"
  de_schemasOf :: "int \<Rightarrow> ('s, err, credential_schema_dto list) comp"
  de_participants :: "participant_filter \<Rightarrow> ('s, err, participant_dto list) comp"
  de_resolveVtjsc :: "int \<Rightarrow> string \<Rightarrow> ('s, err, string) comp"
  de_ecsSchemas :: "(string \<times> string) list"
  ac_createdSchemas :: "string \<Rightarrow> ('s, err, string list) comp"
  ac_registerSchema :: "string \<Rightarrow> string list \<Rightarrow> string \<Rightarrow> string \<Rightarrow> string \<Rightarrow>
    ('s, err, string + string \<times> json option) comp"
  ac_tagSchema :: "string \<Rightarrow> string \<Rightarrow> ('s, err, unit) comp"
  ac_saveAttestedResource :: "json \<Rightarrow> string \<Rightarrow> ('s, err, unit) comp"

section \<open>What a record publishes\<close>

definition ADMIN_API_SERVICE_TYPE :: string where
  "ADMIN_API_SERVICE_TYPE = ''VsAgentAdminAPI''"

definition applyAdminApiServiceEntry :: "string option \<Rightarrow> did_document \<Rightarrow> did_document" where
  "applyAdminApiServiceEntry endpoint d =
     (let others = filter (\<lambda>s. ds_type s \<noteq> ADMIN_API_SERVICE_TYPE) (withDefault (dd_service d) [])
      in d\<lparr>dd_service := Some (if truthy endpoint
             then others @ [\<lparr> ds_id = dd_id d @ ''#admin-api'', ds_type = ADMIN_API_SERVICE_TYPE,
                              ds_endpoint = JStr (the endpoint) \<rparr>]
             else others)\<rparr>)"

fun stableStringify :: "(string \<Rightarrow> string \<Rightarrow> int) \<Rightarrow> json \<Rightarrow> string" where
  "stableStringify L (JArr xs) = ''['' @ join_with '','' (map (stableStringify L) xs) @ '']''"
| "stableStringify L (JObj ps) =
     ''{'' @ join_with '','' (map (\<lambda>(k, t). json_quote k @ '':'' @ t)
        (js_sort (\<lambda>p q. L (fst p) (fst q)) (map (\<lambda>p. (fst p, stableStringify L (snd p))) ps))) @ ''}''"
| "stableStringify L v = JSON_stringify v"

definition documentFingerprint :: "'s did_env \<Rightarrow> did_record option \<Rightarrow> string" where
  "documentFingerprint D r =
     (case Option.bind r dr_document of
        None \<Rightarrow> []
      | Some d \<Rightarrow> stableStringify (de_localeCompare D) (de_documentJson D d))"

definition announced :: "did_record \<Rightarrow> (string \<times> json) list" where
  "announced r =
     map (\<lambda>s. (ds_id s, ds_endpoint s))
       (filter (\<lambda>s. ds_type s = LVP_TYPE) (withDefault (services_of r) []))"

definition presentations_in :: "did_record \<Rightarrow> bucket_key \<Rightarrow> (string \<times> json option) list" where
  "presentations_in r k = map (\<lambda>(i, e). (i, te_presentation e)) (withDefault (bucket_of r k) [])"

definition presentation_json :: "string \<times> json option \<Rightarrow> json" where
  "presentation_json p =
     JObj ((''schemaId'', JStr (fst p)) #
       (case snd p of None \<Rightarrow> [] | Some v \<Rightarrow> [(''presentation'', v)]))"

definition publicationFingerprint :: "'s did_env \<Rightarrow> did_record option \<Rightarrow> string" where
  "publicationFingerprint D r0 =
     (case r0 of
        None \<Rightarrow> []
      | Some r \<Rightarrow>
          let by_id = js_sort (\<lambda>p q. de_localeCompare D (fst p) (fst q));
              services = map (\<lambda>(i, e). JObj [(''id'', JStr i), (''serviceEndpoint'', e)]) (by_id (announced r));
              presentations = map (\<lambda>k. JArr (map presentation_json
                 (js_sort (\<lambda>p q. de_localeCompare D (fst p) (fst q)) (presentations_in r k))))
                 [VtcBucket, JscBucket]
          in stableStringify (de_localeCompare D)
               (JObj [(''services'', JArr services), (''presentations'', JArr presentations)]))"

section \<open>Resolver triggers\<close>

definition COALESCE_WINDOW_MS :: int where
  "COALESCE_WINDOW_MS = 2000"

text \<open>A trigger scheduled again replaces the one that waits: its timer is cleared.\<close>

definition scheduleTriggerResolverForOwnDid :: "'s did_env \<Rightarrow> string \<Rightarrow> ('s, err, unit) comp" where
  "scheduleTriggerResolverForOwnDid D cause =
     modify (\<lambda>s. de_setPending D (jsmap_set (withDefault (de_did D) []) cause (de_pending D s)) s)"

text \<open>\<open>send\<close>: what the timer of a pending trigger runs, and what a flush runs for each.\<close>

definition send_trigger :: "'s did_env \<Rightarrow> string \<times> string \<Rightarrow> ('s, err, unit) comp" where
  "send_trigger D p =
     sqn (modify (\<lambda>s. de_setPending D (jsmap_delete (fst p) (de_pending D s)) s)) (de_trigger D (snd p))"

definition onTriggerTimer :: "'s did_env \<Rightarrow> string \<Rightarrow> ('s, err, unit) comp" where
  "onTriggerTimer D key =
     bnd (gets (\<lambda>s. map_of (de_pending D s) key)) (\<lambda>p. case p of
        None \<Rightarrow> ret ()
      | Some cause \<Rightarrow> send_trigger D (key, cause))"

definition flushPendingTriggerResolvers :: "'s did_env \<Rightarrow> ('s, err, unit) comp" where
  "flushPendingTriggerResolvers D =
     bnd (gets (de_pending D)) (\<lambda>pending.
     sqn (modify (de_setPending D [])) (forM pending (send_trigger D)))"

section \<open>The write point\<close>

definition type_error :: err where
  "type_error = OtherError ''Cannot read properties of undefined''"

definition storedRecord :: "'s did_env \<Rightarrow> string \<Rightarrow> ('s, err, did_record option) comp" where
  "storedRecord D i = catch (de_findById D i) (\<lambda>e. ret None)"

definition updateDidRecord :: "'s did_env \<Rightarrow> did_record \<Rightarrow> ('s, err, unit) comp" where
  "updateDidRecord D r0 =
     (case dr_document r0 of
        None \<Rightarrow> throw type_error
      | Some d0 \<Rightarrow>
          let d = applyAdminApiServiceEntry (de_adminEndpoint D) d0; r = r0\<lparr>dr_document := Some d\<rparr>
          in bnd (storedRecord D (dr_id r)) (\<lambda>stored.
             let publishedBefore = publicationFingerprint D stored;
                 documentBefore = documentFingerprint D stored
             in sqn (de_save D r)
               (sqn (whenM (documentFingerprint D (Some r) \<noteq> documentBefore)
                       (de_publish D (dr_did r) d))
                 (whenM (publicationFingerprint D (Some r) \<noteq> publishedBefore)
                   (scheduleTriggerResolverForOwnDid D ''the published Verifiable Trust material changed'')))))"

section \<open>What the storage promises\<close>

text \<open>
  The view of the storage: the record of the agent's DID and the pending triggers. A read returns what
  is stored or fails; a write that returns is what is read next, and one that throws changed nothing; the
  registrar publishes a document and leaves the record alone. No other operation runs during a call.
\<close>

definition did_storage_laws :: "'s did_env \<Rightarrow> ('s \<Rightarrow> did_record option) \<Rightarrow> bool" where
  "did_storage_laws D stored \<longleftrightarrow>
     (\<forall>d s. post (de_created D d) (\<lambda>rs t. rs = (case stored s of None \<Rightarrow> [] | Some r \<Rightarrow> [r]) \<and> t = s)
        (\<lambda>_ t. t = s) s) \<and>
     (\<forall>i s. post (de_findById D i) (\<lambda>f t. f = stored s \<and> t = s) (\<lambda>_ t. t = s) s) \<and>
     (\<forall>r s. post (de_save D r) (\<lambda>_ t. stored t = Some r \<and> de_pending D t = de_pending D s)
        (\<lambda>_ t. stored t = stored s \<and> de_pending D t = de_pending D s) s) \<and>
     (\<forall>i doc s. post (de_publish D i doc) (\<lambda>_ t. stored t = stored s \<and> de_pending D t = de_pending D s)
        (\<lambda>_ t. stored t = stored s \<and> de_pending D t = de_pending D s) s) \<and>
     (\<forall>p s. de_pending D (de_setPending D p s) = p \<and> stored (de_setPending D p s) = stored s)"

lemma did_storage_lawsD:
  assumes "did_storage_laws D stored"
  shows "post (de_created D d) (\<lambda>rs t. rs = (case stored s of None \<Rightarrow> [] | Some r \<Rightarrow> [r]) \<and> t = s)
      (\<lambda>_ t. t = s) s"
    and "post (de_findById D i) (\<lambda>f t. f = stored s \<and> t = s) (\<lambda>_ t. t = s) s"
    and "post (de_save D r) (\<lambda>_ t. stored t = Some r \<and> de_pending D t = de_pending D s)
      (\<lambda>_ t. stored t = stored s \<and> de_pending D t = de_pending D s) s"
    and "post (de_publish D did doc) (\<lambda>_ t. stored t = stored s \<and> de_pending D t = de_pending D s)
      (\<lambda>_ t. stored t = stored s \<and> de_pending D t = de_pending D s) s"
    and "de_pending D (de_setPending D p s) = p" and "stored (de_setPending D p s) = stored s"
  using assms unfolding did_storage_laws_def by blast+

text \<open>The record a write leaves: the one given with the entry of the admin API in its document.\<close>

definition written :: "'s did_env \<Rightarrow> did_record \<Rightarrow> did_record" where
  "written D r = r\<lparr>dr_document := map_option (applyAdminApiServiceEntry (de_adminEndpoint D)) (dr_document r)\<rparr>"

lemma updateDidRecord_stores:
  assumes laws: "did_storage_laws D stored"
  shows "post (updateDidRecord D r)
     (\<lambda>_ t. stored t = Some (written D r) \<and> dr_document r \<noteq> None)
     (\<lambda>_ t. stored t = stored s \<or> stored t = Some (written D r) \<and> dr_document r \<noteq> None) s"
proof (cases "dr_document r")
  case (Some d)
  let ?r = "r\<lparr>dr_document := Some (applyAdminApiServiceEntry (de_adminEndpoint D) d)\<rparr>"
  note [simp] = did_storage_lawsD(5,6) [OF laws]
  have w: "written D r = ?r" by (simp add: written_def Some)
  have tail: "post (sqn (whenM b (de_publish D i doc)) (whenM c (scheduleTriggerResolverForOwnDid D cause)))
      (\<lambda>_ t. stored t = Some ?r) (\<lambda>_ t. stored t = Some ?r) u"
    if "stored u = Some ?r" for b c i doc cause u
    using that
    by (auto simp: wp scheduleTriggerResolverForOwnDid_def intro!: post_mono [OF did_storage_lawsD(4) [OF laws]])
  have "post (storedRecord D i) (\<lambda>_ t. t = s) (\<lambda>_ _. False) s" for i
    unfolding storedRecord_def post_catch post_ret
    by (rule post_mono [OF did_storage_lawsD(2) [OF laws]]) simp_all
  then show ?thesis
    unfolding updateDidRecord_def Some option.case Let_def post_bnd post_sqn [of "de_save D ?r"] w
    by (rule post_mono) (auto intro!: post_mono [OF did_storage_lawsD(3) [OF laws]] post_mono [OF tail])
qed (simp add: updateDidRecord_def wp)

end
