(* ===== verification/TrustStore.thy ===== *)
theory TrustStore
  imports PublishedDid
begin

text \<open>
  \<open>utils/trustCredentialStore.ts\<close>: the trust credentials the agent publishes from its DID document. An
  entry of a bucket is what \<open>SelfTrController\<close> serves at a URL; the linked presentation in the document
  announces it. A credential secured with Data Integrity is its secured JSON, one of data model 1.1 its
  JSON-LD; the fields the code reads of either are the members of that JSON.
\<close>

section \<open>Reading\<close>

definition head_option :: "'a list \<Rightarrow> 'a option" where
  "head_option xs = (case xs of [] \<Rightarrow> None | x # _ \<Rightarrow> Some x)"

definition getDidRecord :: "'s did_env \<Rightarrow> ('s, err, did_record option) comp" where
  "getDidRecord D = bnd (de_created D (de_did D)) (\<lambda>rs. ret (head_option rs))"

text \<open>A record that every use dereferences: without one the code throws a \<open>TypeError\<close>.\<close>

definition ownDidRecord :: "'s did_env \<Rightarrow> ('s, err, did_record) comp" where
  "ownDidRecord D = bnd (getDidRecord D) (\<lambda>r. case r of None \<Rightarrow> throw type_error | Some d \<Rightarrow> ret d)"

datatype trust_credential = DiCredential json | LdpCredential json
datatype trust_presentation = DiPresentation json | LdpPresentation json

fun trustCredentialEntry :: "trust_credential \<Rightarrow> json" where
  "trustCredentialEntry (DiCredential v) = v"
| "trustCredentialEntry (LdpCredential v) = v"

definition trustCredentialFields :: "trust_credential \<Rightarrow> json" where
  "trustCredentialFields c = trustCredentialEntry c"

fun trustPresentationEntry :: "trust_presentation \<Rightarrow> json" where
  "trustPresentationEntry (DiPresentation v) = v"
| "trustPresentationEntry (LdpPresentation v) = v"

definition trustPresentationId :: "trust_presentation \<Rightarrow> json option" where
  "trustPresentationId p = member (trustPresentationEntry p) ''id''"

datatype found_data = WholeBucket bucket | OneDocument "json option"

record found_entry =
  fe_schemaId :: string
  fe_entry :: "trust_entry option"
  fe_serviceId :: "string option"
  fe_data :: found_data

definition found_at :: "string \<Rightarrow> trust_entry \<Rightarrow> json option \<Rightarrow> found_entry" where
  "found_at i e d =
     \<lparr> fe_schemaId = i, fe_entry = Some e, fe_serviceId = te_serviceId e, fe_data = OneDocument d \<rparr>"

definition id_of :: "json option \<Rightarrow> json option" where
  "id_of v = Option.bind v (\<lambda>j. member j ''id'')"

definition match_entry :: "string option \<Rightarrow> string \<times> trust_entry \<Rightarrow> found_entry option" where
  "match_entry i p =
     (case p of (key, e) \<Rightarrow>
        if id_of (te_credential e) = map_option JStr i then Some (found_at key e (te_credential e))
        else if id_of (te_presentation e) = map_option JStr i
        then Some (found_at key e (te_presentation e))
        else None)"

definition is_attached :: "found_entry \<Rightarrow> bool" where
  "is_attached f \<longleftrightarrow> Option.bind (fe_entry f) te_attached \<noteq> Some False"

definition findMetadataEntry ::
  "did_record \<Rightarrow> bucket_key \<Rightarrow> string option \<Rightarrow> string option \<Rightarrow> found_entry option" where
  "findMetadataEntry r k i jsonSchemaRef =
     (case bucket_of r k of
        None \<Rightarrow> None
      | Some metadata \<Rightarrow>
          if \<not> truthy i \<and> \<not> truthy jsonSchemaRef
          then Some \<lparr> fe_schemaId = [], fe_entry = None, fe_serviceId = Some [], fe_data = WholeBucket metadata \<rparr>
          else case (if truthy jsonSchemaRef then map_of metadata (the jsonSchemaRef) else None) of
              Some e \<Rightarrow> Some (found_at (the jsonSchemaRef) e (te_presentation e))
            | None \<Rightarrow>
                let matched = List.map_filter (match_entry i) metadata
                in case find is_attached matched of Some f \<Rightarrow> Some f | None \<Rightarrow> head_option matched)"

definition getTrustMetadata :: "did_record \<Rightarrow> bucket_key \<Rightarrow> string option \<Rightarrow> found_entry option" where
  "getTrustMetadata r k i = findMetadataEntry r k i None"

definition getVerificationMethodId :: "did_record \<Rightarrow> err + string" where
  "getVerificationMethodId r =
     (case Option.bind (dr_document r) (\<lambda>d. Option.bind (dd_verificationMethod d) (find (\<lambda>m.
            (dm_type m = ''Ed25519VerificationKey2020'' \<or> dm_type m = ''Ed25519VerificationKey2018'') \<and>
            Option.bind (dd_assertionMethod d) head_option = Some (RefTo (dm_id m))))) of
        None \<Rightarrow> Inl (OtherError ''Cannot find a suitable Ed25519 verification method in DID Document'')
      | Some m \<Rightarrow> Inr (dm_id m))"

section \<open>Entries\<close>

definition without_service :: "string option \<Rightarrow> did_record \<Rightarrow> did_record" where
  "without_service i r = map_services (filter (\<lambda>s. Some (ds_id s) \<noteq> i)) r"

definition lvp_service :: "string \<Rightarrow> json \<Rightarrow> did_service" where
  "lvp_service i endpoint = \<lparr> ds_id = i, ds_type = LVP_TYPE, ds_endpoint = endpoint \<rparr>"

text \<open>The key of an entry: the schema of a credential, the subject of a schema credential.\<close>

definition entry_ref :: "json \<Rightarrow> bucket_key \<Rightarrow> json option" where
  "entry_ref v k =
     id_of (case member v (case k of VtcBucket \<Rightarrow> ''credentialSchema'' | JscBucket \<Rightarrow> ''credentialSubject'') of
              Some (JArr xs) \<Rightarrow> head_option xs
            | w \<Rightarrow> w)"

definition new_entry ::
  "string option \<Rightarrow> trust_credential \<Rightarrow> trust_presentation \<Rightarrow> string \<Rightarrow> trust_entry" where
  "new_entry typeMetadata c p serviceId =
     \<lparr> te_typeMetadata = typeMetadata, te_credential = Some (trustCredentialEntry c),
       te_presentation = Some (trustPresentationEntry p), te_serviceId = Some serviceId,
       te_integrityData = None, te_attached = None, te_issuerParticipantId = None,
       te_schemaKey = None \<rparr>"

text \<open>The record that \<open>saveMetadataEntry\<close> writes, for an entry with the key \<open>ref\<close>.\<close>

definition saved_record ::
  "did_record \<Rightarrow> trust_credential \<Rightarrow> trust_presentation \<Rightarrow> string \<Rightarrow> bucket_key \<Rightarrow> string \<Rightarrow> did_record" where
  "saved_record r c p serviceId k ref =
     (let bucket = withDefault (bucket_of r k) [];
          credentialId = as_string (member (trustCredentialFields c) ''id'');
          f = findMetadataEntry r k credentialId (Some ref);
          typeMetadata = (case f of
             Some hit \<Rightarrow> if fe_schemaId hit = ref
               then Option.bind (map_of bucket ref) te_typeMetadata else None
           | None \<Rightarrow> None);
          r1 = (case f of Some hit \<Rightarrow> without_service (fe_serviceId hit) r | None \<Rightarrow> r);
          b1 = (case f of Some hit \<Rightarrow> jsmap_delete (fe_schemaId hit) bucket | None \<Rightarrow> bucket);
          b2 = jsmap_set ref (new_entry typeMetadata c p serviceId) b1;
          r2 = map_services (\<lambda>ss. ss @ [lvp_service serviceId
                 (withDefault (trustPresentationId p) JNull)]) r1
      in set_bucket k b2 r2)"

definition saveMetadataEntry ::
  "'s did_env \<Rightarrow> did_record \<Rightarrow> trust_credential \<Rightarrow> trust_presentation \<Rightarrow> string \<Rightarrow> bucket_key \<Rightarrow>
   ('s, err, unit) comp" where
  "saveMetadataEntry D r c p serviceId k =
     (case entry_ref (trustCredentialFields c) k of
        Some (JStr ref) \<Rightarrow>
          if ref = [] then throw (OtherError ''No ID was found in credentialSubject'')
          else updateDidRecord D (saved_record r c p serviceId k ref)
      | _ \<Rightarrow> throw (OtherError ''No ID was found in credentialSubject''))"

definition deleteMetadataEntry ::
  "'s did_env \<Rightarrow> string \<Rightarrow> did_record \<Rightarrow> bucket_key \<Rightarrow> ('s, err, string option) comp" where
  "deleteMetadataEntry D i r k =
     (case findMetadataEntry r k (Some i) (Some i) of
        None \<Rightarrow> ret None
      | Some hit \<Rightarrow>
          (case bucket_of r k of
             None \<Rightarrow> ret None
           | Some metadata \<Rightarrow>
               sqn (updateDidRecord D (set_bucket k (jsmap_delete (fe_schemaId hit) metadata) r))
                 (ret (Some (fe_schemaId hit)))))"

definition removeTrustCredential ::
  "'s did_env \<Rightarrow> string \<Rightarrow> bucket_key \<Rightarrow> ('s, err, string option) comp" where
  "removeTrustCredential D i k =
     bnd (ownDidRecord D) (\<lambda>r.
     let f = findMetadataEntry r k (Some i) (Some i);
         r1 = (case f of
            Some hit \<Rightarrow> if truthy (fe_serviceId hit) then without_service (fe_serviceId hit) r else r
          | None \<Rightarrow> r)
     in deleteMetadataEntry D i r1 k)"

section \<open>Publishing\<close>

definition signLinkedPresentation ::
  "'s did_env \<Rightarrow> string \<Rightarrow> trust_credential \<Rightarrow> string \<Rightarrow> ('s, err, trust_presentation) comp" where
  "signLinkedPresentation D endpoint c vm =
     (case c of
        DiCredential v \<Rightarrow> bnd (de_signDiPresentation D endpoint (de_did D) v vm) (\<lambda>p. ret (DiPresentation p))
      | LdpCredential v \<Rightarrow> bnd (de_signLdpPresentation D endpoint (de_did D) v vm) (\<lambda>p. ret (LdpPresentation p)))"

text \<open>\<open>${agent.did}\<close> in a template literal.\<close>

definition did_text :: "'s did_env \<Rightarrow> string" where
  "did_text D = withDefault (de_did D) ''undefined''"

text \<open>\<open>s.replace(pat, by)\<close>: the first occurrence.\<close>

fun replace_first :: "string \<Rightarrow> string \<Rightarrow> string \<Rightarrow> string" where
  "replace_first pat by0 [] = (if pat = [] then by0 else [])"
| "replace_first pat by0 (c # s) =
     (if take (length pat) (c # s) = pat then by0 @ drop (length pat) (c # s)
      else c # replace_first pat by0 s)"

definition createVtc ::
  "'s did_env \<Rightarrow> string \<Rightarrow> string \<Rightarrow> trust_credential \<Rightarrow> ('s, err, trust_presentation) comp" where
  "createVtc D publicApiBaseUrl i c =
     bnd (ownDidRecord D) (\<lambda>r.
     let file = ''schemas-'' @ i @ ''-vtc-vp.json'';
         serviceId = did_text D @ ''#vpr-'' @ replace_first ''.json'' [] file;
         serviceEndpoint = publicApiBaseUrl @ ''/vt/'' @ file
     in bnd (raise (\<lambda>_. getVerificationMethodId r)) (\<lambda>vm.
        bnd (signLinkedPresentation D serviceEndpoint c vm) (\<lambda>p.
        sqn (saveMetadataEntry D r c p serviceId VtcBucket) (ret p))))"

section \<open>Withdrawing\<close>

text \<open>\<open>a?.b?.c\<close> on JSON.\<close>

definition members :: "json \<Rightarrow> string list \<Rightarrow> json option" where
  "members v ks = fold (\<lambda>k w. Option.bind w (\<lambda>j. member j k)) ks (Some v)"

definition findExchangeCredentialId :: "'s did_env \<Rightarrow> string \<Rightarrow> ('s, err, string option) comp" where
  "findExchangeCredentialId D exchangeId =
     bnd (catch (bnd (de_formatData D exchangeId) (\<lambda>v. ret (Some v)))
            (\<lambda>e. case e of RecordNotFoundError m \<Rightarrow> ret None | _ \<Rightarrow> throw e)) (\<lambda>formatData.
     ret (as_string (Option.bind formatData (\<lambda>v.
            members v [''credential'', ''dataIntegrity'', ''credential'', ''id'']))))"

text \<open>The stored credentials tagged with the id.\<close>

definition delete_tagged ::
  "(string \<times> string option) list \<Rightarrow> string \<Rightarrow> (string \<Rightarrow> ('s, err, unit) comp) \<Rightarrow> ('s, err, unit) comp" where
  "delete_tagged records credId deleteById =
     forM records (\<lambda>(i, givenId). whenM (givenId = Some credId) (deleteById i))"

definition removeStoredTrustCredential ::
  "'s did_env \<Rightarrow> string option \<Rightarrow> string option \<Rightarrow> ('s, err, string option) comp" where
  "removeStoredTrustCredential D credId0 exchangeId =
     bnd (case credId0 of
            Some i \<Rightarrow> ret (Some i)
          | None \<Rightarrow> if truthy exchangeId then findExchangeCredentialId D (the exchangeId) else ret None) (\<lambda>hit.
     if \<not> truthy hit then ret None
     else let credId = the hit
          in bnd (removeTrustCredential D credId VtcBucket) (\<lambda>_.
             bnd (de_v2Records D) (\<lambda>v2.
             sqn (delete_tagged v2 credId (de_deleteV2 D))
            (bnd (de_v1Records D) (\<lambda>v1.
             sqn (delete_tagged v1 credId (de_deleteV1 D)) (ret (Some credId)))))))"

section \<open>Schema credentials in the document\<close>

definition ends_with :: "string \<Rightarrow> string \<Rightarrow> bool" where
  "ends_with suffix0 s \<longleftrightarrow> length suffix0 \<le> length s \<and> drop (length s - length suffix0) s = suffix0"

definition vtjsc_service_id :: "string \<Rightarrow> string option" where
  "vtjsc_service_id serviceId =
     (if serviceId = [] \<or> \<not> ends_with ''-jsc-vp'' serviceId \<or> ends_with ''-vtjsc-vp'' serviceId then None
      else Some (take (length serviceId - 7) serviceId @ ''-vtjsc-vp''))"

fun rename_service :: "string \<Rightarrow> string \<Rightarrow> did_service list \<Rightarrow> did_service list" where
  "rename_service i j [] = []"
| "rename_service i j (s # ss) = (if ds_id s = i then s\<lparr>ds_id := j\<rparr> # ss else s # rename_service i j ss)"

text \<open>One entry: the record with the entry and its service renamed, and whether anything changed.\<close>

definition migrate_entry :: "string \<times> trust_entry \<Rightarrow> did_record \<times> bucket \<times> bool \<Rightarrow> did_record \<times> bucket \<times> bool" where
  "migrate_entry p acc =
     (case (p, acc) of ((key, e), (r, b, changed)) \<Rightarrow>
        (case Option.bind (te_serviceId e) vtjsc_service_id of
           None \<Rightarrow> (r, b @ [(key, e)], changed)
         | Some next1 \<Rightarrow>
             (map_services (rename_service (the (te_serviceId e)) next1) r,
              b @ [(key, e\<lparr>te_serviceId := Some next1\<rparr>)], True)))"

definition migrateVtjscServiceIds :: "'s did_env \<Rightarrow> ('s, err, unit) comp" where
  "migrateVtjscServiceIds D =
     (if \<not> truthy (de_did D) then ret ()
      else bnd (getDidRecord D) (\<lambda>r0. case r0 of
         None \<Rightarrow> ret ()
       | Some r \<Rightarrow>
           (case dr_jsc r of
              None \<Rightarrow> ret ()
            | Some metadata \<Rightarrow>
                (case fold migrate_entry metadata (r, [], False) of
                   (r1, b1, changed) \<Rightarrow>
                     if \<not> changed then ret () else updateDidRecord D (set_bucket JscBucket b1 r1)))))"

text \<open>Takes the service of each entry out; the result lists the entries that had one.\<close>

fun detach_services :: "bucket \<Rightarrow> string list \<Rightarrow> did_service list \<Rightarrow> did_service list \<times> string list" where
  "detach_services metadata [] ss = (ss, [])"
| "detach_services metadata (ref # refs) ss =
     (case Option.bind (map_of metadata ref) te_serviceId of
        None \<Rightarrow> detach_services metadata refs ss
      | Some i \<Rightarrow>
          if i = [] \<or> \<not> list_ex (\<lambda>s. ds_id s = i) ss then detach_services metadata refs ss
          else (case detach_services metadata refs (filter (\<lambda>s. ds_id s \<noteq> i) ss) of
                  (ts, detached) \<Rightarrow> (ts, ref # detached)))"

definition detachVtjscPublications :: "'s did_env \<Rightarrow> string list \<Rightarrow> ('s, err, string list) comp" where
  "detachVtjscPublications D schemaRefs =
     (if schemaRefs = [] then ret []
      else bnd (getDidRecord D) (\<lambda>r0.
        case (r0, Option.bind r0 services_of, Option.bind r0 dr_jsc) of
          (Some r, Some ss, Some metadata) \<Rightarrow>
            (case detach_services metadata schemaRefs ss of
               (ts, detached) \<Rightarrow>
                 if detached = [] then ret []
                 else sqn (updateDidRecord D (set_services ts r)) (ret detached))
        | _ \<Rightarrow> ret []))"

definition reattachVtjscPublication :: "'s did_env \<Rightarrow> string \<Rightarrow> ('s, err, bool) comp" where
  "reattachVtjscPublication D schemaRef =
     bnd (getDidRecord D) (\<lambda>r0. case r0 of
        None \<Rightarrow> ret False
      | Some r \<Rightarrow>
          if dr_document r = None then ret False
          else
            let e = Option.bind (dr_jsc r) (\<lambda>b. map_of b schemaRef);
                serviceId = Option.bind e te_serviceId;
                endpoint = as_string (id_of (Option.bind e te_presentation));
                services = withDefault (services_of r) []
            in if \<not> truthy serviceId \<or> \<not> truthy endpoint \<or> list_ex (\<lambda>s. ds_id s = the serviceId) services
               then ret False
               else sqn (updateDidRecord D (set_services
                       (services @ [lvp_service (the serviceId) (JStr (the endpoint))]) r)) (ret True))"

section \<open>Type metadata\<close>

definition saveVtjscTypeMetadata :: "'s did_env \<Rightarrow> string \<Rightarrow> string \<Rightarrow> ('s, err, bool) comp" where
  "saveVtjscTypeMetadata D schemaRef typeMetadata =
     bnd (getDidRecord D) (\<lambda>r0.
       case (r0, Option.bind (Option.bind r0 dr_jsc) (\<lambda>b. map_of b schemaRef)) of
         (Some r, Some e) \<Rightarrow>
           if te_typeMetadata e \<noteq> None then ret False
           else sqn (de_save D (set_bucket JscBucket
                   (jsmap_set schemaRef (e\<lparr>te_typeMetadata := Some typeMetadata\<rparr>) (withDefault (dr_jsc r) [])) r))
                 (ret True)
       | _ \<Rightarrow> ret False)"

definition findVtjscTypeMetadata :: "did_record \<Rightarrow> string \<Rightarrow> string \<Rightarrow> string option" where
  "findVtjscTypeMetadata r chainId schemaId0 =
     Option.bind (dr_jsc r) (\<lambda>b.
     Option.bind (map_of b (''vpr:verana:'' @ chainId @ '':cs:'' @ schemaId0)) te_typeMetadata)"

end
