(* ===== verification/SelfIssued.thy ===== *)
theory SelfIssued
  imports TrustStore
begin

text \<open>
  The credentials the agent issues to itself: \<open>utils/selfIssuedEcsCredential.ts\<close>, the parts of
  \<open>utils/setupSelfTr.ts\<close> it uses, and the binding of those credentials to an on-chain schema and their
  withdrawal (\<open>utils/trustCredentialStore.ts\<close>).
\<close>

section \<open>Helpers of setupSelfTr\<close>

definition linkedVpFragment :: "string \<Rightarrow> string" where
  "linkedVpFragment schemaKey0 =
     ''vpr-schemas-'' @ (if take 4 schemaKey0 = ''ecs-'' then drop 4 schemaKey0 else schemaKey0) @ ''-vtc-vp''"

fun sortKeysDeep :: "json \<Rightarrow> json" where
  "sortKeysDeep (JArr xs) = JArr (map sortKeysDeep xs)"
| "sortKeysDeep (JObj ps) = JObj (sort_key key_order (map (\<lambda>p. (fst p, sortKeysDeep (snd p))) ps))"
| "sortKeysDeep v = v"

definition generateDigestSRI :: "'s did_env \<Rightarrow> string \<Rightarrow> string" where
  "generateDigestSRI D content = ''sha384-'' @ de_sha384 D content"

definition buildIntegrityData :: "'s did_env \<Rightarrow> json \<Rightarrow> string" where
  "buildIntegrityData D data = generateDigestSRI D (JSON_stringify (sortKeysDeep data))"

definition getClaims ::
  "'s did_env \<Rightarrow> (string \<rightharpoonup> string) \<Rightarrow> string \<Rightarrow> string \<Rightarrow> ('s, err, (string \<times> json) list) comp" where
  "getClaims D ecsSchemas i key =
     bnd (de_claims D key) (\<lambda>c. case c of
        None \<Rightarrow> throw (OtherError (''No ECS_CLAIMS_* variable is set for '' @ key))
      | Some composed \<Rightarrow>
          if \<not> truthy (ecsSchemas key)
          then throw (OtherError (''Schema not defined in data schemas for schemaKey: '' @ key))
          else sqn (de_validateSchema D (the (ecsSchemas key))
                      (JObj (fold (\<lambda>(k, v). jsmap_set k v) composed [(''id'', JStr i)])))
                 (ret composed))"

section \<open>Issuing to itself\<close>

definition text_or_id :: "json option \<Rightarrow> json option" where
  "text_or_id v = (case v of Some (JStr s) \<Rightarrow> Some (JStr s) | w \<Rightarrow> id_of w)"

definition proofs_of :: "json \<Rightarrow> json list" where
  "proofs_of credential =
     (case member credential ''proof'' of
        None \<Rightarrow> []
      | Some (JArr xs) \<Rightarrow> xs
      | Some p \<Rightarrow> if js_truthy p then [p] else [])"

definition assertion_ids :: "did_record \<Rightarrow> string list" where
  "assertion_ids r =
     map (\<lambda>x. case x of RefTo i \<Rightarrow> i | Embedded i \<Rightarrow> i)
       (withDefault (Option.bind (dr_document r) dd_assertionMethod) [])"

definition storedCredentialIsCurrent ::
  "json option \<Rightarrow> string \<Rightarrow> string \<Rightarrow> string \<Rightarrow> did_record \<Rightarrow> string option \<Rightarrow> bool" where
  "storedCredentialIsCurrent stored credId schemaId0 d r validUntil0 =
     (case stored of
        None \<Rightarrow> False
      | Some credential \<Rightarrow>
          isDataIntegrityVcdm2Credential credential \<and>
          text_or_id (member credential ''issuer'') = Some (JStr d) \<and>
          member credential ''id'' = Some (JStr credId) \<and>
          id_of (case member credential ''credentialSchema'' of
                   Some (JArr xs) \<Rightarrow> head_option xs | v \<Rightarrow> v) = Some (JStr schemaId0) \<and>
          member credential ''validUntil'' = map_option JStr validUntil0 \<and>
          proofs_of credential \<noteq> [] \<and>
          list_all (\<lambda>p. case as_string (member p ''verificationMethod'') of
             None \<Rightarrow> False | Some m \<Rightarrow> m \<noteq> [] \<and> m \<in> set (assertion_ids r)) (proofs_of credential))"

definition signSelfIssuedEcsCredential ::
  "'s did_env \<Rightarrow> did_record \<Rightarrow> string \<Rightarrow> string \<Rightarrow> string list \<Rightarrow> (string \<times> json) list \<Rightarrow> string \<Rightarrow> string \<Rightarrow>
   string option \<Rightarrow> ('s, err, json) comp" where
  "signSelfIssuedEcsCredential D r presentationId credId types composed schemaId0 schemaType validUntil0 =
     bnd (de_now D) (\<lambda>t.
     bnd (raise (\<lambda>_. getVerificationMethodId r)) (\<lambda>vm.
     bnd (de_signCredential D
            \<lparr> w3_id = credId, w3_type = types, w3_issuer = de_did D, w3_context = CREDENTIALS_V2_CONTEXT,
              w3_credentialSubject = JObj (jsmap_set ''id'' (JStr (did_text D)) composed),
              w3_credentialSchema = JObj [(''id'', JStr schemaId0), (''type'', JStr schemaType)],
              w3_validFrom = toISOString t, w3_validUntil = validUntil0 \<rparr> vm) (\<lambda>signed1.
     de_signDiPresentation D presentationId (de_did D) signed1 vm)))"

text \<open>The document with the linked presentation of \<open>schemaKey\<close> at \<open>url\<close>.\<close>

definition relinked :: "string \<Rightarrow> string \<Rightarrow> string \<Rightarrow> string \<Rightarrow> did_service \<Rightarrow> did_service" where
  "relinked whoisId serviceId file url s =
     (case ds_endpoint s of
        JStr e \<Rightarrow>
          if ds_type s \<noteq> LVP_TYPE \<or> ds_id s = whoisId then s
          else if ds_id s \<noteq> serviceId \<and> \<not> ends_with file e then s
          else s\<lparr>ds_id := serviceId, ds_endpoint := JStr url\<rparr>
      | _ \<Rightarrow> s)"

fun point_first :: "string \<Rightarrow> string \<Rightarrow> did_service list \<Rightarrow> did_service list" where
  "point_first i url [] = []"
| "point_first i url (s # ss) =
     (if ds_id s = i then s\<lparr>ds_endpoint := JStr url\<rparr> # ss else s # point_first i url ss)"

definition linked_services ::
  "string \<Rightarrow> string \<Rightarrow> string \<Rightarrow> string \<Rightarrow> did_service list option \<Rightarrow> did_service list option" where
  "linked_services d key serviceId url ss0 =
     (let whoisId = d @ ''#whois'';
          ss1 = map_option (map (relinked whoisId serviceId (''/'' @ key @ ''-vtc-vp.json'') url)) ss0;
          ss2 = (if list_ex (\<lambda>s. ds_id s = serviceId) (withDefault ss1 []) then ss1
                 else Some (withDefault ss1 [] @ [lvp_service serviceId (JStr url)]))
      in if key \<noteq> ''ecs-service'' then ss2
         else if list_ex (\<lambda>s. ds_id s = whoisId) (withDefault ss2 [])
         then map_option (point_first whoisId url) ss2
         else Some (withDefault ss2 [] @ [lvp_service whoisId (JStr url)]))"

definition is_superseded :: "bucket \<Rightarrow> string \<Rightarrow> string \<Rightarrow> bool" where
  "is_superseded b schemaId0 url \<longleftrightarrow>
     list_ex (\<lambda>(k, e). k \<noteq> schemaId0 \<and> id_of (te_presentation e) = Some (JStr url) \<and>
       te_attached e \<noteq> Some False) b"

definition self_issued_entry :: "json \<Rightarrow> string \<Rightarrow> string \<Rightarrow> bool \<Rightarrow> trust_entry" where
  "self_issued_entry p serviceId integrity attached =
     \<lparr> te_typeMetadata = None,
       te_credential = (case member p ''verifiableCredential'' of
          Some (JArr xs) \<Rightarrow> head_option xs | _ \<Rightarrow> None),
       te_presentation = Some p, te_serviceId = Some serviceId, te_integrityData = Some integrity,
       te_attached = Some attached, te_issuerParticipantId = None, te_schemaKey = None \<rparr>"

definition self_issued_record ::
  "did_record \<Rightarrow> string \<Rightarrow> string \<Rightarrow> string \<Rightarrow> string \<Rightarrow> string \<Rightarrow> json \<Rightarrow> string \<Rightarrow> bool \<Rightarrow> did_record" where
  "self_issued_record r d key url serviceId schemaId0 p integrity attached =
     (let r1 = (if attached
            then r\<lparr>dr_document := map_option (\<lambda>doc. doc\<lparr>dd_service :=
                    linked_services d key serviceId url (dd_service doc)\<rparr>) (dr_document r)\<rparr>
            else r)
      in set_bucket VtcBucket (jsmap_set schemaId0 (self_issued_entry p serviceId integrity attached)
           (withDefault (dr_vtc r) [])) r1)"

definition publishSelfIssuedEcsPresentation ::
  "'s did_env \<Rightarrow> string \<Rightarrow> (string \<rightharpoonup> string) \<Rightarrow> string \<Rightarrow> string \<Rightarrow> string list \<Rightarrow> string \<Rightarrow> string \<Rightarrow>
   (json \<Rightarrow> ('s, err, unit) comp) \<Rightarrow> string option \<Rightarrow> ('s, err, json) comp" where
  "publishSelfIssuedEcsPresentation D url ecsSchemas key sid types schemaId0 schemaType beforePublish validUntil0 =
     (if \<not> truthy (de_did D) then throw (OtherError ''The DID must be set up'')
      else bnd (ownDidRecord D) (\<lambda>r.
        if dr_document r = None then throw (OtherError ''The DID Document must be set up'')
        else bnd (getClaims D ecsSchemas (the (de_did D)) key) (\<lambda>composed.
          if \<not> truthy validUntil0 \<and> schemaRequiresValidUntil (withDefault (ecsSchemas key) [])
          then throw (OtherError (''Not issuing the '' @ key @ '' credential: its schema requires '' @
                 ''validUntil and the ISSUER participant has no effective_until''))
          else
            let d = the (de_did D);
                serviceId = d @ ''#'' @ linkedVpFragment key;
                credId = d @ ''#schemas-'' @ sid @ ''-vtc'';
                integrity = buildIntegrityData D (JObj
                  [(''id'', JStr url), (''type'', JArr (map JStr types)),
                   (''credentialSchema'', JObj [(''id'', JStr schemaId0), (''type'', JStr schemaType)]),
                   (''claims'', JObj composed)]);
                bucket = withDefault (dr_vtc r) [];
                metadata = map_of bucket schemaId0;
                attached = (Option.bind metadata te_attached \<noteq> Some False \<and>
                            \<not> is_superseded bucket schemaId0 url);
                current = (Option.bind metadata te_integrityData = Some integrity \<and>
                  storedCredentialIsCurrent (Option.bind metadata te_credential) credId schemaId0 d r validUntil0);
                publish = (\<lambda>p. if attached then beforePublish p else ret ())
            in if current
               then let p = withDefault (Option.bind metadata te_presentation) JNull
                    in sqn (publish p) (ret p)
               else bnd (signSelfIssuedEcsCredential D r url credId types composed schemaId0 schemaType validUntil0)
                 (\<lambda>p.
                  sqn (publish p)
                 (sqn (updateDidRecord D (self_issued_record r d key url serviceId schemaId0 p integrity attached))
                   (ret p))))))"

section \<open>Anchoring and binding\<close>

definition anchorCredentialDigest ::
  "'s did_env \<Rightarrow> string \<Rightarrow> json option \<Rightarrow> int \<Rightarrow> ('s, err, unit) comp" where
  "anchorCredentialDigest D sid credential issuer =
     (case de_chain D of
        None \<Rightarrow> ret ()
      | Some _ \<Rightarrow>
          (case credential of
             None \<Rightarrow> throw (OtherError (''[DigestAnchor] The presentation for schema '' @ sid @
                       '' has no credential''))
           | Some c \<Rightarrow>
               if \<not> truthy (de_did D) then throw (OtherError ''[DigestAnchor] The agent has no public DID'')
               else bnd (or_undefined (de_schema D sid)) (\<lambda>s. case s of
                   None \<Rightarrow> throw (OtherError (''[DigestAnchor] Credential schema '' @ sid @ '' is not on chain''))
                 | Some schema \<Rightarrow>
                     bnd (raise (\<lambda>_. de_digestJCS D c (sd_digest_algorithm schema))) (\<lambda>digest.
                     bnd (de_anchored D digest) (\<lambda>known.
                     if known \<noteq> None then ret ()
                     else sqn (de_anchorSession D issuer digest) (de_waitForDigest D digest))))))"

definition first_credential :: "json \<Rightarrow> json option" where
  "first_credential p =
     (case member p ''verifiableCredential'' of Some (JArr xs) \<Rightarrow> head_option xs | _ \<Rightarrow> None)"

definition keeps_foreign :: "'s did_env \<Rightarrow> trust_entry \<Rightarrow> bool" where
  "keeps_foreign D e \<longleftrightarrow>
     te_credential e \<noteq> None \<and> \<not> truthy (te_integrityData e) \<and>
     text_or_id (Option.bind (te_credential e) (\<lambda>c. member c ''issuer'')) \<noteq> map_option JStr (de_did D)"

definition is_stale :: "string \<Rightarrow> string \<Rightarrow> string \<times> trust_entry \<Rightarrow> bool" where
  "is_stale jscUrl vpUrl p \<longleftrightarrow>
     fst p \<noteq> jscUrl \<and> id_of (te_presentation (snd p)) = Some (JStr vpUrl)"

text \<open>The record after the publication: the entry names its issuer, the document the service.\<close>

definition bound_entry :: "bucket \<Rightarrow> string \<Rightarrow> int \<Rightarrow> string \<Rightarrow> trust_entry option" where
  "bound_entry vtc jscUrl issuer key =
     (case map_of vtc jscUrl of
        None \<Rightarrow> None
      | Some e \<Rightarrow>
          if te_issuerParticipantId e = Some issuer \<and> te_schemaKey e = Some key then None
          else Some (e\<lparr>te_issuerParticipantId := Some issuer, te_schemaKey := Some key\<rparr>))"

definition bound_record ::
  "did_record \<Rightarrow> string \<Rightarrow> int \<Rightarrow> string \<Rightarrow> string \<Rightarrow> string \<Rightarrow> did_record \<times> bool" where
  "bound_record r jscUrl issuer key serviceId vpUrl =
     (let e = bound_entry (withDefault (dr_vtc r) []) jscUrl issuer key;
          r1 = (case e of
             None \<Rightarrow> r
           | Some x \<Rightarrow> set_bucket VtcBucket (jsmap_set jscUrl x (withDefault (dr_vtc r) [])) r);
          ss = withDefault (services_of r1) [];
          is_linked = list_ex (\<lambda>s. ds_id s = serviceId) ss
      in (if is_linked then r1 else set_services (ss @ [lvp_service serviceId (JStr vpUrl)]) r1,
          e \<noteq> None \<or> \<not> is_linked))"

definition rebindEcsCredentialSchema ::
  "'s did_env \<Rightarrow> string \<Rightarrow> string \<Rightarrow> string \<Rightarrow> string \<Rightarrow> int \<Rightarrow> string option \<Rightarrow> string option \<Rightarrow>
   ('s, err, unit) comp" where
  "rebindEcsCredentialSchema D base sid key jscUrl issuer onChainSchema until =
     (if \<not> truthy (de_did D) then ret ()
      else
        let vpUrl = base @ ''/vt/'' @ key @ ''-vtc-vp.json'';
            ecsSchemas = map_of (if truthy onChainSchema
               then jsmap_set key (the onChainSchema) (de_ecsSchemas D) else de_ecsSchemas D);
            serviceId = the (de_did D) @ ''#'' @ linkedVpFragment key
        in bnd (ownDidRecord D) (\<lambda>r.
           let bucket = withDefault (dr_vtc r) [];
               fresh_bucket = filter (\<lambda>p. \<not> is_stale jscUrl vpUrl p) bucket
           in if (case map_of bucket jscUrl of None \<Rightarrow> False | Some e \<Rightarrow> keeps_foreign D e) then ret ()
              else
                sqn (whenM (list_ex (is_stale jscUrl vpUrl) bucket)
                       (updateDidRecord D (set_bucket VtcBucket fresh_bucket r)))
               (sqn (publishSelfIssuedEcsPresentation D vpUrl ecsSchemas key sid
                       [''VerifiableCredential'', ''VerifiableTrustCredential''] jscUrl ''JsonSchemaCredential''
                       (\<lambda>p. anchorCredentialDigest D sid (first_credential p) issuer)
                       until)
               (bnd (ownDidRecord D) (\<lambda>r2.
                if dr_document r2 = None then ret ()
                else case bound_record r2 jscUrl issuer key serviceId vpUrl of
                    (r3, changed) \<Rightarrow> whenM changed (updateDidRecord D r3))))))"

section \<open>Withdrawing\<close>

fun withdraw_entries ::
  "'s did_env \<Rightarrow> int \<Rightarrow> bucket \<Rightarrow> ('s, err, string list \<times> bool) comp" where
  "withdraw_entries D issuer [] = ret ([], False)"
| "withdraw_entries D issuer ((jscUrl, e) # b) =
     (if te_issuerParticipantId e \<noteq> Some issuer
      then withdraw_entries D issuer b
      else bnd (removeTrustCredential D jscUrl VtcBucket) (\<lambda>_.
           bnd (withdraw_entries D issuer b) (\<lambda>(withdrawn, whois).
           ret (jscUrl # withdrawn, te_schemaKey e = Some ''ecs-service'' \<or> whois))))"

definition withdrawSelfIssuedEcsCredentials :: "'s did_env \<Rightarrow> int \<Rightarrow> ('s, err, string list) comp" where
  "withdrawSelfIssuedEcsCredentials D issuer =
     bnd (ownDidRecord D) (\<lambda>r.
     bnd (withdraw_entries D issuer (withDefault (dr_vtc r) [])) (\<lambda>(withdrawn, whois).
     sqn (if \<not> whois then ret ()
          else bnd (ownDidRecord D) (\<lambda>r1.
            if services_of r1 = None then ret ()
            else updateDidRecord D (without_service (Some (did_text D @ ''#whois'')) r1)))
       (ret withdrawn)))"

end
