(* ===== verification/VtjscPublish.thy ===== *)
theory VtjscPublish
  imports SelfIssued
begin

text \<open>
  The schema credentials (VTJSC) of the ecosystems the agent controls: their issuance
  (\<open>utils/trustCredentialStore.ts\<close>, \<open>utils/setupSelfTr.ts\<close>), their type metadata
  (\<open>utils/typeMetadata.ts\<close>, \<open>utils/util.ts\<close>) and AnonCreds schema, and the startup pass over all of them
  and over the self-issued credentials (\<open>handlers/stateMutations.ts\<close>).
\<close>

section \<open>What a JSON schema says\<close>

record json_schema_shape =
  js_title :: "json option"
  js_description :: "json option"
  js_attrNames :: "string list"
  js_attrTitles :: "(string \<times> string) list"

definition named_text :: "json option \<Rightarrow> string option" where
  "named_text v = (case v of Some (JStr s) \<Rightarrow> if js_trim s \<noteq> [] then Some s else None | _ \<Rightarrow> None)"

text \<open>\<open>JSON.parse\<close> throws on a text that is no JSON.\<close>

definition readJsonSchema :: "string \<Rightarrow> err + json_schema_shape" where
  "readJsonSchema t =
     (case JSON_parse t of
        None \<Rightarrow> Inl (OtherError ''SyntaxError'')
      | Some parsed \<Rightarrow>
          let ps = (case members parsed [''properties'', ''credentialSubject'', ''properties''] of
                 Some v \<Rightarrow> JsText.fields v | None \<Rightarrow> [])
          in Inr \<lparr> js_title = member parsed ''title'', js_description = member parsed ''description'',
                   js_attrNames = map fst ps,
                   js_attrTitles = List.map_filter (\<lambda>(name, v).
                     map_option (\<lambda>t1. (name, t1)) (named_text (member v ''title''))) ps \<rparr>)"

definition anonCredsSchemaFromJsonSchema :: "string \<Rightarrow> err + (string \<times> string list)" where
  "anonCredsSchemaFromJsonSchema t =
     case_sum Inl (\<lambda>shape.
       if \<not> truthy (as_string (js_title shape)) then Inl (OtherError ''The JSON Schema carries no title'')
       else let name = the (as_string (js_title shape))
            in if js_attrNames shape = []
               then Inl (OtherError (''The JSON Schema \"'' @ name @ ''\" defines no credentialSubject property''))
               else Inr (name, js_attrNames shape)) (readJsonSchema t)"

definition DISPLAY_LOCALE :: string where
  "DISPLAY_LOCALE = ''en''"

text \<open>The id of a schema, a string or a number, only ever becomes part of a text.\<close>

definition typeMetadataUrl :: "string \<Rightarrow> string \<Rightarrow> string" where
  "typeMetadataUrl base i = base @ ''/vt/vct/'' @ i"

definition composeTypeMetadata :: "string \<Rightarrow> string \<Rightarrow> string \<Rightarrow> string \<Rightarrow> err + string" where
  "composeTypeMetadata vct t ref jscId =
     case_sum Inl (\<lambda>shape.
       let name = withDefault (named_text (js_title shape)) ref;
           described = (case js_description shape of
              Some v \<Rightarrow> if js_truthy v then [(''description'', v)] else [] | None \<Rightarrow> []);
           claim = (\<lambda>attr. JObj
             [(''path'', JArr [JStr attr]),
              (''display'', JArr [JObj [(''locale'', JStr DISPLAY_LOCALE),
                 (''label'', JStr (withDefault (map_of (js_attrTitles shape) attr) attr))]]),
              (''sd'', JStr ''always'')])
       in Inr (JSON_stringify (JObj
            ([(''vct'', JStr vct), (''name'', JStr name)] @ described @
             [(''display'', JArr [JObj ([(''locale'', JStr DISPLAY_LOCALE), (''name'', JStr name)] @ described)]),
              (''claims'', JArr (map claim (js_attrNames shape))),
              (''relatedJsonSchemaCredentialId'', JStr jscId)])))) (readJsonSchema t)"

section \<open>Issuing a schema credential\<close>

definition TEN_YEARS_MS :: int where
  "TEN_YEARS_MS = 10 * 365 * 24 * 60 * 60 * 1000"

definition all_digits :: "string \<Rightarrow> bool" where
  "all_digits s \<longleftrightarrow> s \<noteq> [] \<and> list_all is_digit s"

text \<open>\<open>vpr:verana:<chain>:cs:<number>\<close>, as the regular expression takes it apart.\<close>

definition vpr_schema_ref :: "string \<Rightarrow> (string \<times> string) option" where
  "vpr_schema_ref input =
     (let r = drop 11 input; chain = takeWhile (\<lambda>c. c \<noteq> CHR '':'' \<and> c \<noteq> CHR ''/'') r;
          tail0 = drop (length chain) r; n = drop 4 tail0
      in if chain \<noteq> [] \<and> take 4 tail0 = '':cs:'' \<and> all_digits n then Some (chain, n) else None)"

definition mapToEcosystem :: "(string \<Rightarrow> string option) \<Rightarrow> string \<Rightarrow> err + string" where
  "mapToEcosystem indexerByChain input =
     (if take 11 input \<noteq> ''vpr:verana:'' then Inr input
      else case vpr_schema_ref input of
          None \<Rightarrow> Inl (OtherError (''Malformed VPR schema reference \"'' @ input @ ''\"''))
        | Some (chain, n) \<Rightarrow>
            if \<not> truthy (indexerByChain chain)
            then Inl (OtherError (''No indexer configured for chain \"'' @ chain @
                   ''\" needed to resolve \"'' @ input @ ''\"''))
            else Inr (the (indexerByChain chain) @ ''/v4/credential-schema/js/'' @ n))"

text \<open>The content a URL answers, or why there is none; nothing is thrown.\<close>

definition fetchSchemaContent :: "'s did_env \<Rightarrow> string \<Rightarrow> ('s, err, string + string) comp" where
  "fetchSchemaContent D i =
     catch (bnd (raise (\<lambda>_. mapToEcosystem (de_indexerByChain D) i)) (de_fetchText D))
       (\<lambda>e. ret (Inl (error_message e)))"

definition assertValidSchema :: "'s did_env \<Rightarrow> string \<Rightarrow> string \<Rightarrow> ('s, err, unit) comp" where
  "assertValidSchema D content i =
     (let bad = (\<lambda>m. throw (OtherError (''Schema from '' @ i @ '' is not valid: '' @ m)))
      in case JSON_parse content of
           None \<Rightarrow> bad ''Invalid JSON format''
         | Some v \<Rightarrow>
             (case de_metaSchemaErrors D v of None \<Rightarrow> ret () | Some es \<Rightarrow> bad (join_with '', '' es)))"

definition last_segment :: "string \<Rightarrow> string" where
  "last_segment s = rev (takeWhile (\<lambda>c. c \<noteq> CHR ''/'') (rev s))"

definition addDigestSRI ::
  "'s did_env \<Rightarrow> string \<Rightarrow> (string \<times> json) list \<Rightarrow> ('s, err, (string \<times> json) list) comp" where
  "addDigestSRI D i data =
     (if i = [] then throw (OtherError ''id and data has requiered'')
      else bnd (fetchSchemaContent D i) (\<lambda>fetched.
        let key = last_segment i;
            fallback = (if key = [] then None else map_of (de_ecsSchemas D) key);
            content = (case fetched of Inr c \<Rightarrow> Some c | Inl _ \<Rightarrow> fallback)
        in if \<not> truthy content
           then throw (OtherError (''Failed to fetch schema from '' @ i @ '': '' @
                  (case fetched of Inl m \<Rightarrow> m | Inr _ \<Rightarrow> ''undefined'') @ '', and no local fallback found.''))
           else sqn (assertValidSchema D (the content) i)
                  (ret (jsmap_set ''digestSRI'' (JStr (generateDigestSRI D (the content))) data))))"

definition createJsonSchema_id :: string where
  "createJsonSchema_id = ''https://www.w3.org/ns/credentials/json-schema/v2.json''"

definition createJsonSchema :: "(string \<times> json) list" where
  "createJsonSchema = [(''id'', JStr createJsonSchema_id), (''type'', JStr ''JsonSchema'')]"

definition createJsonSubjectRef :: "string \<Rightarrow> (string \<times> json) list" where
  "createJsonSubjectRef i = [(''type'', JStr ''JsonSchema''), (''jsonSchema'', JObj [(''$ref'', JStr i)])]"

text \<open>The options of the unsigned credential: valid from now, for ten years.\<close>

definition jsc_options ::
  "'s did_env \<Rightarrow> int \<Rightarrow> string \<Rightarrow> (string \<times> json) list \<Rightarrow> (string \<times> json) list \<Rightarrow> w3c_options" where
  "jsc_options D t credId subject schema =
     \<lparr> w3_id = credId, w3_type = [''VerifiableCredential'', ''JsonSchemaCredential''],
       w3_issuer = de_did D, w3_context = CREDENTIALS_V2_CONTEXT, w3_credentialSubject = JObj subject,
       w3_credentialSchema = JObj schema, w3_validFrom = toISOString t,
       w3_validUntil = Some (toISOString (t + TEN_YEARS_MS)) \<rparr>"

definition createJsc ::
  "'s did_env \<Rightarrow> string \<Rightarrow> string \<Rightarrow> string \<Rightarrow> string option \<Rightarrow> ('s, err, string) comp" where
  "createJsc D base schemaBaseId ref precomputedDigestSRI =
     bnd (ownDidRecord D) (\<lambda>r.
     let subject0 = createJsonSubjectRef ref;
         endpoint = base @ ''/vt/schemas-'' @ schemaBaseId @ ''-vtjsc-vp.json'';
         serviceId = did_text D @ ''#vpr-schemas-'' @ schemaBaseId @ ''-vtjsc-vp'';
         credId = base @ ''/vt/schemas-'' @ schemaBaseId @ ''-jsc.json''
     in bnd (if truthy precomputedDigestSRI
             then ret (jsmap_set ''digestSRI'' (JStr (the precomputedDigestSRI)) subject0)
             else addDigestSRI D ref subject0) (\<lambda>claims0.
        bnd (addDigestSRI D createJsonSchema_id createJsonSchema) (\<lambda>schema.
        bnd (de_now D) (\<lambda>t.
        bnd (raise (\<lambda>_. getVerificationMethodId r)) (\<lambda>vm.
        bnd (de_signCredential D
               (jsc_options D t credId (jsmap_set ''id'' (JStr ref) claims0) schema) vm) (\<lambda>credential.
        bnd (de_signDiPresentation D endpoint (de_did D) credential vm) (\<lambda>p.
        sqn (saveMetadataEntry D r (DiCredential credential) (DiPresentation p) serviceId JscBucket)
          (ret credId))))))))"

section \<open>The artifacts of a schema credential\<close>

definition publishTypeMetadataForVtjsc ::
  "'s did_env \<Rightarrow> string \<Rightarrow> string \<Rightarrow> string \<Rightarrow> string \<Rightarrow> ('s, err, bool) comp" where
  "publishTypeMetadataForVtjsc D sid jsonSchema jscId ref =
     bnd (raise (\<lambda>_. composeTypeMetadata (typeMetadataUrl (de_publicApiBaseUrl D) sid) jsonSchema ref jscId))
       (saveVtjscTypeMetadata D ref)"

definition publishAnonCredsSchemaForVtjsc ::
  "'s did_env \<Rightarrow> string \<Rightarrow> string \<Rightarrow> string \<Rightarrow> ('s, err, string option) comp" where
  "publishAnonCredsSchemaForVtjsc D sid jsonSchema jscId =
     (if \<not> truthy (de_did D) then ret None
      else bnd (ac_createdSchemas D jscId) (\<lambda>published. case published of
          i # _ \<Rightarrow> ret (Some i)
        | [] \<Rightarrow>
            bnd (raise (\<lambda>_. anonCredsSchemaFromJsonSchema jsonSchema)) (\<lambda>(name, attrs).
            bnd (ac_registerSchema D name attrs sid (the (de_did D)) jscId) (\<lambda>registered.
            case registered of
              Inl detail \<Rightarrow> throw (OtherError (''Failed to register the AnonCreds schema of '' @ jscId @
                              '': '' @ detail))
            | Inr (i, attested) \<Rightarrow>
                sqn (ac_tagSchema D i jscId)
               (sqn (case attested of None \<Rightarrow> ret () | Some v \<Rightarrow> ac_saveAttestedResource D v jscId)
                 (ret (Some i)))))))"

section \<open>The startup pass\<close>

definition publicDidsOf :: "'s did_env \<Rightarrow> ('s, err, string list) comp" where
  "publicDidsOf D =
     (case de_did D of
        None \<Rightarrow> ret []
      | Some d \<Rightarrow> if d = [] then ret [] else bnd (de_alternativeDids D) (\<lambda>ds. ret (d # ds)))"

definition onChainSchemaRefPrefix :: "string \<Rightarrow> string" where
  "onChainSchemaRefPrefix chainId = ''vpr:verana:'' @ chainId @ '':cs:''"

text \<open>A step whose failure is only logged; \<open>None\<close> when it failed.\<close>

definition logged :: "('s, err, 'a) comp \<Rightarrow> ('s, err, unit) comp" where
  "logged m = catch (bnd m (\<lambda>_. ret ())) (\<lambda>e. ret ())"

definition vtjsc_outdated :: "found_entry option \<Rightarrow> string \<Rightarrow> bool" where
  "vtjsc_outdated existing expectedDigest \<longleftrightarrow>
     (case existing of
        None \<Rightarrow> True
      | Some f \<Rightarrow>
          (case Option.bind (fe_entry f) te_credential of
             None \<Rightarrow> True
           | Some c \<Rightarrow> members c [''credentialSubject'', ''digestSRI''] \<noteq> Some (JStr expectedDigest) \<or>
                      \<not> isDataIntegrityVcdm2Credential c))"

text \<open>One schema: the id of its credential, when it has one after this.\<close>

definition reconcile_vtjsc ::
  "'s did_env \<Rightarrow> did_record \<Rightarrow> credential_schema_dto \<Rightarrow> string \<Rightarrow> ('s, err, string option) comp" where
  "reconcile_vtjsc D r schema ref =
     (let expected = generateDigestSRI D (sd_json_schema schema);
          existing = findMetadataEntry r JscBucket (Some []) (Some ref);
          known = as_string (Option.bind existing (\<lambda>f. id_of (Option.bind (fe_entry f) te_credential)))
      in catch (if vtjsc_outdated existing expected
                then bnd (createJsc D (de_publicApiBaseUrl D) (int_str (sd_id schema)) ref (Some expected))
                       (\<lambda>i. ret (Some i))
                else bnd (reattachVtjscPublication D ref) (\<lambda>_. ret known))
           (\<lambda>e. ret known))"

text \<open>The schemas of an ecosystem: the references seen, or \<open>None\<close> when the DID record is gone.\<close>

fun reconcile_schemas ::
  "'s did_env \<Rightarrow> string \<Rightarrow> credential_schema_dto list \<Rightarrow> string list \<Rightarrow> ('s, err, string list option) comp" where
  "reconcile_schemas D chainId [] seen = ret (Some seen)"
| "reconcile_schemas D chainId (schema # schemas) seen =
     bnd (getDidRecord D) (\<lambda>r0. case r0 of
        None \<Rightarrow> ret None
      | Some r \<Rightarrow>
          let ref = onChainSchemaRefPrefix chainId @ int_str (sd_id schema)
          in bnd (reconcile_vtjsc D r schema ref) (\<lambda>jscId.
             sqn (if \<not> truthy jscId then ret ()
                  else sqn (logged (publishTypeMetadataForVtjsc D (int_str (sd_id schema)) (sd_json_schema schema)
                              (the jscId) ref))
                         (logged (publishAnonCredsSchemaForVtjsc D (int_str (sd_id schema)) (sd_json_schema schema)
                              (the jscId))))
               (reconcile_schemas D chainId schemas (seen @ [ref]))))"

fun reconcile_ecosystems ::
  "'s did_env \<Rightarrow> string \<Rightarrow> ecosystem_dto list \<Rightarrow> string list \<Rightarrow> ('s, err, string list option) comp" where
  "reconcile_ecosystems D chainId [] seen = ret (Some seen)"
| "reconcile_ecosystems D chainId (e # es) seen =
     bnd (de_schemasOf D (ed_id e)) (\<lambda>schemas.
     bnd (reconcile_schemas D chainId schemas seen) (\<lambda>r. case r of
        None \<Rightarrow> ret None
      | Some seen1 \<Rightarrow> reconcile_ecosystems D chainId es seen1))"

type_synonym ecosystem_cache = "(string \<times> ecosystem_dto option) list"

definition cached_ecosystem ::
  "'s did_env \<Rightarrow> ecosystem_cache \<Rightarrow> string \<Rightarrow> ('s, err, ecosystem_dto option \<times> ecosystem_cache) comp" where
  "cached_ecosystem D cache i =
     (case map_of cache i of
        Some e \<Rightarrow> ret (e, cache)
      | None \<Rightarrow> bnd (de_ecosystem D i) (\<lambda>e. ret (e, jsmap_set i e cache)))"

text \<open>
  The entries of ecosystems that another DID controls. An entry the indexer cannot answer for is kept.
\<close>

fun uncontrolled_refs ::
  "'s did_env \<Rightarrow> string \<Rightarrow> string list \<Rightarrow> string list \<Rightarrow> ecosystem_cache \<Rightarrow> string list \<Rightarrow>
   ('s, err, string list) comp" where
  "uncontrolled_refs D prefix0 seen dids cache [] = ret []"
| "uncontrolled_refs D prefix0 seen dids cache (ref # refs) =
     (if take (length prefix0) ref \<noteq> prefix0 \<or> ref \<in> set seen
      then uncontrolled_refs D prefix0 seen dids cache refs
      else bnd (outcome (bnd (de_schema D (drop (length prefix0) ref)) (\<lambda>schema.
                  cached_ecosystem D cache (int_str (sd_ecosystem_id schema))))) (\<lambda>r.
           case r of
             Inl e \<Rightarrow> uncontrolled_refs D prefix0 seen dids cache refs
           | Inr (ecosystem, cache1) \<Rightarrow>
               bnd (uncontrolled_refs D prefix0 seen dids cache1 refs) (\<lambda>stale.
               ret (if (case ecosystem of
                          None \<Rightarrow> False
                        | Some e \<Rightarrow> (case ed_did e of None \<Rightarrow> True | Some d \<Rightarrow> d \<notin> set dids))
                    then ref # stale else stale))))"

definition detachUncontrolledVtjscPublications ::
  "'s did_env \<Rightarrow> string \<Rightarrow> string list \<Rightarrow> string list \<Rightarrow> ('s, err, unit) comp" where
  "detachUncontrolledVtjscPublications D chainId seen dids =
     bnd (getDidRecord D) (\<lambda>r0. case Option.bind r0 dr_jsc of
        None \<Rightarrow> ret ()
      | Some metadata \<Rightarrow>
          bnd (uncontrolled_refs D (onChainSchemaRefPrefix chainId) seen dids [] (map fst metadata)) (\<lambda>stale.
          if stale = [] then ret ()
          else bnd (detachVtjscPublications D stale) (\<lambda>_. ret ())))"

section \<open>The self-issued credentials of the agent\<close>

definition own_issuers :: "'s did_env \<Rightarrow> string \<Rightarrow> participant_filter" where
  "own_issuers D st =
     \<lparr> pf_schemaId = None, pf_role = Some PR_Issuer, pf_did = de_did D, pf_participantState = Some st \<rparr>"

definition withdraw_of_state :: "'s did_env \<Rightarrow> string \<Rightarrow> ('s, err, unit) comp" where
  "withdraw_of_state D st =
     logged (bnd (de_participants D (own_issuers D st)) (\<lambda>stale.
       forM stale (\<lambda>p. bnd (withdrawSelfIssuedEcsCredentials D (pd_id p)) (\<lambda>_. ret ()))))"

definition rebind_issuer :: "'s did_env \<Rightarrow> string \<Rightarrow> string \<Rightarrow> participant_dto \<Rightarrow> ('s, err, unit) comp" where
  "rebind_issuer D chainId address p =
     (if truthy (pd_revoked p) \<or> truthy (pd_slashed p) \<or> pd_vs_operator p \<noteq> Some address then ret ()
      else logged (bnd (de_schema D (int_str (pd_schema_id p))) (\<lambda>schema.
        case classifyEcsSchema (de_sha384 D) (sd_json_schema schema) of
          None \<Rightarrow> ret ()
        | Some k \<Rightarrow>
            bnd (de_resolveVtjsc D (sd_id schema) chainId) (\<lambda>jscId.
            rebindEcsCredentialSchema D (de_publicApiBaseUrl D) (int_str (sd_id schema)) (ecs_str k) jscId
              (pd_id p) (Some (sd_json_schema schema)) (pd_effective_until p)))))"

definition reconcileSelfIssuedEcsCredentials :: "'s did_env \<Rightarrow> ('s, err, unit) comp" where
  "reconcileSelfIssuedEcsCredentials D =
     (case de_chain D of
        None \<Rightarrow> ret ()
      | Some (chainId, address) \<Rightarrow>
          if \<not> truthy (de_did D) \<or> de_publicApiBaseUrl D = [] then ret ()
          else sqn (withdraw_of_state D ''REVOKED'')
              (sqn (withdraw_of_state D ''SLASHED'')
              (bnd (de_participants D (own_issuers D ''ACTIVE'')) (\<lambda>issuers.
               forM issuers (rebind_issuer D chainId address)))))"

definition reconcileVtjscPublications :: "'s did_env \<Rightarrow> bool \<Rightarrow> ('s, err, unit) comp" where
  "reconcileVtjscPublications D withClaims =
     (if \<not> truthy (de_did D) \<or> de_publicApiBaseUrl D = [] then ret ()
      else case de_chain D of
          None \<Rightarrow> ret ()
        | Some (chainId, address) \<Rightarrow>
            if chainId = [] then ret ()
            else bnd (publicDidsOf D) (\<lambda>dids.
                 bnd (de_ecosystems D) (\<lambda>es.
                 bnd (reconcile_ecosystems D chainId
                        (filter (\<lambda>e. \<exists>d \<in> set dids. ed_did e = Some d) es) []) (\<lambda>r. case r of
                   None \<Rightarrow> ret ()
                 | Some seen \<Rightarrow>
                     sqn (detachUncontrolledVtjscPublications D chainId seen dids)
                       (whenM withClaims (reconcileSelfIssuedEcsCredentials D))))))"

end
