(* ===== verification/TrustEffects.thy ===== *)
theory TrustEffects
  imports VtjscPublish
begin

text \<open>
  What each operation of the trust credential store leaves in the DID record, for a storage that keeps
  its promises (\<open>did_storage_laws\<close>) and other calls that leave the record alone (\<open>calls_quiet\<close>).

  \<open>ends v R x m\<close>: run from a state whose view \<open>v\<close> is \<open>x\<close>, the computation \<open>m\<close> leaves a view in relation
  \<open>R\<close> to \<open>x\<close>, whether it returns or throws.
\<close>

section \<open>Calls that leave the record alone\<close>

definition still :: "('s \<Rightarrow> 'v) \<Rightarrow> ('s, 'e, 'a) comp \<Rightarrow> bool" where
  "still v m \<longleftrightarrow> (\<forall>x. keeps (\<lambda>s. v s = x) m)"

named_theorems still_rules

lemma still_post: "still v m \<Longrightarrow> post m (\<lambda>_ t. v t = v s) (\<lambda>_ t. v t = v s) s"
  by (simp add: still_def keeps_def)

lemma stillI: "(\<And>s. post m (\<lambda>_ t. v t = v s) (\<lambda>_ t. v t = v s) s) \<Longrightarrow> still v m"
  by (auto simp: still_def keeps_def)

lemma still_ret [still_rules]: "still v (ret x)"
  and still_throw [still_rules]: "still v (throw e)"
  and still_gets [still_rules]: "still v (gets f)"
  and still_raise [still_rules]: "still v (raise g)"
  by (simp_all add: still_def keeps_rules)

lemma still_bnd [still_rules]: "still v m \<Longrightarrow> (\<And>x. still v (f x)) \<Longrightarrow> still v (bnd m f)"
  by (simp add: still_def keeps_bnd)

lemma still_sqn [still_rules]: "still v m \<Longrightarrow> still v k \<Longrightarrow> still v (sqn m k)"
  by (simp add: sqn_def still_bnd)

lemma still_catch [still_rules]: "still v m \<Longrightarrow> (\<And>e. still v (h e)) \<Longrightarrow> still v (catch m h)"
  by (simp add: still_def keeps_catch)

lemma still_whenM [still_rules]: "still v m \<Longrightarrow> still v (whenM b m)"
  by (simp add: whenM_def still_ret)

lemma still_if [still_rules]: "(b \<Longrightarrow> still v m) \<Longrightarrow> (\<not> b \<Longrightarrow> still v n) \<Longrightarrow> still v (if b then m else n)"
  by simp

lemma still_option [still_rules]:
  "(x = None \<Longrightarrow> still v m) \<Longrightarrow> (\<And>y. x = Some y \<Longrightarrow> still v (f y)) \<Longrightarrow>
     still v (case x of None \<Rightarrow> m | Some y \<Rightarrow> f y)"
  by (cases x) simp_all

lemma still_sum [still_rules]:
  "(\<And>y. still v (f y)) \<Longrightarrow> (\<And>y. still v (g y)) \<Longrightarrow> still v (case x of Inl y \<Rightarrow> f y | Inr y \<Rightarrow> g y)"
  by (cases x) simp_all

lemma still_list [still_rules]:
  "still v m \<Longrightarrow> (\<And>y ys. still v (f y ys)) \<Longrightarrow> still v (case x of [] \<Rightarrow> m | y # ys \<Rightarrow> f y ys)"
  by (cases x) simp_all

lemma still_prod [still_rules]: "(\<And>a b. still v (f a b)) \<Longrightarrow> still v (case p of (a, b) \<Rightarrow> f a b)"
  by (cases p) simp

lemma still_forM [still_rules]: "(\<And>x. still v (f x)) \<Longrightarrow> still v (forM xs f)"
  by (induction xs) (simp_all add: still_ret still_sqn)

text \<open>A view computed from a view that stays.\<close>

lemma still_comp: "still v m \<Longrightarrow> still (\<lambda>s. g (v s)) m"
  by (rule stillI) (auto intro: post_mono [OF still_post])

definition calls_quiet :: "'s did_env \<Rightarrow> ('s \<Rightarrow> 'v) \<Rightarrow> bool" where
  "calls_quiet D v \<longleftrightarrow>
     (\<forall>a b c d e. still v (de_signCredential D a b) \<and> still v (de_signDiPresentation D c d e b) \<and>
        still v (de_signLdpPresentation D c d e b)) \<and>
     still v (de_v2Records D) \<and> still v (de_v1Records D) \<and>
     (\<forall>i. still v (de_deleteV2 D i) \<and> still v (de_deleteV1 D i) \<and> still v (de_formatData D i)) \<and>
     still v (de_now D) \<and> (\<forall>k. still v (de_claims D k) \<and> still v (de_fetchText D k)) \<and>
     (\<forall>t j. still v (de_validateSchema D t j)) \<and>
     (\<forall>i n d. still v (de_anchored D d) \<and> still v (de_anchorSession D n d) \<and> still v (de_waitForDigest D d) \<and>
        still v (de_schema D i) \<and> still v (de_ecosystem D i) \<and> still v (de_schemasOf D n) \<and>
        still v (de_resolveVtjsc D n i)) \<and>
     still v (de_ecosystems D) \<and> still v (de_alternativeDids D) \<and>
     (\<forall>f. still v (de_participants D f)) \<and>
     (\<forall>a b c d as j. still v (ac_createdSchemas D a) \<and> still v (ac_registerSchema D a as b c d) \<and>
        still v (ac_tagSchema D a b) \<and> still v (ac_saveAttestedResource D j a))"

lemma calls_quietD:
  assumes "calls_quiet D v"
  shows "still v (de_signCredential D o1 i)" "still v (de_signDiPresentation D i j e k)"
    "still v (de_signLdpPresentation D i j e k)" "still v (de_v2Records D)" "still v (de_v1Records D)"
    "still v (de_deleteV2 D i)" "still v (de_deleteV1 D i)" "still v (de_formatData D i)"
    "still v (de_now D)" "still v (de_claims D i)" "still v (de_fetchText D i)"
    "still v (de_validateSchema D i e)" "still v (de_anchored D i)" "still v (de_anchorSession D n i)"
    "still v (de_waitForDigest D i)" "still v (de_schema D i)" "still v (de_ecosystem D i)"
    "still v (de_schemasOf D n)" "still v (de_resolveVtjsc D n i)" "still v (de_ecosystems D)"
    "still v (de_alternativeDids D)" "still v (de_participants D f)" "still v (ac_createdSchemas D i)"
    "still v (ac_registerSchema D i as a b c)" "still v (ac_tagSchema D i a)"
    "still v (ac_saveAttestedResource D e i)"
  using assms unfolding calls_quiet_def by blast+

section \<open>From one view to another\<close>

definition ends :: "('s \<Rightarrow> 'v) \<Rightarrow> ('v \<Rightarrow> 'v \<Rightarrow> bool) \<Rightarrow> 'v \<Rightarrow> ('s, 'e, 'a) comp \<Rightarrow> bool" where
  "ends v R x m \<longleftrightarrow> (\<forall>s. v s = x \<longrightarrow> post m (\<lambda>_ t. R x (v t)) (\<lambda>_ t. R x (v t)) s)"

named_theorems ends_rules

lemma endsD: "ends v R (v s) m \<Longrightarrow> R (v s) (v (snd (m s)))"
  by (cases "m s") (auto simp: ends_def post_def split: sum.splits)

lemma ends_still: "R x x \<Longrightarrow> still v m \<Longrightarrow> ends v R x m"
  by (auto simp: ends_def intro: post_mono [OF still_post])

lemma ends_bnd_still [ends_rules]:
  assumes "still v m" and "R x x" and "\<And>y. ends v R x (f y)"
  shows "ends v R x (bnd m f)"
  unfolding ends_def post_bnd
proof (intro allI impI)
  fix s assume s: "v s = x"
  show "post m (\<lambda>y. post (f y) (\<lambda>_ t. R x (v t)) (\<lambda>_ t. R x (v t))) (\<lambda>_ t. R x (v t)) s"
    by (rule post_mono [OF still_post [OF assms(1)]])
      (use s assms(2,3) in \<open>auto simp: ends_def\<close>)
qed

lemma ends_sqn_still [ends_rules]:
  "still v m \<Longrightarrow> R x x \<Longrightarrow> ends v R x k \<Longrightarrow> ends v R x (sqn m k)"
  unfolding sqn_def by (rule ends_bnd_still)

lemma ends_then_still:
  assumes "ends v R x m" and "\<And>y. still v (f y)"
  shows "ends v R x (bnd m f)"
  unfolding ends_def post_bnd
proof (intro allI impI)
  fix s assume "v s = x"
  then have "post m (\<lambda>_ t. R x (v t)) (\<lambda>_ t. R x (v t)) s" using assms(1) by (simp add: ends_def)
  then show "post m (\<lambda>y. post (f y) (\<lambda>_ t. R x (v t)) (\<lambda>_ t. R x (v t))) (\<lambda>_ t. R x (v t)) s"
    by (rule post_mono) (auto intro: post_mono [OF still_post [OF assms(2)]])
qed

lemma ends_sqn_then_still: "ends v R x m \<Longrightarrow> still v k \<Longrightarrow> ends v R x (sqn m k)"
  unfolding sqn_def by (rule ends_then_still)

lemma ends_catch [ends_rules]:
  assumes "ends v R x m" and "\<And>e. still v (h e)"
  shows "ends v R x (catch m h)"
  unfolding ends_def post_catch
proof (intro allI impI)
  fix s assume "v s = x"
  then have "post m (\<lambda>_ t. R x (v t)) (\<lambda>_ t. R x (v t)) s" using assms(1) by (simp add: ends_def)
  then show "post m (\<lambda>_ t. R x (v t)) (\<lambda>e. post (h e) (\<lambda>_ t. R x (v t)) (\<lambda>_ t. R x (v t))) s"
    by (rule post_mono) (auto intro: post_mono [OF still_post [OF assms(2)]])
qed

lemma ends_trans:
  assumes "transp R" and "ends v R x m" and "\<And>x y. ends v R x (f y)"
  shows "ends v R x (bnd m f)"
  unfolding ends_def post_bnd
proof (intro allI impI)
  fix s assume s: "v s = x"
  have "post m (\<lambda>_ t. R x (v t)) (\<lambda>_ t. R x (v t)) s" using assms(2) s by (simp add: ends_def)
  then show "post m (\<lambda>y. post (f y) (\<lambda>_ t. R x (v t)) (\<lambda>_ t. R x (v t))) (\<lambda>_ t. R x (v t)) s"
  proof (rule post_mono)
    fix y t assume t: "R x (v t)"
    have "post (f y) (\<lambda>_ u. R (v t) (v u)) (\<lambda>_ u. R (v t) (v u)) t"
      using assms(3) by (simp add: ends_def)
    then show "post (f y) (\<lambda>_ t. R x (v t)) (\<lambda>_ t. R x (v t)) t"
      by (rule post_mono) (use t assms(1) in \<open>auto dest: transpD\<close>)
  qed simp
qed

lemma ends_sqn_trans:
  "transp R \<Longrightarrow> ends v R x m \<Longrightarrow> (\<And>x. ends v R x k) \<Longrightarrow> ends v R x (sqn m k)"
  unfolding sqn_def by (rule ends_trans)

lemma ends_forM:
  assumes "transp R" and "reflp R" and "\<And>x y. ends v R x (f y)"
  shows "ends v R x (forM xs f)"
proof (induction xs arbitrary: x)
  case Nil
  then show ?case using assms(2) by (simp add: ends_still still_ret reflpD)
next
  case (Cons y xs)
  then show ?case by (simp add: ends_sqn_trans assms)
qed

lemma ends_whenM [ends_rules]: "R x x \<Longrightarrow> (b \<Longrightarrow> ends v R x m) \<Longrightarrow> ends v R x (whenM b m)"
  by (simp add: whenM_def ends_still still_ret)

lemma ends_if [ends_rules]:
  "(b \<Longrightarrow> ends v R x m) \<Longrightarrow> (\<not> b \<Longrightarrow> ends v R x n) \<Longrightarrow> ends v R x (if b then m else n)"
  by simp

lemma ends_option [ends_rules]:
  "(y = None \<Longrightarrow> ends v R x m) \<Longrightarrow> (\<And>z. y = Some z \<Longrightarrow> ends v R x (f z)) \<Longrightarrow>
     ends v R x (case y of None \<Rightarrow> m | Some z \<Rightarrow> f z)"
  by (cases y) simp_all

lemma ends_prod [ends_rules]:
  "(\<And>a b. p = (a, b) \<Longrightarrow> ends v R x (f a b)) \<Longrightarrow> ends v R x (case p of (a, b) \<Rightarrow> f a b)"
  by (cases p) simp

section \<open>Reading and writing the record\<close>

lemma post_getDidRecord:
  assumes "did_storage_laws D stored"
  shows "post (getDidRecord D) (\<lambda>r t. r = stored s \<and> t = s) (\<lambda>_ t. t = s) s"
  unfolding getDidRecord_def post_bnd post_ret
  by (rule post_mono [OF did_storage_lawsD(1) [OF assms]]) (auto simp: head_option_def split: option.split)

lemma post_ownDidRecord:
  assumes "did_storage_laws D stored"
  shows "post (ownDidRecord D) (\<lambda>r t. stored s = Some r \<and> t = s) (\<lambda>_ t. t = s) s"
  unfolding ownDidRecord_def post_bnd
  by (rule post_mono [OF post_getDidRecord [OF assms]]) (auto simp: wp split: option.split)

lemma still_get [still_rules]: "did_storage_laws D stored \<Longrightarrow> still stored (getDidRecord D)"
  and still_own [still_rules]: "did_storage_laws D stored \<Longrightarrow> still stored (ownDidRecord D)"
  by (auto intro!: stillI intro: post_mono [OF post_getDidRecord] post_mono [OF post_ownDidRecord])

lemma ends_get:
  assumes "did_storage_laws D stored" and "R x x" and "ends stored R x (f x)"
  shows "ends stored R x (bnd (getDidRecord D) f)"
  unfolding ends_def post_bnd
proof (intro allI impI)
  fix s assume s: "stored s = x"
  show "post (getDidRecord D) (\<lambda>y. post (f y) (\<lambda>_ t. R x (stored t)) (\<lambda>_ t. R x (stored t)))
      (\<lambda>_ t. R x (stored t)) s"
    by (rule post_mono [OF post_getDidRecord [OF assms(1)]]) (use s assms(2,3) in \<open>auto simp: ends_def\<close>)
qed

lemma ends_own:
  assumes "did_storage_laws D stored" and "R x x" and "\<And>r. x = Some r \<Longrightarrow> ends stored R x (f r)"
  shows "ends stored R x (bnd (ownDidRecord D) f)"
  unfolding ends_def post_bnd
proof (intro allI impI)
  fix s assume s: "stored s = x"
  show "post (ownDidRecord D) (\<lambda>y. post (f y) (\<lambda>_ t. R x (stored t)) (\<lambda>_ t. R x (stored t)))
      (\<lambda>_ t. R x (stored t)) s"
    by (rule post_mono [OF post_ownDidRecord [OF assms(1)]]) (use s assms(2,3) in \<open>auto simp: ends_def\<close>)
qed

lemma written_sel [simp]:
  "bucket_of (written D r) k = bucket_of r k" "dr_jsc (written D r) = dr_jsc r"
  "dr_vtc (written D r) = dr_vtc r" "dr_id (written D r) = dr_id r"
  "dr_document (written D r) = None \<longleftrightarrow> dr_document r = None"
  by (cases k; simp add: written_def bucket_of_def)+

lemma ends_update:
  assumes "did_storage_laws D stored" and "R x x" and "dr_document r \<noteq> None \<Longrightarrow> R x (Some (written D r))"
  shows "ends stored R x (updateDidRecord D r)"
  unfolding ends_def
proof (intro allI impI)
  fix s assume s: "stored s = x"
  show "post (updateDidRecord D r) (\<lambda>_ t. R x (stored t)) (\<lambda>_ t. R x (stored t)) s"
    by (rule post_mono [OF updateDidRecord_stores [OF assms(1)]]) (use s assms(2,3) in auto)
qed

lemma ends_save:
  assumes "did_storage_laws D stored" and "R x x" and "R x (Some r)"
  shows "ends stored R x (de_save D r)"
  unfolding ends_def
proof (intro allI impI)
  fix s assume s: "stored s = x"
  show "post (de_save D r) (\<lambda>_ t. R x (stored t)) (\<lambda>_ t. R x (stored t)) s"
    by (rule post_mono [OF did_storage_lawsD(3) [OF assms(1)]]) (use s assms(2,3) in auto)
qed

end
