(* ===== verification/TrustMachine.thy ===== *)
theory TrustMachine
  imports TrustEffects
begin

text \<open>
  The trust credential store as a machine. \<open>rec_step\<close> is the abstract specification: what one write of
  the DID record may be. Every command of the store is shown to make only such writes (\<open>rewrote\<close>, and
  \<open>wrote\<close> where it writes once), so an invariant is proved by rule induction over \<open>rec_step\<close> and holds of
  every run of commands.
\<close>

section \<open>The entries of a saved record\<close>

lemma jsc_of [simp]:
  "dr_jsc (set_bucket VtcBucket b r) = dr_jsc r" "dr_jsc (set_bucket JscBucket b r) = Some b"
  "dr_vtc (set_bucket VtcBucket b r) = Some b" "dr_vtc (set_bucket JscBucket b r) = dr_vtc r"
  "dr_jsc (map_services f r) = dr_jsc r" "dr_vtc (map_services f r) = dr_vtc r"
  "dr_jsc (set_services ss r) = dr_jsc r" "dr_vtc (set_services ss r) = dr_vtc r"
  "dr_jsc (without_service i r) = dr_jsc r" "dr_vtc (without_service i r) = dr_vtc r"
  by (simp_all add: set_bucket_def map_services_def set_services_def without_service_def)

lemma bucket_of_buckets: "bucket_of r VtcBucket = dr_vtc r" "bucket_of r JscBucket = dr_jsc r"
  by (simp_all add: bucket_of_def)

lemma find_ref:
  assumes "ref \<noteq> []" and "bucket_of r k = Some b" and "map_of b ref = Some e"
  shows "findMetadataEntry r k i (Some ref) = Some (found_at ref e (te_presentation e))"
  using assms by (simp add: findMetadataEntry_def)

text \<open>The entry found for a key that is not there is one whose credential or presentation has the id.\<close>

lemma find_other:
  assumes "findMetadataEntry r k i (Some ref) = Some f" and "ref \<noteq> []"
    and "bucket_of r k = Some b" and "map_of b ref = None"
  shows "\<exists>e. (fe_schemaId f, e) \<in> set b \<and>
    (id_of (te_credential e) = map_option JStr i \<or> id_of (te_presentation e) = map_option JStr i)"
proof -
  let ?m = "List.map_filter (match_entry i) b"
  have "f \<in> set ?m"
    using assms find_SomeD [of is_attached ?m]
    by (auto simp: findMetadataEntry_def Let_def head_option_def split: option.splits list.splits)
  then obtain key e where "(key, e) \<in> set b" "match_entry i (key, e) = Some f"
    by (auto simp: List.map_filter_def)
  then show ?thesis by (auto simp: match_entry_def found_at_def split: if_splits)
qed

lemma saved_record_jsc:
  "dr_jsc (saved_record r c p sid VtcBucket ref) = dr_jsc r"
  by (simp add: saved_record_def Let_def split: option.split)

lemma saved_record_vtc:
  "dr_vtc (saved_record r c p sid JscBucket ref) = dr_vtc r"
  by (simp add: saved_record_def Let_def split: option.split)

text \<open>The type metadata of a schema reference.\<close>

definition type_metadata :: "did_record option \<Rightarrow> string \<Rightarrow> string option" where
  "type_metadata x ref =
     Option.bind (Option.bind x dr_jsc) (\<lambda>b. Option.bind (map_of b ref) te_typeMetadata)"

definition has_vtjsc :: "did_record option \<Rightarrow> string \<Rightarrow> bool" where
  "has_vtjsc x ref \<longleftrightarrow> Option.bind (Option.bind x dr_jsc) (\<lambda>b. map_of b ref) \<noteq> None"

definition metadata_kept :: "did_record option \<Rightarrow> did_record option \<Rightarrow> bool" where
  "metadata_kept x y \<longleftrightarrow>
     (\<forall>ref m. type_metadata x ref = Some m \<longrightarrow> has_vtjsc y ref \<longrightarrow> type_metadata y ref = Some m)"

lemma metadata_kept_refl [simp]: "metadata_kept x x"
  by (simp add: metadata_kept_def)

lemma metadata_kept_bucket:
  assumes "\<And>ref e. map_of (withDefault (dr_jsc r) []) ref = Some e \<Longrightarrow> map_of b ref \<noteq> None \<Longrightarrow>
      te_typeMetadata e \<noteq> None \<Longrightarrow>
      Option.bind (map_of b ref) te_typeMetadata = te_typeMetadata e"
    and "dr_jsc r' = Some b"
  shows "metadata_kept (Some r) (Some r')"
  unfolding metadata_kept_def type_metadata_def has_vtjsc_def
proof (intro allI impI)
  fix ref m
  assume m: "Option.bind (Option.bind (Some r) dr_jsc) (\<lambda>b. Option.bind (map_of b ref) te_typeMetadata) = Some m"
    and here: "Option.bind (Option.bind (Some r') dr_jsc) (\<lambda>b. map_of b ref) \<noteq> None"
  then obtain b0 e where b0: "dr_jsc r = Some b0" "map_of b0 ref = Some e" "te_typeMetadata e = Some m"
    by (auto simp: bind_eq_Some_conv)
  then show "Option.bind (Option.bind (Some r') dr_jsc) (\<lambda>b. Option.bind (map_of b ref) te_typeMetadata) = Some m"
    using assms(1) [of ref e] here assms(2) by simp
qed

lemma metadata_kept_saved:
  assumes "ref \<noteq> []"
  shows "metadata_kept (Some r) (Some (written D (saved_record r c p sid JscBucket ref)))"
proof -
  let ?b = "withDefault (dr_jsc r) []"
  let ?f = "findMetadataEntry r JscBucket (as_string (member (trustCredentialFields c) ''id'')) (Some ref)"
  let ?tm = "case ?f of Some hit \<Rightarrow> if fe_schemaId hit = ref then Option.bind (map_of ?b ref) te_typeMetadata else None
    | None \<Rightarrow> None"
  let ?b1 = "case ?f of Some hit \<Rightarrow> jsmap_delete (fe_schemaId hit) ?b | None \<Rightarrow> ?b"
  let ?b2 = "jsmap_set ref (new_entry ?tm c p sid) ?b1"
  have jsc: "dr_jsc (written D (saved_record r c p sid JscBucket ref)) = Some ?b2"
    by (simp add: saved_record_def Let_def bucket_of_buckets)
  show ?thesis
  proof (rule metadata_kept_bucket [OF _ jsc])
    fix ref' e
    assume e: "map_of ?b ref' = Some e" and here: "map_of ?b2 ref' \<noteq> None" and "te_typeMetadata e \<noteq> None"
    then obtain b where b: "dr_jsc r = Some b" "map_of b ref' = Some e" by (cases "dr_jsc r") auto
    show "Option.bind (map_of ?b2 ref') te_typeMetadata = te_typeMetadata e"
    proof (cases "ref' = ref")
      case True
      then have "?f = Some (found_at ref e (te_presentation e))"
        using find_ref [OF assms, of r JscBucket b e] b by (simp add: bucket_of_buckets)
      then show ?thesis using True e by (simp add: new_entry_def found_at_def)
    next
      case False
      then show ?thesis using e here by (auto split: option.splits if_splits)
    qed
  qed
qed

section \<open>The writes of the store\<close>

text \<open>
  What one write of the record may be, for the bucket \<open>k\<close> it is about: an entry saved, deleted, renamed,
  typed, issued by the agent to itself or bound to an issuer, or the services of the document changed.
\<close>

inductive rec_step :: "'s did_env \<Rightarrow> bucket_key \<Rightarrow> did_record \<Rightarrow> did_record \<Rightarrow> bool" for D where
  save: "ref \<noteq> [] \<Longrightarrow> rec_step D k r (written D (saved_record r c p i k ref))"
| delete: "bucket_of r k = Some b \<Longrightarrow>
    rec_step D k r (written D (set_bucket k (jsmap_delete key b) (map_services (filter P) r)))"
| migrate: "dr_jsc r = Some b \<Longrightarrow> fold migrate_entry b (r, [], False) = (r1, b1, c) \<Longrightarrow>
    rec_step D JscBucket r (written D (set_bucket JscBucket b1 r1))"
| services: "rec_step D k r (written D (set_services ss r))"
| withdraw: "rec_step D k r (written D (map_services (filter P) r))"
| typed: "dr_jsc r = Some b \<Longrightarrow> map_of b ref = Some e \<Longrightarrow> te_typeMetadata e = None \<Longrightarrow>
    rec_step D JscBucket r (set_bucket JscBucket (jsmap_set ref (e\<lparr>te_typeMetadata := Some m\<rparr>) b) r)"
| issue: "rec_step D VtcBucket r (written D (self_issued_record r d key url i sid p integrity attached))"
| prune: "rec_step D VtcBucket r (written D (set_bucket VtcBucket (filter Q (withDefault (dr_vtc r) [])) r))"
| bind: "rec_step D VtcBucket r (written D (fst (bound_record r jscUrl issuer key i vpUrl)))"

definition wrote :: "'s did_env \<Rightarrow> bucket_key \<Rightarrow> did_record option \<Rightarrow> did_record option \<Rightarrow> bool" where
  "wrote D k x y \<longleftrightarrow> x = y \<or> (\<exists>r r'. x = Some r \<and> y = Some r' \<and> rec_step D k r r')"

abbreviation "rewrote D k \<equiv> (wrote D k)\<^sup>*\<^sup>*"

lemma wrote_refl [simp]: "wrote D k x x"
  by (simp add: wrote_def)

lemma rewrote_trans: "transp (rewrote D k)"
  by (auto simp: transp_def)

lemma wroteI: "rec_step D k r r' \<Longrightarrow> wrote D k (Some r) (Some r')"
  by (auto simp: wrote_def)

lemmas wrote_step = rec_step.intros [THEN wroteI]

lemma rewroteI: "rec_step D k r r' \<Longrightarrow> rewrote D k (Some r) (Some r')"
  by (blast intro: wroteI)

lemmas rewrote_step = rec_step.intros [THEN rewroteI]

lemma unfiltered: "map_services (filter (\<lambda>_. True)) r = r"
  by (cases r) (auto simp: map_services_def option.map_ident cong: option.map_cong)

lemma delete_services:
  "bucket_of r k = Some b \<Longrightarrow> rec_step D k r (written D (set_bucket k (jsmap_delete key b) r))"
  using rec_step.delete [where P = "\<lambda>_. True"] by (simp add: unfiltered)

lemma bound_step:
  "bound_record r jscUrl issuer key i vpUrl = (r', c) \<Longrightarrow> rec_step D VtcBucket r (written D r')"
  by (metis fst_conv rec_step.bind)

section \<open>The commands as writes\<close>

lemma ends_ret: "R x x \<Longrightarrow> ends v R x (ret y)"
  and ends_throw: "R x x \<Longrightarrow> ends v R x (throw e)"
  by (simp_all add: ends_still still_rules)

lemma ends_saveMetadataEntry:
  assumes "did_storage_laws D stored"
  shows "ends stored (wrote D k) (Some r) (saveMetadataEntry D r c p i k)"
proof (cases "entry_ref (trustCredentialFields c) k")
  case (Some v)
  then show ?thesis
    by (cases v) (auto simp: saveMetadataEntry_def intro!: ends_throw
      ends_update [OF assms] wrote_step)
qed (simp add: saveMetadataEntry_def ends_throw)

lemmas quiet_rules = calls_quietD still_rules

lemma still_signLinked:
  "calls_quiet D v \<Longrightarrow> still v (signLinkedPresentation D url c vm)"
  by (cases c) (auto simp: signLinkedPresentation_def intro!: still_bnd still_ret calls_quietD)

lemma createVtc_effect:
  assumes "did_storage_laws D stored" and "calls_quiet D stored"
  shows "ends stored (wrote D VtcBucket) x (createVtc D base i c)"
  unfolding createVtc_def Let_def
  by (intro ends_own [OF assms(1)] wrote_refl ends_bnd_still [OF still_raise]
      ends_bnd_still [OF still_signLinked [OF assms(2)]] ends_sqn_then_still still_ret)
    (simp_all add: ends_saveMetadataEntry [OF assms(1)])

lemma still_fetch: "calls_quiet D v \<Longrightarrow> still v (addDigestSRI D i data)"
  unfolding addDigestSRI_def fetchSchemaContent_def assertValidSchema_def Let_def
  by (auto intro!: quiet_rules split: option.split sum.split)

lemma createJsc_effect:
  assumes "did_storage_laws D stored" and "calls_quiet D stored"
  shows "ends stored (wrote D JscBucket) x (createJsc D base i ref digest)"
  unfolding createJsc_def Let_def
  by (intro ends_own [OF assms(1)] wrote_refl ends_bnd_still ends_sqn_then_still
      still_if still_ret still_raise still_fetch calls_quietD [OF assms(2)] assms(2))
    (simp_all add: ends_saveMetadataEntry [OF assms(1)])

lemma remove_effect:
  assumes "did_storage_laws D stored"
  shows "ends stored (wrote D k) x (removeTrustCredential D i k)"
  unfolding removeTrustCredential_def deleteMetadataEntry_def Let_def
  by (intro ends_own [OF assms] wrote_refl ends_option ends_ret ends_sqn_then_still ends_update [OF assms] still_ret)
    (auto simp: without_service_def intro!: wroteI delete_services rec_step.delete split: option.splits if_splits)

lemma still_exchange: "calls_quiet D v \<Longrightarrow> still v (findExchangeCredentialId D i)"
  unfolding findExchangeCredentialId_def
  by (intro still_bnd still_catch still_ret calls_quietD) (auto intro: quiet_rules split: err.split)

lemma still_tagged: "(\<And>i. still v (f i)) \<Longrightarrow> still v (delete_tagged rs i f)"
  unfolding delete_tagged_def by (intro still_forM still_prod still_whenM)

lemma removeStored_effect:
  assumes "did_storage_laws D stored" and "calls_quiet D stored"
  shows "ends stored (wrote D VtcBucket) x (removeStoredTrustCredential D i e)"
  unfolding removeStoredTrustCredential_def Let_def
  by (intro ends_bnd_still ends_if ends_then_still [OF remove_effect [OF assms(1)]] ends_ret
      still_option still_if still_ret still_exchange still_tagged still_bnd still_sqn
      calls_quietD [OF assms(2)] assms(2) wrote_refl)

lemma migrate_effect:
  assumes "did_storage_laws D stored"
  shows "ends stored (wrote D JscBucket) x (migrateVtjscServiceIds D)"
  unfolding migrateVtjscServiceIds_def
  by (intro ends_if ends_get [OF assms] ends_option ends_prod ends_ret wrote_refl ends_update [OF assms])
    (auto intro: wrote_step)

lemma detach_effect:
  assumes "did_storage_laws D stored"
  shows "ends stored (wrote D k) x (detachVtjscPublications D refs)"
  unfolding detachVtjscPublications_def
  by (intro ends_if ends_get [OF assms] ends_ret wrote_refl)
    (auto intro!: ends_ret still_ret ends_prod ends_if ends_sqn_then_still ends_update [OF assms] wrote_step
      split: option.split)

lemma reattach_effect:
  assumes "did_storage_laws D stored"
  shows "ends stored (wrote D k) x (reattachVtjscPublication D ref)"
  unfolding reattachVtjscPublication_def Let_def
  by (intro ends_get [OF assms] ends_option ends_if ends_ret still_ret wrote_refl
      ends_sqn_then_still ends_update [OF assms])
    (auto intro: wrote_step)

lemma typeMetadata_effect:
  assumes "did_storage_laws D stored"
  shows "ends stored (wrote D JscBucket) x (saveVtjscTypeMetadata D ref m)"
  unfolding saveVtjscTypeMetadata_def
proof (intro ends_get [OF assms] wrote_refl)
  show "ends stored (wrote D JscBucket) x
     (case (x, Option.bind (Option.bind x dr_jsc) (\<lambda>b. map_of b ref)) of
        (Some r, Some e) \<Rightarrow>
          if te_typeMetadata e \<noteq> None then ret False
          else sqn (de_save D (set_bucket JscBucket (jsmap_set ref (e\<lparr>te_typeMetadata := Some m\<rparr>)
                 (withDefault (dr_jsc r) [])) r)) (ret True)
      | _ \<Rightarrow> ret False)" (is "ends stored _ x ?m")
  proof (cases "Option.bind (Option.bind x dr_jsc) (\<lambda>b. map_of b ref)")
    case (Some e)
    then obtain r b where x: "x = Some r" "dr_jsc r = Some b" "map_of b ref = Some e"
      by (auto simp: bind_eq_Some_conv)
    then have "?m = (if te_typeMetadata e \<noteq> None then ret False
        else sqn (de_save D (set_bucket JscBucket (jsmap_set ref (e\<lparr>te_typeMetadata := Some m\<rparr>) b) r))
               (ret True))"
      by simp
    then show ?thesis
      unfolding x(1) by (simp only:) (intro ends_if ends_ret ends_sqn_then_still ends_save [OF assms]
        still_ret wrote_refl; simp add: wrote_step x)
  qed (auto simp: ends_ret split: option.split)
qed

text \<open>The credentials the agent issues to itself.\<close>

lemma still_or_undefined [still_rules]: "still v m \<Longrightarrow> still v (or_undefined m)"
  by (simp add: or_undefined_def still_catch still_bnd still_ret)

lemma still_anchor: "calls_quiet D v \<Longrightarrow> still v (anchorCredentialDigest D sid c issuer)"
  unfolding anchorCredentialDigest_def by (intro quiet_rules still_or_undefined)

lemma still_claims: "calls_quiet D v \<Longrightarrow> still v (getClaims D schemas i key)"
  unfolding getClaims_def by (intro quiet_rules)

lemma still_signSelf:
  "calls_quiet D v \<Longrightarrow> still v (signSelfIssuedEcsCredential D r i c types composed sid st until)"
  unfolding signSelfIssuedEcsCredential_def by (intro quiet_rules)

lemma publishSelf_effect:
  assumes "did_storage_laws D stored" and "calls_quiet D stored" and "\<And>p. still stored (before p)"
  shows "ends stored (wrote D VtcBucket) x
     (publishSelfIssuedEcsPresentation D url schemas key sid types schema0 schemaType before until)"
  unfolding publishSelfIssuedEcsPresentation_def Let_def
  by (intro ends_if ends_own [OF assms(1)] ends_bnd_still [OF still_claims [OF assms(2)]]
      ends_bnd_still [OF still_signSelf [OF assms(2)]] ends_sqn_still ends_sqn_then_still still_if
      still_ret assms(3) ends_update [OF assms(1)] wrote_refl ends_ret ends_throw)
    (auto intro: wrote_step)

lemma ends_mono: "ends v R x m \<Longrightarrow> (\<And>y. R x y \<Longrightarrow> R' x y) \<Longrightarrow> ends v R' x m"
  by (auto simp: ends_def elim!: post_mono)

lemma ends_many: "ends v (wrote D k) x m \<Longrightarrow> ends v (rewrote D k) x m"
  by (erule ends_mono) blast

lemma rebind_effect:
  assumes "did_storage_laws D stored" and "calls_quiet D stored"
  shows "ends stored (rewrote D VtcBucket) x (rebindEcsCredentialSchema D base sid key jscUrl issuer schema until)"
  unfolding rebindEcsCredentialSchema_def Let_def
  by (intro ends_if ends_own [OF assms(1)] ends_sqn_trans [OF rewrote_trans] ends_trans [OF rewrote_trans]
      ends_whenM ends_prod ends_many [OF publishSelf_effect [OF assms]] still_anchor [OF assms(2)]
      ends_update [OF assms(1)] rtranclp.rtrancl_refl ends_ret)
    (auto intro: rewrote_step rewroteI [OF bound_step])

lemma withdraw_entries_effect:
  assumes "did_storage_laws D stored"
  shows "ends stored (rewrote D VtcBucket) x (withdraw_entries D issuer b)"
proof (induction b arbitrary: x)
  case (Cons p b)
  then show ?case
    by (cases p) (auto intro!: ends_trans [OF rewrote_trans] ends_many [OF remove_effect [OF assms]]
        ends_ret ends_prod)
qed (simp add: ends_ret)

lemma withdraw_effect:
  assumes "did_storage_laws D stored"
  shows "ends stored (rewrote D VtcBucket) x (withdrawSelfIssuedEcsCredentials D issuer)"
  unfolding withdrawSelfIssuedEcsCredentials_def
  by (intro ends_own [OF assms] ends_trans [OF rewrote_trans] ends_sqn_trans [OF rewrote_trans] ends_prod ends_if
      withdraw_entries_effect assms ends_update [OF assms] ends_ret rtranclp.rtrancl_refl)
    (auto simp: without_service_def intro: rewrote_step)

section \<open>What every write keeps\<close>

text \<open>An entry that can be served: it carries its presentation and the id of its service.\<close>

definition servable :: "bucket \<Rightarrow> bool" where
  "servable b \<longleftrightarrow> distinct (map fst b) \<and>
     (\<forall>(key, e) \<in> set b. te_presentation e \<noteq> None \<and> te_serviceId e \<noteq> None)"

definition servable_record :: "did_record option \<Rightarrow> bool" where
  "servable_record x \<longleftrightarrow> (\<forall>r k b. x = Some r \<longrightarrow> bucket_of r k = Some b \<longrightarrow> servable b)"

lemma in_jsmap_set: "p \<in> set (jsmap_set key e b) \<Longrightarrow> p = (key, e) \<or> p \<in> set b"
  by (induction b) (auto split: if_splits)

lemma servable_set:
  "servable b \<Longrightarrow> te_presentation e \<noteq> None \<Longrightarrow> te_serviceId e \<noteq> None \<Longrightarrow> servable (jsmap_set key e b)"
  by (auto simp: servable_def distinct_jsmap_set dest!: in_jsmap_set)

lemma servable_filter: "servable b \<Longrightarrow> servable (filter P b)"
  by (auto simp: servable_def distinct_map_filter)

lemma servable_delete: "servable b \<Longrightarrow> servable (jsmap_delete key b)"
  by (simp add: jsmap_delete_def servable_filter)

lemma servable_of: "servable b \<Longrightarrow> map_of b ref = Some e \<Longrightarrow> te_presentation e \<noteq> None \<and> te_serviceId e \<noteq> None"
  by (auto simp: servable_def dest!: map_of_SomeD)

lemma servable_Nil: "servable []"
  by (simp add: servable_def)

lemma servable_default:
  "servable_record (Some r) \<Longrightarrow> servable (withDefault (bucket_of r k) [])"
  by (cases "bucket_of r k") (auto simp: servable_record_def servable_Nil)

lemmas servable_rules = servable_set servable_filter servable_delete servable_Nil

text \<open>The renaming of service ids leaves every entry under its key.\<close>

definition renamed_entry :: "trust_entry \<Rightarrow> trust_entry" where
  "renamed_entry e =
     (case Option.bind (te_serviceId e) vtjsc_service_id of
        None \<Rightarrow> e | Some i \<Rightarrow> e\<lparr>te_serviceId := Some i\<rparr>)"

lemma renamed_entry_sel [simp]:
  "te_typeMetadata (renamed_entry e) = te_typeMetadata e" "te_presentation (renamed_entry e) = te_presentation e"
  "te_serviceId e \<noteq> None \<Longrightarrow> te_serviceId (renamed_entry e) \<noteq> None"
  by (auto simp: renamed_entry_def split: option.split)

lemma migrate_entries:
  "\<exists>r' c'. fold migrate_entry b (r, acc, c) = (r', acc @ map (\<lambda>(k, e). (k, renamed_entry e)) b, c') \<and>
     dr_jsc r' = dr_jsc r \<and> dr_vtc r' = dr_vtc r"
proof (induction b arbitrary: r acc c)
  case (Cons p b)
  obtain key e where p: "p = (key, e)" by (cases p)
  show ?case
  proof (cases "Option.bind (te_serviceId e) vtjsc_service_id")
    case None
    then show ?thesis
      using Cons [of r "acc @ [(key, e)]" c] by (simp add: p migrate_entry_def renamed_entry_def)
  next
    case (Some j)
    let ?r = "map_services (rename_service (the (te_serviceId e)) j) r"
    show ?thesis
      using Cons [of ?r "acc @ [(key, e\<lparr>te_serviceId := Some j\<rparr>)]" True] Some
      by (simp add: p migrate_entry_def renamed_entry_def)
  qed
qed simp

lemma migrated:
  assumes "fold migrate_entry b (r, [], False) = (r1, b1, c)"
  shows "b1 = map (\<lambda>(k, e). (k, renamed_entry e)) b" and "dr_vtc r1 = dr_vtc r"
  using migrate_entries [of b r "[]" False] assms by auto

lemma servable_migrated: "servable b \<Longrightarrow> servable (map (\<lambda>(k, e). (k, renamed_entry e)) b)"
  by (auto simp: servable_def comp_def case_prod_unfold simp del: not_None_eq)

text \<open>A saved record keeps what the other entries carry.\<close>

lemma servable_saved:
  assumes "servable_record (Some r)"
  shows "servable_record (Some (written D (saved_record r c p i k ref)))"
proof -
  have "servable (withDefault (bucket_of r k) [])" by (rule servable_default [OF assms])
  then have "servable b" if "bucket_of (saved_record r c p i k ref) k = Some b" for b
    using that by (auto simp: saved_record_def Let_def new_entry_def intro!: servable_rules split: option.splits)
  moreover have "bucket_of (saved_record r c p i k ref) k' = bucket_of r k'" if "k' \<noteq> k" for k'
    using that by (auto simp: saved_record_def Let_def without_service_def split: option.split)
  ultimately show ?thesis
    using assms by (metis option.inject servable_record_def written_sel(1))
qed

lemma bound_bucket:
  "servable b \<Longrightarrow> bound_entry b jscUrl issuer key = Some e \<Longrightarrow> servable (jsmap_set jscUrl e b)"
  by (auto simp: bound_entry_def split: option.splits if_splits intro!: servable_set dest: servable_of)

lemma servable_buckets:
  "servable_record (Some r) \<longleftrightarrow>
     (\<forall>b. dr_vtc r = Some b \<longrightarrow> servable b) \<and> (\<forall>b. dr_jsc r = Some b \<longrightarrow> servable b)"
  by (auto simp: servable_record_def bucket_of_def split: bucket_key.splits)

lemma rec_step_servable:
  assumes "rec_step D k r r'" and "servable_record (Some r)"
  shows "servable_record (Some r')"
  using assms
proof (induction rule: rec_step.induct)
  case (save ref k r c p i)
  then show ?case by (simp add: servable_saved)
next
  case (delete r k b key P)
  then show ?case
    by (cases k) (auto simp: servable_buckets bucket_of_buckets intro: servable_delete)
next
  case (bind r jscUrl issuer key i vpUrl)
  then have "servable (withDefault (dr_vtc r) [])"
    using servable_default [of r VtcBucket] by (simp add: bucket_of_buckets)
  then show ?case
    using bind by (auto simp: servable_buckets bound_record_def Let_def dest: bound_bucket split: option.splits if_splits)
next
  case (issue r d key url i sid p integrity attached)
  then show ?case
    using servable_default [of r VtcBucket]
    by (auto simp: servable_buckets self_issued_record_def self_issued_entry_def Let_def bucket_of_buckets
      set_bucket_def intro!: servable_set split: if_splits)
next
  case (prune r Q)
  then show ?case
    using servable_default [of r VtcBucket] by (auto simp: servable_buckets bucket_of_buckets intro!: servable_filter)
next
  case (typed r b ref e m)
  then show ?case by (auto simp: servable_buckets intro!: servable_set dest: servable_of)
next
  case (migrate r b r1 b1 c)
  then show ?case using migrated [OF migrate(2)] by (auto simp: servable_buckets servable_migrated)
qed (auto simp: servable_buckets)

lemma rec_step_metadata: "rec_step D JscBucket r r' \<Longrightarrow> metadata_kept (Some r) (Some r')"
proof (induction k \<equiv> JscBucket r r' rule: rec_step.induct)
  case (save ref r c p i)
  then show ?case by (rule metadata_kept_saved)
next
  case (delete r b key P)
  then show ?case
    by (intro metadata_kept_bucket [where b = "jsmap_delete key b"]) (auto simp: bucket_of_buckets split: if_splits)
next
  case (migrate r b r1 b1 c)
  then show ?case
    using migrated [OF migrate(2)] by (intro metadata_kept_bucket [where b = b1]) (auto simp: map_of_map)
next
  case (typed r b ref e m)
  then show ?case
    by (intro metadata_kept_bucket [where b = "jsmap_set ref (e\<lparr>te_typeMetadata := Some m\<rparr>) b"])
      (auto split: if_splits)
qed (auto simp: metadata_kept_def type_metadata_def)

lemma rec_step_vtc: "rec_step D VtcBucket r r' \<Longrightarrow> dr_jsc r' = dr_jsc r"
proof (induction k \<equiv> VtcBucket r r' rule: rec_step.induct)
  case (delete r b key P)
  then show ?case by (simp add: bucket_of_buckets)
next
  case (issue r d key url i sid p integrity attached)
  then show ?case by (simp add: self_issued_record_def Let_def set_bucket_def)
next
  case (bind r jscUrl issuer key i vpUrl)
  then show ?case by (simp add: bound_record_def Let_def split: option.split)
qed (auto simp: saved_record_jsc)

lemma wrote_metadata:
  assumes "wrote D JscBucket x y"
  shows "metadata_kept x y"
  using assms rec_step_metadata by (auto simp: wrote_def)

lemma rewrote_vtc:
  assumes "rewrote D VtcBucket x y"
  shows "map_option dr_jsc y = map_option dr_jsc x"
  using assms by induction (auto simp: wrote_def rec_step_vtc)

lemma rewrote_servable:
  assumes "rewrote D k x y" and "servable_record x"
  shows "servable_record y"
  using assms by induction (auto simp: wrote_def intro: rec_step_servable)

section \<open>The store as a machine\<close>

datatype store_cmd =
    CreateVtc string trust_credential
  | CreateJsc string string "string option"
  | RemoveTrust string bucket_key
  | RemoveStored "string option" "string option"
  | MigrateServiceIds
  | DetachVtjscs "string list"
  | ReattachVtjsc string
  | StoreTypeMetadata string string
  | RebindEcs string string string int "string option" "string option"
  | WithdrawEcs int

definition quietly :: "('s, 'e, 'a) comp \<Rightarrow> 's \<Rightarrow> 's" where
  "quietly m s = snd (m s)"

fun store_step :: "'s did_env \<Rightarrow> store_cmd \<Rightarrow> 's \<Rightarrow> 's" where
  "store_step D (CreateVtc i c) = quietly (createVtc D (de_publicApiBaseUrl D) i c)"
| "store_step D (CreateJsc i ref digest) = quietly (createJsc D (de_publicApiBaseUrl D) i ref digest)"
| "store_step D (RemoveTrust i k) = quietly (removeTrustCredential D i k)"
| "store_step D (RemoveStored i e) = quietly (removeStoredTrustCredential D i e)"
| "store_step D MigrateServiceIds = quietly (migrateVtjscServiceIds D)"
| "store_step D (DetachVtjscs refs) = quietly (detachVtjscPublications D refs)"
| "store_step D (ReattachVtjsc ref) = quietly (reattachVtjscPublication D ref)"
| "store_step D (StoreTypeMetadata ref m) = quietly (saveVtjscTypeMetadata D ref m)"
| "store_step D (RebindEcs sid key jscUrl issuer schema until) =
     quietly (rebindEcsCredentialSchema D (de_publicApiBaseUrl D) sid key jscUrl issuer schema until)"
| "store_step D (WithdrawEcs issuer) = quietly (withdrawSelfIssuedEcsCredentials D issuer)"

fun cmd_bucket :: "store_cmd \<Rightarrow> bucket_key" where
  "cmd_bucket (CreateJsc i ref digest) = JscBucket"
| "cmd_bucket (RemoveTrust i k) = k"
| "cmd_bucket MigrateServiceIds = JscBucket"
| "cmd_bucket (DetachVtjscs refs) = JscBucket"
| "cmd_bucket (ReattachVtjsc ref) = JscBucket"
| "cmd_bucket (StoreTypeMetadata ref m) = JscBucket"
| "cmd_bucket c = VtcBucket"

text \<open>Every command but two writes the record once at most.\<close>

fun one_write_cmd :: "store_cmd \<Rightarrow> bool" where
  "one_write_cmd (RebindEcs sid key jscUrl issuer schema until) = False"
| "one_write_cmd (WithdrawEcs issuer) = False"
| "one_write_cmd c = True"

definition store_ok :: "'s did_env \<Rightarrow> ('s \<Rightarrow> did_record option) \<Rightarrow> bool" where
  "store_ok D stored \<longleftrightarrow> did_storage_laws D stored \<and> calls_quiet D stored"

lemma quietly_ends: "ends v R (v s) m \<Longrightarrow> R (v s) (v (quietly m s))"
  unfolding quietly_def by (rule endsD)

lemmas one_write =
  createVtc_effect createJsc_effect remove_effect removeStored_effect migrate_effect detach_effect
  reattach_effect typeMetadata_effect

lemma store_step_wrote:
  assumes "store_ok D stored" and "one_write_cmd c"
  shows "wrote D (cmd_bucket c) (stored s) (stored (store_step D c s))"
proof -
  note q = quietly_ends [where v = stored and s = s and R = "wrote D k" for k]
  show ?thesis
    using assms by (cases c) (simp_all add: store_ok_def q one_write)
qed

lemma store_step_rewrote:
  assumes "store_ok D stored"
  shows "rewrote D (cmd_bucket c) (stored s) (stored (store_step D c s))"
proof (cases "one_write_cmd c")
  case True
  then show ?thesis using store_step_wrote [OF assms] by blast
next
  case False
  note q = quietly_ends [where v = stored and s = s and R = "rewrote D VtcBucket"]
  show ?thesis
    using assms False by (cases c) (simp_all add: store_ok_def q rebind_effect withdraw_effect)
qed

lemma store_step_metadata:
  assumes "store_ok D stored"
  shows "metadata_kept (stored s) (stored (store_step D c s))"
proof (cases "cmd_bucket c")
  case JscBucket
  moreover from this have "one_write_cmd c" by (cases c) simp_all
  ultimately show ?thesis using store_step_wrote [OF assms, of c s] by (simp add: wrote_metadata)
next
  case VtcBucket
  then have "map_option dr_jsc (stored (store_step D c s)) = map_option dr_jsc (stored s)"
    using store_step_rewrote [OF assms, of c s] by (simp add: rewrote_vtc)
  then show ?thesis
    unfolding metadata_kept_def type_metadata_def by (cases "stored s"; cases "stored (store_step D c s)") auto
qed

interpretation store: command_machine "store_step D"
  "\<lambda>s. store_ok D stored \<and> servable_record (stored s)" "\<lambda>_. True" for D stored
  by unfold_locales (auto intro: rewrote_servable [OF store_step_rewrote])

end
