(* ===== verification/TrustProps.thy ===== *)
theory TrustProps
  imports TrustMachine
begin

text \<open>
  Properties of the trust credential store and of the document the agent publishes: what every run of its
  commands keeps, what a publication and a withdrawal leave, and the two orders of operations that lose
  something.
\<close>

section \<open>An agent whose storage is in memory\<close>

record disk =
  mm_record :: "did_record option"
  mm_pending :: "(string \<times> string) list"

definition mem_presentation :: "string \<Rightarrow> json \<Rightarrow> json" where
  "mem_presentation i v = JObj [(''id'', JStr i), (''verifiableCredential'', JArr [v])]"

definition mem_did_env :: "disk did_env" where
  "mem_did_env =
     \<lparr> de_did = Some ''did:a'', de_publicApiBaseUrl = ''https://a'', de_adminEndpoint = None,
       de_chain = Some (''c'', ''op''), de_localeCompare = (\<lambda>a b. 0), de_documentJson = (\<lambda>d. JStr (dd_id d)),
       de_sha384 = (\<lambda>t. []), de_pending = mm_pending, de_setPending = (\<lambda>p s. s\<lparr>mm_pending := p\<rparr>),
       de_created = (\<lambda>d. gets (\<lambda>s. case mm_record s of None \<Rightarrow> [] | Some r \<Rightarrow> [r])),
       de_alternativeDids = ret [], de_findById = (\<lambda>i. gets mm_record),
       de_save = (\<lambda>r. modify (\<lambda>s. s\<lparr>mm_record := Some r\<rparr>)), de_publish = (\<lambda>i d. ret ()),
       de_trigger = (\<lambda>c. ret ()),
       de_signCredential = (\<lambda>opts vm. ret (JObj [(''id'', JStr (w3_id opts)),
         (''credentialSubject'', w3_credentialSubject opts), (''credentialSchema'', w3_credentialSchema opts)])),
       de_signDiPresentation = (\<lambda>i h v vm. ret (mem_presentation i v)),
       de_signLdpPresentation = (\<lambda>i h v vm. ret (mem_presentation i v)),
       de_v2Records = ret [], de_v1Records = ret [], de_deleteV2 = (\<lambda>i. ret ()), de_deleteV1 = (\<lambda>i. ret ()),
       de_formatData = (\<lambda>i. ret JNull), de_now = ret 0, de_claims = (\<lambda>k. ret (Some [(''name'', JStr ''A'')])),
       de_validateSchema = (\<lambda>t j. ret ()), de_indexerByChain = (\<lambda>c. None), de_fetchText = (\<lambda>u. ret (Inl ''404'')),
       de_metaSchemaErrors = (\<lambda>j. None), de_digestJCS = (\<lambda>c a. Inr ''digest''),
       de_anchored = (\<lambda>d. ret None), de_anchorSession = (\<lambda>n d. throw (OtherError ''no grant'')),
       de_waitForDigest = (\<lambda>d. ret ()), de_schema = (\<lambda>i. throw (OtherError ''503'')), de_ecosystem = (\<lambda>i. ret None),
       de_ecosystems = ret [], de_schemasOf = (\<lambda>i. ret []), de_participants = (\<lambda>f. ret []),
       de_resolveVtjsc = (\<lambda>n c. ret []), de_ecsSchemas = [], ac_createdSchemas = (\<lambda>i. ret []),
       ac_registerSchema = (\<lambda>n a c d i. ret (Inl [])), ac_tagSchema = (\<lambda>i j. ret ()),
       ac_saveAttestedResource = (\<lambda>v i. ret ()) \<rparr>"

lemma mem_laws: "did_storage_laws mem_did_env mm_record"
  by (simp add: did_storage_laws_def mem_did_env_def wp split: option.split)

lemma mem_quiet: "calls_quiet mem_did_env mm_record"
  by (simp add: calls_quiet_def mem_did_env_def still_rules)

lemma mem_ok: "store_ok mem_did_env mm_record"
  by (simp add: store_ok_def mem_laws mem_quiet)

definition doc_a :: did_document where
  "doc_a = \<lparr> dd_id = ''did:a'', dd_service = Some [],
     dd_verificationMethod = Some [\<lparr> dm_id = ''did:a#k'', dm_type = ''Ed25519VerificationKey2020'' \<rparr>],
     dd_assertionMethod = Some [RefTo ''did:a#k''], dd_other = JNull \<rparr>"

definition record_a :: did_record where
  "record_a = \<lparr> dr_id = ''r'', dr_did = ''did:a'', dr_document = Some doc_a, dr_vtc = None, dr_jsc = None \<rparr>"

definition state_a :: disk where
  "state_a = \<lparr> mm_record = Some record_a, mm_pending = [] \<rparr>"

definition credential_of :: "string \<Rightarrow> trust_credential" where
  "credential_of ref = DiCredential (JObj [(''id'', JStr (''urn:'' @ ref)), (''credentialSchema'', JObj [(''id'', JStr ref)])])"

definition entry_a :: trust_entry where
  "entry_a = new_entry None (credential_of ''s1'') (DiPresentation (mem_presentation ''https://a/vt/schemas-x-vtc-vp.json''
     (trustCredentialEntry (credential_of ''s1'')))) ''did:a#vpr-schemas-x-vtc-vp''"

definition record_b :: did_record where
  "record_b = record_a\<lparr>dr_vtc := Some [(''s1'', entry_a)],
     dr_document := Some (doc_a\<lparr>dd_service := Some [lvp_service ''did:a#vpr-schemas-x-vtc-vp''
       (JStr ''https://a/vt/schemas-x-vtc-vp.json'')]\<rparr>)\<rparr>"

definition presentation_a :: trust_presentation where
  "presentation_a = DiPresentation (mem_presentation ''https://a/vt/schemas-x-vtc-vp.json''
     (trustCredentialEntry (credential_of ''s1'')))"

lemma publish_a:
  "createVtc mem_did_env ''https://a'' ''x'' (credential_of ''s1'') state_a =
     (Inr presentation_a, \<lparr> mm_record = Some record_b,
        mm_pending = [(''did:a'', ''the published Verifiable Trust material changed'')] \<rparr>)"
  by code_simp

lemma run_a: "mm_record (fold (store_step mem_did_env) [CreateVtc ''x'' (credential_of ''s1'')] state_a) = Some record_b"
  using publish_a by (simp add: quietly_def) (simp add: mem_did_env_def)

section \<open>Every run of the store\<close>

text \<open>
  C11. However the commands of the trust credential store follow each other, an entry of the DID record can
  always be served: its key is unique, a lookup by that key answers this entry and no other, and it carries
  the presentation served and the id of the service that announces it.
\<close>

theorem published_entries_stay_resolvable:
  assumes "store_ok D stored" and "servable_record (stored s)"
    and "stored (fold (store_step D) cmds s) = Some r" and "bucket_of r k = Some b"
    and "(ref, e) \<in> set b" and "ref \<noteq> []"
  shows "\<exists>p i. te_presentation e = Some p \<and> te_serviceId e = Some i \<and>
    findMetadataEntry r k j (Some ref) = Some (found_at ref e (Some p))"
proof -
  have "servable_record (stored (fold (store_step D) cmds s))"
    using store.run_inv [of D stored s cmds] assms(1,2) by (simp add: list_all_iff)
  then have b: "servable b" using assms(3,4) by (simp add: servable_record_def)
  then have e: "map_of b ref = Some e" using assms(5) by (simp add: servable_def)
  show ?thesis
    using servable_of [OF b e] find_ref [OF assms(6,4) e] by auto
qed

theorem published_entries_stay_resolvable_witness:
  "te_serviceId entry_a = Some ''did:a#vpr-schemas-x-vtc-vp'' \<and>
   (\<exists>p. findMetadataEntry record_b VtcBucket None (Some ''s1'') = Some (found_at ''s1'' entry_a (Some p)))"
proof -
  have "servable_record (mm_record state_a)" "bucket_of record_b VtcBucket = Some [(''s1'', entry_a)]"
    by (simp_all add: servable_buckets state_a_def record_a_def record_b_def bucket_of_def)
  then show ?thesis
    using published_entries_stay_resolvable [OF mem_ok _ run_a, of VtcBucket "[(''s1'', entry_a)]" "''s1''" entry_a None]
    by (auto simp: entry_a_def new_entry_def)
qed

text \<open>
  C12. The SD-JWT VC type metadata stored for a schema never changes while the agent keeps the schema's
  credential: re-issuing the credential, migrating its service id, taking it out of the document and putting
  it back, storing metadata again and every other command leave the text that was stored first.
\<close>

theorem type_metadata_never_changes:
  assumes "store_ok D stored" and "type_metadata (stored s) ref = Some m"
    and "\<forall>n \<le> length cmds. has_vtjsc (stored (fold (store_step D) (take n cmds) s)) ref"
  shows "type_metadata (stored (fold (store_step D) cmds s)) ref = Some m"
  using assms(2,3)
proof (induction cmds arbitrary: s)
  case (Cons c cmds)
  have "has_vtjsc (stored (store_step D c s)) ref" using Cons.prems(2) [rule_format, of 1] by simp
  then have "type_metadata (stored (store_step D c s)) ref = Some m"
    using store_step_metadata [OF assms(1)] Cons.prems(1) unfolding metadata_kept_def by blast
  moreover have "has_vtjsc (stored (fold (store_step D) (take n cmds) (store_step D c s))) ref"
    if "n \<le> length cmds" for n
    using Cons.prems(2) [rule_format, of "Suc n"] that by simp
  ultimately show ?case by (simp add: Cons.IH)
qed simp

definition state_m :: disk where
  "state_m = \<lparr> mm_record = Some (record_a\<lparr>dr_jsc := Some
     [(''ref'', entry_a\<lparr>te_typeMetadata := Some ''first''\<rparr>)]\<rparr>), mm_pending = [] \<rparr>"

theorem type_metadata_never_changes_witness:
  "type_metadata (mm_record (fold (store_step mem_did_env)
     [StoreTypeMetadata ''ref'' ''second'', DetachVtjscs [''ref'']] state_m)) ''ref'' = Some ''first''"
proof -
  have s: "fold (store_step mem_did_env) (take n [StoreTypeMetadata ''ref'' ''second'', DetachVtjscs [''ref'']]) state_m =
      state_m" for n
    by (cases n; cases "n - 1") (simp_all add: quietly_def saveVtjscTypeMetadata_def getDidRecord_def comp_defs
      detachVtjscPublications_def mem_did_env_def state_m_def record_a_def doc_a_def services_of_def entry_a_def
      new_entry_def head_option_def)
  have "type_metadata (mm_record state_m) ''ref'' = Some ''first''"
    by (simp add: state_m_def type_metadata_def)
  moreover have "\<forall>n \<le> length [StoreTypeMetadata ''ref'' ''second'', DetachVtjscs [''ref'']].
      has_vtjsc (mm_record (fold (store_step mem_did_env)
        (take n [StoreTypeMetadata ''ref'' ''second'', DetachVtjscs [''ref'']]) state_m)) ''ref''"
    unfolding s by (simp add: state_m_def has_vtjsc_def)
  ultimately show ?thesis by (rule type_metadata_never_changes [OF mem_ok])
qed

section \<open>Publishing\<close>

lemma announced_written [simp]: "announced (written D r) = announced r"
  by (cases "dr_document r"; cases "Option.bind (dr_document r) dd_service")
    (auto simp: announced_def written_def services_of_def applyAdminApiServiceEntry_def Let_def
      ADMIN_API_SERVICE_TYPE_def LVP_TYPE_def
      intro!: arg_cong2 [where f = List.map] filter_cong [OF refl])

lemma announced_Nil: "services_of r = None \<Longrightarrow> announced r = []"
  by (simp add: announced_def)

definition vtc_service_id :: "'s did_env \<Rightarrow> string \<Rightarrow> string" where
  "vtc_service_id D i = did_text D @ ''#vpr-'' @ replace_first ''.json'' [] (''schemas-'' @ i @ ''-vtc-vp.json'')"

lemma post_saveMetadataEntry:
  assumes "did_storage_laws D stored"
  shows "post (saveMetadataEntry D r c p i k)
     (\<lambda>_ t. \<exists>ref. ref \<noteq> [] \<and> entry_ref (trustCredentialFields c) k = Some (JStr ref) \<and>
        stored t = Some (written D (saved_record r c p i k ref))) (\<lambda>_ _. True) s"
proof (cases "entry_ref (trustCredentialFields c) k")
  case (Some v)
  then show ?thesis
    by (cases v) (auto simp: saveMetadataEntry_def wp intro!: post_mono [OF updateDidRecord_stores [OF assms]])
qed (simp add: saveMetadataEntry_def wp)

definition vtc_url :: "string \<Rightarrow> string \<Rightarrow> string" where
  "vtc_url base i = base @ ''/vt/'' @ ''schemas-'' @ i @ ''-vtc-vp.json''"

text \<open>What \<open>createVtc\<close> writes is the record it read first, with the new entry.\<close>

lemma post_createVtc:
  assumes laws: "did_storage_laws D stored"
    and signing: "\<And>vm. post (signLinkedPresentation D (vtc_url base i) c vm) P (\<lambda>_ _. True) s"
  shows "post (createVtc D base i c)
     (\<lambda>p t. \<exists>r ref u. stored s = Some r \<and> P p u \<and> ref \<noteq> [] \<and>
        entry_ref (trustCredentialFields c) VtcBucket = Some (JStr ref) \<and>
        stored t = Some (written D (saved_record r c p (vtc_service_id D i) VtcBucket ref))) (\<lambda>_ _. True) s"
    (is "post _ ?Q _ _")
proof -
  have save: "post (sqn (saveMetadataEntry D r c p (vtc_service_id D i) VtcBucket) (ret p)) ?Q (\<lambda>_ _. True) u"
    if "stored s = Some r" and "P p u'" for r p u u'
    unfolding wp by (rule post_mono [OF post_saveMetadataEntry [OF laws]]) (use that in auto)
  have sign: "post (bnd (signLinkedPresentation D (vtc_url base i) c vm)
      (\<lambda>p. sqn (saveMetadataEntry D r c p (vtc_service_id D i) VtcBucket) (ret p))) ?Q (\<lambda>_ _. True) s"
    if "stored s = Some r" for r vm
    unfolding post_bnd by (rule post_mono [OF signing]) (use save [OF that] in auto)
  have eq: "createVtc D base i c = bnd (ownDidRecord D) (\<lambda>r. bnd (raise (\<lambda>_. getVerificationMethodId r))
      (\<lambda>vm. bnd (signLinkedPresentation D (vtc_url base i) c vm)
        (\<lambda>p. sqn (saveMetadataEntry D r c p (vtc_service_id D i) VtcBucket) (ret p))))"
    by (simp add: createVtc_def vtc_url_def vtc_service_id_def Let_def)
  have tail: "post (bnd (raise (\<lambda>_. getVerificationMethodId r))
      (\<lambda>vm. bnd (signLinkedPresentation D (vtc_url base i) c vm)
        (\<lambda>p. sqn (saveMetadataEntry D r c p (vtc_service_id D i) VtcBucket) (ret p)))) ?Q (\<lambda>_ _. True) s"
    if "stored s = Some r" for r
    unfolding post_bnd [of "raise _"] post_raise using sign [OF that] by (auto split: sum.split)
  show ?thesis
    unfolding eq post_bnd [of "ownDidRecord D"]
    by (rule post_mono [OF post_ownDidRecord [OF laws]]) (use tail in auto)
qed

lemma createVtc_result:
  assumes "did_storage_laws D stored" and "createVtc D base i c s = (Inr p, t)"
  shows "\<exists>r ref. stored s = Some r \<and> ref \<noteq> [] \<and> entry_ref (trustCredentialFields c) VtcBucket = Some (JStr ref) \<and>
    stored t = Some (written D (saved_record r c p (vtc_service_id D i) VtcBucket ref))"
  using post_createVtc [where P = "\<lambda>_ _. True", OF assms(1) post_triv, of base i c s] assms(2)
  by (simp add: post_def)

text \<open>The saved record: its entry, and the services of its document.\<close>

lemma services_without: "services_of (without_service i r) = map_option (filter (\<lambda>s. Some (ds_id s) \<noteq> i)) (services_of r)"
  by (simp add: without_service_def)

lemma saved_entry:
  "\<exists>tm b. dr_vtc (saved_record r c p i VtcBucket ref) = Some b \<and> map_of b ref = Some (new_entry tm c p i) \<and>
     (\<forall>ref'. ref' \<noteq> ref \<longrightarrow> map_of b ref' = None \<or> map_of b ref' = map_of (withDefault (dr_vtc r) []) ref')"
  by (auto simp: saved_record_def Let_def bucket_of_buckets split: option.split)

lemma saved_services:
  "\<exists>P. services_of (saved_record r c p i k ref) = map_option
     (\<lambda>ss. filter P ss @ [lvp_service i (withDefault (trustPresentationId p) JNull)]) (services_of r)"
  by (auto simp: saved_record_def Let_def services_without option.map_comp comp_def
      intro: exI [of _ "\<lambda>_. True"] split: option.split)

lemma saved_announced:
  "services_of r = None \<Longrightarrow> announced (saved_record r c p i k ref) = []"
  "services_of r \<noteq> None \<Longrightarrow>
     (i, withDefault (trustPresentationId p) JNull) \<in> set (announced (saved_record r c p i k ref))"
  using saved_services [of r c p i k ref]
  by (auto simp: announced_def lvp_service_def
    intro!: image_eqI [where x = "lvp_service i (withDefault (trustPresentationId p) JNull)"])

text \<open>
  C16. A credential whose publication succeeds is served from then on: the record holds it under the id of its
  schema, with the presentation that was returned. It is announced too, by a linked presentation at that
  URL, exactly when the DID document already had a list of services: without one nothing is announced,
  although the publication succeeds.
\<close>

theorem published_credential_is_served:
  assumes "did_storage_laws D stored" and "createVtc D base i c s = (Inr p, t)"
  shows "\<exists>r r' ref e. stored s = Some r \<and> stored t = Some r' \<and>
    entry_ref (trustCredentialFields c) VtcBucket = Some (JStr ref) \<and>
    findMetadataEntry r' VtcBucket j (Some ref) = Some (found_at ref e (Some (trustPresentationEntry p))) \<and>
    te_credential e = Some (trustCredentialEntry c) \<and>
    (if services_of r = None then announced r' = []
     else (vtc_service_id D i, withDefault (trustPresentationId p) JNull) \<in> set (announced r'))"
proof -
  obtain r ref where r: "stored s = Some r" "ref \<noteq> []"
      "entry_ref (trustCredentialFields c) VtcBucket = Some (JStr ref)"
      "stored t = Some (written D (saved_record r c p (vtc_service_id D i) VtcBucket ref))"
    using createVtc_result [OF assms] by blast
  obtain tm b where b: "dr_vtc (saved_record r c p (vtc_service_id D i) VtcBucket ref) = Some b"
      "map_of b ref = Some (new_entry tm c p (vtc_service_id D i))"
    using saved_entry by blast
  let ?r' = "written D (saved_record r c p (vtc_service_id D i) VtcBucket ref)"
  have "findMetadataEntry ?r' VtcBucket j (Some ref) =
      Some (found_at ref (new_entry tm c p (vtc_service_id D i)) (Some (trustPresentationEntry p)))"
    using find_ref [OF r(2), of ?r' VtcBucket b _ j] b by (simp add: bucket_of_buckets new_entry_def)
  then show ?thesis
    using r saved_announced [of r] by (auto simp: new_entry_def)
qed

theorem published_credential_is_served_witness:
  "\<exists>r' ref e. mm_record (snd (createVtc mem_did_env ''https://a'' ''x'' (credential_of ''s1'') state_a)) = Some r' \<and>
    findMetadataEntry r' VtcBucket None (Some ref) = Some (found_at ref e (Some (trustPresentationEntry presentation_a)))"
  using published_credential_is_served [OF mem_laws publish_a, of None] unfolding publish_a by auto

section \<open>Two publications at once\<close>

text \<open>
  An agent that carries out \<open>m\<close> while a publication waits for its signature: what JavaScript does when
  another operation's turn comes at that \<open>await\<close>.
\<close>

definition during_signing :: "'s did_env \<Rightarrow> ('s, err, 'a) comp \<Rightarrow> 's did_env" where
  "during_signing D m =
     D\<lparr>de_signDiPresentation := (\<lambda>i h v vm. bnd m (\<lambda>_. de_signDiPresentation D i h v vm)),
       de_signLdpPresentation := (\<lambda>i h v vm. bnd m (\<lambda>_. de_signLdpPresentation D i h v vm))\<rparr>"

lemma during_signing_laws: "did_storage_laws (during_signing D m) stored = did_storage_laws D stored"
  by (simp add: did_storage_laws_def during_signing_def)

lemma during_signing_runs:
  "post (signLinkedPresentation (during_signing D m) i c vm) (\<lambda>_ _. \<exists>x t. m s = (Inr x, t)) (\<lambda>_ _. True) s"
  by (cases c) (auto simp: signLinkedPresentation_def during_signing_def post_def comp_defs
      split: sum.splits prod.splits)

text \<open>
  C37. Two credentials published at the same time overwrite each other: when the second publication completes
  while the first waits for the signature of its presentation, both report success and the credential of the
  second, served a moment before, is gone from the record.
\<close>

theorem overlapping_publications_lose_one:
  assumes "did_storage_laws D stored" and "stored s = Some r"
    and "createVtc (during_signing D (createVtc D base i2 c2)) base i1 c1 s = (Inr p, t)"
    and "entry_ref (trustCredentialFields c2) VtcBucket = Some (JStr ref2)"
    and "entry_ref (trustCredentialFields c1) VtcBucket \<noteq> Some (JStr ref2)"
    and "map_of (withDefault (dr_vtc r) []) ref2 = None"
  shows "\<exists>p2 u r2 r3 e. createVtc D base i2 c2 s = (Inr p2, u) \<and> stored u = Some r2 \<and> stored t = Some r3 \<and>
    map_of (withDefault (dr_vtc r2) []) ref2 = Some e \<and> te_credential e = Some (trustCredentialEntry c2) \<and>
    map_of (withDefault (dr_vtc r3) []) ref2 = None"
proof -
  let ?D = "during_signing D (createVtc D base i2 c2)"
  obtain p2 u ref1 where first: "createVtc D base i2 c2 s = (Inr p2, u)"
      "entry_ref (trustCredentialFields c1) VtcBucket = Some (JStr ref1)"
      "stored t = Some (written ?D (saved_record r c1 p (vtc_service_id ?D i1) VtcBucket ref1))"
    using post_createVtc [of ?D stored base i1 c1, OF _ during_signing_runs, of s] assms(1-3)
    by (auto simp: during_signing_laws post_returns)
  have second: "stored u = Some (written D (saved_record r c2 p2 (vtc_service_id D i2) VtcBucket ref2))"
    using createVtc_result [OF assms(1) first(1)] assms(2,4) by auto
  obtain tm b where b: "dr_vtc (saved_record r c2 p2 (vtc_service_id D i2) VtcBucket ref2) = Some b"
      "map_of b ref2 = Some (new_entry tm c2 p2 (vtc_service_id D i2))"
    using saved_entry by blast
  obtain b' where b': "dr_vtc (saved_record r c1 p (vtc_service_id ?D i1) VtcBucket ref1) = Some b'"
      "map_of b' ref2 = None"
    using saved_entry [of r c1 p "vtc_service_id ?D i1" ref1] assms(5,6) first(2) by auto metis
  show ?thesis
    using first second b b' by (auto simp: new_entry_def)
qed

lemma overlap_a:
  "fst (createVtc (during_signing mem_did_env (createVtc mem_did_env ''https://a'' ''y'' (credential_of ''s2'')))
     ''https://a'' ''x'' (credential_of ''s1'') state_a) = Inr presentation_a"
  by code_simp

theorem overlapping_publications_lose_one_witness:
  "\<exists>p2 u r2 r3 e. createVtc mem_did_env ''https://a'' ''y'' (credential_of ''s2'') state_a = (Inr p2, u) \<and>
     mm_record u = Some r2 \<and>
     mm_record (snd (createVtc (during_signing mem_did_env (createVtc mem_did_env ''https://a'' ''y''
       (credential_of ''s2''))) ''https://a'' ''x'' (credential_of ''s1'') state_a)) = Some r3 \<and>
     map_of (withDefault (dr_vtc r2) []) ''s2'' = Some e \<and> map_of (withDefault (dr_vtc r3) []) ''s2'' = None"
proof -
  have ref: "entry_ref (trustCredentialFields (credential_of r)) VtcBucket = Some (JStr r)" for r
    by (simp add: entry_ref_def trustCredentialFields_def credential_of_def id_of_def member_def)
  obtain t where run: "createVtc (during_signing mem_did_env (createVtc mem_did_env ''https://a'' ''y''
      (credential_of ''s2''))) ''https://a'' ''x'' (credential_of ''s1'') state_a = (Inr presentation_a, t)"
    using overlap_a by (metis prod.collapse)
  have r: "mm_record state_a = Some record_a" "map_of (withDefault (dr_vtc record_a) []) ''s2'' = None"
    by (simp_all add: state_a_def record_a_def)
  show ?thesis
    using overlapping_publications_lose_one [OF mem_laws r(1) run ref _ r(2)] unfolding run by (auto simp: ref)
qed

section \<open>A binding that fails\<close>

text \<open>\<open>fails v x m\<close>: run where the view is \<open>x\<close>, the computation throws and leaves the view.\<close>

definition fails :: "('s \<Rightarrow> 'v) \<Rightarrow> 'v \<Rightarrow> ('s, 'e, 'a) comp \<Rightarrow> bool" where
  "fails v x m \<longleftrightarrow> (\<forall>s. v s = x \<longrightarrow> post m (\<lambda>_ _. False) (\<lambda>_ t. v t = x) s)"

lemma fails_throw: "fails v x (throw e)"
  by (simp add: fails_def wp)

lemma fails_then: "fails v x m \<Longrightarrow> fails v x (bnd m f)"
  by (auto simp: fails_def wp intro: post_mono)

lemma fails_sqn: "fails v x m \<Longrightarrow> fails v x (sqn m k)"
  unfolding sqn_def by (rule fails_then)

lemma fails_bnd_still:
  assumes "still v m" and "\<And>y. fails v x (f y)"
  shows "fails v x (bnd m f)"
  unfolding fails_def post_bnd
proof (intro allI impI)
  fix s assume s: "v s = x"
  show "post m (\<lambda>y. post (f y) (\<lambda>_ _. False) (\<lambda>_ t. v t = x)) (\<lambda>_ t. v t = x) s"
    by (rule post_mono [OF still_post [OF assms(1)]]) (use s assms(2) in \<open>auto simp: fails_def\<close>)
qed

lemma fails_if: "(b \<Longrightarrow> fails v x m) \<Longrightarrow> (\<not> b \<Longrightarrow> fails v x n) \<Longrightarrow> fails v x (if b then m else n)"
  by simp

lemma fails_own:
  assumes "did_storage_laws D stored" and "\<And>r. x = Some r \<Longrightarrow> fails stored x (f r)"
  shows "fails stored x (bnd (ownDidRecord D) f)"
  unfolding fails_def post_bnd
proof (intro allI impI)
  fix s assume s: "stored s = x"
  show "post (ownDidRecord D) (\<lambda>y. post (f y) (\<lambda>_ _. False) (\<lambda>_ t. stored t = x)) (\<lambda>_ t. stored t = x) s"
    by (rule post_mono [OF post_ownDidRecord [OF assms(1)]]) (use s assms(2) in \<open>auto simp: fails_def\<close>)
qed

lemmas fails_rules = fails_throw fails_if fails_own fails_bnd_still

lemma publishSelf_fails:
  assumes "did_storage_laws D stored" and "calls_quiet D stored"
    and "map_of (withDefault (dr_vtc r) []) schema0 = None" and "\<not> is_superseded (withDefault (dr_vtc r) []) schema0 url"
    and "\<And>p x. fails stored x (before p)"
  shows "fails stored (Some r)
     (publishSelfIssuedEcsPresentation D url schemas key sid types schema0 schemaType before until)"
  unfolding publishSelfIssuedEcsPresentation_def Let_def
  by (intro fails_rules fails_sqn assms(1) still_claims [OF assms(2)] still_signSelf [OF assms(2)])
    (use assms(3-5) in auto)

lemma update_returns:
  assumes "did_storage_laws D stored" and "\<exists>v. updateDidRecord D r s = (Inr (), v)"
  shows "post (updateDidRecord D r) (\<lambda>_ u. stored u = Some (written D r)) (\<lambda>_ _. False) s"
  using updateDidRecord_stores [OF assms(1), of r s] assms(2) by (auto simp: post_def)

definition self_vp_url :: "string \<Rightarrow> string \<Rightarrow> string" where
  "self_vp_url base key = base @ ''/vt/'' @ key @ ''-vtc-vp.json''"

lemma post_rebind_stale:
  fixes D :: "'s did_env" and r base key jscUrl
  defines "url \<equiv> self_vp_url base key"
  defines "fresh_record \<equiv> set_bucket VtcBucket (filter (\<lambda>p. \<not> is_stale jscUrl url p) (withDefault (dr_vtc r) [])) r"
  assumes r: "ownDidRecord D s = (Inr r, s)" and did: "truthy (de_did D)"
    and here: "map_of (withDefault (dr_vtc r) []) jscUrl = None" "list_ex (is_stale jscUrl url) (withDefault (dr_vtc r) [])"
    and saved: "post (updateDidRecord D fresh_record) (\<lambda>_ u. stored u = Some r1) (\<lambda>_ _. False) s"
    and publish: "\<And>ecs types ty. fails stored (Some r1) (publishSelfIssuedEcsPresentation D url ecs key sid types
      jscUrl ty (\<lambda>p. anchorCredentialDigest D sid (first_credential p) issuer) until)"
  shows "post (rebindEcsCredentialSchema D base sid key jscUrl issuer schema until)
      (\<lambda>_ _. False) (\<lambda>_ u. stored u = Some r1) s"
proof -
  have no: "(\<not> truthy (de_did D)) = False" using did by simp
  obtain ecs types ty tail where eq: "rebindEcsCredentialSchema D base sid key jscUrl issuer schema until =
      bnd (ownDidRecord D) (\<lambda>r.
        if (case map_of (withDefault (dr_vtc r) []) jscUrl of None \<Rightarrow> False | Some e \<Rightarrow> keeps_foreign D e) then ret ()
        else sqn (whenM (list_ex (is_stale jscUrl url) (withDefault (dr_vtc r) []))
               (updateDidRecord D (set_bucket VtcBucket
                  (filter (\<lambda>p. \<not> is_stale jscUrl url p) (withDefault (dr_vtc r) [])) r)))
             (sqn (publishSelfIssuedEcsPresentation D url ecs key sid types jscUrl ty
                     (\<lambda>p. anchorCredentialDigest D sid (first_credential p) issuer) until) tail))"
    by (rule that) (unfold rebindEcsCredentialSchema_def Let_def no if_False url_def self_vp_url_def, rule refl)
  have rest: "post (sqn (publishSelfIssuedEcsPresentation D url ecs key sid types jscUrl ty
      (\<lambda>p. anchorCredentialDigest D sid (first_credential p) issuer) until) tail)
      (\<lambda>_ _. False) (\<lambda>_ u. stored u = Some r1) u" if "stored u = Some r1" for u
    using that by (rule fails_sqn [OF publish, unfolded fails_def, rule_format])
  have "post (sqn (whenM True (updateDidRecord D fresh_record)) (sqn (publishSelfIssuedEcsPresentation D url ecs key
      sid types jscUrl ty (\<lambda>p. anchorCredentialDigest D sid (first_credential p) issuer) until) tail))
      (\<lambda>_ _. False) (\<lambda>_ u. stored u = Some r1) s"
    unfolding post_sqn [of "whenM _ _"] post_whenM if_True by (rule post_mono [OF saved]) (simp_all add: rest)
  then show ?thesis
    unfolding eq post_bnd [of "ownDidRecord D"]
    by (simp add: post_returns [where m = "ownDidRecord D" and x = r and t = s, OF r] here fresh_record_def)
qed

text \<open>
  C38. Binding a self-issued credential to its on-chain schema takes the old entries of its URL out of the
  record before the new credential is anchored. When anchoring fails the binding fails, the DID document
  still announces the URL, and no entry of the record serves it any more.
\<close>

theorem failed_binding_leaves_dangling_announcement:
  assumes "store_ok D stored" and "ownDidRecord D s = (Inr r, s)" and "dr_vtc r = Some b" and "dr_document r \<noteq> None"
    and "truthy (de_did D)" and "\<forall>r u. dr_document r \<noteq> None \<longrightarrow> (\<exists>v. updateDidRecord D r u = (Inr (), v))"
    and "\<forall>c x. fails stored x (anchorCredentialDigest D sid c issuer)"
    and "list_ex (is_stale jscUrl (self_vp_url base key)) b" and "map_of b jscUrl = None"
    and "(i, JStr (self_vp_url base key)) \<in> set (announced r)"
    and "rebindEcsCredentialSchema D base sid key jscUrl issuer schema until s = (out, t)"
  shows "(\<exists>e. out = Inl e) \<and> (\<exists>r'. stored t = Some r' \<and>
    (i, JStr (self_vp_url base key)) \<in> set (announced r') \<and>
    (\<forall>(ref, e) \<in> set (withDefault (dr_vtc r') []). id_of (te_presentation e) \<noteq> Some (JStr (self_vp_url base key))))"
proof -
  let ?url = "self_vp_url base key"
  let ?b = "filter (\<lambda>p. \<not> is_stale jscUrl ?url p) b"
  let ?r = "written D (set_bucket VtcBucket ?b r)"
  have laws: "did_storage_laws D stored" and quiet: "calls_quiet D stored"
    using assms(1) by (simp_all add: store_ok_def)
  have gone: "map_of ?b jscUrl = None" using assms(9) by (auto simp: map_of_eq_None_iff)
  have new: "\<not> is_superseded ?b jscUrl ?url" by (auto simp: is_superseded_def is_stale_def list_ex_iff)
  have saved: "post (updateDidRecord D (set_bucket VtcBucket ?b r)) (\<lambda>_ u. stored u = Some ?r) (\<lambda>_ _. False) s"
    by (rule update_returns [OF laws]) (use assms(4,6) in simp)
  have "post (rebindEcsCredentialSchema D base sid key jscUrl issuer schema until)
      (\<lambda>_ _. False) (\<lambda>_ u. stored u = Some ?r) s"
    by (rule post_rebind_stale [OF assms(2,5)])
      (use assms(3,7-9) saved gone new in \<open>auto intro!: publishSelf_fails [OF laws quiet]\<close>)
  then have out: "\<exists>e. out = Inl e" "stored t = Some ?r" using assms(11) by (auto simp: post_def split: sum.splits)
  have "id_of (te_presentation e) \<noteq> Some (JStr ?url)" if "(ref, e) \<in> set ?b" for ref e
    using that assms(9) by (auto simp: is_stale_def map_of_eq_None_iff rev_image_eqI)
  moreover have "announced ?r = announced r" by (simp only: announced_written) (simp add: announced_def)
  ultimately show ?thesis using out assms(10) by auto
qed

definition service_url :: string where
  "service_url = self_vp_url ''https://a'' ''ecs-service''"

definition record_w :: did_record where
  "record_w = record_a\<lparr>dr_vtc := Some [(''old'', entry_a\<lparr>te_presentation := Some (mem_presentation service_url JNull)\<rparr>)],
     dr_document := Some (doc_a\<lparr>dd_service := Some [lvp_service ''did:a#vpr-schemas-service-vtc-vp'' (JStr service_url)]\<rparr>)\<rparr>"

definition state_w :: disk where
  "state_w = \<lparr> mm_record = Some record_w, mm_pending = [] \<rparr>"

lemma mem_update_returns: "dr_document r \<noteq> None \<Longrightarrow> \<exists>v. updateDidRecord mem_did_env r u = (Inr (), v)"
  by (auto simp: updateDidRecord_def Let_def comp_defs storedRecord_def scheduleTriggerResolverForOwnDid_def
    mem_did_env_def)

lemma mem_anchor_fails: "fails mm_record x (anchorCredentialDigest mem_did_env sid c issuer)"
  by (auto simp: fails_def anchorCredentialDigest_def wp mem_did_env_def split: option.split)

theorem failed_binding_leaves_dangling_announcement_witness:
  "\<exists>r'. mm_record (snd (rebindEcsCredentialSchema mem_did_env ''https://a'' ''1'' ''ecs-service'' ''jsc'' 7 None None
       state_w)) = Some r' \<and>
     (''did:a#vpr-schemas-service-vtc-vp'', JStr service_url) \<in> set (announced r') \<and>
     (\<forall>(ref, e) \<in> set (withDefault (dr_vtc r') []). id_of (te_presentation e) \<noteq> Some (JStr service_url))"
proof -
  have own: "ownDidRecord mem_did_env state_w = (Inr record_w, state_w)"
    by (simp add: ownDidRecord_def getDidRecord_def comp_defs mem_did_env_def state_w_def head_option_def)
  have here: "dr_vtc record_w = Some [(''old'', entry_a\<lparr>te_presentation := Some (mem_presentation service_url JNull)\<rparr>)]"
      "dr_document record_w \<noteq> None" "truthy (de_did mem_did_env)"
    by (simp_all add: record_w_def mem_did_env_def)
  have stale: "list_ex (is_stale ''jsc'' service_url)
      [(''old'', entry_a\<lparr>te_presentation := Some (mem_presentation service_url JNull)\<rparr>)]"
    by (simp add: is_stale_def mem_presentation_def id_of_def member_def)
  have announced: "(''did:a#vpr-schemas-service-vtc-vp'', JStr service_url) \<in> set (announced record_w)"
    by (simp add: announced_def record_w_def services_of_def lvp_service_def)
  obtain out t where run: "rebindEcsCredentialSchema mem_did_env ''https://a'' ''1'' ''ecs-service'' ''jsc'' 7 None None
      state_w = (out, t)" by (metis surj_pair)
  show ?thesis
    using failed_binding_leaves_dangling_announcement [OF mem_ok own here(1,2,3) _ _ _ _ _ run] mem_update_returns
      mem_anchor_fails stale announced
    unfolding run service_url_def by auto
qed

section \<open>Withdrawing\<close>

definition issued_by :: "int \<Rightarrow> string \<times> trust_entry \<Rightarrow> bool" where
  "issued_by issuer p \<longleftrightarrow> te_issuerParticipantId (snd p) = Some issuer"

definition withdrawn_service :: "int \<Rightarrow> bucket \<Rightarrow> string \<Rightarrow> bool" where
  "withdrawn_service issuer b i \<longleftrightarrow>
     i \<noteq> [] \<and> (\<exists>p \<in> set b. issued_by issuer p \<and> te_serviceId (snd p) = Some i)"

lemma announced_set_bucket [simp]: "announced (set_bucket k b r) = announced r"
  by (simp add: announced_def)

lemma announced_without: "announced (without_service (Some i) r) = filter (\<lambda>p. fst p \<noteq> i) (announced r)"
  by (cases "services_of r")
    (auto simp: announced_def services_without filter_map comp_def conj_commute intro!: arg_cong [where f = "map _"]
      filter_cong [OF refl])

lemma post_remove_entry:
  assumes "did_storage_laws D stored" and "stored s = Some r" and "dr_vtc r = Some b"
    and "map_of b key = Some e" and "key \<noteq> []"
  shows "post (removeTrustCredential D key VtcBucket)
     (\<lambda>_ t. \<exists>r'. stored t = Some r' \<and> dr_vtc r' = Some (jsmap_delete key b) \<and> dr_jsc r' = dr_jsc r \<and>
        announced r' = filter (\<lambda>p. fst p = [] \<or> te_serviceId e \<noteq> Some (fst p)) (announced r)) (\<lambda>_ _. True) s"
proof -
  let ?r = "if truthy (te_serviceId e) then without_service (te_serviceId e) r else r"
  let ?w = "set_bucket VtcBucket (jsmap_delete key b) ?r"
  have "dr_vtc r = Some b" and f: "findMetadataEntry r VtcBucket (Some key) (Some key) = Some (found_at key e (te_presentation e))"
    using assms(3-5) find_ref [of key r VtcBucket b e] by (simp_all add: bucket_of_buckets)
  have f': "findMetadataEntry ?r VtcBucket (Some key) (Some key) = Some (found_at key e (te_presentation e))"
    using assms(3-5) find_ref [of key ?r VtcBucket b e] by (simp add: bucket_of_buckets)
  have a: "announced ?w = filter (\<lambda>p. fst p = [] \<or> te_serviceId e \<noteq> Some (fst p)) (announced r)"
    by (cases "te_serviceId e") (auto simp: announced_without intro!: filter_cong [OF refl] filter_True [symmetric])
  have "post (deleteMetadataEntry D key ?r VtcBucket) (\<lambda>_ t. stored t = Some (written D ?w)) (\<lambda>_ _. True) u" for u
    unfolding deleteMetadataEntry_def f' option.case
    using assms(3) by (auto simp: wp bucket_of_buckets found_at_def intro!: post_mono [OF updateDidRecord_stores [OF assms(1)]])
  then have "post (removeTrustCredential D key VtcBucket) (\<lambda>_ t. stored t = Some (written D ?w)) (\<lambda>_ _. True) s"
    unfolding removeTrustCredential_def Let_def post_bnd
    by (intro post_mono [OF post_ownDidRecord [OF assms(1)]]) (use assms(2) in \<open>auto simp: f found_at_def\<close>)
  then show ?thesis
    by (rule post_mono) (use a in auto)
qed

lemma post_withdraw_entries:
  assumes "did_storage_laws D stored" and "stored s = Some r" and "dr_vtc r = Some cb"
    and "distinct (map fst b)" and "\<forall>(key, e) \<in> set b. map_of cb key = Some e \<and> key \<noteq> []"
  shows "post (withdraw_entries D issuer b)
     (\<lambda>(ws, whois) t. ws = map fst (filter (issued_by issuer) b) \<and>
        whois = (\<exists>p \<in> set b. issued_by issuer p \<and> te_schemaKey (snd p) = Some ''ecs-service'') \<and>
        (\<exists>r'. stored t = Some r' \<and> dr_vtc r' = Some (filter (\<lambda>p. fst p \<notin> set ws) cb) \<and> dr_jsc r' = dr_jsc r \<and>
           announced r' = filter (\<lambda>p. \<not> withdrawn_service issuer b (fst p)) (announced r)))
     (\<lambda>_ _. True) s"
  using assms(2-)
proof (induction b arbitrary: s r cb)
  case Nil
  then show ?case by (simp add: wp withdrawn_service_def)
next
  case (Cons p b)
  obtain key e where p: "p = (key, e)" by (cases p)
  show ?case
  proof (cases "te_issuerParticipantId e = Some issuer")
    case False
    then have "withdrawn_service issuer (p # b) = withdrawn_service issuer b"
      by (auto simp: withdrawn_service_def issued_by_def p)
    then show ?thesis
      using Cons.IH [OF Cons.prems(1,2)] Cons.prems(3,4) False by (simp add: p issued_by_def)
  next
    case True
    then have mine: "issued_by issuer (key, e)" by (simp add: issued_by_def)
    let ?Q = "\<lambda>(ws, whois) t. ws = map fst (filter (issued_by issuer) (p # b)) \<and>
        whois = (\<exists>p \<in> set (p # b). issued_by issuer p \<and> te_schemaKey (snd p) = Some ''ecs-service'') \<and>
        (\<exists>r'. stored t = Some r' \<and> dr_vtc r' = Some (filter (\<lambda>p. fst p \<notin> set ws) cb) \<and> dr_jsc r' = dr_jsc r \<and>
           announced r' = filter (\<lambda>q. \<not> withdrawn_service issuer (p # b) (fst q)) (announced r))"
    have rest: "post (bnd (withdraw_entries D issuer b) (\<lambda>(ws, whois).
        ret (key # ws, te_schemaKey e = Some ''ecs-service'' \<or> whois))) ?Q (\<lambda>_ _. True) t"
      if r1: "stored t = Some r1" "dr_vtc r1 = Some (jsmap_delete key cb)" "dr_jsc r1 = dr_jsc r"
        "announced r1 = filter (\<lambda>p. fst p = [] \<or> te_serviceId e \<noteq> Some (fst p)) (announced r)" for t r1
    proof -
      have b: "distinct (map fst b)" "\<forall>(k, x) \<in> set b. map_of (jsmap_delete key cb) k = Some x \<and> k \<noteq> []"
        using Cons.prems(3,4) by (auto simp: p rev_image_eqI)
      have "filter (\<lambda>q. \<not> withdrawn_service issuer b (fst q)) (announced r1) =
          filter (\<lambda>q. \<not> withdrawn_service issuer (p # b) (fst q)) (announced r)"
        unfolding r1(4) by (auto simp: withdrawn_service_def issued_by_def p True intro!: filter_cong [OF refl])
      moreover have "filter (\<lambda>q. fst q \<notin> set ws) (jsmap_delete key cb) = filter (\<lambda>q. fst q \<notin> set (key # ws)) cb" for ws
        by (auto simp: jsmap_delete_def intro!: filter_cong [OF refl])
      ultimately show ?thesis
        unfolding post_bnd
        by (intro post_mono [OF Cons.IH [OF r1(1,2) b]]) (use r1(3) mine in \<open>auto simp: wp p\<close>)
    qed
    have "post (removeTrustCredential D key VtcBucket) (\<lambda>_. post (bnd (withdraw_entries D issuer b) (\<lambda>(ws, whois).
        ret (key # ws, te_schemaKey e = Some ''ecs-service'' \<or> whois))) ?Q (\<lambda>_ _. True)) (\<lambda>_ _. True) s"
      by (rule post_mono [OF post_remove_entry [OF assms(1) Cons.prems(1,2), of key e]])
        (use Cons.prems(4) rest in \<open>auto simp: p\<close>)
    then show ?thesis
      using True by (simp add: p post_bnd [of "removeTrustCredential D key VtcBucket"])
  qed
qed

lemma withdraw_whois:
  assumes "did_storage_laws D stored" and "stored s = Some r"
  shows "post (bnd (ownDidRecord D) (\<lambda>r1. if services_of r1 = None then ret ()
       else updateDidRecord D (without_service (Some i) r1)))
     (\<lambda>_ t. \<exists>r'. stored t = Some r' \<and> dr_vtc r' = dr_vtc r \<and> dr_jsc r' = dr_jsc r \<and>
        announced r' = filter (\<lambda>p. fst p \<noteq> i) (announced r)) (\<lambda>_ _. True) s"
  unfolding post_bnd
  by (rule post_mono [OF post_ownDidRecord [OF assms(1)]])
    (use assms(2) in \<open>auto simp: wp announced_without announced_Nil
      intro!: post_mono [OF updateDidRecord_stores [OF assms(1)]]\<close>)

text \<open>
  C13. Withdrawing the credentials anchored against an issuer participant removes exactly its entries and the
  linked presentations that announce them, and \<open>#whois\<close> when the Service credential is among them: every
  other entry and announcement is left as it was and in its order, and the schema credentials are untouched.
\<close>

theorem withdrawal_removes_exactly_its_issuer:
  assumes "did_storage_laws D stored" and "stored s = Some r" and "dr_vtc r = Some b"
    and "distinct (map fst b)" and "[] \<notin> fst ` set b"
    and "withdrawSelfIssuedEcsCredentials D issuer s = (Inr ws, t)"
  shows "ws = map fst (filter (issued_by issuer) b) \<and>
    (\<exists>r'. stored t = Some r' \<and> dr_vtc r' = Some (filter (\<lambda>p. \<not> issued_by issuer p) b) \<and> dr_jsc r' = dr_jsc r \<and>
       announced r' = filter (\<lambda>p. \<not> withdrawn_service issuer b (fst p) \<and>
         (fst p = did_text D @ ''#whois'' \<longrightarrow>
            \<not> (\<exists>p \<in> set b. issued_by issuer p \<and> te_schemaKey (snd p) = Some ''ecs-service''))) (announced r))"
proof -
  let ?w = "\<exists>p \<in> set b. issued_by issuer p \<and> te_schemaKey (snd p) = Some ''ecs-service''"
  let ?a = "filter (\<lambda>p. \<not> withdrawn_service issuer b (fst p)) (announced r)"
  let ?R = "\<lambda>t. \<exists>r'. stored t = Some r' \<and> dr_vtc r' = Some (filter (\<lambda>p. \<not> issued_by issuer p) b) \<and>
       dr_jsc r' = dr_jsc r \<and> announced r' = filter (\<lambda>p. \<not> withdrawn_service issuer b (fst p) \<and>
         (fst p = did_text D @ ''#whois'' \<longrightarrow> \<not> ?w)) (announced r)"
  have keys: "\<forall>(key, e) \<in> set b. map_of b key = Some e \<and> key \<noteq> []" using assms(4,5) by (auto simp: rev_image_eqI)
  have kept: "filter (\<lambda>p. fst p \<notin> set (map fst (filter (issued_by issuer) b))) b = filter (\<lambda>p. \<not> issued_by issuer p) b"
    using assms(4) by (auto simp: distinct_map inj_on_def intro!: filter_cong [OF refl])
  define last where "last = (\<lambda>w ws. sqn (if \<not> w then ret () else bnd (ownDidRecord D) (\<lambda>r1.
      if services_of r1 = None then ret ()
      else updateDidRecord D (without_service (Some (did_text D @ ''#whois'')) r1))) (ret (ws :: string list)))"
  have tail: "post (last w ws1) (\<lambda>ws t. ws = ws1 \<and> ?R t) (\<lambda>_ _. True) u"
    if u: "stored u = Some r1" "dr_vtc r1 = Some (filter (\<lambda>p. \<not> issued_by issuer p) b)" "dr_jsc r1 = dr_jsc r"
      "announced r1 = ?a" "w = ?w" for u r1 w ws1
  proof (cases ?w)
    case True
    then show ?thesis
      unfolding u(5) last_def post_sqn
      by (simp only: not_True_eq_False if_False)
        (rule post_mono [OF withdraw_whois [OF assms(1) u(1)]], use u in \<open>auto simp: wp intro!: filter_cong [OF refl]\<close>)
  next
    case False
    then show ?thesis using u by (auto simp: last_def wp intro!: filter_cong [OF refl])
  qed
  have "post (withdraw_entries D issuer b) (\<lambda>(ws, w). post (last w ws)
      (\<lambda>ws t. ws = map fst (filter (issued_by issuer) b) \<and> ?R t) (\<lambda>_ _. True)) (\<lambda>_ _. True) s"
  proof (rule post_mono [OF post_withdraw_entries [OF assms(1-4) keys]], unfold case_prod_unfold, elim conjE exE)
    fix x t r'
    assume "fst x = map fst (filter (issued_by issuer) b)" "snd x = ?w" "stored t = Some r'"
      "dr_vtc r' = Some (filter (\<lambda>p. fst p \<notin> set (fst x)) b)" "dr_jsc r' = dr_jsc r" "announced r' = ?a"
    then show "post (last (snd x) (fst x)) (\<lambda>ws t. ws = map fst (filter (issued_by issuer) b) \<and> ?R t) (\<lambda>_ _. True) t"
      using tail [of t r' "snd x" "fst x"] kept by (simp only:)
  qed simp
  then have mid: "post (bnd (withdraw_entries D issuer b) (\<lambda>(ws, w). last w ws))
      (\<lambda>ws t. ws = map fst (filter (issued_by issuer) b) \<and> ?R t) (\<lambda>_ _. True) s"
    unfolding post_bnd [of "withdraw_entries D issuer b"] by (simp only: case_prod_unfold)
  have "post (withdrawSelfIssuedEcsCredentials D issuer)
      (\<lambda>ws t. ws = map fst (filter (issued_by issuer) b) \<and> ?R t) (\<lambda>_ _. True) s"
    unfolding withdrawSelfIssuedEcsCredentials_def post_bnd [of "ownDidRecord D"]
    by (rule post_mono [OF post_ownDidRecord [OF assms(1)]]) (use mid [unfolded last_def] assms(2,3) in auto)
  then show ?thesis using assms(6) by (simp add: post_def)
qed

definition own_entry :: "int \<Rightarrow> string \<Rightarrow> string \<Rightarrow> trust_entry" where
  "own_entry issuer key i =
     entry_a\<lparr>te_issuerParticipantId := Some issuer, te_schemaKey := Some key, te_serviceId := Some i\<rparr>"

definition record_i :: did_record where
  "record_i = record_a\<lparr>dr_vtc := Some [(''j1'', own_entry 7 ''ecs-service'' ''s1''), (''j2'', own_entry 8 ''ecs-org'' ''s2'')],
     dr_document := Some (doc_a\<lparr>dd_service := Some [lvp_service ''s1'' JNull, lvp_service ''s2'' JNull,
       lvp_service ''did:a#whois'' JNull]\<rparr>)\<rparr>"

definition state_i :: disk where
  "state_i = \<lparr> mm_record = Some record_i, mm_pending = [] \<rparr>"

lemma withdraw_i: "fst (withdrawSelfIssuedEcsCredentials mem_did_env 7 state_i) = Inr [''j1'']"
  by code_simp

theorem withdrawal_removes_exactly_its_issuer_witness:
  "\<exists>r'. mm_record (snd (withdrawSelfIssuedEcsCredentials mem_did_env 7 state_i)) = Some r' \<and>
     dr_vtc r' = Some [(''j2'', own_entry 8 ''ecs-org'' ''s2'')] \<and> announced r' = [(''s2'', JNull)]"
proof -
  obtain t where run: "withdrawSelfIssuedEcsCredentials mem_did_env 7 state_i = (Inr [''j1''], t)"
    using withdraw_i by (metis prod.collapse)
  let ?b = "[(''j1'', own_entry 7 ''ecs-service'' ''s1''), (''j2'', own_entry 8 ''ecs-org'' ''s2'')]"
  have here: "mm_record state_i = Some record_i" "dr_vtc record_i = Some ?b" "distinct (map fst ?b)" "[] \<notin> fst ` set ?b"
    by (simp_all add: state_i_def record_i_def)
  have "did_text mem_did_env = ''did:a''" by (simp add: did_text_def mem_did_env_def)
  then show ?thesis
    using withdrawal_removes_exactly_its_issuer [OF mem_laws here run] unfolding run
    by (auto simp: issued_by_def own_entry_def withdrawn_service_def announced_def record_i_def services_of_def
      lvp_service_def)
qed

section \<open>Detaching and reattaching\<close>

lemma written_services:
  "s \<in> set (withDefault (services_of (written D r)) []) \<Longrightarrow>
     s \<in> set (withDefault (services_of r) []) \<or> (\<exists>d. dr_document r = Some d \<and> ds_id s = dd_id d @ ''#admin-api'')"
  by (cases "dr_document r")
    (auto simp: written_def services_of_def applyAdminApiServiceEntry_def Let_def split: if_splits)

lemma moved_to_end:
  assumes "(i, v) \<in> set xs" and "\<forall>w. (i, w) \<in> set xs \<longrightarrow> w = v"
  shows "set (filter (\<lambda>p. fst p \<noteq> i) xs @ [(i, v)]) = set xs"
proof -
  have "(a, w) \<in> set (filter (\<lambda>p. fst p \<noteq> i) xs @ [(i, v)]) \<longleftrightarrow> (a, w) \<in> set xs" for a w
  proof -
    have "(i, w) \<in> set xs \<longleftrightarrow> w = v" using assms by blast
    then show ?thesis by (cases "a = i") auto
  qed
  then show ?thesis by (intro set_eqI) (simp only: split_paired_all)
qed

lemma announced_add:
  "services_of r = Some ss \<Longrightarrow> announced (set_services (ss @ [lvp_service i v]) r) = announced r @ [(i, v)]"
  by (auto simp: announced_def services_of_def set_services_def lvp_service_def bind_eq_Some_conv)

lemma post_detach_one:
  assumes "did_storage_laws D stored" and "stored s = Some r" and "dr_jsc r = Some b" and "map_of b ref = Some e"
    and "te_serviceId e = Some i" and "i \<noteq> []" and "services_of r = Some ss" and "\<exists>x \<in> set ss. ds_id x = i"
  shows "post (detachVtjscPublications D [ref])
     (\<lambda>refs t. refs = [ref] \<and> stored t = Some (written D (set_services (filter (\<lambda>x. ds_id x \<noteq> i) ss) r))) (\<lambda>_ _. True) s"
proof -
  have d: "detach_services b [ref] ss = (filter (\<lambda>x. ds_id x \<noteq> i) ss, [ref])"
    using assms(4-8) by (auto simp: list_ex_iff)
  show ?thesis
    unfolding detachVtjscPublications_def
    by (subst if_not_P, simp, unfold post_bnd, intro post_mono [OF post_getDidRecord [OF assms(1)]])
      (use assms(2,3,7) d in \<open>auto simp: wp intro!: post_mono [OF updateDidRecord_stores [OF assms(1)]]\<close>)
qed

lemma post_reattach:
  assumes "did_storage_laws D stored" and "stored s = Some r" and "dr_jsc r = Some b" and "map_of b ref = Some e"
    and "te_serviceId e = Some i" and "i \<noteq> []" and "as_string (id_of (te_presentation e)) = Some url" and "url \<noteq> []"
    and "services_of r = Some ss" and "\<forall>x \<in> set ss. ds_id x \<noteq> i"
  shows "post (reattachVtjscPublication D ref)
     (\<lambda>ok t. ok \<and> stored t = Some (written D (set_services (ss @ [lvp_service i (JStr url)]) r))) (\<lambda>_ _. True) s"
proof -
  have "dr_document r \<noteq> None" using assms(9) by (auto simp: services_of_def bind_eq_Some_conv)
  moreover have "\<not> list_ex (\<lambda>x. ds_id x = i) ss" using assms(10) by (auto simp: list_ex_iff)
  moreover note assms(2-9)
  ultimately have here: "stored s = Some r" "dr_document r \<noteq> None" "\<not> list_ex (\<lambda>x. ds_id x = i) ss"
      "Option.bind (dr_jsc r) (\<lambda>b. map_of b ref) = Some e" "services_of r = Some ss" by simp_all
  show ?thesis
    unfolding reattachVtjscPublication_def post_bnd
    by (intro post_mono [OF post_getDidRecord [OF assms(1)]])
      (use here assms(5-8) in \<open>auto simp: wp Let_def intro!: post_mono [OF updateDidRecord_stores [OF assms(1)]]\<close>)
qed

text \<open>
  C39. Taking a schema credential out of the DID document and putting it back loses nothing: while it is
  detached its entry is still served under the same URL, only the announcement is gone, and reattaching it
  announces the same URL under the same service id again.
\<close>

theorem detach_reattach_roundtrip:
  assumes "did_storage_laws D stored" and "stored s = Some r" and "dr_jsc r = Some b" and "map_of b ref = Some e"
    and "te_serviceId e = Some i" and "i \<noteq> []" and "as_string (id_of (te_presentation e)) = Some url" and "url \<noteq> []"
    and "(i, JStr url) \<in> set (announced r)" and "\<forall>v. (i, v) \<in> set (announced r) \<longrightarrow> v = JStr url"
    and "\<forall>d. dr_document r = Some d \<longrightarrow> i \<noteq> dd_id d @ ''#admin-api''"
    and "detachVtjscPublications D [ref] s = (Inr refs, u)" and "reattachVtjscPublication D ref u = (Inr ok, t)"
  shows "refs = [ref] \<and> ok \<and> (\<exists>r1 r2. stored u = Some r1 \<and> dr_jsc r1 = Some b \<and>
      announced r1 = filter (\<lambda>p. fst p \<noteq> i) (announced r) \<and>
      stored t = Some r2 \<and> dr_jsc r2 = Some b \<and> set (announced r2) = set (announced r))"
proof -
  obtain ss where ss: "services_of r = Some ss" "\<exists>x \<in> set ss. ds_id x = i"
    using assms(9) by (cases "services_of r") (auto simp: announced_def)
  let ?r1 = "written D (set_services (filter (\<lambda>x. ds_id x \<noteq> i) ss) r)"
  have u: "refs = [ref]" "stored u = Some ?r1"
    using post_detach_one [OF assms(1-6) ss] assms(12) by (simp_all add: post_def)
  have doc: "dr_document r \<noteq> None" using ss by (auto simp: services_of_def bind_eq_Some_conv)
  then obtain ss1 where ss1: "services_of ?r1 = Some ss1"
    by (auto simp: services_of_def written_def set_services_def applyAdminApiServiceEntry_def Let_def)
  have gone: "\<forall>x \<in> set ss1. ds_id x \<noteq> i"
  proof
    fix x assume "x \<in> set ss1"
    then show "ds_id x \<noteq> i"
      using written_services [of x D "set_services (filter (\<lambda>x. ds_id x \<noteq> i) ss) r"] ss1 doc assms(11)
      by (auto simp: set_services_def services_of_def)
  qed
  let ?r2 = "written D (set_services (ss1 @ [lvp_service i (JStr url)]) ?r1)"
  have t: "ok" "stored t = Some ?r2"
    using post_reattach [OF assms(1) u(2) _ assms(4-8) ss1 gone] assms(3,13) by (simp_all add: post_def)
  have a1: "announced ?r1 = filter (\<lambda>p. fst p \<noteq> i) (announced r)"
    unfolding announced_written using doc ss(1)
    by (auto simp: announced_def filter_map comp_def conj_commute
      intro!: arg_cong [where f = "map _"] filter_cong [OF refl])
  have "set (filter (\<lambda>p. fst p \<noteq> i) (announced r) @ [(i, JStr url)]) = set (announced r)"
    by (rule moved_to_end [OF assms(9,10)])
  moreover have "announced ?r2 = announced ?r1 @ [(i, JStr url)]"
    by (rule trans [OF announced_written announced_add [OF ss1]])
  ultimately have "set (announced ?r2) = set (announced r)" unfolding a1 by (simp only:)
  moreover have "dr_jsc ?r1 = Some b" "dr_jsc ?r2 = Some b" using assms(3) by simp_all
  ultimately show ?thesis using u t a1 by blast
qed

definition entry_j :: trust_entry where
  "entry_j = new_entry (Some ''types'') (credential_of ''ref'') (DiPresentation (mem_presentation ''https://a/vt/j'' JNull)) ''s1''"

definition record_j :: did_record where
  "record_j = record_a\<lparr>dr_jsc := Some [(''ref'', entry_j)],
     dr_document := Some (doc_a\<lparr>dd_service := Some [lvp_service ''s1'' (JStr ''https://a/vt/j''), lvp_service ''s2'' JNull]\<rparr>)\<rparr>"

definition state_j :: disk where
  "state_j = \<lparr> mm_record = Some record_j, mm_pending = [] \<rparr>"

lemma detach_j: "fst (detachVtjscPublications mem_did_env [''ref''] state_j) = Inr [''ref'']"
  by code_simp

lemma reattach_j:
  "fst (reattachVtjscPublication mem_did_env ''ref'' (snd (detachVtjscPublications mem_did_env [''ref''] state_j))) = Inr True"
  by code_simp

theorem detach_reattach_roundtrip_witness:
  "\<exists>r1 r2. mm_record (snd (detachVtjscPublications mem_did_env [''ref''] state_j)) = Some r1 \<and>
     announced r1 = [(''s2'', JNull)] \<and> dr_jsc r1 = Some [(''ref'', entry_j)] \<and>
     mm_record (snd (reattachVtjscPublication mem_did_env ''ref''
       (snd (detachVtjscPublications mem_did_env [''ref''] state_j)))) = Some r2 \<and>
     set (announced r2) = {(''s1'', JStr ''https://a/vt/j''), (''s2'', JNull)}"
proof -
  obtain u where detach: "detachVtjscPublications mem_did_env [''ref''] state_j = (Inr [''ref''], u)"
    using detach_j by (metis prod.collapse)
  obtain t where reattach: "reattachVtjscPublication mem_did_env ''ref'' u = (Inr True, t)"
    using reattach_j unfolding detach by (metis prod.collapse snd_conv)
  have announced: "announced record_j = [(''s1'', JStr ''https://a/vt/j''), (''s2'', JNull)]"
    by (simp add: announced_def record_j_def services_of_def lvp_service_def)
  have here: "mm_record state_j = Some record_j" "dr_jsc record_j = Some [(''ref'', entry_j)]"
      "map_of [(''ref'', entry_j)] ''ref'' = Some entry_j" "te_serviceId entry_j = Some ''s1''"
      "as_string (id_of (te_presentation entry_j)) = Some ''https://a/vt/j''"
    by (simp_all add: state_j_def record_j_def entry_j_def new_entry_def mem_presentation_def id_of_def member_def)
  have "\<forall>d. dr_document record_j = Some d \<longrightarrow> ''s1'' \<noteq> dd_id d @ ''#admin-api''"
    by (simp add: record_j_def doc_a_def)
  moreover have "(''s1'', JStr ''https://a/vt/j'') \<in> set (announced record_j)"
      "\<forall>v. (''s1'', v) \<in> set (announced record_j) \<longrightarrow> v = JStr ''https://a/vt/j''" "''s1'' \<noteq> []" "''https://a/vt/j'' \<noteq> []"
    by (simp_all add: announced)
  ultimately obtain r1 r2 where "mm_record u = Some r1" "dr_jsc r1 = Some [(''ref'', entry_j)]"
      "announced r1 = filter (\<lambda>p. fst p \<noteq> ''s1'') (announced record_j)" "mm_record t = Some r2"
      "set (announced r2) = set (announced record_j)"
    using detach_reattach_roundtrip [OF mem_laws here(1-4) _ here(5) _ _ _ _ detach reattach] by blast
  then show ?thesis
    unfolding detach snd_conv reattach by (simp add: announced)
qed

end
