(* ===== verification/PublishProps.thy ===== *)
theory PublishProps
  imports TrustProps
begin

text \<open>
  Properties of the startup pass over the schema credentials and of the fingerprints that decide whether a
  document is published again.
\<close>

section \<open>Ecosystems the agent no longer controls\<close>

text \<open>The indexer answered that another DID controls the ecosystem of the schema.\<close>

definition answered_foreign :: "'s did_env \<Rightarrow> string list \<Rightarrow> string \<Rightarrow> bool" where
  "answered_foreign D dids i \<longleftrightarrow> (\<exists>u v schema e. fst (de_schema D i u) = Inr schema \<and>
     fst (de_ecosystem D (int_str (sd_ecosystem_id schema)) v) = Inr (Some e) \<and>
     (\<forall>d \<in> set dids. ed_did e \<noteq> Some d))"

lemma answered_foreignI:
  "fst (de_schema D i u) = Inr schema \<Longrightarrow>
     fst (de_ecosystem D (int_str (sd_ecosystem_id schema)) v) = Inr (Some e) \<Longrightarrow>
     \<forall>d \<in> set dids. ed_did e \<noteq> Some d \<Longrightarrow> answered_foreign D dids i"
  unfolding answered_foreign_def by blast

definition cache_ok :: "'s did_env \<Rightarrow> ecosystem_cache \<Rightarrow> bool" where
  "cache_ok D cache \<longleftrightarrow> (\<forall>i e. map_of cache i = Some e \<longrightarrow> (\<exists>v. fst (de_ecosystem D i v) = Inr e))"

lemma post_answer: "post m (\<lambda>x _. fst (m s) = Inr x) (\<lambda>_ _. True) s"
  by (auto simp: post_def split: prod.split sum.split)

lemma post_cached:
  assumes "cache_ok D cache"
  shows "post (cached_ecosystem D cache i)
     (\<lambda>(e, c) _. cache_ok D c \<and> (\<exists>v. fst (de_ecosystem D i v) = Inr e)) (\<lambda>_ _. True) s"
proof (cases "map_of cache i")
  case None
  have "post (de_ecosystem D i) (\<lambda>e. post (ret (e, jsmap_set i e cache))
      (\<lambda>(e, c) _. cache_ok D c \<and> (\<exists>v. fst (de_ecosystem D i v) = Inr e)) (\<lambda>_ _. True)) (\<lambda>_ _. True) s"
    by (rule post_mono [OF post_answer]) (use assms in \<open>auto simp: wp cache_ok_def\<close>)
  then show ?thesis by (simp add: cached_ecosystem_def None post_bnd)
next
  case (Some e)
  then show ?thesis using assms by (auto simp: cached_ecosystem_def wp cache_ok_def)
qed

lemma post_uncontrolled:
  assumes "cache_ok D cache"
  shows "post (uncontrolled_refs D pre seen dids cache refs)
     (\<lambda>stale _. \<forall>ref \<in> set stale. take (length pre) ref = pre \<and> ref \<notin> set seen \<and>
        answered_foreign D dids (drop (length pre) ref)) (\<lambda>_ _. True) s"
  using assms
proof (induction refs arbitrary: cache s)
  case Nil
  then show ?case by (simp add: wp)
next
  case (Cons ref refs cache s)
  let ?id = "drop (length pre) ref"
  let ?ask = "bnd (de_schema D ?id) (\<lambda>schema. cached_ecosystem D cache (int_str (sd_ecosystem_id schema)))"
  have ask: "post ?ask (\<lambda>(x, c) _. cache_ok D c \<and> (\<exists>u v schema. fst (de_schema D ?id u) = Inr schema \<and>
      fst (de_ecosystem D (int_str (sd_ecosystem_id schema)) v) = Inr x)) (\<lambda>_ _. True) s"
    unfolding post_bnd
    by (rule post_mono [OF post_answer]) (auto intro!: post_mono [OF post_cached [OF Cons.prems]])
  show ?case
  proof (cases "take (length pre) ref \<noteq> pre \<or> ref \<in> set seen")
    case True
    then show ?thesis using Cons.IH [OF Cons.prems] by auto
  next
    case False
    show ?thesis
      unfolding uncontrolled_refs.simps
    proof (subst if_not_P [OF False], subst post_bnd, subst post_outcome, rule post_mono [OF ask], goal_cases)
      case (1 x t)
      then show ?case
        using False
        by (cases x; cases "fst x")
          (auto simp: wp split: option.splits intro!: post_mono [OF Cons.IH] elim!: answered_foreignI)
    next
      case (2 e t)
      then show ?case using Cons.IH [OF Cons.prems] by simp
    qed
  qed
qed

lemma still_outcome: "still v m \<Longrightarrow> still v (outcome m)"
  by (rule stillI) (auto simp: post_outcome intro: post_mono [OF still_post])

lemma still_uncontrolled:
  assumes "calls_quiet D v"
  shows "still v (uncontrolled_refs D pre seen dids cache refs)"
proof (induction refs arbitrary: cache)
  case (Cons ref refs)
  have ask: "still v (outcome (bnd (de_schema D i) (\<lambda>schema. cached_ecosystem D cache (int_str (sd_ecosystem_id schema)))))" for i
    unfolding cached_ecosystem_def by (intro still_outcome quiet_rules assms)
  show ?case
    unfolding uncontrolled_refs.simps
    by (intro still_if Cons still_bnd [OF ask] still_sum still_prod still_bnd still_ret)
qed (simp add: still_ret)

lemma detached_service:
  assumes "x \<in> set ss" and "x \<notin> set (fst (detach_services b refs ss))"
  shows "\<exists>ref e. ref \<in> set refs \<and> map_of b ref = Some e \<and> te_serviceId e = Some (ds_id x)"
  using assms
proof (induction refs arbitrary: ss)
  case (Cons ref refs)
  show ?case
  proof (cases "\<exists>e. map_of b ref = Some e \<and> te_serviceId e = Some (ds_id x)")
    case True
    then show ?thesis by auto
  next
    case False
    then have other: "x \<in> set (filter (\<lambda>s. ds_id s \<noteq> i) ss)"
      if "Option.bind (map_of b ref) te_serviceId = Some i" for i
      using that Cons.prems(1) by (auto simp: bind_eq_Some_conv)
    have "fst (detach_services b (ref # refs) ss) = fst (detach_services b refs ss) \<or>
        (\<exists>i. Option.bind (map_of b ref) te_serviceId = Some i \<and>
           fst (detach_services b (ref # refs) ss) = fst (detach_services b refs (filter (\<lambda>s. ds_id s \<noteq> i) ss)))"
      by (auto split: option.split prod.split)
    then have "\<exists>ss'. x \<in> set ss' \<and> x \<notin> set (fst (detach_services b refs ss'))"
      using Cons.prems other by metis
    then show ?thesis using Cons.IH by (metis list.set_intros(2))
  qed
qed simp

lemma post_detach:
  assumes "did_storage_laws D stored" and "stored s = Some r" and "dr_jsc r = Some b"
  shows "post (detachVtjscPublications D refs)
     (\<lambda>_ t. stored t = stored s \<or> (\<exists>ss. services_of r = Some ss \<and>
        stored t = Some (written D (set_services (fst (detach_services b refs ss)) r)))) (\<lambda>_ _. True) s"
  unfolding detachVtjscPublications_def wp
  by (auto intro!: post_mono [OF post_getDidRecord [OF assms(1)]] post_mono [OF updateDidRecord_stores [OF assms(1)]]
    simp: wp assms(2,3) split: option.split prod.split)

lemma announced_removed:
  assumes "(i, v) \<in> set (announced r)" and "services_of r = Some ss"
    and "(i, v) \<notin> set (announced (written D (set_services ts r)))"
  shows "\<exists>x \<in> set ss. x \<notin> set ts \<and> ds_id x = i"
proof -
  obtain x where x: "x \<in> set ss" "ds_type x = LVP_TYPE" "ds_id x = i" "ds_endpoint x = v"
    using assms(1,2) by (auto simp: announced_def)
  moreover have "dr_document r \<noteq> None" using assms(2) by (auto simp: services_of_def bind_eq_Some_conv)
  then have "x \<notin> set ts" using assms(3) x unfolding announced_written by (auto simp: announced_def rev_image_eqI)
  ultimately show ?thesis by blast
qed

text \<open>
  C14. The startup pass takes a schema credential out of the DID document only when the indexer answered, for
  a schema not seen among the agent's own ecosystems, that another DID controls its ecosystem. When the
  indexer fails, or no longer knows the schema or its ecosystem, the credential stays announced; and its
  entry stays in the record in every case.
\<close>

theorem only_answered_foreign_schemas_are_detached:
  assumes "store_ok D stored" and "stored s = Some r" and "dr_jsc r = Some b"
    and "detachUncontrolledVtjscPublications D chain seen dids s = (Inr (), t)"
    and "(i, url) \<in> set (announced r)"
    and "\<forall>(ref, e) \<in> set b. te_serviceId e = Some i \<longrightarrow>
      ref \<in> set seen \<or> \<not> answered_foreign D dids (drop (length (onChainSchemaRefPrefix chain)) ref)"
  shows "\<exists>r'. stored t = Some r' \<and> dr_jsc r' = Some b \<and> (i, url) \<in> set (announced r')"
proof -
  let ?pre = "onChainSchemaRefPrefix chain"
  let ?ok = "\<lambda>x. \<exists>r'. x = Some r' \<and> dr_jsc r' = Some b \<and> (i, url) \<in> set (announced r')"
  have laws: "did_storage_laws D stored" and quiet: "calls_quiet D stored"
    using assms(1) by (simp_all add: store_ok_def)
  have here: "?ok (stored s)" using assms(2,3,5) by simp
  have detach: "post (detachVtjscPublications D stale) (\<lambda>_ t. ?ok (stored t)) (\<lambda>_ _. True) u"
    if u: "stored u = Some r" and stale: "\<forall>ref \<in> set stale. take (length ?pre) ref = ?pre \<and> ref \<notin> set seen \<and>
        answered_foreign D dids (drop (length ?pre) ref)" for stale u
  proof (rule post_mono [OF post_detach [OF laws u assms(3)]], elim disjE exE conjE)
    fix t ss assume ss: "services_of r = Some ss"
      and t: "stored t = Some (written D (set_services (fst (detach_services b stale ss)) r))"
    have "(i, url) \<in> set (announced (written D (set_services (fst (detach_services b stale ss)) r)))"
    proof (rule ccontr)
      assume "(i, url) \<notin> set (announced (written D (set_services (fst (detach_services b stale ss)) r)))"
      from announced_removed [OF assms(5) ss this] obtain x where
        "x \<in> set ss" "x \<notin> set (fst (detach_services b stale ss))" "ds_id x = i" by blast
      from detached_service [OF this(1,2)] this(3) obtain ref e where
        "ref \<in> set stale" "map_of b ref = Some e" "te_serviceId e = Some i" by blast
      then show False using assms(6) stale by (fastforce dest: map_of_SomeD)
    qed
    then show "?ok (stored t)" using t assms(3) by simp
  qed (use u here assms(2) in simp_all)
  have refs: "post (uncontrolled_refs D ?pre seen dids [] (map fst b))
      (\<lambda>stale t. stored t = Some r \<and> (\<forall>ref \<in> set stale. take (length ?pre) ref = ?pre \<and> ref \<notin> set seen \<and>
         answered_foreign D dids (drop (length ?pre) ref))) (\<lambda>_ _. True) u" if "stored u = Some r" for u
    by (rule post_mono [OF iffD2 [OF post_conj conjI [OF post_uncontrolled
          still_post [OF still_uncontrolled [OF quiet]]]]]) (use that in \<open>auto simp: cache_ok_def\<close>)
  have "post (detachUncontrolledVtjscPublications D chain seen dids) (\<lambda>_ t. ?ok (stored t)) (\<lambda>_ _. True) s"
    unfolding detachUncontrolledVtjscPublications_def post_bnd [of "getDidRecord D"]
  proof (rule post_mono [OF post_getDidRecord [OF laws]], elim conjE)
    fix x u assume x: "x = stored s" "u = s"
    then have "Option.bind x dr_jsc = Some b" "stored u = Some r" using assms(2,3) by simp_all
    then show "post (case Option.bind x dr_jsc of None \<Rightarrow> ret ()
        | Some metadata \<Rightarrow> bnd (uncontrolled_refs D ?pre seen dids [] (map fst metadata)) (\<lambda>stale.
            if stale = [] then ret () else bnd (detachVtjscPublications D stale) (\<lambda>_. ret ())))
        (\<lambda>_ t. ?ok (stored t)) (\<lambda>_ _. True) u"
      unfolding option.case post_bnd [of "uncontrolled_refs _ _ _ _ _ _"]
      by (simp only: option.case post_bnd) (rule post_mono [OF refs];
        use here assms(2) in \<open>auto simp: wp intro!: post_mono [OF detach]\<close>)
  qed simp
  then show ?thesis using assms(4) by (simp add: post_def)
qed

definition state_k :: disk where
  "state_k = \<lparr> mm_record = Some (record_j\<lparr>dr_jsc := Some [(''vpr:verana:c:cs:1'', entry_j)]\<rparr>), mm_pending = [] \<rparr>"

lemma detach_k: "fst (detachUncontrolledVtjscPublications mem_did_env ''c'' [] [''did:a''] state_k) = Inr ()"
  by code_simp

theorem only_answered_foreign_schemas_are_detached_witness:
  "\<exists>r'. mm_record (snd (detachUncontrolledVtjscPublications mem_did_env ''c'' [] [''did:a''] state_k)) = Some r' \<and>
     (''s1'', JStr ''https://a/vt/j'') \<in> set (announced r')"
proof -
  obtain t where run: "detachUncontrolledVtjscPublications mem_did_env ''c'' [] [''did:a''] state_k = (Inr (), t)"
    using detach_k by (metis prod.collapse)
  have "mm_record state_k = Some (record_j\<lparr>dr_jsc := Some [(''vpr:verana:c:cs:1'', entry_j)]\<rparr>)"
      "dr_jsc (record_j\<lparr>dr_jsc := Some [(''vpr:verana:c:cs:1'', entry_j)]\<rparr>) = Some [(''vpr:verana:c:cs:1'', entry_j)]"
    by (simp_all add: state_k_def)
  moreover have "(''s1'', JStr ''https://a/vt/j'') \<in>
      set (announced (record_j\<lparr>dr_jsc := Some [(''vpr:verana:c:cs:1'', entry_j)]\<rparr>))"
    by (simp add: announced_def record_j_def services_of_def lvp_service_def)
  moreover have "\<not> answered_foreign mem_did_env dids i" for dids i
    by (simp add: answered_foreign_def mem_did_env_def throw_def)
  ultimately show ?thesis
    using only_answered_foreign_schemas_are_detached [OF mem_ok _ _ run] unfolding run by fastforce
qed

section \<open>Fingerprints\<close>

text \<open>
  Two JSON values with the same members, objects in any order: what a document that went through the
  registrar and back may differ in.
\<close>

inductive same_json :: "json \<Rightarrow> json \<Rightarrow> bool" where
  refl: "same_json v v"
| arr: "list_all2 same_json xs ys \<Longrightarrow> same_json (JArr xs) (JArr ys)"
| obj: "list_all2 (\<lambda>p q. fst p = fst q \<and> same_json (snd p) (snd q)) ps qs \<Longrightarrow> mset qs = mset rs \<Longrightarrow>
    distinct (map fst ps) \<Longrightarrow> same_json (JObj ps) (JObj rs)"

text \<open>\<open>localeCompare\<close> on the member names that occur: a total order, 0 on equal names only.\<close>

definition orders_names :: "(string \<Rightarrow> string \<Rightarrow> int) \<Rightarrow> bool" where
  "orders_names L \<longleftrightarrow>
     (\<forall>a b. L a b \<le> 0 \<or> L b a \<le> 0) \<and> (\<forall>a b c. L a b \<le> 0 \<longrightarrow> L b c \<le> 0 \<longrightarrow> L a c \<le> 0) \<and>
     (\<forall>a b. L a b \<le> 0 \<longrightarrow> L b a \<le> 0 \<longrightarrow> a = b)"

lemma js_insert_set [simp]: "mset (js_insert cmp x xs) = add_mset x (mset xs)"
  by (induction xs) auto

lemma js_sort_mset: "mset (js_sort cmp xs) = mset xs"
  by (induction xs) (auto simp: js_sort_def)

lemma js_sort_sorted:
  assumes "orders_names L"
  shows "sorted_wrt (\<lambda>p q. L (fst p) (fst q) \<le> 0) (js_sort (\<lambda>p q. L (fst p) (fst q)) xs)"
proof -
  let ?S = "sorted_wrt (\<lambda>p q. L (fst p) (fst q) \<le> 0)"
  have ins: "?S (js_insert (\<lambda>p q. L (fst p) (fst q)) x ys)" if "?S ys" for x ys
    using that
  proof (induction ys)
    case (Cons y ys)
    have "set (js_insert (\<lambda>p q. L (fst p) (fst q)) x ys) = insert x (set ys)"
      by (metis js_insert_set set_mset_add_mset_insert set_mset_mset)
    then show ?case using Cons assms unfolding orders_names_def by (auto; blast)
  qed simp
  show ?thesis by (induction xs) (auto simp: js_sort_def ins)
qed

lemma sorted_names_unique:
  assumes "orders_names L" and "sorted_wrt (\<lambda>p q. L (fst p) (fst q) \<le> 0) xs"
    and "sorted_wrt (\<lambda>p q. L (fst p) (fst q) \<le> 0) ys" and "mset xs = mset ys" and "distinct (map fst xs)"
  shows "xs = ys"
  using assms(2-)
proof (induction xs arbitrary: ys)
  case (Cons x xs)
  then obtain y zs where ys: "ys = y # zs" by (cases ys) auto
  have "x \<in> set ys" "y \<in> set (x # xs)" using Cons.prems(3) ys by (metis list.set_intros(1) set_mset_mset)+
  then have "x \<noteq> y \<Longrightarrow> L (fst x) (fst y) \<le> 0 \<and> L (fst y) (fst x) \<le> 0"
    using Cons.prems(1,2) ys by auto
  then have "x = y \<or> fst x = fst y" using assms(1) unfolding orders_names_def by blast
  moreover have "fst x \<notin> fst ` set xs" using Cons.prems(4) by simp
  ultimately have "x = y" using \<open>y \<in> set (x # xs)\<close> by (metis imageI set_ConsD)
  then show ?case using Cons.IH [of zs] Cons.prems ys by simp
qed simp

lemma stableStringify_same:
  assumes "orders_names L" and "same_json v w"
  shows "stableStringify L v = stableStringify L w"
  using assms(2)
proof induction
  case (arr xs ys)
  then have "map (stableStringify L) xs = map (stableStringify L) ys"
    by (induction rule: list_all2_induct) auto
  then show ?case by simp
next
  case (obj ps qs rs)
  let ?f = "\<lambda>p. (fst p, stableStringify L (snd p))"
  let ?sort = "js_sort (\<lambda>p q. L (fst p) (fst q))"
  have ps: "map ?f ps = map ?f qs" "map fst ps = map fst qs"
    using obj(1) by (induction rule: list_all2_induct) auto
  have "mset (map ?f qs) = mset (map ?f rs)" using obj(2) by (simp only: mset_map)
  moreover have "distinct (map fst (?sort (map ?f qs)))"
    using obj(3) ps(2) by (metis (no_types, lifting) comp_apply fst_conv js_sort_mset list.map_comp map_eq_conv mset_eq_imp_distinct_iff mset_map)
  ultimately have "?sort (map ?f qs) = ?sort (map ?f rs)"
    by (intro sorted_names_unique [OF assms(1)] js_sort_sorted [OF assms(1)]) (simp_all add: js_sort_mset)
  then show ?case using ps(1) by simp
qed simp

text \<open>
  Writing a DID record whose document differs from the stored one in the order of object members only
  never reaches the registrar: whatever publishing would do, the write does the same.
\<close>

theorem reordered_document_is_not_republished:
  assumes "orders_names (de_localeCompare D)" and "storedRecord D (dr_id r) s = (Inr (Some r0), s)"
    and "dr_document r0 = Some d0" and "dr_document r = Some d"
    and "same_json (de_documentJson D (applyAdminApiServiceEntry (de_adminEndpoint D) d)) (de_documentJson D d0)"
  shows "updateDidRecord (D\<lparr>de_publish := P\<rparr>) r s = updateDidRecord D r s"
proof -
  let ?r = "r\<lparr>dr_document := Some (applyAdminApiServiceEntry (de_adminEndpoint D) d)\<rparr>"
  have same: "documentFingerprint D (Some ?r) = documentFingerprint D (Some r0)"
    using stableStringify_same [OF assms(1,5)] assms(3) by (simp add: documentFingerprint_def)
  have env: "storedRecord (D\<lparr>de_publish := P\<rparr>) = storedRecord D"
      "documentFingerprint (D\<lparr>de_publish := P\<rparr>) = documentFingerprint D"
      "publicationFingerprint (D\<lparr>de_publish := P\<rparr>) = publicationFingerprint D"
      "scheduleTriggerResolverForOwnDid (D\<lparr>de_publish := P\<rparr>) = scheduleTriggerResolverForOwnDid D"
    by (auto simp: fun_eq_iff storedRecord_def documentFingerprint_def publicationFingerprint_def
      scheduleTriggerResolverForOwnDid_def Let_def split: option.split)
  show ?thesis
    using assms(2,4) same by (simp add: updateDidRecord_def Let_def env bnd_def whenM_def)
qed

definition name_order :: "string \<Rightarrow> string \<Rightarrow> int" where
  "name_order a b = (if (map of_char a :: nat list) \<le> map of_char b then if a = b then 0 else -1 else 1)"

lemma orders_name_order: "orders_names name_order"
proof -
  have "a = b" if "(map of_char a :: nat list) = map of_char b" for a b :: string
    using that by (rule map_injective) (simp add: inj_def)
  then show ?thesis unfolding orders_names_def name_order_def by (auto split: if_splits)
qed

definition env_o :: "disk did_env" where
  "env_o = mem_did_env\<lparr>de_localeCompare := name_order, de_documentJson := dd_other\<rparr>"

definition record_p :: did_record where
  "record_p = record_a\<lparr>dr_document := Some (doc_a\<lparr>dd_other := JObj [(''id'', JStr ''did:a''), (''x'', JNull)]\<rparr>)\<rparr>"

definition record_o :: did_record where
  "record_o = record_a\<lparr>dr_document := Some (doc_a\<lparr>dd_other := JObj [(''x'', JNull), (''id'', JStr ''did:a'')]\<rparr>)\<rparr>"

definition state_o :: disk where
  "state_o = state_a\<lparr>mm_record := Some record_p\<rparr>"

theorem reordered_document_is_not_republished_witness:
  "updateDidRecord (env_o\<lparr>de_publish := (\<lambda>i d. throw (OtherError ''registrar''))\<rparr>) record_o state_o =
   updateDidRecord env_o record_o state_o"
proof (rule reordered_document_is_not_republished)
  show "orders_names (de_localeCompare env_o)" by (simp add: env_o_def orders_name_order)
  show "storedRecord env_o (dr_id record_o) state_o = (Inr (Some record_p), state_o)"
    by (simp add: storedRecord_def env_o_def mem_did_env_def comp_defs state_o_def)
  show "dr_document record_p = Some (doc_a\<lparr>dd_other := JObj [(''id'', JStr ''did:a''), (''x'', JNull)]\<rparr>)"
      "dr_document record_o = Some (doc_a\<lparr>dd_other := JObj [(''x'', JNull), (''id'', JStr ''did:a'')]\<rparr>)"
    by (simp_all add: record_p_def record_o_def)
  have "same_json (JObj [(''x'', JNull), (''id'', JStr ''did:a'')]) (JObj [(''id'', JStr ''did:a''), (''x'', JNull)])"
    by (rule same_json.obj [where qs = "[(''x'', JNull), (''id'', JStr ''did:a'')]"])
      (simp_all add: same_json.refl add_mset_commute)
  then show "same_json (de_documentJson env_o (applyAdminApiServiceEntry (de_adminEndpoint env_o)
      (doc_a\<lparr>dd_other := JObj [(''x'', JNull), (''id'', JStr ''did:a'')]\<rparr>)))
      (de_documentJson env_o (doc_a\<lparr>dd_other := JObj [(''id'', JStr ''did:a''), (''x'', JNull)]\<rparr>))"
    by (simp add: env_o_def applyAdminApiServiceEntry_def Let_def)
qed

end
