(* ===== verification/TriggerResolver.thy ===== *)
theory TriggerResolver
  imports Lookups PublishProps
begin

text \<open>
  The rest of \<open>blockchain/triggerResolver.ts\<close>: which entry of the agent may send \<open>TriggerResolver\<close>, and
  the sending. \<open>agent_did_env\<close> puts the trust credential store inside the agent: its indexer, clock, chain
  client and pending triggers are those of the agent's world. \<open>with_store\<close> puts the store behind the calls
  of the orchestrator and of the chain reactions. The type URL of the message is third-party.
\<close>

section \<open>Sending a trigger\<close>

text \<open>The clock is read once for the whole list.\<close>

definition may_trigger ::
  "('st, 'y) agent \<Rightarrow> string \<Rightarrow> string \<Rightarrow> auth_service option \<Rightarrow> int \<Rightarrow> participant_dto \<Rightarrow> bool" where
  "may_trigger A url did service t p \<longleftrightarrow>
     pd_did p = Some did \<and> pd_role p = participant_role_str PR_Holder \<and>
     (case service of None \<Rightarrow> False | Some S \<Rightarrow> canSign (Date_parse A) t S p url)"

definition findResolverParticipantId :: "('st, 'y) agent \<Rightarrow> string \<Rightarrow> ('st, 'y, int option) act" where
  "findResolverParticipantId A url =
     (if \<not> truthy (ag_did A) then ret None
      else let did = the (ag_did A)
           in bnd (ix_participants A (no_filter\<lparr>pf_did := Some did, pf_role := Some PR_Holder\<rparr>)) (\<lambda>ps.
              bnd (getx ax_auth) (\<lambda>service.
              bnd (now A) (\<lambda>t.
              ret (map_option pd_id (find (may_trigger A url did service t) ps))))))"

definition triggerResolver :: "('st, 'y) agent \<Rightarrow> int \<Rightarrow> ('st, 'y, unit) act" where
  "triggerResolver A i =
     (case ag_chain A of
        None \<Rightarrow> ret ()
      | Some c \<Rightarrow>
          bnd (getx ax_auth) (\<lambda>service.
          catch (bnd (chain_triggerResolver c i
                   (feeGranterFor (Some (cc_corporation c)) service (Some i))) (\<lambda>_. ret ()))
            (\<lambda>e. ret ())))"

text \<open>A search that fails finds no entry; the cause is only logged.\<close>

definition triggerResolverForOwnDid :: "('st, 'y) agent \<Rightarrow> string \<Rightarrow> string \<Rightarrow> ('st, 'y, unit) act" where
  "triggerResolverForOwnDid A url cause =
     (if ag_chain A = None then ret ()
      else bnd (catch (findResolverParticipantId A url) (\<lambda>e. ret None)) (\<lambda>i. case i of
         None \<Rightarrow> ret ()
       | Some participantId \<Rightarrow> triggerResolver A participantId))"

section \<open>Waiting for a digest\<close>

definition DIGEST_CATCHUP_TIMEOUT_MS :: int where
  "DIGEST_CATCHUP_TIMEOUT_MS = 15000"

definition digest_round :: "('st, 'y) agent \<Rightarrow> string \<Rightarrow> int \<Rightarrow> ('st, 'y, unit + unit) act" where
  "digest_round A digest deadline =
     bnd (ix_digest A digest) (\<lambda>known.
     if known \<noteq> None then ret (Inl ())
     else bnd (now A) (\<lambda>t. ret (if deadline \<le> t then Inl () else Inr ())))"

text \<open>\<open>None\<close>: still waiting when the fuel ran out.\<close>

definition waitForDigest :: "('st, 'y) agent \<Rightarrow> string \<Rightarrow> ('st, 'y, unit option) act" where
  "waitForDigest A digest =
     bnd (now A) (\<lambda>t.
     poll (ag_fuel A) (\<lambda>_. digest_round A digest (t + DIGEST_CATCHUP_TIMEOUT_MS))
       (ag_sleep A CATCHUP_INTERVAL_MS) ())"

section \<open>The store inside the agent\<close>

definition agent_did_env ::
  "('st, 'y) agent \<Rightarrow> string \<Rightarrow> ('st, 'y) agent_world did_env \<Rightarrow> ('st, 'y) agent_world did_env" where
  "agent_did_env A url D = D
     \<lparr> de_did := ag_did A, de_publicApiBaseUrl := withDefault (ag_publicApiBaseUrl A) [],
       de_chain := map_option (\<lambda>c. (cc_chainId c, cc_address c)) (ag_chain A), de_sha384 := ag_sha384 A,
       de_digestJCS := ag_digestJCS A, de_now := now A,
       de_pending := (\<lambda>w. ax_triggers (ext w)),
       de_setPending := (\<lambda>p w. w\<lparr>ext := (ext w)\<lparr>ax_triggers := p\<rparr>\<rparr>),
       de_trigger := triggerResolverForOwnDid A url,
       de_schema := getCredentialSchema A, de_ecosystem := (\<lambda>i. bnd (getEcosystem A i) (\<lambda>e. ret (Some e))),
       de_participants := ix_participants A, de_anchored := ix_digest A, de_validateSchema := validateSchema A,
       de_resolveVtjsc := (\<lambda>i. resolveJsonSchemaCredentialId A (int_str i)),
       de_anchorSession := (\<lambda>issuer digest.
         bnd (requireChain A) (\<lambda>c.
         bnd (generateId (ag_flow A)) (\<lambda>i.
         bnd (getx ax_auth) (\<lambda>service.
         bnd (createOrUpdateParticipantSession c i issuer (JsFin 0) (JsFin 0) digest
                (feeGranterFor (Some (cc_corporation c)) service (Some issuer))) (\<lambda>_. ret ()))))),
       de_waitForDigest := (\<lambda>digest. bnd (waitForDigest A digest) (\<lambda>_. ret ())) \<rparr>"

definition trust_credential_of :: "json \<Rightarrow> trust_credential" where
  "trust_credential_of v = (if isVcdm2Credential v then DiCredential v else LdpCredential v)"

definition agent_with_store ::
  "('st, 'y) agent \<Rightarrow> ('st, 'y) agent_world did_env \<Rightarrow> ('st, 'y) agent" where
  "agent_with_store A D = A
     \<lparr> lv_createVtc := (\<lambda>base i v. bnd (createVtc D base i (trust_credential_of v)) (\<lambda>_. ret ())),
       lv_removeStored := removeStoredTrustCredential D \<rparr>"

definition with_store :: "('st, 'y) host \<Rightarrow> ('st, 'y) agent_world did_env \<Rightarrow> ('st, 'y) host" where
  "with_store H D = H
     \<lparr> ho_agent := agent_with_store (ho_agent H) D, ho_publicDids := publicDidsOf D,
       ho_withdrawSelfIssued := withdrawSelfIssuedEcsCredentials D,
       ho_createJsc := (\<lambda>i ref jsonSchema.
         bnd (createJsc D (de_publicApiBaseUrl D) i ref (Some (generateDigestSRI D jsonSchema))) (\<lambda>j. ret (Some j))),
       ho_publishTypeMetadata := (\<lambda>i. publishTypeMetadataForVtjsc D (num_str i)),
       ho_publishAnonCredsSchema := (\<lambda>i. publishAnonCredsSchemaForVtjsc D (num_str i)),
       ho_reconcileVtjsc := (\<lambda>claims. reconcileVtjscPublications D True) \<rparr>"

section \<open>The wait ends\<close>

lemma digest_round_ends:
  assumes "takes A 0 (ix_digest A digest)" and "takes A 0 (now A)"
  shows "post (digest_round A digest deadline)
    (\<lambda>r t. \<forall>v. r = Inr v \<longrightarrow> 0 < deadline - clock A w \<and> deadline - clock A t \<le> deadline - clock A w)
    (\<lambda>_ _. True) w"
  unfolding digest_round_def post_bnd
  by (rule post_takes [OF assms(1) order.refl]) (auto simp: wp intro!: post_now [OF assms(2)])

interpretation digest_wait: deadline_loop "\<lambda>_. digest_round A digest deadline"
    "ag_sleep A CATCHUP_INTERVAL_MS" "\<lambda>_ _. timely A \<and> takes A 0 (ix_digest A digest)"
    "\<lambda>w. deadline - clock A w" CATCHUP_INTERVAL_MS
  for A digest deadline
proof (unfold_locales, goal_cases)
  case (1 b s)
  then have "takes A 0 (ix_digest A digest)" "takes A 0 (now A)" by (simp_all add: timelyD(1))
  from digest_round_ends [OF this] show ?case by (rule post_mono) (use 1 in auto)
next
  case (2 b s)
  then have "takes A CATCHUP_INTERVAL_MS (ag_sleep A CATCHUP_INTERVAL_MS)"
    by (intro timelyD(5)) (simp_all add: CATCHUP_INTERVAL_MS_def)
  from pause_takes [OF this] show ?case by (rule post_mono) (use 2 in auto)
qed

lemma wait_for_digest_ends:
  assumes "timely A" and "takes A 0 (ix_digest A digest)" and "30 < ag_fuel A"
  shows "post (waitForDigest A digest) (\<lambda>r _. r \<noteq> None) (\<lambda>_ _. True) w"
proof -
  from fuel_Suc [OF assms(3)] obtain m where m: "ag_fuel A = Suc m" "30 \<le> m" by blast
  have "post (poll (Suc m) (\<lambda>_. digest_round A digest (clock A w + DIGEST_CATCHUP_TIMEOUT_MS))
      (ag_sleep A CATCHUP_INTERVAL_MS) ()) (\<lambda>r _. r \<noteq> None) (\<lambda>_ _. True) t" if "clock A w \<le> clock A t" for t
    by (rule digest_wait.loop_ends)
      (use assms m(2) that in \<open>simp_all add: DIGEST_CATCHUP_TIMEOUT_MS_def CATCHUP_INTERVAL_MS_def\<close>)
  then show ?thesis
    unfolding waitForDigest_def m(1) post_bnd by (auto intro: post_now [OF timelyD(1) [OF assms(1)]])
qed

section \<open>Triggers\<close>

lemma jsmap_set_set: "jsmap_set k v' (jsmap_set k v m) = jsmap_set k v' m"
  by (induction m) auto

lemma jsmap_delete_set: "jsmap_delete k (jsmap_set k v m) = jsmap_delete k m"
  by (induction m) (auto simp: jsmap_delete_def)

lemma agent_did_env_sel [simp]:
  "de_did (agent_did_env A url D) = ag_did A" "de_pending (agent_did_env A url D) w = ax_triggers (ext w)"
  "de_setPending (agent_did_env A url D) p w = w\<lparr>ext := (ext w)\<lparr>ax_triggers := p\<rparr>\<rparr>"
  "de_trigger (agent_did_env A url D) = triggerResolverForOwnDid A url"
  by (simp_all add: agent_did_env_def)

lemma schedule_burst:
  fixes A :: "('st, 'y) agent"
  defines "key \<equiv> withDefault (ag_did A) []"
  shows "forM causes (scheduleTriggerResolverForOwnDid (agent_did_env A url D)) w =
    (Inr (), w\<lparr>ext := (ext w)\<lparr>ax_triggers :=
       if causes = [] then ax_triggers (ext w) else jsmap_set key (last causes) (ax_triggers (ext w))\<rparr>\<rparr>)"
proof (induction causes arbitrary: w)
  case (Cons c causes)
  then show ?case
    by (simp add: scheduleTriggerResolverForOwnDid_def key_def comp_defs jsmap_set_set)
qed (simp add: ret_def)

text \<open>
  A burst of DID record writes sends one transaction: however many triggers are scheduled before the
  window closes, the timer then runs the resolver trigger once, with the cause of the last write, and
  nothing of the burst is left waiting.
\<close>

theorem burst_sends_one_trigger:
  assumes "causes \<noteq> []"
  shows "sqn (forM causes (scheduleTriggerResolverForOwnDid (agent_did_env A url D)))
      (onTriggerTimer (agent_did_env A url D) (withDefault (ag_did A) [])) w =
    triggerResolverForOwnDid A url (last causes)
      (w\<lparr>ext := (ext w)\<lparr>ax_triggers := jsmap_delete (withDefault (ag_did A) []) (ax_triggers (ext w))\<rparr>\<rparr>)"
  using assms
  by (simp add: sqn_def bnd_def schedule_burst onTriggerTimer_def gets_def)
    (simp add: send_trigger_def comp_defs jsmap_delete_set)

theorem burst_sends_one_trigger_witness:
  "\<forall>A url D w. sqn (forM [''created'', ''withdrawn''] (scheduleTriggerResolverForOwnDid (agent_did_env A url D)))
      (onTriggerTimer (agent_did_env A url D) (withDefault (ag_did A) [])) w =
    triggerResolverForOwnDid A url ''withdrawn''
      (w\<lparr>ext := (ext w)\<lparr>ax_triggers := jsmap_delete (withDefault (ag_did A) []) (ax_triggers (ext w))\<rparr>\<rparr>)"
  by (intro allI, subst burst_sends_one_trigger) simp_all

text \<open>Calls that sign nothing and leave the authorizations alone.\<close>

definition signed_view :: "('st, 'y) agent_world \<Rightarrow> (chain_msg list \<times> std_fee) list \<times> auth_service option" where
  "signed_view w = (ax_signed (ext w), ax_auth (ext w))"

definition chain_reads_quiet :: "('st, 'y) agent \<Rightarrow> bool" where
  "chain_reads_quiet A \<longleftrightarrow> still signed_view (now A) \<and> (\<forall>f. still signed_view (ix_participants A f)) \<and>
     (\<forall>c. ag_chain A = Some c \<longrightarrow> (\<forall>m g. still signed_view (preflightFee (cc_calls c) m g)) \<and>
        (\<forall>ms f. still signed_view (ch_signAndBroadcast (cc_calls c) ms f)))"

lemma still_getx: "still v (getx f)"
  by (simp add: getx_def still_gets)

lemma still_find: "chain_reads_quiet A \<Longrightarrow> still signed_view (findResolverParticipantId A url)"
  unfolding findResolverParticipantId_def chain_reads_quiet_def Let_def
  by (intro still_if still_bnd still_ret still_getx) auto

text \<open>
  What an entry that is found rests on, in the state \<open>w\<close> of the search: the indexer, asked there for the HOLDER
  entries of the agent's DID, listed it; and the clock, read after that answer, gave the moment of the check.
\<close>

definition own_holders :: "('st, 'y) agent \<Rightarrow> ('st, 'y, participant_dto list) act" where
  "own_holders A = ix_participants A (no_filter\<lparr>pf_did := ag_did A, pf_role := Some PR_Holder\<rparr>)"

definition may_send_for :: "('st, 'y) agent \<Rightarrow> string \<Rightarrow> ('st, 'y) agent_world \<Rightarrow> int \<Rightarrow> bool" where
  "may_send_for A url w i \<longleftrightarrow> (\<exists>listed p moment S.
     fst (own_holders A w) = Inr listed \<and> p \<in> set listed \<and> pd_id p = i \<and>
     ag_did A \<noteq> None \<and> pd_did p = ag_did A \<and> pd_role p = participant_role_str PR_Holder \<and>
     fst (now A (snd (own_holders A w))) = Inr moment \<and>
     ax_auth (ext w) = Some S \<and> canSign (Date_parse A) moment S p url)"

lemma post_find_resolver:
  assumes "chain_reads_quiet A"
  shows "post (findResolverParticipantId A url) (\<lambda>i _. \<forall>n. i = Some n \<longrightarrow> may_send_for A url w n) (\<lambda>_ _. True) w"
proof (cases "ag_did A")
  case (Some did)
  have auth: "ax_auth (ext (snd (own_holders A w))) = ax_auth (ext w)"
    using assms still_post [of signed_view "own_holders A" w]
    by (auto simp: chain_reads_quiet_def own_holders_def post_def signed_view_def split: sum.splits prod.splits)
  show ?thesis
    using auth unfolding findResolverParticipantId_def Let_def post_if post_ret post_bnd post_getx Some option.sel
      own_holders_def [of A, unfolded Some, symmetric]
    by (auto simp: post_def may_send_for_def may_trigger_def Some dest!: find_SomeD split: sum.splits option.splits prod.splits)
qed (simp add: findResolverParticipantId_def wp)

lemma post_trigger_sends:
  assumes "chain_reads_quiet A" and "ag_chain A = Some c"
  shows "post (triggerResolver A i)
    (\<lambda>_ t. ax_signed (ext t) = ax_signed (ext w) \<or>
       (\<exists>f. ax_signed (ext t) = ax_signed (ext w) @ [([triggerResolverMsg c i], f)])) (\<lambda>_ _. False) w"
proof -
  have fee: "post (preflightFee (cc_calls c) m g) (\<lambda>_ u. signed_view u = signed_view w)
      (\<lambda>_ u. signed_view u = signed_view w) w" for m g
    using assms unfolding chain_reads_quiet_def by (auto intro: still_post)
  have sign: "post (ch_signAndBroadcast (cc_calls c) ms f) (\<lambda>_ u. signed_view u = signed_view v)
      (\<lambda>_ u. signed_view u = signed_view v) v" for ms f v
    using assms unfolding chain_reads_quiet_def by (auto intro: still_post)
  show ?thesis
    unfolding triggerResolver_def assms(2) option.case chain_triggerResolver_def broadcastMsg_def
      post_bnd post_getx post_catch post_ret
    by (rule post_mono [OF fee])
      (auto simp: wp signed_view_def split: fee_preflight.splits intro!: post_mono [OF sign])
qed

text \<open>
  C40. The resolver trigger never throws and signs at most one transaction: \<open>TriggerResolver\<close> for an entry that
  the indexer listed when the agent asked for the HOLDER entries of its own DID, that is one, that is active at
  the moment the clock then gave, and whose cached authorization record lists the message.
\<close>

theorem trigger_is_signed_for_own_holder:
  assumes "chain_reads_quiet A"
  shows "post (triggerResolverForOwnDid A url cause)
    (\<lambda>_ t. ax_signed (ext t) = ax_signed (ext w) \<or>
       (\<exists>c i f. ag_chain A = Some c \<and> ax_signed (ext t) = ax_signed (ext w) @ [([triggerResolverMsg c i], f)] \<and>
          may_send_for A url w i))
    (\<lambda>_ _. False) w"
proof (cases "ag_chain A")
  case (Some c)
  have found: "post (findResolverParticipantId A url)
    (\<lambda>i u. (\<forall>n. i = Some n \<longrightarrow> may_send_for A url w n) \<and> signed_view u = signed_view w)
    (\<lambda>_ u. True \<and> signed_view u = signed_view w) w"
    by (rule iffD2 [OF post_conj conjI [OF post_find_resolver [OF assms] still_post [OF still_find [OF assms]]]])
  show ?thesis
    unfolding triggerResolverForOwnDid_def post_bnd post_catch post_ret post_if
    by (auto simp: Some wp signed_view_def split: option.split
      intro!: post_mono [OF found] post_mono [OF post_trigger_sends [OF assms Some]])
qed (simp add: triggerResolverForOwnDid_def wp)

text \<open>An agent whose holder entry 7 may send the message.\<close>

definition ex_holder :: "(mem_store, mem_ext) agent" where
  "ex_holder = (ex_agent (\<lambda>_. None))\<lparr>ix_participants := (\<lambda>_. ret [ex_entry\<lparr>pd_effective_from := Some ''1970-01-01T00:00:00Z''\<rparr>])\<rparr>"

definition ex_service :: auth_service where
  "ex_service = \<lparr> au_vsoaByParticipant = [(7, \<lparr> vr_participantId = 7, vr_msgTypes = [''trigger''],
     vr_withFeegrant = False, vr_expiration = None, vr_period = None, cr_corporationId = 1, cr_vsOperator = ''addr'' \<rparr>)],
     au_lastRefreshAt = 0, au_lastRefreshAtBlock = 0, au_corporationId = None, au_minRefreshIntervalMs = 0 \<rparr>"

definition ex_authorized :: "(mem_store, mem_ext) agent_world" where
  "ex_authorized = (agent_world [])\<lparr>ext := (ext (agent_world []))\<lparr>ax_auth := Some ex_service\<rparr>\<rparr>"

lemma still_try_read: "still v m \<Longrightarrow> (\<And>x. still v (f x)) \<Longrightarrow> still v (try_read m f)"
  by (auto simp: try_read_def outcome_def [symmetric] intro!: still_rules)

lemma ex_chain_fee: "still v (preflightFee ex_chain m g)"
  unfolding preflightFee_def checkPayer_def corporationPays_def agentPays_def ex_chain_def chain_calls.simps Let_def
  by (intro still_try_read still_rules) (auto intro!: still_rules still_try_read split: fee_allowance.split)

lemma ex_holder_quiet: "chain_reads_quiet ex_holder"
  by (auto simp: chain_reads_quiet_def ex_holder_def still_ret ex_client_def ex_chain_fee)
    (auto simp: still_def keeps_def post_def now_def date_now_def signed_view_def ex_chain_def ret_def)

lemma holder_signs:
  "map fst (ax_signed (ext (snd (triggerResolverForOwnDid ex_holder ''trigger'' ''published'' ex_authorized)))) =
   [[triggerResolverMsg ex_client 7]]"
  by code_simp

theorem trigger_is_signed_for_own_holder_witness:
  "\<exists>t f. triggerResolverForOwnDid ex_holder ''trigger'' ''published'' ex_authorized = (Inr (), t) \<and>
     ax_signed (ext t) = [([triggerResolverMsg ex_client 7], f)] \<and>
     may_send_for ex_holder ''trigger'' ex_authorized 7"
proof -
  have start: "ax_signed (ext ex_authorized) = []" by (simp add: ex_authorized_def)
  obtain o1 t where run: "triggerResolverForOwnDid ex_holder ''trigger'' ''published'' ex_authorized = (o1, t)"
    by (metis surj_pair)
  have signed: "map fst (ax_signed (ext t)) = [[triggerResolverMsg ex_client 7]]"
    using holder_signs by (simp add: run)
  then obtain f where f: "ax_signed (ext t) = [([triggerResolverMsg ex_client 7], f)]"
    by (auto simp: map_eq_Cons_conv)
  show ?thesis
    using trigger_is_signed_for_own_holder [OF ex_holder_quiet, of "''trigger''" "''published''" ex_authorized]
    by (auto simp: post_def run start f triggerResolverMsg_def about_entry_def split: sum.splits)
qed

end
