(* ===== verification/AgentStore.thy ===== *)
theory AgentStore
  imports AgentProps TriggerResolver
begin

text \<open>
  The agent with its trust credential store: every operation of the store refines the flow contract of
  \<open>FlowSpec\<close>, as long as the calls of Credo and of the network it awaits do. So the agent of
  \<open>AgentMachine\<close> may run the modelled store where it had an arbitrary computation.
\<close>

section \<open>The calls of the store\<close>

definition did_calls_ok ::
  "('st, 'x) env \<Rightarrow> flow_op set \<Rightarrow> ('st, 'x) world did_env \<Rightarrow> bool" where
  "did_calls_ok K ops D \<longleftrightarrow>
     (\<forall>d. refines K ops (de_created D d)) \<and> refines K ops (de_alternativeDids D) \<and>
     (\<forall>i. refines K ops (de_findById D i)) \<and> (\<forall>r. refines K ops (de_save D r)) \<and>
     (\<forall>d doc. refines K ops (de_publish D d doc)) \<and> (\<forall>c. refines K ops (de_trigger D c)) \<and>
     (\<forall>f. refines K ops (modify (\<lambda>w. de_setPending D (f w) w))) \<and>
     (\<forall>t i. refines K ops (de_signCredential D t i)) \<and>
     (\<forall>i h v m. refines K ops (de_signDiPresentation D i h v m)) \<and>
     (\<forall>i h v m. refines K ops (de_signLdpPresentation D i h v m)) \<and>
     refines K ops (de_v2Records D) \<and> refines K ops (de_v1Records D) \<and>
     (\<forall>i. refines K ops (de_deleteV2 D i)) \<and> (\<forall>i. refines K ops (de_deleteV1 D i)) \<and>
     (\<forall>i. refines K ops (de_formatData D i)) \<and> refines K ops (de_now D) \<and>
     (\<forall>k. refines K ops (de_claims D k)) \<and> (\<forall>t v. refines K ops (de_validateSchema D t v)) \<and>
     (\<forall>u. refines K ops (de_fetchText D u)) \<and> (\<forall>d. refines K ops (de_anchored D d)) \<and>
     (\<forall>i d. refines K ops (de_anchorSession D i d)) \<and> (\<forall>d. refines K ops (de_waitForDigest D d)) \<and>
     (\<forall>i. refines K ops (de_schema D i)) \<and> (\<forall>i. refines K ops (de_ecosystem D i)) \<and>
     refines K ops (de_ecosystems D) \<and> (\<forall>i. refines K ops (de_schemasOf D i)) \<and>
     (\<forall>f. refines K ops (de_participants D f)) \<and> (\<forall>i c. refines K ops (de_resolveVtjsc D i c)) \<and>
     (\<forall>i. refines K ops (ac_createdSchemas D i)) \<and>
     (\<forall>n as v d i. refines K ops (ac_registerSchema D n as v d i)) \<and>
     (\<forall>i j. refines K ops (ac_tagSchema D i j)) \<and> (\<forall>v i. refines K ops (ac_saveAttestedResource D v i))"

lemma did_callsD:
  assumes "did_calls_ok K ops D"
  shows "refines K ops (de_created D d)" "refines K ops (de_alternativeDids D)" "refines K ops (de_findById D i)"
    "refines K ops (de_save D r)" "refines K ops (de_publish D i doc)" "refines K ops (de_trigger D i)"
    "refines K ops (modify (\<lambda>w. de_setPending D (f w) w))" "refines K ops (de_signCredential D opts i)"
    "refines K ops (de_signDiPresentation D i h v m)" "refines K ops (de_signLdpPresentation D i h v m)"
    "refines K ops (de_v2Records D)" "refines K ops (de_v1Records D)" "refines K ops (de_deleteV2 D i)"
    "refines K ops (de_deleteV1 D i)" "refines K ops (de_formatData D i)" "refines K ops (de_now D)"
    "refines K ops (de_claims D i)" "refines K ops (de_validateSchema D i v)" "refines K ops (de_fetchText D i)"
    "refines K ops (de_anchored D i)" "refines K ops (de_anchorSession D n i)" "refines K ops (de_waitForDigest D i)"
    "refines K ops (de_schema D i)" "refines K ops (de_ecosystem D i)" "refines K ops (de_ecosystems D)"
    "refines K ops (de_schemasOf D n)" "refines K ops (de_participants D pf)" "refines K ops (de_resolveVtjsc D n i)"
    "refines K ops (ac_createdSchemas D i)" "refines K ops (ac_registerSchema D i as j m l)"
    "refines K ops (ac_tagSchema D i j)" "refines K ops (ac_saveAttestedResource D v i)"
  using assms by (simp_all add: did_calls_ok_def)

section \<open>The operations of the store\<close>

lemma refines_trigger:
  assumes "did_calls_ok K ops D"
  shows "refines K ops (scheduleTriggerResolverForOwnDid D c)"
  unfolding scheduleTriggerResolverForOwnDid_def by (rule did_callsD(7) [OF assms])

lemma refines_record:
  assumes "did_calls_ok K ops D"
  shows "refines K ops (getDidRecord D)" "refines K ops (ownDidRecord D)" "refines K ops (updateDidRecord D r)"
  unfolding getDidRecord_def ownDidRecord_def updateDidRecord_def storedRecord_def Let_def
  by (intro agent_rules did_callsD [OF assms] refines_trigger [OF assms])+

lemma refines_cred_case:
  "(\<And>v. refines_if K P ops (f v)) \<Longrightarrow> (\<And>v. refines_if K P ops (g v)) \<Longrightarrow>
     refines_if K P ops (case c of DiCredential v \<Rightarrow> f v | LdpCredential v \<Rightarrow> g v)"
  "(\<And>p q. refines_if K P ops (h p q)) \<Longrightarrow> refines_if K P ops (case x of (p, q) \<Rightarrow> h p q)"
  "(\<And>m. refines_if K P ops (nf m)) \<Longrightarrow> (\<And>e. refines_if K P ops (rest e)) \<Longrightarrow>
     refines_if K P ops (case e of RecordNotFoundError m \<Rightarrow> nf m | _ \<Rightarrow> rest e)"
  by (cases c, simp_all) (cases x, simp, cases e, simp_all)

lemma refines_forM: "(\<And>x. refines K ops (f x)) \<Longrightarrow> refines K ops (forM xs f)"
  by (induction xs) (auto intro: refines_rules)

lemmas store_rules = agent_rules refines_cred_case refines_json_case refines_forM

lemma refines_entries:
  assumes "did_calls_ok K ops D"
  shows "refines K ops (saveMetadataEntry D r c p i k)" "refines K ops (deleteMetadataEntry D i r k)"
    "refines K ops (removeTrustCredential D i k)" "refines K ops (signLinkedPresentation D i c m)"
  unfolding saveMetadataEntry_def deleteMetadataEntry_def removeTrustCredential_def signLinkedPresentation_def
    Let_def
  by (intro store_rules did_callsD [OF assms] refines_record [OF assms])+

lemma refines_publishing:
  assumes "did_calls_ok K ops D"
  shows "refines K ops (createVtc D base i c)" "refines K ops (fetchSchemaContent D i)"
    "refines K ops (assertValidSchema D j i)" "refines K ops (findExchangeCredentialId D i)"
    "refines K ops (detachVtjscPublications D refs)" "refines K ops (reattachVtjscPublication D i)"
    "refines K ops (saveVtjscTypeMetadata D i j)" "refines K ops (getClaims D sc i j)"
    "refines K ops (publicDidsOf D)" "refines K ops (cached_ecosystem D cache i)"
  unfolding createVtc_def fetchSchemaContent_def assertValidSchema_def findExchangeCredentialId_def
    detachVtjscPublications_def reattachVtjscPublication_def saveVtjscTypeMetadata_def getClaims_def
    publicDidsOf_def cached_ecosystem_def Let_def
  by (intro store_rules did_callsD [OF assms] refines_record [OF assms] refines_entries [OF assms])+

lemma refines_removeStored:
  assumes "did_calls_ok K ops D"
  shows "refines K ops (removeStoredTrustCredential D i e)"
  unfolding removeStoredTrustCredential_def delete_tagged_def Let_def
  by (intro store_rules did_callsD [OF assms] refines_entries [OF assms] refines_publishing [OF assms])

lemma refines_addDigestSRI:
  assumes "did_calls_ok K ops D"
  shows "refines K ops (addDigestSRI D i d)"
  unfolding addDigestSRI_def Let_def by (intro store_rules refines_publishing [OF assms])

lemma refines_createJsc:
  assumes "did_calls_ok K ops D"
  shows "refines K ops (createJsc D base i ref digest)"
  unfolding createJsc_def Let_def
  by (intro store_rules did_callsD [OF assms] refines_record [OF assms] refines_entries [OF assms]
      refines_addDigestSRI [OF assms])

lemma refines_selfIssued:
  assumes "did_calls_ok K ops D"
  shows "refines K ops (signSelfIssuedEcsCredential D r i c ts cl s1 t u)"
    "refines K ops (anchorCredentialDigest D i v n)"
  unfolding signSelfIssuedEcsCredential_def anchorCredentialDigest_def Let_def
  by (intro store_rules did_callsD [OF assms])+

lemma refines_publishSelfIssued:
  assumes "did_calls_ok K ops D" and "\<And>p. refines K ops (before p)"
  shows "refines K ops (publishSelfIssuedEcsPresentation D url sc key sid ts s1 t before u)"
  unfolding publishSelfIssuedEcsPresentation_def Let_def
  by (intro store_rules assms(2) refines_record [OF assms(1)] refines_publishing [OF assms(1)]
      refines_selfIssued [OF assms(1)])

lemma refines_rebind:
  assumes "did_calls_ok K ops D"
  shows "refines K ops (rebindEcsCredentialSchema D base sid key url n sc u)"
  unfolding rebindEcsCredentialSchema_def Let_def
  by (intro store_rules refines_record [OF assms] refines_publishSelfIssued [OF assms]
      refines_selfIssued [OF assms])

lemma refines_withdraw:
  assumes "did_calls_ok K ops D"
  shows "refines K ops (withdrawSelfIssuedEcsCredentials D n)"
proof -
  have "refines K ops (withdraw_entries D n b)" for b
  proof (induction b)
    case (Cons p b)
    then show ?case
      by (cases p) (auto intro!: store_rules refines_entries [OF assms])
  qed simp
  then show ?thesis
    unfolding withdrawSelfIssuedEcsCredentials_def by (intro store_rules refines_record [OF assms])
qed

lemma refines_logged: "refines K ops m \<Longrightarrow> refines K ops (logged m)"
  unfolding logged_def by (intro store_rules; assumption)

lemma refines_artifacts:
  assumes "did_calls_ok K ops D"
  shows "refines K ops (publishTypeMetadataForVtjsc D i t j ref)"
    "refines K ops (publishAnonCredsSchemaForVtjsc D i t j)"
    "refines K ops (reconcile_vtjsc D r sd ref)"
  unfolding publishTypeMetadataForVtjsc_def publishAnonCredsSchemaForVtjsc_def reconcile_vtjsc_def Let_def
  by (intro store_rules did_callsD [OF assms] refines_publishing [OF assms] refines_createJsc [OF assms])+

lemma refines_reconcile_schemas:
  assumes "did_calls_ok K ops D"
  shows "refines K ops (reconcile_schemas D c ss seen)"
proof (induction ss arbitrary: seen)
  case (Cons sd ss)
  show ?case
    unfolding reconcile_schemas.simps Let_def
    by (intro store_rules refines_logged refines_record [OF assms] refines_artifacts [OF assms] Cons.IH)
qed simp

lemma refines_reconcile_ecosystems:
  assumes "did_calls_ok K ops D"
  shows "refines K ops (reconcile_ecosystems D c es seen)"
proof (induction es arbitrary: seen)
  case (Cons e es)
  show ?case
    unfolding reconcile_ecosystems.simps
    by (intro store_rules did_callsD [OF assms] refines_reconcile_schemas [OF assms] Cons.IH)
qed simp

lemma refines_detach_uncontrolled:
  assumes "did_calls_ok K ops D"
  shows "refines K ops (detachUncontrolledVtjscPublications D c seen dids)"
proof -
  have "refines K ops (uncontrolled_refs D pre seen dids cache refs)" for pre cache refs
  proof (induction refs arbitrary: cache)
    case (Cons ref refs)
    show ?case
      unfolding uncontrolled_refs.simps
      by (intro store_rules did_callsD [OF assms] refines_publishing [OF assms] Cons.IH)
  qed simp
  then show ?thesis
    unfolding detachUncontrolledVtjscPublications_def
    by (intro store_rules refines_record [OF assms] refines_publishing [OF assms])
qed

lemma refines_startup_pass:
  assumes "did_calls_ok K ops D"
  shows "refines K ops (reconcileSelfIssuedEcsCredentials D)" "refines K ops (reconcileVtjscPublications D b)"
proof -
  have "refines K ops (withdraw_of_state D st)" "refines K ops (rebind_issuer D c a p)" for st c a p
    unfolding withdraw_of_state_def rebind_issuer_def
    by (intro store_rules refines_logged did_callsD [OF assms] refines_withdraw [OF assms] refines_rebind [OF assms])+
  then show self: "refines K ops (reconcileSelfIssuedEcsCredentials D)"
    unfolding reconcileSelfIssuedEcsCredentials_def
    by (intro store_rules did_callsD [OF assms])
  show "refines K ops (reconcileVtjscPublications D b)"
    unfolding reconcileVtjscPublications_def
    by (intro store_rules did_callsD [OF assms] refines_publishing [OF assms] self
        refines_reconcile_ecosystems [OF assms] refines_detach_uncontrolled [OF assms])
qed

section \<open>The store inside the agent\<close>

lemma refines_messages:
  assumes "agent_ok ops A" and "ag_chain A = Some c"
  shows "refines (ag_flow A) ops (chain_triggerResolver c i g)"
    "refines (ag_flow A) ops (createOrUpdateParticipantSession c j n x y d g)"
  unfolding chain_triggerResolver_def createOrUpdateParticipantSession_def
  by (rule refines_preflight [OF assms])+

lemma refines_resolver:
  assumes "agent_ok ops A"
  shows "refines (ag_flow A) ops (findResolverParticipantId A url)"
    "refines (ag_flow A) ops (triggerResolverForOwnDid A url cause)"
    "refines (ag_flow A) ops (waitForDigest A d)"
proof -
  show find: "refines (ag_flow A) ops (findResolverParticipantId A url)"
    unfolding findResolverParticipantId_def Let_def
    by (intro agent_rules agent_okD [OF assms] refines_reads [OF assms])
  have send: "refines (ag_flow A) ops (triggerResolver A n)" for n
    unfolding triggerResolver_def by (intro agent_rules refines_messages [OF assms])
  show "refines (ag_flow A) ops (triggerResolverForOwnDid A url cause)"
    unfolding triggerResolverForOwnDid_def by (intro agent_rules find send)
  show "refines (ag_flow A) ops (waitForDigest A d)"
    unfolding waitForDigest_def digest_round_def
    by (intro agent_rules agent_okD [OF assms] refines_reads [OF assms])
qed

lemma refines_ext_update:
  "refines_if K P ops (modify (\<lambda>w. w\<lparr>ext := f (w :: ('st, 'x) world)\<rparr>))"
  by (auto simp: refines_if_def wp)

lemma refines_anchor_session:
  assumes "agent_ok ops A"
  shows "refines (ag_flow A) ops (de_anchorSession (agent_did_env A url D) n d)"
  by (simp add: agent_did_env_def bnd_requireChain)
    (intro agent_rules refines_messages [OF assms])

lemma agent_did_env_ok:
  assumes "agent_ok ops A" and "did_calls_ok (ag_flow A) ops D"
  shows "did_calls_ok (ag_flow A) ops (agent_did_env A url D)"
proof -
  have "refines (ag_flow A) ops (de_ecosystem (agent_did_env A url D) i)"
    and "refines (ag_flow A) ops (de_waitForDigest (agent_did_env A url D) d)" for i d
    by (simp_all add: agent_did_env_def)
      (intro agent_rules refines_reads [OF assms(1)] refines_resolver [OF assms(1)])+
  then show ?thesis
    using refines_anchor_session [OF assms(1), of url D] refines_resolver [OF assms(1)]
      refines_reads [OF assms(1)] refines_schemas [OF assms(1)] agent_okD [OF assms(1)] did_callsD [OF assms(2)]
    unfolding did_calls_ok_def
    by (simp add: agent_did_env_def refines_ext_update)
qed

lemma with_store_ok:
  assumes host: "host_ok ops H" and calls: "did_calls_ok (ag_flow (ho_agent H)) ops D"
  shows "host_ok ops (with_store H D)"
proof -
  let ?K = "ag_flow (ho_agent H)"
  have ok: "agent_ok ops (ho_agent H)" by (rule host_okD [OF host])
  have "refines ?K ops (bnd (createVtc D u i (trust_credential_of j)) (\<lambda>_. ret ()))"
    and "refines ?K ops (bnd (createJsc D u i ref x) (\<lambda>j. ret (Some j)))" for u i j ref x
    by (intro agent_rules refines_publishing [OF calls] refines_createJsc [OF calls])+
  then show ?thesis
    using host ok refines_removeStored [OF calls] refines_publishing [OF calls] refines_withdraw [OF calls]
      refines_artifacts [OF calls] refines_startup_pass [OF calls]
    by (simp add: host_ok_def agent_ok_def indexer_ok_def wallet_ok_def chain_ok_def Let_def with_store_def
        agent_with_store_def)
qed

section \<open>Runs of the agent with its store\<close>

definition agent_of :: "('st, 'y) host \<Rightarrow> string \<Rightarrow> ('st, 'y) agent_world did_env \<Rightarrow> ('st, 'y) host" where
  "agent_of H url D = with_store H (agent_did_env (ho_agent H) url D)"

text \<open>
  C1. The agent as it is deployed, with the orchestrator's hooks installed in the vt-flow package, its
  handlers registered for the chain events and its trust credential store behind both: whatever sequence of
  API calls, messages, listeners, orchestrator methods and chain events it runs, and whatever the calls of
  Credo and of the network do meanwhile, the \<open>VtFlowStateChanged\<close> events of a flow chain from its creation to
  its stored state, and a stored flow stays stored under its id with the same session.
\<close>

theorem agent_keeps_flow_contract:
  assumes host: "host_ok UNIV H"
    and calls: "did_calls_ok (ag_flow (ho_agent H)) UNIV D"
    and trust: "\<And>h d c. trust = Some h \<Longrightarrow> refines (ag_flow (ho_agent H)) UNIV (h d c)"
    and start: "sys_ok (sysof (ag_flow (ho_agent H)) w)"
    and run: "w' = fold (agent_step (deployed (agent_of H url D) trust) b) cs w"
  shows "chained None (evs i (events w')) (map_option state (flows (ag_flow (ho_agent H)) w' i)) \<and>
    (\<forall>r. flows (ag_flow (ho_agent H)) w i = Some r \<longrightarrow>
       (\<exists>r'. flows (ag_flow (ho_agent H)) w' i = Some r' \<and> same_session r r'))"
proof -
  have flow: "ag_flow (ho_agent (agent_of H url D)) = ag_flow (ho_agent H)"
    by (simp add: agent_of_def with_store_def agent_with_store_def)
  have "host_ok UNIV (agent_of H url D)"
    unfolding agent_of_def
    by (rule with_store_ok [OF host agent_did_env_ok [OF host_okD(1) [OF host] calls]])
  from deployed_agent_keeps_flow_contract [OF this _ _ run, of i] trust start show ?thesis
    unfolding flow by blast
qed

text \<open>A DID storage that always answers the same record, and services that sign nothing.\<close>

definition ex_did_env :: "(mem_store, mem_ext) agent_world did_env" where
  "ex_did_env =
     \<lparr> de_did = None, de_publicApiBaseUrl = [], de_adminEndpoint = None, de_chain = None,
       de_localeCompare = (\<lambda>a b. 0), de_documentJson = (\<lambda>d. JStr (dd_id d)), de_sha384 = (\<lambda>t. []),
       de_pending = (\<lambda>w. []), de_setPending = (\<lambda>p w. w), de_created = (\<lambda>d. ret [record_i]),
       de_alternativeDids = ret [], de_findById = (\<lambda>i. ret (Some record_i)), de_save = (\<lambda>r. ret ()),
       de_publish = (\<lambda>i d. ret ()), de_trigger = (\<lambda>c. ret ()), de_signCredential = (\<lambda>opts vm. ret JNull),
       de_signDiPresentation = (\<lambda>i h v vm. ret JNull), de_signLdpPresentation = (\<lambda>i h v vm. ret JNull),
       de_v2Records = ret [], de_v1Records = ret [], de_deleteV2 = (\<lambda>i. ret ()), de_deleteV1 = (\<lambda>i. ret ()),
       de_formatData = (\<lambda>i. ret JNull), de_now = ret 0, de_claims = (\<lambda>k. ret None),
       de_validateSchema = (\<lambda>t j. ret ()), de_indexerByChain = (\<lambda>c. None), de_fetchText = (\<lambda>u. ret (Inl ''404'')),
       de_metaSchemaErrors = (\<lambda>j. None), de_digestJCS = (\<lambda>c a. Inr ''digest''), de_anchored = (\<lambda>d. ret None),
       de_anchorSession = (\<lambda>n d. ret ()), de_waitForDigest = (\<lambda>d. ret ()), de_schema = (\<lambda>i. throw (OtherError [])),
       de_ecosystem = (\<lambda>i. ret None), de_ecosystems = ret [], de_schemasOf = (\<lambda>i. ret []),
       de_participants = (\<lambda>f. ret []), de_resolveVtjsc = (\<lambda>n c. ret []), de_ecsSchemas = [],
       ac_createdSchemas = (\<lambda>i. ret []), ac_registerSchema = (\<lambda>n a c d i. ret (Inl [])),
       ac_tagSchema = (\<lambda>i j. ret ()), ac_saveAttestedResource = (\<lambda>v i. ret ()) \<rparr>"

lemma ex_did_calls_ok: "did_calls_ok K ops ex_did_env"
  by (simp add: did_calls_ok_def ex_did_env_def refines_if_def wp)

theorem agent_keeps_flow_contract_witness:
  "\<exists>w'. w' = fold (agent_step (deployed (agent_of (ex_host (\<lambda>_. None)) ''trigger'' ex_did_env) None) ex_boot)
       [AC_Flow (C_SendOR ex_onboarding), ex_revocation] (agent_world []) \<and>
     chained None (evs ''ii'' (events w')) (map_option state (flows (agent_env agent_options) w' ''ii''))"
  using agent_keeps_flow_contract [where H = "ex_host (\<lambda>_. None)" and trust = None and D = ex_did_env and
      url = "''trigger''" and w = "agent_world []" and b = ex_boot and i = "''ii''" and
      cs = "[AC_Flow (C_SendOR ex_onboarding), ex_revocation]", OF ex_host_ok ex_did_calls_ok _ _ HOL.refl]
  by (simp add: agent_world_empty_ok)

end
