(* ===== verification/CredentialTrust.thy ===== *)
theory CredentialTrust
  imports TrustProps
begin

text \<open>
  \<open>blockchain/AnonCredsTrustService.ts\<close>: which on-chain schema a credential type binds to, and whether a DID
  holds the Participant entry that a role on that schema asks for; and \<open>trustDecisionError\<close> of
  \<open>adminApi/AdminApiError.ts\<close>, which turns the outcome into an admin API error. The two caches of the
  service are part of the state.
\<close>

section \<open>The environment\<close>

record credential_schema_link =
  cl_credentialSchemaId :: int
  cl_ecosystemDid :: string

record derived_schema =
  dv_credentialSchemaId :: int
  dv_ecosystemDid :: string
  dv_jsonSchemaCredentialId :: string
  dv_anonCredsSchemaId :: string
  dv_issuerId :: "string option"

datatype anoncreds_ref = DefinitionRef string | SchemaRef string

record anoncreds_definition =
  ad_schemaId :: string
  ad_issuerId :: string

record requested_schema =
  rs_credentialSchemaId :: int
  rs_ecosystemDid :: string
  rs_jsonSchemaCredentialId :: string

text \<open>
  The chain id, the fetch of a JSON document, Credo's parser and verifier of credentials (whether the proof
  is valid, and the error it names), its AnonCreds registries (the local records with their
  \<open>relatedJsonSchemaCredentialId\<close> tag; a resolution is the reason it failed or the object and its metadata),
  and the indexer, which answers \<open>None\<close> for a 404.
\<close>

record 's trust_env =
  ct_did :: "string option"
  ct_chainId :: "string option"
  ct_skipOwnAuthorization :: bool
  ct_links :: "'s \<Rightarrow> (string \<times> credential_schema_link) list"
  ct_setLinks :: "(string \<times> credential_schema_link) list \<Rightarrow> 's \<Rightarrow> 's"
  ct_derivations :: "'s \<Rightarrow> (string \<times> derived_schema) list"
  ct_setDerivations :: "(string \<times> derived_schema) list \<Rightarrow> 's \<Rightarrow> 's"
  ct_fetchJson :: "string \<Rightarrow> ('s, err, json) comp"
  ct_parse :: "bool \<Rightarrow> json \<Rightarrow> err + json"
  ct_verify :: "bool \<Rightarrow> json \<Rightarrow> ('s, err, bool \<times> string option) comp"
  ct_schema :: "int \<Rightarrow> ('s, err, credential_schema_dto option) comp"
  ct_ecosystem :: "int \<Rightarrow> ('s, err, ecosystem_dto option) comp"
  ct_participants :: "participant_filter \<Rightarrow> ('s, err, participant_dto list) comp"
  ct_createdDefinitions :: "string \<Rightarrow> ('s, err, (json option \<times> anoncreds_definition) list) comp"
  ct_resolveDefinition :: "string \<Rightarrow> ('s, err, string + anoncreds_definition \<times> json) comp"
  ct_createdSchemas :: "string \<Rightarrow> ('s, err, json option list) comp"
  ct_resolveSchema :: "string \<Rightarrow> ('s, err, string + json) comp"

section \<open>Errors\<close>

definition notDerivable :: "string \<Rightarrow> err" where
  "notDerivable m = AnonCredsTrustError TR_NotDerivable m"

definition notAuthorized :: "string \<Rightarrow> err" where
  "notAuthorized m = AnonCredsTrustError TR_NotAuthorized m"

definition unavailable :: "string \<Rightarrow> err" where
  "unavailable m = AnonCredsTrustError TR_Unavailable m"

text \<open>
  \<open>${error}\<close>: the name of the class, which is \<open>Error\<close> unless the class sets another, and the message.
\<close>

fun error_name :: "err \<Rightarrow> string" where
  "error_name (AnonCredsTrustError r m) = ''AnonCredsTrustError''"
| "error_name (AdminApiError c st m vs) = ''AdminApiError''"
| "error_name e = ''Error''"

definition error_text :: "err \<Rightarrow> string" where
  "error_text e = error_name e @ (if error_message e = [] then [] else '': '' @ error_message e)"

datatype decision_subject = OfAgent | OfPeer

definition statusOfNotDerivable :: "admin_api_error_code \<Rightarrow> int" where
  "statusOfNotDerivable c = (if c = InvalidInput then 400 else if c = UnknownId then 404 else 409)"

definition trustDecisionError :: "err \<Rightarrow> decision_subject \<Rightarrow> admin_api_error_code option \<Rightarrow> err" where
  "trustDecisionError e subject notDerivableCode =
     (case e of
        AnonCredsTrustError r m \<Rightarrow>
          if r = TR_Unavailable then AdminApiError (admin_code_str ResolverUnavailable) 503 m []
          else
            let unauthorizedCode = (if subject = OfPeer then PeerNotAuthorized else NotAuthorized)
            in if r = TR_NotAuthorized then AdminApiError (admin_code_str unauthorizedCode) 409 m []
               else let code = withDefault notDerivableCode unauthorizedCode
                    in AdminApiError (admin_code_str code) (statusOfNotDerivable code) m []
      | _ \<Rightarrow> e)"

section \<open>Authorization\<close>

definition is_authorized :: "string \<Rightarrow> participant_role \<Rightarrow> int \<Rightarrow> participant_dto \<Rightarrow> bool" where
  "is_authorized did prole i p \<longleftrightarrow>
     pd_did p = Some did \<and> pd_role p = participant_role_str prole \<and> pd_schema_id p = i \<and>
     pd_participant_state p = Some ''ACTIVE''"

definition accreditation_query :: "string \<Rightarrow> participant_role \<Rightarrow> int \<Rightarrow> participant_filter" where
  "accreditation_query did prole i =
     \<lparr> pf_schemaId = Some (JsFin (of_int i)), pf_role = Some prole, pf_did = Some did,
       pf_participantState = Some ''ACTIVE'' \<rparr>"

definition assertAuthorized ::
  "'s trust_env \<Rightarrow> string \<Rightarrow> participant_role \<Rightarrow> int \<Rightarrow> ('s, err, unit) comp" where
  "assertAuthorized T did prole i =
     bnd (catch (ct_participants T (accreditation_query did prole i))
        (\<lambda>e. throw (unavailable (''the agent cannot read the Participant entries of \"'' @ did @
           ''\" for the CredentialSchema '' @ int_str i @ '': '' @ error_text e)))) (\<lambda>participants.
     guard (list_ex (is_authorized did prole i) participants)
       (notAuthorized (''\"'' @ did @ ''\" holds no active '' @ participant_role_str prole @
          '' Participant for the CredentialSchema '' @ int_str i)))"

definition assertOwnAuthorization ::
  "'s trust_env \<Rightarrow> participant_role \<Rightarrow> int \<Rightarrow> ('s, err, unit) comp" where
  "assertOwnAuthorization T prole i =
     (if \<not> truthy (ct_did T)
      then throw (unavailable ''the agent has no public DID, so it cannot check its own Participant entry'')
      else catch (assertAuthorized T (the (ct_did T)) prole i)
        (\<lambda>e. case e of
           AnonCredsTrustError r m \<Rightarrow>
             if \<not> ct_skipOwnAuthorization T \<or> r \<noteq> TR_NotAuthorized then throw e else ret ()
         | _ \<Rightarrow> throw e))"

text \<open>The loop runs over the distinct DIDs in their order of first occurrence.\<close>

fun first_occurrences :: "string list \<Rightarrow> string list \<Rightarrow> string list" where
  "first_occurrences seen [] = []"
| "first_occurrences seen (d # ds) =
     (if d \<in> set seen then first_occurrences seen ds else d # first_occurrences (d # seen) ds)"

fun check_dids ::
  "'s trust_env \<Rightarrow> participant_role \<Rightarrow> int \<Rightarrow> string list \<Rightarrow> ('s, err, string list \<times> string list) comp" where
  "check_dids T prole i [] = ret ([], [])"
| "check_dids T prole i (d # ds) =
     bnd (catch (bnd (assertAuthorized T d prole i) (\<lambda>_. ret None))
            (\<lambda>e. case e of AnonCredsTrustError r m \<Rightarrow> ret (Some r) | _ \<Rightarrow> throw e)) (\<lambda>failed.
     bnd (check_dids T prole i ds) (\<lambda>(unaccredited, unchecked).
     ret (case failed of
            None \<Rightarrow> (unaccredited, unchecked)
          | Some r \<Rightarrow> if r = TR_Unavailable then (unaccredited, d # unchecked)
                      else (d # unaccredited, unchecked))))"

definition findUnaccreditedDids ::
  "'s trust_env \<Rightarrow> string list \<Rightarrow> participant_role \<Rightarrow> int \<Rightarrow> ('s, err, string list \<times> string list) comp" where
  "findUnaccreditedDids T dids prole i = check_dids T prole i (first_occurrences [] dids)"

section \<open>The schema a VTJSC binds to\<close>

definition credential_schema_reference :: "string \<Rightarrow> (string \<times> string) option" where
  "credential_schema_reference r =
     (if take 11 r = ''vpr:verana:'' then vpr_schema_ref r else None)"

text \<open>\<open>subject?.jsonSchema?.$ref\<close>; \<open>match\<close> exists on strings only.\<close>

definition schema_reference_of :: "json \<Rightarrow> json option" where
  "schema_reference_of document =
     (let subject = (case member document ''credentialSubject'' of
            Some (JArr xs) \<Rightarrow> head_option xs | v \<Rightarrow> v)
      in case Option.bind subject (\<lambda>v. members v [''jsonSchema'', ''$ref'']) of
           Some JNull \<Rightarrow> None | r \<Rightarrow> r)"

text \<open>Reading the context of \<open>null\<close> throws, like a parser that refuses the document.\<close>

definition parsed_vtjsc :: "'s trust_env \<Rightarrow> json \<Rightarrow> err + bool \<times> json" where
  "parsed_vtjsc T document =
     (if document = JNull then Inl type_error
      else let v2 = isVcdm2Credential document
           in case ct_parse T v2 document of Inl e \<Rightarrow> Inl e | Inr credential \<Rightarrow> Inr (v2, credential))"

definition verifyVtjscProof :: "'s trust_env \<Rightarrow> string \<Rightarrow> json \<Rightarrow> ('s, err, unit) comp" where
  "verifyVtjscProof T url document =
     (case parsed_vtjsc T document of
        Inl e \<Rightarrow> throw (notDerivable (''the document at \"'' @ url @
          ''\" is no verifiable credential: '' @ error_text e))
      | Inr (v2, credential) \<Rightarrow>
          bnd (catch (ct_verify T v2 credential)
             (\<lambda>e. throw (case e of
                AnonCredsTrustError r m \<Rightarrow> e
              | _ \<Rightarrow> unavailable (''the agent cannot verify the proof of the VTJSC \"'' @ url @
                       ''\": '' @ error_text e)))) (\<lambda>(isValid, error).
          guard isValid (notDerivable (''the proof of the VTJSC \"'' @ url @ ''\" is invalid: '' @
            withDefault error ''the verification failed''))))"

definition requireFromIndexer :: "('s, err, 'a option) comp \<Rightarrow> string \<Rightarrow> ('s, err, 'a) comp" where
  "requireFromIndexer read describe =
     bnd (catch read (\<lambda>e. throw (unavailable (''the agent cannot read the '' @ describe @ '': '' @ error_text e))))
       (\<lambda>v. case v of None \<Rightarrow> throw (notDerivable (''the VPR holds no '' @ describe)) | Some x \<Rightarrow> ret x)"

text \<open>
  The link of a document that was fetched: its proof, its chain, its schema and its issuer. The number of
  the schema is read exactly; \<open>Number\<close> rounds one beyond 2^53. A \<open>$ref\<close> that is no text has no \<open>match\<close>.
\<close>

definition vtjsc_schema_number :: "'s trust_env \<Rightarrow> string \<Rightarrow> json \<Rightarrow> err + int" where
  "vtjsc_schema_number T url document =
     (let ref = schema_reference_of document
      in if ref \<noteq> None \<and> as_string ref = None then Inl type_error
         else case Option.bind (as_string ref) credential_schema_reference of
           None \<Rightarrow> Inl (notDerivable (''the VTJSC \"'' @ url @ ''\" names \"'' @
              withDefault (as_string ref) ''no'' @ ''\" in credentialSubject.jsonSchema.$ref, which is no '' @
              ''\"vpr:verana:<chain>:cs:<id>\" reference''))
         | Some (chain, n) \<Rightarrow>
             if \<not> truthy (ct_chainId T)
             then Inl (unavailable (''the agent runs on no chain, so it cannot read the CredentialSchema '' @
                    ''of the VTJSC \"'' @ url @ ''\"''))
             else if Some chain \<noteq> ct_chainId T
             then Inl (notDerivable (''the VTJSC \"'' @ url @ ''\" names the chain \"'' @ chain @
                    ''\", and the agent runs on \"'' @ the (ct_chainId T) @ ''\"''))
             else Inr (int (digits_value n)))"

definition schema_link :: "string \<Rightarrow> json \<Rightarrow> int \<Rightarrow> ecosystem_dto \<Rightarrow> err + credential_schema_link" where
  "schema_link url document i ecosystem =
     (case ed_did ecosystem of
        Some (c # cs) \<Rightarrow>
          let did = c # cs; issuer = text_or_id (member document ''issuer'')
          in if issuer \<noteq> Some (JStr did)
             then Inl (notDerivable (''the VTJSC \"'' @ url @ ''\" carries the issuer \"'' @
                    withDefault (map_option js_String issuer) ''undefined'' @
                    ''\", and the Ecosystem of the CredentialSchema '' @ int_str i @ '' is \"'' @ did @ ''\"''))
             else Inr \<lparr> cl_credentialSchemaId = i, cl_ecosystemDid = did \<rparr>
      | _ \<Rightarrow> Inl (notDerivable (''the Ecosystem of the CredentialSchema '' @ int_str i @ '' carries no DID'')))"

definition link_of_document :: "'s trust_env \<Rightarrow> string \<Rightarrow> json \<Rightarrow> ('s, err, credential_schema_link) comp" where
  "link_of_document T url document =
     sqn (verifyVtjscProof T url document)
    (bnd (raise (\<lambda>_. vtjsc_schema_number T url document)) (\<lambda>i.
     let described = ''CredentialSchema '' @ int_str i
     in bnd (requireFromIndexer (ct_schema T i)
          (described @ '', which the VTJSC \"'' @ url @ ''\" names'')) (\<lambda>schema.
        bnd (requireFromIndexer (ct_ecosystem T (sd_ecosystem_id schema))
          (''Ecosystem '' @ int_str (sd_ecosystem_id schema) @ '', which the '' @ described @ '' names''))
       (\<lambda>ecosystem. raise (\<lambda>_. schema_link url document i ecosystem)))))"

definition resolveCredentialSchemaLink ::
  "'s trust_env \<Rightarrow> string \<Rightarrow> ('s, err, credential_schema_link) comp" where
  "resolveCredentialSchemaLink T url =
     bnd (gets (\<lambda>s. map_of (ct_links T s) url)) (\<lambda>cached. case cached of
        Some link \<Rightarrow> ret link
      | None \<Rightarrow>
          bnd (catch (ct_fetchJson T url)
             (\<lambda>e. throw (unavailable (''the agent cannot read the VTJSC \"'' @ url @ ''\": '' @ error_text e))))
            (\<lambda>document.
          bnd (link_of_document T url document) (\<lambda>link.
          sqn (modify (\<lambda>s. ct_setLinks T (jsmap_set url link (ct_links T s)) s)) (ret link))))"

section \<open>The schema an AnonCreds object binds to\<close>

record resolved_object =
  ro_jsonSchemaCredentialId :: string
  ro_anonCredsSchemaId :: string
  ro_issuerId :: "string option"

definition relatedJsonSchemaCredentialId_tag :: string where
  "relatedJsonSchemaCredentialId_tag = ''relatedJsonSchemaCredentialId''"

definition relatedJsonSchemaCredentialIdOf :: "json \<Rightarrow> string option" where
  "relatedJsonSchemaCredentialIdOf metadata =
     (case member metadata relatedJsonSchemaCredentialId_tag of
        Some (JStr s) \<Rightarrow> if s \<noteq> [] then Some s else None | _ \<Rightarrow> None)"

definition text_tag :: "json option \<Rightarrow> string option" where
  "text_tag t = (case t of Some (JStr s) \<Rightarrow> if s \<noteq> [] then Some s else None | _ \<Rightarrow> None)"

fun resolveAnonCredsObject :: "'s trust_env \<Rightarrow> anoncreds_ref \<Rightarrow> ('s, err, resolved_object) comp" where
  "resolveAnonCredsObject T (DefinitionRef i) =
     bnd (ct_createdDefinitions T i) (\<lambda>records.
     case Option.bind (head_option records) (\<lambda>(t, d). map_option (\<lambda>j. (j, d)) (text_tag t)) of
        Some (j, d) \<Rightarrow> ret \<lparr> ro_jsonSchemaCredentialId = j, ro_anonCredsSchemaId = ad_schemaId d,
                             ro_issuerId = Some (ad_issuerId d) \<rparr>
      | None \<Rightarrow>
          bnd (ct_resolveDefinition T i) (\<lambda>result. case result of
             Inl reason \<Rightarrow> throw (unavailable (''the agent cannot resolve the credential definition \"'' @ i @
                             ''\": '' @ reason))
           | Inr (d, metadata) \<Rightarrow>
               (case relatedJsonSchemaCredentialIdOf metadata of
                  None \<Rightarrow> throw (notDerivable (''the credential definition \"'' @ i @ ''\" carries no '' @
                            ''relatedJsonSchemaCredentialId, so it binds to no CredentialSchema''))
                | Some j \<Rightarrow> ret \<lparr> ro_jsonSchemaCredentialId = j, ro_anonCredsSchemaId = ad_schemaId d,
                                  ro_issuerId = Some (ad_issuerId d) \<rparr>)))"
| "resolveAnonCredsObject T (SchemaRef i) =
     bnd (ct_createdSchemas T i) (\<lambda>records.
     case Option.bind (head_option records) text_tag of
        Some j \<Rightarrow> ret \<lparr> ro_jsonSchemaCredentialId = j, ro_anonCredsSchemaId = i, ro_issuerId = None \<rparr>
      | None \<Rightarrow>
          bnd (ct_resolveSchema T i) (\<lambda>result. case result of
             Inl reason \<Rightarrow> throw (unavailable (''the agent cannot resolve the AnonCreds schema \"'' @ i @
                             ''\": '' @ reason))
           | Inr metadata \<Rightarrow>
               (case relatedJsonSchemaCredentialIdOf metadata of
                  None \<Rightarrow> throw (notDerivable (''the AnonCreds schema \"'' @ i @ ''\" carries no '' @
                            ''relatedJsonSchemaCredentialId, so it binds to no CredentialSchema''))
                | Some j \<Rightarrow> ret \<lparr> ro_jsonSchemaCredentialId = j, ro_anonCredsSchemaId = i,
                                  ro_issuerId = None \<rparr>)))"

fun derivation_key :: "anoncreds_ref \<Rightarrow> string" where
  "derivation_key (DefinitionRef i) = ''credentialDefinition:'' @ i"
| "derivation_key (SchemaRef i) = ''schema:'' @ i"

definition deriveCredentialSchema :: "'s trust_env \<Rightarrow> anoncreds_ref \<Rightarrow> ('s, err, derived_schema) comp" where
  "deriveCredentialSchema T ref =
     bnd (gets (\<lambda>s. map_of (ct_derivations T s) (derivation_key ref))) (\<lambda>cached. case cached of
        Some d \<Rightarrow> ret d
      | None \<Rightarrow>
          bnd (resolveAnonCredsObject T ref) (\<lambda>ob.
          bnd (resolveCredentialSchemaLink T (ro_jsonSchemaCredentialId ob)) (\<lambda>link.
          let d = \<lparr> dv_credentialSchemaId = cl_credentialSchemaId link, dv_ecosystemDid = cl_ecosystemDid link,
                    dv_jsonSchemaCredentialId = ro_jsonSchemaCredentialId ob,
                    dv_anonCredsSchemaId = ro_anonCredsSchemaId ob, dv_issuerId = ro_issuerId ob \<rparr>
          in sqn (modify (\<lambda>s. ct_setDerivations T
                (jsmap_set (derivation_key ref) d (ct_derivations T s)) s)) (ret d))))"

definition toRequestedCredentialSchema :: "derived_schema \<Rightarrow> requested_schema" where
  "toRequestedCredentialSchema d =
     \<lparr> rs_credentialSchemaId = dv_credentialSchemaId d, rs_ecosystemDid = dv_ecosystemDid d,
       rs_jsonSchemaCredentialId = dv_jsonSchemaCredentialId d \<rparr>"

section \<open>What an answer of the service rests on\<close>

text \<open>
  The document behind a link was fetched from its URL, its proof was verified, it names a schema of this
  chain, and its issuer is the DID of the ecosystem that owns the schema according to the indexer. Each
  answer is one the call has given in some state.
\<close>

definition bound_link :: "'s trust_env \<Rightarrow> string \<Rightarrow> credential_schema_link \<Rightarrow> bool" where
  "bound_link T url link \<longleftrightarrow>
     (\<exists>document v2 credential note ref chain n schema ecosystem s1 s2 s3 s4.
        fst (ct_fetchJson T url s1) = Inr document \<and> parsed_vtjsc T document = Inr (v2, credential) \<and>
        fst (ct_verify T v2 credential s2) = Inr (True, note) \<and>
        schema_reference_of document = Some (JStr ref) \<and>
        credential_schema_reference ref = Some (chain, n) \<and> ct_chainId T = Some chain \<and>
        cl_credentialSchemaId link = int (digits_value n) \<and>
        fst (ct_schema T (int (digits_value n)) s3) = Inr (Some schema) \<and>
        fst (ct_ecosystem T (sd_ecosystem_id schema) s4) = Inr (Some ecosystem) \<and>
        ed_did ecosystem = Some (cl_ecosystemDid link) \<and>
        text_or_id (member document ''issuer'') = Some (JStr (cl_ecosystemDid link)))"

text \<open>The object names the VTJSC and its issuer, in a local record or in what its registry resolved.\<close>

fun named_object :: "'s trust_env \<Rightarrow> anoncreds_ref \<Rightarrow> resolved_object \<Rightarrow> bool" where
  "named_object T (DefinitionRef i) ob =
     (\<exists>d s. ro_anonCredsSchemaId ob = ad_schemaId d \<and> ro_issuerId ob = Some (ad_issuerId d) \<and>
        ((\<exists>ds. fst (ct_createdDefinitions T i s) =
             Inr ((Some (JStr (ro_jsonSchemaCredentialId ob)), d) # ds)) \<or>
         (\<exists>m. fst (ct_resolveDefinition T i s) = Inr (Inr (d, m)) \<and>
             relatedJsonSchemaCredentialIdOf m = Some (ro_jsonSchemaCredentialId ob))))"
| "named_object T (SchemaRef i) ob =
     (\<exists>s. ro_anonCredsSchemaId ob = i \<and> ro_issuerId ob = None \<and>
        ((\<exists>ts. fst (ct_createdSchemas T i s) = Inr (Some (JStr (ro_jsonSchemaCredentialId ob)) # ts)) \<or>
         (\<exists>m. fst (ct_resolveSchema T i s) = Inr (Inr m) \<and>
             relatedJsonSchemaCredentialIdOf m = Some (ro_jsonSchemaCredentialId ob))))"

definition bound_schema :: "'s trust_env \<Rightarrow> anoncreds_ref \<Rightarrow> derived_schema \<Rightarrow> bool" where
  "bound_schema T ref d \<longleftrightarrow>
     named_object T ref \<lparr> ro_jsonSchemaCredentialId = dv_jsonSchemaCredentialId d,
       ro_anonCredsSchemaId = dv_anonCredsSchemaId d, ro_issuerId = dv_issuerId d \<rparr> \<and>
     bound_link T (dv_jsonSchemaCredentialId d)
       \<lparr> cl_credentialSchemaId = dv_credentialSchemaId d, cl_ecosystemDid = dv_ecosystemDid d \<rparr>"

text \<open>
  What the indexer answered when it was asked for the active entries of a DID in a role on a schema: it
  listed one, it listed none, or the read failed.
\<close>

definition vouched :: "'s trust_env \<Rightarrow> string \<Rightarrow> participant_role \<Rightarrow> int \<Rightarrow> bool" where
  "vouched T did prole i \<longleftrightarrow> (\<exists>ps s. fst (ct_participants T (accreditation_query did prole i) s) = Inr ps \<and>
     list_ex (is_authorized did prole i) ps)"

definition denied :: "'s trust_env \<Rightarrow> string \<Rightarrow> participant_role \<Rightarrow> int \<Rightarrow> bool" where
  "denied T did prole i \<longleftrightarrow> (\<exists>ps s. fst (ct_participants T (accreditation_query did prole i) s) = Inr ps \<and>
     \<not> list_ex (is_authorized did prole i) ps)"

definition unread :: "'s trust_env \<Rightarrow> string \<Rightarrow> participant_role \<Rightarrow> int \<Rightarrow> bool" where
  "unread T did prole i \<longleftrightarrow> (\<exists>e s. fst (ct_participants T (accreditation_query did prole i) s) = Inl e)"

text \<open>The caches hold such answers only, and a write of one cache is read back and leaves the other alone.\<close>

definition caches_ok :: "'s trust_env \<Rightarrow> 's \<Rightarrow> bool" where
  "caches_ok T s \<longleftrightarrow> (\<forall>url link. map_of (ct_links T s) url = Some link \<longrightarrow> bound_link T url link) \<and>
     (\<forall>ref d. map_of (ct_derivations T s) (derivation_key ref) = Some d \<longrightarrow> bound_schema T ref d)"

definition cache_laws :: "'s trust_env \<Rightarrow> ('s \<Rightarrow> 'v) \<Rightarrow> bool" where
  "cache_laws T v \<longleftrightarrow>
     (\<forall>m s. ct_links T (ct_setLinks T m s) = m \<and> ct_derivations T (ct_setLinks T m s) = ct_derivations T s \<and>
        v (ct_setLinks T m s) = v s) \<and>
     (\<forall>m s. ct_derivations T (ct_setDerivations T m s) = m \<and> ct_links T (ct_setDerivations T m s) = ct_links T s \<and>
        v (ct_setDerivations T m s) = v s)"

text \<open>
  \<open>trust_calls T v\<close>: the calls of the service leave the view \<open>v\<close> alone, and the other checks that may run
  while one is awaited add to the caches only what they found.
\<close>

definition settled :: "'s trust_env \<Rightarrow> ('s \<Rightarrow> 'v) \<Rightarrow> ('s, err, 'a) comp \<Rightarrow> bool" where
  "settled T v m \<longleftrightarrow> (\<forall>x. keeps (\<lambda>s. caches_ok T s \<and> v s = x) m)"

definition trust_calls :: "'s trust_env \<Rightarrow> ('s \<Rightarrow> 'v) \<Rightarrow> bool" where
  "trust_calls T v \<longleftrightarrow> cache_laws T v \<and>
     (\<forall>u. settled T v (ct_fetchJson T u)) \<and> (\<forall>b c. settled T v (ct_verify T b c)) \<and>
     (\<forall>i. settled T v (ct_schema T i)) \<and> (\<forall>i. settled T v (ct_ecosystem T i)) \<and>
     (\<forall>f. settled T v (ct_participants T f)) \<and> (\<forall>i. settled T v (ct_createdDefinitions T i)) \<and>
     (\<forall>i. settled T v (ct_resolveDefinition T i)) \<and> (\<forall>i. settled T v (ct_createdSchemas T i)) \<and>
     (\<forall>i. settled T v (ct_resolveSchema T i))"

lemma trust_callsD:
  assumes "trust_calls T v"
  shows "settled T v (ct_fetchJson T u)" "settled T v (ct_verify T b c)" "settled T v (ct_schema T i)"
    "settled T v (ct_ecosystem T i)" "settled T v (ct_participants T f)" "settled T v (ct_createdDefinitions T u)"
    "settled T v (ct_resolveDefinition T u)" "settled T v (ct_createdSchemas T u)"
    "settled T v (ct_resolveSchema T u)" "cache_laws T v"
  using assms unfolding trust_calls_def by blast+

section \<open>What the operations give\<close>

text \<open>
  \<open>gives T v Q E m\<close>: from caches that are in order, \<open>m\<close> returns a value with \<open>Q\<close> or throws an error with
  \<open>E\<close>; either way the caches stay in order and the view stays the same.
\<close>

definition gives ::
  "'s trust_env \<Rightarrow> ('s \<Rightarrow> 'v) \<Rightarrow> ('a \<Rightarrow> bool) \<Rightarrow> (err \<Rightarrow> bool) \<Rightarrow> ('s, err, 'a) comp \<Rightarrow> bool" where
  "gives T v Q E m \<longleftrightarrow> (\<forall>s. caches_ok T s \<longrightarrow> post m (\<lambda>x t. Q x \<and> caches_ok T t \<and> v t = v s)
     (\<lambda>e t. E e \<and> caches_ok T t \<and> v t = v s) s)"

named_theorems gives_rules

lemma gives_ret [gives_rules]: "Q x \<Longrightarrow> gives T v Q E (ret x)"
  and gives_throw [gives_rules]: "E e \<Longrightarrow> gives T v Q E (throw e)"
  by (simp_all add: gives_def wp)

lemma gives_mono:
  assumes "gives T v Q E m" and "\<And>x. Q x \<Longrightarrow> Q' x" and "\<And>e. E e \<Longrightarrow> E' e"
  shows "gives T v Q' E' m"
  using assms by (auto simp: gives_def elim!: post_mono)

lemma gives_bnd:
  assumes "gives T v P E m" and "\<And>x. P x \<Longrightarrow> gives T v Q E (f x)"
  shows "gives T v Q E (bnd m f)"
  using assms(1) by (auto simp: gives_def wp elim!: post_mono dest!: assms(2) [unfolded gives_def, rule_format])

lemma gives_catch:
  assumes "gives T v Q F m" and "\<And>e. F e \<Longrightarrow> gives T v Q E (h e)"
  shows "gives T v Q E (catch m h)"
  using assms(1) by (auto simp: gives_def wp elim!: post_mono dest!: assms(2) [unfolded gives_def, rule_format])

lemma gives_sqn: "gives T v P E m \<Longrightarrow> (\<And>x. P x \<Longrightarrow> gives T v Q E k) \<Longrightarrow> gives T v Q E (sqn m k)"
  unfolding sqn_def by (rule gives_bnd)

lemma gives_outcome:
  "gives T v Q F m \<Longrightarrow> gives T v (\<lambda>r. case r of Inl e \<Rightarrow> F e | Inr x \<Rightarrow> Q x) E (outcome m)"
  by (auto simp: gives_def wp elim!: post_mono)

lemma gives_guard: "(b \<Longrightarrow> Q ()) \<Longrightarrow> (\<not> b \<Longrightarrow> E e) \<Longrightarrow> gives T v Q E (guard b e)"
  by (simp add: guard_def gives_rules)

lemma gives_answer:
  assumes "settled T v m"
  shows "gives T v (\<lambda>x. \<exists>s. fst (m s) = Inr x) (\<lambda>e. \<exists>s. fst (m s) = Inl e) m"
  unfolding gives_def
proof (intro allI impI)
  fix s assume "caches_ok T s"
  with assms have "post m (\<lambda>_ t. caches_ok T t \<and> v t = v s) (\<lambda>_ t. caches_ok T t \<and> v t = v s) s"
    by (auto simp: settled_def keeps_def)
  then show "post m (\<lambda>x t. (\<exists>s. fst (m s) = Inr x) \<and> caches_ok T t \<and> v t = v s)
      (\<lambda>e t. (\<exists>s. fst (m s) = Inl e) \<and> caches_ok T t \<and> v t = v s) s"
    by (auto simp: post_def split: prod.splits sum.splits intro: exI [of _ s])
qed

lemma gives_call: "settled T v m \<Longrightarrow> gives T v (\<lambda>x. \<exists>s. fst (m s) = Inr x) (\<lambda>_. True) m"
  by (rule gives_mono [OF gives_answer]) simp_all

lemma gives_any: "settled T v m \<Longrightarrow> gives T v (\<lambda>_. True) (\<lambda>_. True) m"
  by (rule gives_mono [OF gives_answer]) simp_all

lemma gives_cached:
  assumes "\<And>s. caches_ok T s \<Longrightarrow> P (f s)" and "\<And>x. P x \<Longrightarrow> gives T v Q E (k x)"
  shows "gives T v Q E (bnd (gets f) k)"
  using assms by (auto simp: gives_def wp)

lemma gives_modify:
  assumes "\<And>s. caches_ok T s \<Longrightarrow> caches_ok T (f s) \<and> v (f s) = v s" and "Q ()"
  shows "gives T v Q E (modify f)"
  using assms by (simp add: gives_def wp)

text \<open>A check of one DID, and of a list of them.\<close>

definition trust_reason :: "err \<Rightarrow> trust_error_reason option" where
  "trust_reason e = (case e of AnonCredsTrustError r m \<Rightarrow> Some r | _ \<Rightarrow> None)"

lemma trust_reason_simps [simp]:
  "trust_reason (notDerivable m) = Some TR_NotDerivable" "trust_reason (notAuthorized m) = Some TR_NotAuthorized"
  "trust_reason (unavailable m) = Some TR_Unavailable"
  by (simp_all add: trust_reason_def notDerivable_def notAuthorized_def unavailable_def)

lemma post_assertAuthorized:
  "post (assertAuthorized T did prole i) (\<lambda>_ _. vouched T did prole i)
    (\<lambda>e _. trust_reason e = Some TR_NotAuthorized \<and> denied T did prole i \<or>
      trust_reason e = Some TR_Unavailable \<and> unread T did prole i) s"
proof -
  let ?m = "ct_participants T (accreditation_query did prole i)"
  have "post ?m (\<lambda>ps _. fst (?m s) = Inr ps) (\<lambda>e _. fst (?m s) = Inl e) s"
    by (auto simp: post_def split: prod.split sum.split)
  then show ?thesis
    unfolding assertAuthorized_def post_bnd post_catch
    by (rule post_mono) (auto simp: wp vouched_def denied_def unread_def)
qed

definition checked ::
  "'s trust_env \<Rightarrow> participant_role \<Rightarrow> int \<Rightarrow> string list \<Rightarrow> string list \<times> string list \<Rightarrow> bool" where
  "checked T prole i dids r \<longleftrightarrow> (case r of (unaccredited, unchecked) \<Rightarrow>
     set unaccredited \<union> set unchecked \<subseteq> set dids \<and> distinct (unaccredited @ unchecked) \<and>
     (\<forall>d \<in> set dids. if d \<in> set unaccredited then denied T d prole i
        else if d \<in> set unchecked then unread T d prole i else vouched T d prole i))"

lemma set_first_occurrences: "set (first_occurrences seen ds) = set ds - set seen"
  by (induction seen ds rule: first_occurrences.induct) auto

lemma distinct_first_occurrences: "distinct (first_occurrences seen ds)"
  by (induction seen ds rule: first_occurrences.induct) (auto simp: set_first_occurrences)

lemma post_check_dids:
  "distinct ds \<Longrightarrow> post (check_dids T prole i ds) (\<lambda>r _. checked T prole i ds r) (\<lambda>_ _. False) s"
proof (induction ds arbitrary: s)
  case Nil
  then show ?case by (simp add: wp checked_def)
next
  case (Cons d ds s)
  let ?P = "\<lambda>failed. case failed of None \<Rightarrow> vouched T d prole i
    | Some r \<Rightarrow> if r = TR_Unavailable then unread T d prole i else denied T d prole i"
  have "post (catch (bnd (assertAuthorized T d prole i) (\<lambda>_. ret None))
      (\<lambda>e. case e of AnonCredsTrustError r m \<Rightarrow> ret (Some r) | _ \<Rightarrow> throw e)) (\<lambda>x _. ?P x) (\<lambda>_ _. False) s"
    unfolding post_catch post_bnd
    by (rule post_mono [OF post_assertAuthorized]) (auto simp: wp trust_reason_def split: err.splits)
  then show ?case
    unfolding check_dids.simps post_bnd
  proof (rule post_mono)
    fix failed t assume failed: "?P failed"
    show "post (check_dids T prole i ds) (\<lambda>r. post (case r of (un, unk) \<Rightarrow>
       ret (case failed of None \<Rightarrow> (un, unk)
            | Some r \<Rightarrow> if r = TR_Unavailable then (un, d # unk) else (d # un, unk)))
       (\<lambda>r _. checked T prole i (d # ds) r) (\<lambda>_ _. False)) (\<lambda>_ _. False) t"
      by (rule post_mono [OF Cons.IH])
        (use failed Cons.prems in \<open>auto simp: checked_def wp split: option.splits if_splits\<close>)
  qed simp
qed

lemma settled_check_dids:
  assumes "trust_calls T v"
  shows "settled T v (check_dids T prole i ds)"
proof -
  have "settled T v (assertAuthorized T d prole i)" for d
    using trust_callsD(5) [OF assms] unfolding settled_def assertAuthorized_def by (auto intro!: keeps_rules)
  then show ?thesis
    unfolding settled_def by (induction ds) (auto intro!: keeps_rules split: err.split prod.split)
qed

lemma gives_post:
  assumes "\<And>s. post m (\<lambda>x _. Q x) (\<lambda>e _. E e) s" and "settled T v m"
  shows "gives T v Q E m"
  using assms by (auto simp: gives_def settled_def keeps_def post_conj)

lemma gives_findUnaccredited:
  assumes "trust_calls T v"
  shows "gives T v (checked T prole i dids) (\<lambda>_. False) (findUnaccreditedDids T dids prole i)"
  unfolding findUnaccreditedDids_def
  by (rule gives_mono [OF gives_post [OF post_check_dids [OF distinct_first_occurrences] settled_check_dids [OF assms]]])
    (simp_all add: checked_def set_first_occurrences split: prod.splits)

text \<open>A link, and the schema of an object.\<close>

lemma gives_requireFromIndexer:
  assumes "settled T v m"
  shows "gives T v (\<lambda>x. \<exists>s. fst (m s) = Inr (Some x)) (\<lambda>_. True) (requireFromIndexer m about)"
  unfolding requireFromIndexer_def
  by (rule gives_bnd [OF gives_catch [OF gives_answer [OF assms]]])
    (auto intro!: gives_rules split: option.split)

lemma gives_verifyVtjscProof:
  assumes "trust_calls T v"
  shows "gives T v (\<lambda>_. \<exists>v2 c note s. parsed_vtjsc T document = Inr (v2, c) \<and> fst (ct_verify T v2 c s) = Inr (True, note))
    (\<lambda>_. True) (verifyVtjscProof T url document)"
proof (cases "parsed_vtjsc T document")
  case (Inr p)
  show ?thesis
    unfolding verifyVtjscProof_def Inr sum.case case_prod_beta
    by (rule gives_bnd [OF gives_catch [OF gives_answer [OF trust_callsD(2) [OF assms]]]])
      (auto intro!: gives_rules gives_guard simp: Inr, metis prod.collapse)
qed (simp add: verifyVtjscProof_def gives_rules)

lemma gives_raise: "(\<And>x. r = Inr x \<Longrightarrow> Q x) \<Longrightarrow> (\<And>e. r = Inl e \<Longrightarrow> E e) \<Longrightarrow> gives T v Q E (raise (\<lambda>_. r))"
  by (cases r) (simp_all add: gives_def wp)

lemma vtjsc_schema_numberD:
  assumes "vtjsc_schema_number T url document = Inr i"
  shows "\<exists>ref chain n. schema_reference_of document = Some (JStr ref) \<and>
    credential_schema_reference ref = Some (chain, n) \<and> ct_chainId T = Some chain \<and> i = int (digits_value n)"
proof -
  have "\<exists>ref. schema_reference_of document = Some (JStr ref) \<and> as_string (schema_reference_of document) = Some ref"
    if "as_string (schema_reference_of document) \<noteq> None"
    using that by (cases "schema_reference_of document" rule: as_string.cases) auto
  then show ?thesis
    using assms by (auto simp: vtjsc_schema_number_def Let_def split: if_splits option.splits)
qed

lemma schema_linkD:
  "schema_link url document i ecosystem = Inr link \<Longrightarrow> ed_did ecosystem = Some (cl_ecosystemDid link) \<and>
     cl_credentialSchemaId link = i \<and> text_or_id (member document ''issuer'') = Some (JStr (cl_ecosystemDid link))"
  by (auto simp: schema_link_def Let_def split: option.splits list.splits if_splits)

lemma gives_link_of_document:
  assumes calls: "trust_calls T v" and "fst (ct_fetchJson T url s1) = Inr document"
  shows "gives T v (bound_link T url) (\<lambda>_. True) (link_of_document T url document)"
  unfolding link_of_document_def Let_def
  apply (rule gives_sqn [OF gives_verifyVtjscProof [OF calls]])
  apply (rule gives_bnd [where P = "\<lambda>i. vtjsc_schema_number T url document = Inr i"], rule gives_raise, simp, simp)
  apply (rule gives_bnd [OF gives_requireFromIndexer [OF trust_callsD(3) [OF calls]]])
  apply (rule gives_bnd [OF gives_requireFromIndexer [OF trust_callsD(4) [OF calls]]])
  apply (rule gives_raise)
  subgoal for u i schema ecosystem link
    using assms(2) by (auto simp: bound_link_def dest!: vtjsc_schema_numberD schema_linkD) blast
  by simp

lemma cached_link:
  "trust_calls T v \<Longrightarrow> bound_link T url link \<Longrightarrow> caches_ok T s \<Longrightarrow>
     caches_ok T (ct_setLinks T (jsmap_set url link (ct_links T s)) s) \<and>
     v (ct_setLinks T (jsmap_set url link (ct_links T s)) s) = v s"
  by (auto simp: trust_calls_def cache_laws_def caches_ok_def)

lemma gives_resolveLink:
  assumes calls: "trust_calls T v"
  shows "gives T v (bound_link T url) (\<lambda>_. True) (resolveCredentialSchemaLink T url)"
  unfolding resolveCredentialSchemaLink_def
proof (rule gives_cached [where P = "\<lambda>c. \<forall>link. c = Some link \<longrightarrow> bound_link T url link"], goal_cases)
  case (1 s)
  then show ?case by (simp add: caches_ok_def)
next
  case (2 c)
  show ?case
  proof (cases c)
    case None
    have "gives T v (bound_link T url) (\<lambda>_. True)
        (bnd (link_of_document T url document) (\<lambda>link.
         sqn (modify (\<lambda>s. ct_setLinks T (jsmap_set url link (ct_links T s)) s)) (ret link)))"
      if "\<exists>s. fst (ct_fetchJson T url s) = Inr document" for document
      using that by (auto intro!: gives_bnd [OF gives_link_of_document [OF calls]] gives_ret
        gives_sqn [OF gives_modify [OF cached_link [OF calls]]])
    then show ?thesis
      by (auto simp: None intro!: gives_bnd [OF gives_catch [OF gives_answer [OF trust_callsD(1) [OF calls]]]]
        gives_throw)
  qed (use 2 in \<open>simp add: gives_ret\<close>)
qed

lemma head_option_Some: "head_option xs = Some x \<Longrightarrow> \<exists>ys. xs = x # ys"
  by (cases xs) (auto simp: head_option_def)

lemma text_tag_Some: "text_tag t = Some j \<Longrightarrow> t = Some (JStr j)"
  by (auto simp: text_tag_def split: option.splits json.splits if_splits)

lemma gives_resolveObject:
  assumes calls: "trust_calls T v"
  shows "gives T v (named_object T ref) (\<lambda>_. True) (resolveAnonCredsObject T ref)"
proof (cases ref)
  case (DefinitionRef i)
  show ?thesis
    unfolding DefinitionRef resolveAnonCredsObject.simps
    by (rule gives_bnd [OF gives_call [OF trust_callsD(6) [OF calls]]])
      (auto intro!: gives_rules gives_bnd [OF gives_call [OF trust_callsD(7) [OF calls]]]
        split: option.split sum.split dest!: head_option_Some text_tag_Some simp: bind_eq_Some_conv; blast)
next
  case (SchemaRef i)
  show ?thesis
    unfolding SchemaRef resolveAnonCredsObject.simps
    by (rule gives_bnd [OF gives_call [OF trust_callsD(8) [OF calls]]])
      (auto intro!: gives_rules gives_bnd [OF gives_call [OF trust_callsD(9) [OF calls]]]
        split: option.split sum.split dest!: head_option_Some text_tag_Some simp: bind_eq_Some_conv; blast)
qed

lemma derivation_key_inject: "derivation_key a = derivation_key b \<Longrightarrow> a = b"
  by (cases a; cases b) simp_all

lemma cached_derivation:
  "trust_calls T v \<Longrightarrow> bound_schema T ref d \<Longrightarrow> caches_ok T s \<Longrightarrow>
     caches_ok T (ct_setDerivations T (jsmap_set (derivation_key ref) d (ct_derivations T s)) s) \<and>
     v (ct_setDerivations T (jsmap_set (derivation_key ref) d (ct_derivations T s)) s) = v s"
  by (auto simp: trust_calls_def cache_laws_def caches_ok_def dest!: derivation_key_inject)

lemma bound_schemaI:
  "named_object T ref ob \<Longrightarrow> bound_link T (ro_jsonSchemaCredentialId ob) link \<Longrightarrow>
     bound_schema T ref \<lparr> dv_credentialSchemaId = cl_credentialSchemaId link, dv_ecosystemDid = cl_ecosystemDid link,
       dv_jsonSchemaCredentialId = ro_jsonSchemaCredentialId ob, dv_anonCredsSchemaId = ro_anonCredsSchemaId ob,
       dv_issuerId = ro_issuerId ob \<rparr>"
  by (cases ob; cases link) (simp add: bound_schema_def)

lemma gives_derive:
  assumes calls: "trust_calls T v"
  shows "gives T v (bound_schema T ref) (\<lambda>_. True) (deriveCredentialSchema T ref)"
  unfolding deriveCredentialSchema_def
proof (rule gives_cached [where P = "\<lambda>c. \<forall>d. c = Some d \<longrightarrow> bound_schema T ref d"], goal_cases)
  case (1 s)
  then show ?case by (simp add: caches_ok_def)
next
  case (2 c)
  show ?case
  proof (cases c)
    case None
    show ?thesis
      unfolding None option.case Let_def
      by (rule gives_bnd [OF gives_resolveObject [OF calls]], rule gives_bnd [OF gives_resolveLink [OF calls]],
          rule gives_sqn [OF gives_modify [OF cached_derivation [OF calls]]])
        (auto intro!: gives_ret bound_schemaI)
  qed (use 2 in \<open>simp add: gives_ret\<close>)
qed

end
