(* ===== verification/PresentationTrust.thy ===== *)
theory PresentationTrust
  imports CredentialTrust AgentExamples
begin

text \<open>
  The trust decision on a presentation (\<open>events/BaseMessageEvents.ts\<close>, from \<open>registerAnonCredsTrustDecision\<close> on):
  the middleware that runs after Credo has processed a presentation, what it checks for a verifier, how it
  ends the exchange when a check fails and when it acknowledges the presentation.
\<close>

section \<open>The exchange\<close>

text \<open>
  A proof exchange record; its role and state are texts of Credo. Of its metadata the code reads the schemas the
  request asked for, by group in the order \<open>Object.entries\<close> gives them, and the acknowledgement policy.
\<close>

datatype requested_metadata = NoSchemas | SchemaIds "int list" | RequestedSchemas "(string \<times> requested_schema) list"

record proof_record =
  pr_id :: string
  pr_threadId :: string
  pr_parentThreadId :: "string option"
  pr_role :: string
  pr_state :: string
  pr_protocolVersion :: string
  pr_isVerified :: "bool option"
  pr_errorMessage :: "string option"
  pr_requestedSchemas :: requested_metadata
  pr_autoAccept :: "bool option"

text \<open>
  An AnonCreds proof: the credential definition of each sub-proof, and for each kind of answer the groups it
  answers with the index of their sub-proof. A member that is absent is the empty list.
\<close>

record anoncreds_proof =
  ap_identifiers :: "string option list"
  ap_revealed_attrs :: "(string \<times> int option) list"
  ap_revealed_attr_groups :: "(string \<times> int option) list"
  ap_unrevealed_attrs :: "(string \<times> int option) list"
  ap_predicates :: "(string \<times> int option) list"


record proof_report =
  rp_code :: string
  rp_en :: string
  rp_threadId :: string
  rp_parentThreadId :: "string option"

text \<open>
  Credo's message type, role and states, its proofs API (the record of a thread and connection, the AnonCreds part of its presentation, the
  acknowledgement), its proof protocols by version and the sending of a message over a connection.
\<close>

record 's proof_env =
  pv_trust :: "'s trust_env"
  pv_presentationType :: string
  pv_verifierRole :: string
  pv_presentationReceived :: string
  pv_abandoned :: string
  pv_getByThread :: "string \<Rightarrow> string \<Rightarrow> ('s, err, proof_record) comp"
  pv_presentation :: "string \<Rightarrow> ('s, err, anoncreds_proof option) comp"
  pv_acceptPresentation :: "string \<Rightarrow> ('s, err, unit) comp"
  pv_versions :: "string list"
  pv_send :: "proof_report \<Rightarrow> proof_record \<Rightarrow> string \<Rightarrow> ('s, err, unit) comp"
  pv_updateState :: "proof_record \<Rightarrow> string \<Rightarrow> ('s, err, unit) comp"



section \<open>Ending an exchange\<close>



section \<open>The decision\<close>












section \<open>The middleware\<close>




section \<open>What an acknowledged presentation rests on\<close>



text \<open>The calls, the acknowledgement apart, leave \<open>v\<close> alone and the caches in order.\<close>

definition proof_calls :: "'s proof_env \<Rightarrow> ('s \<Rightarrow> 'v) \<Rightarrow> bool" where
  "proof_calls P v \<longleftrightarrow> trust_calls (pv_trust P) v \<and>
     (\<forall>th c. settled (pv_trust P) v (pv_getByThread P th c)) \<and> (\<forall>i. settled (pv_trust P) v (pv_presentation P i)) \<and>
     (\<forall>m r c. settled (pv_trust P) v (pv_send P m r c)) \<and> (\<forall>r x. settled (pv_trust P) v (pv_updateState P r x))"













section \<open>The properties\<close>









text \<open>A verifier whose calls answer at once, and a presentation that answers the one group it asked for.\<close>

record ex_disk =
  xd_links :: "(string \<times> credential_schema_link) list"
  xd_derivations :: "(string \<times> derived_schema) list"
  xd_accepted :: "string list"

definition ex_vtjsc :: json where
  "ex_vtjsc = JObj [(''issuer'', JStr ''did:eco''),
     (''credentialSubject'', JObj [(''jsonSchema'', JObj [(''$ref'', JStr ''vpr:verana:vna:cs:12'')])])]"

definition ex_trust :: "ex_disk trust_env" where
  "ex_trust =
     \<lparr> ct_did = Some ''did:us'', ct_chainId = Some ''vna'', ct_skipOwnAuthorization = False,
       ct_links = xd_links, ct_setLinks = (\<lambda>m x. x\<lparr>xd_links := m\<rparr>),
       ct_derivations = xd_derivations, ct_setDerivations = (\<lambda>m x. x\<lparr>xd_derivations := m\<rparr>),
       ct_fetchJson = (\<lambda>_. ret ex_vtjsc), ct_parse = (\<lambda>_ j. Inr j), ct_verify = (\<lambda>_ _. ret (True, None)),
       ct_schema = (\<lambda>i. ret (Some
         \<lparr> sd_id = i, sd_ecosystem_id = 4, sd_json_schema = [], sd_digest_algorithm = ''sha384'',
           sd_issuer_onboarding_mode = None, sd_verifier_onboarding_mode = None,
           sd_holder_validation_validity_period = None, sd_archived = None \<rparr>)),
       ct_ecosystem = (\<lambda>i. ret (Some \<lparr> ed_id = i, ed_did = Some ''did:eco'', ed_archived = None \<rparr>)),
       ct_participants = (\<lambda>_. ret [ex_entry\<lparr>pd_schema_id := 12, pd_did := Some ''did:issuer'', pd_role := ''ISSUER''\<rparr>]),
       ct_createdDefinitions = (\<lambda>_. ret []),
       ct_resolveDefinition = (\<lambda>_. ret (Inr (\<lparr> ad_schemaId = ''schema'', ad_issuerId = ''did:issuer'' \<rparr>,
         JObj [(''relatedJsonSchemaCredentialId'', JStr ''https://eco/jsc'')]))),
       ct_createdSchemas = (\<lambda>_. ret []), ct_resolveSchema = (\<lambda>_. ret (Inl ''none'')) \<rparr>"

definition ex_presented :: anoncreds_proof where
  "ex_presented =
     \<lparr> ap_identifiers = [Some ''creddef''], ap_revealed_attrs = [], ap_revealed_attr_groups = [(''badge'', Some 0)],
       ap_unrevealed_attrs = [], ap_predicates = [] \<rparr>"

definition ex_proof_exchange :: proof_record where
  "ex_proof_exchange =
     \<lparr> pr_id = ''proof'', pr_threadId = ''thread'', pr_parentThreadId = None, pr_role = ''verifier'',
       pr_state = ''presentation-received'', pr_protocolVersion = ''v2'', pr_isVerified = Some True,
       pr_errorMessage = None, pr_requestedSchemas = RequestedSchemas [(''badge'',
         \<lparr> rs_credentialSchemaId = 12, rs_ecosystemDid = ''did:eco'', rs_jsonSchemaCredentialId = ''https://eco/jsc'' \<rparr>)],
       pr_autoAccept = Some True \<rparr>"

definition ex_proofs :: "ex_disk proof_env" where
  "ex_proofs =
     \<lparr> pv_trust = ex_trust, pv_presentationType = ''presentation'', pv_verifierRole = ''verifier'',
       pv_presentationReceived = ''presentation-received'', pv_abandoned = ''abandoned'',
       pv_getByThread = (\<lambda>_ _. ret ex_proof_exchange), pv_presentation = (\<lambda>_. ret (Some ex_presented)),
       pv_acceptPresentation = (\<lambda>i. modify (\<lambda>x. x\<lparr>xd_accepted := xd_accepted x @ [i]\<rparr>)), pv_versions = [''v2''],
       pv_send = (\<lambda>_ _ _. ret ()), pv_updateState = (\<lambda>_ _. ret ()) \<rparr>"


lemma settled_ret: "settled T v (ret x)"
  by (simp add: settled_def keeps_ret)


text \<open>The same presentation, of an issuer the indexer does not list.\<close>

definition ex_unlisted :: "ex_disk proof_env" where
  "ex_unlisted = ex_proofs\<lparr>pv_trust := ex_trust\<lparr>ct_participants := \<lambda>_. ret []\<rparr>\<rparr>"


lemma ex_unlisted_calls: "proof_calls ex_unlisted xd_accepted"
  by (simp add: proof_calls_def trust_calls_def cache_laws_def ex_unlisted_def ex_proofs_def ex_trust_def settled_ret)






text \<open>
  C15. The check of a list of issuers never throws and tells its cases apart: a DID is reported as unaccredited
  only when the indexer listed no active entry of it in the role on the schema, as unchecked only when that
  read failed, and a DID in neither list has such an entry. No DID is in both lists or in one of them twice.
\<close>

theorem unaccredited_dids_are_told_apart:
  "post (findUnaccreditedDids T dids prole i) (\<lambda>r _. checked T prole i dids r) (\<lambda>_ _. False) s"
  unfolding findUnaccreditedDids_def
  by (rule post_mono [OF post_check_dids [OF distinct_first_occurrences]])
    (simp_all add: checked_def set_first_occurrences split: prod.splits)

end
