(* ===== verification/Spec2Isabelle.thy ===== *)
theory Spec2Isabelle
  imports FlowSessionProps IndexerProps ChainProps AgentProps OrchestratorProps Pagination AgentStore PresentationTrust
begin

text \<open>
  Verification library of the vs-agent repository (a Verifiable Service agent in TypeScript).

  The program. An agent is a Credo DIDComm agent to which the packages under \<open>src/packages\<close> add three
  things. The vt-flow protocol (\<open>vt-flow\<close>): an applicant and a validator run an onboarding process or a
  direct issuance and exchange a credential. The chain side (\<open>agent-sdk/src/blockchain\<close>): a service
  follows the events of a Verana indexer over a WebSocket with a REST catch-up, keeps a copy of the
  chain's entities and runs a handler for each event; an orchestrator implements the hooks of the
  vt-flow protocol with transactions and indexer reads. The published identity (\<open>agent-sdk/src/utils\<close>,
  \<open>did\<close>): the agent's DID record, with the trust credentials it announces and serves, and the decision
  whether the issuers of a presentation are accredited on the chain. The applications under
  \<open>src/apps\<close> wire these together and serve them over HTTP.

  Model. An \<open>async\<close> method is a computation \<open>'s \<Rightarrow> (err + 'a) \<times> 's\<close> (VtPrelude): it returns or throws,
  and in both cases leaves a state behind. The world of an agent is its store of flow records, the
  events emitted, the messages sent and the extension of AgentEnv (caches, pending work, signed
  transactions, an opaque rest). Code outside \<open>src\<close> (Credo, the network, cosmjs, the clock, the uuid
  generator, digests) is a record of functions, an argument of every definition. A storage call is
  atomic. A hook or a network call is an arbitrary computation on the whole world, so it also stands
  for the operations that run while the code awaits it.

  Theories, in dependency order.
    \<^item> VtPrelude: computations, \<open>post\<close> (weakest precondition, total), \<open>keeps\<close>, JavaScript truthiness,
      ISO dates, the contract \<open>command_machine\<close>. JsValues, JsText: \<open>String\<close>, \<open>Number\<close>, stable sort, \<open>Map\<close>,
      \<open>JSON.parse\<close>, \<open>Date.parse\<close>, the loop with a deadline (\<open>poll\<close>) and its contract \<open>deadline_loop\<close>.
    \<^item> vt-flow (\<open>packages/vt-flow/src\<close>). FlowTypes: \<open>types.ts\<close>, \<open>VtFlowRecord.ts\<close>. FlowMessages:
      \<open>errors/\<close>, \<open>messages/\<close>. FlowEnv: \<open>VtFlowRepository.ts\<close>, \<open>VtFlowModuleConfig.ts\<close>, the environment and
      its in-memory instance. FlowService, FlowInbound, FlowActions: \<open>VtFlowService.ts\<close> and the handlers.
      FlowApi: \<open>VtFlowApi.ts\<close>. FlowModule: the listeners of \<open>VtFlowModule.ts\<close>.
    \<^item> FlowSpec, FlowRefine, FlowInvariants, FlowMachine: an abstract system of flows and events (the
      flow contract), the proof that every operation refines it, its invariants, and the machine of all
      commands (an instance of \<open>command_machine\<close>). FlowProps, FlowOpProps, FlowSessionProps: the
      properties.
    \<^item> Indexer client (\<open>packages/agent-sdk/src/blockchain\<close>). IndexerSync: \<open>indexerSync.ts\<close> (event keys,
      order, cursor). ChainState: \<open>types.ts\<close>, \<open>indexerMappers.ts\<close>, the mutations of the entity copy in
      \<open>handlers/stateMutations.ts\<close>. HandlerRegistry: \<open>IndexerHandlerRegistry.ts\<close>,
      \<open>authorizationHandlers.ts\<close>. IndexerSocket: \<open>IndexerWebSocketService.ts\<close>. IndexerMachine,
      IndexerExact: its invariants over every order of timers, socket events and calls, and the
      exactness of the catch-up. IndexerProps, ChainProps: the properties.
    \<^item> Chain client and checks. FeePreflight: \<open>feePreflight.ts\<close>, the allowances of \<open>VeranaChainService.ts\<close>.
      Authorization: the delegation pages of \<open>VeranaIndexerService.ts\<close>, \<open>AuthorizationService.ts\<close>.
      EcsSchemas: \<open>model/src/utils/ecs.ts\<close>, \<open>utils/vcdm2.ts\<close>. AgentEnv: the agent's state, the calls it
      makes, and the helpers of \<open>utils/\<close> around them.
    \<^item> The orchestrator. Orchestrator, ValidationTx, CredentialCheck: \<open>vtFlow/VtFlowOrchestrator.ts\<close>
      (onboarding, validation and its transaction, anchoring and verification of credentials) and
      \<open>ecsIssuanceExemption.ts\<close>. EcsClaims: \<open>ecsClaims.ts\<close>, \<open>didReadiness.ts\<close>. ChainReactions: what the
      agent does on a chain event (\<open>stateMutations.ts\<close>, \<open>defaultHandlers.ts\<close>, \<open>selfIssuanceHandlers.ts\<close>).
      AgentWiring: the hooks and handlers that \<open>setupAgent.ts\<close> installs.
    \<^item> OrchestratorRefine, AgentMachine, AgentExamples, Lookups: every orchestrator method and every
      reaction refines the flow contract, so the deployed agent is a \<open>command_machine\<close> as well; its
      in-memory instance; the lookups end. AgentProps, ValidationProps, OrchestratorProps: the properties.
    \<^item> Admin API. Cursors, Pagination: \<open>adminApi/pagination\<close>, with its properties.
    \<^item> Published trust credentials. PublishedDid: \<open>publishedDidRecord.ts\<close>, \<open>did/adminApiService.ts\<close>, the
      coalescing of \<open>triggerResolver.ts\<close>. TrustStore, SelfIssued, VtjscPublish:
      \<open>trustCredentialStore.ts\<close>, \<open>selfIssuedEcsCredential.ts\<close>, the parts of \<open>setupSelfTr.ts\<close> they use,
      \<open>typeMetadata.ts\<close>, and the startup pass of \<open>stateMutations.ts\<close>. TrustEffects, TrustMachine:
      \<open>rec_step\<close>, the abstract specification of a write of the DID record, and the proof that every
      operation only makes such writes. TrustProps, PublishProps: the properties.
    \<^item> TriggerResolver: the rest of \<open>triggerResolver.ts\<close>, and the store placed inside the agent. AgentStore:
      every operation of the store refines the flow contract, so the theorem on the runs of the deployed
      agent holds with the modelled store in it.
    \<^item> AnonCreds trust. CredentialTrust: \<open>AnonCredsTrustService.ts\<close> (which schema of the chain a credential
      type binds to, whether a DID holds a role on it) and what its answers rest on (\<open>bound_schema\<close>,
      \<open>vouched\<close>). PresentationTrust: the trust decision of \<open>events/BaseMessageEvents.ts\<close>, with its properties.

  Hypotheses. Each is satisfiable and met by the in-memory environment of a witness.
    \<^item> Storage. \<open>repo_laws\<close>: what Credo documents of its repository. \<open>storage_laws\<close>: a stored generic
      record of the indexer client reads back. \<open>did_storage_laws\<close>: a saved DID record reads back, and a
      failed save leaves the old one.
    \<^item> Awaited calls. \<open>hooks_ok\<close>, \<open>agent_ok\<close>, \<open>host_ok\<close>, \<open>did_calls_ok\<close>: a call, whatever it answers, moves
      flows and events only by steps of the flow contract. \<open>calls_ok\<close>: the same for the indexer client's
      invariant. \<open>quiet_env\<close>, \<open>calls_quiet\<close>, \<open>sends_quietly\<close>, \<open>chain_reads_quiet\<close>: for statements about one
      operation, the calls leave the component's own part of the world alone. \<open>store_ok\<close> is
      \<open>did_storage_laws\<close> with \<open>calls_quiet\<close>. \<open>only_agent_signs\<close>: a call into the chain client does not
      itself ask the agent for another signature. \<open>trust_calls\<close>, \<open>proof_calls\<close>: checks that run meanwhile cache
      only what they found, and Credo acknowledges a presentation only by the response it leaves.
    \<^item> Answers. \<open>api_serves\<close>: the indexer answers pages of its event list in order. \<open>timely\<close>: time never
      goes back, and a sleep takes at least as long as it was asked to. \<open>orders_names\<close>: \<open>localeCompare\<close> is a
      linear order.

  Bounds and fuel. \<open>MAX_SYNC_BUFFER\<close>, the page limits and the deadlines are the source's. The catch-up
  loop runs on fuel; more fuel than blocks between the stored height and the indexer's head is enough,
  since each page moves the cursor. A lookup ends by its deadline: with the source's deadlines and
  intervals and a clock that is \<open>timely\<close>, 21 rounds are enough for the lookup of a transaction or a
  participant (60 seconds at 3), and 31 for a delegation page or a digest (15 seconds at a half):
  \<open>lookups_end\<close>. Out of fuel a loop answers \<open>None\<close>, "not returned", never a result.

  Not modelled: logging; class-validator decorators, DTO classes and dependency registration; the HTTP
  and gRPC transports and the decoding of transactions; the AnonCreds registries; trust resolution by the
  verre library (\<open>assertVerifiableService.ts\<close>); the data of the published ECS schemas; page cursors whose
  bytes are not UTF-8; the OpenID4VC, chat and MRTD plugins; the Nest controllers and services, the
  browser front end, examples and charts.
\<close>

end
